(* ===== verification/Prelude.thy ===== *)
theory Prelude
  imports Main "HOL-Library.Word" "HOL-Library.Multiset" "HOL-Library.AList"
    "HOL-Library.Char_ord" "HOL-Library.List_Lexorder"
begin

text \<open>
  Shared vocabulary of the development: the Go values the components exchange
  (decoded JSON documents, maps, slices that may be nil, optional pointers), the
  decimal text of \<^verbatim>\<open>strconv\<close>, and the lemma collections the component proofs use.

  \<^item> A Go string is a byte sequence, here \<^typ>\<open>string\<close>.
  \<^item> A pointer that may be nil is an \<^typ>\<open>'a option\<close>.
  \<^item> A slice whose nil value is observable (it encodes as \<^verbatim>\<open>null\<close>, an empty slice as
    \<^verbatim>\<open>[]\<close>) is a \<open>'a slice\<close>.
  \<^item> A Go map whose length or JSON form matters is an association list with distinct
    keys (\<open>'v gomap\<close>); a map that is only looked up is a function
    \<open>string \<rightharpoonup> 'v\<close>, and a \<^verbatim>\<open>map[string]bool\<close>, whose missing keys read
    false, is a predicate.
  \<^item> A call that fails returns \<open>Inl\<close> of its error, so that every early return is a
    branch of the model.
\<close>

named_theorems go_defs "definitions unfolded when a component is evaluated or case split"
named_theorems inv_intros "preservation lemmas of the component invariants"

section \<open>Slices, maps and decoded documents\<close>

type_synonym 'a slice = "'a list option"
type_synonym 'v gomap = "(string \<times> 'v) list"

definition elems :: "'a slice \<Rightarrow> 'a list" where
  "elems s = (case s of None \<Rightarrow> [] | Some xs \<Rightarrow> xs)"

lemma elems_simps [simp]: "elems None = []" "elems (Some xs) = xs"
  by (simp_all add: elems_def)

text \<open>\<open>len(m)\<close>, and the equality of the JSON documents of two maps: the encoder sorts the
  keys, so only the lookups count.\<close>

definition mlen :: "'v gomap \<Rightarrow> nat" where
  "mlen m = length (remdups (map fst m))"

definition same_map :: "'v gomap \<Rightarrow> 'v gomap \<Rightarrow> bool" where
  "same_map m m' \<longleftrightarrow> list_all (\<lambda>k. map_of m k = map_of m' k) (map fst m @ map fst m')"

lemma same_map_iff: "same_map m m' \<longleftrightarrow> map_of m = map_of m'"
proof
  assume same: "same_map m m'"
  show "map_of m = map_of m'"
  proof
    fix k
    show "map_of m k = map_of m' k"
    proof (cases "k \<in> fst ` set m \<union> fst ` set m'")
      case True
      with same show ?thesis by (auto simp: same_map_def list_all_iff)
    next
      case False
      then have "map_of m k = None" "map_of m' k = None"
        by (auto simp: map_of_eq_None_iff)
      then show ?thesis by simp
    qed
  qed
next
  assume "map_of m = map_of m'"
  then show "same_map m m'" by (simp add: same_map_def list_all_iff)
qed

lemma same_map_refl [simp]: "same_map m m"
  by (simp add: same_map_iff)

lemma mlen_card: "mlen m = card (dom (map_of m))"
  by (simp add: mlen_def dom_map_of_conv_image_fst length_remdups_card_conv)

text \<open>A Go map with exactly the listed keys: the two checks \<open>len(m) == len(keys)\<close> and
  \<open>every key present\<close> together fix its key set.\<close>

lemma mlen_exact_keys:
  assumes "distinct ks" and "\<forall>k \<in> set ks. map_of m k \<noteq> None" and "mlen m = length ks"
  shows "dom (map_of m) = set ks"
proof (rule sym, rule card_subset_eq)
  show "finite (dom (map_of m))" by (simp add: finite_dom_map_of)
  show "set ks \<subseteq> dom (map_of m)" using assms(2) by auto
  show "card (set ks) = card (dom (map_of m))"
    using assms(1,3) by (simp add: mlen_card distinct_card)
qed

datatype any =
    GNil
  | GBool bool
  | GNum string
  | GStr string
  | GArr "any list"
  | GObj "(string \<times> any) list"

text \<open>The type assertion \<open>v.(string)\<close>.\<close>

fun as_string :: "any \<Rightarrow> string option" where
  "as_string (GStr s) = Some s"
| "as_string _ = None"

section \<open>Decimal text\<close>

definition is_digit :: "char \<Rightarrow> bool" where
  "is_digit c \<longleftrightarrow> CHR ''0'' \<le> c \<and> c \<le> CHR ''9''"

definition digit_val :: "char \<Rightarrow> nat" where
  "digit_val c = of_char c - 48"

definition digit_char :: "nat \<Rightarrow> char" where
  "digit_char d = char_of (48 + d)"

definition dec_val :: "string \<Rightarrow> nat" where
  "dec_val s = foldl (\<lambda>n c. n * 10 + digit_val c) 0 s"

text \<open>\<open>strconv.ParseUint(s, 10, bits)\<close>: decimal digits only, at least one, and in range.\<close>

definition ParseUint :: "nat \<Rightarrow> string \<Rightarrow> nat option" where
  "ParseUint bits s =
     (if s \<noteq> [] \<and> list_all is_digit s \<and> dec_val s < 2 ^ bits then Some (dec_val s) else None)"

text \<open>\<open>strconv.ParseInt(s, 10, bits)\<close>: an optional sign before the digits, and the signed range.\<close>

definition ParseInt :: "nat \<Rightarrow> string \<Rightarrow> int option" where
  "ParseInt bits s =
     (case s of
        [] \<Rightarrow> None
      | c # r \<Rightarrow>
          let neg = (c = CHR ''-'');
              body = (if c = CHR ''-'' \<or> c = CHR ''+'' then r else s)
          in if body = [] \<or> \<not> list_all is_digit body then None
             else let n = int (dec_val body)
                  in if neg then (if n \<le> 2 ^ (bits - 1) then Some (- n) else None)
                     else (if n < 2 ^ (bits - 1) then Some n else None))"

text \<open>\<open>strconv.FormatUint(n, 10)\<close> and \<open>strconv.FormatInt(n, 10)\<close>.\<close>

fun FormatUint :: "nat \<Rightarrow> string" where
  "FormatUint n = (if n < 10 then [digit_char n] else FormatUint (n div 10) @ [digit_char (n mod 10)])"

declare FormatUint.simps [simp del]

definition FormatInt :: "int \<Rightarrow> string" where
  "FormatInt n = (if n < 0 then CHR ''-'' # FormatUint (nat (- n)) else FormatUint (nat n))"

lemma of_char_digit_char [simp]: "d < 10 \<Longrightarrow> of_char (digit_char d) = 48 + d"
  by (simp add: digit_char_def)

lemma digit_char_props [simp]:
  assumes "d < 10"
  shows "is_digit (digit_char d)" and "digit_val (digit_char d) = d"
proof -
  have "of_char (CHR ''0'') = (48::nat)" "of_char (CHR ''9'') = (57::nat)" by simp_all
  then show "is_digit (digit_char d)"
    using assms by (simp add: is_digit_def less_eq_char_def)
  show "digit_val (digit_char d) = d"
    using assms by (simp add: digit_val_def)
qed

lemma digit_val_lt: "is_digit c \<Longrightarrow> digit_val c < 10"
  unfolding is_digit_def digit_val_def less_eq_char_def by (simp; linarith)

lemma digit_char_val: "is_digit c \<Longrightarrow> digit_char (digit_val c) = c"
  by (simp add: is_digit_def digit_val_def digit_char_def less_eq_char_def)

lemma digit_char_eq:
  "of_char c = 48 + d \<Longrightarrow> d < 10 \<Longrightarrow> digit_char d = c"
  by (metis digit_char_def char_of_char)

lemma digit_char_numeral:
  "digit_char 0 = CHR ''0''" "digit_char 1 = CHR ''1''" "digit_char 2 = CHR ''2''"
  "digit_char 3 = CHR ''3''" "digit_char 4 = CHR ''4''" "digit_char 5 = CHR ''5''"
  "digit_char 6 = CHR ''6''" "digit_char 7 = CHR ''7''" "digit_char 8 = CHR ''8''"
  "digit_char 9 = CHR ''9''"
  by (rule digit_char_eq; simp)+

lemma dec_val_snoc [simp]: "dec_val (s @ [c]) = dec_val s * 10 + digit_val c"
  by (simp add: dec_val_def)

lemma dec_val_Nil [simp]: "dec_val [] = 0"
  by (simp add: dec_val_def)

lemma FormatUint_props:
  "FormatUint n \<noteq> [] \<and> list_all is_digit (FormatUint n) \<and> dec_val (FormatUint n) = n"
proof (induction n rule: FormatUint.induct)
  case (1 n)
  show ?case
  proof (cases "n < 10")
    case True
    then show ?thesis
      using dec_val_snoc [of "[]" "digit_char n"] by (simp add: FormatUint.simps [of n])
  next
    case False
    with "1.IH" show ?thesis by (simp add: FormatUint.simps [of n])
  qed
qed

lemmas FormatUint_nonempty [simp] = FormatUint_props [THEN conjunct1]
lemmas FormatUint_digits [simp] = FormatUint_props [THEN conjunct2, THEN conjunct1]
lemmas dec_val_FormatUint [simp] = FormatUint_props [THEN conjunct2, THEN conjunct2]

lemma ParseUint_FormatUint [simp]: "n < 2 ^ bits \<Longrightarrow> ParseUint bits (FormatUint n) = Some n"
  by (simp add: ParseUint_def)

lemma FormatUint_inject: "FormatUint m = FormatUint n \<longleftrightarrow> m = n"
  by (metis dec_val_FormatUint)

lemma ParseUint_Some:
  "ParseUint bits s = Some n \<longleftrightarrow>
     s \<noteq> [] \<and> list_all is_digit s \<and> n = dec_val s \<and> n < 2 ^ bits"
  by (auto simp: ParseUint_def)

section \<open>Lists\<close>

text \<open>\<open>slices.Compact\<close> on a sorted slice and \<open>slices.Sort\<close>.\<close>

lemma length_remdups_adj_sorted:
  "sorted xs \<Longrightarrow> length (remdups_adj xs) = length xs \<longleftrightarrow> distinct xs"
proof (induction xs rule: induct_list012)
  case (3 x y zs)
  have le: "length (remdups_adj (y # zs)) \<le> length (y # zs)" for zs :: "'a list" and y
    by (rule remdups_adj_length)
  show ?case
  proof (cases "x = y")
    case True
    then show ?thesis using le [of y zs] by simp
  next
    case False
    with "3.prems" have "x \<notin> set (y # zs)" by auto
    with False "3.IH"(2) "3.prems" show ?thesis by simp
  qed
qed simp_all

lemma sort_sort [simp]: "sort (sort xs) = sort xs"
  by (simp add: sorted_sort_id)

lemma sort_eq_Nil [simp]: "sort xs = [] \<longleftrightarrow> xs = []"
  by (metis length_0_conv length_sort)

lemma sort_eq_iff_mset: "sort xs = sort ys \<longleftrightarrow> mset xs = mset ys"
  by (metis mset_sort properties_for_sort sorted_sort)

end
