(* ===== verification/Api_Types.thy ===== *)
theory Api_Types
  imports Prelude
begin

unbundle bit_operations_syntax

text \<open>
  The authority-neutral primitives of \<^verbatim>\<open>internal/apitypes/types.go\<close>, the identifier
  minting of \<^verbatim>\<open>internal/repository/types.go\<close> and the object binding of
  \<^verbatim>\<open>internal/candidate/types.go\<close>: problems, references, UUID recognition, request
  identifiers that carry their creation time, and the proof that every minted
  identifier is accepted by the recogniser that guards the API.
\<close>

section \<open>Problems and references\<close>

text \<open>\<open>apitypes.Fail(status, code)\<close> derives title, detail and type from the code alone, so a
  problem is its status and its code.\<close>

datatype problem = Fail (pb_status: nat) (pb_code: string)

type_synonym 'a res = "problem + 'a"

record Ref =
  ref_Kind :: string
  ref_ID :: string

record Binding =
  ManagementID_of :: string
  OVSUUID :: string
  Table :: string
  Generation_of :: string

definition no_binding :: Binding where
  "no_binding = \<lparr>ManagementID_of = '''', OVSUUID = '''', Table = '''', Generation_of = ''''\<rparr>"

section \<open>Hexadecimal text\<close>

definition hex_digits :: string where
  "hex_digits = ''0123456789abcdef''"

definition hex_char :: "nat \<Rightarrow> char" where
  "hex_char n = hex_digits ! n"

definition hex_val :: "char \<Rightarrow> nat option" where
  "hex_val c =
     (let n = of_char c in
      if 48 \<le> n \<and> n \<le> 57 then Some (n - 48)
      else if 97 \<le> n \<and> n \<le> 102 then Some (n - 87)
      else if 65 \<le> n \<and> n \<le> 70 then Some (n - 55)
      else None)"

fun EncodeToString :: "8 word list \<Rightarrow> string" where
  "EncodeToString [] = []"
| "EncodeToString (w # ws) =
     hex_char (unat (drop_bit 4 w)) # hex_char (unat (w AND 15)) # EncodeToString ws"

fun DecodeString :: "string \<Rightarrow> 8 word list option" where
  "DecodeString [] = Some []"
| "DecodeString [_] = None"
| "DecodeString (a # b # r) =
     (case (hex_val a, hex_val b, DecodeString r) of
        (Some x, Some y, Some ws) \<Rightarrow> Some (of_nat (16 * x + y) # ws)
      | _ \<Rightarrow> None)"

definition lower :: "char \<Rightarrow> char" where
  "lower c = (let n = of_char c in if 65 \<le> n \<and> n \<le> (90::nat) then char_of (n + 32) else c)"

definition no_dash :: "string \<Rightarrow> string" where
  "no_dash s = filter (\<lambda>c. c \<noteq> CHR ''-'') s"

text \<open>\<open>s[:8] + "-" + s[8:12] + "-" + s[12:16] + "-" + s[16:20] + "-" + s[20:]\<close>\<close>

definition dashed :: "string \<Rightarrow> string" where
  "dashed h = take 8 h @ ''-'' @ take 4 (drop 8 h) @ ''-'' @ take 4 (drop 12 h) @ ''-''
     @ take 4 (drop 16 h) @ ''-'' @ drop 20 h"

section \<open>Identifiers\<close>

definition UUID :: "string \<Rightarrow> bool" where
  "UUID s \<longleftrightarrow>
     length s = 36 \<and> s = map lower s \<and>
     s ! 8 = CHR ''-'' \<and> s ! 13 = CHR ''-'' \<and> s ! 18 = CHR ''-'' \<and> s ! 23 = CHR ''-'' \<and>
     (case DecodeString (no_dash s) of
        None \<Rightarrow> False
      | Some b \<Rightarrow> length b = 16 \<and> (b ! 8) AND 0xC0 = 0x80 \<and>
          1 \<le> unat (drop_bit 4 (b ! 6)) \<and> unat (drop_bit 4 (b ! 6)) \<le> 8)"

definition ManagementID :: "string \<Rightarrow> bool" where
  "ManagementID s \<longleftrightarrow> UUID s \<and> s ! 14 = CHR ''4''"

text \<open>\<open>RequestTime\<close>: the Unix milliseconds in the first 48 bits of a version 7 identifier.\<close>

definition RequestTime :: "string \<Rightarrow> int option" where
  "RequestTime s =
     (if \<not> UUID s \<or> s ! 14 \<noteq> CHR ''7'' then None
      else case DecodeString (no_dash s) of
             None \<Rightarrow> None
           | Some b \<Rightarrow> Some (foldl (\<lambda>n v. n * 256 + uint v) 0 (take 6 b)))"

text \<open>\<open>repository.NewID\<close> over the sixteen random bytes it draws.\<close>

definition NewID :: "8 word list \<Rightarrow> string" where
  "NewID b =
     dashed (EncodeToString
       (b[6 := (b ! 6) AND 15 OR 64, 8 := (b ! 8) AND 63 OR 128]))"

text \<open>\<open>apitypes.RequestID\<close>: the low 48 bits of the millisecond clock over random bytes.\<close>

definition time_bytes :: "int \<Rightarrow> 8 word list" where
  "time_bytes n = map (\<lambda>k. word_of_int (n div 256 ^ k)) [5, 4, 3, 2, 1, 0]"

definition RequestID :: "int \<Rightarrow> 8 word list \<Rightarrow> string" where
  "RequestID n b =
     dashed (EncodeToString
       ((time_bytes n @ drop 6 b)[6 := (b ! 6) AND 15 OR 0x70, 8 := (b ! 8) AND 63 OR 0x80]))"

section \<open>Hexadecimal round trip\<close>

lemma less16_cases: "n < 16 \<Longrightarrow> n \<in> set [0, 1, 2, 3, 4, 5, 6, 7, 8, 9, 10, 11, 12, 13, 14, 15::nat]"
  by simp arith

lemma hex_char_props:
  assumes "n < 16"
  shows "hex_val (hex_char n) = Some n" and "lower (hex_char n) = hex_char n"
    and "hex_char n \<noteq> CHR ''-''"
  using less16_cases [OF assms]
  by (auto simp add: hex_char_def hex_digits_def hex_val_def lower_def)

lemma nibble_high: "unat (drop_bit 4 (w :: 8 word)) < 16"
  using unsigned_less [where ?'a = nat, of w] by (simp add: drop_bit_eq_div unat_div)

lemma nibble_low: "unat (w AND 15 :: 8 word) < 16"
proof -
  have "w AND 15 \<le> (15 :: 8 word)" by (rule word_and_le1)
  then have "unat (w AND 15) \<le> unat (15 :: 8 word)" by (simp add: word_le_nat_alt)
  then show ?thesis by simp
qed

lemma nibbles_join: "of_nat (16 * unat (drop_bit 4 w) + unat (w AND 15)) = (w :: 8 word)"
proof -
  have "w AND 15 = take_bit 4 w"
    by (simp add: take_bit_eq_mask mask_eq_exp_minus_1)
  then have "unat (w AND 15) = unat w mod 16"
    by (simp add: take_bit_eq_mod unat_mod)
  moreover have "unat (drop_bit 4 w) = unat w div 16"
    by (simp add: drop_bit_eq_div unat_div)
  ultimately show ?thesis by simp
qed

lemma hex_char_byte [simp]:
  "hex_val (hex_char (unat (drop_bit 4 (w :: 8 word)))) = Some (unat (drop_bit 4 w))"
  "hex_val (hex_char (unat (w AND 15))) = Some (unat (w AND 15))"
  "lower (hex_char (unat (drop_bit 4 w))) = hex_char (unat (drop_bit 4 w))"
  "lower (hex_char (unat (w AND 15))) = hex_char (unat (w AND 15))"
  "hex_char (unat (drop_bit 4 w)) \<noteq> CHR ''-''" "hex_char (unat (w AND 15)) \<noteq> CHR ''-''"
  by (simp_all add: hex_char_props nibble_high nibble_low)

lemma DecodeString_EncodeToString [simp]: "DecodeString (EncodeToString ws) = Some ws"
  by (induction ws) (simp_all only: EncodeToString.simps DecodeString.simps hex_char_byte
      option.case prod.case nibbles_join)

lemma EncodeToString_append: "EncodeToString (xs @ ys) = EncodeToString xs @ EncodeToString ys"
  by (induction xs) simp_all

lemma length_EncodeToString [simp]: "length (EncodeToString ws) = 2 * length ws"
  by (induction ws) simp_all

lemma EncodeToString_lower [simp]: "map lower (EncodeToString ws) = EncodeToString ws"
  by (induction ws) simp_all

lemma EncodeToString_no_dash: "CHR ''-'' \<notin> set (EncodeToString ws)"
  by (induction ws) (simp_all add: hex_char_byte(5,6) [symmetric])

lemma nth_EncodeToString_even:
  "i < length ws \<Longrightarrow> EncodeToString ws ! (2 * i) = hex_char (unat (drop_bit 4 (ws ! i)))"
proof (induction ws arbitrary: i)
  case (Cons w ws)
  then show ?case by (cases i) simp_all
qed simp

section \<open>Dashed identifiers\<close>

lemma no_dash_dashed: "CHR ''-'' \<notin> set h \<Longrightarrow> no_dash (dashed h) = h"
proof -
  assume nd: "CHR ''-'' \<notin> set h"
  have keep: "filter (\<lambda>c. c \<noteq> CHR ''-'') xs = xs" if "set xs \<subseteq> set h" for xs
    using nd that by (intro filter_True) auto
  have sub: "set (take n (drop k h)) \<subseteq> set h" "set (take n h) \<subseteq> set h" "set (drop k h) \<subseteq> set h"
    for n k by (meson order_trans set_take_subset set_drop_subset)+
  have "no_dash (dashed h) = take 8 h @ take 4 (drop 8 h) @ take 4 (drop 12 h)
      @ take 4 (drop 16 h) @ drop 20 h"
    by (simp add: no_dash_def dashed_def keep sub)
  also have "\<dots> = h"
    using append_take_drop_id [of 4 "drop 16 h"] append_take_drop_id [of 4 "drop 12 h"]
      append_take_drop_id [of 4 "drop 8 h"] append_take_drop_id [of 8 h] by simp
  finally show ?thesis .
qed

lemma lower_dash [simp]: "lower (CHR ''-'') = CHR ''-''"
  by (simp add: lower_def)

lemma dashed_shape:
  assumes "length h = 32"
  shows "length (dashed h) = 36" and "dashed h ! 8 = CHR ''-''" and "dashed h ! 13 = CHR ''-''"
    and "dashed h ! 18 = CHR ''-''" and "dashed h ! 23 = CHR ''-''" and "dashed h ! 14 = h ! 12"
    and "map lower (dashed h) = dashed (map lower h)"
  using assms by (simp_all add: dashed_def nth_append take_map drop_map)

text \<open>What the recogniser asks of an encoded identifier, on the bytes it was made from.\<close>

lemma UUID_dashed_iff:
  assumes "length b = 16"
  shows "UUID (dashed (EncodeToString b)) \<longleftrightarrow>
     (b ! 8) AND 0xC0 = 0x80 \<and> 1 \<le> unat (drop_bit 4 (b ! 6)) \<and> unat (drop_bit 4 (b ! 6)) \<le> 8"
proof -
  have "CHR ''-'' \<notin> set (EncodeToString b)"
    by (rule EncodeToString_no_dash)
  then have "no_dash (dashed (EncodeToString b)) = EncodeToString b"
    by (rule no_dash_dashed)
  with assms show ?thesis
    by (simp add: UUID_def dashed_shape)
qed

lemma dashed_version:
  assumes "length b = 16"
  shows "dashed (EncodeToString b) ! 14 = hex_char (unat (drop_bit 4 (b ! 6)))"
  using assms dashed_shape(6) [of "EncodeToString b"] nth_EncodeToString_even [of 6 b] by simp

lemma version_bits:
  "drop_bit 4 ((w :: 8 word) AND 15 OR 64) = 4" "drop_bit 4 ((w :: 8 word) AND 15 OR 0x70) = 7"
  by (rule bit_word_eqI; auto simp: bit_simps numeral_eq_Suc less_Suc_eq)+

lemma variant_bits: "((w :: 8 word) AND 63 OR 128) AND 0xC0 = 0x80"
  by (rule bit_word_eqI) (auto simp: bit_simps numeral_eq_Suc less_Suc_eq)

section \<open>Minted identifiers are accepted\<close>

text \<open>Every identifier minted by \<open>repository.NewID\<close> passes \<open>apitypes.ManagementID\<close>,
  whatever sixteen bytes the random source returns: a freshly minted object, revision or
  transaction identifier is never rejected by the checks that guard staged intents, sealed
  envelopes and receipts.\<close>

theorem NewID_ManagementID:
  assumes "length b = 16"
  shows "ManagementID (NewID b)"
proof -
  let ?b = "b[6 := (b ! 6) AND 15 OR 64, 8 := (b ! 8) AND 63 OR 128]"
  have len: "length ?b = 16" using assms by simp
  have six: "?b ! 6 = (b ! 6) AND 15 OR 64" and eight: "?b ! 8 = (b ! 8) AND 63 OR 128"
    using assms by simp_all
  have "UUID (dashed (EncodeToString ?b))"
    unfolding UUID_dashed_iff [OF len] six eight version_bits variant_bits by simp
  moreover have "dashed (EncodeToString ?b) ! 14 = CHR ''4''"
    unfolding dashed_version [OF len] six version_bits by (simp add: hex_char_def hex_digits_def)
  ultimately show ?thesis by (simp add: ManagementID_def NewID_def)
qed

theorem NewID_ManagementID_witness:
  "length (replicate 16 (255 :: 8 word)) = 16 \<and> ManagementID (NewID (replicate 16 255))"
  using NewID_ManagementID [of "replicate 16 255"] by simp

lemma radix_join:
  fixes q0 :: int
  assumes "q0 = 256 * q1 + r0" "q1 = 256 * q2 + r1" "q2 = 256 * q3 + r2"
    "q3 = 256 * q4 + r3" "q4 = 256 * q5 + r4" "q5 = 256 * q6 + r5"
  shows "((((r5 * 256 + r4) * 256 + r3) * 256 + r2) * 256 + r1) * 256 + r0 = q0 - 281474976710656 * q6"
  using assms by simp

lemma time_bytes_fold: "foldl (\<lambda>n v. n * 256 + uint v) 0 (time_bytes n) = n mod 2 ^ 48"
proof -
  define q where "q k = n div 256 ^ k" for k :: nat
  have split: "q k = 256 * q j + q k mod 256" if "j = Suc k" for j k
  proof -
    have "q j = q k div 256"
      by (simp add: that q_def zdiv_zmult2_eq [symmetric] mult.commute)
    then show ?thesis by simp
  qed
  have s: "q 0 = 256 * q 1 + q 0 mod 256" "q 1 = 256 * q 2 + q 1 mod 256"
    "q 2 = 256 * q 3 + q 2 mod 256" "q 3 = 256 * q 4 + q 3 mod 256"
    "q 4 = 256 * q 5 + q 4 mod 256" "q 5 = 256 * q 6 + q 5 mod 256"
    by (rule split; simp)+
  have "n mod 2 ^ 48 = n - 281474976710656 * q 6"
    using minus_mult_div_eq_mod [of n "2 ^ 48"] by (simp add: q_def)
  moreover have "q 0 = n" by (simp add: q_def)
  moreover have "foldl (\<lambda>n v. n * 256 + uint v) 0 (time_bytes n) =
      (((((q 5 mod 256) * 256 + q 4 mod 256) * 256 + q 3 mod 256) * 256 + q 2 mod 256) * 256
        + q 1 mod 256) * 256 + q 0 mod 256"
    by (simp add: time_bytes_def uint_word_of_int take_bit_eq_mod q_def)
  ultimately show ?thesis using radix_join [OF s] by (simp only:)
qed

text \<open>A request identifier carries its creation time: \<open>apitypes.RequestTime\<close> reads back
  from \<open>apitypes.RequestID(now)\<close> exactly the low 48 bits of the Unix millisecond clock, for
  every clock value and all random bytes (the age checks of request keys rest on it).\<close>

theorem RequestTime_RequestID:
  assumes "length b = 16"
  shows "RequestTime (RequestID n b) = Some (n mod 2 ^ 48)"
proof -
  let ?b = "(time_bytes n @ drop 6 b)[6 := (b ! 6) AND 15 OR 0x70, 8 := (b ! 8) AND 63 OR 0x80]"
  have t: "length (time_bytes n) = 6" by (simp add: time_bytes_def)
  have len: "length ?b = 16" using assms t by simp
  have six: "?b ! 6 = (b ! 6) AND 15 OR 0x70" and eight: "?b ! 8 = (b ! 8) AND 63 OR 0x80"
    using assms t by simp_all
  have uuid: "UUID (dashed (EncodeToString ?b))"
    unfolding UUID_dashed_iff [OF len] six eight version_bits variant_bits by simp
  have version: "dashed (EncodeToString ?b) ! 14 = CHR ''7''"
    unfolding dashed_version [OF len] six version_bits by (simp add: hex_char_def hex_digits_def)
  have bytes: "DecodeString (no_dash (dashed (EncodeToString ?b))) = Some ?b"
    by (simp only: no_dash_dashed [OF EncodeToString_no_dash] DecodeString_EncodeToString)
  have "take 6 ?b = time_bytes n" using t by simp
  with uuid version bytes show ?thesis
    by (simp only: RequestTime_def RequestID_def time_bytes_fold option.case if_False simp_thms)
qed

theorem RequestTime_RequestID_witness:
  "length (replicate 16 (7 :: 8 word)) = 16 \<and>
   RequestTime (RequestID 1790000000000 (replicate 16 7)) = Some (1790000000000 mod 2 ^ 48)"
  using RequestTime_RequestID [of "replicate 16 7" 1790000000000] by simp

end
