(* ===== verification/Multicast.thy ===== *)
theory Multicast
  imports Prelude
begin

text \<open>
  The closed native Bridge snooping configuration of \<^verbatim>\<open>internal/multicast/config.go\<close>:
  \<open>Validate\<close> with its three parameter keys and their qualified ranges, and \<open>Merge\<close>, which
  applies a request to a captured original. An entry of the parameter map is \<open>None\<close> when the
  native key is unset. \<open>Clone\<close> copies pointers and is the identity on these values.
\<close>

record MulticastConfiguration =
  mc_Enabled :: bool
  mc_Parameters :: "string option gomap"

record MulticastRequest =
  mr_Enabled :: bool
  mr_Parameters :: "string option gomap"

definition Keys :: "string list" where
  "Keys = [''mcast-snooping-aging-time'', ''mcast-snooping-table-size'',
     ''mcast-snooping-disable-flood-unregistered'']"

definition mcast_value_error :: "string \<Rightarrow> string \<Rightarrow> string option" where
  "mcast_value_error key v =
     (if key = ''mcast-snooping-disable-flood-unregistered''
      then (if v \<noteq> ''true'' \<and> v \<noteq> ''false'' then Some ''MULTICAST_BOOLEAN_INVALID'' else None)
      else (case ParseInt 32 v of
              None \<Rightarrow> Some ''MULTICAST_INTEGER_INVALID''
            | Some n \<Rightarrow>
                if FormatInt n \<noteq> v then Some ''MULTICAST_INTEGER_INVALID''
                else let (lo, hi) = (if key = ''mcast-snooping-table-size'' then (10, 1000000) else (15, 3600))
                     in if n < lo \<or> n > hi then Some ''MULTICAST_INTEGER_OUT_OF_RANGE'' else None))"

text \<open>The loop of \<open>Validate\<close> over \<open>Keys\<close>, stopping at the first error.\<close>

fun mcast_check_keys :: "string option gomap \<Rightarrow> string list \<Rightarrow> string option" where
  "mcast_check_keys m [] = None"
| "mcast_check_keys m (key # ks) =
     (case map_of m key of
        None \<Rightarrow> Some ''MULTICAST_CONFIGURATION_INVALID''
      | Some None \<Rightarrow> mcast_check_keys m ks
      | Some (Some v) \<Rightarrow>
          (case mcast_value_error key v of
             Some e \<Rightarrow> Some e
           | None \<Rightarrow> mcast_check_keys m ks))"

text \<open>\<open>multicast.Validate\<close>: \<open>None\<close> is the nil error.\<close>

definition Validate_mcast :: "MulticastConfiguration \<Rightarrow> string option" where
  "Validate_mcast c =
     (if mlen (mc_Parameters c) \<noteq> length Keys then Some ''MULTICAST_CONFIGURATION_INVALID''
      else mcast_check_keys (mc_Parameters c) Keys)"

fun merge_params :: "string option gomap \<Rightarrow> string option gomap \<Rightarrow> string + string option gomap" where
  "merge_params out [] = Inr out"
| "merge_params out ((key, v) # r) =
     (if map_of out key = None then Inl ''MULTICAST_PARAMETER_UNSUPPORTED''
      else merge_params (AList.update key v out) r)"

definition Merge :: "MulticastConfiguration \<Rightarrow> MulticastRequest \<Rightarrow> string + MulticastConfiguration" where
  "Merge original request =
     (case Validate_mcast original of
        Some e \<Rightarrow> Inl e
      | None \<Rightarrow>
          (case merge_params (mc_Parameters original) (mr_Parameters request) of
             Inl e \<Rightarrow> Inl e
           | Inr ps \<Rightarrow>
               let out = \<lparr>mc_Enabled = mr_Enabled request, mc_Parameters = ps\<rparr>
               in (case Validate_mcast out of Some e \<Rightarrow> Inl e | None \<Rightarrow> Inr out)))"

section \<open>Specification vocabulary\<close>

text \<open>A qualified value of a key: a boolean word, or the canonical decimal of a number in the
  operating range (nothing OVS would clamp).\<close>

definition mcast_range :: "string \<Rightarrow> nat set" where
  "mcast_range key = (if key = ''mcast-snooping-table-size'' then {10..1000000} else {15..3600})"

definition mcast_qualified :: "string \<Rightarrow> string \<Rightarrow> bool" where
  "mcast_qualified key v \<longleftrightarrow>
     (if key = ''mcast-snooping-disable-flood-unregistered'' then v = ''true'' \<or> v = ''false''
      else \<exists>n \<in> mcast_range key. v = FormatUint n)"

definition mcast_ok :: "MulticastConfiguration \<Rightarrow> bool" where
  "mcast_ok c \<longleftrightarrow> dom (map_of (mc_Parameters c)) = set Keys \<and>
     (\<forall>key v. map_of (mc_Parameters c) key = Some (Some v) \<longrightarrow> mcast_qualified key v)"

section \<open>Validation\<close>

lemma digit_not_sign:
  assumes "list_all is_digit s"
  shows "s \<noteq> CHR ''-'' # r" and "s \<noteq> CHR ''+'' # r"
  using assms by (auto simp: is_digit_def less_eq_char_def)

lemma ParseInt_FormatUint: "int n < 2 ^ (bits - 1) \<Longrightarrow> ParseInt bits (FormatUint n) = Some (int n)"
proof (cases "FormatUint n")
  case (Cons c r)
  assume "int n < 2 ^ (bits - 1)"
  moreover have "c \<noteq> CHR ''-''" "c \<noteq> CHR ''+''"
    using Cons digit_not_sign [OF FormatUint_digits, of n] by auto
  moreover have "list_all is_digit (c # r)" and "dec_val (c # r) = n"
    using Cons FormatUint_props [of n] by simp_all
  ultimately show ?thesis using Cons by (simp add: ParseInt_def Let_def)
qed simp

lemma ParseInt_FormatInt_canonical:
  assumes "ParseInt 32 v = Some n" and "FormatInt n = v" and "0 \<le> n"
  shows "v = FormatUint (nat n)"
  using assms by (auto simp: FormatInt_def)

lemma mcast_value_error_iff: "mcast_value_error key v = None \<longleftrightarrow> mcast_qualified key v"
proof (cases "key = ''mcast-snooping-disable-flood-unregistered''")
  case True
  then show ?thesis by (auto simp: mcast_value_error_def mcast_qualified_def)
next
  case False
  let ?lo = "if key = ''mcast-snooping-table-size'' then 10 else 15 :: nat"
  let ?hi = "if key = ''mcast-snooping-table-size'' then 1000000 else 3600 :: nat"
  have range: "mcast_range key = {?lo..?hi}" by (simp add: mcast_range_def)
  have err: "mcast_value_error key v = None \<longleftrightarrow>
      (\<exists>n. ParseInt 32 v = Some n \<and> FormatInt n = v \<and> int ?lo \<le> n \<and> n \<le> int ?hi)"
    using False by (auto simp: mcast_value_error_def Let_def split: option.splits)
  show ?thesis
  proof
    assume "mcast_value_error key v = None"
    then obtain n where n: "ParseInt 32 v = Some n" "FormatInt n = v" "int ?lo \<le> n" "n \<le> int ?hi"
      unfolding err by blast
    then have "v = FormatUint (nat n)"
      by (intro ParseInt_FormatInt_canonical) (auto split: if_splits)
    moreover have "nat n \<in> {?lo..?hi}" using n(3,4) by (auto split: if_splits)
    ultimately show "mcast_qualified key v"
      using False unfolding mcast_qualified_def range by auto
  next
    assume "mcast_qualified key v"
    then obtain n where n: "n \<in> {?lo..?hi}" "v = FormatUint n"
      using False unfolding mcast_qualified_def range by auto
    then have "ParseInt 32 v = Some (int n)"
      by (auto intro!: ParseInt_FormatUint split: if_splits)
    moreover have "FormatInt (int n) = v" using n by (simp add: FormatInt_def)
    ultimately show "mcast_value_error key v = None"
      unfolding err using n(1) by auto
  qed
qed

lemma mcast_check_keys_iff:
  "mcast_check_keys m ks = None \<longleftrightarrow>
     (\<forall>k \<in> set ks. map_of m k \<noteq> None \<and> (\<forall>v. map_of m k = Some (Some v) \<longrightarrow> mcast_qualified k v))"
  unfolding mcast_value_error_iff [symmetric]
  by (induction m ks rule: mcast_check_keys.induct) (auto split: option.splits)

lemma distinct_Keys: "distinct Keys" and length_Keys: "length Keys = 3"
  by (simp_all add: Keys_def)

lemma Validate_mcast_iff: "Validate_mcast c = None \<longleftrightarrow> mcast_ok c"
proof -
  have "mlen (mc_Parameters c) = length Keys" if "dom (map_of (mc_Parameters c)) = set Keys"
    using that distinct_Keys by (simp add: mlen_card distinct_card)
  moreover have "dom (map_of (mc_Parameters c)) = set Keys"
    if "\<forall>k \<in> set Keys. map_of (mc_Parameters c) k \<noteq> None" "mlen (mc_Parameters c) = length Keys"
    using mlen_exact_keys [OF distinct_Keys that] .
  ultimately show ?thesis
    unfolding Validate_mcast_def mcast_ok_def by (auto simp: mcast_check_keys_iff)
qed

section \<open>Merging a request\<close>

lemma merge_params_lookup:
  assumes "merge_params out req = Inr ps" and "distinct (map fst req)"
  shows "map_of ps = map_of out ++ map_of req \<and> fst ` set req \<subseteq> dom (map_of out)"
  using assms
proof (induction out req arbitrary: rule: merge_params.induct)
  case (2 out key v r)
  from "2.prems" have some: "map_of out key \<noteq> None" and
    rec: "merge_params (AList.update key v out) r = Inr ps"
    by (auto split: if_splits)
  with "2.IH" "2.prems" have IH: "map_of ps = map_of (AList.update key v out) ++ map_of r"
    and sub: "fst ` set r \<subseteq> dom (map_of (AList.update key v out))" by auto
  have "key \<notin> dom (map_of r)" using "2.prems" by (simp add: dom_map_of_conv_image_fst)
  then have "map_of ps = map_of out ++ map_of ((key, v) # r)"
    using IH by (auto simp: update_conv' fun_eq_iff map_add_def split: option.splits)
  moreover have "fst ` set ((key, v) # r) \<subseteq> dom (map_of out)"
    using some sub by (auto simp: update_conv')
  ultimately show ?case by blast
qed simp

text \<open>\<open>multicast.Merge\<close> is an exact, closed edit: it succeeds only from a valid original, its
  result is valid, the enable flag is the requested one, every requested key takes the requested
  value (an explicit null unsets it) and every omitted key keeps the captured raw value.\<close>

theorem Merge_exact:
  assumes "Merge original request = Inr c" and "distinct (map fst (mr_Parameters request))"
  shows "mcast_ok original \<and> mcast_ok c \<and> mc_Enabled c = mr_Enabled request \<and>
    map_of (mc_Parameters c) = map_of (mc_Parameters original) ++ map_of (mr_Parameters request)"
proof -
  from assms(1) have v: "Validate_mcast original = None"
    by (auto simp: Merge_def split: option.splits)
  with assms(1) obtain ps where ps: "merge_params (mc_Parameters original) (mr_Parameters request) = Inr ps"
    and c: "c = \<lparr>mc_Enabled = mr_Enabled request, mc_Parameters = ps\<rparr>" "Validate_mcast c = None"
    by (auto simp: Merge_def Let_def split: sum.splits option.splits)
  show ?thesis
    using v c merge_params_lookup [OF ps assms(2)] by (auto simp: Validate_mcast_iff)
qed

definition mcast_example :: MulticastConfiguration where
  "mcast_example = \<lparr>mc_Enabled = False, mc_Parameters =
     [(''mcast-snooping-aging-time'', Some ''300''), (''mcast-snooping-table-size'', None),
      (''mcast-snooping-disable-flood-unregistered'', None)]\<rparr>"

definition mcast_request_example :: MulticastRequest where
  "mcast_request_example = \<lparr>mr_Enabled = True, mr_Parameters = [(''mcast-snooping-aging-time'', None)]\<rparr>"

theorem Merge_exact_witness:
  "\<exists>c. Merge mcast_example mcast_request_example = Inr c \<and> mcast_ok c \<and> mc_Enabled c"
proof -
  have "FormatUint 300 = ''300''"
    by (simp add: FormatUint.simps [of 300] FormatUint.simps [of 30] FormatUint.simps [of 3] digit_char_numeral)
  then have v: "mcast_value_error ''mcast-snooping-aging-time'' ''300'' = None"
    unfolding mcast_value_error_iff mcast_qualified_def mcast_range_def
    by simp (rule bexI [of _ 300]; simp)
  obtain c where c: "Merge mcast_example mcast_request_example = Inr c"
    by (simp add: Merge_def mcast_example_def mcast_request_example_def Validate_mcast_def mlen_def Keys_def v)
  moreover have "distinct (map fst (mr_Parameters mcast_request_example))"
    by (simp add: mcast_request_example_def)
  ultimately show ?thesis
    using Merge_exact [OF c] by (simp add: mcast_request_example_def)
qed

end
