(* ===== verification/Spanning_Tree.thy ===== *)
theory Spanning_Tree
  imports Api_Types
begin

text \<open>
  The native spanning-tree parameter rules of \<^verbatim>\<open>internal/spanningtree\<close>: the validator
  (\<^verbatim>\<open>parameters.go\<close>), the expected local parameters and protocol of a configuration and
  the setter-order analysis (\<^verbatim>\<open>execution.go\<close>), the same-protocol transition analysis
  (\<^verbatim>\<open>transition.go\<close>) and the Bridge name scope (\<^verbatim>\<open>runtime.go\<close>). The validator is
  characterised by a declarative well-formedness predicate, and the setter-order analysis
  is shown to admit only transitions that the documented native setter order installs
  exactly, in both directions.
\<close>

section \<open>Parameter validation (\<^verbatim>\<open>parameters.go\<close>)\<close>

record Check =
  chk_Code :: string
  chk_Fields :: "string list"

record Validation =
  v_Version :: string
  v_Scope :: string
  v_State :: string
  v_Checks :: "Check list"

definition Unavailable :: "string \<Rightarrow> Validation" where
  "Unavailable state = \<lparr>v_Version = ''bridge-basic-v1'', v_Scope = ''bridge-basic-parameters'',
     v_State = state, v_Checks = []\<rparr>"

definition add_check :: "string \<Rightarrow> string list \<Rightarrow> Validation \<Rightarrow> Validation" where
  "add_check c fs v = v\<lparr>v_Checks := v_Checks v @ [\<lparr>chk_Code = c, chk_Fields = fs\<rparr>],
     v_State := ''invalid''\<rparr>"

text \<open>The closure \<open>read\<close> of \<open>Validate\<close>: the value and its validity, and the validation with
  any check it added.\<close>

definition read_param ::
    "any gomap \<Rightarrow> string \<Rightarrow> int \<Rightarrow> int \<Rightarrow> int \<Rightarrow> Validation \<Rightarrow> (int \<times> bool) \<times> Validation" where
  "read_param other key fallback lo hi v =
     (case map_of other key of
        None \<Rightarrow> ((fallback, True), v)
      | Some raw \<Rightarrow>
          (case as_string raw of
             None \<Rightarrow> ((0, False), add_check ''SPANNING_TREE_INTEGER_REQUIRED'' [key] v)
           | Some text \<Rightarrow>
               if text = [] \<or> length text > 128 \<or> \<not> list_all is_digit text
               then ((0, False), add_check ''SPANNING_TREE_INTEGER_REQUIRED'' [key] v)
               else (case ParseUint 64 text of
                       None \<Rightarrow> ((0, False), add_check ''SPANNING_TREE_PARAMETER_RANGE'' [key] v)
                     | Some n \<Rightarrow>
                         if int n < lo \<or> int n > hi
                         then ((0, False), add_check ''SPANNING_TREE_PARAMETER_RANGE'' [key] v)
                         else ((int n, True), v))))"

text \<open>\<open>if cond { add(code, fields...) }\<close>\<close>

definition add_if :: "bool \<Rightarrow> string \<Rightarrow> string list \<Rightarrow> Validation \<Rightarrow> Validation" where
  "add_if cond c fs v = (if cond then add_check c fs v else v)"

text \<open>The unit caveat of an explicit STP hello time is a check that only lowers a valid state.\<close>

definition hello_caveat :: "bool \<Rightarrow> Validation \<Rightarrow> Validation" where
  "hello_caveat cond v =
     (if \<not> cond then v else
      let v' = v\<lparr>v_Checks := v_Checks v @
           [\<lparr>chk_Code = ''STP_HELLO_TIME_NATIVE_UNIT_CAVEAT'', chk_Fields = [''stp-hello-time'']\<rparr>]\<rparr>
      in if v_State v = ''valid'' then v'\<lparr>v_State := ''runtime-unverified''\<rparr> else v')"

definition Validate :: "bool option \<Rightarrow> bool option \<Rightarrow> any gomap option \<Rightarrow> Validation" where
  "Validate stp rstp other_map =
     (case (stp, rstp, other_map) of
        (Some s, Some r, Some other) \<Rightarrow>
          let v = Unavailable ''valid'';
              v = add_if (s \<and> r) ''STP_RSTP_MUTUALLY_EXCLUSIVE'' [''stp_enable'', ''rstp_enable''] v;
              (_, v) = read_param other ''stp-priority'' 32768 0 65535 v;
              ((hello, hOK), v) = read_param other ''stp-hello-time'' 2 1 10 v;
              ((age, aOK), v) = read_param other ''stp-max-age'' 20 6 40 v;
              ((delay, dOK), v) = read_param other ''stp-forward-delay'' 15 4 30 v;
              v = add_if (hOK \<and> aOK \<and> age < 2 * (hello + 1))
                    ''STP_MAX_AGE_HELLO_RELATION'' [''stp-max-age'', ''stp-hello-time''] v;
              v = add_if (aOK \<and> dOK \<and> age > 2 * (delay - 1))
                    ''STP_FORWARD_DELAY_MAX_AGE_RELATION'' [''stp-forward-delay'', ''stp-max-age''] v;
              v = hello_caveat (map_of other ''stp-hello-time'' \<noteq> None \<and> hOK \<and> hello \<noteq> 1) v;
              ((priority, pOK), v) = read_param other ''rstp-priority'' 32768 0 61440 v;
              v = add_if (pOK \<and> priority mod 4096 \<noteq> 0) ''RSTP_PRIORITY_MULTIPLE_4096'' [''rstp-priority''] v;
              ((age, aOK), v) = read_param other ''rstp-max-age'' 20 6 40 v;
              ((delay, dOK), v) = read_param other ''rstp-forward-delay'' 15 4 30 v
          in add_if (aOK \<and> dOK \<and> age > 2 * (delay - 1))
               ''RSTP_FORWARD_DELAY_MAX_AGE_RELATION'' [''rstp-forward-delay'', ''rstp-max-age''] v
      | _ \<Rightarrow> Unavailable ''unknown'')"

section \<open>Configurations and runtime observations (\<^verbatim>\<open>transition.go\<close>, \<^verbatim>\<open>runtime.go\<close>)\<close>

record Configuration =
  cfg_STP :: "bool option"
  cfg_RSTP :: "bool option"
  cfg_Other :: "any gomap option"

record Timers =
  HelloTime :: int
  MaxAge :: int
  ForwardDelay :: int

record LocalParameters =
  lp_Priority :: int
  lp_SystemID :: string
  lp_Timers :: Timers

record Runtime =
  rt_Protocol :: string
  rt_BridgeName :: string
  rt_Local :: LocalParameters
  rt_Operational :: "Timers option"

record Transition =
  tr_State :: string
  tr_Checks :: "string list"

definition name_char :: "char \<Rightarrow> bool" where
  "name_char c \<longleftrightarrow> (CHR ''a'' \<le> c \<and> c \<le> CHR ''z'') \<or> (CHR ''A'' \<le> c \<and> c \<le> CHR ''Z'') \<or> is_digit c"

definition RuntimeName :: "string \<Rightarrow> bool" where
  "RuntimeName name \<longleftrightarrow>
     (case name of
        [] \<Rightarrow> False
      | c # r \<Rightarrow> length name \<le> 15 \<and> name_char c \<and>
          list_all (\<lambda>d. name_char d \<or> d = CHR ''_'' \<or> d = CHR ''-'' \<or> d = CHR ''.'') r)"

text \<open>\<open>n, _ := strconv.Atoi(raw)\<close>: the value returned beside the ignored error is 0 for bad
  syntax and the nearest bound when out of range.\<close>

definition Atoi_value :: "string \<Rightarrow> int" where
  "Atoi_value s =
     (case ParseInt 64 s of
        Some n \<Rightarrow> n
      | None \<Rightarrow>
          (case s of
             [] \<Rightarrow> 0
           | c # r \<Rightarrow>
               let body = (if c = CHR ''-'' \<or> c = CHR ''+'' then r else s)
               in if body = [] \<or> \<not> list_all is_digit body then 0
                  else if c = CHR ''-'' then - (2 ^ 63) else 2 ^ 63 - 1))"

text \<open>The closure \<open>number\<close> of \<open>ExpectedLocal\<close> and \<open>AssessTransition\<close>; a read of a nil map finds
  nothing.\<close>

definition number :: "any gomap option \<Rightarrow> string \<Rightarrow> int \<Rightarrow> int" where
  "number other key fallback =
     (case Option.bind (map_of (elems other) key) as_string of
        Some raw \<Rightarrow> Atoi_value raw
      | None \<Rightarrow> fallback)"

definition Protocol :: "Configuration \<Rightarrow> string" where
  "Protocol c =
     (case (cfg_STP c, cfg_RSTP c) of
        (Some s, Some r) \<Rightarrow>
          if s \<and> r then ''unknown'' else if s then ''stp'' else if r then ''rstp'' else ''disabled''
      | _ \<Rightarrow> ''unknown'')"

definition local_values :: "string \<Rightarrow> Configuration \<Rightarrow> LocalParameters" where
  "local_values p c =
     \<lparr>lp_Priority = number (cfg_Other c) (p @ ''-priority'') 32768,
      lp_SystemID = '''',
      lp_Timers = \<lparr>HelloTime = (if p = ''stp'' then number (cfg_Other c) ''stp-hello-time'' 2 else 2),
        MaxAge = number (cfg_Other c) (p @ ''-max-age'') 20,
        ForwardDelay = number (cfg_Other c) (p @ ''-forward-delay'') 15\<rparr>\<rparr>"

definition ExpectedLocal :: "Configuration \<Rightarrow> LocalParameters" where
  "ExpectedLocal c = local_values (Protocol c) c"

definition cfg_valid :: "Configuration \<Rightarrow> bool" where
  "cfg_valid c \<longleftrightarrow> v_State (Validate (cfg_STP c) (cfg_RSTP c) (cfg_Other c)) = ''valid''"

text \<open>The closure \<open>protocol\<close> of \<open>AssessTransition\<close>, which reads the flags without the exclusion
  test (both images are validated before it runs).\<close>

definition raw_protocol :: "Configuration \<Rightarrow> string" where
  "raw_protocol c =
     (if cfg_STP c = Some True then ''stp'' else if cfg_RSTP c = Some True then ''rstp'' else ''disabled'')"

definition blocked :: "string \<Rightarrow> Transition" where
  "blocked c = \<lparr>tr_State = ''blocked'', tr_Checks = [c]\<rparr>"

definition compatible :: Transition where
  "compatible = \<lparr>tr_State = ''compatible'', tr_Checks = []\<rparr>"

definition AssessTransition :: "Configuration \<Rightarrow> Configuration \<Rightarrow> Runtime \<Rightarrow> Transition" where
  "AssessTransition before after installed =
     (if \<not> cfg_valid before \<or> \<not> cfg_valid after
      then blocked ''SPANNING_TREE_TRANSITION_PARAMETERS_UNPROVEN''
      else let p = raw_protocol before in
        if p = ''disabled'' \<or> raw_protocol after \<noteq> p \<or> rt_Protocol installed \<noteq> p
           \<or> \<not> RuntimeName (rt_BridgeName installed)
        then blocked ''SPANNING_TREE_PROTOCOL_TRANSITION_UNPROVEN''
        else let sys = lp_SystemID (rt_Local installed);
                 b = (local_values p before)\<lparr>lp_SystemID := sys\<rparr>;
                 a = local_values p after in
          if b \<noteq> rt_Local installed \<or> sys = ''''
          then blocked ''SPANNING_TREE_INSTALLED_ORIGINAL_MISMATCH''
          else let checks = (if p \<noteq> ''rstp'' then [] else
                 (if MaxAge (lp_Timers a) > 2 * (ForwardDelay (lp_Timers b) - 1)
                  then [''RSTP_FORWARD_TIMER_ORDER_UNPROVEN''] else []) @
                 (if MaxAge (lp_Timers b) > 2 * (ForwardDelay (lp_Timers a) - 1)
                  then [''RSTP_ROLLBACK_TIMER_ORDER_UNPROVEN''] else []))
               in \<lparr>tr_State = (if checks = [] then ''compatible'' else ''blocked''), tr_Checks = checks\<rparr>)"

section \<open>Setter order and execution (\<^verbatim>\<open>execution.go\<close>)\<close>

definition AssessSetterOrder :: "Configuration \<Rightarrow> Configuration \<Rightarrow> Transition" where
  "AssessSetterOrder before after =
     (if \<not> cfg_valid before \<or> \<not> cfg_valid after
      then blocked ''SPANNING_TREE_TRANSITION_PARAMETERS_UNPROVEN''
      else let b = Protocol before; a = Protocol after in
        if b = a
        then (if b = ''rstp''
              then let old = lp_Timers (ExpectedLocal before); new = lp_Timers (ExpectedLocal after) in
                if MaxAge new > 2 * (ForwardDelay old - 1)
                then blocked ''RSTP_FORWARD_TIMER_ORDER_UNPROVEN''
                else if MaxAge old > 2 * (ForwardDelay new - 1)
                then blocked ''RSTP_ROLLBACK_TIMER_ORDER_UNPROVEN''
                else compatible
              else compatible)
        else if list_ex (\<lambda>c. Protocol c = ''rstp'' \<and> MaxAge (lp_Timers (ExpectedLocal c)) > 28) [before, after]
        then blocked ''RSTP_INITIAL_TIMER_ORDER_UNPROVEN''
        else compatible)"

definition AssessExecutionTransition ::
    "Configuration \<Rightarrow> Configuration \<Rightarrow> Runtime \<Rightarrow> Transition" where
  "AssessExecutionTransition before after installed =
     (if \<not> cfg_valid before \<or> \<not> cfg_valid after
      then blocked ''SPANNING_TREE_TRANSITION_PARAMETERS_UNPROVEN''
      else let b = Protocol before; a = Protocol after in
        if b \<noteq> ''disabled'' \<and> tr_State (AssessTransition before before installed) \<noteq> ''compatible''
        then AssessTransition before before installed
        else if b = ''disabled'' \<and> (rt_Protocol installed \<noteq> ''disabled'' \<or> \<not> RuntimeName (rt_BridgeName installed))
        then blocked ''SPANNING_TREE_INSTALLED_ORIGINAL_MISMATCH''
        else if b = a \<and> b \<noteq> ''disabled''
        then AssessTransition before after installed
        else AssessSetterOrder before after)"

section \<open>Specification vocabulary\<close>

text \<open>The number a key stands for, when it is absent (the native default) or a bounded decimal.\<close>

definition param_value :: "any gomap \<Rightarrow> string \<Rightarrow> int \<Rightarrow> int \<Rightarrow> int \<Rightarrow> int option" where
  "param_value other key fallback lo hi =
     (case map_of other key of
        None \<Rightarrow> Some fallback
      | Some raw \<Rightarrow>
          (case as_string raw of
             None \<Rightarrow> None
           | Some t \<Rightarrow>
               if t \<noteq> [] \<and> length t \<le> 128 \<and> list_all is_digit t
                  \<and> lo \<le> int (dec_val t) \<and> int (dec_val t) \<le> hi
               then Some (int (dec_val t)) else None))"

text \<open>What a valid configuration promises: exclusive protocols, every parameter in its native
  range, the timer relations of both protocols, a priority the native table keeps exactly, and
  no explicit STP hello time other than the one the daemon installs unchanged.\<close>

definition well_configured :: "bool \<Rightarrow> bool \<Rightarrow> any gomap \<Rightarrow> bool" where
  "well_configured s r other \<longleftrightarrow>
     \<not> (s \<and> r) \<and>
     (case (param_value other ''stp-priority'' 32768 0 65535, param_value other ''stp-hello-time'' 2 1 10,
            param_value other ''stp-max-age'' 20 6 40, param_value other ''stp-forward-delay'' 15 4 30) of
        (Some _, Some hello, Some age, Some delay) \<Rightarrow>
          2 * (hello + 1) \<le> age \<and> age \<le> 2 * (delay - 1) \<and>
          (map_of other ''stp-hello-time'' = None \<or> hello = 1)
      | _ \<Rightarrow> False) \<and>
     (case (param_value other ''rstp-priority'' 32768 0 61440, param_value other ''rstp-max-age'' 20 6 40,
            param_value other ''rstp-forward-delay'' 15 4 30) of
        (Some priority, Some age, Some delay) \<Rightarrow> 4096 dvd priority \<and> age \<le> 2 * (delay - 1)
      | _ \<Rightarrow> False)"

definition read_next ::
    "any gomap \<Rightarrow> string \<Rightarrow> int \<Rightarrow> int \<Rightarrow> int \<Rightarrow> Validation \<Rightarrow> Validation" where
  "read_next other key d lo hi v = snd (read_param other key d lo hi v)"

text \<open>The two timers of a configuration in setter order, and the timers an engine holds when it
  receives them: those of the running RSTP engine, or 20 and 15 for a newly created one.\<close>

definition timers :: "Configuration \<Rightarrow> int \<times> int" where
  "timers c = (MaxAge (lp_Timers (ExpectedLocal c)), ForwardDelay (lp_Timers (ExpectedLocal c)))"

definition engine_start :: "Configuration \<Rightarrow> int \<times> int" where
  "engine_start c = (if Protocol c = ''rstp'' then timers c else (20, 15))"

text \<open>Concrete images for the witnesses.\<close>

definition rstp_config :: "string \<Rightarrow> Configuration" where
  "rstp_config age = \<lparr>cfg_STP = Some False, cfg_RSTP = Some True, cfg_Other = Some [(''rstp-max-age'', GStr age)]\<rparr>"

definition rstp_runtime :: Runtime where
  "rstp_runtime = \<lparr>rt_Protocol = ''rstp'', rt_BridgeName = ''br0'',
     rt_Local = \<lparr>lp_Priority = 32768, lp_SystemID = ''02:00:00:00:00:01'',
       lp_Timers = \<lparr>HelloTime = 2, MaxAge = 20, ForwardDelay = 15\<rparr>\<rparr>, rt_Operational = None\<rparr>"

section \<open>What the validator accepts\<close>

lemma read_param_Some:
  assumes "param_value other key d lo hi = Some n" and "hi < 2 ^ 64"
  shows "read_param other key d lo hi v = ((n, True), v)"
  using assms
  by (auto simp: param_value_def read_param_def ParseUint_def split: option.splits if_splits)

lemma read_param_None:
  assumes "param_value other key d lo hi = None"
  shows "\<exists>c. read_param other key d lo hi v = ((0, False), add_check c [key] v)"
  using assms
  by (auto simp: param_value_def read_param_def ParseUint_def split: option.splits if_splits)

lemma state_add_if: "v_State (add_if cond c fs v) = ''valid'' \<longleftrightarrow> \<not> cond \<and> v_State v = ''valid''"
  by (simp add: add_if_def add_check_def)

lemma state_hello_caveat:
  "v_State (hello_caveat cond v) = ''valid'' \<longleftrightarrow> \<not> cond \<and> v_State v = ''valid''"
  by (simp add: hello_caveat_def Let_def)

lemma read_param_eq:
  assumes "hi < 2 ^ 64"
  shows "read_param other key d lo hi v =
    ((case param_value other key d lo hi of Some n \<Rightarrow> (n, True) | None \<Rightarrow> (0, False)),
     read_next other key d lo hi v)"
  using read_param_Some [OF _ assms, of other key d lo _ v] read_param_None [of other key d lo hi v]
  by (cases "param_value other key d lo hi") (auto simp: read_next_def)

lemma state_read_next:
  assumes "hi < 2 ^ 64"
  shows "v_State (read_next other key d lo hi v) = ''valid'' \<longleftrightarrow>
    v_State v = ''valid'' \<and> param_value other key d lo hi \<noteq> None"
  using read_param_Some [OF _ assms, of other key d lo _ v] read_param_None [of other key d lo hi v]
  by (cases "param_value other key d lo hi") (auto simp: read_next_def add_check_def)

lemma Validate_valid_iff:
  "v_State (Validate (Some s) (Some r) (Some other)) = ''valid'' \<longleftrightarrow> well_configured s r other"
  unfolding Validate_def well_configured_def
  by (simp add: Let_def read_param_eq case_prod_unfold state_read_next state_add_if state_hello_caveat
      Unavailable_def) (auto simp: dvd_eq_mod_eq_0 not_less split: option.splits)

text \<open>A validation lists no check exactly while its state is \<open>valid\<close>.\<close>

definition listed :: "Validation \<Rightarrow> bool" where
  "listed v \<longleftrightarrow> (v_Checks v = [] \<longleftrightarrow> v_State v = ''valid'')"

lemma listed_start [simp]: "listed (Unavailable ''valid'')"
  by (simp add: listed_def Unavailable_def)

lemma listed_steps [simp]:
  "listed v \<Longrightarrow> listed (add_if cond c fs v)" "listed v \<Longrightarrow> listed (hello_caveat cond v)"
  "listed v \<Longrightarrow> hi < 2 ^ 64 \<Longrightarrow> listed (read_next other key d lo hi v)"
  using read_param_Some [of other key d lo hi _ v] read_param_None [of other key d lo hi v]
  by (auto simp: listed_def add_if_def add_check_def hello_caveat_def Let_def read_next_def
      dest: spec split: if_splits) (cases "param_value other key d lo hi"; auto simp: add_check_def)+

lemma Validate_checks_Nil:
  "v_Checks (Validate (Some s) (Some r) (Some other)) = [] \<longleftrightarrow>
   v_State (Validate (Some s) (Some r) (Some other)) = ''valid''"
proof -
  have "listed (Validate (Some s) (Some r) (Some other))"
    unfolding Validate_def
    by (simp add: Let_def read_param_eq case_prod_unfold)
  then show ?thesis by (simp add: listed_def)
qed

lemma cfg_valid_iff:
  "cfg_valid c \<longleftrightarrow> (\<exists>s r other. cfg_STP c = Some s \<and> cfg_RSTP c = Some r \<and> cfg_Other c = Some other \<and>
     well_configured s r other)"
proof -
  have unknown: "v_State (Validate a b d) = ''valid'' \<Longrightarrow> a \<noteq> None \<and> b \<noteq> None \<and> d \<noteq> None" for a b d
    by (auto simp: Validate_def Unavailable_def split: option.splits)
  show ?thesis
    using unknown [of "cfg_STP c" "cfg_RSTP c" "cfg_Other c"] by (auto simp: cfg_valid_def Validate_valid_iff)
qed

text \<open>\<open>spanningtree.Validate\<close> answers \<open>valid\<close> exactly for the configurations that are known
  (no nil flag or map) and well configured: both protocols' parameters are checked, inactive ones
  included, and nothing outside the native rules is accepted or silently normalised.\<close>

theorem Validate_accepts_exactly:
  "v_State (Validate stp rstp other_map) = ''valid'' \<longleftrightarrow>
   (\<exists>s r other. stp = Some s \<and> rstp = Some r \<and> other_map = Some other \<and> well_configured s r other)"
  using cfg_valid_iff [of "\<lparr>cfg_STP = stp, cfg_RSTP = rstp, cfg_Other = other_map\<rparr>"]
  by (simp add: cfg_valid_def)

section \<open>Effective numbers\<close>

lemma Atoi_digits:
  assumes "t \<noteq> []" and "list_all is_digit t" and "int (dec_val t) < 2 ^ 63"
  shows "Atoi_value t = int (dec_val t)"
proof -
  obtain c r where t: "t = c # r" using assms(1) by (cases t) auto
  with assms(2) have "c \<noteq> CHR ''-''" "c \<noteq> CHR ''+''"
    by (auto simp: is_digit_def less_eq_char_def)
  with assms t show ?thesis by (simp add: Atoi_value_def ParseInt_def)
qed

lemma number_param_value:
  assumes "param_value other key d lo hi = Some n" and "hi < 2 ^ 63"
  shows "number (Some other) key d = n"
  using assms
  by (auto simp: param_value_def number_def Atoi_digits split: option.splits if_splits)

lemma rstp_timers_ordered:
  assumes "cfg_valid c" and "Protocol c = ''rstp''"
  shows "MaxAge (lp_Timers (ExpectedLocal c)) \<le> 2 * (ForwardDelay (lp_Timers (ExpectedLocal c)) - 1)"
proof -
  obtain s r other where c: "cfg_Other c = Some other" and w: "well_configured s r other"
    using assms(1) by (auto simp: cfg_valid_iff)
  from w obtain age delay where
    pa: "param_value other ''rstp-max-age'' 20 6 40 = Some age" and
    pd: "param_value other ''rstp-forward-delay'' 15 4 30 = Some delay" and le: "age \<le> 2 * (delay - 1)"
    unfolding well_configured_def by (auto split: option.splits)
  have "number (Some other) ''rstp-max-age'' 20 = age" "number (Some other) ''rstp-forward-delay'' 15 = delay"
    by (rule number_param_value [OF pa], simp) (rule number_param_value [OF pd], simp)
  with le assms(2) c show ?thesis by (simp add: ExpectedLocal_def local_values_def)
qed

lemma raw_protocol_valid: "cfg_valid c \<Longrightarrow> raw_protocol c = Protocol c"
  by (auto simp: cfg_valid_iff well_configured_def raw_protocol_def Protocol_def)

lemma compatible_not_blocked [simp]: "blocked c \<noteq> compatible" "compatible \<noteq> blocked c"
  by (simp_all add: blocked_def compatible_def)

section \<open>Installable transitions\<close>

text \<open>A transition assessed \<open>compatible\<close> by \<open>AssessSetterOrder\<close> is installed exactly by the native
  setter order, and so is its compensation: when the RSTP max-age setter accepts a value that fits
  the current forward delay and the forward-delay setter one that fits the current max age (the
  behaviour the source documents for the daemon), writing max age then forward delay reaches the
  requested pair from the running engine or from a newly created one, in both directions.\<close>

theorem setter_order_installs:
  assumes max_age_setter: "\<And>a m d. a \<le> 2 * (d - 1) \<Longrightarrow> set_max_age a (m, d) = (a, d)"
    and forward_delay_setter: "\<And>f m d. m \<le> 2 * (f - 1) \<Longrightarrow> set_forward_delay f (m, d) = (m, f)"
    and assessed: "AssessSetterOrder before after = compatible"
  shows "(Protocol after = ''rstp'' \<longrightarrow>
      set_forward_delay (snd (timers after)) (set_max_age (fst (timers after)) (engine_start before)) = timers after) \<and>
    (Protocol before = ''rstp'' \<longrightarrow>
      set_forward_delay (snd (timers before)) (set_max_age (fst (timers before)) (engine_start after)) = timers before)"
proof -
  have valid: "cfg_valid before" "cfg_valid after"
    using assessed by (auto simp: AssessSetterOrder_def split: if_splits)
  have order: "Protocol a = ''rstp'' \<Longrightarrow> fst (timers a) \<le> 2 * (snd (engine_start b) - 1) \<Longrightarrow> cfg_valid a \<Longrightarrow>
      set_forward_delay (snd (timers a)) (set_max_age (fst (timers a)) (engine_start b)) = timers a" for a b
    using rstp_timers_ordered [of a]
    by (cases "engine_start b") (simp add: timers_def max_age_setter forward_delay_setter)
  show ?thesis
    using assessed valid
    by (intro conjI impI; intro order; auto simp: AssessSetterOrder_def Let_def timers_def engine_start_def split: if_splits)
qed

text \<open>\<open>AssessExecutionTransition\<close> never admits an execution from an unproven original: an admitted
  transition has installable setter order in both directions, the daemon runs the original
  protocol, and for an enabled protocol its installed local parameters are exactly those the
  original configuration stands for, under a known system identity.\<close>

theorem execution_transition_sound:
  assumes "AssessExecutionTransition before after installed = compatible"
  shows "AssessSetterOrder before after = compatible \<and> rt_Protocol installed = Protocol before \<and>
    (Protocol before \<noteq> ''disabled'' \<longrightarrow> lp_SystemID (rt_Local installed) \<noteq> '''' \<and>
       rt_Local installed = (ExpectedLocal before)\<lparr>lp_SystemID := lp_SystemID (rt_Local installed)\<rparr>)"
proof -
  have valid: "cfg_valid before" "cfg_valid after"
    using assms by (auto simp: AssessExecutionTransition_def split: if_splits)
  note raw = raw_protocol_valid [OF valid(1)] raw_protocol_valid [OF valid(2)]
  show ?thesis
  proof (cases "Protocol before = ''disabled''")
    case True
    with assms valid show ?thesis
      by (auto simp: AssessExecutionTransition_def Let_def split: if_splits)
  next
    case False
    have original: "tr_State (AssessTransition before before installed) = ''compatible''"
      using assms valid False
      by (auto simp: AssessExecutionTransition_def Let_def compatible_def split: if_splits)
    with False valid have facts: "rt_Protocol installed = Protocol before"
      "lp_SystemID (rt_Local installed) \<noteq> ''''"
      "rt_Local installed = (ExpectedLocal before)\<lparr>lp_SystemID := lp_SystemID (rt_Local installed)\<rparr>"
      by (auto simp: AssessTransition_def Let_def blocked_def raw ExpectedLocal_def split: if_splits)
    have timers: "lp_Timers (rt_Local installed) = lp_Timers (ExpectedLocal before)"
      using arg_cong [OF facts(3), of lp_Timers] by simp
    have "AssessSetterOrder before after = compatible"
    proof (cases "Protocol before = Protocol after")
      case same: True
      with assms valid False original have "AssessTransition before after installed = compatible"
        by (auto simp: AssessExecutionTransition_def Let_def split: if_splits)
      with same valid False timers show ?thesis
        by (auto simp: AssessTransition_def AssessSetterOrder_def Let_def blocked_def compatible_def raw
            ExpectedLocal_def split: if_splits)
    next
      case other: False
      with assms valid False original show ?thesis
        by (auto simp: AssessExecutionTransition_def Let_def split: if_splits)
    qed
    with facts show ?thesis by simp
  qed
qed

lemmas eval_tree =
  rstp_config_def cfg_valid_def Validate_valid_iff well_configured_def Let_def param_value_def is_digit_def less_eq_char_def
  dec_val_def digit_val_def Protocol_def raw_protocol_def ExpectedLocal_def local_values_def number_def
  Atoi_value_def ParseInt_def RuntimeName_def name_char_def

theorem setter_order_installs_witness:
  "let set_max_age = (\<lambda>a (m, d). if a \<le> 2 * (d - 1) then (a, d) else (m, d :: int));
       set_forward_delay = (\<lambda>f (m, d). if m \<le> 2 * (f - 1) then (m, f) else (m :: int, d))
   in Protocol (rstp_config ''24'') = ''rstp'' \<and>
      set_forward_delay (snd (timers (rstp_config ''24'')))
        (set_max_age (fst (timers (rstp_config ''24''))) (engine_start (rstp_config ''20''))) = timers (rstp_config ''24'')"
proof -
  have assessed: "AssessSetterOrder (rstp_config ''20'') (rstp_config ''24'') = compatible"
    by (simp add: AssessSetterOrder_def eval_tree)
  have p: "Protocol (rstp_config ''24'') = ''rstp''"
    by (simp add: eval_tree)
  show ?thesis
    using setter_order_installs [where set_max_age = "\<lambda>a (m, d). if a \<le> 2 * (d - 1) then (a, d) else (m, d)"
        and set_forward_delay = "\<lambda>f (m, d). if m \<le> 2 * (f - 1) then (m, f) else (m, d)", OF _ _ assessed] p
    by (simp add: Let_def)
qed
theorem execution_transition_sound_witness:
  "AssessExecutionTransition (rstp_config ''20'') (rstp_config ''24'') rstp_runtime = compatible \<and>
   AssessSetterOrder (rstp_config ''20'') (rstp_config ''24'') = compatible"
proof -
  have h: "AssessExecutionTransition (rstp_config ''20'') (rstp_config ''24'') rstp_runtime = compatible"
    by (simp add: AssessExecutionTransition_def AssessTransition_def compatible_def rstp_runtime_def eval_tree)
  show ?thesis using h execution_transition_sound [OF h] by simp
qed

end
