(* ===== verification/Candidate_Types.thy ===== *)
theory Candidate_Types
  imports Api_Types Multicast Spanning_Tree
begin

text \<open>
  The data model of \<^verbatim>\<open>internal/candidate\<close>: the change requests a client submits
  (\<open>Intent\<close>), the intents a candidate stores together with the originals captured from the
  native configuration (\<open>StoredIntent\<close>), the candidate and its sealed envelope, the
  coherent snapshot of the native configuration they are compared with, and the gates and
  diffs a comparison produces. Field names carry a short prefix per Go struct.
\<close>

section \<open>Field values\<close>

record VLAN =
  v_Mode :: "string option"
  v_Tag :: "int option"
  v_Trunks :: "int slice"
  v_CVLANs :: "int slice"

definition zero_VLAN :: VLAN where
  "zero_VLAN = \<lparr>v_Mode = None, v_Tag = None, v_Trunks = None, v_CVLANs = None\<rparr>"

record Bond =
  b_LACP :: "string option"
  b_Mode :: "string option"
  b_Fallback :: "string option"

record QinQContext =
  q_VLANLimit :: string
  q_DatapathUUID :: string
  q_MaxVLANHeaders :: string
  q_Dependency :: string
  q_EtherType :: "string option"

record MTUDefault =
  md_MTU :: int
  md_Dependency :: string
  md_Bindings :: "Binding slice"

record MTUChange =
  mt_Before :: "int option"
  mt_After :: "int option"
  mt_Port :: Binding
  mt_Bridge :: Binding
  mt_Default :: "MTUDefault option"
  mt_Compensating :: bool

record PolicingRequest =
  pr_Mode :: string
  pr_Rate :: int

record PolicingConfig =
  pc_Rate :: int
  pc_Burst :: int
  pc_PacketRate :: int
  pc_PacketBurst :: int

record PolicingChange =
  po_Before :: PolicingConfig
  po_After :: PolicingConfig
  po_Port :: Binding
  po_Bridge :: Binding
  po_Name :: string
  po_IfIndex :: int
  po_Compensating :: bool

record IsolationChange =
  is_Before :: bool
  is_After :: bool

record MulticastChange =
  mu_Before :: MulticastConfiguration
  mu_After :: MulticastConfiguration

record SpanningTreeRequest =
  tr_Protocol :: string
  tr_Parameters :: "string option gomap option"

record SpanningTreeConfig =
  tc_STP :: bool
  tc_RSTP :: bool
  tc_Parameters :: "string option gomap"

record SpanningTreeChange =
  tg_Before :: SpanningTreeConfig
  tg_After :: SpanningTreeConfig

section \<open>Object graphs\<close>

record BridgeCreation =
  bc_Name :: string
  bc_Root :: string
  bc_Port :: Binding
  bc_Interface :: Binding
  bc_BeforePresent :: bool
  bc_AfterPresent :: bool

record BridgeGraph =
  bg_Name :: string
  bg_Root :: string
  bg_Bridge :: Binding
  bg_Port :: Binding
  bg_Interface :: Binding

record BridgeDeletion =
  bd_Source :: BridgeGraph
  bd_Replacement :: BridgeGraph
  bd_SourceMarker :: string
  bd_Restoring :: bool
  bd_Observed :: bool

record InternalPortCreation =
  ip_Name :: string
  ip_VLANID :: int
  ip_Root :: string
  ip_Bridge :: Binding
  ip_BridgeName :: string
  ip_Interface :: Binding
  ip_Members :: "Binding list"
  ip_LocalPort :: Binding
  ip_LocalInterface :: Binding
  ip_BeforePresent :: bool
  ip_AfterPresent :: bool

record InternalPortGraph =
  ig_Port :: Binding
  ig_Configuration :: InternalPortCreation

record InternalPortDeletion =
  id_Source :: InternalPortGraph
  id_Replacement :: InternalPortGraph
  id_SourceMarker :: string
  id_SourceDependency :: string
  id_Restoring :: bool
  id_Observed :: bool

text \<open>The native graph commands. The configuration summary of a node is display data, kept
  as the document the code derives from the row.\<close>

record MirrorConfiguration =
  mi_SelectAll :: bool
  mi_SourcePorts :: "string slice"
  mi_DestinationPorts :: "string slice"
  mi_VLANs :: "string slice"
  mi_OutputPort :: "string option"
  mi_OutputVLAN :: "string option"
  mi_Snaplen :: "string option"

record MirrorChange =
  mx_Object :: Binding
  mx_Bridge :: Binding
  mx_Before :: "MirrorConfiguration option"
  mx_After :: "MirrorConfiguration option"

record TunnelConfiguration =
  tu_Type :: string
  tu_Options :: "string gomap"

record TunnelRequest =
  tq_Type :: string
  tq_Options :: "string option gomap option"

record TunnelChange =
  tn_Interface :: Binding
  tn_Before :: "TunnelConfiguration option"
  tn_After :: "TunnelConfiguration option"

record TopologyRequest =
  to_Mirror :: "MirrorConfiguration option"
  to_Tunnel :: "TunnelRequest option"
  to_Name :: string
  to_NativeType :: string
  to_InterfaceNames :: "string list"
  to_Sources :: "Binding list"
  to_Destination :: "Binding option"
  to_Members :: "Binding list"
  to_Peer :: "Binding option"
  to_Ofport :: int

record TopologyNode =
  n_Summary :: "any option"
  n_Binding :: Binding
  n_Name :: string
  n_Type :: string
  n_Links :: "Binding list"
  n_Digest :: string

record TopologyChange =
  g_Mirror :: "MirrorChange option"
  g_MirrorAuthorityRevision :: string
  g_MirrorDependency :: string
  g_Tunnel :: "TunnelChange option"
  g_TunnelAuthorityRevision :: string
  g_TunnelDependency :: string
  g_Allocations :: "string gomap"
  g_Request :: TopologyRequest
  g_Root :: string
  g_RootDependency :: string
  g_Before :: "TopologyNode list"
  g_After :: "TopologyNode list"
  g_Replacements :: "Binding gomap"
  g_Restored :: "TopologyNode list"
  g_Observed :: bool
  g_Compensating :: bool

section \<open>Intents, candidates and commands\<close>

record Intent =
  in_Multicast :: "MulticastRequest option"
  in_Protected :: "bool option"
  in_SpanningTree :: "SpanningTreeRequest option"
  in_Topology :: "TopologyRequest option"
  in_Policing :: "PolicingRequest option"
  in_ID :: string
  in_Operation :: string
  in_Object :: Binding
  in_Value :: VLAN
  in_Mode :: string
  in_LACP :: string
  in_Members :: "string list"
  in_Fallback :: string
  in_Name :: string
  in_VLANID :: int
  in_MTURequest :: int

record StoredIntent =
  si_Multicast :: "MulticastChange option"
  si_Isolation :: "IsolationChange option"
  si_SpanningTree :: "SpanningTreeChange option"
  si_Topology :: "TopologyChange option"
  si_Policing :: "PolicingChange option"
  si_QinQ :: "QinQContext option"
  si_MTU :: "MTUChange option"
  si_ID :: string
  si_Operation :: string
  si_Object :: Binding
  si_Value :: VLAN
  si_Before :: VLAN
  si_Dependency :: string
  si_Schema :: string
  si_Bond :: "Bond option"
  si_BeforeBond :: "Bond option"
  si_BondMembers :: "string list"
  si_Creation :: "BridgeCreation option"
  si_Deletion :: "BridgeDeletion option"
  si_PortDeletion :: "InternalPortDeletion option"
  si_PortCreation :: "InternalPortCreation option"

text \<open>The zero value of a stored intent: the Go composite literals name only the fields they set.\<close>

definition zero_intent :: StoredIntent where
  "zero_intent = \<lparr>si_Multicast = None, si_Isolation = None, si_SpanningTree = None,
     si_Topology = None, si_Policing = None, si_QinQ = None, si_MTU = None, si_ID = '''',
     si_Operation = '''', si_Object = no_binding, si_Value = zero_VLAN, si_Before = zero_VLAN,
     si_Dependency = '''', si_Schema = '''', si_Bond = None, si_BeforeBond = None,
     si_BondMembers = [], si_Creation = None, si_Deletion = None, si_PortDeletion = None,
     si_PortCreation = None\<rparr>"

record Candidate =
  c_ID :: string
  c_Revision :: string
  c_Generation :: "string option"
  c_BaseRevision :: "string option"
  c_State :: string
  c_Intents :: "StoredIntent list"
  c_Consumed :: "Ref option"

record Envelope =
  e_Owner :: string
  e_Epoch :: string
  e_Sequence :: int
  e_Candidate :: Candidate
  e_Seal :: string

record Resolution =
  r_IntentID :: string
  r_Choice :: string

record Command =
  cmd_RequestID :: string
  cmd_Operation :: string
  cmd_Intents :: "Intent list"
  cmd_IntentIDs :: "string list"
  cmd_Generation :: string
  cmd_ConfigRevision :: string
  cmd_ConflictSnapshot :: "string option"
  cmd_Resolutions :: "Resolution list"

record Gate =
  gt_Code :: string
  gt_State :: string
  gt_Reason :: string
  gt_IntentID :: string

record Diff =
  d_Object :: Binding
  d_Field :: string
  d_Before :: any
  d_After :: any
  d_Authority :: string
  d_Current :: any
  d_Operation :: string
  d_IntentID :: string
  d_Conflict :: bool

record View =
  vw_Candidate :: Candidate
  vw_SafeApplyAvailable :: bool
  vw_CurrentGeneration :: "string option"
  vw_CurrentRevision :: "string option"
  vw_ConflictSnapshot :: "string option"
  vw_Diff :: "Diff list"
  vw_Checks :: "Gate list"
  vw_DiffTruncated :: bool

section \<open>The native snapshot\<close>

record Port =
  p_QinQ :: "QinQContext option"
  p_QinQSupported :: bool
  p_Binding :: Binding
  p_VLAN :: VLAN
  p_Known :: bool
  p_SchemaSupported :: bool
  p_Modes :: "string list"
  p_Dependency :: string
  p_Authority :: string
  p_Reason :: string
  p_Bond :: Bond
  p_BondKnown :: bool
  p_BondSupported :: bool
  p_BondDependency :: string
  p_BondAuthority :: string
  p_Members :: "string list"
  p_MemberKindsSupported :: bool
  p_LocalPort :: bool
  p_FloodVLANs :: "int list"
  p_STP :: bool
  p_RSTP :: bool

record InterfaceMTU =
  im_Binding :: Binding
  im_Port :: Binding
  im_Bridge :: Binding
  im_Requested :: "int option"
  im_Observed :: int
  im_Default :: "MTUDefault option"
  im_Known :: bool
  im_Supported :: bool
  im_Eligible :: bool
  im_Authority :: string
  im_Dependency :: string

record InterfacePolicing =
  pp_Binding :: Binding
  pp_Port :: Binding
  pp_Bridge :: Binding
  pp_Configuration :: PolicingConfig
  pp_Name :: string
  pp_Type :: string
  pp_IfIndex :: int
  pp_Known :: bool
  pp_Supported :: bool
  pp_Eligible :: bool
  pp_Authority :: string
  pp_Dependency :: string

record IsolationPort =
  iso_Binding :: Binding
  iso_Protected :: bool
  iso_Known :: bool
  iso_Supported :: bool
  iso_Authority :: string
  iso_Dependency :: string
  iso_Gate :: string
  iso_Bindings :: "Binding list"

record MulticastBridge =
  mb_Binding :: Binding
  mb_Configuration :: MulticastConfiguration
  mb_Known :: bool
  mb_Supported :: bool
  mb_Authority :: string
  mb_Dependency :: string
  mb_Gate :: string
  mb_Bindings :: "Binding list"

record SpanningTreeBridge =
  tb_Binding :: Binding
  tb_Configuration :: SpanningTreeConfig
  tb_Known :: bool
  tb_Supported :: bool
  tb_Executable :: bool
  tb_Bindings :: "Binding list"
  tb_Authority :: string
  tb_Dependency :: string
  tb_GraphGate :: string

record CreationSnapshot =
  cs_Root :: string
  cs_Authority :: string
  cs_Supported :: bool
  cs_Capacity :: bool
  cs_AllowedNames :: "string \<Rightarrow> bool"
  cs_Names :: "string \<Rightarrow> bool"
  cs_Objects :: "string \<rightharpoonup> Binding"
  cs_Retired :: "string \<Rightarrow> bool"

record ManagedBridge =
  mg_Graph :: BridgeGraph
  mg_Marker :: string
  mg_Dependency :: string
  mg_RestoreCapacity :: bool

record DeletionSnapshot =
  ds_AllowedNames :: "string \<Rightarrow> bool"
  ds_Graphs :: "string \<rightharpoonup> ManagedBridge"

record InternalPortParent =
  pa_Binding :: Binding
  pa_Name :: string
  pa_Dependency :: string
  pa_Members :: "Binding list"
  pa_LocalPort :: Binding
  pa_LocalInterface :: Binding
  pa_Eligible :: bool

record InternalPortSnapshot =
  ips_Supported :: bool
  ips_Capacity :: bool
  ips_Targets :: "string \<Rightarrow> bool"
  ips_Parents :: "string \<rightharpoonup> InternalPortParent"

record ManagedInternalPort =
  mp_Graph :: InternalPortGraph
  mp_Marker :: string
  mp_Dependency :: string
  mp_RestoreCapacity :: bool

record InternalPortDeletionSnapshot =
  pds_Targets :: "string \<Rightarrow> bool"
  pds_Graphs :: "string \<rightharpoonup> ManagedInternalPort"

record TopologySnapshot =
  t_MirrorRuntimeFailure :: string
  t_MirrorRuntime :: string
  t_MirrorAuthority :: "string \<Rightarrow> bool"
  t_MirrorCreates :: "string \<Rightarrow> bool"
  t_MirrorAuthorityRevision :: string
  t_MirrorSupported :: bool
  t_MirrorDefaults :: "any gomap"
  t_TunnelAuthority :: "string \<Rightarrow> bool"
  t_TunnelCreates :: "string \<Rightarrow> bool"
  t_TunnelTypes :: "string list"
  t_TunnelAuthorityRevision :: string
  t_TunnelSupported :: bool
  t_Allocations :: "string gomap"
  t_Root :: string
  t_RootDependency :: string
  t_Supported :: bool
  t_Capacity :: bool
  t_Nodes :: "TopologyNode gomap"
  t_Configurations :: "any gomap gomap"
  t_Defaults :: "any gomap gomap"
  t_Authority :: "string \<Rightarrow> bool"
  t_Creates :: "string \<Rightarrow> bool"
  t_Retired :: "string \<Rightarrow> bool"

record Snapshot =
  s_Multicasts :: "string \<rightharpoonup> MulticastBridge"
  s_Isolations :: "string \<rightharpoonup> IsolationPort"
  s_SpanningTrees :: "string \<rightharpoonup> SpanningTreeBridge"
  s_Topology :: TopologySnapshot
  s_Generation :: string
  s_Revision :: string
  s_Schema :: string
  s_Policy :: string
  s_Ports :: "string \<rightharpoonup> Port"
  s_Interfaces :: "string \<rightharpoonup> InterfaceMTU"
  s_Policings :: "string \<rightharpoonup> InterfacePolicing"
  s_Creation :: CreationSnapshot
  s_Deletion :: DeletionSnapshot
  s_PortDeletions :: InternalPortDeletionSnapshot
  s_InternalPorts :: InternalPortSnapshot

section \<open>The host\<close>

text \<open>What a call takes from its environment: the SHA-256 text of a document, the random
  sixteen-byte blocks \<open>repository.NewID\<close> draws one after the other, and the encoded sizes the
  two document budgets are checked against.\<close>

record host =
  h_Digest :: "any \<Rightarrow> string"
  h_random :: "nat \<Rightarrow> 8 word list"
  h_view_bytes :: "View \<Rightarrow> nat"
  h_envelope_bytes :: "Envelope \<Rightarrow> nat"

definition mint :: "host \<Rightarrow> nat \<Rightarrow> string" where
  "mint h n = NewID (h_random h n)"

text \<open>The closure \<open>bind\<close> of the graph constructors: a fresh identity of a table.\<close>

definition bind_new :: "host \<Rightarrow> nat \<Rightarrow> Snapshot \<Rightarrow> string \<Rightarrow> Binding" where
  "bind_new h n s table = \<lparr>ManagementID_of = mint h n, OVSUUID = mint h (n + 1), Table = table,
     Generation_of = s_Generation s\<rparr>"

end
