(* ===== verification/Candidate_Fields.thy ===== *)
theory Candidate_Fields
  imports Candidate_Types
begin

text \<open>
  The field components of \<^verbatim>\<open>internal/candidate\<close>: VLAN values (\<^verbatim>\<open>plan.go\<close>), Bond and LACP
  values (\<^verbatim>\<open>bond.go\<close>) and the QinQ context (\<^verbatim>\<open>qinq.go\<close>), with the comparison of a captured
  original against the current Port. Two documents have the same \<open>Digest\<close> exactly when they are
  equal here: collisions of SHA-256 are outside the model.
\<close>

section \<open>Gates\<close>

definition gate :: "string \<Rightarrow> string \<Rightarrow> string \<Rightarrow> Gate" where
  "gate code state iid = \<lparr>gt_Code = code, gt_State = state, gt_Reason = code, gt_IntentID = iid\<rparr>"

fun Passed :: "Gate list \<Rightarrow> bool" where
  "Passed [] = True"
| "Passed (g # gs) = (if gt_State g \<noteq> ''allowed'' then False else Passed gs)"

text \<open>\<open>if cond { out = append(out, gate(code, "blocked", id)) }\<close>\<close>

definition block_if :: "bool \<Rightarrow> string \<Rightarrow> string \<Rightarrow> Gate list" where
  "block_if b code iid = (if b then [gate code ''blocked'' iid] else [])"

definition allow_if :: "bool \<Rightarrow> string \<Rightarrow> string \<Rightarrow> Gate list" where
  "allow_if b code iid = (if b then [gate code ''allowed'' iid] else [])"

section \<open>VLAN values\<close>

definition sorted_slice :: "int slice \<Rightarrow> int slice" where
  "sorted_slice xs = Some (sort (elems xs))"

definition normalize :: "VLAN \<Rightarrow> VLAN" where
  "normalize v = v\<lparr>v_Trunks := sorted_slice (v_Trunks v), v_CVLANs := sorted_slice (v_CVLANs v)\<rparr>"

fun vlan_ids_ok :: "int list \<Rightarrow> int list \<Rightarrow> bool" where
  "vlan_ids_ok seen [] = True"
| "vlan_ids_ok seen (n # ns) =
     (if n < 1 \<or> 4094 < n \<or> n \<in> set seen then False else vlan_ids_ok (n # seen) ns)"

definition inputValid :: "VLAN \<Rightarrow> bool" where
  "inputValid v =
     (case v_Mode v of
        None \<Rightarrow> False
      | Some mode \<Rightarrow>
          if mode \<notin> set [''access'', ''trunk'', ''native-tagged'', ''native-untagged'', ''dot1q-tunnel'']
          then False
          else if (mode = ''trunk'') \<noteq> (v_Tag v = None) then False
          else if (case v_Tag v of None \<Rightarrow> False | Some t \<Rightarrow> t < 1 \<or> 4094 < t) then False
          else if \<not> (vlan_ids_ok [] (elems (v_Trunks v)) \<and> vlan_ids_ok [] (elems (v_CVLANs v))) then False
          else if (mode = ''access'' \<or> mode = ''dot1q-tunnel'') \<and> elems (v_Trunks v) \<noteq> [] then False
          else mode = ''dot1q-tunnel'' \<or> elems (v_CVLANs v) = [])"

definition equal_vlan :: "VLAN \<Rightarrow> VLAN \<Rightarrow> bool" where
  "equal_vlan a b \<longleftrightarrow> normalize a = normalize b"

section \<open>QinQ\<close>

definition qinqMode :: "VLAN \<Rightarrow> bool" where
  "qinqMode v \<longleftrightarrow> v_Mode v = Some ''dot1q-tunnel''"

definition UsesQinQ :: "StoredIntent \<Rightarrow> bool" where
  "UsesQinQ i \<longleftrightarrow> si_Operation i = ''port.vlan.set'' \<and>
     (si_QinQ i \<noteq> None \<or> qinqMode (si_Before i) \<or> qinqMode (si_Value i))"

definition vlanOriginalSupported :: "VLAN \<Rightarrow> bool" where
  "vlanOriginalSupported v =
     inputValid (case v_Mode v of
        None \<Rightarrow> v\<lparr>v_Mode := Some (if v_Tag v \<noteq> None then ''access'' else ''trunk'')\<rparr>
      | Some _ \<Rightarrow> v)"

definition QinQEditable :: "Port \<Rightarrow> bool" where
  "QinQEditable p \<longleftrightarrow> p_Known p \<and> p_SchemaSupported p \<and> p_Authority p = ''local-managed'' \<and>
     p_QinQSupported p \<and> p_QinQ p \<noteq> None \<and> ''dot1q-tunnel'' \<in> set (p_Modes p) \<and>
     vlanOriginalSupported (p_VLAN p)"

text \<open>\<open>i.QinQ == nil || p.QinQ == nil || Digest(i.QinQ) != Digest(p.QinQ)\<close>\<close>

definition qinq_changed :: "StoredIntent \<Rightarrow> Port \<Rightarrow> bool" where
  "qinq_changed i p \<longleftrightarrow> si_QinQ i = None \<or> p_QinQ p = None \<or> si_QinQ i \<noteq> p_QinQ p"

definition qinqChecks :: "StoredIntent \<Rightarrow> Port \<Rightarrow> Gate list" where
  "qinqChecks i p =
     block_if (\<not> p_QinQSupported p \<or> p_QinQ p = None \<or> ''dot1q-tunnel'' \<notin> set (p_Modes p))
       ''QINQ_CONTEXT_UNSUPPORTED'' (si_ID i) @
     block_if (qinq_changed i p) ''QINQ_DEPENDENCY_CHANGED'' (si_ID i) @
     block_if (\<not> vlanOriginalSupported (si_Before i) \<or> \<not> vlanOriginalSupported (si_Value i))
       ''QINQ_NATIVE_SEMANTICS_UNPROVEN'' (si_ID i) @
     allow_if (qinqMode (si_Value i) \<and> elems (v_CVLANs (si_Value i)) = [])
       ''EMPTY_CVLANS_MEANS_ALL_CUSTOMER_VLANS'' (si_ID i) @
     [gate ''QINQ_SERVICE_TAG_AND_PRESERVED_TPID_REVIEW'' ''allowed'' (si_ID i)]"

section \<open>Bond and LACP values\<close>

definition IsBondOperation :: "string \<Rightarrow> bool" where
  "IsBondOperation op \<longleftrightarrow> op = ''bond.configure'' \<or> op = ''port.lacp.set''"

definition nativeChoice :: "string option \<Rightarrow> string list \<Rightarrow> bool" where
  "nativeChoice value allowed = (case value of None \<Rightarrow> True | Some v \<Rightarrow> v \<in> set allowed)"

definition bondNativeKnown :: "Bond option \<Rightarrow> bool" where
  "bondNativeKnown b = (case b of None \<Rightarrow> False
     | Some b \<Rightarrow> nativeChoice (b_LACP b) [''off'', ''active'', ''passive''] \<and>
         nativeChoice (b_Mode b) [''active-backup'', ''balance-slb'', ''balance-tcp''] \<and>
         nativeChoice (b_Fallback b) [''true'', ''false''])"

definition bondModes :: "Bond \<Rightarrow> string \<times> string \<times> bool" where
  "bondModes b =
     (case b_LACP b of None \<Rightarrow> ''off'' | Some l \<Rightarrow> l,
      case b_Mode b of None \<Rightarrow> ''active-backup'' | Some m \<Rightarrow> m,
      case b_Fallback b of None \<Rightarrow> False | Some f \<Rightarrow> f = ''true'')"

definition bondDesired :: "Intent \<Rightarrow> Port \<Rightarrow> Bond res" where
  "bondDesired i p =
     (if in_LACP i \<notin> set [''off'', ''active'', ''passive''] \<or>
         in_Fallback i \<notin> set ['''', ''preserve'', ''enabled'', ''disabled'', ''default''] \<or>
         in_Value i \<noteq> zero_VLAN
      then Inl (Fail 422 ''UNSUPPORTED_CONFIGURATION'')
      else if \<not> p_BondKnown p then Inl (Fail 409 ''NATIVE_CONFIGURATION_UNKNOWN'')
      else if in_Operation i = ''bond.configure'' \<and>
         (in_Mode i \<notin> set [''active-backup'', ''balance-slb'', ''balance-tcp''] \<or>
          length (in_Members i) < 2 \<or> 32 < length (in_Members i))
      then Inl (Fail 422 ''INVALID_BOND_CONFIGURATION'')
      else if in_Operation i = ''bond.configure'' \<and>
         (length (remdups_adj (sort (in_Members i))) \<noteq> length (sort (in_Members i)) \<or>
          sort (in_Members i) \<noteq> p_Members p)
      then Inl (Fail 409 ''BOND_MEMBERSHIP_CHANGE_UNAVAILABLE'')
      else if in_Operation i \<noteq> ''bond.configure'' \<and> (in_Mode i \<noteq> '''' \<or> in_Members i \<noteq> [])
      then Inl (Fail 422 ''INVALID_LACP_CONFIGURATION'')
      else Inr \<lparr>b_LACP = Some (in_LACP i),
        b_Mode = (if in_Operation i = ''bond.configure'' then Some (in_Mode i) else b_Mode (p_Bond p)),
        b_Fallback = (if in_Fallback i = ''enabled'' then Some ''true''
                      else if in_Fallback i = ''disabled'' then Some ''false''
                      else if in_Fallback i = ''default'' then None
                      else b_Fallback (p_Bond p))\<rparr>)"

definition bond_after_checks :: "StoredIntent \<Rightarrow> Port \<Rightarrow> Bond \<Rightarrow> Bond \<Rightarrow> Gate list" where
  "bond_after_checks i p old new =
     (let (oldLACP, oldMode, oldFallback) = bondModes old;
          (lacp, mode, fallback) = bondModes new;
          many = 1 < length (p_Members p);
          block = (\<lambda>b code. block_if b code (si_ID i)) in
      block (oldFallback \<and> oldLACP = ''off'' \<or>
         many \<and> (oldMode = ''balance-tcp'' \<and> oldLACP = ''off'' \<or>
                 oldMode = ''balance-slb'' \<and> p_FloodVLANs p \<noteq> []))
        ''ORIGINAL_BOND_CONFIGURATION_UNPROVEN'' @
      block (p_LocalPort p) ''LOCAL_INTERNAL_PORT_PROTECTED'' @
      block (\<not> p_MemberKindsSupported p) ''BOND_MEMBER_TYPE_UNSUPPORTED'' @
      block (p_Members p = [] \<or> si_Operation i = ''bond.configure'' \<and> length (p_Members p) < 2)
        ''BOND_MEMBER_COUNT_CHANGED'' @
      block (many \<and> mode = ''balance-tcp'' \<and> lacp = ''off'') ''BALANCE_TCP_REQUIRES_LACP'' @
      block (fallback \<and> lacp = ''off'') ''LACP_FALLBACK_REQUIRES_LACP'' @
      block (many \<and> mode = ''balance-slb'' \<and> p_FloodVLANs p \<noteq> []) ''SLB_FLOOD_VLANS_INCOMPATIBLE'' @
      block (many \<and> (p_STP p \<or> p_RSTP p)) ''BOND_SPANNING_TREE_UNSUPPORTED'' @
      allow_if (lacp \<noteq> ''off'') ''LACP_PARTNER_AND_MANAGEMENT_PATH_REVIEW_REQUIRED'' (si_ID i))"

definition bondChecks :: "StoredIntent \<Rightarrow> Port \<Rightarrow> Gate list" where
  "bondChecks i p =
     block_if (\<not> p_BondSupported p) ''BOND_SCHEMA_UNSUPPORTED'' (si_ID i) @
     block_if (p_BondAuthority p \<noteq> ''local-managed'')
       (if p_BondAuthority p = ''externally-controlled'' then ''EXTERNALLY_CONTROLLED''
        else ''OWNERSHIP_UNKNOWN'') (si_ID i) @
     (if \<not> bondNativeKnown (si_BeforeBond i) \<or> \<not> bondNativeKnown (si_Bond i)
      then [gate ''NATIVE_BOND_SEMANTICS_UNPROVEN'' ''blocked'' (si_ID i)]
      else case (si_BeforeBond i, si_Bond i) of
             (Some old, Some new) \<Rightarrow> bond_after_checks i p old new
           | _ \<Rightarrow> [])"

definition BondFieldsEditable :: "Port \<Rightarrow> bool" where
  "BondFieldsEditable p \<longleftrightarrow> p_BondKnown p \<and>
     Passed (bondChecks (zero_intent\<lparr>si_Operation := ''port.lacp.set'',
       si_BeforeBond := Some (p_Bond p), si_Bond := Some (p_Bond p)\<rparr>) p)"

section \<open>Captured originals\<close>

definition currentOriginal :: "StoredIntent \<Rightarrow> Port \<Rightarrow> StoredIntent" where
  "currentOriginal i p =
     (if IsBondOperation (si_Operation i)
      then i\<lparr>si_BeforeBond := Some (p_Bond p), si_BondMembers := p_Members p,
             si_Before := normalize zero_VLAN, si_Dependency := p_BondDependency p\<rparr>
      else let i' = i\<lparr>si_Before := normalize (p_VLAN p), si_Dependency := p_Dependency p\<rparr>
           in if UsesQinQ i' then i'\<lparr>si_QinQ := p_QinQ p\<rparr> else i')"

definition zero_Bond :: Bond where
  "zero_Bond = \<lparr>b_LACP = None, b_Mode = None, b_Fallback = None\<rparr>"

definition zero_Port :: Port where
  "zero_Port = \<lparr>p_QinQ = None, p_QinQSupported = False, p_Binding = no_binding, p_VLAN = zero_VLAN,
     p_Known = False, p_SchemaSupported = False, p_Modes = [], p_Dependency = '''', p_Authority = '''',
     p_Reason = '''', p_Bond = zero_Bond, p_BondKnown = False, p_BondSupported = False,
     p_BondDependency = '''', p_BondAuthority = '''', p_Members = [], p_MemberKindsSupported = False,
     p_LocalPort = False, p_FloodVLANs = [], p_STP = False, p_RSTP = False\<rparr>"

definition port_problem :: "StoredIntent \<Rightarrow> Snapshot \<Rightarrow> Port \<Rightarrow> string" where
  "port_problem i s p =
     (let bond = IsBondOperation (si_Operation i); vlan = (si_Operation i = ''port.vlan.set'') in
      if \<not> vlan \<and> \<not> bond then ''UNSUPPORTED_CONFIGURATION''
      else if vlan \<and> \<not> p_Known p \<or> bond \<and> \<not> p_BondKnown p then ''NATIVE_CONFIGURATION_UNKNOWN''
      else if si_Schema i \<noteq> s_Schema s then ''SCHEMA_CHANGED''
      else if bond \<and> si_BondMembers i \<noteq> p_Members p then ''BOND_MEMBER_BINDINGS_CHANGED''
      else if UsesQinQ i \<and> qinq_changed i p then ''QINQ_DEPENDENCY_CHANGED''
      else if (if bond then p_BondDependency p else p_Dependency p) \<noteq> si_Dependency i
      then ''DEPENDENCY_CHANGED''
      else if bond \<and> (si_BeforeBond i = None \<or> si_Bond i = None \<or> si_BeforeBond i \<noteq> Some (p_Bond p))
      then ''FIELD_CONFLICT''
      else if \<not> bond \<and> \<not> equal_vlan (p_VLAN p) (si_Before i) then ''FIELD_CONFLICT''
      else '''')"

definition comparison :: "StoredIntent \<Rightarrow> Snapshot \<Rightarrow> Port \<times> string" where
  "comparison i s =
     (if Generation_of (si_Object i) \<noteq> s_Generation s
      then (zero_Port, ''GENERATION_RECONCILIATION_REQUIRED'')
      else case s_Ports s (ManagementID_of (si_Object i)) of
             None \<Rightarrow> (zero_Port, ''OBJECT_BINDING_CHANGED'')
           | Some p \<Rightarrow> if p_Binding p \<noteq> si_Object i then (zero_Port, ''OBJECT_BINDING_CHANGED'')
               else (p, port_problem i s p))"

section \<open>Gates pass exactly when nothing blocks\<close>

lemma gate_sel [simp]:
  "gt_Code (gate c st i) = c" "gt_State (gate c st i) = st" "gt_Reason (gate c st i) = c"
  "gt_IntentID (gate c st i) = i"
  by (simp_all add: gate_def)

lemma Passed_iff: "Passed gs \<longleftrightarrow> list_all (\<lambda>g. gt_State g = ''allowed'') gs"
  by (induction gs) auto

lemma Passed_append [simp]: "Passed (gs @ hs) \<longleftrightarrow> Passed gs \<and> Passed hs"
  by (simp add: Passed_iff)

lemma Passed_block_if [simp]: "Passed (block_if b c i) \<longleftrightarrow> \<not> b"
  by (simp add: block_if_def)

lemma Passed_allow_if [simp]: "Passed (allow_if b c i)"
  by (simp add: allow_if_def)

lemma allow_if_state: "g \<in> set (allow_if b c i) \<Longrightarrow> gt_State g = ''allowed''"
  by (simp add: allow_if_def split: if_splits)

section \<open>VLAN values: validity and equality\<close>

lemma vlan_ids_ok_iff:
  "vlan_ids_ok seen ns \<longleftrightarrow> set ns \<subseteq> {1..4094} \<and> distinct ns \<and> set ns \<inter> set seen = {}"
  by (induction seen ns rule: vlan_ids_ok.induct) auto

lemma normalize_simps [simp]:
  "v_Mode (normalize v) = v_Mode v" "v_Tag (normalize v) = v_Tag v"
  "elems (v_Trunks (normalize v)) = sort (elems (v_Trunks v))"
  "elems (v_CVLANs (normalize v)) = sort (elems (v_CVLANs v))"
  by (simp_all add: normalize_def sorted_slice_def)

lemma normalize_idem [simp]: "normalize (normalize v) = normalize v"
  by (simp add: normalize_def sorted_slice_def)

lemma qinqMode_normalize [simp]: "qinqMode (normalize v) \<longleftrightarrow> qinqMode v"
  by (simp add: qinqMode_def)

text \<open>\<open>equal\<close>, the comparison behind every VLAN conflict decision, is equality up to the order
  of the trunk and customer VLAN lists: it distinguishes an absent mode or tag from every
  present one, and a nil list from no list at all never counts as a difference.\<close>

theorem equal_vlan_iff:
  "equal_vlan a b \<longleftrightarrow> v_Mode a = v_Mode b \<and> v_Tag a = v_Tag b \<and>
     mset (elems (v_Trunks a)) = mset (elems (v_Trunks b)) \<and>
     mset (elems (v_CVLANs a)) = mset (elems (v_CVLANs b))"
  by (cases a; cases b)
    (auto simp: equal_vlan_def normalize_def sorted_slice_def sort_eq_iff_mset)

lemma equal_vlan_refl [simp]: "equal_vlan a a" "equal_vlan a (normalize a)"
  by (simp_all add: equal_vlan_def)

definition vlan_list_valid :: "int slice \<Rightarrow> bool" where
  "vlan_list_valid ns \<longleftrightarrow> set (elems ns) \<subseteq> {1..4094} \<and> distinct (elems ns)"

lemma vlan_ids_ok_Nil: "vlan_ids_ok [] (elems ns) \<longleftrightarrow> vlan_list_valid ns"
  by (simp add: vlan_ids_ok_iff vlan_list_valid_def)

lemma vlan_list_valid_sorted [simp]: "vlan_list_valid (sorted_slice ns) \<longleftrightarrow> vlan_list_valid ns"
  by (simp add: vlan_list_valid_def sorted_slice_def)

lemma inputValid_normalize [simp]: "inputValid (normalize v) \<longleftrightarrow> inputValid v"
  unfolding inputValid_def normalize_simps vlan_ids_ok_iff by (simp cong: option.case_cong)

text \<open>\<open>inputValid\<close> accepts exactly the qualified VLAN modes: a pure trunk carries no tag and
  every other mode carries one in 1..4094, both lists hold distinct identifiers in 1..4094,
  access and tunnel Ports carry no trunks, and only a tunnel Port carries customer VLANs.\<close>

theorem inputValid_iff:
  "inputValid v \<longleftrightarrow>
     (v_Mode v = Some ''trunk'' \<and> v_Tag v = None \<and> elems (v_CVLANs v) = [] \<and> vlan_list_valid (v_Trunks v)) \<or>
     (\<exists>tag \<in> {1..4094}. v_Tag v = Some tag \<and>
       (v_Mode v = Some ''access'' \<and> elems (v_Trunks v) = [] \<and> elems (v_CVLANs v) = [] \<or>
        v_Mode v \<in> {Some ''native-tagged'', Some ''native-untagged''} \<and> elems (v_CVLANs v) = [] \<and>
          vlan_list_valid (v_Trunks v) \<or>
        v_Mode v = Some ''dot1q-tunnel'' \<and> elems (v_Trunks v) = [] \<and> vlan_list_valid (v_CVLANs v)))"
proof (cases "v_Mode v")
  case (Some mode)
  consider "mode = ''trunk''" | "mode = ''access''" | "mode = ''native-tagged''"
    | "mode = ''native-untagged''" | "mode = ''dot1q-tunnel''"
    | "mode \<notin> set [''access'', ''trunk'', ''native-tagged'', ''native-untagged'', ''dot1q-tunnel'']"
    by auto
  then show ?thesis
    by cases (use Some in \<open>auto simp: inputValid_def vlan_ids_ok_Nil vlan_list_valid_def split: option.splits\<close>)
qed (simp add: inputValid_def)

section \<open>Bond checks\<close>

text \<open>What a Bond configuration has to satisfy on a Port: LACP fallback needs LACP, and with
  several members balance-tcp needs LACP and balance-slb excludes flood VLANs.\<close>

definition bond_consistent :: "Port \<Rightarrow> Bond \<Rightarrow> bool" where
  "bond_consistent p b \<longleftrightarrow>
     (let (lacp, mode, fallback) = bondModes b in
      (fallback \<longrightarrow> lacp \<noteq> ''off'') \<and>
      (1 < length (p_Members p) \<longrightarrow>
         (mode = ''balance-tcp'' \<longrightarrow> lacp \<noteq> ''off'') \<and> (mode = ''balance-slb'' \<longrightarrow> p_FloodVLANs p = [])))"

definition bond_members_ok :: "StoredIntent \<Rightarrow> Port \<Rightarrow> bool" where
  "bond_members_ok i p \<longleftrightarrow> \<not> p_LocalPort p \<and> p_MemberKindsSupported p \<and> p_Members p \<noteq> [] \<and>
     (si_Operation i = ''bond.configure'' \<longrightarrow> 2 \<le> length (p_Members p)) \<and>
     (1 < length (p_Members p) \<longrightarrow> \<not> p_STP p \<and> \<not> p_RSTP p)"

lemma Passed_bond_after_checks:
  "Passed (bond_after_checks i p old new) \<longleftrightarrow>
     bond_consistent p old \<and> bond_consistent p new \<and> bond_members_ok i p"
proof -
  obtain ol om of' where old: "bondModes old = (ol, om, of')" by (cases "bondModes old")
  obtain nl nm nf where new: "bondModes new = (nl, nm, nf)" by (cases "bondModes new")
  have many: "2 \<le> length (p_Members p) \<longleftrightarrow> 1 < length (p_Members p)" by linarith
  have ne: "1 < length (p_Members p) \<Longrightarrow> p_Members p \<noteq> []" by auto
  show ?thesis
    unfolding bond_after_checks_def bond_consistent_def bond_members_ok_def old new many Let_def
      prod.case Passed_append Passed_block_if linorder_not_less [symmetric]
    using ne by (simp only: Passed_allow_if) argo
qed

text \<open>The Bond gates pass exactly for a Port under local management whose original and desired
  Bond values are both understood and both consistent on its member set, so an edit never
  starts from, nor leads to, a configuration whose native meaning is unproven.\<close>

theorem bondChecks_passed_iff:
  "Passed (bondChecks i p) \<longleftrightarrow>
     p_BondSupported p \<and> p_BondAuthority p = ''local-managed'' \<and> bond_members_ok i p \<and>
     (\<exists>old new. si_BeforeBond i = Some old \<and> si_Bond i = Some new \<and>
        bondNativeKnown (Some old) \<and> bondNativeKnown (Some new) \<and>
        bond_consistent p old \<and> bond_consistent p new)"
  by (auto simp: bondChecks_def Passed_bond_after_checks bondNativeKnown_def split: option.splits)

lemma bondDesired_Inr:
  assumes "bondDesired i p = Inr b" and "IsBondOperation (in_Operation i)"
  shows "b_LACP b = Some (in_LACP i)" and "in_LACP i \<in> {''off'', ''active'', ''passive''}"
    and "in_Operation i = ''bond.configure'' \<Longrightarrow> b_Mode b = Some (in_Mode i) \<and> sort (in_Members i) = p_Members p"
    and "in_Operation i = ''port.lacp.set'' \<Longrightarrow> b_Mode b = b_Mode (p_Bond p)"
    and "in_Fallback i \<in> {'''', ''preserve''} \<Longrightarrow> b_Fallback b = b_Fallback (p_Bond p)"
    and "p_BondKnown p"
  using assms by (auto simp: bondDesired_def split: if_splits)

section \<open>Comparing with the current Port\<close>

text \<open>The state in which a stored field intent still describes the Port it was captured from.\<close>

definition field_intact :: "StoredIntent \<Rightarrow> Snapshot \<Rightarrow> Port \<Rightarrow> bool" where
  "field_intact i s p \<longleftrightarrow>
     p_Binding p = si_Object i \<and> Generation_of (si_Object i) = s_Generation s \<and> si_Schema i = s_Schema s \<and>
     (if IsBondOperation (si_Operation i)
      then p_BondKnown p \<and> si_BondMembers i = p_Members p \<and> si_Dependency i = p_BondDependency p \<and>
        si_BeforeBond i = Some (p_Bond p) \<and> si_Bond i \<noteq> None
      else si_Operation i = ''port.vlan.set'' \<and> p_Known p \<and> si_Dependency i = p_Dependency p \<and>
        equal_vlan (p_VLAN p) (si_Before i) \<and>
        (UsesQinQ i \<longrightarrow> p_QinQ p \<noteq> None \<and> si_QinQ i = p_QinQ p))"

lemma IsBondOperation_not_vlan [simp]: "\<not> IsBondOperation ''port.vlan.set''"
  by (simp add: IsBondOperation_def)

lemma UsesQinQ_not_bond: "UsesQinQ i \<Longrightarrow> \<not> IsBondOperation (si_Operation i)"
  by (auto simp: UsesQinQ_def)

lemma port_problem_clean:
  "port_problem i s p = '''' \<longleftrightarrow>
     si_Schema i = s_Schema s \<and>
     (if IsBondOperation (si_Operation i)
      then p_BondKnown p \<and> si_BondMembers i = p_Members p \<and> si_Dependency i = p_BondDependency p \<and>
        si_BeforeBond i = Some (p_Bond p) \<and> si_Bond i \<noteq> None
      else si_Operation i = ''port.vlan.set'' \<and> p_Known p \<and> si_Dependency i = p_Dependency p \<and>
        equal_vlan (p_VLAN p) (si_Before i) \<and>
        (UsesQinQ i \<longrightarrow> p_QinQ p \<noteq> None \<and> si_QinQ i = p_QinQ p))"
  by (auto simp: port_problem_def qinq_changed_def Let_def dest: UsesQinQ_not_bond)

text \<open>\<open>comparison\<close> reports no problem exactly when the captured original is still the current
  native state: same binding, generation and schema, same dependency, an equal field group,
  the same Bond members, and for QinQ the same tunnel context.\<close>

theorem comparison_clean_iff:
  "snd (comparison i s) = '''' \<longleftrightarrow>
     (\<exists>p. s_Ports s (ManagementID_of (si_Object i)) = Some p \<and> fst (comparison i s) = p \<and> field_intact i s p)"
  by (auto simp: comparison_def field_intact_def port_problem_clean split: option.splits)

lemma comparison_port:
  "fst (comparison i s) = p \<Longrightarrow>
    snd (comparison i s) \<notin> {''GENERATION_RECONCILIATION_REQUIRED'', ''OBJECT_BINDING_CHANGED''} \<Longrightarrow>
    s_Ports s (ManagementID_of (si_Object i)) = Some p \<and> p_Binding p = si_Object i \<and>
    Generation_of (si_Object i) = s_Generation s"
  by (auto simp: comparison_def split: option.splits if_splits)

lemma currentOriginal_frame [simp]:
  "si_ID (currentOriginal i p) = si_ID i" "si_Operation (currentOriginal i p) = si_Operation i"
  "si_Object (currentOriginal i p) = si_Object i" "si_Value (currentOriginal i p) = si_Value i"
  "si_Schema (currentOriginal i p) = si_Schema i" "si_Bond (currentOriginal i p) = si_Bond i"
  by (simp_all add: currentOriginal_def Let_def)

lemma UsesQinQ_currentOriginal:
  assumes "\<not> IsBondOperation (si_Operation i)"
  shows "UsesQinQ (currentOriginal i p) \<longleftrightarrow>
    UsesQinQ (i\<lparr>si_Before := normalize (p_VLAN p), si_Dependency := p_Dependency p\<rparr>) \<and>
    (p_QinQ p \<noteq> None \<or> qinqMode (p_VLAN p) \<or> qinqMode (si_Value i))"
  using assms by (auto simp: currentOriginal_def UsesQinQ_def Let_def)

text \<open>Recapturing makes an intent intact on the Port it is captured from, whenever the Port can
  carry the intent at all.\<close>

definition capturable :: "StoredIntent \<Rightarrow> Snapshot \<Rightarrow> Port \<Rightarrow> bool" where
  "capturable i s p \<longleftrightarrow>
     p_Binding p = si_Object i \<and> Generation_of (si_Object i) = s_Generation s \<and> si_Schema i = s_Schema s \<and>
     (if IsBondOperation (si_Operation i) then p_BondKnown p \<and> si_Bond i \<noteq> None
      else si_Operation i = ''port.vlan.set'' \<and> p_Known p \<and>
        (p_QinQ p = None \<longrightarrow> \<not> qinqMode (p_VLAN p) \<and> \<not> qinqMode (si_Value i)))"

lemma currentOriginal_intact:
  assumes "capturable i s p"
  shows "field_intact (currentOriginal i p) s p"
proof (cases "IsBondOperation (si_Operation i)")
  case True
  with assms show ?thesis by (simp add: capturable_def field_intact_def currentOriginal_def)
next
  case False
  let ?j = "currentOriginal i p"
  let ?i = "i\<lparr>si_Before := normalize (p_VLAN p), si_Dependency := p_Dependency p\<rparr>"
  have fields: "si_Dependency ?j = p_Dependency p" "si_Before ?j = normalize (p_VLAN p)"
    using False by (simp_all add: currentOriginal_def Let_def)
  have q: "si_QinQ ?j = (if UsesQinQ ?i then p_QinQ p else si_QinQ i)"
    using False by (simp add: currentOriginal_def Let_def)
  have "p_QinQ p \<noteq> None \<and> si_QinQ ?j = p_QinQ p" if "UsesQinQ ?j"
    using that assms False UsesQinQ_currentOriginal [OF False, of p]
    by (cases "p_QinQ p") (auto simp: q capturable_def)
  then show ?thesis
    using assms False by (simp add: field_intact_def capturable_def fields)
qed

end
