(* ===== verification/Candidate_Interfaces.thy ===== *)
theory Candidate_Interfaces
  imports Candidate_Fields
begin

text \<open>
  The single-intent field components of \<^verbatim>\<open>internal/candidate\<close>: Interface MTU (\<^verbatim>\<open>mtu.go\<close>),
  ingress policing (\<^verbatim>\<open>policing.go\<close>), Port isolation (\<^verbatim>\<open>isolation.go\<close>), Bridge multicast
  snooping (\<^verbatim>\<open>multicast.go\<close>) and Bridge spanning tree (\<^verbatim>\<open>spanning_tree.go\<close>). Each has the same
  five operations: whether a native row is editable, the problem of a stored intent against a
  snapshot, its gates, its diff, and the staging of a request. The contract they share is the
  locale \<open>sealed_component\<close>, interpreted on every one of them.
\<close>

section \<open>Shared pieces of the staging functions\<close>

definition num :: "int \<Rightarrow> any" where
  "num n = GNum (FormatInt n)"

definition opt_num :: "int option \<Rightarrow> any" where
  "opt_num n = (case n of None \<Rightarrow> GNil | Some n \<Rightarrow> num n)"

definition opt_str :: "string option \<Rightarrow> any" where
  "opt_str s = (case s of None \<Rightarrow> GNil | Some s \<Rightarrow> GStr s)"

text \<open>\<open>in.Mode == "" && in.LACP == "" && in.Fallback == "" && len(in.Members) == 0 &&
  Digest(in.Value) == Digest(VLAN{})\<close>\<close>

definition no_port_fields :: "Intent \<Rightarrow> bool" where
  "no_port_fields i \<longleftrightarrow> in_Mode i = '''' \<and> in_LACP i = '''' \<and> in_Fallback i = '''' \<and>
     in_Members i = [] \<and> in_Value i = zero_VLAN"

text \<open>\<open>object.Generation != s.Generation || c.Generation != nil && *c.Generation != s.Generation\<close>\<close>

definition generation_changed :: "Candidate \<Rightarrow> Binding \<Rightarrow> Snapshot \<Rightarrow> bool" where
  "generation_changed c b s \<longleftrightarrow> Generation_of b \<noteq> s_Generation s \<or>
     (case c_Generation c of None \<Rightarrow> False | Some g \<Rightarrow> g \<noteq> s_Generation s)"

text \<open>\<open>c.Intents, c.Generation, c.BaseRevision = []StoredIntent{i}, &s.Generation, &s.Revision\<close>\<close>

definition single :: "Candidate \<Rightarrow> Snapshot \<Rightarrow> StoredIntent \<Rightarrow> Candidate" where
  "single c s i = c\<lparr>c_Intents := [i], c_Generation := Some (s_Generation s),
     c_BaseRevision := Some (s_Revision s)\<rparr>"

text \<open>The fields every captured intent literal sets.\<close>

definition captured :: "Intent \<Rightarrow> Snapshot \<Rightarrow> string \<Rightarrow> StoredIntent" where
  "captured i s dep = zero_intent\<lparr>si_ID := in_ID i, si_Operation := in_Operation i,
     si_Object := in_Object i, si_Schema := s_Schema s, si_Dependency := dep,
     si_Value := normalize zero_VLAN, si_Before := normalize zero_VLAN\<rparr>"

definition field_diff :: "StoredIntent \<Rightarrow> string \<Rightarrow> any \<Rightarrow> any \<Rightarrow> any \<Rightarrow> bool \<Rightarrow> Diff" where
  "field_diff i field before after current conflict =
     \<lparr>d_Object = si_Object i, d_Field = field, d_Before = before, d_After = after,
      d_Authority = ''ovsdb-configuration'', d_Current = current, d_Operation = si_Operation i,
      d_IntentID = si_ID i, d_Conflict = conflict\<rparr>"

section \<open>Interface MTU (\<^verbatim>\<open>mtu.go\<close>)\<close>

definition InterfaceMTUSet :: string where "InterfaceMTUSet = ''interface.mtu.set''"

definition InterfaceMTUClear :: string where "InterfaceMTUClear = ''interface.mtu.clear''"

definition IsMTUOperation :: "string \<Rightarrow> bool" where
  "IsMTUOperation op \<longleftrightarrow> op = InterfaceMTUSet \<or> op = InterfaceMTUClear"

definition ValidMTU :: "int \<Rightarrow> bool" where
  "ValidMTU n \<longleftrightarrow> 576 \<le> n \<and> n \<le> 65535"

definition validMTURequest :: "int option \<Rightarrow> bool" where
  "validMTURequest n = (case n of None \<Rightarrow> True | Some n \<Rightarrow> ValidMTU n)"

definition ExpectedMTU :: "MTUChange \<Rightarrow> int" where
  "ExpectedMTU m = (case mt_After m of Some n \<Rightarrow> n
     | None \<Rightarrow> (case mt_Default m of Some d \<Rightarrow> md_MTU d | None \<Rightarrow> 0))"

definition OriginalMTU :: "MTUChange \<Rightarrow> int" where
  "OriginalMTU m = (case mt_Before m of Some n \<Rightarrow> n
     | None \<Rightarrow> (case mt_Default m of Some d \<Rightarrow> md_MTU d | None \<Rightarrow> 0))"

definition MTUOriginalDeviceRequired :: "MTUChange \<Rightarrow> bool" where
  "MTUOriginalDeviceRequired m \<longleftrightarrow> mt_Default m \<noteq> None \<and> \<not> mt_Compensating m \<and>
     mt_Before m \<noteq> mt_After m \<and> (mt_Before m = None \<or> mt_After m = None)"

definition MTUEditable :: "InterfaceMTU \<Rightarrow> bool" where
  "MTUEditable p \<longleftrightarrow> im_Known p \<and> im_Supported p \<and> im_Eligible p \<and> im_Authority p = ''local-managed'' \<and>
     validMTURequest (im_Requested p) \<and>
     (im_Requested p \<noteq> None \<or>
      (case im_Default p of None \<Rightarrow> False | Some d \<Rightarrow> im_Observed p = md_MTU d))"

definition MTUClearable :: "InterfaceMTU \<Rightarrow> bool" where
  "MTUClearable p \<longleftrightarrow> MTUEditable p \<and> im_Default p \<noteq> None \<and>
     (case im_Requested p of None \<Rightarrow> False | Some r \<Rightarrow> im_Observed p = r)"

definition mtu_malformed :: "StoredIntent \<Rightarrow> MTUChange \<Rightarrow> bool" where
  "mtu_malformed i m \<longleftrightarrow> \<not> IsMTUOperation (si_Operation i) \<or> Table (si_Object i) \<noteq> ''Interface'' \<or>
     \<not> validMTURequest (mt_Before m) \<or> \<not> validMTURequest (mt_After m) \<or>
     mt_After m = None \<and> si_Operation i \<noteq> InterfaceMTUClear \<or>
     mt_After m \<noteq> None \<and> si_Operation i \<noteq> InterfaceMTUSet \<or>
     (mt_Before m = None \<or> mt_After m = None) \<and>
       (case mt_Default m of None \<Rightarrow> True | Some d \<Rightarrow> \<not> ValidMTU (md_MTU d))"

definition mtu_row_problem :: "StoredIntent \<Rightarrow> MTUChange \<Rightarrow> Snapshot \<Rightarrow> InterfaceMTU \<Rightarrow> string" where
  "mtu_row_problem i m s p =
     (if im_Binding p \<noteq> si_Object i \<or> im_Port p \<noteq> mt_Port m \<or> im_Bridge p \<noteq> mt_Bridge m
      then ''OBJECT_BINDING_CHANGED''
      else if si_Schema i \<noteq> s_Schema s then ''SCHEMA_CHANGED''
      else if \<not> im_Known p then ''NATIVE_CONFIGURATION_UNKNOWN''
      else if si_Dependency i \<noteq> im_Dependency p then ''MTU_DEPENDENCY_CHANGED''
      else if mt_Before m \<noteq> im_Requested p then ''FIELD_CONFLICT''
      else if mt_Default m \<noteq> None \<and> mt_Default m \<noteq> im_Default p then ''MTU_DEFAULT_DEPENDENCY_CHANGED''
      else if MTUOriginalDeviceRequired m \<and> im_Observed p \<noteq> OriginalMTU m
      then ''MTU_ORIGINAL_DEVICE_UNPROVEN''
      else '''')"

definition mtuProblem :: "StoredIntent \<Rightarrow> Snapshot \<Rightarrow> string" where
  "mtuProblem i s =
     (case si_MTU i of
        None \<Rightarrow> ''INVALID_INTERFACE_MTU''
      | Some m \<Rightarrow>
          if mtu_malformed i m then ''INVALID_INTERFACE_MTU''
          else if Generation_of (si_Object i) \<noteq> s_Generation s then ''GENERATION_RECONCILIATION_REQUIRED''
          else (case s_Interfaces s (ManagementID_of (si_Object i)) of
                  None \<Rightarrow> ''OBJECT_BINDING_CHANGED''
                | Some p \<Rightarrow> mtu_row_problem i m s p))"

definition zero_InterfaceMTU :: InterfaceMTU where
  "zero_InterfaceMTU = \<lparr>im_Binding = no_binding, im_Port = no_binding, im_Bridge = no_binding,
     im_Requested = None, im_Observed = 0, im_Default = None, im_Known = False, im_Supported = False,
     im_Eligible = False, im_Authority = '''', im_Dependency = ''''\<rparr>"

text \<open>\<open>m[k]\<close> on a Go map: the zero value when the key is missing.\<close>

definition at_or :: "('k \<rightharpoonup> 'v) \<Rightarrow> 'k \<Rightarrow> 'v \<Rightarrow> 'v" where
  "at_or m k z = (case m k of None \<Rightarrow> z | Some v \<Rightarrow> v)"

definition mtuChecks :: "StoredIntent \<Rightarrow> Snapshot \<Rightarrow> Gate list" where
  "mtuChecks i s =
     (let p = at_or (s_Interfaces s) (ManagementID_of (si_Object i)) zero_InterfaceMTU in
      block_if (\<not> im_Supported p) ''MTU_SCHEMA_UNSUPPORTED'' (si_ID i) @
      block_if (\<not> im_Eligible p) ''STANDALONE_INTERNAL_MTU_REQUIRED'' (si_ID i) @
      block_if (im_Authority p \<noteq> ''local-managed'')
        (if im_Authority p = ''externally-controlled'' then ''EXTERNALLY_CONTROLLED''
         else ''MTU_AUTHORITY_REQUIRED'') (si_ID i) @
      [gate ''MTU_DEVICE_AND_MANAGEMENT_PATH_REVIEW_REQUIRED'' ''allowed'' (si_ID i)])"

definition mtuDiff :: "StoredIntent \<Rightarrow> Snapshot \<Rightarrow> Diff" where
  "mtuDiff i s =
     (let p = at_or (s_Interfaces s) (ManagementID_of (si_Object i)) zero_InterfaceMTU in
      field_diff i ''mtu_request''
        (case si_MTU i of None \<Rightarrow> GNil | Some m \<Rightarrow> opt_num (mt_Before m))
        (case si_MTU i of None \<Rightarrow> GNil | Some m \<Rightarrow> opt_num (mt_After m))
        (if im_Known p then opt_num (im_Requested p) else GNil) (mtuProblem i s \<noteq> ''''))"

definition mtuDefaultDiff :: "StoredIntent \<Rightarrow> MTUDefault \<Rightarrow> Snapshot \<Rightarrow> Diff" where
  "mtuDefaultDiff i d s =
     (field_diff i ''mtu_default_dependency'' (num (md_MTU d)) (num (md_MTU d))
        (case im_Default (at_or (s_Interfaces s) (ManagementID_of (si_Object i)) zero_InterfaceMTU) of
           None \<Rightarrow> GNil | Some now \<Rightarrow> num (md_MTU now)) (mtuProblem i s \<noteq> ''''))
     \<lparr>d_Authority := ''ovsdb-operational''\<rparr>"

definition stage_mtu_row :: "Candidate \<Rightarrow> Intent \<Rightarrow> Snapshot \<Rightarrow> InterfaceMTU \<Rightarrow> Candidate res" where
  "stage_mtu_row c i s p =
     (if im_Binding p \<noteq> in_Object i then Inl (Fail 409 ''OBJECT_BINDING_CHANGED'')
      else if \<not> MTUEditable p then Inl (Fail 409 ''INTERNAL_MTU_AUTHORITY_REQUIRED'')
      else if in_Operation i = InterfaceMTUClear \<and> \<not> MTUClearable p
      then Inl (Fail 409 ''MTU_DEFAULT_UNPROVEN'')
      else let after = (if in_Operation i = InterfaceMTUSet then Some (in_MTURequest i) else None);
               m = \<lparr>mt_Before = im_Requested p, mt_After = after, mt_Port = im_Port p,
                    mt_Bridge = im_Bridge p,
                    mt_Default = (if im_Requested p = None \<or> after = None then im_Default p else None),
                    mt_Compensating = False\<rparr> in
        (case c_Intents c of
           [prior] \<Rightarrow>
             (case si_MTU prior of
                None \<Rightarrow> Inl (Fail 409 ''MTU_RESTAGE_REQUIRED'')
              | Some pm \<Rightarrow>
                  if \<not> IsMTUOperation (si_Operation prior) \<or> si_ID prior \<noteq> in_ID i \<or>
                     si_Object prior \<noteq> in_Object i \<or> mt_Default pm = None \<and> after = None
                  then Inl (Fail 409 ''MTU_RESTAGE_REQUIRED'')
                  else Inr (single c s (prior\<lparr>si_MTU := Some (pm\<lparr>mt_After := after\<rparr>),
                              si_Operation := in_Operation i\<rparr>)))
         | _ \<Rightarrow> Inr (single c s ((captured i s (im_Dependency p))\<lparr>si_MTU := Some m\<rparr>))))"

definition stageMTU :: "Candidate \<Rightarrow> Command \<Rightarrow> Snapshot \<Rightarrow> Candidate res" where
  "stageMTU c cmd s =
     (case cmd_Intents cmd of
        [i] \<Rightarrow>
          if 1 < length (c_Intents c) \<or> \<not> IsMTUOperation (in_Operation i)
          then Inl (Fail 422 ''MTU_SINGLE_INTENT_REQUIRED'')
          else if \<not> ManagementID (in_ID i) \<or> Table (in_Object i) \<noteq> ''Interface'' \<or>
             in_Operation i = InterfaceMTUSet \<and> \<not> ValidMTU (in_MTURequest i) \<or>
             in_Operation i = InterfaceMTUClear \<and> in_MTURequest i \<noteq> 0 \<or>
             in_Name i \<noteq> '''' \<or> in_VLANID i \<noteq> 0 \<or> \<not> no_port_fields i
          then Inl (Fail 422 ''INVALID_INTERFACE_MTU'')
          else if generation_changed c (in_Object i) s
          then Inl (Fail 409 ''GENERATION_RECONCILIATION_REQUIRED'')
          else (case s_Interfaces s (ManagementID_of (in_Object i)) of
                  None \<Rightarrow> Inl (Fail 409 ''OBJECT_BINDING_CHANGED'')
                | Some p \<Rightarrow> stage_mtu_row c i s p)
      | _ \<Rightarrow> Inl (Fail 422 ''MTU_SINGLE_INTENT_REQUIRED''))"

section \<open>Ingress policing (\<^verbatim>\<open>policing.go\<close>)\<close>

definition InterfacePolicingSet :: string where "InterfacePolicingSet = ''interface.policing.set''"

definition ValidPolicing :: "PolicingConfig \<Rightarrow> bool" where
  "ValidPolicing p \<longleftrightarrow> 0 \<le> pc_Rate p \<and> pc_Rate p \<le> 1000000 \<and> 0 \<le> pc_PacketRate p \<and>
     pc_PacketRate p \<le> 1000 \<and> (pc_Rate p = 0 \<or> pc_PacketRate p = 0) \<and> pc_Burst p = 0 \<and>
     pc_PacketBurst p = 0"

definition PolicingEditable :: "InterfacePolicing \<Rightarrow> bool" where
  "PolicingEditable p \<longleftrightarrow> pp_Known p \<and> pp_Supported p \<and> pp_Eligible p \<and>
     pp_Authority p = ''local-exclusive'' \<and> ValidPolicing (pp_Configuration p)"

definition zero_Policing :: PolicingConfig where
  "zero_Policing = \<lparr>pc_Rate = 0, pc_Burst = 0, pc_PacketRate = 0, pc_PacketBurst = 0\<rparr>"

definition requestedPolicing :: "PolicingRequest option \<Rightarrow> PolicingConfig \<times> bool" where
  "requestedPolicing r =
     (case r of
        None \<Rightarrow> (zero_Policing, False)
      | Some p \<Rightarrow>
          if pr_Mode p = ''disabled'' then (zero_Policing, pr_Rate p = 0)
          else if pr_Mode p = ''bandwidth''
          then let out = zero_Policing\<lparr>pc_Rate := pr_Rate p\<rparr> in (out, 0 < pr_Rate p \<and> ValidPolicing out)
          else if pr_Mode p = ''packets''
          then let out = zero_Policing\<lparr>pc_PacketRate := pr_Rate p\<rparr> in (out, 0 < pr_Rate p \<and> ValidPolicing out)
          else (zero_Policing, False))"

definition policingProblem :: "StoredIntent \<Rightarrow> Snapshot \<Rightarrow> string" where
  "policingProblem i s =
     (case si_Policing i of
        None \<Rightarrow> ''INVALID_INTERFACE_POLICING''
      | Some m \<Rightarrow>
          if si_Operation i \<noteq> InterfacePolicingSet \<or> Table (si_Object i) \<noteq> ''Interface'' \<or>
             \<not> ValidPolicing (po_Before m) \<or> \<not> ValidPolicing (po_After m) \<or> po_Name m = '''' \<or>
             po_IfIndex m \<le> 0
          then ''INVALID_INTERFACE_POLICING''
          else if Generation_of (si_Object i) \<noteq> s_Generation s then ''GENERATION_RECONCILIATION_REQUIRED''
          else (case s_Policings s (ManagementID_of (si_Object i)) of
                  None \<Rightarrow> ''OBJECT_BINDING_CHANGED''
                | Some p \<Rightarrow>
                    if pp_Binding p \<noteq> si_Object i \<or> pp_Port p \<noteq> po_Port m \<or> pp_Bridge p \<noteq> po_Bridge m \<or>
                       pp_Name p \<noteq> po_Name m \<or> pp_IfIndex p \<noteq> po_IfIndex m
                    then ''OBJECT_BINDING_CHANGED''
                    else if si_Schema i \<noteq> s_Schema s then ''SCHEMA_CHANGED''
                    else if \<not> pp_Known p then ''NATIVE_CONFIGURATION_UNKNOWN''
                    else if si_Dependency i \<noteq> pp_Dependency p then ''POLICING_DEPENDENCY_CHANGED''
                    else if po_Before m \<noteq> pp_Configuration p then ''FIELD_CONFLICT''
                    else ''''))"

definition zero_InterfacePolicing :: InterfacePolicing where
  "zero_InterfacePolicing = \<lparr>pp_Binding = no_binding, pp_Port = no_binding, pp_Bridge = no_binding,
     pp_Configuration = zero_Policing, pp_Name = '''', pp_Type = '''', pp_IfIndex = 0, pp_Known = False,
     pp_Supported = False, pp_Eligible = False, pp_Authority = '''', pp_Dependency = ''''\<rparr>"

definition policingChecks :: "StoredIntent \<Rightarrow> Snapshot \<Rightarrow> Gate list" where
  "policingChecks i s =
     (let p = at_or (s_Policings s) (ManagementID_of (si_Object i)) zero_InterfacePolicing in
      block_if (\<not> pp_Supported p) ''POLICING_SCHEMA_UNSUPPORTED'' (si_ID i) @
      block_if (\<not> pp_Eligible p) ''STANDALONE_INTERNAL_POLICING_REQUIRED'' (si_ID i) @
      block_if (pp_Authority p \<noteq> ''local-exclusive'') ''EXCLUSIVE_INGRESS_AUTHORITY_REQUIRED'' (si_ID i) @
      [gate ''POLICING_KERNEL_CHECK_AT_DISPATCH'' ''allowed'' (si_ID i),
       gate ''POLICING_TRAFFIC_AND_MANAGEMENT_PATH_REVIEW_REQUIRED'' ''allowed'' (si_ID i)])"

definition policing_values :: "PolicingConfig \<Rightarrow> int list" where
  "policing_values p = [pc_Rate p, pc_Burst p, pc_PacketRate p, pc_PacketBurst p]"

definition policingDiff :: "StoredIntent \<Rightarrow> Snapshot \<Rightarrow> Diff list" where
  "policingDiff i s =
     (let fields = [''ingress_policing_rate'', ''ingress_policing_burst'',
            ''ingress_policing_kpkts_rate'', ''ingress_policing_kpkts_burst''];
          before = (case si_Policing i of None \<Rightarrow> [0, 0, 0, 0] | Some m \<Rightarrow> policing_values (po_Before m));
          after = (case si_Policing i of None \<Rightarrow> [0, 0, 0, 0] | Some m \<Rightarrow> policing_values (po_After m));
          p = at_or (s_Policings s) (ManagementID_of (si_Object i)) zero_InterfacePolicing;
          now = policing_values (pp_Configuration p)
      in map (\<lambda>(field, b, a, n). field_diff i field (num b) (num a) (if pp_Known p then num n else GNil)
            (policingProblem i s \<noteq> '''')) (zip fields (zip before (zip after now))))"

definition stage_policing_row ::
    "Candidate \<Rightarrow> Intent \<Rightarrow> PolicingConfig \<Rightarrow> Snapshot \<Rightarrow> InterfacePolicing \<Rightarrow> Candidate res" where
  "stage_policing_row c i after s p =
     (if pp_Binding p \<noteq> in_Object i then Inl (Fail 409 ''OBJECT_BINDING_CHANGED'')
      else if \<not> PolicingEditable p then Inl (Fail 409 ''EXCLUSIVE_INTERNAL_POLICING_AUTHORITY_REQUIRED'')
      else (case c_Intents c of
              [prior] \<Rightarrow>
                (case si_Policing prior of
                   None \<Rightarrow> Inl (Fail 409 ''POLICING_RESTAGE_REQUIRED'')
                 | Some m \<Rightarrow>
                     if si_Operation prior \<noteq> InterfacePolicingSet \<or> si_ID prior \<noteq> in_ID i \<or>
                        si_Object prior \<noteq> in_Object i
                     then Inl (Fail 409 ''POLICING_RESTAGE_REQUIRED'')
                     else Inr (single c s (prior\<lparr>si_Policing := Some (m\<lparr>po_After := after\<rparr>)\<rparr>)))
            | _ \<Rightarrow> Inr (single c s ((captured i s (pp_Dependency p))
                    \<lparr>si_Policing := Some \<lparr>po_Before = pp_Configuration p, po_After = after,
                       po_Port = pp_Port p, po_Bridge = pp_Bridge p, po_Name = pp_Name p,
                       po_IfIndex = pp_IfIndex p, po_Compensating = False\<rparr>\<rparr>))))"

definition stagePolicing :: "Candidate \<Rightarrow> Command \<Rightarrow> Snapshot \<Rightarrow> Candidate res" where
  "stagePolicing c cmd s =
     (case cmd_Intents cmd of
        [i] \<Rightarrow>
          if 1 < length (c_Intents c) \<or> in_Operation i \<noteq> InterfacePolicingSet
          then Inl (Fail 422 ''POLICING_SINGLE_INTENT_REQUIRED'')
          else let (after, valid) = requestedPolicing (in_Policing i) in
            if \<not> valid \<or> \<not> ManagementID (in_ID i) \<or> Table (in_Object i) \<noteq> ''Interface'' \<or>
               in_MTURequest i \<noteq> 0 \<or> in_Name i \<noteq> '''' \<or> in_VLANID i \<noteq> 0 \<or> \<not> no_port_fields i
            then Inl (Fail 422 ''INVALID_INTERFACE_POLICING'')
            else if generation_changed c (in_Object i) s
            then Inl (Fail 409 ''GENERATION_RECONCILIATION_REQUIRED'')
            else (case s_Policings s (ManagementID_of (in_Object i)) of
                    None \<Rightarrow> Inl (Fail 409 ''OBJECT_BINDING_CHANGED'')
                  | Some p \<Rightarrow> stage_policing_row c i after s p)
      | _ \<Rightarrow> Inl (Fail 422 ''POLICING_SINGLE_INTENT_REQUIRED''))"

section \<open>Port isolation (\<^verbatim>\<open>isolation.go\<close>)\<close>

definition PortIsolationSet :: string where "PortIsolationSet = ''port.isolation.set''"

definition IsolationEditable :: "IsolationPort \<Rightarrow> bool" where
  "IsolationEditable p \<longleftrightarrow> iso_Known p \<and> iso_Supported p \<and> iso_Authority p = ''local-managed'' \<and>
     iso_Gate p = ''''"

definition isolationProblem :: "StoredIntent \<Rightarrow> Snapshot \<Rightarrow> string" where
  "isolationProblem i s =
     (case si_Isolation i of
        None \<Rightarrow> ''INVALID_PORT_ISOLATION''
      | Some m \<Rightarrow>
          if si_Operation i \<noteq> PortIsolationSet \<or> Table (si_Object i) \<noteq> ''Port'' then ''INVALID_PORT_ISOLATION''
          else if Generation_of (si_Object i) \<noteq> s_Generation s then ''GENERATION_RECONCILIATION_REQUIRED''
          else (case s_Isolations s (ManagementID_of (si_Object i)) of
                  None \<Rightarrow> ''OBJECT_BINDING_CHANGED''
                | Some p \<Rightarrow>
                    if iso_Binding p \<noteq> si_Object i then ''OBJECT_BINDING_CHANGED''
                    else if si_Schema i \<noteq> s_Schema s then ''SCHEMA_CHANGED''
                    else if \<not> iso_Known p then ''NATIVE_CONFIGURATION_UNKNOWN''
                    else if si_Dependency i \<noteq> iso_Dependency p then ''ISOLATION_DEPENDENCY_CHANGED''
                    else if is_Before m \<noteq> iso_Protected p then ''FIELD_CONFLICT''
                    else ''''))"

definition zero_IsolationPort :: IsolationPort where
  "zero_IsolationPort = \<lparr>iso_Binding = no_binding, iso_Protected = False, iso_Known = False,
     iso_Supported = False, iso_Authority = '''', iso_Dependency = '''', iso_Gate = '''', iso_Bindings = []\<rparr>"

definition isolationChecks :: "StoredIntent \<Rightarrow> Snapshot \<Rightarrow> Gate list" where
  "isolationChecks i s =
     (let p = at_or (s_Isolations s) (ManagementID_of (si_Object i)) zero_IsolationPort in
      block_if (\<not> iso_Supported p) ''ISOLATION_SCHEMA_UNSUPPORTED'' (si_ID i) @
      block_if (iso_Authority p \<noteq> ''local-managed'') ''ISOLATION_AUTHORITY_REQUIRED'' (si_ID i) @
      block_if (iso_Gate p \<noteq> '''') (iso_Gate p) (si_ID i) @
      [gate ''PROTECTED_PORT_NATIVE_SEMANTICS_REVIEW_REQUIRED'' ''allowed'' (si_ID i)])"

definition isolationDiff :: "StoredIntent \<Rightarrow> Snapshot \<Rightarrow> Diff" where
  "isolationDiff i s =
     (let p = at_or (s_Isolations s) (ManagementID_of (si_Object i)) zero_IsolationPort in
      field_diff i ''protected''
        (case si_Isolation i of None \<Rightarrow> GNil | Some m \<Rightarrow> GBool (is_Before m))
        (case si_Isolation i of None \<Rightarrow> GNil | Some m \<Rightarrow> GBool (is_After m))
        (if iso_Known p then GBool (iso_Protected p) else GNil) (isolationProblem i s \<noteq> ''''))"

definition stage_isolation_row ::
    "Candidate \<Rightarrow> Intent \<Rightarrow> bool \<Rightarrow> Snapshot \<Rightarrow> IsolationPort \<Rightarrow> Candidate res" where
  "stage_isolation_row c i protect s p =
     (if iso_Binding p \<noteq> in_Object i then Inl (Fail 409 ''OBJECT_BINDING_CHANGED'')
      else if \<not> IsolationEditable p then Inl (Fail 409 ''ISOLATION_AUTHORITY_OR_GRAPH_REQUIRED'')
      else (case c_Intents c of
              [prior] \<Rightarrow>
                (case si_Isolation prior of
                   None \<Rightarrow> Inl (Fail 409 ''ISOLATION_RESTAGE_REQUIRED'')
                 | Some m \<Rightarrow>
                     if si_Operation prior \<noteq> in_Operation i \<or> si_ID prior \<noteq> in_ID i \<or>
                        si_Object prior \<noteq> in_Object i
                     then Inl (Fail 409 ''ISOLATION_RESTAGE_REQUIRED'')
                     else Inr (single c s (prior\<lparr>si_Isolation := Some (m\<lparr>is_After := protect\<rparr>)\<rparr>)))
            | _ \<Rightarrow> Inr (single c s ((captured i s (iso_Dependency p))
                    \<lparr>si_Isolation := Some \<lparr>is_Before = iso_Protected p, is_After = protect\<rparr>\<rparr>))))"

definition stageIsolation :: "Candidate \<Rightarrow> Command \<Rightarrow> Snapshot \<Rightarrow> Candidate res" where
  "stageIsolation c cmd s =
     (case cmd_Intents cmd of
        [i] \<Rightarrow>
          if 1 < length (c_Intents c) then Inl (Fail 422 ''ISOLATION_SINGLE_INTENT_REQUIRED'')
          else (case in_Protected i of
             None \<Rightarrow> Inl (Fail 422 ''INVALID_PORT_ISOLATION'')
           | Some protect \<Rightarrow>
               if in_Operation i \<noteq> PortIsolationSet \<or> \<not> ManagementID (in_ID i) \<or>
                  Table (in_Object i) \<noteq> ''Port'' \<or> in_SpanningTree i \<noteq> None \<or> in_Topology i \<noteq> None \<or>
                  in_Policing i \<noteq> None \<or> in_Name i \<noteq> '''' \<or> in_VLANID i \<noteq> 0 \<or> in_MTURequest i \<noteq> 0 \<or>
                  \<not> no_port_fields i
               then Inl (Fail 422 ''INVALID_PORT_ISOLATION'')
               else if generation_changed c (in_Object i) s
               then Inl (Fail 409 ''GENERATION_RECONCILIATION_REQUIRED'')
               else (case s_Isolations s (ManagementID_of (in_Object i)) of
                       None \<Rightarrow> Inl (Fail 409 ''OBJECT_BINDING_CHANGED'')
                     | Some p \<Rightarrow> stage_isolation_row c i protect s p))
      | _ \<Rightarrow> Inl (Fail 422 ''ISOLATION_SINGLE_INTENT_REQUIRED''))"

section \<open>Multicast snooping (\<^verbatim>\<open>multicast.go\<close>)\<close>

definition BridgeMulticastSet :: string where "BridgeMulticastSet = ''bridge.multicast.configure''"

text \<open>\<open>Digest(a) == Digest(b)\<close> of two snooping configurations.\<close>

definition same_mcast :: "MulticastConfiguration \<Rightarrow> MulticastConfiguration \<Rightarrow> bool" where
  "same_mcast a b \<longleftrightarrow> mc_Enabled a = mc_Enabled b \<and> same_map (mc_Parameters a) (mc_Parameters b)"

definition MulticastEditable :: "MulticastBridge \<Rightarrow> bool" where
  "MulticastEditable b \<longleftrightarrow> mb_Known b \<and> mb_Supported b \<and> mb_Authority b = ''local-managed'' \<and>
     mb_Gate b = '''' \<and> Validate_mcast (mb_Configuration b) = None"

definition multicastProblem :: "StoredIntent \<Rightarrow> Snapshot \<Rightarrow> string" where
  "multicastProblem i s =
     (case si_Multicast i of
        None \<Rightarrow> ''INVALID_MULTICAST_REQUEST''
      | Some m \<Rightarrow>
          if si_Operation i \<noteq> BridgeMulticastSet \<or> Table (si_Object i) \<noteq> ''Bridge'' \<or>
             Validate_mcast (mu_Before m) \<noteq> None \<or> Validate_mcast (mu_After m) \<noteq> None
          then ''INVALID_MULTICAST_REQUEST''
          else if Generation_of (si_Object i) \<noteq> s_Generation s then ''GENERATION_RECONCILIATION_REQUIRED''
          else (case s_Multicasts s (ManagementID_of (si_Object i)) of
                  None \<Rightarrow> ''OBJECT_BINDING_CHANGED''
                | Some b \<Rightarrow>
                    if mb_Binding b \<noteq> si_Object i then ''OBJECT_BINDING_CHANGED''
                    else if si_Schema i \<noteq> s_Schema s then ''SCHEMA_CHANGED''
                    else if \<not> mb_Known b then ''NATIVE_CONFIGURATION_UNKNOWN''
                    else if si_Dependency i \<noteq> mb_Dependency b then ''MULTICAST_DEPENDENCY_CHANGED''
                    else if \<not> same_mcast (mu_Before m) (mb_Configuration b) then ''FIELD_CONFLICT''
                    else ''''))"

definition zero_MulticastBridge :: MulticastBridge where
  "zero_MulticastBridge = \<lparr>mb_Binding = no_binding,
     mb_Configuration = \<lparr>mc_Enabled = False, mc_Parameters = []\<rparr>, mb_Known = False,
     mb_Supported = False, mb_Authority = '''', mb_Dependency = '''', mb_Gate = '''', mb_Bindings = []\<rparr>"

definition multicastChecks :: "StoredIntent \<Rightarrow> Snapshot \<Rightarrow> Gate list" where
  "multicastChecks i s =
     (let b = at_or (s_Multicasts s) (ManagementID_of (si_Object i)) zero_MulticastBridge in
      block_if (\<not> mb_Supported b) ''MULTICAST_SCHEMA_UNSUPPORTED'' (si_ID i) @
      block_if (mb_Authority b \<noteq> ''local-managed'') ''MULTICAST_AUTHORITY_REQUIRED'' (si_ID i) @
      block_if (mb_Gate b \<noteq> '''') (mb_Gate b) (si_ID i) @
      [gate ''MULTICAST_NATIVE_FORWARDING_REVIEW_REQUIRED'' ''allowed'' (si_ID i)])"

text \<open>\<open>m[key]\<close> of a map of string pointers, as a JSON value: nil for a missing key and for a
  present nil alike.\<close>

definition param_json :: "string option gomap \<Rightarrow> string \<Rightarrow> any" where
  "param_json m key = (case map_of m key of Some v \<Rightarrow> opt_str v | None \<Rightarrow> GNil)"

definition multicastDiff :: "StoredIntent \<Rightarrow> Snapshot \<Rightarrow> Diff list" where
  "multicastDiff i s =
     (case si_Multicast i of
        None \<Rightarrow> []
      | Some m \<Rightarrow>
          let b = at_or (s_Multicasts s) (ManagementID_of (si_Object i)) zero_MulticastBridge;
              conflict = (multicastProblem i s \<noteq> '''')
          in field_diff i ''mcast_snooping_enable'' (GBool (mc_Enabled (mu_Before m)))
               (GBool (mc_Enabled (mu_After m)))
               (if mb_Known b then GBool (mc_Enabled (mb_Configuration b)) else GNil) conflict #
             map (\<lambda>key. field_diff i (''other_config.'' @ key)
                 (param_json (mc_Parameters (mu_Before m)) key) (param_json (mc_Parameters (mu_After m)) key)
                 (if mb_Known b then param_json (mc_Parameters (mb_Configuration b)) key else GNil) conflict)
               Keys)"

definition stage_multicast_row ::
    "Candidate \<Rightarrow> Intent \<Rightarrow> MulticastRequest \<Rightarrow> Snapshot \<Rightarrow> MulticastBridge \<Rightarrow> Candidate res" where
  "stage_multicast_row c i request s b =
     (if mb_Binding b \<noteq> in_Object i then Inl (Fail 409 ''OBJECT_BINDING_CHANGED'')
      else if \<not> MulticastEditable b then Inl (Fail 409 ''MULTICAST_AUTHORITY_OR_GRAPH_REQUIRED'')
      else let merge = (\<lambda>j before.
             (case Merge before request of
                Inl e \<Rightarrow> Inl (Fail 422 e)
              | Inr after \<Rightarrow>
                  Inr (single c s (j\<lparr>si_Multicast := Some \<lparr>mu_Before = before, mu_After = after\<rparr>\<rparr>)))) in
        (case c_Intents c of
           [prior] \<Rightarrow>
             (case si_Multicast prior of
                None \<Rightarrow> Inl (Fail 409 ''MULTICAST_RESTAGE_REQUIRED'')
              | Some m \<Rightarrow>
                  if si_Operation prior \<noteq> in_Operation i \<or> si_ID prior \<noteq> in_ID i \<or>
                     si_Object prior \<noteq> in_Object i
                  then Inl (Fail 409 ''MULTICAST_RESTAGE_REQUIRED'')
                  else merge prior (mu_Before m))
         | _ \<Rightarrow> merge (captured i s (mb_Dependency b)) (mb_Configuration b)))"

definition stageMulticast :: "Candidate \<Rightarrow> Command \<Rightarrow> Snapshot \<Rightarrow> Candidate res" where
  "stageMulticast c cmd s =
     (case cmd_Intents cmd of
        [i] \<Rightarrow>
          if 1 < length (c_Intents c) then Inl (Fail 422 ''MULTICAST_SINGLE_INTENT_REQUIRED'')
          else (case in_Multicast i of
             None \<Rightarrow> Inl (Fail 422 ''INVALID_MULTICAST_REQUEST'')
           | Some request \<Rightarrow>
               if in_Operation i \<noteq> BridgeMulticastSet \<or> \<not> ManagementID (in_ID i) \<or>
                  Table (in_Object i) \<noteq> ''Bridge'' \<or> in_Protected i \<noteq> None \<or> in_SpanningTree i \<noteq> None \<or>
                  in_Topology i \<noteq> None \<or> in_Policing i \<noteq> None \<or> in_Name i \<noteq> '''' \<or> in_VLANID i \<noteq> 0 \<or>
                  in_MTURequest i \<noteq> 0 \<or> \<not> no_port_fields i
               then Inl (Fail 422 ''INVALID_MULTICAST_REQUEST'')
               else if generation_changed c (in_Object i) s
               then Inl (Fail 409 ''GENERATION_RECONCILIATION_REQUIRED'')
               else (case s_Multicasts s (ManagementID_of (in_Object i)) of
                       None \<Rightarrow> Inl (Fail 409 ''OBJECT_BINDING_CHANGED'')
                     | Some b \<Rightarrow> stage_multicast_row c i request s b))
      | _ \<Rightarrow> Inl (Fail 422 ''MULTICAST_SINGLE_INTENT_REQUIRED''))"

section \<open>Spanning tree (\<^verbatim>\<open>spanning_tree.go\<close>)\<close>

definition SpanningTreePrepare :: string where "SpanningTreePrepare = ''bridge.spanning-tree.prepare''"

definition SpanningTreeConfigure :: string where "SpanningTreeConfigure = ''bridge.spanning-tree.configure''"

definition IsSpanningTreeOperation :: "string \<Rightarrow> bool" where
  "IsSpanningTreeOperation op \<longleftrightarrow> op = SpanningTreePrepare \<or> op = SpanningTreeConfigure"

definition SpanningTreeBasicKeys :: "string list" where
  "SpanningTreeBasicKeys = [''stp-priority'', ''stp-hello-time'', ''stp-max-age'', ''stp-forward-delay'',
     ''rstp-priority'', ''rstp-max-age'', ''rstp-forward-delay'']"

definition same_tree :: "SpanningTreeConfig \<Rightarrow> SpanningTreeConfig \<Rightarrow> bool" where
  "same_tree a b \<longleftrightarrow> tc_STP a = tc_STP b \<and> tc_RSTP a = tc_RSTP b \<and>
     same_map (tc_Parameters a) (tc_Parameters b)"

definition treeConfigValid :: "SpanningTreeConfig \<Rightarrow> bool" where
  "treeConfigValid c \<longleftrightarrow> mlen (tc_Parameters c) = length SpanningTreeBasicKeys \<and>
     list_all (\<lambda>k. case map_of (tc_Parameters c) k of
         None \<Rightarrow> False | Some None \<Rightarrow> True | Some (Some v) \<Rightarrow> length v \<le> 128) SpanningTreeBasicKeys"

fun tree_other :: "string option gomap \<Rightarrow> any gomap" where
  "tree_other [] = []"
| "tree_other ((k, None) # r) = tree_other r"
| "tree_other ((k, Some v) # r) = (k, GStr v) # tree_other r"

definition treeConfiguration :: "SpanningTreeConfig \<Rightarrow> Configuration" where
  "treeConfiguration c = \<lparr>cfg_STP = Some (tc_STP c), cfg_RSTP = Some (tc_RSTP c),
     cfg_Other = Some (tree_other (tc_Parameters c))\<rparr>"

definition treeAssessment :: "SpanningTreeConfig \<Rightarrow> Validation" where
  "treeAssessment c =
     (let image = treeConfiguration c in Validate (cfg_STP image) (cfg_RSTP image) (cfg_Other image))"

definition TreePreparationProblem :: "SpanningTreeBridge \<Rightarrow> string" where
  "TreePreparationProblem p =
     (if \<not> tb_Known p then ''SPANNING_TREE_CONFIGURATION_UNKNOWN''
      else if \<not> tb_Supported p then ''SPANNING_TREE_SCHEMA_UNSUPPORTED''
      else if tb_Authority p \<noteq> ''local-managed'' then ''SPANNING_TREE_BRIDGE_AUTHORITY_REQUIRED''
      else tb_GraphGate p)"

definition spanningTreeProblem :: "StoredIntent \<Rightarrow> Snapshot \<Rightarrow> string" where
  "spanningTreeProblem i s =
     (case si_SpanningTree i of
        None \<Rightarrow> ''INVALID_SPANNING_TREE_DRAFT''
      | Some m \<Rightarrow>
          if \<not> IsSpanningTreeOperation (si_Operation i) \<or> Table (si_Object i) \<noteq> ''Bridge'' \<or>
             \<not> treeConfigValid (tg_Before m) \<or> \<not> treeConfigValid (tg_After m)
          then ''INVALID_SPANNING_TREE_DRAFT''
          else if Generation_of (si_Object i) \<noteq> s_Generation s then ''GENERATION_RECONCILIATION_REQUIRED''
          else (case s_SpanningTrees s (ManagementID_of (si_Object i)) of
                  None \<Rightarrow> ''OBJECT_BINDING_CHANGED''
                | Some p \<Rightarrow>
                    if tb_Binding p \<noteq> si_Object i then ''OBJECT_BINDING_CHANGED''
                    else if si_Schema i \<noteq> s_Schema s then ''SCHEMA_CHANGED''
                    else if TreePreparationProblem p \<noteq> '''' then TreePreparationProblem p
                    else if si_Operation i = SpanningTreeConfigure \<and> \<not> tb_Executable p
                    then ''SPANNING_TREE_EXECUTION_AUTHORITY_REQUIRED''
                    else if \<not> same_tree (tg_Before m) (tb_Configuration p) then ''FIELD_CONFLICT''
                    else if si_Dependency i \<noteq> tb_Dependency p then ''SPANNING_TREE_DEPENDENCY_CHANGED''
                    else ''''))"

definition zero_SpanningTreeBridge :: SpanningTreeBridge where
  "zero_SpanningTreeBridge = \<lparr>tb_Binding = no_binding,
     tb_Configuration = \<lparr>tc_STP = False, tc_RSTP = False, tc_Parameters = []\<rparr>, tb_Known = False,
     tb_Supported = False, tb_Executable = False, tb_Bindings = [], tb_Authority = '''',
     tb_Dependency = '''', tb_GraphGate = ''''\<rparr>"

definition spanningTreeChecks :: "StoredIntent \<Rightarrow> Snapshot \<Rightarrow> Gate list" where
  "spanningTreeChecks i s =
     (let configure = (si_Operation i = SpanningTreeConfigure) in
      (case si_SpanningTree i of
         None \<Rightarrow> []
       | Some m \<Rightarrow>
           block_if (configure \<and> v_State (treeAssessment (tg_Before m)) \<noteq> ''valid'')
             ''SPANNING_TREE_ORIGINAL_PARAMETERS_UNPROVEN'' (si_ID i) @
           map (\<lambda>c. gate (chk_Code c) ''blocked'' (si_ID i)) (v_Checks (treeAssessment (tg_After m))) @
           (if configure \<and> v_State (treeAssessment (tg_After m)) = ''valid'' \<and>
               v_State (treeAssessment (tg_Before m)) = ''valid''
            then map (\<lambda>code. gate code ''blocked'' (si_ID i))
              (tr_Checks (AssessSetterOrder (treeConfiguration (tg_Before m)) (treeConfiguration (tg_After m))))
            else [])) @
      (if si_Operation i = SpanningTreePrepare
       then [gate ''SPANNING_TREE_EXECUTION_PENDING'' ''blocked'' (si_ID i)]
       else block_if (\<not> tb_Executable (at_or (s_SpanningTrees s) (ManagementID_of (si_Object i)) zero_SpanningTreeBridge))
              ''SPANNING_TREE_EXECUTION_AUTHORITY_REQUIRED'' (si_ID i) @
            [gate ''SPANNING_TREE_NATIVE_WITNESS_REQUIRED'' ''allowed'' (si_ID i)]))"

definition spanningTreeDiff :: "StoredIntent \<Rightarrow> Snapshot \<Rightarrow> Diff list" where
  "spanningTreeDiff i s =
     (case si_SpanningTree i of
        None \<Rightarrow> []
      | Some m \<Rightarrow>
          let p = at_or (s_SpanningTrees s) (ManagementID_of (si_Object i)) zero_SpanningTreeBridge;
              conflict = (spanningTreeProblem i s \<noteq> '''');
              now = tb_Configuration p;
              add = (\<lambda>field b a current.
                field_diff i field b a (if tb_Known p then current else GNil) conflict)
          in [add ''stp_enable'' (GBool (tc_STP (tg_Before m))) (GBool (tc_STP (tg_After m))) (GBool (tc_STP now)),
              add ''rstp_enable'' (GBool (tc_RSTP (tg_Before m))) (GBool (tc_RSTP (tg_After m))) (GBool (tc_RSTP now))] @
             map (\<lambda>k. add (''other_config.'' @ k) (param_json (tc_Parameters (tg_Before m)) k)
                 (param_json (tc_Parameters (tg_After m)) k) (param_json (tc_Parameters now) k))
               SpanningTreeBasicKeys)"

definition HasPrefix :: "string \<Rightarrow> string \<Rightarrow> bool" where
  "HasPrefix s pre \<longleftrightarrow> take (length pre) s = pre"

definition tree_param_ok :: "string \<Rightarrow> string \<Rightarrow> string option \<Rightarrow> bool" where
  "tree_param_ok protocol k v \<longleftrightarrow> k \<in> set SpanningTreeBasicKeys \<and> protocol \<noteq> ''disabled'' \<and>
     HasPrefix k (protocol @ ''-'') \<and>
     (case v of None \<Rightarrow> True | Some t \<Rightarrow> t \<noteq> [] \<and> length t \<le> 128 \<and> list_all is_digit t)"

fun tree_merge :: "string \<Rightarrow> string option gomap \<Rightarrow> string option gomap \<Rightarrow> string option gomap option" where
  "tree_merge protocol out [] = Some out"
| "tree_merge protocol out ((k, v) # r) =
     (if tree_param_ok protocol k v then tree_merge protocol (AList.update k v out) r else None)"

definition stage_tree_row ::
    "Candidate \<Rightarrow> Intent \<Rightarrow> string \<Rightarrow> string option gomap \<Rightarrow> Snapshot \<Rightarrow> SpanningTreeBridge \<Rightarrow> Candidate res" where
  "stage_tree_row c i protocol parameters s p =
     (if tb_Binding p \<noteq> in_Object i then Inl (Fail 409 ''OBJECT_BINDING_CHANGED'')
      else if TreePreparationProblem p \<noteq> '''' then Inl (Fail 409 (TreePreparationProblem p))
      else if in_Operation i = SpanningTreeConfigure \<and> \<not> tb_Executable p
      then Inl (Fail 403 ''SPANNING_TREE_EXECUTION_AUTHORITY_REQUIRED'')
      else let merge = (\<lambda>j before.
             (case tree_merge protocol (tc_Parameters before) parameters of
                None \<Rightarrow> Inl (Fail 422 ''INVALID_SPANNING_TREE_PARAMETER'')
              | Some ps \<Rightarrow>
                  Inr (single c s (j\<lparr>si_SpanningTree := Some \<lparr>tg_Before = before,
                     tg_After = \<lparr>tc_STP = (protocol = ''stp''), tc_RSTP = (protocol = ''rstp''),
                       tc_Parameters = ps\<rparr>\<rparr>\<rparr>)))) in
        (case c_Intents c of
           [prior] \<Rightarrow>
             if si_Operation prior \<noteq> in_Operation i \<or> si_ID prior \<noteq> in_ID i \<or>
                si_Object prior \<noteq> in_Object i \<or> spanningTreeProblem prior s \<noteq> ''''
             then Inl (Fail 409 ''SPANNING_TREE_RESTAGE_REQUIRED'')
             else (case si_SpanningTree prior of
                     Some m \<Rightarrow> merge prior (tg_Before m)
                   | None \<Rightarrow> Inl (Fail 409 ''SPANNING_TREE_RESTAGE_REQUIRED''))
         | _ \<Rightarrow> merge (captured i s (tb_Dependency p)) (tb_Configuration p)))"

definition stageSpanningTree :: "Candidate \<Rightarrow> Command \<Rightarrow> Snapshot \<Rightarrow> Candidate res" where
  "stageSpanningTree c cmd s =
     (case cmd_Intents cmd of
        [i] \<Rightarrow>
          if 1 < length (c_Intents c) \<or> \<not> IsSpanningTreeOperation (in_Operation i)
          then Inl (Fail 422 ''SPANNING_TREE_SINGLE_INTENT_REQUIRED'')
          else (case in_SpanningTree i of
             None \<Rightarrow> Inl (Fail 422 ''INVALID_SPANNING_TREE_DRAFT'')
           | Some r \<Rightarrow>
               (case tr_Parameters r of
                  None \<Rightarrow> Inl (Fail 422 ''INVALID_SPANNING_TREE_DRAFT'')
                | Some ps \<Rightarrow>
                    if tr_Protocol r \<notin> set [''disabled'', ''stp'', ''rstp''] \<or> 7 < mlen ps \<or>
                       \<not> ManagementID (in_ID i) \<or> Table (in_Object i) \<noteq> ''Bridge'' \<or>
                       in_Topology i \<noteq> None \<or> in_Policing i \<noteq> None \<or> in_MTURequest i \<noteq> 0 \<or>
                       in_Name i \<noteq> '''' \<or> in_VLANID i \<noteq> 0 \<or> \<not> no_port_fields i
                    then Inl (Fail 422 ''INVALID_SPANNING_TREE_DRAFT'')
                    else if generation_changed c (in_Object i) s
                    then Inl (Fail 409 ''GENERATION_RECONCILIATION_REQUIRED'')
                    else (case s_SpanningTrees s (ManagementID_of (in_Object i)) of
                            None \<Rightarrow> Inl (Fail 409 ''OBJECT_BINDING_CHANGED'')
                          | Some p \<Rightarrow> stage_tree_row c i (tr_Protocol r) ps s p)))
      | _ \<Rightarrow> Inl (Fail 422 ''SPANNING_TREE_SINGLE_INTENT_REQUIRED''))"

section \<open>The contract of a single-intent component\<close>

text \<open>What an edit may not change: everything captured at the first staging. The desired values,
  and with them the two spellings of an MTU operation, are erased. A QinQ context may be captured
  later, when an edit first needs it, but never replaced.\<close>

definition sealed :: "StoredIntent \<Rightarrow> StoredIntent" where
  "sealed i = i\<lparr>
     si_Multicast := map_option (\<lambda>m. m\<lparr>mu_After := mu_Before m\<rparr>) (si_Multicast i),
     si_Isolation := map_option (\<lambda>m. m\<lparr>is_After := is_Before m\<rparr>) (si_Isolation i),
     si_SpanningTree := map_option (\<lambda>m. m\<lparr>tg_After := tg_Before m\<rparr>) (si_SpanningTree i),
     si_Policing := map_option (\<lambda>m. m\<lparr>po_After := po_Before m\<rparr>) (si_Policing i),
     si_MTU := map_option (\<lambda>m. m\<lparr>mt_After := mt_Before m\<rparr>) (si_MTU i),
     si_PortCreation := map_option (\<lambda>p. p\<lparr>ip_VLANID := 0\<rparr>) (si_PortCreation i),
     si_Operation := (if IsMTUOperation (si_Operation i) then InterfaceMTUSet else si_Operation i),
     si_Value := zero_VLAN, si_Bond := None, si_QinQ := None\<rparr>"

definition originals_kept :: "StoredIntent \<Rightarrow> StoredIntent \<Rightarrow> bool" where
  "originals_kept prior i \<longleftrightarrow> sealed i = sealed prior \<and> (si_QinQ prior = None \<or> si_QinQ i = si_QinQ prior)"

lemma originals_kept_refl [simp, intro]: "originals_kept i i"
  by (simp add: originals_kept_def)

lemma originals_kept_trans [trans]:
  "originals_kept a b \<Longrightarrow> originals_kept b c \<Longrightarrow> originals_kept a c"
  by (auto simp: originals_kept_def)

lemma sealed_sel:
  "si_ID (sealed i) = si_ID i" "si_Object (sealed i) = si_Object i" "si_Before (sealed i) = si_Before i"
  "si_Dependency (sealed i) = si_Dependency i" "si_Schema (sealed i) = si_Schema i"
  "si_BeforeBond (sealed i) = si_BeforeBond i" "si_BondMembers (sealed i) = si_BondMembers i"
  "si_Topology (sealed i) = si_Topology i" "si_Creation (sealed i) = si_Creation i"
  "si_Deletion (sealed i) = si_Deletion i" "si_PortDeletion (sealed i) = si_PortDeletion i"
  by (simp_all add: sealed_def)

lemma originals_kept_frame:
  assumes "originals_kept a b"
  shows "si_ID b = si_ID a" "si_Object b = si_Object a" "si_Before b = si_Before a"
    "si_Dependency b = si_Dependency a" "si_Schema b = si_Schema a"
  using assms sealed_sel unfolding originals_kept_def by metis+

fun edit_all ::
    "(Candidate \<Rightarrow> Command \<Rightarrow> Snapshot \<Rightarrow> Candidate res) \<Rightarrow> Candidate \<Rightarrow> (Command \<times> Snapshot) list \<Rightarrow> Candidate res" where
  "edit_all stage c [] = Inr c"
| "edit_all stage c ((cmd, s) # es) =
     (case stage c cmd s of Inl e \<Rightarrow> Inl e | Inr c' \<Rightarrow> edit_all stage c' es)"

locale sealed_component =
  fixes owns :: "string \<Rightarrow> bool"
    and problem_of :: "StoredIntent \<Rightarrow> Snapshot \<Rightarrow> string"
    and stage :: "Candidate \<Rightarrow> Command \<Rightarrow> Snapshot \<Rightarrow> Candidate res"
    and sound_row :: "Intent \<Rightarrow> Snapshot \<Rightarrow> bool"
  assumes stage_single: "stage c cmd s = Inr c' \<Longrightarrow>
      \<exists>r i. cmd_Intents cmd = [r] \<and> c' = single c s i \<and> length (c_Intents c) \<le> 1 \<and>
        owns (in_Operation r) \<and> si_ID i = in_ID r \<and> si_Operation i = in_Operation r \<and>
        ManagementID (in_ID r) \<and> c_Generation c \<in> {None, Some (s_Generation s)} \<and>
        Generation_of (si_Object i) = s_Generation s"
    and stage_edit: "stage c cmd s = Inr (single c s i) \<Longrightarrow> c_Intents c = [prior] \<Longrightarrow>
        owns (si_Operation prior) \<and> originals_kept prior i"
    and stage_fresh: "stage c cmd s = Inr (single c s i) \<Longrightarrow> c_Intents c = [] \<Longrightarrow>
        cmd_Intents cmd = [r] \<Longrightarrow> sound_row r s \<Longrightarrow> problem_of i s = ''''"
begin

lemma stage_result:
  assumes "stage c cmd s = Inr c'"
  obtains i where "c' = single c s i" "owns (si_Operation i)" "ManagementID (si_ID i)"
  using stage_single [OF assms] by metis

lemma stage_keeps:
  assumes "stage c cmd s = Inr c'" and "prior \<in> set (c_Intents c)"
  shows "\<exists>i. c_Intents c' = [i] \<and> originals_kept prior i"
proof -
  obtain i where i: "c' = single c s i" "length (c_Intents c) \<le> 1"
    using stage_single [OF assms(1)] by blast
  with assms(2) have "c_Intents c = [prior]" by (cases "c_Intents c") auto
  with stage_edit [of c cmd s i prior] assms(1) i show ?thesis by (simp add: single_def)
qed

lemma fresh_clean:
  assumes "stage c cmd s = Inr c'" and "c_Intents c = []" and "cmd_Intents cmd = [r]" and "sound_row r s"
  shows "\<exists>i. c_Intents c' = [i] \<and> problem_of i s = ''''"
proof -
  obtain i where i: "c' = single c s i" using stage_single [OF assms(1)] by blast
  with stage_fresh [of c cmd s i r] assms show ?thesis by (simp add: single_def)
qed

lemma edits_keep:
  assumes "edit_all stage c es = Inr c'" and "c_Intents c = [prior]"
  shows "\<exists>i. c_Intents c' = [i] \<and> originals_kept prior i"
  using assms
proof (induction es arbitrary: c prior)
  case (Cons e es)
  obtain cmd s where e: "e = (cmd, s)" by (cases e)
  with Cons.prems obtain d where d: "stage c cmd s = Inr d" "edit_all stage d es = Inr c'"
    by (auto split: sum.splits)
  obtain j where j: "c_Intents d = [j]" "originals_kept prior j"
    using stage_keeps [OF d(1)] Cons.prems(2) by auto
  from Cons.IH [OF d(2) j(1)] j(2) show ?case using originals_kept_trans by blast
qed auto

end

section \<open>Concrete values for the witnesses\<close>

definition sample_id :: string where
  "sample_id = ''00000000-0000-4000-8000-000000000001''"

definition sample_object :: "string \<Rightarrow> Binding" where
  "sample_object table = \<lparr>ManagementID_of = sample_id, OVSUUID = sample_id, Table = table,
     Generation_of = ''g1''\<rparr>"

definition zero_Topology :: TopologySnapshot where
  "zero_Topology = \<lparr>t_MirrorRuntimeFailure = '''', t_MirrorRuntime = '''',
     t_MirrorAuthority = (\<lambda>_. False), t_MirrorCreates = (\<lambda>_. False), t_MirrorAuthorityRevision = '''',
     t_MirrorSupported = False, t_MirrorDefaults = [], t_TunnelAuthority = (\<lambda>_. False),
     t_TunnelCreates = (\<lambda>_. False), t_TunnelTypes = [], t_TunnelAuthorityRevision = '''',
     t_TunnelSupported = False, t_Allocations = [], t_Root = '''', t_RootDependency = '''',
     t_Supported = False, t_Capacity = False, t_Nodes = [], t_Configurations = [], t_Defaults = [],
     t_Authority = (\<lambda>_. False), t_Creates = (\<lambda>_. False), t_Retired = (\<lambda>_. False)\<rparr>"

definition sample_snapshot :: Snapshot where
  "sample_snapshot = \<lparr>s_Multicasts = Map.empty, s_Isolations = Map.empty, s_SpanningTrees = Map.empty,
     s_Topology = zero_Topology, s_Generation = ''g1'', s_Revision = ''r1'', s_Schema = ''s1'',
     s_Policy = ''p1'', s_Ports = Map.empty, s_Interfaces = Map.empty, s_Policings = Map.empty,
     s_Creation = \<lparr>cs_Root = ''root'', cs_Authority = ''local-managed'', cs_Supported = True, cs_Capacity = True,
       cs_AllowedNames = (\<lambda>n. n = ''br1''), cs_Names = (\<lambda>_. False), cs_Objects = Map.empty,
       cs_Retired = (\<lambda>_. False)\<rparr>,
     s_Deletion = \<lparr>ds_AllowedNames = (\<lambda>_. False), ds_Graphs = Map.empty\<rparr>,
     s_PortDeletions = \<lparr>pds_Targets = (\<lambda>_. False), pds_Graphs = Map.empty\<rparr>,
     s_InternalPorts = \<lparr>ips_Supported = False, ips_Capacity = False, ips_Targets = (\<lambda>_. False),
       ips_Parents = Map.empty\<rparr>\<rparr>"

definition sample_request :: Intent where
  "sample_request = \<lparr>in_Multicast = None, in_Protected = None, in_SpanningTree = None, in_Topology = None,
     in_Policing = None, in_ID = sample_id, in_Operation = '''', in_Object = sample_object '''',
     in_Value = zero_VLAN, in_Mode = '''', in_LACP = '''', in_Members = [], in_Fallback = '''',
     in_Name = '''', in_VLANID = 0, in_MTURequest = 0\<rparr>"

definition sample_candidate :: Candidate where
  "sample_candidate = \<lparr>c_ID = sample_id, c_Revision = sample_id, c_Generation = None, c_BaseRevision = None,
     c_State = ''empty'', c_Intents = [], c_Consumed = None\<rparr>"

definition sample_command :: "string \<Rightarrow> Intent list \<Rightarrow> Command" where
  "sample_command op is = \<lparr>cmd_RequestID = '''', cmd_Operation = op, cmd_Intents = is, cmd_IntentIDs = [],
     cmd_Generation = '''', cmd_ConfigRevision = '''', cmd_ConflictSnapshot = None, cmd_Resolutions = []\<rparr>"

definition sample_mtu_row :: InterfaceMTU where
  "sample_mtu_row = \<lparr>im_Binding = sample_object ''Interface'', im_Port = no_binding, im_Bridge = no_binding,
     im_Requested = Some 1500, im_Observed = 1500, im_Default = None, im_Known = True, im_Supported = True,
     im_Eligible = True, im_Authority = ''local-managed'', im_Dependency = ''d1''\<rparr>"

definition sample_mtu_snapshot :: Snapshot where
  "sample_mtu_snapshot = sample_snapshot\<lparr>s_Interfaces := [sample_id \<mapsto> sample_mtu_row]\<rparr>"

definition sample_mtu_request :: "int \<Rightarrow> Intent" where
  "sample_mtu_request n = sample_request\<lparr>in_Operation := InterfaceMTUSet,
     in_Object := sample_object ''Interface'', in_MTURequest := n\<rparr>"

definition sample_mtu_draft :: "int \<Rightarrow> StoredIntent" where
  "sample_mtu_draft n = (captured (sample_mtu_request n) sample_mtu_snapshot ''d1'')
     \<lparr>si_MTU := Some \<lparr>mt_Before = Some 1500, mt_After = Some n, mt_Port = no_binding, mt_Bridge = no_binding,
        mt_Default = None, mt_Compensating = False\<rparr>\<rparr>"

lemma sample_id_valid [simp]: "ManagementID sample_id"
  by (simp add: ManagementID_def UUID_def sample_id_def no_dash_def lower_def hex_val_def)

lemmas sample_defs =
  sample_snapshot_def sample_request_def sample_object_def sample_candidate_def sample_command_def
  sample_mtu_row_def sample_mtu_snapshot_def sample_mtu_request_def no_port_fields_def generation_changed_def

section \<open>MTU implements the contract\<close>

lemma single_inject [simp]: "single c s i = single c s j \<longleftrightarrow> i = j"
  by (auto simp: single_def dest: arg_cong [where f = c_Intents])

lemma captured_sel [simp]:
  "si_ID (captured i s d) = in_ID i" "si_Operation (captured i s d) = in_Operation i"
  "si_Object (captured i s d) = in_Object i" "si_Schema (captured i s d) = s_Schema s"
  "si_Dependency (captured i s d) = d"
  by (simp_all add: captured_def)

lemma generation_unchanged:
  "\<not> generation_changed c b s \<Longrightarrow>
    Generation_of b = s_Generation s \<and> c_Generation c \<in> {None, Some (s_Generation s)}"
  by (auto simp: generation_changed_def split: option.splits)

lemma stageMTU_Inr:
  assumes "stageMTU c cmd s = Inr c'"
  obtains r p where "cmd_Intents cmd = [r]" "length (c_Intents c) \<le> 1" "IsMTUOperation (in_Operation r)"
    "ManagementID (in_ID r)" "Table (in_Object r) = ''Interface''"
    "in_Operation r = InterfaceMTUSet \<Longrightarrow> ValidMTU (in_MTURequest r)"
    "\<not> generation_changed c (in_Object r) s"
    "s_Interfaces s (ManagementID_of (in_Object r)) = Some p" "stage_mtu_row c r s p = Inr c'"
  using assms by (auto simp: stageMTU_def not_less split: list.splits if_splits option.splits)

lemma stage_mtu_row_cases:
  assumes "stage_mtu_row c r s p = Inr c'" and "length (c_Intents c) \<le> 1"
  obtains (fresh) m where "c_Intents c = []" "c' = single c s ((captured r s (im_Dependency p))\<lparr>si_MTU := Some m\<rparr>)"
      "m = \<lparr>mt_Before = im_Requested p,
          mt_After = (if in_Operation r = InterfaceMTUSet then Some (in_MTURequest r) else None),
          mt_Port = im_Port p, mt_Bridge = im_Bridge p,
          mt_Default = (if im_Requested p = None \<or> in_Operation r \<noteq> InterfaceMTUSet then im_Default p else None),
          mt_Compensating = False\<rparr>"
      "MTUEditable p" "im_Binding p = in_Object r" "in_Operation r = InterfaceMTUClear \<Longrightarrow> MTUClearable p"
  | (edit) prior pm after where "c_Intents c = [prior]" "si_MTU prior = Some pm" "si_ID prior = in_ID r"
      "IsMTUOperation (si_Operation prior)" "si_Object prior = in_Object r"
      "c' = single c s (prior\<lparr>si_MTU := Some (pm\<lparr>mt_After := after\<rparr>), si_Operation := in_Operation r\<rparr>)"
proof (cases "c_Intents c")
  case Nil
  with assms show ?thesis by (intro fresh) (auto simp: stage_mtu_row_def split: if_splits)
next
  case (Cons prior rest)
  with assms(2) have "rest = []" by simp
  with Cons assms(1) show ?thesis
    by (auto simp: stage_mtu_row_def Let_def intro: edit split: if_splits option.splits)
qed

lemma MTU_ops_distinct [simp]: "InterfaceMTUSet \<noteq> InterfaceMTUClear" "InterfaceMTUClear \<noteq> InterfaceMTUSet"
  by (simp_all add: InterfaceMTUSet_def InterfaceMTUClear_def)

lemma IsMTUOperation_simps [simp]: "IsMTUOperation InterfaceMTUSet" "IsMTUOperation InterfaceMTUClear"
  by (simp_all add: IsMTUOperation_def)

text \<open>A snapshot row whose reported default is itself a valid MTU.\<close>

definition mtu_sound_row :: "Intent \<Rightarrow> Snapshot \<Rightarrow> bool" where
  "mtu_sound_row r s \<longleftrightarrow>
     (case s_Interfaces s (ManagementID_of (in_Object r)) of
        None \<Rightarrow> False
      | Some p \<Rightarrow> (case im_Default p of None \<Rightarrow> True | Some d \<Rightarrow> ValidMTU (md_MTU d)))"

lemma stageMTU_fresh_clean:
  assumes "stageMTU c cmd s = Inr (single c s i)" and "c_Intents c = []" and "cmd_Intents cmd = [r]"
    and "mtu_sound_row r s"
  shows "mtuProblem i s = ''''"
  using assms(1)
proof (cases rule: stageMTU_Inr)
  case (1 r' p)
  with assms(3) have [simp]: "r' = r" by simp
  from 1(9,2) show ?thesis
  proof (cases rule: stage_mtu_row_cases)
    case (fresh m)
    have op: "in_Operation r = InterfaceMTUSet \<or> in_Operation r = InterfaceMTUClear"
      using 1(3) by (auto simp: IsMTUOperation_def)
    have gen: "Generation_of (in_Object r) = s_Generation s" using generation_unchanged [OF 1(7)] by simp
    have "\<not> mtu_malformed i m" and "mtu_row_problem i m s p = ''''"
      using op fresh 1(5,6,8) assms(4)
      by (auto simp: mtu_malformed_def mtu_row_problem_def validMTURequest_def mtu_sound_row_def
          MTUEditable_def MTUClearable_def MTUOriginalDeviceRequired_def OriginalMTU_def split: option.splits)
    then show ?thesis using fresh 1(8) gen by (simp add: mtuProblem_def)
  qed (use assms(2) in simp)
qed

interpretation mtu: sealed_component IsMTUOperation mtuProblem stageMTU mtu_sound_row
proof
  fix c cmd s c'
  assume "stageMTU c cmd s = Inr c'"
  then show "\<exists>r i. cmd_Intents cmd = [r] \<and> c' = single c s i \<and> length (c_Intents c) \<le> 1 \<and>
      IsMTUOperation (in_Operation r) \<and> si_ID i = in_ID r \<and> si_Operation i = in_Operation r \<and>
      ManagementID (in_ID r) \<and> c_Generation c \<in> {None, Some (s_Generation s)} \<and>
        Generation_of (si_Object i) = s_Generation s"
  proof (cases rule: stageMTU_Inr)
    case (1 r p)
    from 1(9,2) show ?thesis
      by (cases rule: stage_mtu_row_cases) (use 1 generation_unchanged [OF 1(7)] in auto)
  qed
next
  fix c cmd s i prior
  assume st: "stageMTU c cmd s = Inr (single c s i)" and one: "c_Intents c = [prior]"
  from st show "IsMTUOperation (si_Operation prior) \<and> originals_kept prior i"
  proof (cases rule: stageMTU_Inr)
    case (1 r p)
    from 1(9,2) show ?thesis
      by (cases rule: stage_mtu_row_cases)
        (use one 1(3) in \<open>auto simp: originals_kept_def sealed_def\<close>)
  qed
qed (rule stageMTU_fresh_clean)

section \<open>Policing, isolation and multicast implement the contract\<close>

lemma at_most_one:
  assumes "length xs \<le> 1"
  obtains "xs = []" | x where "xs = [x]"
  using assms by (cases xs) auto

lemma requestedPolicing_valid: "requestedPolicing r = (after, True) \<Longrightarrow> ValidPolicing after"
  by (auto simp: requestedPolicing_def Let_def zero_Policing_def ValidPolicing_def
      split: option.splits if_splits)

lemma stagePolicing_Inr:
  assumes "stagePolicing c cmd s = Inr c'"
  obtains r p after where "cmd_Intents cmd = [r]" "length (c_Intents c) \<le> 1"
    "in_Operation r = InterfacePolicingSet" "ManagementID (in_ID r)" "Table (in_Object r) = ''Interface''"
    "ValidPolicing after" "\<not> generation_changed c (in_Object r) s"
    "s_Policings s (ManagementID_of (in_Object r)) = Some p" "stage_policing_row c r after s p = Inr c'"
  using assms by (auto simp: stagePolicing_def not_less dest: requestedPolicing_valid
      split: list.splits if_splits option.splits prod.splits)

definition policing_sound_row :: "Intent \<Rightarrow> Snapshot \<Rightarrow> bool" where
  "policing_sound_row r s \<longleftrightarrow>
     (case s_Policings s (ManagementID_of (in_Object r)) of
        None \<Rightarrow> False | Some p \<Rightarrow> pp_Name p \<noteq> '''' \<and> 0 < pp_IfIndex p)"

interpretation policing: sealed_component "\<lambda>op. op = InterfacePolicingSet" policingProblem stagePolicing
  policing_sound_row
proof
  fix c cmd s c'
  assume "stagePolicing c cmd s = Inr c'"
  then show "\<exists>r i. cmd_Intents cmd = [r] \<and> c' = single c s i \<and> length (c_Intents c) \<le> 1 \<and>
      in_Operation r = InterfacePolicingSet \<and> si_ID i = in_ID r \<and> si_Operation i = in_Operation r \<and>
      ManagementID (in_ID r) \<and> c_Generation c \<in> {None, Some (s_Generation s)} \<and>
        Generation_of (si_Object i) = s_Generation s"
  proof (cases rule: stagePolicing_Inr)
    case (1 r p after)
    from 1(2) show ?thesis
      by (cases rule: at_most_one)
        (use 1 generation_unchanged [OF 1(7)] in \<open>auto simp: stage_policing_row_def split: if_splits option.splits\<close>)
  qed
next
  fix c cmd s i prior
  assume "stagePolicing c cmd s = Inr (single c s i)" and "c_Intents c = [prior]"
  then show "si_Operation prior = InterfacePolicingSet \<and> originals_kept prior i"
    by (elim stagePolicing_Inr)
      (auto simp: stage_policing_row_def originals_kept_def sealed_def split: if_splits option.splits)
next
  fix c cmd s i r
  assume st: "stagePolicing c cmd s = Inr (single c s i)" and "c_Intents c = []"
    and "cmd_Intents cmd = [r]" and "policing_sound_row r s"
  from st show "policingProblem i s = ''''"
  proof (cases rule: stagePolicing_Inr)
    case (1 r' p after)
    with \<open>c_Intents c = []\<close> \<open>cmd_Intents cmd = [r]\<close> \<open>policing_sound_row r s\<close> show ?thesis
      using generation_unchanged [OF 1(7)]
      by (auto simp: stage_policing_row_def policingProblem_def PolicingEditable_def policing_sound_row_def
          split: if_splits)
  qed
qed

lemma stageIsolation_Inr:
  assumes "stageIsolation c cmd s = Inr c'"
  obtains r p after where "cmd_Intents cmd = [r]" "length (c_Intents c) \<le> 1"
    "in_Operation r = PortIsolationSet" "ManagementID (in_ID r)" "Table (in_Object r) = ''Port''"
    "\<not> generation_changed c (in_Object r) s"
    "s_Isolations s (ManagementID_of (in_Object r)) = Some p" "stage_isolation_row c r after s p = Inr c'"
  using assms by (auto simp: stageIsolation_def not_less split: list.splits if_splits option.splits)

interpretation isolation: sealed_component "\<lambda>op. op = PortIsolationSet" isolationProblem stageIsolation
  "\<lambda>_ _. True"
proof
  fix c cmd s c'
  assume "stageIsolation c cmd s = Inr c'"
  then show "\<exists>r i. cmd_Intents cmd = [r] \<and> c' = single c s i \<and> length (c_Intents c) \<le> 1 \<and>
      in_Operation r = PortIsolationSet \<and> si_ID i = in_ID r \<and> si_Operation i = in_Operation r \<and>
      ManagementID (in_ID r) \<and> c_Generation c \<in> {None, Some (s_Generation s)} \<and>
        Generation_of (si_Object i) = s_Generation s"
  proof (cases rule: stageIsolation_Inr)
    case (1 r p after)
    from 1(2) show ?thesis
      by (cases rule: at_most_one)
        (use 1 generation_unchanged [OF 1(6)] in \<open>auto simp: stage_isolation_row_def split: if_splits option.splits\<close>)
  qed
next
  fix c cmd s i prior
  assume "stageIsolation c cmd s = Inr (single c s i)" and "c_Intents c = [prior]"
  then show "si_Operation prior = PortIsolationSet \<and> originals_kept prior i"
    by (elim stageIsolation_Inr)
      (auto simp: stage_isolation_row_def originals_kept_def sealed_def split: if_splits option.splits)
next
  fix c cmd s i r
  assume "stageIsolation c cmd s = Inr (single c s i)" and "c_Intents c = []"
  then show "isolationProblem i s = ''''"
    by (elim stageIsolation_Inr)
      (auto simp: stage_isolation_row_def isolationProblem_def IsolationEditable_def
        dest: generation_unchanged split: if_splits)
qed

lemma same_mcast_refl [simp]: "same_mcast c c"
  by (simp add: same_mcast_def)

lemma Merge_valid:
  "Merge before r = Inr after \<Longrightarrow> Validate_mcast before = None \<and> Validate_mcast after = None"
  by (auto simp: Merge_def Let_def split: option.splits sum.splits)

lemma stageMulticast_Inr:
  assumes "stageMulticast c cmd s = Inr c'"
  obtains r p q where "cmd_Intents cmd = [r]" "length (c_Intents c) \<le> 1"
    "in_Operation r = BridgeMulticastSet" "ManagementID (in_ID r)" "Table (in_Object r) = ''Bridge''"
    "\<not> generation_changed c (in_Object r) s" "in_Multicast r = Some q"
    "s_Multicasts s (ManagementID_of (in_Object r)) = Some p" "stage_multicast_row c r q s p = Inr c'"
  using assms by (auto simp: stageMulticast_def not_less split: list.splits if_splits option.splits)

lemma stage_multicast_row_cases:
  assumes "stage_multicast_row c r q s p = Inr c'" and "length (c_Intents c) \<le> 1"
  obtains (fresh) after where "c_Intents c = []" "Merge (mb_Configuration p) q = Inr after"
      "mb_Binding p = in_Object r" "MulticastEditable p"
      "c' = single c s ((captured r s (mb_Dependency p))
         \<lparr>si_Multicast := Some \<lparr>mu_Before = mb_Configuration p, mu_After = after\<rparr>\<rparr>)"
  | (edit) prior m after where "c_Intents c = [prior]" "si_Multicast prior = Some m"
      "Merge (mu_Before m) q = Inr after" "si_ID prior = in_ID r" "si_Operation prior = in_Operation r"
      "si_Object prior = in_Object r"
      "c' = single c s (prior\<lparr>si_Multicast := Some \<lparr>mu_Before = mu_Before m, mu_After = after\<rparr>\<rparr>)"
  using assms(2)
proof (cases rule: at_most_one)
  case 1
  with assms(1) show ?thesis
    by (auto simp: stage_multicast_row_def intro: fresh split: if_splits sum.splits)
next
  case (2 x)
  with assms(1) show ?thesis
    by (auto simp: stage_multicast_row_def intro: edit split: if_splits sum.splits option.splits)
qed

interpretation multicast: sealed_component "\<lambda>op. op = BridgeMulticastSet" multicastProblem stageMulticast
  "\<lambda>_ _. True"
proof
  fix c cmd s c'
  assume "stageMulticast c cmd s = Inr c'"
  then show "\<exists>r i. cmd_Intents cmd = [r] \<and> c' = single c s i \<and> length (c_Intents c) \<le> 1 \<and>
      in_Operation r = BridgeMulticastSet \<and> si_ID i = in_ID r \<and> si_Operation i = in_Operation r \<and>
      ManagementID (in_ID r) \<and> c_Generation c \<in> {None, Some (s_Generation s)} \<and>
        Generation_of (si_Object i) = s_Generation s"
  proof (cases rule: stageMulticast_Inr)
    case (1 r p q)
    from 1(9,2) show ?thesis
      by (cases rule: stage_multicast_row_cases) (use 1 generation_unchanged [OF 1(6)] in auto)
  qed
next
  fix c cmd s i prior
  assume st: "stageMulticast c cmd s = Inr (single c s i)" and one: "c_Intents c = [prior]"
  from st show "si_Operation prior = BridgeMulticastSet \<and> originals_kept prior i"
  proof (cases rule: stageMulticast_Inr)
    case (1 r p q)
    from 1(9,2) show ?thesis
      by (cases rule: stage_multicast_row_cases)
        (use one 1(3) in \<open>auto simp: originals_kept_def sealed_def\<close>)
  qed
next
  fix c cmd s i r
  assume st: "stageMulticast c cmd s = Inr (single c s i)" and none: "c_Intents c = []"
  from st show "multicastProblem i s = ''''"
  proof (cases rule: stageMulticast_Inr)
    case (1 r p q)
    from 1(9,2) show ?thesis
      by (cases rule: stage_multicast_row_cases)
        (use none 1(3,5,8) generation_unchanged [OF 1(6)] Merge_valid in
          \<open>auto simp: multicastProblem_def MulticastEditable_def\<close>)
  qed
qed

section \<open>Spanning tree implements the contract\<close>

definition tree_params_ok :: "string option gomap \<Rightarrow> bool" where
  "tree_params_ok m \<longleftrightarrow> dom (map_of m) = set SpanningTreeBasicKeys \<and>
     (\<forall>k v. map_of m k = Some (Some v) \<longrightarrow> length v \<le> 128)"

lemma distinct_tree_keys: "distinct SpanningTreeBasicKeys"
  by (simp add: SpanningTreeBasicKeys_def)

lemma treeConfigValid_iff: "treeConfigValid c \<longleftrightarrow> tree_params_ok (tc_Parameters c)"
proof
  assume v: "treeConfigValid c"
  have "\<forall>k \<in> set SpanningTreeBasicKeys. map_of (tc_Parameters c) k \<noteq> None"
    using v by (fastforce simp: treeConfigValid_def list_all_iff split: option.splits)
  then have d: "dom (map_of (tc_Parameters c)) = set SpanningTreeBasicKeys"
    by (rule mlen_exact_keys [OF distinct_tree_keys]) (use v in \<open>simp add: treeConfigValid_def\<close>)
  moreover have "length t \<le> 128" if "map_of (tc_Parameters c) k = Some (Some t)" for k t
    using v that d by (force simp: treeConfigValid_def list_all_iff split: option.splits)
  ultimately show "tree_params_ok (tc_Parameters c)" by (simp add: tree_params_ok_def)
next
  assume ok: "tree_params_ok (tc_Parameters c)"
  then have "mlen (tc_Parameters c) = length SpanningTreeBasicKeys"
    using distinct_card [OF distinct_tree_keys] by (simp add: tree_params_ok_def mlen_card)
  then show "treeConfigValid c"
    using ok by (force simp: treeConfigValid_def list_all_iff tree_params_ok_def split: option.splits)
qed

lemma tree_merge_params_ok:
  "tree_merge protocol out ps = Some out' \<Longrightarrow> tree_params_ok out \<Longrightarrow> tree_params_ok out'"
proof (induction protocol out ps rule: tree_merge.induct)
  case (2 protocol out k v r)
  from "2.prems"(1) have ok: "tree_param_ok protocol k v" by (simp split: if_splits)
  with "2.prems"(2) have "tree_params_ok (AList.update k v out)"
    by (auto simp: tree_params_ok_def tree_param_ok_def update_conv' split: option.splits if_splits)
  with "2.IH" "2.prems"(1) ok show ?case by simp
qed simp

lemma tree_merge_lookup:
  assumes "tree_merge protocol out ps = Some out'" and "distinct (map fst ps)"
  shows "map_of out' = map_of out ++ map_of ps \<and> list_all (\<lambda>(k, v). tree_param_ok protocol k v) ps"
  using assms
proof (induction protocol out ps rule: tree_merge.induct)
  case (2 protocol out k v r)
  from "2.prems"(1) have ok: "tree_param_ok protocol k v"
    and rec: "tree_merge protocol (AList.update k v out) r = Some out'"
    by (simp_all split: if_splits)
  with "2.IH" "2.prems"(2) have "map_of out' = map_of (AList.update k v out) ++ map_of r"
    "list_all (\<lambda>(k, v). tree_param_ok protocol k v) r" by simp_all
  moreover have "k \<notin> dom (map_of r)" using "2.prems"(2) by (simp add: dom_map_of_conv_image_fst)
  ultimately show ?case
    using ok by (auto simp: update_conv' fun_eq_iff map_add_def split: option.splits)
qed simp

lemma stageSpanningTree_Inr:
  assumes "stageSpanningTree c cmd s = Inr c'"
  obtains r p q ps where "cmd_Intents cmd = [r]" "length (c_Intents c) \<le> 1"
    "IsSpanningTreeOperation (in_Operation r)" "ManagementID (in_ID r)" "Table (in_Object r) = ''Bridge''"
    "\<not> generation_changed c (in_Object r) s" "in_SpanningTree r = Some q" "tr_Parameters q = Some ps"
    "tr_Protocol q \<in> {''disabled'', ''stp'', ''rstp''}"
    "s_SpanningTrees s (ManagementID_of (in_Object r)) = Some p"
    "stage_tree_row c r (tr_Protocol q) ps s p = Inr c'"
  using assms by (auto simp: stageSpanningTree_def not_less split: list.splits if_splits option.splits)

lemma stage_tree_row_cases:
  assumes "stage_tree_row c r protocol ps s p = Inr c'" and "length (c_Intents c) \<le> 1"
  obtains j before out where "tree_merge protocol (tc_Parameters before) ps = Some out"
    "c' = single c s (j\<lparr>si_SpanningTree := Some \<lparr>tg_Before = before,
       tg_After = \<lparr>tc_STP = (protocol = ''stp''), tc_RSTP = (protocol = ''rstp''), tc_Parameters = out\<rparr>\<rparr>\<rparr>)"
    "si_ID j = in_ID r" "si_Operation j = in_Operation r" "si_Object j = in_Object r" "tb_Binding p = in_Object r"
    "TreePreparationProblem p = ''''" "in_Operation r = SpanningTreeConfigure \<Longrightarrow> tb_Executable p"
    "(c_Intents c = [] \<and> j = captured r s (tb_Dependency p) \<and> before = tb_Configuration p) \<or>
     (\<exists>m. c_Intents c = [j] \<and> si_SpanningTree j = Some m \<and> before = tg_Before m)"
  using assms(2)
proof (cases rule: at_most_one)
  case 1
  from assms(1) obtain out where "tree_merge protocol (tc_Parameters (tb_Configuration p)) ps = Some out"
    using 1 by (auto simp: stage_tree_row_def split: if_splits option.splits)
  with 1 assms(1) show ?thesis
    by (intro that [of "tb_Configuration p" out "captured r s (tb_Dependency p)"])
      (auto simp: stage_tree_row_def split: if_splits)
next
  case (2 x)
  from assms(1) obtain m out where m: "si_SpanningTree x = Some m"
      "tree_merge protocol (tc_Parameters (tg_Before m)) ps = Some out"
    using 2 by (auto simp: stage_tree_row_def split: if_splits option.splits)
  with 2 assms(1) show ?thesis
    by (intro that [of "tg_Before m" out x]) (auto simp: stage_tree_row_def split: if_splits)
qed

definition tree_sound_row :: "Intent \<Rightarrow> Snapshot \<Rightarrow> bool" where
  "tree_sound_row r s \<longleftrightarrow>
     (case s_SpanningTrees s (ManagementID_of (in_Object r)) of
        None \<Rightarrow> False | Some p \<Rightarrow> treeConfigValid (tb_Configuration p))"

interpretation tree: sealed_component IsSpanningTreeOperation spanningTreeProblem stageSpanningTree
  tree_sound_row
proof
  fix c cmd s c'
  assume "stageSpanningTree c cmd s = Inr c'"
  then show "\<exists>r i. cmd_Intents cmd = [r] \<and> c' = single c s i \<and> length (c_Intents c) \<le> 1 \<and>
      IsSpanningTreeOperation (in_Operation r) \<and> si_ID i = in_ID r \<and> si_Operation i = in_Operation r \<and>
      ManagementID (in_ID r) \<and> c_Generation c \<in> {None, Some (s_Generation s)} \<and>
        Generation_of (si_Object i) = s_Generation s"
  proof (cases rule: stageSpanningTree_Inr)
    case (1 r p q ps)
    from 1(11,2) show ?thesis
      by (cases rule: stage_tree_row_cases) (use 1 generation_unchanged [OF 1(6)] in auto)
  qed
next
  fix c cmd s i prior
  assume st: "stageSpanningTree c cmd s = Inr (single c s i)" and one: "c_Intents c = [prior]"
  from st show "IsSpanningTreeOperation (si_Operation prior) \<and> originals_kept prior i"
  proof (cases rule: stageSpanningTree_Inr)
    case (1 r p q ps)
    from 1(11,2) show ?thesis
      by (cases rule: stage_tree_row_cases)
        (use one 1(3) in \<open>auto simp: originals_kept_def sealed_def\<close>)
  qed
next
  fix c cmd s i r
  assume st: "stageSpanningTree c cmd s = Inr (single c s i)" and none: "c_Intents c = []"
    and r: "cmd_Intents cmd = [r]" "tree_sound_row r s"
  from st show "spanningTreeProblem i s = ''''"
  proof (cases rule: stageSpanningTree_Inr)
    case (1 r' p q ps)
    from 1(11,2) show ?thesis
      by (cases rule: stage_tree_row_cases)
        (use none r 1(1,3,5,10) generation_unchanged [OF 1(6)] in
          \<open>auto simp: spanningTreeProblem_def tree_sound_row_def treeConfigValid_iff same_tree_def
             dest: tree_merge_params_ok\<close>)
  qed
qed

section \<open>Properties\<close>

text \<open>Editing a staged MTU, policing, isolation, multicast or spanning-tree draft any number of
  times, against whatever snapshots, never replaces what was captured when it was first staged:
  the draft stays the candidate's only intent and keeps its identity, object, before value,
  dependency, schema and captured context.\<close>

theorem edits_keep_captured_original:
  assumes "stage \<in> {stageMTU, stagePolicing, stageIsolation, stageMulticast, stageSpanningTree}"
    and "edit_all stage c edits = Inr c'" and "c_Intents c = [prior]"
  shows "\<exists>i. c_Intents c' = [i] \<and> originals_kept prior i"
  using assms(1)
  by (elim insertE emptyE; hypsubst)
    (rule mtu.edits_keep policing.edits_keep isolation.edits_keep multicast.edits_keep tree.edits_keep;
      use assms in simp)+

text \<open>A freshly staged draft of any of these components describes the current native row:
  comparing it with the snapshot it was captured from reports no problem, so a draft never starts
  in conflict. The row reported by the provider only has to be well formed.\<close>

theorem fresh_draft_is_clean:
  assumes "(stage, problem_of, sound) \<in> {(stageMTU, mtuProblem, mtu_sound_row),
      (stagePolicing, policingProblem, policing_sound_row), (stageIsolation, isolationProblem, \<lambda>_ _. True),
      (stageMulticast, multicastProblem, \<lambda>_ _. True), (stageSpanningTree, spanningTreeProblem, tree_sound_row)}"
    and "stage c cmd s = Inr c'" and "c_Intents c = []" and "cmd_Intents cmd = [r]" and "sound r s"
  shows "\<exists>i. c_Intents c' = [i] \<and> problem_of i s = ''''"
  using assms(1)
  by (elim insertE emptyE; clarsimp)
    (rule mtu.fresh_clean policing.fresh_clean isolation.fresh_clean multicast.fresh_clean tree.fresh_clean;
      use assms in simp)+

text \<open>An MTU comparison that reports no problem pins the whole transition: a set request is a
  valid MTU, clearing relies on a valid captured default, the current request is the captured one,
  and a change between a default and an explicit request is only accepted while the device still
  shows the original MTU.\<close>

theorem mtu_clean_sound:
  assumes "mtuProblem i s = ''''"
  shows "\<exists>m p. si_MTU i = Some m \<and> s_Interfaces s (ManagementID_of (si_Object i)) = Some p \<and>
    im_Binding p = si_Object i \<and> im_Requested p = mt_Before m \<and> im_Dependency p = si_Dependency i \<and>
    ValidMTU (ExpectedMTU m) \<and> ValidMTU (OriginalMTU m) \<and>
    (mt_After m = None \<longleftrightarrow> si_Operation i = InterfaceMTUClear) \<and>
    (MTUOriginalDeviceRequired m \<longrightarrow> im_Observed p = OriginalMTU m)"
proof -
  obtain m where m: "si_MTU i = Some m" "\<not> mtu_malformed i m"
    using assms by (auto simp: mtuProblem_def split: option.splits if_splits)
  then obtain p where p: "s_Interfaces s (ManagementID_of (si_Object i)) = Some p"
      "mtu_row_problem i m s p = ''''"
    using assms by (auto simp: mtuProblem_def split: option.splits if_splits)
  have "ValidMTU (ExpectedMTU m)" "ValidMTU (OriginalMTU m)" "mt_After m = None \<longleftrightarrow> si_Operation i = InterfaceMTUClear"
    using m(2) by (auto simp: mtu_malformed_def ExpectedMTU_def OriginalMTU_def validMTURequest_def
        IsMTUOperation_def split: option.splits)
  then show ?thesis
    using m(1) p by (auto simp: mtu_row_problem_def split: if_splits)
qed

lemma AssessSetterOrder_Nil: "tr_Checks (AssessSetterOrder a b) = [] \<Longrightarrow> AssessSetterOrder a b = compatible"
  by (auto simp: AssessSetterOrder_def Let_def blocked_def split: if_splits)

text \<open>The spanning-tree gates pass only for the executable operation on a Bridge that grants it,
  from a valid original to a valid target, over a setter order that is installable in both
  directions: a preparation draft can never pass them.\<close>

theorem spanningTreeChecks_sound:
  assumes "Passed (spanningTreeChecks i s)" and "IsSpanningTreeOperation (si_Operation i)"
    and "si_SpanningTree i = Some m"
  shows "si_Operation i = SpanningTreeConfigure \<and>
    cfg_valid (treeConfiguration (tg_Before m)) \<and> cfg_valid (treeConfiguration (tg_After m)) \<and>
    AssessSetterOrder (treeConfiguration (tg_Before m)) (treeConfiguration (tg_After m)) = compatible \<and>
    (\<exists>p. s_SpanningTrees s (ManagementID_of (si_Object i)) = Some p \<and> tb_Executable p)"
proof -
  have blocked_list: "Passed (map (\<lambda>x. gate (f x) ''blocked'' n) xs) \<longleftrightarrow> xs = []" for f :: "'b \<Rightarrow> string" and n xs
    by (cases xs) auto
  have op: "si_Operation i = SpanningTreeConfigure" "si_Operation i \<noteq> SpanningTreePrepare"
    using assms(1,2) by (auto simp: spanningTreeChecks_def IsSpanningTreeOperation_def Let_def split: if_splits)
  have exec: "tb_Executable (at_or (s_SpanningTrees s) (ManagementID_of (si_Object i)) zero_SpanningTreeBridge)"
    using assms op by (simp add: spanningTreeChecks_def Let_def)
  have before: "v_State (treeAssessment (tg_Before m)) = ''valid''"
    and "v_Checks (treeAssessment (tg_After m)) = []"
    using assms op by (simp_all add: spanningTreeChecks_def Let_def blocked_list)
  then have after: "v_State (treeAssessment (tg_After m)) = ''valid''"
    by (simp add: treeAssessment_def treeConfiguration_def Validate_checks_Nil)
  then have "tr_Checks (AssessSetterOrder (treeConfiguration (tg_Before m)) (treeConfiguration (tg_After m))) = []"
    using assms op before by (simp add: spanningTreeChecks_def Let_def blocked_list)
  then show ?thesis
    using op exec before after AssessSetterOrder_Nil
    by (auto simp: cfg_valid_def treeAssessment_def at_or_def zero_SpanningTreeBridge_def Let_def
        split: option.splits)
qed

section \<open>Witnesses\<close>

lemma sample_mtu_stage:
  "stageMTU sample_candidate (sample_command ''stage'' [sample_mtu_request 9000]) sample_mtu_snapshot
   = Inr (single sample_candidate sample_mtu_snapshot (sample_mtu_draft 9000))"
  by (simp add: stageMTU_def stage_mtu_row_def sample_defs sample_mtu_draft_def captured_def MTUEditable_def
      ValidMTU_def validMTURequest_def)

lemma sample_mtu_restage:
  "stageMTU (single sample_candidate sample_mtu_snapshot (sample_mtu_draft 9000))
     (sample_command ''stage'' [sample_mtu_request 1400]) sample_mtu_snapshot
   = Inr (single sample_candidate sample_mtu_snapshot (sample_mtu_draft 1400))"
  by (simp add: stageMTU_def stage_mtu_row_def sample_defs sample_mtu_draft_def captured_def MTUEditable_def
      ValidMTU_def validMTURequest_def single_def)

theorem edits_keep_captured_original_witness:
  "\<exists>i. c_Intents (single sample_candidate sample_mtu_snapshot (sample_mtu_draft 1400)) = [i] \<and>
     originals_kept (sample_mtu_draft 9000) i"
  by (rule edits_keep_captured_original [of stageMTU
        "single sample_candidate sample_mtu_snapshot (sample_mtu_draft 9000)"
        "[(sample_command ''stage'' [sample_mtu_request 1400], sample_mtu_snapshot)]"])
    (simp_all add: sample_mtu_restage, simp add: single_def)

theorem fresh_draft_is_clean_witness:
  "\<exists>i. c_Intents (single sample_candidate sample_mtu_snapshot (sample_mtu_draft 9000)) = [i] \<and>
     mtuProblem i sample_mtu_snapshot = ''''"
  by (rule fresh_draft_is_clean [of stageMTU mtuProblem mtu_sound_row sample_candidate
        "sample_command ''stage'' [sample_mtu_request 9000]" _ _ "sample_mtu_request 9000"])
    (simp_all add: sample_mtu_stage, simp_all add: sample_defs mtu_sound_row_def)

lemma sample_mtu_clean: "mtuProblem (sample_mtu_draft 9000) sample_mtu_snapshot = ''''"
  by (simp add: mtuProblem_def mtu_malformed_def mtu_row_problem_def sample_defs sample_mtu_draft_def
      ValidMTU_def validMTURequest_def MTUOriginalDeviceRequired_def)

theorem mtu_clean_sound_witness:
  "\<exists>m. si_MTU (sample_mtu_draft 9000) = Some m \<and> ValidMTU (ExpectedMTU m)"
  using mtu_clean_sound [OF sample_mtu_clean] by blast

definition sample_tree :: "bool \<Rightarrow> SpanningTreeConfig" where
  "sample_tree on = \<lparr>tc_STP = False, tc_RSTP = on, tc_Parameters = map (\<lambda>k. (k, None)) SpanningTreeBasicKeys\<rparr>"

definition sample_tree_intent :: StoredIntent where
  "sample_tree_intent = zero_intent\<lparr>si_Operation := SpanningTreeConfigure,
     si_Object := sample_object ''Bridge'',
     si_SpanningTree := Some \<lparr>tg_Before = sample_tree False, tg_After = sample_tree True\<rparr>\<rparr>"

definition sample_tree_snapshot :: Snapshot where
  "sample_tree_snapshot = sample_snapshot\<lparr>s_SpanningTrees :=
     [sample_id \<mapsto> zero_SpanningTreeBridge\<lparr>tb_Executable := True\<rparr>]\<rparr>"

lemma sample_tree_cfg: "treeConfiguration (sample_tree b) = \<lparr>cfg_STP = Some False, cfg_RSTP = Some b, cfg_Other = Some []\<rparr>"
  by (simp add: treeConfiguration_def sample_tree_def SpanningTreeBasicKeys_def)

lemma sample_tree_valid: "v_State (treeAssessment (sample_tree b)) = ''valid''" "cfg_valid (treeConfiguration (sample_tree b))"
  by (simp_all add: treeAssessment_def sample_tree_cfg Validate_valid_iff well_configured_def param_value_def cfg_valid_def)

theorem spanningTreeChecks_sound_witness:
  "AssessSetterOrder (treeConfiguration (sample_tree False)) (treeConfiguration (sample_tree True)) = compatible"
proof -
  have order: "AssessSetterOrder (treeConfiguration (sample_tree False)) (treeConfiguration (sample_tree True)) = compatible"
    using sample_tree_valid
    by (simp add: AssessSetterOrder_def sample_tree_cfg Protocol_def ExpectedLocal_def local_values_def number_def)
  have "v_Checks (treeAssessment (sample_tree True)) = []"
    using sample_tree_valid(1) [of True] by (simp add: treeAssessment_def sample_tree_cfg Validate_checks_Nil)
  then have "Passed (spanningTreeChecks sample_tree_intent sample_tree_snapshot)"
    using order sample_tree_valid(1)
    by (simp add: spanningTreeChecks_def sample_tree_intent_def sample_tree_snapshot_def at_or_def sample_object_def
        compatible_def SpanningTreeConfigure_def SpanningTreePrepare_def)
  from spanningTreeChecks_sound [OF this, of "\<lparr>tg_Before = sample_tree False, tg_After = sample_tree True\<rparr>"]
  show ?thesis by (simp add: sample_tree_intent_def IsSpanningTreeOperation_def)
qed

end
