(* ===== verification/Candidate_Graph.thy ===== *)
theory Candidate_Graph
  imports Candidate_Interfaces
begin

text \<open>
  The graph components of \<^verbatim>\<open>internal/candidate\<close>: creation and deletion of isolated Bridges
  (\<^verbatim>\<open>bridge.go\<close>, \<^verbatim>\<open>bridge_delete.go\<close>) and of internal access Ports (\<^verbatim>\<open>internal_port.go\<close>,
  \<^verbatim>\<open>internal_port_delete.go\<close>), with the binding sets of the native topology commands
  (\<^verbatim>\<open>topology.go\<close>). Identities are minted by the manager, never chosen by a caller, and a deletion
  reserves the new identities its compensation would create.
\<close>

section \<open>Topology bindings (\<^verbatim>\<open>topology.go\<close>, \<^verbatim>\<open>mirror.go\<close>, \<^verbatim>\<open>tunnel.go\<close>)\<close>

definition IsMirrorOperation :: "string \<Rightarrow> bool" where
  "IsMirrorOperation op \<longleftrightarrow>
     op \<in> set [''mirror.session.create'', ''mirror.session.configure'', ''mirror.session.delete'']"

definition IsTunnelOperation :: "string \<Rightarrow> bool" where
  "IsTunnelOperation op \<longleftrightarrow>
     op \<in> set [''tunnel.static.create'', ''tunnel.static.configure'', ''tunnel.static.delete'']"

definition IsTopologyOperation :: "string \<Rightarrow> bool" where
  "IsTopologyOperation op \<longleftrightarrow> IsMirrorOperation op \<or> IsTunnelOperation op \<or>
     op \<in> set [''port.create'', ''bond.create'', ''port.delete'', ''bridge.delete-tree'', ''port.move'',
       ''bond.members.set'', ''interface.ofport.set'', ''interface.ofport.clear'',
       ''interface.patch.connect'', ''interface.patch.disconnect'']"

definition TopologyCreations :: "StoredIntent \<Rightarrow> bool \<Rightarrow> Binding list" where
  "TopologyCreations i restoration =
     (case si_Topology i of
        None \<Rightarrow> []
      | Some g \<Rightarrow>
          if restoration
          then List.map_filter (\<lambda>n. map_of (g_Replacements g) (OVSUUID (n_Binding n))) (g_Before g)
          else map n_Binding
            (filter (\<lambda>n. \<not> list_ex (\<lambda>p. n_Binding p = n_Binding n) (g_Before g)) (g_After g)))"

fun add_new :: "'a list \<Rightarrow> 'a list \<Rightarrow> 'a list" where
  "add_new out [] = out"
| "add_new out (x # xs) = (if x \<in> set out then add_new out xs else add_new (out @ [x]) xs)"

definition TopologyBindings :: "StoredIntent \<Rightarrow> Binding list" where
  "TopologyBindings i =
     (case si_Topology i of
        None \<Rightarrow> []
      | Some g \<Rightarrow> add_new (map n_Binding (g_Before g)) (map n_Binding (g_After g @ g_Restored g)))"

section \<open>Isolated Bridge creation (\<^verbatim>\<open>bridge.go\<close>)\<close>

definition BridgeCreate :: string where "BridgeCreate = ''bridge.create-isolated''"

definition BridgeDelete :: string where "BridgeDelete = ''bridge.delete-isolated''"

definition InternalPortCreate :: string where "InternalPortCreate = ''port.create-internal''"

definition InternalPortDelete :: string where "InternalPortDelete = ''port.delete-internal''"

definition letter :: "char \<Rightarrow> bool" where
  "letter c \<longleftrightarrow> (CHR ''a'' \<le> c \<and> c \<le> CHR ''z'') \<or> (CHR ''A'' \<le> c \<and> c \<le> CHR ''Z'')"

definition ValidBridgeName :: "string \<Rightarrow> bool" where
  "ValidBridgeName name =
     (case name of
        [] \<Rightarrow> False
      | c # r \<Rightarrow> letter c \<and> length r \<le> 14 \<and>
          list_all (\<lambda>d. letter d \<or> is_digit d \<or> d \<in> set ''_.-'') r)"

definition CreationBindings :: "StoredIntent \<Rightarrow> Binding list" where
  "CreationBindings i =
     (if si_Topology i \<noteq> None then TopologyCreations i False
      else case si_PortCreation i of
             Some p \<Rightarrow> [si_Object i, ip_Interface p]
           | None \<Rightarrow> (case si_Creation i of
                        None \<Rightarrow> []
                      | Some c \<Rightarrow> [si_Object i, bc_Port c, bc_Interface c]))"

text \<open>\<open>newBridgeIntent\<close>: the dependency is the digest of the root and the name; the six fresh
  identifiers are the next six drawn from the host.\<close>

definition newBridgeIntent :: "host \<Rightarrow> Intent \<Rightarrow> Snapshot \<Rightarrow> StoredIntent res" where
  "newBridgeIntent h i s =
     (if \<not> ValidBridgeName (in_Name i) \<or> in_VLANID i \<noteq> 0 \<or> in_Object i \<noteq> no_binding \<or> \<not> no_port_fields i
      then Inl (Fail 422 ''INVALID_ISOLATED_BRIDGE'')
      else Inr (zero_intent\<lparr>si_ID := in_ID i, si_Operation := BridgeCreate,
        si_Object := bind_new h 0 s ''Bridge'', si_Schema := s_Schema s,
        si_Dependency := h_Digest h (GArr [GStr (cs_Root (s_Creation s)), GStr (in_Name i)]),
        si_Value := normalize zero_VLAN, si_Before := normalize zero_VLAN,
        si_Creation := Some \<lparr>bc_Name = in_Name i, bc_Root = cs_Root (s_Creation s),
          bc_Port = bind_new h 2 s ''Port'', bc_Interface = bind_new h 4 s ''Interface'',
          bc_BeforePresent = False, bc_AfterPresent = True\<rparr>\<rparr>))"

fun creation_bindings_problem :: "BridgeCreation \<Rightarrow> Snapshot \<Rightarrow> Binding list \<Rightarrow> string" where
  "creation_bindings_problem c s [] = ''''"
| "creation_bindings_problem c s (b # bs) =
     (let current = cs_Objects (s_Creation s) (OVSUUID b) in
      if bc_BeforePresent c
      then (if current \<noteq> Some b then ''OBJECT_BINDING_CHANGED'' else creation_bindings_problem c s bs)
      else if current \<noteq> None then ''OBJECT_BINDING_CHANGED''
      else if bc_AfterPresent c \<and> cs_Retired (s_Creation s) (OVSUUID b) then ''CREATION_IDENTITY_CONSUMED''
      else creation_bindings_problem c s bs)"

definition creationProblem :: "StoredIntent \<Rightarrow> Snapshot \<Rightarrow> string" where
  "creationProblem i s =
     (case si_Creation i of
        None \<Rightarrow> ''INVALID_ISOLATED_BRIDGE''
      | Some c \<Rightarrow>
          if si_Operation i \<noteq> BridgeCreate then ''INVALID_ISOLATED_BRIDGE''
          else if Generation_of (si_Object i) \<noteq> s_Generation s \<or> bc_Root c \<noteq> cs_Root (s_Creation s)
          then ''GENERATION_RECONCILIATION_REQUIRED''
          else if si_Schema i \<noteq> s_Schema s then ''SCHEMA_CHANGED''
          else if \<not> bc_BeforePresent c \<and> bc_AfterPresent c \<and> cs_Names (s_Creation s) (bc_Name c)
          then ''OBJECT_NAME_IN_USE''
          else creation_bindings_problem c s (CreationBindings i))"

definition creationChecks :: "StoredIntent \<Rightarrow> Snapshot \<Rightarrow> Gate list" where
  "creationChecks i s =
     block_if (case si_Creation i of None \<Rightarrow> False
         | Some c \<Rightarrow> \<not> bc_BeforePresent c \<and> bc_AfterPresent c \<and> \<not> cs_Capacity (s_Creation s))
       ''BRIDGE_INVENTORY_CAPACITY'' (si_ID i) @
     block_if (\<not> cs_Supported (s_Creation s)) ''BRIDGE_LIFECYCLE_SCHEMA_UNSUPPORTED'' (si_ID i) @
     block_if (cs_Authority (s_Creation s) \<noteq> ''local-managed'' \<or>
         (case si_Creation i of None \<Rightarrow> True | Some c \<Rightarrow> \<not> cs_AllowedNames (s_Creation s) (bc_Name c)))
       ''BRIDGE_CREATION_AUTHORITY_REQUIRED'' (si_ID i) @
     [gate ''ISOLATED_BRIDGE_NO_UPLINK_OR_IP_CONFIGURATION'' ''allowed'' (si_ID i)]"

definition creationDiff :: "StoredIntent \<Rightarrow> Snapshot \<Rightarrow> Diff" where
  "creationDiff i s =
     field_diff i ''isolated_bridge_graph'' (GStr ''absent'')
       (case si_Creation i of None \<Rightarrow> GNil
        | Some c \<Rightarrow> GObj [(''name'', GStr (bc_Name c)), (''datapath_type'', GStr ''system''),
            (''local_port'', GStr (bc_Name c)), (''interface_type'', GStr ''internal''),
            (''uplinks'', num 0), (''fail_mode'', GStr ''secure'')])
       (GStr (case si_Creation i of None \<Rightarrow> ''absent''
        | Some c \<Rightarrow> if cs_Names (s_Creation s) (bc_Name c) then ''name occupied'' else ''absent''))
       (creationProblem i s \<noteq> '''')"

text \<open>The common tail of the graph staging functions: \<open>if problem := ...; problem != "" {...}\<close> and
  the single-intent candidate.\<close>

definition stage_checked :: "Candidate \<Rightarrow> Snapshot \<Rightarrow> StoredIntent \<Rightarrow> string \<Rightarrow> Candidate res" where
  "stage_checked c s i problem = (if problem \<noteq> '''' then Inl (Fail 409 problem) else Inr (single c s i))"

definition stageCreation :: "host \<Rightarrow> Candidate \<Rightarrow> Command \<Rightarrow> Snapshot \<Rightarrow> Candidate res" where
  "stageCreation h c cmd s =
     (case cmd_Intents cmd of
        [r] \<Rightarrow>
          if 1 < length (c_Intents c) \<or> in_Operation r \<noteq> BridgeCreate \<or> \<not> ManagementID (in_ID r)
          then Inl (Fail 422 ''ISOLATED_BRIDGE_SINGLE_INTENT_REQUIRED'')
          else (case newBridgeIntent h r s of
             Inl e \<Rightarrow> Inl e
           | Inr i \<Rightarrow>
               if c_Generation c \<noteq> None \<and> c_Generation c \<noteq> Some (s_Generation s)
               then Inl (Fail 409 ''GENERATION_RECONCILIATION_REQUIRED'')
               else (case c_Intents c of
                       [prior] \<Rightarrow>
                         if si_Operation prior \<noteq> BridgeCreate \<or> si_ID prior \<noteq> si_ID i \<or>
                            (case si_Creation prior of None \<Rightarrow> True | Some pc \<Rightarrow> bc_Name pc \<noteq> in_Name r)
                         then Inl (Fail 409 ''CREATION_RESTAGE_REQUIRED'')
                         else stage_checked c s prior (creationProblem prior s)
                     | _ \<Rightarrow> stage_checked c s i (creationProblem i s)))
      | _ \<Rightarrow> Inl (Fail 422 ''ISOLATED_BRIDGE_SINGLE_INTENT_REQUIRED''))"

section \<open>Isolated Bridge deletion (\<^verbatim>\<open>bridge_delete.go\<close>)\<close>

definition IsBridgeOperation :: "string \<Rightarrow> bool" where
  "IsBridgeOperation op \<longleftrightarrow> op = BridgeCreate \<or> op = BridgeDelete"

definition graph_bindings :: "BridgeGraph \<Rightarrow> Binding list" where
  "graph_bindings g = [bg_Bridge g, bg_Port g, bg_Interface g]"

definition BridgeGraphIntent :: "StoredIntent \<Rightarrow> StoredIntent option" where
  "BridgeGraphIntent i =
     (if si_Operation i = BridgeCreate \<and> si_Creation i \<noteq> None \<and> si_Deletion i = None then Some i
      else if si_Operation i \<noteq> BridgeDelete \<or> si_Creation i \<noteq> None then None
      else case si_Deletion i of
             None \<Rightarrow> None
           | Some d \<Rightarrow>
               let g = (if bd_Restoring d then bd_Replacement d else bd_Source d);
                   after = bd_Restoring d;
                   before = (if bd_Observed d then after else \<not> bd_Restoring d)
               in Some (zero_intent\<lparr>si_ID := si_ID i, si_Operation := si_Operation i, si_Object := bg_Bridge g,
                    si_Creation := Some \<lparr>bc_Name = bg_Name g, bc_Root = bg_Root g, bc_Port = bg_Port g,
                      bc_Interface = bg_Interface g, bc_BeforePresent = before, bc_AfterPresent = after\<rparr>\<rparr>))"

text \<open>The identity loop shared by the two deletion validators: every identifier is well formed and
  none was seen before.\<close>

fun fresh_ids :: "string list \<Rightarrow> string list \<Rightarrow> bool" where
  "fresh_ids seen [] = True"
| "fresh_ids seen (x # xs) = (if \<not> ManagementID x \<or> x \<in> set seen then False else fresh_ids (x # seen) xs)"

definition binding_ids :: "Binding list \<Rightarrow> string list" where
  "binding_ids bs = concat (map (\<lambda>b. [ManagementID_of b, OVSUUID b]) bs)"

definition marker_ok :: "string \<Rightarrow> bool" where
  "marker_ok m = (case DecodeString m of None \<Rightarrow> False | Some b \<Rightarrow> length b = 32)"

definition shaped :: "string \<Rightarrow> string list \<Rightarrow> Binding list \<Rightarrow> bool" where
  "shaped gen tables bs \<longleftrightarrow> map Table bs = tables \<and> list_all (\<lambda>b. Generation_of b = gen) bs"

definition validDeletionGraphs :: "BridgeDeletion \<Rightarrow> bool" where
  "validDeletionGraphs d \<longleftrightarrow>
     marker_ok (bd_SourceMarker d) \<and> ValidBridgeName (bg_Name (bd_Source d)) \<and>
     ManagementID (bg_Root (bd_Source d)) \<and>
     list_all (\<lambda>g. shaped (Generation_of (bg_Bridge (bd_Source d))) [''Bridge'', ''Port'', ''Interface'']
         (graph_bindings g)) [bd_Source d, bd_Replacement d] \<and>
     fresh_ids [bg_Root (bd_Source d)]
       (binding_ids (graph_bindings (bd_Source d) @ graph_bindings (bd_Replacement d)))"

text \<open>The two loops over the bindings of a deleted graph and of its replacement.\<close>

definition not_retired :: "Snapshot \<Rightarrow> Binding list \<Rightarrow> bool" where
  "not_retired s bs \<longleftrightarrow> list_ex (\<lambda>b. cs_Objects (s_Creation s) (OVSUUID b) \<noteq> None \<or>
     \<not> cs_Retired (s_Creation s) (OVSUUID b)) bs"

fun replacement_problem :: "bool \<Rightarrow> Snapshot \<Rightarrow> Binding list \<Rightarrow> string" where
  "replacement_problem restored s [] = ''''"
| "replacement_problem restored s (b # bs) =
     (let current = cs_Objects (s_Creation s) (OVSUUID b) in
      if restored
      then (if current \<noteq> Some b then ''OBJECT_BINDING_CHANGED'' else replacement_problem restored s bs)
      else if current \<noteq> None \<or> cs_Retired (s_Creation s) (OVSUUID b) then ''CREATION_IDENTITY_CONSUMED''
      else replacement_problem restored s bs)"

definition deletionProblem :: "StoredIntent \<Rightarrow> Snapshot \<Rightarrow> string" where
  "deletionProblem i s =
     (case si_Deletion i of
        None \<Rightarrow> ''INVALID_ISOLATED_BRIDGE_DELETION''
      | Some d \<Rightarrow>
          if si_Operation i \<noteq> BridgeDelete \<or> si_Creation i \<noteq> None \<or> si_Object i \<noteq> bg_Bridge (bd_Source d) \<or>
             bg_Name (bd_Source d) \<noteq> bg_Name (bd_Replacement d) \<or>
             bg_Root (bd_Source d) \<noteq> bg_Root (bd_Replacement d) \<or> \<not> validDeletionGraphs d
          then ''INVALID_ISOLATED_BRIDGE_DELETION''
          else if Generation_of (si_Object i) \<noteq> s_Generation s \<or> bg_Root (bd_Source d) \<noteq> cs_Root (s_Creation s)
          then ''GENERATION_RECONCILIATION_REQUIRED''
          else if si_Schema i \<noteq> s_Schema s then ''SCHEMA_CHANGED''
          else let restored = bd_Restoring d \<and> bd_Observed d;
                   source =
                     (if \<not> bd_Restoring d \<and> \<not> bd_Observed d
                      then (case ds_Graphs (s_Deletion s) (ManagementID_of (si_Object i)) of
                              None \<Rightarrow> ''MANAGED_ISOLATED_BRIDGE_REQUIRED''
                            | Some current \<Rightarrow>
                                if mg_Graph current \<noteq> bd_Source d \<or> mg_Marker current \<noteq> bd_SourceMarker d
                                then ''MANAGED_ISOLATED_BRIDGE_REQUIRED''
                                else if mg_Dependency current \<noteq> si_Dependency i then ''BRIDGE_GRAPH_CHANGED''
                                else '''')
                      else if not_retired s (graph_bindings (bd_Source d)) then ''DELETED_IDENTITY_NOT_RETIRED''
                      else if \<not> restored \<and> cs_Names (s_Creation s) (bg_Name (bd_Source d)) then ''OBJECT_NAME_IN_USE''
                      else '''')
               in if source \<noteq> '''' then source
                  else replacement_problem restored s (graph_bindings (bd_Replacement d)))"

definition zero_graph :: BridgeGraph where
  "zero_graph = \<lparr>bg_Name = '''', bg_Root = '''', bg_Bridge = no_binding, bg_Port = no_binding,
     bg_Interface = no_binding\<rparr>"

definition deletionChecks :: "StoredIntent \<Rightarrow> Snapshot \<Rightarrow> Gate list" where
  "deletionChecks i s =
     block_if (\<not> cs_Supported (s_Creation s)) ''BRIDGE_LIFECYCLE_SCHEMA_UNSUPPORTED'' (si_ID i) @
     block_if (case si_Deletion i of None \<Rightarrow> True
         | Some d \<Rightarrow> cs_Authority (s_Creation s) \<noteq> ''local-managed'' \<or>
             \<not> ds_AllowedNames (s_Deletion s) (bg_Name (bd_Source d)))
       ''BRIDGE_DELETION_AUTHORITY_REQUIRED'' (si_ID i) @
     block_if (case si_Deletion i of None \<Rightarrow> False
         | Some d \<Rightarrow> \<not> bd_Observed d \<and>
             \<not> (if bd_Restoring d then cs_Capacity (s_Creation s)
                else case ds_Graphs (s_Deletion s) (ManagementID_of (si_Object i)) of
                       None \<Rightarrow> False | Some m \<Rightarrow> mg_RestoreCapacity m))
       ''BRIDGE_RESTORATION_CAPACITY_REQUIRED'' (si_ID i) @
     [gate ''ROLLBACK_RECREATES_WITH_NEW_IDENTITIES'' ''allowed'' (si_ID i),
      gate ''EXACT_ISOLATED_GRAPH_REQUIRED_AT_DISPATCH'' ''allowed'' (si_ID i)]"

definition binding_json :: "Binding \<Rightarrow> any" where
  "binding_json b = GObj [(''management_id'', GStr (ManagementID_of b)), (''ovs_uuid'', GStr (OVSUUID b)),
     (''table'', GStr (Table b)), (''instance_generation'', GStr (Generation_of b))]"

definition graph_json :: "BridgeGraph \<Rightarrow> any" where
  "graph_json g = GObj [(''name'', GStr (bg_Name g)), (''root_uuid'', GStr (bg_Root g)),
     (''bridge'', binding_json (bg_Bridge g)), (''local_port'', binding_json (bg_Port g)),
     (''local_interface'', binding_json (bg_Interface g))]"

definition absent_json :: "any \<Rightarrow> any" where
  "absent_json replacement = GObj [(''state'', GStr ''absent''),
     (''rollback'', GStr ''recreate with new identities''), (''replacement'', replacement)]"

definition deletionDiff :: "StoredIntent \<Rightarrow> Snapshot \<Rightarrow> Diff" where
  "deletionDiff i s =
     field_diff i ''isolated_bridge_deletion''
       (case si_Deletion i of None \<Rightarrow> GNil | Some d \<Rightarrow> graph_json (bd_Source d))
       (case si_Deletion i of None \<Rightarrow> GNil | Some d \<Rightarrow> absent_json (graph_json (bd_Replacement d)))
       (GStr (case si_Deletion i of None \<Rightarrow> ''unavailable''
        | Some d \<Rightarrow> if ds_Graphs (s_Deletion s) (ManagementID_of (si_Object i)) \<noteq> None
            then ''managed isolated graph''
            else if \<not> cs_Names (s_Creation s) (bg_Name (bd_Source d)) then ''absent''
            else ''graph changed or name occupied''))
       (deletionProblem i s \<noteq> '''')"

definition stageDeletion :: "host \<Rightarrow> Candidate \<Rightarrow> Command \<Rightarrow> Snapshot \<Rightarrow> Candidate res" where
  "stageDeletion h c cmd s =
     (case cmd_Intents cmd of
        [r] \<Rightarrow>
          if 1 < length (c_Intents c) \<or> in_Operation r \<noteq> BridgeDelete
          then Inl (Fail 422 ''ISOLATED_BRIDGE_SINGLE_INTENT_REQUIRED'')
          else if \<not> ManagementID (in_ID r) \<or> Table (in_Object r) \<noteq> ''Bridge'' \<or> in_Name r \<noteq> '''' \<or> \<not> no_port_fields r
          then Inl (Fail 422 ''INVALID_ISOLATED_BRIDGE_DELETION'')
          else if generation_changed c (in_Object r) s
          then Inl (Fail 409 ''GENERATION_RECONCILIATION_REQUIRED'')
          else (case ds_Graphs (s_Deletion s) (ManagementID_of (in_Object r)) of
             None \<Rightarrow> Inl (Fail 409 ''MANAGED_ISOLATED_BRIDGE_REQUIRED'')
           | Some owned \<Rightarrow>
               if bg_Bridge (mg_Graph owned) \<noteq> in_Object r
               then Inl (Fail 409 ''MANAGED_ISOLATED_BRIDGE_REQUIRED'')
               else let i = (captured r s (mg_Dependency owned))\<lparr>si_Deletion := Some
                      \<lparr>bd_Source = mg_Graph owned,
                       bd_Replacement = \<lparr>bg_Name = bg_Name (mg_Graph owned), bg_Root = bg_Root (mg_Graph owned),
                         bg_Bridge = bind_new h 0 s ''Bridge'', bg_Port = bind_new h 2 s ''Port'',
                         bg_Interface = bind_new h 4 s ''Interface''\<rparr>,
                       bd_SourceMarker = mg_Marker owned, bd_Restoring = False, bd_Observed = False\<rparr>\<rparr> in
                 (case c_Intents c of
                    [prior] \<Rightarrow>
                      if si_Operation prior \<noteq> BridgeDelete \<or> si_ID prior \<noteq> si_ID i \<or>
                         si_Object prior \<noteq> si_Object i \<or> si_Deletion prior = None
                      then Inl (Fail 409 ''DELETION_RESTAGE_REQUIRED'')
                      else stage_checked c s prior (deletionProblem prior s)
                  | _ \<Rightarrow> stage_checked c s i (deletionProblem i s)))
      | _ \<Rightarrow> Inl (Fail 422 ''ISOLATED_BRIDGE_SINGLE_INTENT_REQUIRED''))"

section \<open>Internal Port creation (\<^verbatim>\<open>internal_port.go\<close>)\<close>

definition IsGraphOperation :: "string \<Rightarrow> bool" where
  "IsGraphOperation op \<longleftrightarrow> IsBridgeOperation op \<or> op = InternalPortCreate \<or> op = InternalPortDelete \<or>
     IsTopologyOperation op"

definition sortBindings :: "Binding list \<Rightarrow> Binding list" where
  "sortBindings bs = sort_key OVSUUID bs"

fun port_bindings_problem :: "InternalPortCreation \<Rightarrow> Snapshot \<Rightarrow> Binding list \<Rightarrow> string" where
  "port_bindings_problem p s [] = ''''"
| "port_bindings_problem p s (b # bs) =
     (let current = cs_Objects (s_Creation s) (OVSUUID b) in
      if ip_BeforePresent p \<and> current \<noteq> Some b \<or> \<not> ip_BeforePresent p \<and> current \<noteq> None
      then ''OBJECT_BINDING_CHANGED''
      else if \<not> ip_BeforePresent p \<and> ip_AfterPresent p \<and> cs_Retired (s_Creation s) (OVSUUID b)
      then ''CREATION_IDENTITY_CONSUMED''
      else port_bindings_problem p s bs)"

definition internalPortProblem :: "StoredIntent \<Rightarrow> Snapshot \<Rightarrow> string" where
  "internalPortProblem i s =
     (case si_PortCreation i of
        None \<Rightarrow> ''INVALID_INTERNAL_PORT''
      | Some p \<Rightarrow>
          if si_Operation i \<noteq> InternalPortCreate then ''INVALID_INTERNAL_PORT''
          else if Generation_of (si_Object i) \<noteq> s_Generation s \<or> ip_Root p \<noteq> cs_Root (s_Creation s)
          then ''GENERATION_RECONCILIATION_REQUIRED''
          else if si_Schema i \<noteq> s_Schema s then ''SCHEMA_CHANGED''
          else (case ips_Parents (s_InternalPorts s) (ManagementID_of (ip_Bridge p)) of
             None \<Rightarrow> ''OBJECT_BINDING_CHANGED''
           | Some parent \<Rightarrow>
               if pa_Binding parent \<noteq> ip_Bridge p \<or> pa_LocalPort parent \<noteq> ip_LocalPort p \<or>
                  pa_LocalInterface parent \<noteq> ip_LocalInterface p
               then ''OBJECT_BINDING_CHANGED''
               else if pa_Dependency parent \<noteq> si_Dependency i then ''DEPENDENCY_CHANGED''
               else if sortBindings (ip_Members p @ (if ip_BeforePresent p then [si_Object i] else [])) \<noteq> pa_Members parent
               then ''BRIDGE_PORT_MEMBERSHIP_CHANGED''
               else if \<not> ip_BeforePresent p \<and> ip_AfterPresent p \<and> cs_Names (s_Creation s) (ip_Name p)
               then ''OBJECT_NAME_IN_USE''
               else port_bindings_problem p s (CreationBindings i)))"

definition port_target :: "InternalPortCreation \<Rightarrow> string" where
  "port_target p = ManagementID_of (ip_Bridge p) @ '':'' @ ip_Name p"

definition parent_eligible :: "Snapshot \<Rightarrow> string \<Rightarrow> bool" where
  "parent_eligible s bridge =
     (case ips_Parents (s_InternalPorts s) bridge of None \<Rightarrow> False | Some q \<Rightarrow> pa_Eligible q)"

definition internalPortChecks :: "StoredIntent \<Rightarrow> Snapshot \<Rightarrow> Gate list" where
  "internalPortChecks i s =
     (case si_PortCreation i of
        None \<Rightarrow> [gate ''INVALID_INTERNAL_PORT'' ''blocked'' (si_ID i)]
      | Some p \<Rightarrow>
          block_if (\<not> ips_Supported (s_InternalPorts s)) ''INTERNAL_PORT_SCHEMA_UNSUPPORTED'' (si_ID i) @
          block_if (\<not> ip_BeforePresent p \<and> ip_AfterPresent p \<and> \<not> ips_Capacity (s_InternalPorts s))
            ''INTERNAL_PORT_INVENTORY_CAPACITY'' (si_ID i) @
          block_if (cs_Authority (s_Creation s) \<noteq> ''local-managed'' \<or>
              \<not> ips_Targets (s_InternalPorts s) (port_target p))
            ''INTERNAL_PORT_CREATION_AUTHORITY_REQUIRED'' (si_ID i) @
          block_if (\<not> parent_eligible s (ManagementID_of (ip_Bridge p))) ''INTERNAL_PORT_PARENT_UNSUPPORTED'' (si_ID i) @
          [gate ''INTERNAL_ACCESS_PORT_NO_HOST_IP_CONFIGURATION'' ''allowed'' (si_ID i)])"

definition internalPortDiff :: "StoredIntent \<Rightarrow> Snapshot \<Rightarrow> Diff" where
  "internalPortDiff i s =
     field_diff i ''internal_port_graph'' (GStr ''absent'')
       (case si_PortCreation i of None \<Rightarrow> GNil
        | Some p \<Rightarrow> GObj [(''name'', GStr (ip_Name p)), (''bridge'', GStr (ip_BridgeName p)),
            (''bridge_id'', GStr (ManagementID_of (ip_Bridge p))), (''interface_type'', GStr ''internal''),
            (''vlan_mode'', GStr ''access''), (''tag'', num (ip_VLANID p)),
            (''interface'', binding_json (ip_Interface p))])
       (GStr (case si_PortCreation i of None \<Rightarrow> ''absent''
        | Some p \<Rightarrow> if cs_Names (s_Creation s) (ip_Name p) then ''name occupied'' else ''absent''))
       (internalPortProblem i s \<noteq> '''')"

definition stageInternalPort :: "host \<Rightarrow> Candidate \<Rightarrow> Command \<Rightarrow> Snapshot \<Rightarrow> Candidate res" where
  "stageInternalPort h c cmd s =
     (case cmd_Intents cmd of
        [r] \<Rightarrow>
          if 1 < length (c_Intents c) \<or> in_Operation r \<noteq> InternalPortCreate \<or> \<not> ManagementID (in_ID r)
          then Inl (Fail 422 ''INTERNAL_PORT_SINGLE_INTENT_REQUIRED'')
          else if \<not> ValidBridgeName (in_Name r) \<or> in_VLANID r < 1 \<or> 4094 < in_VLANID r \<or>
             Table (in_Object r) \<noteq> ''Bridge'' \<or> \<not> no_port_fields r
          then Inl (Fail 422 ''INVALID_INTERNAL_PORT'')
          else if generation_changed c (in_Object r) s
          then Inl (Fail 409 ''GENERATION_RECONCILIATION_REQUIRED'')
          else (case ips_Parents (s_InternalPorts s) (ManagementID_of (in_Object r)) of
             None \<Rightarrow> Inl (Fail 409 ''OBJECT_BINDING_CHANGED'')
           | Some parent \<Rightarrow>
               if pa_Binding parent \<noteq> in_Object r then Inl (Fail 409 ''OBJECT_BINDING_CHANGED'')
               else if in_Name r = pa_Name parent \<or> pa_Members parent = [] \<or> 32 < length (pa_Members parent)
               then Inl (Fail 422 ''INTERNAL_PORT_PARENT_UNSUPPORTED'')
               else let i = (captured r s (pa_Dependency parent))\<lparr>si_Object := bind_new h 0 s ''Port'',
                      si_PortCreation := Some \<lparr>ip_Name = in_Name r, ip_VLANID = in_VLANID r,
                        ip_Root = cs_Root (s_Creation s), ip_Bridge = pa_Binding parent,
                        ip_BridgeName = pa_Name parent, ip_Interface = bind_new h 2 s ''Interface'',
                        ip_Members = pa_Members parent, ip_LocalPort = pa_LocalPort parent,
                        ip_LocalInterface = pa_LocalInterface parent, ip_BeforePresent = False,
                        ip_AfterPresent = True\<rparr>\<rparr> in
                 (case c_Intents c of
                    [prior] \<Rightarrow>
                      (case si_PortCreation prior of
                         None \<Rightarrow> Inl (Fail 409 ''CREATION_RESTAGE_REQUIRED'')
                       | Some pc \<Rightarrow>
                           if si_Operation prior \<noteq> InternalPortCreate \<or> si_ID prior \<noteq> in_ID r \<or>
                              ip_Name pc \<noteq> in_Name r \<or> ip_Bridge pc \<noteq> in_Object r
                           then Inl (Fail 409 ''CREATION_RESTAGE_REQUIRED'')
                           else let j = prior\<lparr>si_PortCreation := Some (pc\<lparr>ip_VLANID := in_VLANID r\<rparr>)\<rparr>
                                in stage_checked c s j (internalPortProblem j s))
                  | _ \<Rightarrow> stage_checked c s i (internalPortProblem i s)))
      | _ \<Rightarrow> Inl (Fail 422 ''INTERNAL_PORT_SINGLE_INTENT_REQUIRED''))"

section \<open>Internal Port deletion (\<^verbatim>\<open>internal_port_delete.go\<close>)\<close>

definition port_graph_bindings :: "InternalPortGraph \<Rightarrow> Binding list" where
  "port_graph_bindings g = [ig_Port g, ip_Interface (ig_Configuration g)]"

definition InternalPortGraphIntent :: "StoredIntent \<Rightarrow> StoredIntent option" where
  "InternalPortGraphIntent i =
     (if si_Operation i = InternalPortCreate \<and> si_PortCreation i \<noteq> None \<and> si_PortDeletion i = None then Some i
      else if si_Operation i \<noteq> InternalPortDelete \<or> si_PortCreation i \<noteq> None then None
      else case si_PortDeletion i of
             None \<Rightarrow> None
           | Some d \<Rightarrow>
               let g = (if id_Restoring d then id_Replacement d else id_Source d);
                   after = id_Restoring d;
                   before = (if id_Observed d then after else \<not> id_Restoring d)
               in Some (zero_intent\<lparr>si_ID := si_ID i, si_Operation := InternalPortCreate,
                    si_Object := ig_Port g, si_Schema := si_Schema i, si_Dependency := si_Dependency i,
                    si_PortCreation := Some ((ig_Configuration g)\<lparr>ip_BeforePresent := before,
                      ip_AfterPresent := after\<rparr>)\<rparr>))"

definition validPortDeletion :: "InternalPortDeletion \<Rightarrow> bool" where
  "validPortDeletion d \<longleftrightarrow>
     (let p = ig_Configuration (id_Source d) in
      marker_ok (id_SourceMarker d) \<and> ValidBridgeName (ip_Name p) \<and> ip_Name p \<noteq> ip_BridgeName p \<and>
      1 \<le> ip_VLANID p \<and> ip_VLANID p \<le> 4094 \<and> ManagementID (ip_Root p) \<and>
      ip_Members p \<noteq> [] \<and> length (ip_Members p) \<le> 32 \<and>
      p\<lparr>ip_Interface := ip_Interface (ig_Configuration (id_Replacement d))\<rparr> = ig_Configuration (id_Replacement d) \<and>
      \<not> ip_BeforePresent p \<and> \<not> ip_AfterPresent p \<and>
      list_all (\<lambda>g. shaped (Generation_of (ip_Bridge p)) [''Port'', ''Interface''] (port_graph_bindings g))
        [id_Source d, id_Replacement d] \<and>
      fresh_ids (ip_Root p # binding_ids ([ip_Bridge p, ip_LocalPort p, ip_LocalInterface p] @ ip_Members p))
        (binding_ids (port_graph_bindings (id_Source d) @ port_graph_bindings (id_Replacement d))))"

definition portDeletionProblem :: "StoredIntent \<Rightarrow> Snapshot \<Rightarrow> string" where
  "portDeletionProblem i s =
     (case si_PortDeletion i of
        None \<Rightarrow> ''INVALID_INTERNAL_PORT_DELETION''
      | Some d \<Rightarrow>
          if si_Operation i \<noteq> InternalPortDelete \<or> si_PortCreation i \<noteq> None \<or> si_Creation i \<noteq> None \<or>
             si_Deletion i \<noteq> None \<or> si_Object i \<noteq> ig_Port (id_Source d) \<or> \<not> validPortDeletion d
          then ''INVALID_INTERNAL_PORT_DELETION''
          else let restored = id_Restoring d \<and> id_Observed d;
                   source =
                     (if \<not> id_Restoring d \<and> \<not> id_Observed d
                      then (case pds_Graphs (s_PortDeletions s) (ManagementID_of (si_Object i)) of
                              None \<Rightarrow> ''MANAGED_INTERNAL_PORT_REQUIRED''
                            | Some owned \<Rightarrow>
                                if mp_Graph owned \<noteq> id_Source d \<or> mp_Marker owned \<noteq> id_SourceMarker d
                                then ''MANAGED_INTERNAL_PORT_REQUIRED''
                                else if mp_Dependency owned \<noteq> id_SourceDependency d then ''INTERNAL_PORT_GRAPH_CHANGED''
                                else '''')
                      else if not_retired s (port_graph_bindings (id_Source d)) then ''DELETED_IDENTITY_NOT_RETIRED''
                      else if \<not> restored \<and> cs_Names (s_Creation s) (ip_Name (ig_Configuration (id_Source d)))
                      then ''OBJECT_NAME_IN_USE''
                      else '''');
                   replacement = replacement_problem restored s (port_graph_bindings (id_Replacement d))
               in if source \<noteq> '''' then source
                  else if replacement \<noteq> '''' then replacement
                  else (case InternalPortGraphIntent i of
                          Some graph \<Rightarrow> internalPortProblem graph s
                        | None \<Rightarrow> internalPortProblem zero_intent s))"

definition portDeletionChecks :: "StoredIntent \<Rightarrow> Snapshot \<Rightarrow> Gate list" where
  "portDeletionChecks i s =
     (case si_PortDeletion i of
        None \<Rightarrow> [gate ''INVALID_INTERNAL_PORT_DELETION'' ''blocked'' (si_ID i)]
      | Some d \<Rightarrow>
          let p = ig_Configuration (id_Source d) in
          block_if (\<not> ips_Supported (s_InternalPorts s)) ''INTERNAL_PORT_SCHEMA_UNSUPPORTED'' (si_ID i) @
          block_if (cs_Authority (s_Creation s) \<noteq> ''local-managed'' \<or>
              \<not> pds_Targets (s_PortDeletions s) (port_target p))
            ''INTERNAL_PORT_DELETION_AUTHORITY_REQUIRED'' (si_ID i) @
          block_if (\<not> parent_eligible s (ManagementID_of (ip_Bridge p))) ''INTERNAL_PORT_PARENT_UNSUPPORTED'' (si_ID i) @
          block_if (\<not> id_Observed d \<and>
              \<not> (if id_Restoring d then ips_Capacity (s_InternalPorts s)
                 else case pds_Graphs (s_PortDeletions s) (ManagementID_of (si_Object i)) of
                        None \<Rightarrow> False | Some m \<Rightarrow> mp_RestoreCapacity m))
            ''INTERNAL_PORT_RESTORATION_CAPACITY_REQUIRED'' (si_ID i) @
          [gate ''ROLLBACK_RECREATES_WITH_NEW_IDENTITIES'' ''allowed'' (si_ID i),
           gate ''EXACT_INTERNAL_PORT_GRAPH_REQUIRED_AT_DISPATCH'' ''allowed'' (si_ID i)])"

definition internal_port_json :: "InternalPortCreation \<Rightarrow> any" where
  "internal_port_json p = GObj [(''name'', GStr (ip_Name p)), (''vlan_id'', num (ip_VLANID p)),
     (''root_uuid'', GStr (ip_Root p)), (''bridge'', binding_json (ip_Bridge p)),
     (''bridge_name'', GStr (ip_BridgeName p)), (''interface'', binding_json (ip_Interface p)),
     (''original_members'', GArr (map binding_json (ip_Members p))),
     (''local_port'', binding_json (ip_LocalPort p)), (''local_interface'', binding_json (ip_LocalInterface p)),
     (''before_present'', GBool (ip_BeforePresent p)), (''after_present'', GBool (ip_AfterPresent p))]"

definition port_graph_json :: "InternalPortGraph \<Rightarrow> any" where
  "port_graph_json g = GObj [(''port'', binding_json (ig_Port g)),
     (''configuration'', internal_port_json (ig_Configuration g))]"

definition portDeletionDiff :: "StoredIntent \<Rightarrow> Snapshot \<Rightarrow> Diff" where
  "portDeletionDiff i s =
     field_diff i ''internal_port_deletion''
       (case si_PortDeletion i of None \<Rightarrow> GNil | Some d \<Rightarrow> port_graph_json (id_Source d))
       (case si_PortDeletion i of None \<Rightarrow> GNil | Some d \<Rightarrow> absent_json (port_graph_json (id_Replacement d)))
       (GStr (case si_PortDeletion i of None \<Rightarrow> ''unavailable''
        | Some d \<Rightarrow> if pds_Graphs (s_PortDeletions s) (ManagementID_of (si_Object i)) \<noteq> None
            then ''managed internal access Port''
            else if \<not> cs_Names (s_Creation s) (ip_Name (ig_Configuration (id_Source d))) then ''absent''
            else ''graph changed or name occupied''))
       (portDeletionProblem i s \<noteq> '''')"

definition stagePortDeletion :: "host \<Rightarrow> Candidate \<Rightarrow> Command \<Rightarrow> Snapshot \<Rightarrow> Candidate res" where
  "stagePortDeletion h c cmd s =
     (case cmd_Intents cmd of
        [r] \<Rightarrow>
          if 1 < length (c_Intents c) \<or> in_Operation r \<noteq> InternalPortDelete
          then Inl (Fail 422 ''INTERNAL_PORT_SINGLE_INTENT_REQUIRED'')
          else if \<not> ManagementID (in_ID r) \<or> Table (in_Object r) \<noteq> ''Port'' \<or> in_Name r \<noteq> '''' \<or>
             in_VLANID r \<noteq> 0 \<or> \<not> no_port_fields r
          then Inl (Fail 422 ''INVALID_INTERNAL_PORT_DELETION'')
          else if generation_changed c (in_Object r) s
          then Inl (Fail 409 ''GENERATION_RECONCILIATION_REQUIRED'')
          else (case pds_Graphs (s_PortDeletions s) (ManagementID_of (in_Object r)) of
             None \<Rightarrow> Inl (Fail 409 ''MANAGED_INTERNAL_PORT_REQUIRED'')
           | Some owned \<Rightarrow>
               if ig_Port (mp_Graph owned) \<noteq> in_Object r
               then Inl (Fail 409 ''MANAGED_INTERNAL_PORT_REQUIRED'')
               else let conf = ig_Configuration (mp_Graph owned);
                        dep = (case ips_Parents (s_InternalPorts s) (ManagementID_of (ip_Bridge conf)) of
                                 None \<Rightarrow> '''' | Some q \<Rightarrow> pa_Dependency q);
                        i = (captured r s dep)\<lparr>si_PortDeletion := Some
                          \<lparr>id_Source = mp_Graph owned,
                           id_Replacement = \<lparr>ig_Port = bind_new h 0 s ''Port'',
                             ig_Configuration = conf\<lparr>ip_Interface := bind_new h 2 s ''Interface''\<rparr>\<rparr>,
                           id_SourceMarker = mp_Marker owned, id_SourceDependency = mp_Dependency owned,
                           id_Restoring = False, id_Observed = False\<rparr>\<rparr> in
                 (case c_Intents c of
                    [prior] \<Rightarrow>
                      if si_Operation prior \<noteq> InternalPortDelete \<or> si_ID prior \<noteq> si_ID i \<or>
                         si_Object prior \<noteq> si_Object i \<or> si_PortDeletion prior = None
                      then Inl (Fail 409 ''DELETION_RESTAGE_REQUIRED'')
                      else stage_checked c s prior (portDeletionProblem prior s)
                  | _ \<Rightarrow> stage_checked c s i (portDeletionProblem i s)))
      | _ \<Rightarrow> Inl (Fail 422 ''INTERNAL_PORT_SINGLE_INTENT_REQUIRED''))"

section \<open>The graph components implement the contract\<close>

lemma stage_checked_Inr [simp]:
  "stage_checked c s i pb = Inr c' \<longleftrightarrow> pb = '''' \<and> c' = single c s i"
  by (auto simp: stage_checked_def)

lemma creation_generation: "creationProblem i s = '''' \<Longrightarrow> Generation_of (si_Object i) = s_Generation s"
  by (auto simp: creationProblem_def split: option.splits if_splits)

lemma deletion_generation: "deletionProblem i s = '''' \<Longrightarrow> Generation_of (si_Object i) = s_Generation s"
  by (auto simp: deletionProblem_def split: option.splits if_splits)

lemma internal_port_generation: "internalPortProblem i s = '''' \<Longrightarrow> Generation_of (si_Object i) = s_Generation s"
  by (auto simp: internalPortProblem_def split: option.splits if_splits)

lemma newBridgeIntent_Inr:
  assumes "newBridgeIntent h r s = Inr i"
  shows "si_ID i = in_ID r" "si_Operation i = BridgeCreate"
  using assms by (auto simp: newBridgeIntent_def split: if_splits)

lemma stageCreation_Inr:
  assumes "stageCreation h c cmd s = Inr c'"
  obtains r i where "cmd_Intents cmd = [r]" "length (c_Intents c) \<le> 1" "in_Operation r = BridgeCreate"
    "ManagementID (in_ID r)" "c_Generation c \<in> {None, Some (s_Generation s)}" "c' = single c s i"
    "si_ID i = in_ID r" "si_Operation i = BridgeCreate" "creationProblem i s = ''''"
    "c_Intents c = [] \<and> newBridgeIntent h r s = Inr i \<or> c_Intents c = [i]"
proof -
  from assms obtain r j where r: "cmd_Intents cmd = [r]" "length (c_Intents c) \<le> 1"
      "in_Operation r = BridgeCreate" "ManagementID (in_ID r)" and j: "newBridgeIntent h r s = Inr j"
      and g: "c_Generation c \<in> {None, Some (s_Generation s)}"
    by (auto simp: stageCreation_def not_less split: list.splits if_splits sum.splits)
  from r(2) show thesis
  proof (cases rule: at_most_one)
    case 1
    with assms r j g show ?thesis
      by (intro that [of r j]) (auto simp: stageCreation_def newBridgeIntent_Inr split: if_splits)
  next
    case (2 x)
    with assms r j g show ?thesis
      by (intro that [of r x]) (auto simp: stageCreation_def newBridgeIntent_Inr split: if_splits)
  qed
qed

interpretation creation: sealed_component "\<lambda>op. op = BridgeCreate" creationProblem "stageCreation h"
  "\<lambda>_ _. True" for h
proof
  fix c cmd s c'
  assume "stageCreation h c cmd s = Inr c'"
  then show "\<exists>r i. cmd_Intents cmd = [r] \<and> c' = single c s i \<and> length (c_Intents c) \<le> 1 \<and>
      in_Operation r = BridgeCreate \<and> si_ID i = in_ID r \<and> si_Operation i = in_Operation r \<and>
      ManagementID (in_ID r) \<and> c_Generation c \<in> {None, Some (s_Generation s)} \<and>
        Generation_of (si_Object i) = s_Generation s"
    by (rule stageCreation_Inr) (auto dest: creation_generation)
next
  fix c cmd s i prior
  assume "stageCreation h c cmd s = Inr (single c s i)" and "c_Intents c = [prior]"
  then show "si_Operation prior = BridgeCreate \<and> originals_kept prior i"
    by (elim stageCreation_Inr) auto
next
  fix c cmd s i r
  assume "stageCreation h c cmd s = Inr (single c s i)"
  then show "creationProblem i s = ''''" by (rule stageCreation_Inr) auto
qed

lemma stageDeletion_Inr:
  assumes "stageDeletion h c cmd s = Inr c'"
  obtains r i where "cmd_Intents cmd = [r]" "length (c_Intents c) \<le> 1" "in_Operation r = BridgeDelete"
    "ManagementID (in_ID r)" "\<not> generation_changed c (in_Object r) s" "c' = single c s i"
    "si_ID i = in_ID r" "si_Operation i = BridgeDelete" "deletionProblem i s = ''''"
    "c_Intents c = [] \<or> c_Intents c = [i]"
proof -
  from assms have "length (c_Intents c) \<le> 1"
    by (auto simp: stageDeletion_def not_less split: list.splits if_splits)
  then show thesis
  proof (cases rule: at_most_one)
    case 1
    with assms show ?thesis
      by (auto simp: stageDeletion_def Let_def split: list.splits if_splits option.splits intro!: that)
  next
    case (2 x)
    with assms show ?thesis
      by (auto simp: stageDeletion_def Let_def split: list.splits if_splits option.splits intro!: that)
  qed
qed

interpretation deletion: sealed_component "\<lambda>op. op = BridgeDelete" deletionProblem "stageDeletion h"
  "\<lambda>_ _. True" for h
proof
  fix c cmd s c'
  assume "stageDeletion h c cmd s = Inr c'"
  then show "\<exists>r i. cmd_Intents cmd = [r] \<and> c' = single c s i \<and> length (c_Intents c) \<le> 1 \<and>
      in_Operation r = BridgeDelete \<and> si_ID i = in_ID r \<and> si_Operation i = in_Operation r \<and>
      ManagementID (in_ID r) \<and> c_Generation c \<in> {None, Some (s_Generation s)} \<and>
        Generation_of (si_Object i) = s_Generation s"
    by (rule stageDeletion_Inr) (auto dest: generation_unchanged deletion_generation)
next
  fix c cmd s i prior
  assume "stageDeletion h c cmd s = Inr (single c s i)" and "c_Intents c = [prior]"
  then show "si_Operation prior = BridgeDelete \<and> originals_kept prior i"
    by (elim stageDeletion_Inr) auto
next
  fix c cmd s i r
  assume "stageDeletion h c cmd s = Inr (single c s i)"
  then show "deletionProblem i s = ''''" by (rule stageDeletion_Inr) auto
qed

lemma stageInternalPort_Inr:
  assumes "stageInternalPort h c cmd s = Inr c'"
  obtains r i where "cmd_Intents cmd = [r]" "length (c_Intents c) \<le> 1" "in_Operation r = InternalPortCreate"
    "ManagementID (in_ID r)" "\<not> generation_changed c (in_Object r) s" "c' = single c s i"
    "si_ID i = in_ID r" "si_Operation i = InternalPortCreate" "internalPortProblem i s = ''''"
    "c_Intents c = [] \<or> (\<exists>x pc n. c_Intents c = [x] \<and> si_PortCreation x = Some pc \<and>
       si_Operation x = InternalPortCreate \<and> i = x\<lparr>si_PortCreation := Some (pc\<lparr>ip_VLANID := n\<rparr>)\<rparr>)"
proof -
  from assms have "length (c_Intents c) \<le> 1"
    by (auto simp: stageInternalPort_def not_less split: list.splits if_splits)
  then show thesis
  proof (cases rule: at_most_one)
    case 1
    with assms show ?thesis
      by (auto simp: stageInternalPort_def Let_def split: list.splits if_splits option.splits intro!: that)
  next
    case (2 x)
    with assms show ?thesis
      by (auto simp: stageInternalPort_def Let_def split: list.splits if_splits option.splits intro!: that)
  qed
qed

interpretation port_creation: sealed_component "\<lambda>op. op = InternalPortCreate" internalPortProblem
  "stageInternalPort h" "\<lambda>_ _. True" for h
proof
  fix c cmd s c'
  assume "stageInternalPort h c cmd s = Inr c'"
  then show "\<exists>r i. cmd_Intents cmd = [r] \<and> c' = single c s i \<and> length (c_Intents c) \<le> 1 \<and>
      in_Operation r = InternalPortCreate \<and> si_ID i = in_ID r \<and> si_Operation i = in_Operation r \<and>
      ManagementID (in_ID r) \<and> c_Generation c \<in> {None, Some (s_Generation s)} \<and>
        Generation_of (si_Object i) = s_Generation s"
    by (rule stageInternalPort_Inr) (auto dest: generation_unchanged internal_port_generation)
next
  fix c cmd s i prior
  assume "stageInternalPort h c cmd s = Inr (single c s i)" and "c_Intents c = [prior]"
  then show "si_Operation prior = InternalPortCreate \<and> originals_kept prior i"
    by (elim stageInternalPort_Inr) (auto simp: originals_kept_def sealed_def)
next
  fix c cmd s i r
  assume "stageInternalPort h c cmd s = Inr (single c s i)"
  then show "internalPortProblem i s = ''''" by (rule stageInternalPort_Inr) auto
qed

lemma stagePortDeletion_Inr:
  assumes "stagePortDeletion h c cmd s = Inr c'"
  obtains r i where "cmd_Intents cmd = [r]" "length (c_Intents c) \<le> 1" "in_Operation r = InternalPortDelete"
    "ManagementID (in_ID r)" "\<not> generation_changed c (in_Object r) s" "c' = single c s i"
    "si_ID i = in_ID r" "si_Operation i = InternalPortDelete" "si_Object i = in_Object r" "portDeletionProblem i s = ''''"
    "c_Intents c = [] \<or> c_Intents c = [i]"
proof -
  from assms have "length (c_Intents c) \<le> 1"
    by (auto simp: stagePortDeletion_def not_less split: list.splits if_splits)
  then show thesis
  proof (cases rule: at_most_one)
    case 1
    with assms show ?thesis
      by (auto simp: stagePortDeletion_def Let_def split: list.splits if_splits option.splits intro!: that)
  next
    case (2 x)
    with assms show ?thesis
      by (auto simp: stagePortDeletion_def Let_def split: list.splits if_splits option.splits intro!: that)
  qed
qed

interpretation port_deletion: sealed_component "\<lambda>op. op = InternalPortDelete" portDeletionProblem
  "stagePortDeletion h" "\<lambda>_ _. True" for h
proof
  fix c cmd s c'
  assume "stagePortDeletion h c cmd s = Inr c'"
  then show "\<exists>r i. cmd_Intents cmd = [r] \<and> c' = single c s i \<and> length (c_Intents c) \<le> 1 \<and>
      in_Operation r = InternalPortDelete \<and> si_ID i = in_ID r \<and> si_Operation i = in_Operation r \<and>
      ManagementID (in_ID r) \<and> c_Generation c \<in> {None, Some (s_Generation s)} \<and>
        Generation_of (si_Object i) = s_Generation s"
    by (rule stagePortDeletion_Inr) (auto dest: generation_unchanged)
next
  fix c cmd s i prior
  assume "stagePortDeletion h c cmd s = Inr (single c s i)" and "c_Intents c = [prior]"
  then show "si_Operation prior = InternalPortDelete \<and> originals_kept prior i"
    by (elim stagePortDeletion_Inr) auto
next
  fix c cmd s i r
  assume "stagePortDeletion h c cmd s = Inr (single c s i)"
  then show "portDeletionProblem i s = ''''" by (rule stagePortDeletion_Inr) auto
qed

section \<open>Identities of created and deleted graphs\<close>

lemma fresh_ids_iff:
  "fresh_ids seen xs \<longleftrightarrow> distinct xs \<and> set xs \<inter> set seen = {} \<and> list_all ManagementID xs"
  by (induction seen xs rule: fresh_ids.induct) auto

text \<open>What a snapshot knows of an identity.\<close>

definition unused :: "Snapshot \<Rightarrow> Binding \<Rightarrow> bool" where
  "unused s b \<longleftrightarrow> cs_Objects (s_Creation s) (OVSUUID b) = None \<and> \<not> cs_Retired (s_Creation s) (OVSUUID b)"

definition retired :: "Snapshot \<Rightarrow> Binding \<Rightarrow> bool" where
  "retired s b \<longleftrightarrow> cs_Objects (s_Creation s) (OVSUUID b) = None \<and> cs_Retired (s_Creation s) (OVSUUID b)"

definition present :: "Snapshot \<Rightarrow> Binding \<Rightarrow> bool" where
  "present s b \<longleftrightarrow> cs_Objects (s_Creation s) (OVSUUID b) = Some b"

lemma creation_bindings_clean:
  "creation_bindings_problem c s bs = '''' \<longleftrightarrow>
     list_all (\<lambda>b. if bc_BeforePresent c then present s b
       else cs_Objects (s_Creation s) (OVSUUID b) = None \<and>
         \<not> (bc_AfterPresent c \<and> cs_Retired (s_Creation s) (OVSUUID b))) bs"
  by (induction c s bs rule: creation_bindings_problem.induct) (auto simp: Let_def present_def)

lemma replacement_clean:
  "replacement_problem restored s bs = '''' \<longleftrightarrow>
     list_all (if restored then present s else unused s) bs"
  by (induction restored s bs rule: replacement_problem.induct)
    (auto simp: Let_def present_def unused_def list_all_iff)

lemma not_retired_iff: "\<not> not_retired s bs \<longleftrightarrow> list_all (retired s) bs"
  by (auto simp: not_retired_def list_ex_iff list_all_iff retired_def)

text \<open>A staged Bridge creation introduces only unused identities: the name is free and valid,
  the Bridge, its local Port and its Interface are neither present nor retired in the snapshot,
  and they belong to the current generation of the current root.\<close>

theorem staged_creation_is_fresh:
  assumes "stageCreation h c cmd s = Inr c'" and "c_Intents c = []"
  shows "\<exists>i cr. c_Intents c' = [i] \<and> si_Creation i = Some cr \<and> ValidBridgeName (bc_Name cr) \<and>
    \<not> cs_Names (s_Creation s) (bc_Name cr) \<and> bc_Root cr = cs_Root (s_Creation s) \<and>
    list_all (unused s) [si_Object i, bc_Port cr, bc_Interface cr] \<and>
    map Table [si_Object i, bc_Port cr, bc_Interface cr] = [''Bridge'', ''Port'', ''Interface''] \<and>
    list_all (\<lambda>b. Generation_of b = s_Generation s) [si_Object i, bc_Port cr, bc_Interface cr]"
  using assms(1)
proof (cases rule: stageCreation_Inr)
  case (1 r i)
  with assms(2) have new: "newBridgeIntent h r s = Inr i" by simp
  then obtain cr where cr: "si_Creation i = Some cr" "ValidBridgeName (bc_Name cr)"
      "\<not> bc_BeforePresent cr" "bc_AfterPresent cr" "bc_Root cr = cs_Root (s_Creation s)"
      "map Table [si_Object i, bc_Port cr, bc_Interface cr] = [''Bridge'', ''Port'', ''Interface'']"
      "list_all (\<lambda>b. Generation_of b = s_Generation s) [si_Object i, bc_Port cr, bc_Interface cr]"
      "CreationBindings i = [si_Object i, bc_Port cr, bc_Interface cr]"
    by (auto simp: newBridgeIntent_def bind_new_def CreationBindings_def zero_intent_def split: if_splits)
  then have "\<not> cs_Names (s_Creation s) (bc_Name cr)"
      and "creation_bindings_problem cr s [si_Object i, bc_Port cr, bc_Interface cr] = ''''"
    using 1(8,9) by (auto simp: creationProblem_def split: if_splits)
  then show ?thesis
    using cr 1(6) unfolding creation_bindings_clean by (simp add: single_def unused_def)
qed

text \<open>C39. A Bridge deletion that compares clean never resurrects an identity: the root, the three
  deleted bindings and the three reserved replacements carry thirteen pairwise distinct
  well-formed identifiers; before the deletion is observed the replacements are unused, and once
  it is being compensated or observed every deleted identity is retired and gone.\<close>

theorem deletion_identities:
  assumes "deletionProblem i s = ''''" and "si_Deletion i = Some d"
  shows "distinct (bg_Root (bd_Source d) #
      binding_ids (graph_bindings (bd_Source d) @ graph_bindings (bd_Replacement d))) \<and>
    list_all ManagementID (bg_Root (bd_Source d) #
      binding_ids (graph_bindings (bd_Source d) @ graph_bindings (bd_Replacement d))) \<and>
    list_all (if bd_Restoring d \<and> bd_Observed d then present s else unused s) (graph_bindings (bd_Replacement d)) \<and>
    (bd_Restoring d \<or> bd_Observed d \<longrightarrow> list_all (retired s) (graph_bindings (bd_Source d))) \<and>
    (\<not> bd_Restoring d \<and> \<not> bd_Observed d \<longrightarrow>
      (\<exists>m. ds_Graphs (s_Deletion s) (ManagementID_of (si_Object i)) = Some m \<and> mg_Graph m = bd_Source d))"
proof -
  have valid: "validDeletionGraphs d"
    and repl: "replacement_problem (bd_Restoring d \<and> bd_Observed d) s (graph_bindings (bd_Replacement d)) = ''''"
    and src: "bd_Restoring d \<or> bd_Observed d \<Longrightarrow> \<not> not_retired s (graph_bindings (bd_Source d))"
    and owned: "\<not> bd_Restoring d \<and> \<not> bd_Observed d \<Longrightarrow>
      \<exists>m. ds_Graphs (s_Deletion s) (ManagementID_of (si_Object i)) = Some m \<and> mg_Graph m = bd_Source d"
    using assms by (auto simp: deletionProblem_def Let_def split: if_splits option.splits)
  then show ?thesis
    unfolding replacement_clean not_retired_iff
    by (auto simp: validDeletionGraphs_def fresh_ids_iff)
qed

text \<open>An internal Port deletion that compares clean reserves compensation identities that clash
  with nothing it keeps: the deleted and the replacement child pair are pairwise distinct and
  disjoint from the root, the parent Bridge, its local pair and every captured member; the
  replacement differs from the source in its two child bindings only, and is unused until it is
  restored, while a deleted pair is retired and gone.\<close>

theorem port_deletion_identities:
  assumes "portDeletionProblem i s = ''''" and "si_PortDeletion i = Some d"
  shows "let p = ig_Configuration (id_Source d);
             kept = ip_Root p # binding_ids ([ip_Bridge p, ip_LocalPort p, ip_LocalInterface p] @ ip_Members p);
             children = binding_ids (port_graph_bindings (id_Source d) @ port_graph_bindings (id_Replacement d))
         in distinct children \<and> list_all ManagementID children \<and> set children \<inter> set kept = {} \<and>
            ig_Configuration (id_Replacement d) = p\<lparr>ip_Interface := ip_Interface (ig_Configuration (id_Replacement d))\<rparr> \<and>
            list_all (if id_Restoring d \<and> id_Observed d then present s else unused s)
              (port_graph_bindings (id_Replacement d)) \<and>
            (id_Restoring d \<or> id_Observed d \<longrightarrow> list_all (retired s) (port_graph_bindings (id_Source d)))"
proof -
  have valid: "validPortDeletion d"
    and repl: "replacement_problem (id_Restoring d \<and> id_Observed d) s (port_graph_bindings (id_Replacement d)) = ''''"
    and src: "id_Restoring d \<or> id_Observed d \<Longrightarrow> \<not> not_retired s (port_graph_bindings (id_Source d))"
    using assms by (auto simp: portDeletionProblem_def Let_def split: if_splits option.splits)
  then show ?thesis
    unfolding replacement_clean not_retired_iff validPortDeletion_def fresh_ids_iff Let_def by simp
qed

section \<open>Witnesses\<close>

definition sid :: "string \<Rightarrow> string" where
  "sid d = ''00000000-0000-4000-8000-0000000000'' @ d"

definition sbind :: "string \<Rightarrow> string \<Rightarrow> string \<Rightarrow> Binding" where
  "sbind table a b = \<lparr>ManagementID_of = sid a, OVSUUID = sid b, Table = table, Generation_of = ''g1''\<rparr>"

definition sample_marker :: string where
  "sample_marker = ''0000000000000000000000000000000000000000000000000000000000000000''"

definition sample_graph :: "string \<Rightarrow> BridgeGraph" where
  "sample_graph x = \<lparr>bg_Name = ''br1'', bg_Root = sid ''00'', bg_Bridge = sbind ''Bridge'' (x @ ''1'') (x @ ''2''),
     bg_Port = sbind ''Port'' (x @ ''3'') (x @ ''4''), bg_Interface = sbind ''Interface'' (x @ ''5'') (x @ ''6'')\<rparr>"

definition sample_deletion :: StoredIntent where
  "sample_deletion = zero_intent\<lparr>si_Operation := BridgeDelete, si_Object := bg_Bridge (sample_graph ''1''),
     si_Schema := ''s1'', si_Dependency := ''d1'',
     si_Deletion := Some \<lparr>bd_Source = sample_graph ''1'', bd_Replacement = sample_graph ''2'',
       bd_SourceMarker = sample_marker, bd_Restoring = False, bd_Observed = False\<rparr>\<rparr>"

definition sample_deletion_snapshot :: Snapshot where
  "sample_deletion_snapshot = sample_snapshot\<lparr>s_Creation := (s_Creation sample_snapshot)\<lparr>cs_Root := sid ''00''\<rparr>,
     s_Deletion := \<lparr>ds_AllowedNames = (\<lambda>n. n = ''br1''),
       ds_Graphs = [sid ''11'' \<mapsto> \<lparr>mg_Graph = sample_graph ''1'', mg_Marker = sample_marker,
         mg_Dependency = ''d1'', mg_RestoreCapacity = True\<rparr>]\<rparr>\<rparr>"

lemma sid_valid:
  assumes "d = [CHR ''0'', x] \<or> d = [CHR ''1'', x] \<or> d = [CHR ''2'', x]" and "x \<in> set ''0123456789''"
  shows "ManagementID (sid d)"
  using assms
  by (auto simp: ManagementID_def UUID_def sid_def no_dash_def lower_def hex_val_def)

lemma sid_inject [simp]: "sid a = sid b \<longleftrightarrow> a = b"
  by (simp add: sid_def)

lemma sample_marker_ok: "marker_ok sample_marker"
  by (simp add: marker_ok_def sample_marker_def hex_val_def)

lemma sample_deletion_valid:
  "validDeletionGraphs \<lparr>bd_Source = sample_graph ''1'', bd_Replacement = sample_graph ''2'',
       bd_SourceMarker = sample_marker, bd_Restoring = a, bd_Observed = b\<rparr>"
  by (simp add: validDeletionGraphs_def sample_marker_ok sample_graph_def sbind_def graph_bindings_def
      binding_ids_def shaped_def ValidBridgeName_def letter_def is_digit_def less_eq_char_def fresh_ids_iff sid_valid)

lemma sample_deletion_clean: "deletionProblem sample_deletion sample_deletion_snapshot = ''''"
  using sample_deletion_valid [of False False]
  by (simp add: deletionProblem_def sample_deletion_def sample_deletion_snapshot_def sample_snapshot_def
      sample_graph_def sbind_def graph_bindings_def zero_intent_def)

theorem deletion_identities_witness:
  "list_all (unused sample_deletion_snapshot) (graph_bindings (sample_graph ''2''))"
  using deletion_identities [OF sample_deletion_clean, of "\<lparr>bd_Source = sample_graph ''1'',
      bd_Replacement = sample_graph ''2'', bd_SourceMarker = sample_marker, bd_Restoring = False, bd_Observed = False\<rparr>"]
  by (simp add: sample_deletion_def)

definition sample_host :: host where
  "sample_host = \<lparr>h_Digest = (\<lambda>_. ''digest''), h_random = (\<lambda>n. replicate 15 0 @ [of_nat n]),
     h_view_bytes = (\<lambda>_. 0), h_envelope_bytes = (\<lambda>_. 0)\<rparr>"

definition sample_bridge_request :: Intent where
  "sample_bridge_request = sample_request\<lparr>in_Operation := BridgeCreate, in_Object := no_binding, in_Name := ''br1''\<rparr>"

lemma sample_creation_stage:
  "\<exists>c'. stageCreation sample_host sample_candidate (sample_command ''stage'' [sample_bridge_request])
     sample_snapshot = Inr c'"
  by (simp add: stageCreation_def newBridgeIntent_def sample_bridge_request_def sample_defs ValidBridgeName_def
      letter_def is_digit_def less_eq_char_def creationProblem_def bind_new_def CreationBindings_def zero_intent_def
      stage_checked_def)

theorem staged_creation_is_fresh_witness:
  "\<exists>c' i. stageCreation sample_host sample_candidate (sample_command ''stage'' [sample_bridge_request])
     sample_snapshot = Inr c' \<and> c_Intents c' = [i] \<and> unused sample_snapshot (si_Object i)"
proof -
  obtain c' where c: "stageCreation sample_host sample_candidate (sample_command ''stage'' [sample_bridge_request])
     sample_snapshot = Inr c'" using sample_creation_stage by blast
  from staged_creation_is_fresh [OF c] c show ?thesis by (auto simp: sample_candidate_def)
qed

definition sample_port :: "string \<Rightarrow> InternalPortGraph" where
  "sample_port x = \<lparr>ig_Port = sbind ''Port'' (x @ ''1'') (x @ ''2''),
     ig_Configuration = \<lparr>ip_Name = ''in1'', ip_VLANID = 10, ip_Root = sid ''00'',
       ip_Bridge = sbind ''Bridge'' ''01'' ''02'', ip_BridgeName = ''br1'',
       ip_Interface = sbind ''Interface'' (x @ ''3'') (x @ ''4''), ip_Members = [sbind ''Port'' ''03'' ''04''],
       ip_LocalPort = sbind ''Port'' ''03'' ''04'', ip_LocalInterface = sbind ''Interface'' ''05'' ''06'',
       ip_BeforePresent = False, ip_AfterPresent = False\<rparr>\<rparr>"

definition sample_port_deletion :: InternalPortDeletion where
  "sample_port_deletion = \<lparr>id_Source = sample_port ''1'', id_Replacement = sample_port ''2'',
     id_SourceMarker = sample_marker, id_SourceDependency = ''d1'', id_Restoring = True, id_Observed = False\<rparr>"

definition sample_port_snapshot :: Snapshot where
  "sample_port_snapshot = sample_snapshot\<lparr>
     s_Creation := (s_Creation sample_snapshot)\<lparr>cs_Root := sid ''00'',
       cs_Retired := (\<lambda>u. u \<in> set [sid ''12'', sid ''14''])\<rparr>,
     s_InternalPorts := (s_InternalPorts sample_snapshot)\<lparr>ips_Parents :=
       [sid ''01'' \<mapsto> \<lparr>pa_Binding = sbind ''Bridge'' ''01'' ''02'', pa_Name = ''br1'', pa_Dependency = ''d2'',
          pa_Members = [sbind ''Port'' ''03'' ''04''], pa_LocalPort = sbind ''Port'' ''03'' ''04'',
          pa_LocalInterface = sbind ''Interface'' ''05'' ''06'', pa_Eligible = True\<rparr>]\<rparr>\<rparr>"

definition sample_port_intent :: StoredIntent where
  "sample_port_intent = zero_intent\<lparr>si_Operation := InternalPortDelete, si_Object := ig_Port (sample_port ''1''),
     si_Schema := ''s1'', si_Dependency := ''d2'', si_PortDeletion := Some sample_port_deletion\<rparr>"

lemma sample_port_valid: "validPortDeletion sample_port_deletion"
  by (simp add: validPortDeletion_def sample_port_deletion_def sample_marker_ok sample_port_def sbind_def
      port_graph_bindings_def binding_ids_def shaped_def ValidBridgeName_def letter_def is_digit_def
      less_eq_char_def fresh_ids_iff sid_valid)

lemma sample_port_clean: "portDeletionProblem sample_port_intent sample_port_snapshot = ''''"
  using sample_port_valid
  by (simp add: portDeletionProblem_def sample_port_intent_def sample_port_deletion_def sample_port_snapshot_def
      sample_snapshot_def sample_port_def sbind_def port_graph_bindings_def zero_intent_def not_retired_def
      InternalPortGraphIntent_def InternalPortCreate_def InternalPortDelete_def internalPortProblem_def
      sortBindings_def CreationBindings_def)

theorem port_deletion_identities_witness:
  "list_all (retired sample_port_snapshot) (port_graph_bindings (sample_port ''1''))"
  using port_deletion_identities [OF sample_port_clean, of sample_port_deletion]
  by (simp add: sample_port_intent_def sample_port_deletion_def Let_def)

end
