(* ===== verification/Candidate_Plan.thy ===== *)
theory Candidate_Plan
  imports Candidate_Graph
begin

text \<open>
  Planning over a whole candidate (\<^verbatim>\<open>internal/candidate/plan.go\<close>, the dispatching functions of
  \<^verbatim>\<open>bond.go\<close> and the envelope functions of \<^verbatim>\<open>types.go\<close>): comparing a candidate with a snapshot,
  preparing its next revision (stage, remove, discard, rebase), the validation gates, the
  capabilities an actor needs, the after-image and the compensation of an intent, the bindings a
  candidate touches, and the verification of a sealed envelope.
\<close>

text \<open>The native topology commands enter through the four functions the planner calls.\<close>

record topology_ops =
  tp_problem :: "StoredIntent \<Rightarrow> Snapshot \<Rightarrow> string"
  tp_checks :: "StoredIntent \<Rightarrow> Snapshot \<Rightarrow> Gate list"
  tp_diff :: "StoredIntent \<Rightarrow> Snapshot \<Rightarrow> Diff"
  tp_stage :: "Candidate \<Rightarrow> Command \<Rightarrow> Snapshot \<Rightarrow> Candidate res"

section \<open>Comparison\<close>

definition ConflictID :: "host \<Rightarrow> Candidate \<Rightarrow> Snapshot \<Rightarrow> string" where
  "ConflictID h c s =
     (let d = h_Digest h (GArr [GStr (c_ID c), GStr (c_Revision c), GStr (s_Generation s), GStr (s_Revision s)]) in
      take 8 d @ ''-'' @ take 4 (drop 8 d) @ ''-4'' @ take 3 (drop 13 d) @ ''-8'' @ take 3 (drop 17 d)
        @ ''-'' @ take 12 (drop 20 d))"

text \<open>The component an operation belongs to: its problem and its diff. \<open>None\<close> for the field groups,
  which \<open>Compare\<close> handles itself.\<close>

definition component :: "topology_ops \<Rightarrow> StoredIntent \<Rightarrow> Snapshot \<Rightarrow> (string \<times> Diff list) option" where
  "component t i s =
     (let op = si_Operation i in
      if op = BridgeMulticastSet then Some (multicastProblem i s, multicastDiff i s)
      else if op = PortIsolationSet then Some (isolationProblem i s, [isolationDiff i s])
      else if IsSpanningTreeOperation op then Some (spanningTreeProblem i s, spanningTreeDiff i s)
      else if IsTopologyOperation op then Some (tp_problem t i s, [tp_diff t i s])
      else if op = InterfacePolicingSet then Some (policingProblem i s, policingDiff i s)
      else if IsMTUOperation op
      then Some (mtuProblem i s, mtuDiff i s #
        (case Option.bind (si_MTU i) mt_Default of None \<Rightarrow> [] | Some d \<Rightarrow> [mtuDefaultDiff i d s]))
      else if op = InternalPortDelete then Some (portDeletionProblem i s, [portDeletionDiff i s])
      else if op = InternalPortCreate then Some (internalPortProblem i s, [internalPortDiff i s])
      else if op = BridgeDelete then Some (deletionProblem i s, [deletionDiff i s])
      else if op = BridgeCreate then Some (creationProblem i s, [creationDiff i s])
      else None)"

definition ints_json :: "int slice \<Rightarrow> any" where
  "ints_json xs = (case xs of None \<Rightarrow> GNil | Some ns \<Rightarrow> GArr (map num ns))"

definition vlan_json :: "VLAN \<Rightarrow> any list" where
  "vlan_json v = [opt_str (v_Mode v), opt_num (v_Tag v), ints_json (v_Trunks v), ints_json (v_CVLANs v)]"

definition bond_json :: "Bond option \<Rightarrow> any list" where
  "bond_json b = (case b of None \<Rightarrow> [GNil, GNil, GNil]
     | Some b \<Rightarrow> [opt_str (b_LACP b), opt_str (b_Mode b), opt_str (b_Fallback b)])"

definition qinq_json :: "QinQContext option \<Rightarrow> any" where
  "qinq_json q = (case q of None \<Rightarrow> GNil
     | Some q \<Rightarrow> GObj [(''vlan_limit'', GStr (q_VLANLimit q)), (''datapath_uuid'', GStr (q_DatapathUUID q)),
         (''max_vlan_headers'', GStr (q_MaxVLANHeaders q)), (''dependency_revision'', GStr (q_Dependency q)),
         (''ethertype'', opt_str (q_EtherType q))])"

definition field_diffs :: "StoredIntent \<Rightarrow> Port \<Rightarrow> bool \<Rightarrow> Diff list" where
  "field_diffs i p conflict =
     (let bond = IsBondOperation (si_Operation i); qinq = UsesQinQ i;
          fields = (if bond then [''lacp'', ''bond_mode'', ''other_config.lacp-fallback-ab'']
                    else [''vlan_mode'', ''tag'', ''trunks'', ''cvlans'']) @ (if qinq then [''qinq_context''] else []);
          before = (if bond then bond_json (si_BeforeBond i) else vlan_json (si_Before i)) @
            (if qinq then [qinq_json (si_QinQ i)] else []);
          after = (if bond then bond_json (si_Bond i) else vlan_json (si_Value i)) @
            (if qinq then [qinq_json (si_QinQ i)] else []);
          current = (if bond then bond_json (Some (p_Bond p)) else vlan_json (p_VLAN p)) @
            (if qinq then [qinq_json (p_QinQ p)] else []);
          known = (if bond then p_BondKnown p else p_Known p)
      in map (\<lambda>(f, b, a, n). field_diff i f b a (if known then n else GNil) conflict)
           (zip fields (zip before (zip after current))))"

definition view_state :: "View \<Rightarrow> string" where
  "view_state v = c_State (vw_Candidate v)"

definition set_state :: "string \<Rightarrow> View \<Rightarrow> View" where
  "set_state st v = v\<lparr>vw_Candidate := (vw_Candidate v)\<lparr>c_State := st\<rparr>\<rparr>"

definition add_checks :: "Gate list \<Rightarrow> View \<Rightarrow> View" where
  "add_checks gs v = v\<lparr>vw_Checks := vw_Checks v @ gs\<rparr>"

definition add_diffs :: "Diff list \<Rightarrow> View \<Rightarrow> View" where
  "add_diffs ds v = v\<lparr>vw_Diff := vw_Diff v @ ds\<rparr>"

definition compare_intent :: "topology_ops \<Rightarrow> Snapshot \<Rightarrow> View \<Rightarrow> StoredIntent \<Rightarrow> View" where
  "compare_intent t s v i =
     (case component t i s of
        Some (problem, diffs) \<Rightarrow>
          add_diffs diffs
            (if problem \<noteq> ''''
             then set_state ''reconciliation-required'' (add_checks [gate problem ''blocked'' (si_ID i)] v)
             else v)
      | None \<Rightarrow>
          let (p, problem) = comparison i s;
              v1 = (if problem \<noteq> ''''
                    then let w = add_checks [gate problem ''blocked'' (si_ID i)] v;
                             w = (if view_state w \<noteq> ''reconciliation-required'' then set_state ''conflict'' w else w)
                         in if problem \<in> set [''GENERATION_RECONCILIATION_REQUIRED'', ''OBJECT_BINDING_CHANGED'',
                                  ''BOND_MEMBER_BINDINGS_CHANGED'']
                            then set_state ''reconciliation-required'' w else w
                    else v)
          in add_diffs (field_diffs i p (problem \<noteq> '''')) v1)"

definition Compare :: "host \<Rightarrow> topology_ops \<Rightarrow> Candidate \<Rightarrow> Snapshot \<Rightarrow> View" where
  "Compare h t c s =
     foldl (compare_intent t s)
       \<lparr>vw_Candidate = c, vw_SafeApplyAvailable = False, vw_CurrentGeneration = Some (s_Generation s),
        vw_CurrentRevision = Some (s_Revision s), vw_ConflictSnapshot = Some (ConflictID h c s),
        vw_Diff = [], vw_Checks = [], vw_DiffTruncated = False\<rparr> (c_Intents c)"

definition Review :: "host \<Rightarrow> topology_ops \<Rightarrow> Candidate \<Rightarrow> Snapshot \<Rightarrow> View" where
  "Review h t c s =
     (let v = Compare h t c s in
      if 48128 < h_view_bytes h v
      then set_state ''review-limited'' (v\<lparr>vw_Diff := [], vw_DiffTruncated := True, vw_ConflictSnapshot := None,
             vw_Checks := [gate ''DIFF_BUDGET_EXCEEDED'' ''blocked'' '''']\<rparr>)
      else v)"

section \<open>Preparing the next revision\<close>

definition MaxIntents :: nat where "MaxIntents = 32"

definition MaxDocument :: nat where "MaxDocument = 40960"

definition hasOp :: "(string \<Rightarrow> bool) \<Rightarrow> Candidate \<Rightarrow> bool" where
  "hasOp owns c \<longleftrightarrow> list_ex (\<lambda>i. owns (si_Operation i)) (c_Intents c)"

text \<open>The first loop of the stage case: a component request on another component's operation.\<close>

definition stage_guard :: "Intent \<Rightarrow> problem option" where
  "stage_guard r =
     (let op = in_Operation r in
      if in_Multicast r \<noteq> None \<and> op \<noteq> BridgeMulticastSet then Some (Fail 422 ''INVALID_MULTICAST_REQUEST'')
      else if in_Protected r \<noteq> None \<and> op \<noteq> PortIsolationSet then Some (Fail 422 ''INVALID_PORT_ISOLATION'')
      else if in_SpanningTree r \<noteq> None \<and> \<not> IsSpanningTreeOperation op then Some (Fail 422 ''INVALID_SPANNING_TREE_DRAFT'')
      else if in_Topology r \<noteq> None \<and> \<not> IsTopologyOperation op then Some (Fail 422 ''INVALID_TOPOLOGY_INTENT'')
      else if in_Policing r \<noteq> None \<and> op \<noteq> InterfacePolicingSet then Some (Fail 422 ''INVALID_INTERFACE_POLICING'')
      else None)"

fun first_problem :: "('a \<Rightarrow> problem option) \<Rightarrow> 'a list \<Rightarrow> problem option" where
  "first_problem f [] = None"
| "first_problem f (x # xs) = (case f x of Some e \<Rightarrow> Some e | None \<Rightarrow> first_problem f xs)"

text \<open>The search for an intent that is being edited: the last match, or the first conflict.\<close>

fun find_prior :: "Intent \<Rightarrow> nat \<Rightarrow> nat option \<Rightarrow> StoredIntent list \<Rightarrow> nat option res" where
  "find_prior r n index [] = Inr index"
| "find_prior r n index (prior # ps) =
     (if si_ID prior = in_ID r
      then (if si_Object prior \<noteq> in_Object r \<or> si_Operation prior \<noteq> in_Operation r
            then Inl (Fail 422 ''INTENT_BINDING_MISMATCH'')
            else find_prior r (n + 1) (Some n) ps)
      else if ManagementID_of (si_Object prior) = ManagementID_of (in_Object r)
      then Inl (Fail 409 ''DUPLICATE_FIELD_INTENT'')
      else find_prior r (n + 1) index ps)"

text \<open>Editing keeps the captured original; only the desired values change, and the QinQ context is
  captured when the edit first needs it.\<close>

definition edit_field :: "Intent \<Rightarrow> Port \<Rightarrow> Bond option \<Rightarrow> StoredIntent \<Rightarrow> StoredIntent" where
  "edit_field r p desired i =
     (let j = i\<lparr>si_Value := normalize (in_Value r)\<rparr>;
          j = (if UsesQinQ j \<and> si_QinQ j = None then j\<lparr>si_QinQ := p_QinQ p\<rparr> else j)
      in j\<lparr>si_Bond := desired\<rparr>)"

definition new_field :: "Intent \<Rightarrow> Snapshot \<Rightarrow> Port \<Rightarrow> Bond option \<Rightarrow> StoredIntent" where
  "new_field r s p desired =
     currentOriginal (zero_intent\<lparr>si_ID := in_ID r, si_Operation := in_Operation r, si_Object := in_Object r,
       si_Value := normalize (in_Value r), si_Bond := desired, si_Schema := s_Schema s\<rparr>) p"

definition field_desired :: "Intent \<Rightarrow> Port \<Rightarrow> Bond option res" where
  "field_desired r p =
     (if IsBondOperation (in_Operation r)
      then (case bondDesired r p of Inl e \<Rightarrow> Inl e | Inr b \<Rightarrow> Inr (Some b))
      else if \<not> inputValid (in_Value r) \<or> in_Mode r \<noteq> '''' \<or> in_LACP r \<noteq> '''' \<or> in_Fallback r \<noteq> '''' \<or>
         in_Members r \<noteq> []
      then Inl (Fail 422 ''UNSUPPORTED_CONFIGURATION'')
      else Inr None)"

definition place_field :: "Intent \<Rightarrow> Snapshot \<Rightarrow> Port \<Rightarrow> Bond option \<Rightarrow> Candidate \<Rightarrow> Candidate res" where
  "place_field r s p desired c =
     (case find_prior r 0 None (c_Intents c) of
        Inl e \<Rightarrow> Inl e
      | Inr None \<Rightarrow> Inr (c\<lparr>c_Intents := c_Intents c @ [new_field r s p desired]\<rparr>)
      | Inr (Some n) \<Rightarrow>
          let put = (\<lambda>d. Inr (c\<lparr>c_Intents := (c_Intents c)[n := edit_field r p d (c_Intents c ! n)]\<rparr>)) in
          if IsBondOperation (in_Operation r)
          then (case si_Bond (c_Intents c ! n) of
                  None \<Rightarrow> Inl (Fail 409 ''NATIVE_CONFIGURATION_UNKNOWN'')
                | Some prior \<Rightarrow> (case bondDesired r (p\<lparr>p_Bond := prior\<rparr>) of Inl e \<Rightarrow> Inl e | Inr b \<Rightarrow> put (Some b)))
          else put desired)"

definition stage_field :: "Snapshot \<Rightarrow> Candidate \<Rightarrow> Intent \<Rightarrow> Candidate res" where
  "stage_field s c r =
     (if generation_changed c (in_Object r) s then Inl (Fail 409 ''GENERATION_RECONCILIATION_REQUIRED'')
      else case s_Ports s (ManagementID_of (in_Object r)) of
             None \<Rightarrow> Inl (Fail 409 ''OBJECT_BINDING_CHANGED'')
           | Some p \<Rightarrow>
               if p_Binding p \<noteq> in_Object r then Inl (Fail 409 ''OBJECT_BINDING_CHANGED'')
               else if in_Operation r = ''port.vlan.set'' \<and> \<not> p_Known p \<or>
                  IsBondOperation (in_Operation r) \<and> \<not> p_BondKnown p
               then Inl (Fail 409 ''NATIVE_CONFIGURATION_UNKNOWN'')
               else (case field_desired r p of Inl e \<Rightarrow> Inl e | Inr desired \<Rightarrow> place_field r s p desired c))"

fun stage_fields :: "Snapshot \<Rightarrow> string list \<Rightarrow> Candidate \<Rightarrow> Intent list \<Rightarrow> Candidate res" where
  "stage_fields s seen c [] = Inr c"
| "stage_fields s seen c (r # rs) =
     (if in_ID r \<in> set seen \<or> \<not> ManagementID (in_ID r) \<or> Table (in_Object r) \<noteq> ''Port'' \<or>
         in_Operation r \<noteq> ''port.vlan.set'' \<and> \<not> IsBondOperation (in_Operation r)
      then Inl (Fail 422 ''UNSUPPORTED_CONFIGURATION'')
      else case stage_field s c r of Inl e \<Rightarrow> Inl e | Inr c' \<Rightarrow> stage_fields s (in_ID r # seen) c' rs)"

definition stage_ports :: "Candidate \<Rightarrow> Command \<Rightarrow> Snapshot \<Rightarrow> Candidate res" where
  "stage_ports c cmd s =
     (case stage_fields s [] c (cmd_Intents cmd) of
        Inl e \<Rightarrow> Inl e
      | Inr c' \<Rightarrow>
          if MaxIntents < length (c_Intents c') then Inl (Fail 429 ''CANDIDATE_INTENT_LIMIT'')
          else if c_Generation c' = None
          then Inr (c'\<lparr>c_Generation := Some (s_Generation s), c_BaseRevision := Some (s_Revision s)\<rparr>)
          else Inr c')"

text \<open>The order in which the stage case looks for the owning component.\<close>

definition stage_route ::
    "host \<Rightarrow> topology_ops \<Rightarrow> ((string \<Rightarrow> bool) \<times> (Candidate \<Rightarrow> Command \<Rightarrow> Snapshot \<Rightarrow> Candidate res)) list" where
  "stage_route h t =
     [(\<lambda>op. op = BridgeMulticastSet, stageMulticast),
      (\<lambda>op. op = PortIsolationSet, stageIsolation),
      (IsSpanningTreeOperation, stageSpanningTree),
      (IsTopologyOperation, tp_stage t),
      (\<lambda>op. op = InterfacePolicingSet, stagePolicing),
      (IsMTUOperation, stageMTU),
      (\<lambda>op. op = InternalPortDelete, stagePortDeletion h),
      (\<lambda>op. op = InternalPortCreate, stageInternalPort h),
      (\<lambda>op. op = BridgeDelete, stageDeletion h),
      (\<lambda>op. op = BridgeCreate, stageCreation h)]"

fun dispatch ::
    "((string \<Rightarrow> bool) \<times> (Candidate \<Rightarrow> Command \<Rightarrow> Snapshot \<Rightarrow> Candidate res)) list \<Rightarrow>
     Candidate \<Rightarrow> string \<Rightarrow> (Candidate \<Rightarrow> Command \<Rightarrow> Snapshot \<Rightarrow> Candidate res)" where
  "dispatch [] c op = stage_ports"
| "dispatch ((owns, stage) # rs) c op = (if hasOp owns c \<or> owns op then stage else dispatch rs c op)"

definition prepare_stage :: "host \<Rightarrow> topology_ops \<Rightarrow> Candidate \<Rightarrow> Command \<Rightarrow> Snapshot \<Rightarrow> Candidate res" where
  "prepare_stage h t c cmd s =
     (if cmd_Intents cmd = [] \<or> MaxIntents < length (cmd_Intents cmd) then Inl (Fail 422 ''INVALID_INTENT'')
      else case first_problem stage_guard (cmd_Intents cmd) of
             Some e \<Rightarrow> Inl e
           | None \<Rightarrow> dispatch (stage_route h t) c (in_Operation (hd (cmd_Intents cmd))) c cmd s)"

fun remove_first :: "string \<Rightarrow> StoredIntent list \<Rightarrow> StoredIntent list option" where
  "remove_first x [] = None"
| "remove_first x (i # is) = (if si_ID i = x then Some is else map_option ((#) i) (remove_first x is))"

fun prepare_remove :: "string list \<Rightarrow> StoredIntent list \<Rightarrow> string list \<Rightarrow> StoredIntent list res" where
  "prepare_remove seen is [] = Inr is"
| "prepare_remove seen is (x # xs) =
     (if x \<in> set seen then Inl (Fail 422 ''INVALID_INTENT'')
      else case remove_first x is of
             None \<Rightarrow> Inl (Fail 404 ''INTENT_NOT_FOUND'')
           | Some is' \<Rightarrow> prepare_remove (x # seen) is' xs)"

fun read_resolutions :: "string gomap \<Rightarrow> Resolution list \<Rightarrow> string gomap res" where
  "read_resolutions m [] = Inr m"
| "read_resolutions m (r # rs) =
     (if map_of m (r_IntentID r) \<noteq> None \<or> r_Choice r \<noteq> ''keep-current'' \<and> r_Choice r \<noteq> ''keep-mine''
      then Inl (Fail 422 ''INVALID_RESOLUTION'')
      else read_resolutions ((r_IntentID r, r_Choice r) # m) rs)"

definition restage_code :: "string \<Rightarrow> string option" where
  "restage_code op =
     (if op = SpanningTreePrepare then Some ''SPANNING_TREE_RESTAGE_REQUIRED''
      else if IsTopologyOperation op then Some ''TOPOLOGY_RESTAGE_REQUIRED''
      else if op = InterfacePolicingSet then Some ''POLICING_RESTAGE_REQUIRED''
      else if op = BridgeMulticastSet then Some ''MULTICAST_RESTAGE_REQUIRED''
      else if op = PortIsolationSet then Some ''ISOLATION_RESTAGE_REQUIRED''
      else if IsMTUOperation op then Some ''MTU_RESTAGE_REQUIRED''
      else if op = BridgeDelete \<or> op = InternalPortDelete then Some ''DELETION_RESTAGE_REQUIRED''
      else if op = BridgeCreate \<or> op = InternalPortCreate then Some ''CREATION_RESTAGE_REQUIRED''
      else None)"

definition unresolvable :: "string \<Rightarrow> bool" where
  "unresolvable reason \<longleftrightarrow> reason \<in> set [''GENERATION_RECONCILIATION_REQUIRED'', ''OBJECT_BINDING_CHANGED'',
     ''NATIVE_CONFIGURATION_UNKNOWN'', ''SCHEMA_CHANGED'', ''BOND_MEMBER_BINDINGS_CHANGED'']"

fun rebase_intents ::
    "Snapshot \<Rightarrow> string gomap \<Rightarrow> StoredIntent list \<Rightarrow> (StoredIntent list \<times> string gomap) res" where
  "rebase_intents s res [] = Inr ([], res)"
| "rebase_intents s res (i # is) =
     (case restage_code (si_Operation i) of
        Some code \<Rightarrow> Inl (Fail 409 code)
      | None \<Rightarrow>
          let (p, reason) = comparison i s; choice = map_of res (si_ID i) in
          if unresolvable reason then Inl (Fail 409 reason)
          else if reason \<noteq> '''' \<and> choice = None then Inl (Fail 409 ''RESOLUTION_REQUIRED'')
          else (case rebase_intents s (AList.delete (si_ID i) res) is of
                  Inl e \<Rightarrow> Inl e
                | Inr (next, left) \<Rightarrow>
                    Inr (if choice = Some ''keep-current'' then next else currentOriginal i p # next, left)))"

definition prepare_rebase :: "host \<Rightarrow> topology_ops \<Rightarrow> Candidate \<Rightarrow> Command \<Rightarrow> Snapshot \<Rightarrow> Candidate res" where
  "prepare_rebase h t c cmd s =
     (if vw_DiffTruncated (Review h t c s) then Inl (Fail 429 ''DIFF_BUDGET_EXCEEDED'')
      else if c_Generation c \<noteq> Some (s_Generation s) \<or> cmd_Generation cmd \<noteq> s_Generation s
      then Inl (Fail 409 ''GENERATION_RECONCILIATION_REQUIRED'')
      else if cmd_ConfigRevision cmd \<noteq> s_Revision s \<or> cmd_ConflictSnapshot cmd \<noteq> Some (ConflictID h c s)
      then Inl (Fail 409 ''CONFLICT_SNAPSHOT_CHANGED'')
      else case read_resolutions [] (cmd_Resolutions cmd) of
             Inl e \<Rightarrow> Inl e
           | Inr res \<Rightarrow>
               (case rebase_intents s res (c_Intents c) of
                  Inl e \<Rightarrow> Inl e
                | Inr (next, left) \<Rightarrow>
                    if left \<noteq> [] then Inl (Fail 422 ''INVALID_RESOLUTION'')
                    else Inr (c\<lparr>c_Intents := next, c_BaseRevision := Some (s_Revision s)\<rparr>)))"

text \<open>\<open>e.Sequence++\<close> on an \<open>int64\<close>.\<close>

definition int64 :: "int \<Rightarrow> int" where
  "int64 n = (n + 2 ^ 63) mod 2 ^ 64 - 2 ^ 63"

definition finish :: "host \<Rightarrow> Envelope \<Rightarrow> Candidate \<Rightarrow> Envelope res" where
  "finish h e c =
     (let c = c\<lparr>c_Revision := mint h 6, c_State := ''dirty''\<rparr>;
          c = (if c_Intents c = [] then c\<lparr>c_State := ''empty'', c_Generation := None, c_BaseRevision := None\<rparr> else c);
          e = e\<lparr>e_Candidate := c, e_Sequence := int64 (e_Sequence e + 1), e_Seal := ''''\<rparr>
      in if e_Sequence e \<le> 0 then Inl (Fail 429 ''CANDIDATE_REVISION_LIMIT'')
         else if MaxDocument < h_envelope_bytes h e then Inl (Fail 429 ''CANDIDATE_BUDGET_EXCEEDED'')
         else Inr e)"

definition prepare_candidate :: "host \<Rightarrow> topology_ops \<Rightarrow> Candidate \<Rightarrow> Command \<Rightarrow> Snapshot \<Rightarrow> Candidate res" where
  "prepare_candidate h t c cmd s =
     (if cmd_Operation cmd = ''stage'' then prepare_stage h t c cmd s
      else if cmd_Operation cmd = ''remove''
      then (case prepare_remove [] (c_Intents c) (cmd_IntentIDs cmd) of
              Inl e \<Rightarrow> Inl e | Inr is \<Rightarrow> Inr (c\<lparr>c_Intents := is\<rparr>))
      else if cmd_Operation cmd = ''discard'' then Inr (c\<lparr>c_Intents := []\<rparr>)
      else if cmd_Operation cmd = ''rebase'' then prepare_rebase h t c cmd s
      else Inl (Fail 422 ''UNSUPPORTED_CONFIGURATION''))"

definition Prepare :: "host \<Rightarrow> topology_ops \<Rightarrow> Envelope \<Rightarrow> Command \<Rightarrow> Snapshot \<Rightarrow> Envelope res" where
  "Prepare h t e cmd s =
     (if c_Consumed (e_Candidate e) \<noteq> None then Inl (Fail 409 ''CANDIDATE_CONSUMED'')
      else case prepare_candidate h t (e_Candidate e) cmd s of Inl p \<Rightarrow> Inl p | Inr c \<Rightarrow> finish h e c)"

section \<open>Validation gates\<close>

definition vlan_checks :: "StoredIntent \<Rightarrow> Port \<Rightarrow> Gate list" where
  "vlan_checks i p =
     (let mode = (if v_Mode (si_Value i) = None \<and> UsesQinQ i
                  then Some (if v_Tag (si_Value i) \<noteq> None then ''access'' else ''trunk'')
                  else v_Mode (si_Value i));
          before = si_Before i;
          reserved = (\<lambda>n. n = 0 \<or> n = 4095) in
      block_if (\<not> p_SchemaSupported p \<or> (case mode of None \<Rightarrow> True | Some m \<Rightarrow> m \<notin> set (p_Modes p)))
        ''SCHEMA_UNSUPPORTED'' (si_ID i) @
      block_if (p_Authority p \<noteq> ''local-managed'')
        (if p_Authority p = ''externally-controlled'' then ''EXTERNALLY_CONTROLLED'' else ''OWNERSHIP_UNKNOWN'') (si_ID i) @
      (if UsesQinQ i then qinqChecks i p
       else block_if ((case v_Mode before of None \<Rightarrow> False
              | Some m \<Rightarrow> m \<notin> set [''access'', ''trunk'', ''native-tagged'', ''native-untagged'']) \<or>
              elems (v_CVLANs before) \<noteq> []) ''NATIVE_SEMANTICS_UNPROVEN'' (si_ID i)) @
      allow_if (v_Mode before = None) ''NATIVE_DEFAULT_MODE_PRESERVED'' (si_ID i) @
      block_if (list_ex reserved (elems (v_Trunks before) @ elems (v_CVLANs before)))
        ''RESERVED_VLAN_OBSERVED'' (si_ID i) @
      block_if (case v_Tag before of None \<Rightarrow> False | Some n \<Rightarrow> reserved n) ''RESERVED_VLAN_OBSERVED'' (si_ID i) @
      allow_if (elems (v_Trunks (si_Value i)) = [] \<and>
          (case v_Mode (si_Value i) of None \<Rightarrow> False | Some m \<Rightarrow> m \<noteq> ''access'' \<and> m \<noteq> ''dot1q-tunnel''))
        ''EMPTY_TRUNKS_MEANS_ALL_VLANS'' (si_ID i))"

definition intent_checks :: "topology_ops \<Rightarrow> Snapshot \<Rightarrow> StoredIntent \<Rightarrow> Gate list" where
  "intent_checks t s i =
     (let op = si_Operation i in
      if op = BridgeMulticastSet then multicastChecks i s
      else if op = PortIsolationSet then isolationChecks i s
      else if IsSpanningTreeOperation op then spanningTreeChecks i s
      else if IsTopologyOperation op then tp_checks t i s
      else if op = InterfacePolicingSet then policingChecks i s
      else if IsMTUOperation op then mtuChecks i s
      else if op = InternalPortDelete then portDeletionChecks i s
      else if op = InternalPortCreate then internalPortChecks i s
      else if op = BridgeDelete then deletionChecks i s
      else if op = BridgeCreate then creationChecks i s
      else case s_Ports s (ManagementID_of (si_Object i)) of
             None \<Rightarrow> []
           | Some p \<Rightarrow> if IsBondOperation op then bondChecks i p else vlan_checks i p)"

definition Checks :: "host \<Rightarrow> topology_ops \<Rightarrow> Candidate \<Rightarrow> Snapshot \<Rightarrow> Gate list \<times> Diff list" where
  "Checks h t c s =
     (let v = Compare h t c s in
      (vw_Checks v @
       block_if (c_Intents c = []) ''EMPTY_CANDIDATE'' '''' @
       concat (map (intent_checks t s) (c_Intents c)) @
       [gate ''SAFE_APPLY_REQUIRED'' ''allowed'' ''''], vw_Diff v))"

section \<open>Capabilities\<close>

text \<open>The assignments to \<open>cap\<close> run in order and the last matching one counts.\<close>

definition capability :: "string \<Rightarrow> string" where
  "capability op =
     (if op = BridgeDelete then ''ovs.bridge.delete''
      else if op = BridgeCreate then ''ovs.bridge.create''
      else if IsBondOperation op then ''ovs.port.bond.write''
      else if op = ''port.vlan.set'' then ''ovs.port.vlan.write''
      else if op = InternalPortCreate then ''ovs.port.internal.create''
      else if op = InternalPortDelete then ''ovs.port.internal.delete''
      else if IsMTUOperation op then ''ovs.interface.mtu.write''
      else if op = InterfacePolicingSet then ''ovs.interface.policing.write''
      else if IsTunnelOperation op then ''ovs.tunnel.static.write''
      else if IsMirrorOperation op then ''ovs.mirror.write''
      else if IsTopologyOperation op then ''ovs.topology.write''
      else if op = SpanningTreeConfigure then ''ovs.bridge.spanning-tree.write''
      else if op = SpanningTreePrepare then ''ovs.bridge.spanning-tree.prepare''
      else if op = PortIsolationSet then ''ovs.port.isolation.write''
      else if op = BridgeMulticastSet then ''ovs.bridge.multicast.write''
      else ''unsupported-intent'')"

definition needed_caps :: "string \<Rightarrow> string list" where
  "needed_caps op = (if IsSpanningTreeOperation op then [''configuration.read''] else []) @ [capability op]"

definition Capabilities :: "Candidate \<Rightarrow> string list" where
  "Capabilities c = sort (foldl (\<lambda>out i. add_new out (needed_caps (si_Operation i))) [] (c_Intents c))"

section \<open>After-image and compensation\<close>

definition AfterImage :: "StoredIntent \<Rightarrow> StoredIntent" where
  "AfterImage i =
     (case si_Multicast i of Some m \<Rightarrow> i\<lparr>si_Multicast := Some (m\<lparr>mu_Before := mu_After m\<rparr>)\<rparr> | None \<Rightarrow>
     (case si_Isolation i of Some m \<Rightarrow> i\<lparr>si_Isolation := Some (m\<lparr>is_Before := is_After m\<rparr>)\<rparr> | None \<Rightarrow>
     (case si_SpanningTree i of Some m \<Rightarrow> i\<lparr>si_SpanningTree := Some (m\<lparr>tg_Before := tg_After m\<rparr>)\<rparr> | None \<Rightarrow>
     (case si_Topology i of Some g \<Rightarrow> i\<lparr>si_Topology := Some (g\<lparr>g_Observed := True\<rparr>)\<rparr> | None \<Rightarrow>
     (case si_Policing i of Some m \<Rightarrow> i\<lparr>si_Policing := Some (m\<lparr>po_Before := po_After m\<rparr>)\<rparr> | None \<Rightarrow>
     (case si_MTU i of Some m \<Rightarrow> i\<lparr>si_MTU := Some (m\<lparr>mt_Before := mt_After m\<rparr>)\<rparr> | None \<Rightarrow>
     (case si_PortDeletion i of Some d \<Rightarrow> i\<lparr>si_PortDeletion := Some (d\<lparr>id_Observed := True\<rparr>)\<rparr> | None \<Rightarrow>
     (case si_PortCreation i of Some p \<Rightarrow> i\<lparr>si_PortCreation := Some (p\<lparr>ip_BeforePresent := ip_AfterPresent p\<rparr>)\<rparr> | None \<Rightarrow>
     (case si_Deletion i of Some d \<Rightarrow> i\<lparr>si_Deletion := Some (d\<lparr>bd_Observed := True\<rparr>)\<rparr> | None \<Rightarrow>
     (case si_Creation i of Some c \<Rightarrow> i\<lparr>si_Creation := Some (c\<lparr>bc_BeforePresent := bc_AfterPresent c\<rparr>)\<rparr> | None \<Rightarrow>
      if IsBondOperation (si_Operation i) then i\<lparr>si_BeforeBond := si_Bond i\<rparr>
      else i\<lparr>si_Before := si_Value i\<rparr>))))))))))"

definition Reverse :: "StoredIntent \<Rightarrow> StoredIntent" where
  "Reverse i =
     (case si_Multicast i of
        Some m \<Rightarrow> i\<lparr>si_Multicast := Some (m\<lparr>mu_Before := mu_After m, mu_After := mu_Before m\<rparr>)\<rparr> | None \<Rightarrow>
     (case si_Isolation i of
        Some m \<Rightarrow> i\<lparr>si_Isolation := Some (m\<lparr>is_Before := is_After m, is_After := is_Before m\<rparr>)\<rparr> | None \<Rightarrow>
     (case si_SpanningTree i of
        Some m \<Rightarrow> i\<lparr>si_SpanningTree := Some (m\<lparr>tg_Before := tg_After m, tg_After := tg_Before m\<rparr>)\<rparr> | None \<Rightarrow>
     (case si_Topology i of
        Some g \<Rightarrow> i\<lparr>si_Topology := Some (g\<lparr>g_Compensating := True, g_Observed := False\<rparr>)\<rparr> | None \<Rightarrow>
     (case si_Policing i of
        Some m \<Rightarrow> i\<lparr>si_Policing := Some (m\<lparr>po_Before := po_After m, po_After := po_Before m, po_Compensating := True\<rparr>)\<rparr> | None \<Rightarrow>
     (case si_MTU i of
        Some m \<Rightarrow> i\<lparr>si_MTU := Some (m\<lparr>mt_Before := mt_After m, mt_After := mt_Before m, mt_Compensating := True\<rparr>),
          si_Operation := (if mt_Before m = None then InterfaceMTUClear else InterfaceMTUSet)\<rparr> | None \<Rightarrow>
     (case si_PortDeletion i of
        Some d \<Rightarrow> i\<lparr>si_PortDeletion := Some (d\<lparr>id_Restoring := True, id_Observed := False\<rparr>)\<rparr> | None \<Rightarrow>
     (case si_PortCreation i of
        Some p \<Rightarrow> i\<lparr>si_PortCreation := Some (p\<lparr>ip_BeforePresent := ip_AfterPresent p, ip_AfterPresent := ip_BeforePresent p\<rparr>)\<rparr> | None \<Rightarrow>
     (case si_Deletion i of
        Some d \<Rightarrow> i\<lparr>si_Deletion := Some (d\<lparr>bd_Restoring := True, bd_Observed := False\<rparr>)\<rparr> | None \<Rightarrow>
     (case si_Creation i of
        Some c \<Rightarrow> i\<lparr>si_Creation := Some (c\<lparr>bc_BeforePresent := bc_AfterPresent c, bc_AfterPresent := bc_BeforePresent c\<rparr>)\<rparr> | None \<Rightarrow>
      if IsBondOperation (si_Operation i) then i\<lparr>si_BeforeBond := si_Bond i, si_Bond := si_BeforeBond i\<rparr>
      else i\<lparr>si_Before := si_Value i, si_Value := si_Before i\<rparr>))))))))))"

section \<open>Bindings and the sealed envelope\<close>

definition opt_list :: "('a \<Rightarrow> 'b list) \<Rightarrow> 'a option \<Rightarrow> 'b list" where
  "opt_list f x = (case x of None \<Rightarrow> [] | Some y \<Rightarrow> f y)"

definition port_context :: "InternalPortCreation \<Rightarrow> Binding list" where
  "port_context p = [ip_Bridge p, ip_Interface p, ip_LocalPort p, ip_LocalInterface p] @ ip_Members p"

definition intent_bindings :: "StoredIntent \<Rightarrow> Binding list" where
  "intent_bindings i =
     si_Object i #
     (if si_Topology i \<noteq> None then TopologyBindings i
      else opt_list (\<lambda>m. [po_Port m, po_Bridge m]) (si_Policing i) @
        opt_list (\<lambda>m. [mt_Port m, mt_Bridge m] @ opt_list (\<lambda>d. elems (md_Bindings d)) (mt_Default m)) (si_MTU i) @
        opt_list (\<lambda>d. port_context (ig_Configuration (id_Source d)) @ port_graph_bindings (id_Replacement d))
          (si_PortDeletion i) @
        opt_list port_context (si_PortCreation i) @
        opt_list (\<lambda>c. [bc_Port c, bc_Interface c]) (si_Creation i) @
        opt_list (\<lambda>d. [bg_Port (bd_Source d), bg_Interface (bd_Source d)] @ graph_bindings (bd_Replacement d))
          (si_Deletion i))"

definition Bindings :: "Candidate \<Rightarrow> Binding list" where
  "Bindings c = concat (map intent_bindings (c_Intents c))"

text \<open>The HMAC of a sealed envelope is a function of the key and of the envelope without its seal.\<close>

type_synonym hmac = "8 word list \<Rightarrow> Envelope \<Rightarrow> string"

definition signature :: "hmac \<Rightarrow> 8 word list \<Rightarrow> Envelope \<Rightarrow> string" where
  "signature mac key e = mac key (e\<lparr>e_Seal := ''''\<rparr>)"

definition Sign :: "hmac \<Rightarrow> 8 word list \<Rightarrow> Envelope \<Rightarrow> Envelope" where
  "Sign mac key e = e\<lparr>e_Seal := signature mac key e\<rparr>"

definition Verify :: "hmac \<Rightarrow> 8 word list \<Rightarrow> string \<Rightarrow> Envelope \<Rightarrow> problem option" where
  "Verify mac key owner e =
     (let c = e_Candidate e in
      if length key \<noteq> 32 \<or> e_Owner e \<noteq> owner \<or> \<not> ManagementID (e_Epoch e) \<or> \<not> ManagementID (c_ID c) \<or>
         \<not> ManagementID (c_Revision c) \<or> e_Sequence e < 0 \<or> MaxIntents < length (c_Intents c)
      then Some (Fail 422 ''INVALID_CANDIDATE'')
      else if e_Sequence e = 0 \<and> e_Seal e = '''' \<and> c_Intents c = [] \<and> c_State c = ''empty'' \<and>
         c_Generation c = None \<and> c_BaseRevision c = None \<and> c_Consumed c = None
      then None
      else if e_Seal e \<noteq> signature mac key e then Some (Fail 409 ''CANDIDATE_INTEGRITY_FAILED'')
      else None)"

section \<open>What a comparison and its gates mean\<close>

text \<open>An intent is clean when its own component reports no problem.\<close>

definition problem_of :: "topology_ops \<Rightarrow> StoredIntent \<Rightarrow> Snapshot \<Rightarrow> string" where
  "problem_of t i s = (case component t i s of Some (pb, _) \<Rightarrow> pb | None \<Rightarrow> snd (comparison i s))"

lemma view_updates [simp]:
  "vw_Checks (add_diffs ds v) = vw_Checks v" "vw_Checks (add_checks gs v) = vw_Checks v @ gs"
  "vw_Checks (set_state st v) = vw_Checks v" "view_state (add_diffs ds v) = view_state v"
  "view_state (add_checks gs v) = view_state v" "view_state (set_state st v) = st"
  by (simp_all add: add_diffs_def add_checks_def set_state_def view_state_def)

lemma compare_intent_checks:
  "vw_Checks (compare_intent t s v i) = vw_Checks v @ block_if (problem_of t i s \<noteq> '''') (problem_of t i s) (si_ID i)"
proof (cases "component t i s")
  case None
  then show ?thesis
    by (cases "comparison i s") (simp add: compare_intent_def problem_of_def block_if_def Let_def)
qed (auto simp: compare_intent_def problem_of_def block_if_def)

lemma compare_intent_state:
  "problem_of t i s = '''' \<Longrightarrow> view_state (compare_intent t s v i) = view_state v"
  "problem_of t i s \<noteq> '''' \<Longrightarrow> view_state (compare_intent t s v i) \<in> {''conflict'', ''reconciliation-required''}"
proof -
  show "problem_of t i s = '''' \<Longrightarrow> view_state (compare_intent t s v i) = view_state v"
    by (cases "component t i s"; cases "comparison i s") (auto simp: compare_intent_def problem_of_def Let_def)
  show "problem_of t i s \<noteq> '''' \<Longrightarrow> view_state (compare_intent t s v i) \<in> {''conflict'', ''reconciliation-required''}"
    by (cases "component t i s"; cases "comparison i s") (auto simp: compare_intent_def problem_of_def Let_def)
qed

lemma foldl_checks:
  "vw_Checks (foldl (compare_intent t s) v is) =
     vw_Checks v @ concat (map (\<lambda>i. block_if (problem_of t i s \<noteq> '''') (problem_of t i s) (si_ID i)) is)"
  by (induction "is" arbitrary: v) (simp_all add: compare_intent_checks)

lemma Compare_checks:
  "vw_Checks (Compare h t c s) =
     concat (map (\<lambda>i. block_if (problem_of t i s \<noteq> '''') (problem_of t i s) (si_ID i)) (c_Intents c))"
  by (simp add: Compare_def foldl_checks)

lemma Passed_concat: "Passed (concat gss) \<longleftrightarrow> list_all Passed gss"
  by (induction gss) auto

text \<open>\<open>Compare\<close> changes the state of a reviewed candidate exactly when some intent has a problem:
  with no problem the state shown is the stored one, with a problem it is \<open>conflict\<close> or
  \<open>reconciliation-required\<close>, and the checks name every problematic intent once, in order.\<close>

theorem Compare_reports_problems:
  "map gt_IntentID (vw_Checks (Compare h t c s)) = map si_ID (filter (\<lambda>i. problem_of t i s \<noteq> '''') (c_Intents c)) \<and>
   (if list_all (\<lambda>i. problem_of t i s = '''') (c_Intents c) then view_state (Compare h t c s) = c_State c
    else view_state (Compare h t c s) \<in> {''conflict'', ''reconciliation-required''})"
proof -
  have ids: "map gt_IntentID (concat (map (\<lambda>i. block_if (problem_of t i s \<noteq> '''') (problem_of t i s) (si_ID i)) is)) =
      map si_ID (filter (\<lambda>i. problem_of t i s \<noteq> '''') is)" for "is"
    by (induction "is") (simp_all add: block_if_def)
  have "if list_all (\<lambda>i. problem_of t i s = '''') is then view_state (foldl (compare_intent t s) v is) = view_state v
    else view_state (foldl (compare_intent t s) v is) \<in> {''conflict'', ''reconciliation-required''}" for v "is"
  proof (induction "is" arbitrary: v)
    case (Cons i "is")
    from Cons.IH [of "compare_intent t s v i"] compare_intent_state [of t i s v] show ?case
      by (auto split: if_splits)
  qed simp
  from this [of "c_Intents c" "\<lparr>vw_Candidate = c, vw_SafeApplyAvailable = False, vw_CurrentGeneration = Some (s_Generation s),
        vw_CurrentRevision = Some (s_Revision s), vw_ConflictSnapshot = Some (ConflictID h c s),
        vw_Diff = [], vw_Checks = [], vw_DiffTruncated = False\<rparr>"]
  show ?thesis
    by (simp only: Compare_checks ids) (auto simp: Compare_def view_state_def split: if_splits)
qed

text \<open>Validation passes exactly when the candidate is not empty, no intent has a problem against
  the current snapshot, and every gate of every intent's own component passes.\<close>

theorem Checks_passed_iff:
  "Passed (fst (Checks h t c s)) \<longleftrightarrow>
     c_Intents c \<noteq> [] \<and> list_all (\<lambda>i. problem_of t i s = '''' \<and> Passed (intent_checks t s i)) (c_Intents c)"
  by (auto simp: Checks_def Let_def Compare_checks Passed_concat list_all_iff)

text \<open>The authority a component demands of the native row it edits.\<close>

definition governed :: "StoredIntent \<Rightarrow> Snapshot \<Rightarrow> bool" where
  "governed i s \<longleftrightarrow>
     (let op = si_Operation i; key = ManagementID_of (si_Object i) in
      if op = BridgeMulticastSet then (\<exists>b. s_Multicasts s key = Some b \<and> mb_Authority b = ''local-managed'' \<and> mb_Gate b = '''')
      else if op = PortIsolationSet then (\<exists>p. s_Isolations s key = Some p \<and> iso_Authority p = ''local-managed'' \<and> iso_Gate p = '''')
      else if IsSpanningTreeOperation op then (\<exists>b. s_SpanningTrees s key = Some b \<and> tb_Authority b = ''local-managed'' \<and> tb_Executable b)
      else if op = InterfacePolicingSet then (\<exists>p. s_Policings s key = Some p \<and> pp_Authority p = ''local-exclusive'' \<and> pp_Eligible p)
      else if IsMTUOperation op then (\<exists>p. s_Interfaces s key = Some p \<and> im_Authority p = ''local-managed'' \<and> im_Eligible p)
      else if op \<in> {InternalPortDelete, InternalPortCreate, BridgeDelete, BridgeCreate} then cs_Authority (s_Creation s) = ''local-managed''
      else if IsBondOperation op then (\<exists>p. s_Ports s key = Some p \<and> p_BondAuthority p = ''local-managed'')
      else op = ''port.vlan.set'' \<and> (\<exists>p. s_Ports s key = Some p \<and> p_Authority p = ''local-managed''))"

lemmas op_defs = BridgeMulticastSet_def PortIsolationSet_def SpanningTreePrepare_def SpanningTreeConfigure_def
  InterfacePolicingSet_def InterfaceMTUSet_def InterfaceMTUClear_def InternalPortDelete_def InternalPortCreate_def
  BridgeDelete_def BridgeCreate_def

lemma op_classes [simp]:
  "\<not> IsTopologyOperation BridgeMulticastSet" "\<not> IsTopologyOperation PortIsolationSet"
  "IsSpanningTreeOperation op \<Longrightarrow> \<not> IsTopologyOperation op" "\<not> IsTopologyOperation InterfacePolicingSet"
  "IsMTUOperation op \<Longrightarrow> \<not> IsTopologyOperation op" "\<not> IsTopologyOperation InternalPortDelete"
  "\<not> IsTopologyOperation InternalPortCreate" "\<not> IsTopologyOperation BridgeDelete" "\<not> IsTopologyOperation BridgeCreate"
  "IsBondOperation op \<Longrightarrow> \<not> IsTopologyOperation op" "\<not> IsTopologyOperation ''port.vlan.set''"
  by (auto simp: IsTopologyOperation_def IsMirrorOperation_def IsTunnelOperation_def op_defs
      IsSpanningTreeOperation_def IsMTUOperation_def IsBondOperation_def)

lemma clean_field_row:
  assumes "snd (comparison i s) = ''''"
  obtains p where "s_Ports s (ManagementID_of (si_Object i)) = Some p" "field_intact i s p"
proof (cases "s_Ports s (ManagementID_of (si_Object i))")
  case (Some p)
  with assms have "field_intact i s p"
    by (simp add: comparison_def field_intact_def port_problem_clean split: if_splits)
  with Some that show ?thesis by blast
qed (use assms in \<open>simp add: comparison_def split: if_splits\<close>)

lemma component_None:
  "component t i s = None \<longleftrightarrow>
     si_Operation i \<notin> {BridgeMulticastSet, PortIsolationSet, InterfacePolicingSet} \<and>
     \<not> IsSpanningTreeOperation (si_Operation i) \<and> \<not> IsTopologyOperation (si_Operation i) \<and>
     \<not> IsMTUOperation (si_Operation i) \<and>
     si_Operation i \<notin> {InternalPortDelete, InternalPortCreate, BridgeDelete, BridgeCreate}"
  by (simp add: component_def Let_def)

lemma component_governed:
  "Passed (multicastChecks i s) \<Longrightarrow>
     \<exists>b. s_Multicasts s (ManagementID_of (si_Object i)) = Some b \<and> mb_Authority b = ''local-managed'' \<and> mb_Gate b = ''''"
  "Passed (isolationChecks i s) \<Longrightarrow>
     \<exists>p. s_Isolations s (ManagementID_of (si_Object i)) = Some p \<and> iso_Authority p = ''local-managed'' \<and> iso_Gate p = ''''"
  "Passed (policingChecks i s) \<Longrightarrow>
     \<exists>p. s_Policings s (ManagementID_of (si_Object i)) = Some p \<and> pp_Authority p = ''local-exclusive'' \<and> pp_Eligible p"
  "Passed (mtuChecks i s) \<Longrightarrow>
     \<exists>p. s_Interfaces s (ManagementID_of (si_Object i)) = Some p \<and> im_Authority p = ''local-managed'' \<and> im_Eligible p"
  "Passed (portDeletionChecks i s) \<Longrightarrow> cs_Authority (s_Creation s) = ''local-managed''"
  "Passed (internalPortChecks i s) \<Longrightarrow> cs_Authority (s_Creation s) = ''local-managed''"
  "Passed (deletionChecks i s) \<Longrightarrow> cs_Authority (s_Creation s) = ''local-managed''"
  "Passed (creationChecks i s) \<Longrightarrow> cs_Authority (s_Creation s) = ''local-managed''"
  by (auto simp: multicastChecks_def isolationChecks_def policingChecks_def mtuChecks_def portDeletionChecks_def
      internalPortChecks_def deletionChecks_def creationChecks_def at_or_def zero_MulticastBridge_def
      zero_IsolationPort_def zero_InterfacePolicing_def zero_InterfaceMTU_def Let_def split: option.splits)

lemma tree_governed:
  assumes "spanningTreeProblem i s = ''''" and "Passed (spanningTreeChecks i s)"
  shows "\<exists>b. s_SpanningTrees s (ManagementID_of (si_Object i)) = Some b \<and> tb_Authority b = ''local-managed'' \<and> tb_Executable b"
proof -
  obtain b where b: "s_SpanningTrees s (ManagementID_of (si_Object i)) = Some b" "TreePreparationProblem b = ''''"
    using assms(1) by (auto simp: spanningTreeProblem_def split: option.splits if_splits)
  moreover have "tb_Executable b"
    using assms(2) b(1) by (auto simp: spanningTreeChecks_def at_or_def Let_def split: if_splits)
  ultimately show ?thesis by (auto simp: TreePreparationProblem_def split: if_splits)
qed

lemma field_governed:
  "Passed (bondChecks i p) \<Longrightarrow> p_BondAuthority p = ''local-managed''"
  "Passed (vlan_checks i p) \<Longrightarrow> p_Authority p = ''local-managed''"
  by (simp_all add: bondChecks_def vlan_checks_def Let_def)

text \<open>C38. Validation never passes without authority: when the gates of a candidate pass, every intent
  other than a topology command edits a row of the snapshot that is under local (for policing,
  exclusive) management, and a spanning-tree intent additionally holds the execution grant.\<close>

theorem passed_checks_are_governed:
  assumes "Passed (fst (Checks h t c s))" and "i \<in> set (c_Intents c)" and "\<not> IsTopologyOperation (si_Operation i)"
  shows "governed i s"
proof -
  have clean: "problem_of t i s = ''''" and gates: "Passed (intent_checks t s i)"
    using assms(1,2) by (auto simp: Checks_def Let_def Compare_checks Passed_concat list_all_iff)
  consider "si_Operation i \<in> {BridgeMulticastSet, PortIsolationSet, InterfacePolicingSet}" | "IsSpanningTreeOperation (si_Operation i)"
    | "IsMTUOperation (si_Operation i)" | "si_Operation i \<in> {InternalPortDelete, InternalPortCreate, BridgeDelete, BridgeCreate}"
    | (field) "component t i s = None"
    using assms(3) by (auto simp: component_None)
  then show ?thesis
  proof cases
    case field
    then obtain p where p: "s_Ports s (ManagementID_of (si_Object i)) = Some p" "field_intact i s p"
      using clean clean_field_row by (auto simp: problem_of_def)
    from p(2) have "IsBondOperation (si_Operation i) \<or> si_Operation i = ''port.vlan.set''"
      by (auto simp: field_intact_def split: if_splits)
    then show ?thesis
      using gates p(1) field_governed
      by (auto simp: governed_def intent_checks_def op_defs IsSpanningTreeOperation_def IsMTUOperation_def
          IsBondOperation_def assms(3))
  qed (use gates clean component_governed tree_governed assms(3) in
      \<open>auto simp: governed_def intent_checks_def problem_of_def component_def op_defs IsSpanningTreeOperation_def IsMTUOperation_def\<close>)
qed

section \<open>The candidate invariant\<close>

definition field_op :: "string \<Rightarrow> bool" where
  "field_op op \<longleftrightarrow> op = ''port.vlan.set'' \<or> IsBondOperation op"

definition component_op :: "string \<Rightarrow> bool" where
  "component_op op \<longleftrightarrow> op \<in> {BridgeMulticastSet, PortIsolationSet, InterfacePolicingSet, InternalPortDelete,
     InternalPortCreate, BridgeDelete, BridgeCreate} \<or> IsSpanningTreeOperation op \<or> IsTopologyOperation op \<or> IsMTUOperation op"

text \<open>An intent carries the payload of its own operation and no other.\<close>

definition proper :: "StoredIntent \<Rightarrow> bool" where
  "proper i \<longleftrightarrow>
     (let op = si_Operation i in
      (si_Multicast i \<noteq> None \<longleftrightarrow> op = BridgeMulticastSet) \<and> (si_Isolation i \<noteq> None \<longleftrightarrow> op = PortIsolationSet) \<and>
      (si_SpanningTree i \<noteq> None \<longleftrightarrow> IsSpanningTreeOperation op) \<and> (si_Topology i \<noteq> None \<longleftrightarrow> IsTopologyOperation op) \<and>
      (si_Policing i \<noteq> None \<longleftrightarrow> op = InterfacePolicingSet) \<and> (si_MTU i \<noteq> None \<longleftrightarrow> IsMTUOperation op) \<and>
      (si_PortDeletion i \<noteq> None \<longleftrightarrow> op = InternalPortDelete) \<and> (si_PortCreation i \<noteq> None \<longleftrightarrow> op = InternalPortCreate) \<and>
      (si_Deletion i \<noteq> None \<longleftrightarrow> op = BridgeDelete) \<and> (si_Creation i \<noteq> None \<longleftrightarrow> op = BridgeCreate) \<and>
      (field_op op \<or> component_op op))"

text \<open>The well-formedness of a stored candidate: bounded, unambiguous, consistent with one
  generation, field intents together or one component intent alone.\<close>

definition wf_intents :: "StoredIntent list \<Rightarrow> bool" where
  "wf_intents is \<longleftrightarrow> distinct (map si_ID is) \<and> list_all (\<lambda>i. ManagementID (si_ID i)) is \<and>
     distinct (map (\<lambda>i. ManagementID_of (si_Object i)) is) \<and> list_all proper is \<and>
     (length is \<le> 1 \<or> list_all (\<lambda>i. field_op (si_Operation i)) is)"

definition wf_candidate :: "Candidate \<Rightarrow> bool" where
  "wf_candidate c \<longleftrightarrow> wf_intents (c_Intents c) \<and> length (c_Intents c) \<le> MaxIntents \<and>
     (if c_Intents c = []
      then c_State c = ''empty'' \<and> c_Generation c = None \<and> c_BaseRevision c = None
      else c_State c = ''dirty'' \<and> c_BaseRevision c \<noteq> None \<and>
        (\<exists>g. c_Generation c = Some g \<and> list_all (\<lambda>i. Generation_of (si_Object i) = g) (c_Intents c)))"

lemmas op_class_defs = op_defs IsSpanningTreeOperation_def IsTopologyOperation_def IsMirrorOperation_def
  IsTunnelOperation_def IsMTUOperation_def IsBondOperation_def

lemma field_not_component: "field_op op \<Longrightarrow> \<not> component_op op"
  by (auto simp: field_op_def component_op_def op_class_defs)

lemma MTU_not_other:
  assumes "IsMTUOperation op"
  shows "op \<notin> {BridgeMulticastSet, PortIsolationSet, InterfacePolicingSet, InternalPortDelete, InternalPortCreate,
    BridgeDelete, BridgeCreate}" "\<not> IsSpanningTreeOperation op" "\<not> IsTopologyOperation op" "\<not> field_op op"
  using assms by (auto simp: field_op_def op_class_defs)

lemma map_option_same_None: "map_option f x = map_option f y \<Longrightarrow> x = None \<longleftrightarrow> y = None"
  by (cases x; cases y) simp_all

lemma kept_payload:
  assumes "originals_kept a b"
  shows "si_Multicast b = None \<longleftrightarrow> si_Multicast a = None" "si_Isolation b = None \<longleftrightarrow> si_Isolation a = None"
    "si_SpanningTree b = None \<longleftrightarrow> si_SpanningTree a = None" "si_Policing b = None \<longleftrightarrow> si_Policing a = None"
    "si_MTU b = None \<longleftrightarrow> si_MTU a = None" "si_PortCreation b = None \<longleftrightarrow> si_PortCreation a = None"
    "si_Topology b = si_Topology a" "si_PortDeletion b = si_PortDeletion a" "si_Deletion b = si_Deletion a"
    "si_Creation b = si_Creation a"
    "si_Operation b = si_Operation a \<or> IsMTUOperation (si_Operation a) \<and> IsMTUOperation (si_Operation b)"
proof -
  have eq: "sealed b = sealed a" using assms by (simp add: originals_kept_def)
  show "si_Topology b = si_Topology a" "si_PortDeletion b = si_PortDeletion a" "si_Deletion b = si_Deletion a"
    "si_Creation b = si_Creation a"
    using eq sealed_sel by metis+
  show "si_Multicast b = None \<longleftrightarrow> si_Multicast a = None" "si_Isolation b = None \<longleftrightarrow> si_Isolation a = None"
    "si_SpanningTree b = None \<longleftrightarrow> si_SpanningTree a = None" "si_Policing b = None \<longleftrightarrow> si_Policing a = None"
    "si_MTU b = None \<longleftrightarrow> si_MTU a = None" "si_PortCreation b = None \<longleftrightarrow> si_PortCreation a = None"
    using eq [THEN arg_cong, of si_Multicast] eq [THEN arg_cong, of si_Isolation] eq [THEN arg_cong, of si_SpanningTree]
      eq [THEN arg_cong, of si_Policing] eq [THEN arg_cong, of si_MTU] eq [THEN arg_cong, of si_PortCreation]
    by (auto simp: sealed_def dest: map_option_same_None)
  show "si_Operation b = si_Operation a \<or> IsMTUOperation (si_Operation a) \<and> IsMTUOperation (si_Operation b)"
    using eq [THEN arg_cong, of si_Operation] by (auto simp: sealed_def split: if_splits)
qed

lemma kept_proper:
  assumes kept: "originals_kept a b" and "proper a"
  shows "proper b"
proof (cases "si_Operation b = si_Operation a")
  case True
  with assms(2) kept_payload [OF kept] show ?thesis by (simp add: proper_def)
next
  case False
  with kept_payload(11) [OF kept] have ab: "IsMTUOperation (si_Operation a)" "IsMTUOperation (si_Operation b)" by simp_all
  with assms(2) kept_payload(1-10) [OF kept] MTU_not_other [OF ab(1)] MTU_not_other [OF ab(2)]
  show ?thesis by (simp add: proper_def component_op_def)
qed

section \<open>Staging a component keeps the invariant\<close>

text \<open>What every component's staging function guarantees of a candidate.\<close>

definition lawful :: "(Candidate \<Rightarrow> Command \<Rightarrow> Snapshot \<Rightarrow> Candidate res) \<Rightarrow> bool" where
  "lawful stage \<longleftrightarrow> (\<forall>c cmd s c'. stage c cmd s = Inr c' \<longrightarrow>
     (\<exists>i. c' = single c s i \<and> ManagementID (si_ID i) \<and> Generation_of (si_Object i) = s_Generation s \<and>
       (\<forall>prior \<in> set (c_Intents c). originals_kept prior i) \<and>
       (list_all proper (c_Intents c) \<longrightarrow> proper i)))"

context sealed_component
begin

lemma stage_lawful:
  assumes fresh: "\<And>c cmd s i. stage c cmd s = Inr (single c s i) \<Longrightarrow> c_Intents c = [] \<Longrightarrow> proper i"
  shows "lawful stage"
  unfolding lawful_def
proof (intro allI impI)
  fix c cmd s c'
  assume st: "stage c cmd s = Inr c'"
  obtain i where i: "c' = single c s i" "length (c_Intents c) \<le> 1" "ManagementID (si_ID i)"
      "Generation_of (si_Object i) = s_Generation s"
    using stage_single [OF st] by metis
  have kept: "originals_kept prior i" if "prior \<in> set (c_Intents c)" for prior
    using stage_keeps [OF st that] i(1) by (simp add: single_def)
  have "proper i" if all: "list_all proper (c_Intents c)"
  proof (cases "c_Intents c")
    case Nil
    with fresh st i(1) show ?thesis by simp
  next
    case (Cons prior rest)
    with kept [of prior] kept_proper all show ?thesis by simp
  qed
  with i kept show "\<exists>i. c' = single c s i \<and> ManagementID (si_ID i) \<and> Generation_of (si_Object i) = s_Generation s \<and>
       (\<forall>prior \<in> set (c_Intents c). originals_kept prior i) \<and> (list_all proper (c_Intents c) \<longrightarrow> proper i)"
    by blast
qed

end

lemmas proper_eval = proper_def component_op_def captured_def zero_intent_def op_class_defs field_op_def Let_def

lemma lawful_multicast: "lawful stageMulticast"
proof (rule multicast.stage_lawful)
  fix c cmd s i
  assume "stageMulticast c cmd s = Inr (single c s i)" "c_Intents c = []"
  then show "proper i"
    by (elim stageMulticast_Inr stage_multicast_row_cases) (auto simp: proper_eval)
qed

lemma lawful_isolation: "lawful stageIsolation"
proof (rule isolation.stage_lawful)
  fix c cmd s i
  assume "stageIsolation c cmd s = Inr (single c s i)" "c_Intents c = []"
  then show "proper i"
    by (elim stageIsolation_Inr) (auto simp: stage_isolation_row_def proper_eval split: if_splits)
qed

lemma lawful_policing: "lawful stagePolicing"
proof (rule policing.stage_lawful)
  fix c cmd s i
  assume "stagePolicing c cmd s = Inr (single c s i)" "c_Intents c = []"
  then show "proper i"
    by (elim stagePolicing_Inr) (auto simp: stage_policing_row_def proper_eval split: if_splits)
qed

lemma lawful_mtu: "lawful stageMTU"
proof (rule mtu.stage_lawful)
  fix c cmd s i
  assume "stageMTU c cmd s = Inr (single c s i)" "c_Intents c = []"
  then show "proper i"
    by (elim stageMTU_Inr stage_mtu_row_cases) (auto simp: proper_eval)
qed

lemma lawful_tree: "lawful stageSpanningTree"
proof (rule tree.stage_lawful)
  fix c cmd s i
  assume "stageSpanningTree c cmd s = Inr (single c s i)" "c_Intents c = []"
  then show "proper i"
    by (elim stageSpanningTree_Inr stage_tree_row_cases) (auto simp: proper_eval)
qed

lemma lawful_creation: "lawful (stageCreation h)"
proof (rule creation.stage_lawful)
  fix c cmd s i
  assume "stageCreation h c cmd s = Inr (single c s i)" "c_Intents c = []"
  then show "proper i"
    by (elim stageCreation_Inr) (auto simp: newBridgeIntent_def proper_eval split: if_splits)
qed

lemma lawful_deletion: "lawful (stageDeletion h)"
proof (rule deletion.stage_lawful)
  fix c cmd s i
  assume "stageDeletion h c cmd s = Inr (single c s i)" "c_Intents c = []"
  then show "proper i"
    by (auto simp: stageDeletion_def Let_def split: list.splits if_splits option.splits) (auto simp: proper_eval)
qed

lemma lawful_port_creation: "lawful (stageInternalPort h)"
proof (rule port_creation.stage_lawful)
  fix c cmd s i
  assume "stageInternalPort h c cmd s = Inr (single c s i)" "c_Intents c = []"
  then show "proper i"
    by (auto simp: stageInternalPort_def Let_def split: list.splits if_splits option.splits) (auto simp: proper_eval)
qed

lemma lawful_port_deletion: "lawful (stagePortDeletion h)"
proof (rule port_deletion.stage_lawful)
  fix c cmd s i
  assume "stagePortDeletion h c cmd s = Inr (single c s i)" "c_Intents c = []"
  then show "proper i"
    by (auto simp: stagePortDeletion_def Let_def split: list.splits if_splits option.splits) (auto simp: proper_eval)
qed

lemmas lawful_stages = lawful_multicast lawful_isolation lawful_policing lawful_mtu lawful_tree
  lawful_creation lawful_deletion lawful_port_creation lawful_port_deletion

definition no_topology :: "Candidate \<Rightarrow> Command \<Rightarrow> bool" where
  "no_topology c cmd \<longleftrightarrow> \<not> hasOp IsTopologyOperation c \<and>
     list_all (\<lambda>r. \<not> IsTopologyOperation (in_Operation r)) (cmd_Intents cmd)"

lemma prepare_stage_cases:
  assumes "prepare_stage h t c cmd s = Inr c'" and "no_topology c cmd"
  obtains (component) stage where "lawful stage" "stage c cmd s = Inr c'"
  | (ports) "stage_ports c cmd s = Inr c'" "\<not> hasOp component_op c" "cmd_Intents cmd \<noteq> []"
proof -
  let ?op = "in_Operation (hd (cmd_Intents cmd))"
  from assms(1) have ne: "cmd_Intents cmd \<noteq> []"
    and d: "dispatch (stage_route h t) c ?op c cmd s = Inr c'"
    by (auto simp: prepare_stage_def split: if_splits option.splits)
  have nt: "\<not> hasOp IsTopologyOperation c" "\<not> IsTopologyOperation ?op"
    using assms(2) ne by (auto simp: no_topology_def list_all_iff)
  have some: "dispatch (stage_route h t) c ?op \<noteq> stage_ports \<Longrightarrow>
      dispatch (stage_route h t) c ?op \<in> {stageMulticast, stageIsolation, stageSpanningTree, stagePolicing, stageMTU,
        stagePortDeletion h, stageInternalPort h, stageDeletion h, stageCreation h}"
    using nt by (auto simp: stage_route_def)
  have none: "hasOp component_op c \<Longrightarrow> dispatch (stage_route h t) c ?op
      \<in> {stageMulticast, stageIsolation, stageSpanningTree, stagePolicing, stageMTU,
        stagePortDeletion h, stageInternalPort h, stageDeletion h, stageCreation h}"
    using nt by (auto simp: stage_route_def hasOp_def component_op_def list_ex_iff)
  show thesis
  proof (cases "hasOp component_op c \<or> dispatch (stage_route h t) c ?op \<noteq> stage_ports")
    case True
    then have "lawful (dispatch (stage_route h t) c ?op)"
      using some none lawful_stages by (elim disjE) (metis insertE singletonD)+
    then show thesis using component d by blast
  next
    case False
    then show thesis using ports d ne by simp
  qed
qed

section \<open>Staging field intents keeps the invariant\<close>

lemma find_prior_None:
  "find_prior r n idx is = Inr None \<Longrightarrow> idx = None \<and>
    (\<forall>i \<in> set is. si_ID i \<noteq> in_ID r \<and> ManagementID_of (si_Object i) \<noteq> ManagementID_of (in_Object r))"
  by (induction r n idx "is" rule: find_prior.induct) (auto split: if_splits)

lemma find_prior_Some:
  "find_prior r n idx is = Inr (Some m) \<Longrightarrow> idx = Some m \<or>
    (\<exists>k < length is. m = n + k \<and> si_ID (is ! k) = in_ID r \<and> si_Object (is ! k) = in_Object r \<and>
      si_Operation (is ! k) = in_Operation r)"
proof (induction r n idx "is" rule: find_prior.induct)
  case (2 r n idx prior ps)
  show ?case
  proof (cases "si_ID prior = in_ID r")
    case True
    with 2 have "m = n \<or> (\<exists>k < length ps. m = n + 1 + k \<and> si_ID (ps ! k) = in_ID r \<and> si_Object (ps ! k) = in_Object r \<and>
        si_Operation (ps ! k) = in_Operation r)"
      and "si_Object prior = in_Object r" "si_Operation prior = in_Operation r"
      by (auto split: if_splits)
    with True show ?thesis by (auto simp: Ex_less_Suc2)
  next
    case False
    with 2 have "idx = Some m \<or> (\<exists>k < length ps. m = n + 1 + k \<and> si_ID (ps ! k) = in_ID r \<and>
        si_Object (ps ! k) = in_Object r \<and> si_Operation (ps ! k) = in_Operation r)"
      by (auto split: if_splits)
    then show ?thesis by (auto simp: Ex_less_Suc2)
  qed
qed simp

lemma edit_field_frame [simp]:
  "si_ID (edit_field r p d i) = si_ID i" "si_Object (edit_field r p d i) = si_Object i"
  "si_Operation (edit_field r p d i) = si_Operation i"
  by (simp_all add: edit_field_def Let_def)

lemma edit_field_kept: "originals_kept i (edit_field r p d i)"
  by (auto simp: originals_kept_def sealed_def edit_field_def Let_def)

lemma new_field_frame [simp]:
  "si_ID (new_field r s p d) = in_ID r" "si_Object (new_field r s p d) = in_Object r"
  "si_Operation (new_field r s p d) = in_Operation r"
  by (simp_all add: new_field_def)

lemma new_field_proper: "field_op (in_Operation r) \<Longrightarrow> proper (new_field r s p d)"
  by (auto simp: new_field_def currentOriginal_def proper_eval)

lemma stage_field_cases:
  assumes "stage_field s c r = Inr c'"
  obtains (new) p d where "c' = c\<lparr>c_Intents := c_Intents c @ [new_field r s p d]\<rparr>"
      "\<forall>i \<in> set (c_Intents c). si_ID i \<noteq> in_ID r \<and> ManagementID_of (si_Object i) \<noteq> ManagementID_of (in_Object r)"
      "\<not> generation_changed c (in_Object r) s"
  | (edit) n p d where "n < length (c_Intents c)"
      "c' = c\<lparr>c_Intents := (c_Intents c)[n := edit_field r p d (c_Intents c ! n)]\<rparr>"
      "\<not> generation_changed c (in_Object r) s"
proof -
  from assms obtain p d where g: "\<not> generation_changed c (in_Object r) s" and pl: "place_field r s p d c = Inr c'"
    by (auto simp: stage_field_def split: if_splits option.splits sum.splits)
  from pl consider "find_prior r 0 None (c_Intents c) = Inr None"
    | n where "find_prior r 0 None (c_Intents c) = Inr (Some n)"
    by (auto simp: place_field_def split: sum.splits option.splits)
  then show thesis
  proof cases
    case 1
    with pl g find_prior_None [OF 1] show thesis by (intro new [of p d]) (auto simp: place_field_def)
  next
    case (2 n)
    with find_prior_Some [OF 2] have n: "n < length (c_Intents c)" by auto
    from pl 2 obtain d' where "c' = c\<lparr>c_Intents := (c_Intents c)[n := edit_field r p d' (c_Intents c ! n)]\<rparr>"
      by (auto simp: place_field_def Let_def split: if_splits option.splits sum.splits)
    with n g edit show thesis by blast
  qed
qed

text \<open>The invariant of the staging loop: every intent belongs to the generation of the snapshot,
  unless it came with the candidate.\<close>

definition fields_ok :: "Candidate \<Rightarrow> Snapshot \<Rightarrow> bool" where
  "fields_ok c s \<longleftrightarrow> wf_intents (c_Intents c) \<and> list_all (\<lambda>i. field_op (si_Operation i)) (c_Intents c) \<and>
     list_all (\<lambda>i. c_Generation c = Some (Generation_of (si_Object i)) \<or>
       Generation_of (si_Object i) = s_Generation s) (c_Intents c)"

lemma map_update_same:
  "n < length xs \<Longrightarrow> f y = f (xs ! n) \<Longrightarrow> map f (xs[n := y]) = map f xs"
  by (simp add: map_update) (metis list_update_id nth_map)

lemma stage_field_ok:
  assumes "stage_field s c r = Inr c'" and "fields_ok c s" and "ManagementID (in_ID r)" and "field_op (in_Operation r)"
  shows "fields_ok c' s \<and> c_Generation c' = c_Generation c \<and> c_Generation c \<in> {None, Some (s_Generation s)} \<and>
    c_BaseRevision c' = c_BaseRevision c \<and> c_State c' = c_State c \<and>
    (\<forall>i \<in> set (c_Intents c). \<exists>j \<in> set (c_Intents c'). originals_kept i j) \<and> c_Intents c' \<noteq> []"
  using assms(1)
proof (cases rule: stage_field_cases)
  case (new p d)
  have "Generation_of (in_Object r) = s_Generation s" "c_Generation c \<in> {None, Some (s_Generation s)}"
    using generation_unchanged [OF new(3)] by simp_all
  then show ?thesis
    using new(1,2) assms(2-4) new_field_proper [OF assms(4)]
    by (auto simp: fields_ok_def wf_intents_def list_all_iff)
next
  case (edit n p d)
  let ?e = "edit_field r p d (c_Intents c ! n)"
  let ?is = "(c_Intents c)[n := ?e]"
  have gen: "c_Generation c \<in> {None, Some (s_Generation s)}" using generation_unchanged [OF edit(3)] by simp
  have ids: "map si_ID ?is = map si_ID (c_Intents c)"
    "map (\<lambda>i. ManagementID_of (si_Object i)) ?is = map (\<lambda>i. ManagementID_of (si_Object i)) (c_Intents c)"
    using edit(1) by (intro map_update_same; simp)+
  have mem: "set ?is \<subseteq> insert ?e (set (c_Intents c))" by (rule set_update_subset_insert)
  have old: "c_Intents c ! n \<in> set (c_Intents c)" using edit(1) by simp
  have pr: "proper ?e"
    using kept_proper [OF edit_field_kept] assms(2) old by (auto simp: fields_ok_def wf_intents_def list_all_iff)
  have kept: "\<exists>j \<in> set ?is. originals_kept i j" if i: "i \<in> set (c_Intents c)" for i
  proof -
    obtain k where k: "k < length (c_Intents c)" "c_Intents c ! k = i" using i by (auto simp: in_set_conv_nth)
    then have "?is ! k \<in> set ?is" by simp
    moreover have "originals_kept i (?is ! k)"
      using k edit(1) edit_field_kept by (cases "k = n") auto
    ultimately show ?thesis by blast
  qed
  have "fields_ok (c\<lparr>c_Intents := ?is\<rparr>) s"
    using assms(2) ids mem old pr
    by (auto simp: fields_ok_def wf_intents_def list_all_iff dest!: subsetD [OF mem])
  then show ?thesis
    using edit gen kept by (auto simp del: set_update_memI)
qed

lemma stage_fields_ok:
  assumes "stage_fields s seen c rs = Inr c'" and "fields_ok c s"
  shows "fields_ok c' s \<and> c_Generation c' = c_Generation c \<and> c_BaseRevision c' = c_BaseRevision c \<and>
    c_State c' = c_State c \<and> (rs \<noteq> [] \<longrightarrow> c_Generation c \<in> {None, Some (s_Generation s)} \<and> c_Intents c' \<noteq> []) \<and>
    (\<forall>i \<in> set (c_Intents c). \<exists>j \<in> set (c_Intents c'). originals_kept i j)"
  using assms
proof (induction s seen c rs rule: stage_fields.induct)
  case (2 s seen c r rs)
  from "2.prems"(1) obtain d where d: "stage_field s c r = Inr d" "stage_fields s (in_ID r # seen) d rs = Inr c'"
      and r: "ManagementID (in_ID r)" "field_op (in_Operation r)"
    by (auto simp: field_op_def split: if_splits sum.splits)
  note one = stage_field_ok [OF d(1) "2.prems"(2) r]
  have rest: "fields_ok c' s \<and> c_Generation c' = c_Generation d \<and> c_BaseRevision c' = c_BaseRevision d \<and>
    c_State c' = c_State d \<and> (rs \<noteq> [] \<longrightarrow> c_Generation d \<in> {None, Some (s_Generation s)} \<and> c_Intents c' \<noteq> []) \<and>
    (\<forall>i \<in> set (c_Intents d). \<exists>j \<in> set (c_Intents c'). originals_kept i j)"
    by (rule "2.IH") (use "2.prems"(1) d one in \<open>auto split: if_splits\<close>)
  have "c_Intents c' \<noteq> []" using rest one by fastforce
  moreover have "\<exists>j \<in> set (c_Intents c'). originals_kept i j" if "i \<in> set (c_Intents c)" for i
    using one rest that originals_kept_trans by meson
  ultimately show ?case using one rest by simp
qed auto

lemma wf_field_ops: "wf_candidate c \<Longrightarrow> \<not> hasOp component_op c \<Longrightarrow> list_all (\<lambda>i. field_op (si_Operation i)) (c_Intents c)"
  by (auto simp: wf_candidate_def wf_intents_def hasOp_def list_ex_iff list_all_iff proper_def Let_def)

lemma stage_ports_wf:
  assumes "stage_ports c cmd s = Inr c'" and "wf_candidate c" and "\<not> hasOp component_op c" and "cmd_Intents cmd \<noteq> []"
  shows "wf_candidate (c'\<lparr>c_State := ''dirty''\<rparr>) \<and> c_Intents c' \<noteq> [] \<and>
    (\<forall>i \<in> set (c_Intents c). \<exists>j \<in> set (c_Intents c'). originals_kept i j)"
proof -
  obtain d where d: "stage_fields s [] c (cmd_Intents cmd) = Inr d" "length (c_Intents d) \<le> MaxIntents"
      and c': "c' = (if c_Generation d = None
        then d\<lparr>c_Generation := Some (s_Generation s), c_BaseRevision := Some (s_Revision s)\<rparr> else d)"
    using assms(1) by (auto simp: stage_ports_def not_less split: sum.splits if_splits)
  have "fields_ok c s"
    using assms(2) wf_field_ops [OF assms(2,3)] by (cases "c_Intents c") (auto simp: fields_ok_def wf_candidate_def list_all_iff)
  from stage_fields_ok [OF d(1) this] assms(4) have ok: "fields_ok d s" "c_Generation d = c_Generation c"
      "c_BaseRevision d = c_BaseRevision c" "c_Generation c \<in> {None, Some (s_Generation s)}" "c_Intents d \<noteq> []"
      "\<forall>i \<in> set (c_Intents c). \<exists>j \<in> set (c_Intents d). originals_kept i j"
    by auto
  have base: "c_Generation c \<noteq> None \<Longrightarrow> c_BaseRevision c \<noteq> None"
    using assms(2) by (auto simp: wf_candidate_def split: if_splits)
  have gens: "list_all (\<lambda>i. Generation_of (si_Object i) = s_Generation s) (c_Intents d)"
    using ok(1,2,4) by (auto simp: fields_ok_def list_all_iff)
  show ?thesis
    using c' ok base gens d(2) by (auto simp: wf_candidate_def fields_ok_def)
qed

lemma lawful_wf:
  assumes "lawful stage" and "stage c cmd s = Inr c'" and "wf_candidate c"
  shows "wf_candidate (c'\<lparr>c_State := ''dirty''\<rparr>) \<and> c_Intents c' \<noteq> [] \<and>
    (\<forall>i \<in> set (c_Intents c). \<exists>j \<in> set (c_Intents c'). originals_kept i j)"
proof -
  obtain i where i: "c' = single c s i" "ManagementID (si_ID i)" "Generation_of (si_Object i) = s_Generation s"
      "\<forall>prior \<in> set (c_Intents c). originals_kept prior i" "list_all proper (c_Intents c) \<longrightarrow> proper i"
    using assms(1,2) unfolding lawful_def by blast
  with assms(3) show ?thesis
    by (auto simp: wf_candidate_def wf_intents_def single_def MaxIntents_def)
qed

lemma prepare_stage_wf:
  assumes "prepare_stage h t c cmd s = Inr c'" and "wf_candidate c" and "no_topology c cmd"
  shows "wf_candidate (c'\<lparr>c_State := ''dirty''\<rparr>) \<and> c_Intents c' \<noteq> [] \<and>
    (\<forall>i \<in> set (c_Intents c). \<exists>j \<in> set (c_Intents c'). originals_kept i j)"
  using assms(1,3)
proof (cases rule: prepare_stage_cases)
  case (component stage)
  with assms(2) show ?thesis by (intro lawful_wf)
next
  case ports
  with assms(2) show ?thesis by (intro stage_ports_wf)
qed

section \<open>Removing and rebasing\<close>

lemma remove_first_Some:
  assumes "remove_first x is = Some js" and "distinct (map si_ID is)"
  shows "js = filter (\<lambda>i. si_ID i \<noteq> x) is \<and> x \<in> si_ID ` set is"
  using assms
proof (induction "is" arbitrary: js)
  case (Cons i "is")
  show ?case
  proof (cases "si_ID i = x")
    case True
    with Cons.prems have "filter (\<lambda>i. si_ID i \<noteq> x) is = is"
      by (simp add: filter_id_conv) (metis image_eqI)
    with True Cons.prems show ?thesis by simp
  next
    case False
    with Cons.prems obtain ks where "remove_first x is = Some ks" "js = i # ks" by auto
    with Cons False show ?thesis by auto
  qed
qed simp

lemma remove_first_None: "remove_first x is = None \<longleftrightarrow> x \<notin> si_ID ` set is"
  by (induction "is") auto

lemma prepare_remove_Inr:
  assumes "distinct (map si_ID is)"
  shows "prepare_remove seen is xs = Inr js \<longleftrightarrow>
    distinct xs \<and> set xs \<inter> set seen = {} \<and> set xs \<subseteq> si_ID ` set is \<and> js = filter (\<lambda>i. si_ID i \<notin> set xs) is"
  using assms
proof (induction seen "is" xs arbitrary: js rule: prepare_remove.induct)
  case (2 seen "is" x xs)
  show ?case
  proof (cases "x \<in> set seen \<or> x \<notin> si_ID ` set is")
    case True
    then show ?thesis by (auto simp: remove_first_None [symmetric] split: option.splits)
  next
    case False
    then obtain ks where ks: "remove_first x is = Some ks" using remove_first_None by (metis not_None_eq)
    with remove_first_Some 2(2) have k: "ks = filter (\<lambda>i. si_ID i \<noteq> x) is" by blast
    then have "distinct (map si_ID ks)" using 2(2) by (simp add: distinct_map_filter)
    moreover have "si_ID ` set ks = si_ID ` set is - {x}" by (auto simp: k)
    moreover have "filter (\<lambda>i. si_ID i \<notin> set xs) ks = filter (\<lambda>i. si_ID i \<notin> set (x # xs)) is"
      by (simp add: k filter_filter conj_commute)
    ultimately show ?thesis using "2.IH" [OF _ ks] False ks by auto
  qed
qed auto

definition resolutions :: "Command \<Rightarrow> string gomap" where
  "resolutions cmd = map (\<lambda>r. (r_IntentID r, r_Choice r)) (cmd_Resolutions cmd)"

lemma read_resolutions_Inr:
  assumes "read_resolutions m rs = Inr m'" and "distinct (map fst m)"
  shows "m' = rev (map (\<lambda>r. (r_IntentID r, r_Choice r)) rs) @ m \<and> distinct (map fst m') \<and>
    list_all (\<lambda>r. r_Choice r \<in> {''keep-current'', ''keep-mine''}) rs"
  using assms
proof (induction m rs rule: read_resolutions.induct)
  case (2 m r rs)
  from "2.prems" have new: "r_IntentID r \<notin> fst ` set m" "r_Choice r \<in> {''keep-current'', ''keep-mine''}"
      and rec: "read_resolutions ((r_IntentID r, r_Choice r) # m) rs = Inr m'"
    by (auto simp: map_of_eq_None_iff split: if_splits)
  have IH: "m' = rev (map (\<lambda>r. (r_IntentID r, r_Choice r)) rs) @ (r_IntentID r, r_Choice r) # m \<and>
      distinct (map fst m') \<and> list_all (\<lambda>r. r_Choice r \<in> {''keep-current'', ''keep-mine''}) rs"
    by (rule "2.IH") (use new rec "2.prems"(2) in \<open>auto simp: map_of_eq_None_iff\<close>)
  then have "distinct (map fst m')" by blast
  moreover from IH have "m' = rev (map (\<lambda>r. (r_IntentID r, r_Choice r)) (r # rs)) @ m" by simp
  moreover from IH new(2) have "list_all (\<lambda>r. r_Choice r \<in> {''keep-current'', ''keep-mine''}) (r # rs)" by simp
  ultimately show ?case by blast
qed simp

lemma read_resolutions_lookup:
  assumes "read_resolutions [] (cmd_Resolutions cmd) = Inr res"
  shows "map_of res = map_of (resolutions cmd)"
proof -
  have "res = rev (resolutions cmd)" "distinct (map fst res)"
    using read_resolutions_Inr [OF assms] by (auto simp: resolutions_def)
  then show ?thesis
    by (metis distinct_map distinct_rev map_of_inject_set rev_map set_rev)
qed

definition recapture :: "Snapshot \<Rightarrow> StoredIntent \<Rightarrow> StoredIntent" where
  "recapture s i = currentOriginal i (fst (comparison i s))"

lemma rebase_intents_Inr:
  assumes "rebase_intents s res is = Inr (next, left)" and "distinct (map si_ID is)"
  shows "next = map (recapture s) (filter (\<lambda>i. map_of res (si_ID i) \<noteq> Some ''keep-current'') is) \<and>
    list_all (\<lambda>i. restage_code (si_Operation i) = None \<and> \<not> unresolvable (snd (comparison i s)) \<and>
      (snd (comparison i s) = '''' \<or> map_of res (si_ID i) \<noteq> None)) is \<and>
    map_of left = (map_of res) |` (- si_ID ` set is)"
  using assms
proof (induction "is" arbitrary: res "next" left)
  case (Cons i "is")
  obtain p reason where pr: "comparison i s = (p, reason)" by (cases "comparison i s")
  let ?res = "AList.delete (si_ID i) res"
  from Cons.prems pr obtain nx where nx: "rebase_intents s ?res is = Inr (nx, left)"
      and n: "next = (if map_of res (si_ID i) = Some ''keep-current'' then nx else currentOriginal i p # nx)"
      and ok: "restage_code (si_Operation i) = None" "\<not> unresolvable reason" "reason = '''' \<or> map_of res (si_ID i) \<noteq> None"
    by (auto simp: Let_def split: option.splits if_splits sum.splits prod.splits)
  note IH = Cons.IH [OF nx]
  have look: "map_of ?res (si_ID j) = map_of res (si_ID j)" if "j \<in> set is" for j
  proof -
    have "si_ID j \<noteq> si_ID i" using Cons.prems(2) that by (metis distinct.simps(2) image_eqI list.simps(9) set_map)
    then show ?thesis by (simp add: delete_conv')
  qed
  have "map_of left = (map_of res) |` (- si_ID ` set (i # is))"
    using IH Cons.prems(2) by (auto simp: delete_conv' restrict_map_def fun_eq_iff)
  moreover have "filter (\<lambda>j. map_of ?res (si_ID j) \<noteq> Some ''keep-current'') is =
      filter (\<lambda>j. map_of res (si_ID j) \<noteq> Some ''keep-current'') is"
    using look by (intro filter_cong) auto
  ultimately show ?case
    using IH n ok pr look Cons.prems(2) by (auto simp: recapture_def list_all_iff)
qed (auto simp: restrict_map_def)

lemma prepare_rebase_Inr:
  assumes "prepare_rebase h t c cmd s = Inr c'" and "distinct (map si_ID (c_Intents c))"
  shows "c' = c\<lparr>c_Intents := map (recapture s)
        (filter (\<lambda>i. map_of (resolutions cmd) (si_ID i) \<noteq> Some ''keep-current'') (c_Intents c)),
      c_BaseRevision := Some (s_Revision s)\<rparr>"
    and "list_all (\<lambda>i. restage_code (si_Operation i) = None \<and> \<not> unresolvable (snd (comparison i s)) \<and>
      (snd (comparison i s) = '''' \<or> map_of (resolutions cmd) (si_ID i) \<noteq> None)) (c_Intents c)"
    and "fst ` set (resolutions cmd) \<subseteq> si_ID ` set (c_Intents c)"
    and "c_Generation c = Some (s_Generation s)" and "cmd_ConflictSnapshot cmd = Some (ConflictID h c s)"
proof -
  obtain res nx where r: "read_resolutions [] (cmd_Resolutions cmd) = Inr res"
      and nx: "rebase_intents s res (c_Intents c) = Inr (nx, [])"
      and c': "c' = c\<lparr>c_Intents := nx, c_BaseRevision := Some (s_Revision s)\<rparr>"
      and g: "c_Generation c = Some (s_Generation s)" "cmd_ConflictSnapshot cmd = Some (ConflictID h c s)"
    using assms(1) by (auto simp: prepare_rebase_def split: if_splits sum.splits prod.splits)
  note spec = rebase_intents_Inr [OF nx assms(2)]
  have look: "map_of res = map_of (resolutions cmd)" by (rule read_resolutions_lookup [OF r])
  show "c' = c\<lparr>c_Intents := map (recapture s)
        (filter (\<lambda>i. map_of (resolutions cmd) (si_ID i) \<noteq> Some ''keep-current'') (c_Intents c)),
      c_BaseRevision := Some (s_Revision s)\<rparr>"
    and "list_all (\<lambda>i. restage_code (si_Operation i) = None \<and> \<not> unresolvable (snd (comparison i s)) \<and>
      (snd (comparison i s) = '''' \<or> map_of (resolutions cmd) (si_ID i) \<noteq> None)) (c_Intents c)"
    using spec c' look by auto
  have "map_of (resolutions cmd) |` (- si_ID ` set (c_Intents c)) = Map.empty"
    using spec look by simp
  then have "dom (map_of (resolutions cmd)) \<subseteq> si_ID ` set (c_Intents c)"
    by (auto simp: restrict_map_def fun_eq_iff split: if_splits)
  then show "fst ` set (resolutions cmd) \<subseteq> si_ID ` set (c_Intents c)"
    by (simp add: dom_map_of_conv_image_fst)
  show "c_Generation c = Some (s_Generation s)" "cmd_ConflictSnapshot cmd = Some (ConflictID h c s)" by (fact g)+
qed

section \<open>Preparing a revision\<close>

lemma int64_id: "- (2 ^ 63) \<le> n \<Longrightarrow> n < 2 ^ 63 \<Longrightarrow> int64 n = n"
  by (simp add: int64_def)

lemma int64_succ: "0 \<le> n \<Longrightarrow> n < 2 ^ 63 \<Longrightarrow> 0 < int64 (n + 1) \<Longrightarrow> int64 (n + 1) = n + 1"
proof (cases "n + 1 < 2 ^ 63")
  case False
  assume "n < 2 ^ 63" "0 < int64 (n + 1)"
  moreover from False \<open>n < 2 ^ 63\<close> have "n = 2 ^ 63 - 1" by simp
  ultimately show ?thesis by (simp add: int64_def)
qed (simp add: int64_id)

lemma finish_Inr:
  assumes "finish h e c = Inr e'"
  shows "c_Intents (e_Candidate e') = c_Intents c" "c_ID (e_Candidate e') = c_ID c"
    "c_Consumed (e_Candidate e') = c_Consumed c" "c_Revision (e_Candidate e') = mint h 6"
    "e_Owner e' = e_Owner e" "e_Epoch e' = e_Epoch e" "e_Seal e' = ''''"
    "e_Sequence e' = int64 (e_Sequence e + 1)" "0 < e_Sequence e'" "h_envelope_bytes h e' \<le> MaxDocument"
    "c_Intents c \<noteq> [] \<Longrightarrow> e_Candidate e' = c\<lparr>c_Revision := mint h 6, c_State := ''dirty''\<rparr>"
    "c_Intents c = [] \<Longrightarrow> c_State (e_Candidate e') = ''empty'' \<and> c_Generation (e_Candidate e') = None \<and>
       c_BaseRevision (e_Candidate e') = None"
  using assms by (auto simp: finish_def Let_def split: if_splits)

lemma wf_revision [simp]: "wf_candidate (c\<lparr>c_Revision := r, c_State := st\<rparr>) \<longleftrightarrow> wf_candidate (c\<lparr>c_State := st\<rparr>)"
  by (simp add: wf_candidate_def)

lemma wf_empty: "c_Intents c = [] \<Longrightarrow> c_State c = ''empty'' \<Longrightarrow> c_Generation c = None \<Longrightarrow> c_BaseRevision c = None \<Longrightarrow>
    wf_candidate c"
  by (simp add: wf_candidate_def wf_intents_def)

lemma finish_wf:
  assumes "finish h e c = Inr e'" and "c_Intents c \<noteq> [] \<Longrightarrow> wf_candidate (c\<lparr>c_State := ''dirty''\<rparr>)"
  shows "wf_candidate (e_Candidate e')"
proof (cases "c_Intents c = []")
  case True
  with finish_Inr(1,12) [OF assms(1)] show ?thesis by (intro wf_empty) auto
next
  case False
  with finish_Inr(11) [OF assms(1)] assms(2) show ?thesis by simp
qed

lemma wf_intents_subset:
  assumes "wf_intents is"
  shows "wf_intents (filter P is)"
proof -
  have "length (filter P is) \<le> length is" by simp
  then show ?thesis
    using assms by (auto simp: wf_intents_def distinct_map_filter list_all_iff simp del: length_filter_le)
qed

lemma wf_intents_map:
  assumes "wf_intents is" and "\<And>i. i \<in> set is \<Longrightarrow> si_ID (f i) = si_ID i \<and> si_Object (f i) = si_Object i \<and>
    si_Operation (f i) = si_Operation i \<and> proper (f i)"
  shows "wf_intents (map f is)"
proof -
  have ids: "map si_ID (map f is) = map si_ID is"
    and objs: "map (\<lambda>i. ManagementID_of (si_Object i)) (map f is) = map (\<lambda>i. ManagementID_of (si_Object i)) is"
    using assms(2) by simp_all
  show ?thesis
    unfolding wf_intents_def ids objs using assms by (simp add: wf_intents_def list_all_iff)
qed

lemma recapture_frame [simp]:
  "si_ID (recapture s i) = si_ID i" "si_Object (recapture s i) = si_Object i" "si_Operation (recapture s i) = si_Operation i"
  by (simp_all add: recapture_def)

lemma recapture_proper: "proper (recapture s i) \<longleftrightarrow> proper i"
  by (simp add: recapture_def currentOriginal_def proper_def Let_def)

lemma wf_restrict:
  assumes "wf_candidate c" and "is = map f (filter P (c_Intents c))" and "is \<noteq> []"
    and "\<And>i. si_ID (f i) = si_ID i \<and> si_Object (f i) = si_Object i \<and> si_Operation (f i) = si_Operation i \<and>
      proper (f i) = proper i"
    and "base \<noteq> None"
  shows "wf_candidate (c\<lparr>c_Intents := is, c_BaseRevision := base, c_State := ''dirty''\<rparr>)"
proof -
  have "wf_intents is"
    unfolding assms(2) using assms(1,4)
    by (intro wf_intents_map wf_intents_subset) (auto simp: wf_candidate_def wf_intents_def list_all_iff)
  moreover have "length is \<le> MaxIntents"
    by (rule le_trans [of _ "length (c_Intents c)"]) (use assms(1,2) in \<open>simp_all add: wf_candidate_def\<close>)
  moreover have "c_Intents c \<noteq> []" using assms(2,3) by auto
  then obtain g where "c_Generation c = Some g" "list_all (\<lambda>i. Generation_of (si_Object i) = g) (c_Intents c)"
    using assms(1) by (auto simp: wf_candidate_def)
  moreover from this have "list_all (\<lambda>i. Generation_of (si_Object i) = g) is"
    using assms(4) by (auto simp: assms(2) list_all_iff)
  ultimately show ?thesis
    using assms(3,5) by (simp add: wf_candidate_def)
qed

lemma prepare_candidate_cases:
  assumes "prepare_candidate h t c cmd s = Inr c'"
  shows "prepare_stage h t c cmd s = Inr c' \<or>
    (\<exists>js. prepare_remove [] (c_Intents c) (cmd_IntentIDs cmd) = Inr js \<and> c' = c\<lparr>c_Intents := js\<rparr>) \<or>
    c_Intents c' = [] \<or> prepare_rebase h t c cmd s = Inr c'"
  using assms unfolding prepare_candidate_def
  by (cases "prepare_remove [] (c_Intents c) (cmd_IntentIDs cmd)") (force split: if_splits)+

lemma prepare_candidate_wf:
  assumes "prepare_candidate h t c cmd s = Inr c'" and "wf_candidate c" and "no_topology c cmd" and "c_Intents c' \<noteq> []"
  shows "wf_candidate (c'\<lparr>c_State := ''dirty''\<rparr>)"
proof -
  have ids: "distinct (map si_ID (c_Intents c))" using assms(2) by (simp add: wf_candidate_def wf_intents_def)
  consider "prepare_stage h t c cmd s = Inr c'"
    | js where "prepare_remove [] (c_Intents c) (cmd_IntentIDs cmd) = Inr js" "c' = c\<lparr>c_Intents := js\<rparr>"
    | "prepare_rebase h t c cmd s = Inr c'"
    using prepare_candidate_cases [OF assms(1)] assms(4) by blast
  then show ?thesis
  proof cases
    case 1
    then show ?thesis using prepare_stage_wf assms(2,3) by blast
  next
    case (2 js)
    then have i: "js = map (\<lambda>i. i) (filter (\<lambda>i. si_ID i \<notin> set (cmd_IntentIDs cmd)) (c_Intents c))"
      using prepare_remove_Inr [OF ids] by simp
    from 2 assms(2,4) have "c_BaseRevision c \<noteq> None"
      by (auto simp: i wf_candidate_def split: if_splits)
    with wf_restrict [OF assms(2) i _ _ this] 2 assms(4) show ?thesis by simp
  next
    case 3
    from prepare_rebase_Inr(1) [OF 3 ids] assms(2,4) show ?thesis
      using wf_restrict [OF assms(2) refl, of "recapture s" _ "Some (s_Revision s)"] recapture_proper by simp
  qed
qed

lemma intact_clean:
  "s_Ports s (ManagementID_of (si_Object i)) = Some p \<Longrightarrow> field_intact i s p \<Longrightarrow> snd (comparison i s) = ''''"
  by (simp add: comparison_def field_intact_def port_problem_clean)

lemma stage_fields_frame:
  "stage_fields s seen c rs = Inr c' \<Longrightarrow> c_ID c' = c_ID c \<and> c_Consumed c' = c_Consumed c"
proof (induction rs arbitrary: seen c)
  case (Cons r rs)
  obtain d where d: "stage_field s c r = Inr d" "stage_fields s (in_ID r # seen) d rs = Inr c'"
    using Cons.prems by (simp split: if_splits sum.splits)
  have "c_ID c' = c_ID d \<and> c_Consumed c' = c_Consumed d" by (rule Cons.IH [OF d(2)])
  moreover have "c_ID d = c_ID c \<and> c_Consumed d = c_Consumed c" by (rule stage_field_cases [OF d(1)]) simp_all
  ultimately show ?case by simp
qed simp

lemma prepare_stage_frame:
  assumes "prepare_stage h t c cmd s = Inr c'" and "no_topology c cmd"
  shows "c_ID c' = c_ID c \<and> c_Consumed c' = c_Consumed c"
  using assms
proof (cases rule: prepare_stage_cases)
  case (component stage)
  then obtain i where "c' = single c s i" unfolding lawful_def by blast
  then show ?thesis by (simp add: single_def)
next
  case ports
  then show ?thesis by (auto simp: stage_ports_def dest: stage_fields_frame split: sum.splits if_splits)
qed

lemma prepare_candidate_frame:
  assumes "prepare_candidate h t c cmd s = Inr c'" and "wf_candidate c" and "no_topology c cmd"
  shows "c_ID c' = c_ID c \<and> c_Consumed c' = c_Consumed c"
proof -
  have ids: "distinct (map si_ID (c_Intents c))" using assms(2) by (simp add: wf_candidate_def wf_intents_def)
  have "c_ID c' = c_ID c \<and> c_Consumed c' = c_Consumed c" if "prepare_rebase h t c cmd s = Inr c'"
    by (simp add: prepare_rebase_Inr(1) [OF that ids])
  then show ?thesis
    using assms(1) prepare_stage_frame [OF _ assms(3)] unfolding prepare_candidate_def
    by (auto split: if_splits sum.splits)
qed



text \<open>A remove command succeeds only on distinct identifiers of staged intents, and then removes
  exactly those, keeping the others and their order.\<close>

theorem Prepare_remove_exact:
  assumes "Prepare h t e cmd s = Inr e'" and "cmd_Operation cmd = ''remove''"
    and "distinct (map si_ID (c_Intents (e_Candidate e)))"
  shows "distinct (cmd_IntentIDs cmd) \<and> set (cmd_IntentIDs cmd) \<subseteq> si_ID ` set (c_Intents (e_Candidate e)) \<and>
    c_Intents (e_Candidate e') = filter (\<lambda>i. si_ID i \<notin> set (cmd_IntentIDs cmd)) (c_Intents (e_Candidate e))"
proof -
  obtain js where r: "prepare_remove [] (c_Intents (e_Candidate e)) (cmd_IntentIDs cmd) = Inr js"
      and f: "finish h e ((e_Candidate e)\<lparr>c_Intents := js\<rparr>) = Inr e'"
    using assms(1,2) by (auto simp: Prepare_def prepare_candidate_def split: if_splits sum.splits)
  show ?thesis using finish_Inr(1) [OF f] r prepare_remove_Inr [OF assms(3)] by simp
qed


end
