(* ===== verification/Candidate_Compensation.thy ===== *)
theory Candidate_Compensation
  imports Candidate_Plan
begin

text \<open>
  Theorems over whole candidates that use the planner of \<open>Candidate_Plan\<close>: the compensation of an
  applied change derived by \<open>Reverse\<close> is executable whenever the change is observed, the
  capabilities of a candidate are exact, and a sealed envelope is authentic. The concrete
  candidates of the witnesses of the planner stand at the end.
\<close>

section \<open>Compensation\<close>

text \<open>Per component: a change whose intent was clean when it was planned and whose after-image is
  clean once applied has a clean compensation.\<close>

lemma compensate_multicast:
  assumes "si_Multicast i = Some m" "multicastProblem i s0 = ''''"
    "multicastProblem (i\<lparr>si_Multicast := Some (m\<lparr>mu_Before := mu_After m\<rparr>)\<rparr>) s = ''''"
  shows "multicastProblem (i\<lparr>si_Multicast := Some (m\<lparr>mu_Before := mu_After m, mu_After := mu_Before m\<rparr>)\<rparr>) s = ''''"
  using assms by (auto simp: multicastProblem_def split: option.splits if_splits)

lemma compensate_isolation:
  assumes "si_Isolation i = Some m" "isolationProblem (i\<lparr>si_Isolation := Some (m\<lparr>is_Before := is_After m\<rparr>)\<rparr>) s = ''''"
  shows "isolationProblem (i\<lparr>si_Isolation := Some (m\<lparr>is_Before := is_After m, is_After := is_Before m\<rparr>)\<rparr>) s = ''''"
  using assms by (auto simp: isolationProblem_def split: option.splits if_splits)

lemma compensate_tree:
  assumes "si_SpanningTree i = Some m" "spanningTreeProblem i s0 = ''''"
    "spanningTreeProblem (i\<lparr>si_SpanningTree := Some (m\<lparr>tg_Before := tg_After m\<rparr>)\<rparr>) s = ''''"
  shows "spanningTreeProblem (i\<lparr>si_SpanningTree := Some (m\<lparr>tg_Before := tg_After m, tg_After := tg_Before m\<rparr>)\<rparr>) s = ''''"
  using assms by (auto simp: spanningTreeProblem_def split: option.splits if_splits)

lemma compensate_policing:
  assumes "si_Policing i = Some m" "policingProblem i s0 = ''''"
    "policingProblem (i\<lparr>si_Policing := Some (m\<lparr>po_Before := po_After m\<rparr>)\<rparr>) s = ''''"
  shows "policingProblem (i\<lparr>si_Policing :=
      Some (m\<lparr>po_Before := po_After m, po_After := po_Before m, po_Compensating := True\<rparr>)\<rparr>) s = ''''"
  using assms by (auto simp: policingProblem_def split: option.splits if_splits)

lemma compensate_mtu:
  assumes "si_MTU i = Some m" "mtuProblem i s0 = ''''"
    "mtuProblem (i\<lparr>si_MTU := Some (m\<lparr>mt_Before := mt_After m\<rparr>)\<rparr>) s = ''''"
  shows "mtuProblem (i\<lparr>si_MTU := Some (m\<lparr>mt_Before := mt_After m, mt_After := mt_Before m, mt_Compensating := True\<rparr>),
      si_Operation := (if mt_Before m = None then InterfaceMTUClear else InterfaceMTUSet)\<rparr>) s = ''''"
proof -
  let ?m = "m\<lparr>mt_Before := mt_After m, mt_After := mt_Before m, mt_Compensating := True\<rparr>"
  let ?a = "i\<lparr>si_MTU := Some (m\<lparr>mt_Before := mt_After m\<rparr>)\<rparr>"
  let ?r = "i\<lparr>si_MTU := Some ?m, si_Operation := (if mt_Before m = None then InterfaceMTUClear else InterfaceMTUSet)\<rparr>"
  have ok: "\<not> mtu_malformed i m" using assms(1,2) by (auto simp: mtuProblem_def split: if_splits)
  obtain p where p: "s_Interfaces s (ManagementID_of (si_Object i)) = Some p"
      "mtu_row_problem ?a (m\<lparr>mt_Before := mt_After m\<rparr>) s p = ''''" "Generation_of (si_Object i) = s_Generation s"
    using assms(3) by (auto simp: mtuProblem_def split: if_splits option.splits)
  have "\<not> mtu_malformed ?r ?m" using ok by (auto simp: mtu_malformed_def)
  moreover have "mtu_row_problem ?r ?m s p = ''''"
    using p(2) by (auto simp: mtu_row_problem_def MTUOriginalDeviceRequired_def split: if_splits)
  ultimately show ?thesis using p by (simp add: mtuProblem_def)
qed

lemma compensate_creation:
  assumes "si_Creation i = Some c" "si_Topology i = None" "si_PortCreation i = None"
    "creationProblem (i\<lparr>si_Creation := Some (c\<lparr>bc_BeforePresent := bc_AfterPresent c\<rparr>)\<rparr>) s = ''''"
    "\<not> bc_BeforePresent c" "bc_AfterPresent c"
  shows "creationProblem (i\<lparr>si_Creation :=
      Some (c\<lparr>bc_BeforePresent := bc_AfterPresent c, bc_AfterPresent := bc_BeforePresent c\<rparr>)\<rparr>) s = ''''"
  using assms
  by (auto simp: creationProblem_def creation_bindings_clean CreationBindings_def list_all_iff split: if_splits)

lemma compensate_deletion:
  assumes "si_Deletion i = Some d" "\<not> bd_Restoring d" "deletionProblem (i\<lparr>si_Deletion := Some (d\<lparr>bd_Observed := True\<rparr>)\<rparr>) s = ''''"
  shows "deletionProblem (i\<lparr>si_Deletion := Some (d\<lparr>bd_Restoring := True, bd_Observed := False\<rparr>)\<rparr>) s = ''''"
  using assms by (auto simp: deletionProblem_def validDeletionGraphs_def Let_def split: if_splits)

lemma port_bindings_clean:
  "port_bindings_problem p s bs = '''' \<longleftrightarrow>
     list_all (\<lambda>b. if ip_BeforePresent p then present s b
       else cs_Objects (s_Creation s) (OVSUUID b) = None \<and>
         \<not> (ip_AfterPresent p \<and> cs_Retired (s_Creation s) (OVSUUID b))) bs"
  by (induction p s bs rule: port_bindings_problem.induct) (auto simp: Let_def present_def)

lemma compensate_port_creation:
  assumes "si_PortCreation i = Some p" "si_Topology i = None" "\<not> ip_BeforePresent p" "ip_AfterPresent p"
    "internalPortProblem (i\<lparr>si_PortCreation := Some (p\<lparr>ip_BeforePresent := ip_AfterPresent p\<rparr>)\<rparr>) s = ''''"
  shows "internalPortProblem (i\<lparr>si_PortCreation :=
      Some (p\<lparr>ip_BeforePresent := ip_AfterPresent p, ip_AfterPresent := ip_BeforePresent p\<rparr>)\<rparr>) s = ''''"
  using assms
  by (auto simp: internalPortProblem_def port_bindings_clean CreationBindings_def list_all_iff split: if_splits option.splits)

lemma compensate_port_deletion:
  assumes "si_PortDeletion i = Some d" "si_PortCreation i = None" "si_Topology i = None" "\<not> id_Restoring d"
    "portDeletionProblem (i\<lparr>si_PortDeletion := Some (d\<lparr>id_Observed := True\<rparr>)\<rparr>) s = ''''"
  shows "portDeletionProblem (i\<lparr>si_PortDeletion := Some (d\<lparr>id_Restoring := True, id_Observed := False\<rparr>)\<rparr>) s = ''''"
proof -
  let ?a = "i\<lparr>si_PortDeletion := Some (d\<lparr>id_Observed := True\<rparr>)\<rparr>"
  let ?r = "i\<lparr>si_PortDeletion := Some (d\<lparr>id_Restoring := True, id_Observed := False\<rparr>)\<rparr>"
  let ?p = "ig_Configuration (id_Source d)" and ?q = "ig_Configuration (id_Replacement d)"
  have op: "si_Operation i = InternalPortDelete" "si_Creation i = None" "si_Deletion i = None"
      "si_Object i = ig_Port (id_Source d)" and valid: "validPortDeletion d"
    using assms by (auto simp: portDeletionProblem_def validPortDeletion_def Let_def split: if_splits)
  have free: "\<not> not_retired s (port_graph_bindings (id_Source d))" "\<not> cs_Names (s_Creation s) (ip_Name ?p)"
      "replacement_problem False s (port_graph_bindings (id_Replacement d)) = ''''"
      and graph: "internalPortProblem (the (InternalPortGraphIntent ?a)) s = ''''"
    using assms op valid by (auto simp: portDeletionProblem_def InternalPortGraphIntent_def Let_def split: if_splits)
  have conf: "?p\<lparr>ip_Interface := ip_Interface ?q\<rparr> = ?q"
      and gen: "Generation_of (ig_Port (id_Source d)) = Generation_of (ip_Bridge ?p)"
        "Generation_of (ig_Port (id_Replacement d)) = Generation_of (ip_Bridge ?p)"
    using valid by (auto simp: validPortDeletion_def Let_def shaped_def port_graph_bindings_def)
  have same: "ip_Name ?q = ip_Name ?p" "ip_Root ?q = ip_Root ?p" "ip_Bridge ?q = ip_Bridge ?p"
      "ip_LocalPort ?q = ip_LocalPort ?p" "ip_LocalInterface ?q = ip_LocalInterface ?p" "ip_Members ?q = ip_Members ?p"
    by (subst conf [symmetric], simp)+
  have "internalPortProblem (the (InternalPortGraphIntent ?r)) s = ''''"
    using graph free assms(1-4) op gen same
    by (auto simp: InternalPortGraphIntent_def internalPortProblem_def port_bindings_clean replacement_clean
        CreationBindings_def zero_intent_def port_graph_bindings_def unused_def Let_def split: option.splits if_splits)
  then show ?thesis
    using op valid free assms(1,2)
    by (auto simp: portDeletionProblem_def validPortDeletion_def InternalPortGraphIntent_def Let_def)
qed

lemma field_clean_iff:
  "snd (comparison i s) = '''' \<longleftrightarrow>
     (\<exists>p. s_Ports s (ManagementID_of (si_Object i)) = Some p \<and> field_intact i s p)"
  using clean_field_row intact_clean by metis

lemma compensate_vlan:
  assumes "si_Operation i = ''port.vlan.set''" "snd (comparison i s0) = ''''"
    "snd (comparison (i\<lparr>si_Before := si_Value i\<rparr>) s) = ''''"
  shows "snd (comparison (i\<lparr>si_Before := si_Value i, si_Value := si_Before i\<rparr>) s) = ''''"
proof -
  have q: "UsesQinQ i \<Longrightarrow> si_QinQ i \<noteq> None"
    using assms(1,2) unfolding field_clean_iff by (auto simp: field_intact_def)
  obtain p where p: "s_Ports s (ManagementID_of (si_Object i)) = Some p" "field_intact (i\<lparr>si_Before := si_Value i\<rparr>) s p"
    using assms(3) unfolding field_clean_iff by auto
  have "field_intact (i\<lparr>si_Before := si_Value i, si_Value := si_Before i\<rparr>) s p"
  proof -
    have "UsesQinQ (i\<lparr>si_Before := si_Value i, si_Value := si_Before i\<rparr>) \<longleftrightarrow> UsesQinQ i"
      by (auto simp: UsesQinQ_def)
    moreover have "UsesQinQ i \<Longrightarrow> UsesQinQ (i\<lparr>si_Before := si_Value i\<rparr>)"
      using q assms(1) by (simp add: UsesQinQ_def)
    ultimately show ?thesis using p(2) assms(1) by (simp add: field_intact_def)
  qed
  with p(1) show ?thesis unfolding field_clean_iff by auto
qed

lemma compensate_bond:
  assumes "IsBondOperation (si_Operation i)" "snd (comparison i s0) = ''''"
    "snd (comparison (i\<lparr>si_BeforeBond := si_Bond i\<rparr>) s) = ''''"
  shows "snd (comparison (i\<lparr>si_BeforeBond := si_Bond i, si_Bond := si_BeforeBond i\<rparr>) s) = ''''"
proof -
  have b: "si_BeforeBond i \<noteq> None"
    using assms(1,2) unfolding field_clean_iff by (auto simp: field_intact_def)
  obtain p where p: "s_Ports s (ManagementID_of (si_Object i)) = Some p" "field_intact (i\<lparr>si_BeforeBond := si_Bond i\<rparr>) s p"
    using assms(3) unfolding field_clean_iff by auto
  have "field_intact (i\<lparr>si_BeforeBond := si_Bond i, si_Bond := si_BeforeBond i\<rparr>) s p"
    using p(2) b assms(1) by (auto simp: field_intact_def)
  with p(1) show ?thesis unfolding field_clean_iff by auto
qed

text \<open>A plan as it is staged, before any compensation was derived from it.\<close>

definition forward :: "StoredIntent \<Rightarrow> bool" where
  "forward i \<longleftrightarrow>
     (case si_Creation i of None \<Rightarrow> True | Some c \<Rightarrow> \<not> bc_BeforePresent c \<and> bc_AfterPresent c) \<and>
     (case si_PortCreation i of None \<Rightarrow> True | Some p \<Rightarrow> \<not> ip_BeforePresent p \<and> ip_AfterPresent p) \<and>
     (case si_Deletion i of None \<Rightarrow> True | Some d \<Rightarrow> \<not> bd_Restoring d) \<and>
     (case si_PortDeletion i of None \<Rightarrow> True | Some d \<Rightarrow> \<not> id_Restoring d)"

lemma problem_of_component:
  "si_Operation i = BridgeMulticastSet \<Longrightarrow> problem_of t i s = multicastProblem i s"
  "si_Operation i = PortIsolationSet \<Longrightarrow> problem_of t i s = isolationProblem i s"
  "IsSpanningTreeOperation (si_Operation i) \<Longrightarrow> problem_of t i s = spanningTreeProblem i s"
  "si_Operation i = InterfacePolicingSet \<Longrightarrow> problem_of t i s = policingProblem i s"
  "IsMTUOperation (si_Operation i) \<Longrightarrow> problem_of t i s = mtuProblem i s"
  "si_Operation i = InternalPortDelete \<Longrightarrow> problem_of t i s = portDeletionProblem i s"
  "si_Operation i = InternalPortCreate \<Longrightarrow> problem_of t i s = internalPortProblem i s"
  "si_Operation i = BridgeDelete \<Longrightarrow> problem_of t i s = deletionProblem i s"
  "si_Operation i = BridgeCreate \<Longrightarrow> problem_of t i s = creationProblem i s"
  "field_op (si_Operation i) \<Longrightarrow> problem_of t i s = snd (comparison i s)"
  by (auto simp: problem_of_def component_def field_op_def op_class_defs Let_def)

text \<open>The compensation of a change to one row, to a graph, and to the fields of a Port.\<close>

lemma row_change_compensable:
  assumes "proper i" and "forward i" and "problem_of t i planned = ''''" and "problem_of t (AfterImage i) applied = ''''"
    and "si_Operation i = BridgeMulticastSet \<or> si_Operation i = PortIsolationSet \<or> IsSpanningTreeOperation (si_Operation i) \<or>
      si_Operation i = InterfacePolicingSet \<or> IsMTUOperation (si_Operation i)"
  shows "problem_of t (Reverse i) applied = ''''"
proof -
  note payload = assms(1) [unfolded proper_def Let_def]
  note eval = AfterImage_def Reverse_def problem_of_component forward_def
  consider "si_Operation i = BridgeMulticastSet" | "si_Operation i = PortIsolationSet" | "IsSpanningTreeOperation (si_Operation i)"
    | "si_Operation i = InterfacePolicingSet" | "IsMTUOperation (si_Operation i)"
    using assms(5) by blast
  then show ?thesis
  proof cases
    case 1
    then obtain m where "si_Multicast i = Some m" using payload by auto
    with 1 assms(3,4) show ?thesis using compensate_multicast by (auto simp: eval)
  next
    case 2
    then obtain m where m: "si_Isolation i = Some m" "si_Multicast i = None" using payload by (auto simp: op_defs)
    with 2 assms(4) show ?thesis using compensate_isolation by (auto simp: eval)
  next
    case 3
    then have "si_Operation i \<noteq> BridgeMulticastSet" "si_Operation i \<noteq> PortIsolationSet"
      by (auto simp: op_class_defs)
    with 3 obtain m where "si_SpanningTree i = Some m" "si_Multicast i = None" "si_Isolation i = None"
      using payload by blast
    with 3 assms(3,4) show ?thesis using compensate_tree by (auto simp: eval)
  next
    case 4
    then obtain m where "si_Policing i = Some m" "si_Multicast i = None" "si_Isolation i = None" "si_SpanningTree i = None"
        "si_Topology i = None"
      using payload by (auto simp: op_class_defs)
    with 4 assms(3,4) show ?thesis using compensate_policing by (auto simp: eval)
  next
    case 5
    then obtain m where m: "si_MTU i = Some m" "si_Multicast i = None" "si_Isolation i = None" "si_SpanningTree i = None"
        "si_Topology i = None" "si_Policing i = None"
      using payload MTU_not_other [OF 5] by auto
    have "IsMTUOperation (si_Operation (Reverse i))" using m by (simp add: Reverse_def)
    with 5 m assms(3,4) show ?thesis using compensate_mtu [of i m] by (simp add: eval)
  qed
qed

lemma graph_change_compensable:
  assumes "proper i" and "forward i" and "problem_of t i planned = ''''" and "problem_of t (AfterImage i) applied = ''''"
    and "si_Operation i = InternalPortDelete \<or> si_Operation i = InternalPortCreate \<or> si_Operation i = BridgeDelete \<or>
      si_Operation i = BridgeCreate"
  shows "problem_of t (Reverse i) applied = ''''"
proof -
  note payload = assms(1) [unfolded proper_def Let_def]
  note eval = AfterImage_def Reverse_def problem_of_component forward_def
  consider "si_Operation i = InternalPortDelete" | "si_Operation i = InternalPortCreate" | "si_Operation i = BridgeDelete"
    | "si_Operation i = BridgeCreate"
    using assms(5) by blast
  then show ?thesis
  proof cases
    case 1
    then obtain d where "si_PortDeletion i = Some d" "si_Multicast i = None" "si_Isolation i = None"
        "si_SpanningTree i = None" "si_Topology i = None" "si_Policing i = None" "si_MTU i = None" "si_PortCreation i = None"
      using payload by (auto simp: op_class_defs)
    with 1 assms(2,4) show ?thesis using compensate_port_deletion by (auto simp: eval)
  next
    case 2
    then obtain p where "si_PortCreation i = Some p" "si_Multicast i = None" "si_Isolation i = None"
        "si_SpanningTree i = None" "si_Topology i = None" "si_Policing i = None" "si_MTU i = None" "si_PortDeletion i = None"
      using payload by (auto simp: op_class_defs)
    with 2 assms(2,4) show ?thesis using compensate_port_creation by (auto simp: eval)
  next
    case 3
    then obtain d where "si_Deletion i = Some d" "si_Multicast i = None" "si_Isolation i = None"
        "si_SpanningTree i = None" "si_Topology i = None" "si_Policing i = None" "si_MTU i = None"
        "si_PortDeletion i = None" "si_PortCreation i = None"
      using payload by (auto simp: op_class_defs)
    with 3 assms(2,4) show ?thesis using compensate_deletion by (auto simp: eval)
  next
    case 4
    then obtain c where "si_Creation i = Some c" "si_Multicast i = None" "si_Isolation i = None"
        "si_SpanningTree i = None" "si_Topology i = None" "si_Policing i = None" "si_MTU i = None"
        "si_PortDeletion i = None" "si_PortCreation i = None" "si_Deletion i = None"
      using payload by (auto simp: op_class_defs)
    with 4 assms(2,4) show ?thesis using compensate_creation by (auto simp: eval)
  qed
qed

lemma field_change_compensable:
  assumes "proper i" and "forward i" and "problem_of t i planned = ''''" and "problem_of t (AfterImage i) applied = ''''"
    and "field_op (si_Operation i)"
  shows "problem_of t (Reverse i) applied = ''''"
proof -
  note payload = assms(1) [unfolded proper_def Let_def]
  have none: "si_Multicast i = None" "si_Isolation i = None" "si_SpanningTree i = None" "si_Topology i = None"
      "si_Policing i = None" "si_MTU i = None" "si_PortDeletion i = None" "si_PortCreation i = None"
      "si_Deletion i = None" "si_Creation i = None"
    using payload field_not_component [OF assms(5)] by (auto simp: component_op_def)
  have same: "field_op (si_Operation (AfterImage i))" "field_op (si_Operation (Reverse i))"
    using assms(5) none by (simp_all add: AfterImage_def Reverse_def)
  show ?thesis
  proof (cases "IsBondOperation (si_Operation i)")
    case True
    with assms(3-5) none same show ?thesis
      using compensate_bond [OF True] by (simp add: problem_of_component(10)) (simp add: AfterImage_def Reverse_def)
  next
    case False
    with assms(5) have v: "si_Operation i = ''port.vlan.set''" by (simp add: field_op_def)
    with assms(3-5) none same show ?thesis
      using compensate_vlan [OF v] by (simp add: problem_of_component(10)) (simp add: AfterImage_def Reverse_def)
  qed
qed

text \<open>C37. Every applied change can be compensated: if an intent of any component other than the
  topology commands was clean when it was planned, and its after-image is observed in a later
  snapshot, then the compensation derived by \<open>Reverse\<close> is clean against that snapshot. For a
  deletion the compensation is the pre-reserved replacement graph.\<close>

theorem applied_change_is_compensable:
  assumes "proper i" and "forward i" and "\<not> IsTopologyOperation (si_Operation i)"
    and "problem_of t i planned = ''''" and "problem_of t (AfterImage i) applied = ''''"
  shows "problem_of t (Reverse i) applied = ''''"
proof -
  have "field_op (si_Operation i) \<or> component_op (si_Operation i)" using assms(1) by (simp add: proper_def Let_def)
  then show ?thesis
    using row_change_compensable [OF assms(1,2,4,5)] graph_change_compensable [OF assms(1,2,4,5)]
      field_change_compensable [OF assms(1,2,4,5)] assms(3)
    unfolding component_op_def by blast
qed

section \<open>Capabilities and the envelope\<close>

lemma add_new_set [simp]: "set (add_new out xs) = set out \<union> set xs"
  by (induction out xs rule: add_new.induct) auto

lemma add_new_distinct [simp]: "distinct out \<Longrightarrow> distinct (add_new out xs)"
  by (induction out xs rule: add_new.induct) auto

lemma fold_caps:
  "set (foldl (\<lambda>out i. add_new out (needed_caps (si_Operation i))) out is) =
     set out \<union> (\<Union>i \<in> set is. set (needed_caps (si_Operation i)))"
  "distinct out \<Longrightarrow> distinct (foldl (\<lambda>out i. add_new out (needed_caps (si_Operation i))) out is)"
  by (induction "is" arbitrary: out) auto

text \<open>\<open>Capabilities\<close> lists, sorted and without repetition, exactly the capabilities some intent
  needs (a spanning-tree intent needs configuration read access as well), and a well-formed intent
  never needs the placeholder for unsupported ones.\<close>

theorem Capabilities_exact:
  assumes "list_all proper (c_Intents c)"
  shows "sorted (Capabilities c) \<and> distinct (Capabilities c) \<and>
    set (Capabilities c) = (\<Union>i \<in> set (c_Intents c). set (needed_caps (si_Operation i))) \<and>
    ''unsupported-intent'' \<notin> set (Capabilities c)"
proof -
  have cap: "capability op \<noteq> ''unsupported-intent''" if "field_op op \<or> component_op op" for op
  proof
    assume "capability op = ''unsupported-intent''"
    then have "op \<noteq> BridgeDelete \<and> op \<noteq> BridgeCreate \<and> \<not> IsBondOperation op \<and> op \<noteq> ''port.vlan.set'' \<and>
        op \<noteq> InternalPortCreate \<and> op \<noteq> InternalPortDelete \<and> \<not> IsMTUOperation op \<and> op \<noteq> InterfacePolicingSet \<and>
        \<not> IsTopologyOperation op \<and> op \<noteq> SpanningTreeConfigure \<and> op \<noteq> SpanningTreePrepare \<and>
        op \<noteq> PortIsolationSet \<and> op \<noteq> BridgeMulticastSet"
      unfolding capability_def by (simp split: if_split_asm)
    with that show False
      unfolding field_op_def component_op_def IsSpanningTreeOperation_def by blast
  qed
  have "''unsupported-intent'' \<notin> set (needed_caps (si_Operation i))" if "i \<in> set (c_Intents c)" for i
  proof -
    have "proper i" using assms that by (simp add: list_all_iff)
    then have "field_op (si_Operation i) \<or> component_op (si_Operation i)" by (simp add: proper_def Let_def)
    with cap [of "si_Operation i"] show ?thesis by (auto simp: needed_caps_def)
  qed
  then show ?thesis by (auto simp: Capabilities_def fold_caps)
qed

text \<open>C40. A sealed envelope verifies for its owner: whatever well-formed candidate is signed, \<open>Verify\<close> accepts the result
  under the same key. Only such envelopes do: what verifies names its owner and carries its own seal, unless it is the
  unsealed envelope of an owner who has staged nothing. And a seal cannot be moved: an envelope that verifies with the
  seal of another one is that envelope, provided that the authentication code does not collide on the two, so an
  original captured by the manager cannot be replaced.\<close>

theorem Verify_authentic:
  assumes "length key = 32" and "ManagementID (e_Epoch e0)" and "ManagementID (c_ID (e_Candidate e0))"
    and "ManagementID (c_Revision (e_Candidate e0))" and "0 \<le> e_Sequence e0" and "length (c_Intents (e_Candidate e0)) \<le> MaxIntents"
  shows "Verify mac key (e_Owner e0) (Sign mac key e0) = None \<and>
    (\<forall>who e. Verify mac key who e = None \<longrightarrow> e_Owner e = who \<and>
       (e = Sign mac key e \<or> e_Seal e = '''' \<and> e_Sequence e = 0 \<and> c_Intents (e_Candidate e) = [])) \<and>
    (\<forall>who e. Verify mac key who e = None \<and> e_Seal e = e_Seal (Sign mac key e0) \<and> e_Seal e \<noteq> '''' \<and>
       (mac key (e\<lparr>e_Seal := ''''\<rparr>) = mac key (e0\<lparr>e_Seal := ''''\<rparr>) \<longrightarrow> e\<lparr>e_Seal := ''''\<rparr> = e0\<lparr>e_Seal := ''''\<rparr>) \<longrightarrow>
       e = Sign mac key e0)"
proof (intro conjI allI impI)
  show "Verify mac key (e_Owner e0) (Sign mac key e0) = None"
    using assms by (simp add: Verify_def Sign_def signature_def Let_def)
next
  fix who e
  assume v: "Verify mac key who e = None"
  then show "e_Owner e = who" by (auto simp: Verify_def Let_def split: if_splits)
  have "e_Seal e = signature mac key e \<or> e_Seal e = '''' \<and> e_Sequence e = 0 \<and> c_Intents (e_Candidate e) = []"
    using v by (auto simp: Verify_def Let_def split: if_splits)
  then show "e = Sign mac key e \<or> e_Seal e = '''' \<and> e_Sequence e = 0 \<and> c_Intents (e_Candidate e) = []"
    by (auto simp: Sign_def)
next
  fix who e
  assume e: "Verify mac key who e = None \<and> e_Seal e = e_Seal (Sign mac key e0) \<and> e_Seal e \<noteq> '''' \<and>
    (mac key (e\<lparr>e_Seal := ''''\<rparr>) = mac key (e0\<lparr>e_Seal := ''''\<rparr>) \<longrightarrow> e\<lparr>e_Seal := ''''\<rparr> = e0\<lparr>e_Seal := ''''\<rparr>)"
  then have "e_Seal e = signature mac key e" by (auto simp: Verify_def Let_def split: if_splits)
  with e have eq: "e\<lparr>e_Seal := ''''\<rparr> = e0\<lparr>e_Seal := ''''\<rparr>" by (simp add: Sign_def signature_def)
  have "e = (e\<lparr>e_Seal := ''''\<rparr>)\<lparr>e_Seal := e_Seal e\<rparr>" by simp
  also have "\<dots> = Sign mac key e0" using e by (simp add: eq Sign_def)
  finally show "e = Sign mac key e0" .
qed

section \<open>Witnesses\<close>

definition sample_ops :: topology_ops where
  "sample_ops = \<lparr>tp_problem = (\<lambda>_ _. ''''), tp_checks = (\<lambda>_ _. []),
     tp_diff = (\<lambda>i _. field_diff i ''native_topology'' GNil GNil GNil False), tp_stage = (\<lambda>c _ _. Inr c)\<rparr>"

definition sample_draft :: "int \<Rightarrow> Candidate" where
  "sample_draft n = (single sample_candidate sample_mtu_snapshot (sample_mtu_draft n))\<lparr>c_State := ''dirty''\<rparr>"

definition sample_envelope :: "Candidate \<Rightarrow> Envelope" where
  "sample_envelope c = \<lparr>e_Owner = ''owner'', e_Epoch = sample_id, e_Sequence = 1, e_Candidate = c, e_Seal = ''''\<rparr>"

lemma sample_draft_sel [simp]:
  "c_Intents (sample_draft n) = [sample_mtu_draft n]" "c_Consumed (sample_draft n) = None"
  "c_Generation (sample_draft n) = Some ''g1''"
  by (simp_all add: sample_draft_def single_def sample_candidate_def sample_mtu_snapshot_def sample_snapshot_def)

lemma sample_mtu_draft_sel [simp]:
  "si_Operation (sample_mtu_draft n) = InterfaceMTUSet" "si_ID (sample_mtu_draft n) = sample_id"
  "si_Object (sample_mtu_draft n) = sample_object ''Interface''"
  by (simp_all add: sample_mtu_draft_def sample_mtu_request_def sample_request_def)

lemma sample_mtu_proper: "proper (sample_mtu_draft n)"
  by (simp add: proper_eval sample_mtu_draft_def sample_mtu_request_def sample_request_def)

lemma sample_draft_wf: "wf_candidate (sample_draft n)"
  by (simp add: wf_candidate_def wf_intents_def sample_mtu_proper MaxIntents_def sample_object_def)
    (simp add: sample_draft_def single_def)

lemma MTU_not_topology [simp]: "\<not> IsTopologyOperation InterfaceMTUSet"
  by simp

lemma sample_no_topology: "no_topology (sample_draft n) (sample_command op [sample_mtu_request m])"
  "no_topology (sample_draft n) (sample_command op [])"
  by (simp_all add: no_topology_def hasOp_def sample_command_def sample_mtu_request_def)

lemma sample_restage:
  "stageMTU (sample_draft 9000) (sample_command ''stage'' [sample_mtu_request 1400]) sample_mtu_snapshot =
     Inr (sample_draft 1400)"
  by (simp add: stageMTU_def stage_mtu_row_def sample_defs sample_draft_def sample_mtu_draft_def captured_def
      MTUEditable_def ValidMTU_def validMTURequest_def single_def)

lemma sample_dispatch: "dispatch (stage_route h t) (sample_draft n) InterfaceMTUSet = stageMTU"
  by (simp add: stage_route_def hasOp_def) (simp add: op_class_defs)

lemma sample_prepare:
  "\<exists>e'. Prepare sample_host sample_ops (sample_envelope (sample_draft 9000))
     (sample_command ''stage'' [sample_mtu_request 1400]) sample_mtu_snapshot = Inr e'"
proof -
  have "prepare_stage sample_host sample_ops (sample_draft 9000) (sample_command ''stage'' [sample_mtu_request 1400])
      sample_mtu_snapshot = Inr (sample_draft 1400)"
    using sample_restage
    by (simp add: prepare_stage_def sample_dispatch MaxIntents_def stage_guard_def sample_command_def
        sample_mtu_request_def sample_request_def)
  then show ?thesis
    by (simp add: Prepare_def prepare_candidate_def sample_envelope_def finish_def sample_host_def int64_def)
      (simp add: sample_command_def)
qed



definition sample_remove :: Command where
  "sample_remove = (sample_command ''remove'' [])\<lparr>cmd_IntentIDs := [sample_id]\<rparr>"

theorem Prepare_remove_exact_witness:
  "\<exists>e'. Prepare sample_host sample_ops (sample_envelope (sample_draft 9000)) sample_remove sample_mtu_snapshot = Inr e' \<and>
    c_Intents (e_Candidate e') = []"
proof -
  obtain e' where e: "Prepare sample_host sample_ops (sample_envelope (sample_draft 9000)) sample_remove
      sample_mtu_snapshot = Inr e'"
    by (simp add: Prepare_def prepare_candidate_def sample_envelope_def finish_def sample_host_def int64_def
        sample_remove_def sample_command_def)
  show ?thesis
    using Prepare_remove_exact [OF e] e by (simp add: sample_envelope_def sample_remove_def sample_command_def)
qed

definition sample_vlan :: "int \<Rightarrow> VLAN" where
  "sample_vlan tag = \<lparr>v_Mode = Some ''access'', v_Tag = Some tag, v_Trunks = Some [], v_CVLANs = Some []\<rparr>"

definition sample_vlan_intent :: StoredIntent where
  "sample_vlan_intent = zero_intent\<lparr>si_ID := sample_id, si_Operation := ''port.vlan.set'',
     si_Object := sample_object ''Port'', si_Value := sample_vlan 20, si_Before := sample_vlan 5,
     si_Schema := ''s1'', si_Dependency := ''d1''\<rparr>"

definition sample_vlan_snapshot :: Snapshot where
  "sample_vlan_snapshot = sample_snapshot\<lparr>s_Ports := [sample_id \<mapsto> zero_Port\<lparr>p_Binding := sample_object ''Port'',
     p_Known := True, p_VLAN := sample_vlan 10, p_Dependency := ''d1''\<rparr>]\<rparr>"

definition sample_vlan_candidate :: Candidate where
  "sample_vlan_candidate = sample_candidate\<lparr>c_Intents := [sample_vlan_intent], c_Generation := Some ''g1''\<rparr>"

definition sample_rebase :: Command where
  "sample_rebase = (sample_command ''rebase'' [])\<lparr>cmd_Generation := ''g1'', cmd_ConfigRevision := ''r1'',
     cmd_ConflictSnapshot := Some (ConflictID sample_host sample_vlan_candidate sample_vlan_snapshot),
     cmd_Resolutions := [\<lparr>r_IntentID = sample_id, r_Choice = ''keep-mine''\<rparr>]\<rparr>"

lemma view_truncated [simp]:
  "vw_DiffTruncated (add_diffs ds v) = vw_DiffTruncated v" "vw_DiffTruncated (add_checks gs v) = vw_DiffTruncated v"
  "vw_DiffTruncated (set_state st v) = vw_DiffTruncated v"
  by (simp_all add: add_diffs_def add_checks_def set_state_def)

lemma compare_not_truncated: "vw_DiffTruncated (foldl (compare_intent t s) v is) = vw_DiffTruncated v"
proof (induction "is" arbitrary: v)
  case (Cons i "is")
  have "vw_DiffTruncated (compare_intent t s v i) = vw_DiffTruncated v"
    by (cases "component t i s"; cases "comparison i s")
      (auto simp: compare_intent_def Let_def split: if_splits)
  with Cons show ?case by simp
qed simp

lemma sample_vlan_intent_sel: "si_ID sample_vlan_intent = sample_id" "si_Operation sample_vlan_intent = ''port.vlan.set''"
  by (simp_all add: sample_vlan_intent_def)

lemma sample_rebase_sel:
  "c_Intents sample_vlan_candidate = [sample_vlan_intent]" "c_Generation sample_vlan_candidate = Some ''g1''"
  "s_Generation sample_vlan_snapshot = ''g1''" "s_Revision sample_vlan_snapshot = ''r1''"
  by (simp_all add: sample_vlan_candidate_def sample_vlan_snapshot_def sample_snapshot_def)

lemma sample_rebase_runs:
  "\<exists>e'. Prepare sample_host sample_ops (sample_envelope sample_vlan_candidate) sample_rebase sample_vlan_snapshot = Inr e'"
proof -
  have cmp: "comparison sample_vlan_intent sample_vlan_snapshot =
      (zero_Port\<lparr>p_Binding := sample_object ''Port'', p_Known := True, p_VLAN := sample_vlan 10, p_Dependency := ''d1''\<rparr>,
       ''FIELD_CONFLICT'')"
    by (simp add: comparison_def port_problem_def sample_vlan_intent_def sample_vlan_snapshot_def sample_snapshot_def
        sample_object_def zero_intent_def equal_vlan_def normalize_def sample_vlan_def UsesQinQ_def qinqMode_def)
  have "restage_code ''port.vlan.set'' = None"
    by (simp add: restage_code_def op_class_defs)
  then obtain j where j: "rebase_intents sample_vlan_snapshot [(sample_id, ''keep-mine'')] [sample_vlan_intent] = Inr ([j], [])"
    using cmp by (simp add: unresolvable_def sample_vlan_intent_sel Let_def)
  have review: "\<not> vw_DiffTruncated (Review sample_host sample_ops sample_vlan_candidate sample_vlan_snapshot)"
    by (simp add: Review_def sample_host_def Compare_def compare_not_truncated)
  have "prepare_rebase sample_host sample_ops sample_vlan_candidate sample_rebase sample_vlan_snapshot =
      Inr (sample_vlan_candidate\<lparr>c_Intents := [j], c_BaseRevision := Some ''r1''\<rparr>)"
    using review j sample_rebase_sel
    by (simp add: prepare_rebase_def sample_rebase_def sample_command_def del: rebase_intents.simps)
  then show ?thesis
    by (simp add: Prepare_def prepare_candidate_def sample_envelope_def finish_def sample_host_def int64_def
        sample_vlan_candidate_def sample_candidate_def sample_rebase_def sample_command_def)
qed


definition sample_applied :: Snapshot where
  "sample_applied = sample_snapshot\<lparr>s_Interfaces := [sample_id \<mapsto> sample_mtu_row\<lparr>im_Requested := Some 9000\<rparr>]\<rparr>"

theorem applied_change_is_compensable_witness:
  "problem_of sample_ops (Reverse (sample_mtu_draft 9000)) sample_applied = ''''"
proof (rule applied_change_is_compensable [where planned = sample_mtu_snapshot])
  show "proper (sample_mtu_draft 9000)" by (rule sample_mtu_proper)
  show "forward (sample_mtu_draft 9000)"
    by (simp add: forward_def sample_mtu_draft_def captured_def zero_intent_def)
  show "\<not> IsTopologyOperation (si_Operation (sample_mtu_draft 9000))" by simp
  show "problem_of sample_ops (sample_mtu_draft 9000) sample_mtu_snapshot = ''''"
    using sample_mtu_clean by (simp add: problem_of_component)
  have a: "AfterImage (sample_mtu_draft 9000) = (sample_mtu_draft 9000)\<lparr>si_MTU := Some \<lparr>mt_Before = Some 9000,
      mt_After = Some 9000, mt_Port = no_binding, mt_Bridge = no_binding, mt_Default = None, mt_Compensating = False\<rparr>\<rparr>"
    by (simp add: AfterImage_def sample_mtu_draft_def captured_def zero_intent_def)
  have "mtuProblem (AfterImage (sample_mtu_draft 9000)) sample_applied = ''''"
    unfolding a
    by (simp add: mtuProblem_def mtu_malformed_def mtu_row_problem_def sample_applied_def sample_object_def
        sample_snapshot_def sample_mtu_row_def ValidMTU_def validMTURequest_def MTUOriginalDeviceRequired_def)
      (simp add: sample_mtu_draft_def captured_def zero_intent_def sample_mtu_snapshot_def sample_snapshot_def)
  then show "problem_of sample_ops (AfterImage (sample_mtu_draft 9000)) sample_applied = ''''"
    by (simp add: problem_of_component a)
qed

theorem passed_checks_are_governed_witness: "governed (sample_mtu_draft 9000) sample_mtu_snapshot"
proof (rule passed_checks_are_governed)
  have "problem_of sample_ops (sample_mtu_draft 9000) sample_mtu_snapshot = ''''"
    using sample_mtu_clean by (simp add: problem_of_component)
  moreover have "Passed (intent_checks sample_ops sample_mtu_snapshot (sample_mtu_draft 9000))"
    by (simp add: intent_checks_def mtuChecks_def at_or_def sample_mtu_snapshot_def sample_object_def sample_mtu_row_def)
      (simp add: op_class_defs mtuChecks_def at_or_def sample_mtu_snapshot_def sample_object_def sample_mtu_row_def)
  ultimately show "Passed (fst (Checks sample_host sample_ops (sample_draft 9000) sample_mtu_snapshot))"
    by (simp add: Checks_def Let_def Compare_checks)
qed simp_all

theorem Capabilities_exact_witness: "''ovs.interface.mtu.write'' \<in> set (Capabilities (sample_draft 9000))"
proof -
  have "list_all proper (c_Intents (sample_draft 9000))" by (simp add: sample_mtu_proper)
  from Capabilities_exact [OF this] show ?thesis
    by (simp add: needed_caps_def capability_def) (simp add: op_class_defs)
qed

definition sample_mac :: hmac where
  "sample_mac key e = (if e_Owner e = ''owner'' then ''a'' else ''b'')"

text \<open>A code that tells sequences apart: the sealed envelope verifies, and not with another sequence under its seal.\<close>

definition sample_tag :: hmac where
  "sample_tag key e = (if e_Sequence e = 1 then ''a'' else ''b'')"

theorem Verify_authentic_witness:
  "let key = replicate 32 0; e = Sign sample_tag key (sample_envelope (sample_draft 9000)) in
   Verify sample_tag key ''owner'' e = None \<and> Verify sample_tag key ''owner'' (e\<lparr>e_Sequence := 2\<rparr>) \<noteq> None"
proof -
  let ?k = "replicate 32 0 :: 8 word list" and ?e = "sample_envelope (sample_draft 9000)"
  have e: "e_Owner ?e = ''owner''" "length ?k = 32" "ManagementID (e_Epoch ?e)" "ManagementID (c_ID (e_Candidate ?e))"
    "ManagementID (c_Revision (e_Candidate ?e))" "0 \<le> e_Sequence ?e" "length (c_Intents (e_Candidate ?e)) \<le> MaxIntents"
    by (simp_all add: sample_envelope_def sample_draft_def single_def sample_candidate_def MaxIntents_def)
  note all = Verify_authentic [OF e(2-7), where mac = sample_tag]
  let ?s = "Sign sample_tag ?k ?e" and ?moved = "(Sign sample_tag ?k ?e)\<lparr>e_Sequence := 2\<rparr>"
  have moved: "e_Seal ?moved = e_Seal ?s" "e_Seal ?moved \<noteq> ''''"
      "sample_tag ?k (?moved\<lparr>e_Seal := ''''\<rparr>) \<noteq> sample_tag ?k (?e\<lparr>e_Seal := ''''\<rparr>)" "?moved \<noteq> ?s"
    by (simp_all add: Sign_def signature_def sample_tag_def sample_envelope_def)
  have "Verify sample_tag ?k ''owner'' ?moved \<noteq> None"
  proof
    assume "Verify sample_tag ?k ''owner'' ?moved = None"
    then have "?moved = ?s" using moved(1-3) by (intro conjunct2 [OF conjunct2 [OF all], rule_format, of "''owner''" ?moved]) simp
    then show False using moved(4) by simp
  qed
  then show ?thesis using all e(1) by (simp add: Let_def)
qed

end
