(* ===== verification/Store.thy ===== *)
theory Store
  imports Candidate_Types
begin

text \<open>
  The manager's journal as the repositories see it (\<^verbatim>\<open>internal/repository/types.go\<close>,
  \<^verbatim>\<open>internal/repository/sqlite/store.go\<close>).

  \<^item> A table is an association list from its primary key to the row, in insertion order; a query
    that counts rows is the length of a filter, an \<^verbatim>\<open>INSERT\<close> of a present key is a constraint
    error, an \<^verbatim>\<open>UPDATE\<close> of an absent key changes nothing.
  \<^item> A writer transaction (\<open>Store.Write\<close>) is a function from the tables to an error or new
    tables. Its \<open>fate\<close> is decided by the environment: it commits, it is refused, or it commits and
    the acknowledgement is lost (\<open>STORAGE_COMMIT_UNKNOWN\<close>). A process that is killed between two
    writes leaves the tables as if every later write of that call had been refused.
  \<^item> A moment (\<^verbatim>\<open>time.Time\<close>) is the number of nanoseconds since Go's zero time, so the zero time
    is \<open>0\<close>; monotonic readings and locations do not take part.
\<close>

type_synonym moment = int

datatype err =
    Problem problem
  | ErrUnavailable
  | ErrConflict
  | ErrInvalid
  | ErrNoRows
  | ErrNotFound
  | ErrBusy
  | ErrCanceled
  | ErrCommitUnknown

type_synonym 'a outcome = "err + 'a"

abbreviation failed :: "nat \<Rightarrow> string \<Rightarrow> 'a outcome" where
  "failed status code \<equiv> Inl (Problem (Fail status code))"

text \<open>Statement after statement: the first error ends the call.\<close>

definition then_do :: "'e + 'a \<Rightarrow> ('a \<Rightarrow> 'e + 'b) \<Rightarrow> 'e + 'b" where
  "then_do r f = (case r of Inl e \<Rightarrow> Inl e | Inr x \<Rightarrow> f x)"

definition require :: "bool \<Rightarrow> err \<Rightarrow> unit outcome" where
  "require ok e = (if ok then Inr () else Inl e)"

lemma then_do_simps [simp]: "then_do (Inl e) f = Inl e" "then_do (Inr x) f = f x"
  by (simp_all add: then_do_def)

lemma then_do_Inr: "then_do r f = Inr y \<longleftrightarrow> (\<exists>x. r = Inr x \<and> f x = Inr y)"
  by (cases r) simp_all

lemma then_doE:
  assumes "then_do r f = Inr y"
  obtains x where "r = Inr x" and "f x = Inr y"
  using assms by (auto simp: then_do_Inr)

lemma require_Inr [simp]: "require ok e = Inr u \<longleftrightarrow> ok"
  by (simp add: require_def)

lemma require_simps [simp]: "require True e = Inr ()" "require False e = Inl e"
  by (simp_all add: require_def)

section \<open>Tables\<close>

type_synonym 'v tab = "(string \<times> 'v) list"

definition insert_row :: "string \<Rightarrow> 'v \<Rightarrow> 'v tab \<Rightarrow> 'v tab outcome" where
  "insert_row k v t = (if map_of t k = None then Inr (t @ [(k, v)]) else Inl ErrConflict)"

definition update_row :: "string \<Rightarrow> 'v \<Rightarrow> 'v tab \<Rightarrow> 'v tab" where
  "update_row k v t = map (\<lambda>(j, w). if j = k then (j, v) else (j, w)) t"

definition select_row :: "string \<Rightarrow> 'v tab \<Rightarrow> 'v outcome" where
  "select_row k t = (case map_of t k of None \<Rightarrow> Inl ErrNoRows | Some v \<Rightarrow> Inr v)"

definition count_rows :: "('v \<Rightarrow> bool) \<Rightarrow> 'v tab \<Rightarrow> nat" where
  "count_rows f t = length (filter (\<lambda>(k, v). f v) t)"

lemma keys_update_row [simp]: "map fst (update_row k v t) = map fst t"
  by (induction t) (auto simp: update_row_def)

lemma length_update_row [simp]: "length (update_row k v t) = length t"
  by (simp add: update_row_def)

lemma map_of_update_row:
  "map_of (update_row k v t) j = (if j = k \<and> map_of t k \<noteq> None then Some v else map_of t j)"
  by (induction t) (auto simp: update_row_def)

lemma update_row_same: "map_of t k = Some v \<Longrightarrow> distinct (map fst t) \<Longrightarrow> update_row k v t = t"
proof (induction t)
  case (Cons p t)
  have other: "update_row k v t = t" if "k \<notin> fst ` set t" for t :: "'a tab"
    using that by (induction t) (auto simp: update_row_def)
  from Cons show ?case
    using other [of t] by (cases p) (auto simp: update_row_def split: if_splits)
qed simp

lemma insert_row_Inr:
  "insert_row k v t = Inr t' \<longleftrightarrow> map_of t k = None \<and> t' = t @ [(k, v)]"
  by (auto simp: insert_row_def)

lemma map_of_snoc:
  "map_of (t @ [(k, v)]) j = (case map_of t j of None \<Rightarrow> if j = k then Some v else None | Some w \<Rightarrow> Some w)"
  by (induction t) auto

lemma select_row_Inr [simp]: "select_row k t = Inr v \<longleftrightarrow> map_of t k = Some v"
  by (simp add: select_row_def split: option.splits)

lemma distinct_snoc_key:
  "distinct (map fst t) \<Longrightarrow> map_of t k = None \<Longrightarrow> distinct (map fst (t @ [(k, v)]))"
  by (auto simp: map_of_eq_None_iff)

lemma count_rows_snoc [simp]:
  "count_rows f (t @ [(k, v)]) = count_rows f t + (if f v then 1 else 0)"
  by (simp add: count_rows_def)

lemma count_rows_update_le:
  assumes "map_of t k = Some w" and "f v \<Longrightarrow> f w" and "distinct (map fst t)"
  shows "count_rows f (update_row k v t) \<le> count_rows f t"
  using assms
proof (induction t)
  case (Cons p t)
  obtain j x where p: "p = (j, x)" by (cases p)
  have other: "update_row k v t = t" if "k \<notin> fst ` set t" for t :: "'a tab"
    using that by (induction t) (auto simp: update_row_def)
  show ?case
  proof (cases "j = k")
    case True
    with Cons.prems p have "update_row k v t = t" "x = w" by (auto intro: other)
    then show ?thesis using True Cons.prems(2) p by (simp add: count_rows_def update_row_def)
  next
    case False
    then show ?thesis using Cons p by (auto simp: count_rows_def update_row_def)
  qed
qed simp

section \<open>Writer transactions\<close>

text \<open>The class of an error that leaves the store (\<open>failure\<close>); a constraint violation of the tables is already
  \<open>ErrConflict\<close> here.\<close>

definition store_failure :: "err \<Rightarrow> err" where
  "store_failure e =
     (case e of
        ErrNoRows \<Rightarrow> ErrNotFound
      | ErrConflict \<Rightarrow> ErrConflict
      | ErrInvalid \<Rightarrow> ErrInvalid
      | Problem p \<Rightarrow> Problem p
      | ErrCanceled \<Rightarrow> ErrCanceled
      | _ \<Rightarrow> ErrUnavailable)"

definition store_read :: "'a outcome \<Rightarrow> 'a outcome" where
  "store_read r = (case r of Inl e \<Rightarrow> Inl (store_failure e) | Inr x \<Rightarrow> Inr x)"

lemma store_read_simps [simp]:
  "store_read (Inr x) = Inr x" "store_read (Inl e) = Inl (store_failure e)" "store_read r = Inr x \<longleftrightarrow> r = Inr x"
  by (auto simp: store_read_def split: sum.splits)

text \<open>The fate of a write: it is refused with some error before it is durable, it is done, or it is durable
  and its acknowledgement is lost.\<close>

datatype fate = Done | Refused err | Lost

definition store_write :: "fate \<Rightarrow> ('d \<Rightarrow> ('a \<times> 'd) outcome) \<Rightarrow> 'd \<Rightarrow> 'a outcome \<times> 'd" where
  "store_write f tx d =
     (case f of
        Refused e \<Rightarrow> (Inl e, d)
      | Done \<Rightarrow> (case tx d of Inl e \<Rightarrow> (Inl (store_failure e), d) | Inr (x, d') \<Rightarrow> (Inr x, d'))
      | Lost \<Rightarrow> (case tx d of Inl e \<Rightarrow> (Inl (store_failure e), d) | Inr (x, d') \<Rightarrow> (Inl ErrCommitUnknown, d')))"

text \<open>A write either leaves the tables alone or takes the transaction's result, and it reports
  success only in the second case.\<close>

lemma store_write_cases:
  obtains (same) "snd (store_write f tx d) = d" "\<nexists>x. fst (store_write f tx d) = Inr x"
  | (commit) x where "tx d = Inr (x, snd (store_write f tx d))"
      "fst (store_write f tx d) = Inr x \<or> fst (store_write f tx d) = Inl ErrCommitUnknown"
proof -
  show ?thesis
  proof (cases f)
    case (Refused e)
    then show ?thesis by (intro same) (simp_all add: store_write_def)
  next
    case Done
    show ?thesis
    proof (cases "tx d")
      case (Inl e)
      with Done show ?thesis by (intro same) (simp_all add: store_write_def)
    next
      case (Inr p)
      with Done show ?thesis by (intro commit [of "fst p"]) (auto simp: store_write_def split: prod.splits)
    qed
  next
    case Lost
    show ?thesis
    proof (cases "tx d")
      case (Inl e)
      with Lost show ?thesis by (intro same) (simp_all add: store_write_def)
    next
      case (Inr p)
      with Lost show ?thesis by (intro commit [of "fst p"]) (auto simp: store_write_def split: prod.splits)
    qed
  qed
qed

lemma store_write_Inr:
  "store_write f tx d = (Inr x, d') \<Longrightarrow> tx d = Inr (x, d')"
  by (auto simp: store_write_def split: fate.splits sum.splits prod.splits)

lemma store_write_result:
  "store_write f tx d = (r, d') \<Longrightarrow> d' = d \<or> (\<exists>x. tx d = Inr (x, d'))"
  by (auto simp: store_write_def split: fate.splits sum.splits prod.splits)

section \<open>Moments\<close>

text \<open>\<open>t.UnixMilli()\<close>; the Unix epoch is 62135596800 seconds after the zero time.\<close>

definition UnixMilli :: "moment \<Rightarrow> int" where
  "UnixMilli t = t div 1000000 - 62135596800000"

definition seconds :: "int \<Rightarrow> int" where
  "seconds n = n * 1000000000"

section \<open>The ambient values of a call\<close>

text \<open>What a call reads from its surroundings: the random source and the digest of the host, the
  successive readings of \<^verbatim>\<open>time.Now()\<close>, and the encoded sizes of the documents whose budget is
  checked. The readings are numbered in the order in which the call takes them; \<open>later n\<close> are the
  values left for a nested call.\<close>

record Request =
  rq_Principal :: string
  rq_Credential :: string
  rq_Capability :: string
  rq_Operation :: string
  rq_Domain :: string
  rq_Epoch :: string
  rq_ID :: string
  rq_Correlation :: string

record ambient =
  am_host :: host
  am_now :: "nat \<Rightarrow> moment"
  am_request :: Request

definition later :: "nat \<Rightarrow> 'z ambient_scheme \<Rightarrow> 'z ambient_scheme" where
  "later n a = a\<lparr>am_host := (am_host a)\<lparr>h_random := (\<lambda>k. h_random (am_host a) (n + k))\<rparr>,
     am_now := (\<lambda>k. am_now a (n + k))\<rparr>"

definition new_id :: "'z ambient_scheme \<Rightarrow> nat \<Rightarrow> string" where
  "new_id a n = mint (am_host a) n"

definition WithRequest :: "Request \<Rightarrow> 'z ambient_scheme \<Rightarrow> 'z ambient_scheme" where
  "WithRequest r a = a\<lparr>am_request := r\<rparr>"

definition no_request :: Request where
  "no_request = \<lparr>rq_Principal = '''', rq_Credential = '''', rq_Capability = '''', rq_Operation = '''',
     rq_Domain = '''', rq_Epoch = '''', rq_ID = '''', rq_Correlation = ''''\<rparr>"

section \<open>Orders kept by transactions\<close>

text \<open>A contract shared by the repositories: an order on the tables that every successful
  transaction climbs. Then every write climbs it whatever its fate, and so does every sequence of
  writes.\<close>

locale store_order =
  fixes le :: "'d \<Rightarrow> 'd \<Rightarrow> bool"
  assumes le_refl: "le d d"
    and le_trans: "le d e \<Longrightarrow> le e f \<Longrightarrow> le d f"
begin

definition climbs :: "('d \<Rightarrow> ('a \<times> 'd) outcome) \<Rightarrow> bool" where
  "climbs tx \<longleftrightarrow> (\<forall>d x d'. tx d = Inr (x, d') \<longrightarrow> le d d')"

lemma climbs_write: "climbs tx \<Longrightarrow> le d (snd (store_write f tx d))"
  by (cases rule: store_write_cases [of f tx d]) (auto simp: climbs_def le_refl)

lemma climbs_bind:
  assumes "climbs tx" and "\<And>x. climbs (g x)"
  shows "climbs (\<lambda>d. then_do (tx d) (\<lambda>(x, d). g x d))"
  unfolding climbs_def
proof (intro allI impI)
  fix d y d'
  assume "then_do (tx d) (\<lambda>(x, d). g x d) = Inr (y, d')"
  then obtain x e where "tx d = Inr (x, e)" "g x e = Inr (y, d')" by (auto simp: then_do_Inr)
  then show "le d d'" using assms le_trans unfolding climbs_def by blast
qed

inductive writes :: "('d \<Rightarrow> 'd \<Rightarrow> bool) \<Rightarrow> 'd \<Rightarrow> 'd \<Rightarrow> bool" for step where
  none: "writes step d d"
| more: "step d e \<Longrightarrow> writes step e f \<Longrightarrow> writes step d f"

lemma writes_climb:
  assumes "writes step d f" and "\<And>d e. step d e \<Longrightarrow> le d e"
  shows "le d f"
  using assms(1) by (induction rule: writes.induct) (auto intro: le_refl le_trans assms(2))

end

section \<open>Signed decimal text\<close>

lemma FormatUint_hd: "hd (FormatUint n) \<noteq> CHR ''-'' \<and> hd (FormatUint n) \<noteq> CHR ''+''"
proof -
  obtain c s where cs: "FormatUint n = c # s" by (meson FormatUint_nonempty neq_Nil_conv)
  then have "is_digit c" using FormatUint_digits [of n] by simp
  then show ?thesis using cs by (auto simp: is_digit_def less_eq_char_def)
qed

lemma ParseInt_FormatInt [simp]:
  assumes "0 \<le> n" and "n < 2 ^ (bits - 1)"
  shows "ParseInt bits (FormatInt n) = Some n"
proof -
  obtain c s where cs: "FormatUint (nat n) = c # s" by (meson FormatUint_nonempty neq_Nil_conv)
  then have "c \<noteq> CHR ''-''" "c \<noteq> CHR ''+''" using FormatUint_hd [of "nat n"] by auto
  then show ?thesis
    using assms cs FormatUint_digits [of "nat n"] dec_val_FormatUint [of "nat n"]
    by (simp add: ParseInt_def FormatInt_def Let_def)
qed

end
