(* ===== verification/Evidence.thy ===== *)
theory Evidence
  imports Store
begin

text \<open>
  Durable jobs, events and audit records (\<^verbatim>\<open>internal/repository/evidence/types.go\<close> and
  \<^verbatim>\<open>write.go\<close>). Every operation runs inside the caller's writer transaction, so it is a function
  from the tables to an error or new tables. The digest of a record stands for the record itself:
  fingerprints are compared as documents without identity, sequence, time and the fields that are
  not encoded.
\<close>

section \<open>Data\<close>

definition MaxJobs :: nat where "MaxJobs = 100000"
definition MaxEvents :: nat where "MaxEvents = 100000"
definition MaxAudit :: nat where "MaxAudit = 500000"
definition MaxQueued :: nat where "MaxQueued = 16"
definition MaxRunning :: nat where "MaxRunning = 2"
definition ReservedControlRecords :: nat where "ReservedControlRecords = 128"
definition MaxRelatedObjects :: nat where "MaxRelatedObjects = 32"

lemmas evidence_limits = MaxJobs_def MaxEvents_def MaxAudit_def MaxQueued_def MaxRunning_def
  ReservedControlRecords_def MaxRelatedObjects_def

record Job =
  j_RelatedObjects :: "Ref list"
  j_ID :: string
  j_Sequence :: string
  j_State :: string
  j_Operation :: string
  j_Owner :: string
  j_Capability :: string
  j_Resource :: "Ref option"
  j_Correlation :: string
  j_RequestID :: string
  j_RequestDomain :: string
  j_RequestEpoch :: string
  j_Credential :: string
  j_ChangeSet :: string
  j_Transaction :: string
  j_Cancellable :: bool
  j_CancelRequested :: bool
  j_Dispatch :: string
  j_Business :: string
  j_Commit :: string
  j_Applied :: string
  j_Confirmation :: string
  j_Reason :: string
  j_Handler :: string
  j_Created :: moment
  j_Updated :: moment
  j_Completed :: "moment option"

record Evidence_Record =
  ev_RelatedObjects :: "Ref list"
  ev_ID :: string
  ev_Collection :: string
  ev_Sequence :: string
  ev_Origin :: string
  ev_Actor :: string
  ev_Credential :: string
  ev_Capability :: string
  ev_Operation :: string
  ev_Object :: "Ref option"
  ev_ChangeSet :: string
  ev_Transaction :: string
  ev_Job :: string
  ev_RequestID :: string
  ev_RequestDomain :: string
  ev_RequestEpoch :: string
  ev_Correlation :: string
  ev_Result :: string
  ev_Reason :: string
  ev_Created :: moment
  ev_DedupKey :: string
  ev_Critical :: bool

record Job_Transition =
  jt_State :: string
  jt_Dispatch :: string
  jt_Business :: string
  jt_Commit :: string
  jt_Applied :: string
  jt_Confirmation :: string
  jt_Reason :: string

text \<open>The receipt of an API request (\<^verbatim>\<open>apitypes.Receipt\<close>) and its row in \<^verbatim>\<open>api_receipts\<close>.\<close>

record Receipt =
  rc_RequestID :: string
  rc_Domain :: string
  rc_Epoch :: string
  rc_State :: string
  rc_Effect :: string
  rc_Resource :: "Ref option"
  rc_Job :: "Ref option"
  rc_CorrelationID :: string

record receipt_row =
  ar_principal :: string
  ar_epoch :: string
  ar_domain :: string
  ar_request :: string
  ar_fingerprint :: string
  ar_initial_status :: nat
  ar_status :: nat
  ar_response :: any
  ar_receipt :: Receipt
  ar_created :: int
  ar_completed :: "int option"
  ar_operation :: string

text \<open>The tables: \<^verbatim>\<open>jobs\<close> and \<^verbatim>\<open>evidence_jobs\<close> share their key and document, \<^verbatim>\<open>evidence_records\<close> is
  in sequence order, \<^verbatim>\<open>db_last_sequence\<close> is its AUTOINCREMENT counter.\<close>

record evidence_db =
  db_revision :: int
  db_jobs :: "Job tab"
  db_records :: "Evidence_Record tab"
  db_last_sequence :: int
  db_objects :: "(string \<times> string) list"
  db_receipts :: "receipt_row list"

record evidence_ambient = ambient +
  am_job_bytes :: "Job \<Rightarrow> nat"
  am_record_bytes :: "Evidence_Record \<Rightarrow> nat"

section \<open>Checks\<close>

definition alnum :: "char \<Rightarrow> bool" where
  "alnum c \<longleftrightarrow> CHR ''A'' \<le> c \<and> c \<le> CHR ''Z'' \<or> CHR ''a'' \<le> c \<and> c \<le> CHR ''z'' \<or> is_digit c"

text \<open>\<open>^[A-Za-z0-9][A-Za-z0-9_.:-]{0,127}$\<close>\<close>

definition code_text :: "string \<Rightarrow> bool" where
  "code_text s \<longleftrightarrow> s \<noteq> '''' \<and> alnum (hd s) \<and> length s \<le> 128 \<and>
     list_all (\<lambda>c. alnum c \<or> c \<in> set ''_.:-'') (tl s)"

definition optionalID :: "string \<Rightarrow> bool" where
  "optionalID s \<longleftrightarrow> s = '''' \<or> ManagementID s"

definition optionalRequest :: "string \<Rightarrow> bool" where
  "optionalRequest s \<longleftrightarrow> s = '''' \<or> UUID s"

definition validRef :: "Ref option \<Rightarrow> bool" where
  "validRef r = (case r of None \<Rightarrow> True | Some r \<Rightarrow> code_text (ref_Kind r) \<and> ManagementID (ref_ID r))"

fun refs_ok :: "string list \<Rightarrow> Ref list \<Rightarrow> bool" where
  "refs_ok seen [] = True"
| "refs_ok seen (r # rs) =
     (if \<not> validRef (Some r) \<or> ref_ID r \<in> set seen then False else refs_ok (ref_ID r # seen) rs)"

definition validRelated :: "Ref list \<Rightarrow> bool" where
  "validRelated refs = (if MaxRelatedObjects < length refs then False else refs_ok [] refs)"

definition Terminal_job :: "string \<Rightarrow> bool" where
  "Terminal_job s \<longleftrightarrow> s = ''succeeded'' \<or> s = ''failed'' \<or> s = ''cancelled''"

definition validOutcomes :: "Job \<Rightarrow> bool" where
  "validOutcomes j \<longleftrightarrow>
     j_Dispatch j \<in> set [''not-started'', ''prepared'', ''sent'', ''unknown'', ''completed''] \<and>
     j_Business j \<in> set [''unknown'', ''success'', ''failure'', ''cancelled''] \<and>
     j_Commit j \<in> set [''not-sent'', ''unknown'', ''committed'', ''rejected'', ''not-applicable''] \<and>
     j_Applied j \<in> set [''not-applicable'', ''unknown'', ''pending'', ''applied'', ''not-applied''] \<and>
     j_Confirmation j \<in> set [''not-applicable'', ''pending'', ''confirmed'', ''expired''] \<and>
     code_text (j_Reason j)"

definition ControlOperation :: "string \<Rightarrow> bool" where
  "ControlOperation op \<longleftrightarrow> op = ''cancelJob'' \<or> op = ''confirmCertificate'' \<or> op = ''decideTransaction'' \<or>
     op = ''reconcileTransaction''"

section \<open>Append\<close>

definition fill_record :: "'z ambient_scheme \<Rightarrow> Evidence_Record \<Rightarrow> Evidence_Record" where
  "fill_record a r =
     (let q = am_request a;
          r = (if ev_Correlation r = '''' then r\<lparr>ev_Correlation := rq_Correlation q\<rparr> else r);
          r = (if ev_RequestID r = ''''
               then r\<lparr>ev_RequestID := rq_ID q, ev_RequestDomain := rq_Domain q, ev_RequestEpoch := rq_Epoch q\<rparr> else r);
          r = (if ev_Capability r = '''' then r\<lparr>ev_Capability := rq_Capability q\<rparr> else r);
          r = (if ev_Actor r = '''' \<and> ev_Origin r = ''Manager'' then r\<lparr>ev_Actor := rq_Principal q\<rparr> else r);
          r = (if ev_Credential r = '''' \<and> ev_Origin r = ''Manager'' then r\<lparr>ev_Credential := rq_Credential q\<rparr> else r);
          r = (if ev_Correlation r = '''' then r\<lparr>ev_Correlation := new_id a 0\<rparr> else r);
          r = (if ev_ID r = '''' then r\<lparr>ev_ID := new_id a 1\<rparr> else r);
          r = (if ev_Created r = 0 then r\<lparr>ev_Created := am_now a 0\<rparr> else r)
      in if ev_Origin r \<noteq> ''Manager'' then r\<lparr>ev_Actor := '''', ev_Credential := ''''\<rparr> else r)"

definition record_valid :: "Evidence_Record \<Rightarrow> bool" where
  "record_valid r \<longleftrightarrow>
     (ev_Collection r = ''event'' \<or> ev_Collection r = ''audit'') \<and>
     (ev_Origin r = ''Manager'' \<or> ev_Origin r = ''External'' \<or> ev_Origin r = ''Unknown'') \<and>
     ManagementID (ev_ID r) \<and> ManagementID (ev_Correlation r) \<and> optionalID (ev_Actor r) \<and>
     optionalID (ev_Credential r) \<and> optionalID (ev_ChangeSet r) \<and> optionalID (ev_Transaction r) \<and>
     optionalID (ev_Job r) \<and> optionalID (ev_RequestEpoch r) \<and> optionalRequest (ev_RequestID r) \<and>
     validRef (ev_Object r) \<and> validRelated (ev_RelatedObjects r) \<and> code_text (ev_Operation r) \<and>
     code_text (ev_Result r) \<and> (ev_Reason r = '''' \<or> code_text (ev_Reason r)) \<and>
     (ev_Capability r = '''' \<or> code_text (ev_Capability r)) \<and>
     (ev_DedupKey r = '''' \<or> code_text (ev_DedupKey r)) \<and>
     (ev_RequestDomain r = '''' \<or> ev_RequestDomain r = ''management'' \<or> ev_RequestDomain r = ''workspace'')"

text \<open>\<open>hash(canonical)\<close>: the encoded fields without identity, sequence and time.\<close>

definition canonical :: "Evidence_Record \<Rightarrow> Evidence_Record" where
  "canonical r = r\<lparr>ev_ID := '''', ev_Sequence := '''', ev_Created := 0, ev_DedupKey := '''', ev_Critical := False\<rparr>"

definition find_dedup :: "Evidence_Record \<Rightarrow> Evidence_Record tab \<Rightarrow> Evidence_Record option" where
  "find_dedup r t = map_option snd (find (\<lambda>(k, q). ev_Collection q = ev_Collection r \<and> ev_Origin q = ev_Origin r \<and>
     ev_DedupKey q = ev_DedupKey r) t)"

definition record_limit :: "Evidence_Record \<Rightarrow> nat" where
  "record_limit r =
     (let limit = (if ev_Collection r = ''audit'' then MaxAudit else MaxEvents)
      in if ev_Critical r then limit else limit - ReservedControlRecords)"

definition insert_pair :: "string \<Rightarrow> string \<Rightarrow> (string \<times> string) list \<Rightarrow> (string \<times> string) list" where
  "insert_pair x y ps = (if (x, y) \<in> set ps then ps else ps @ [(x, y)])"

definition record_refs :: "Evidence_Record \<Rightarrow> Ref list" where
  "record_refs r = ev_RelatedObjects r @ (case ev_Object r of None \<Rightarrow> [] | Some ob \<Rightarrow> [ob])"

definition store_record ::
    "'z evidence_ambient_scheme \<Rightarrow> Evidence_Record \<Rightarrow> 'y evidence_db_scheme \<Rightarrow> (string \<times> 'y evidence_db_scheme) outcome" where
  "store_record a r d =
     (let seq = db_last_sequence d + 1; r = r\<lparr>ev_Sequence := FormatInt seq\<rparr> in
      then_do (insert_row (ev_ID r) r (db_records d)) (\<lambda>rows.
        if 8192 < am_record_bytes a r then failed 422 ''EVIDENCE_BUDGET_EXCEEDED''
        else Inr (ev_ID r,
          d\<lparr>db_records := rows, db_last_sequence := seq,
            db_objects := foldl (\<lambda>ps ref. insert_pair (ev_ID r) (ref_ID ref) ps) (db_objects d) (record_refs r)\<rparr>)))"

definition Append ::
    "'z evidence_ambient_scheme \<Rightarrow> Evidence_Record \<Rightarrow> 'y evidence_db_scheme \<Rightarrow> (string \<times> 'y evidence_db_scheme) outcome" where
  "Append a r0 d =
     (let r = fill_record a r0 in
      if \<not> record_valid r then failed 422 ''INVALID_EVIDENCE''
      else case (if ev_DedupKey r = '''' then None else find_dedup r (db_records d)) of
             Some prior \<Rightarrow>
               if canonical prior \<noteq> canonical r then failed 409 ''EVIDENCE_DEDUP_MISMATCH'' else Inr (ev_ID prior, d)
           | None \<Rightarrow>
               if record_limit r \<le> count_rows (\<lambda>q. ev_Collection q = ev_Collection r) (db_records d)
               then failed 429 ''EVIDENCE_CAPACITY_REACHED''
               else store_record a r d)"

section \<open>Jobs\<close>

definition fill_job :: "'z ambient_scheme \<Rightarrow> Job \<Rightarrow> Job" where
  "fill_job a j =
     (let q = am_request a; or_else = (\<lambda>x y. if x = '''' then y else x);
          j = j\<lparr>j_ID := or_else (j_ID j) (new_id a 0), j_Owner := or_else (j_Owner j) (rq_Principal q),
                j_Operation := or_else (j_Operation j) (rq_Operation q),
                j_Capability := or_else (j_Capability j) (rq_Capability q),
                j_Correlation := or_else (or_else (j_Correlation j) (rq_Correlation q)) (new_id a 1)\<rparr>;
          j = (if j_RequestID j = ''''
               then j\<lparr>j_RequestID := rq_ID q, j_RequestDomain := rq_Domain q, j_RequestEpoch := rq_Epoch q\<rparr> else j);
          j = j\<lparr>j_Credential := or_else (j_Credential j) (rq_Credential q),
                j_Created := (if j_Created j = 0 then am_now a 0 else j_Created j)\<rparr>
      in j\<lparr>j_Updated := j_Created j, j_Sequence := ''1'',
           j_State := or_else (j_State j) ''queued'', j_Handler := or_else (j_Handler j) ''none'',
           j_Dispatch := or_else (j_Dispatch j) ''not-started'', j_Business := or_else (j_Business j) ''unknown'',
           j_Commit := or_else (j_Commit j) ''not-sent'', j_Applied := or_else (j_Applied j) ''not-applicable'',
           j_Confirmation := or_else (j_Confirmation j) ''not-applicable'',
           j_Reason := or_else (j_Reason j) ''admitted''\<rparr>)"

definition job_valid :: "Job \<Rightarrow> bool" where
  "job_valid j \<longleftrightarrow> ManagementID (j_ID j) \<and> ManagementID (j_Owner j) \<and> ManagementID (j_Correlation j) \<and>
     code_text (j_Operation j) \<and> code_text (j_Capability j) \<and> validRef (j_Resource j) \<and>
     validRelated (j_RelatedObjects j) \<and> optionalID (j_ChangeSet j) \<and> optionalID (j_Transaction j) \<and>
     optionalID (j_Credential j) \<and> optionalRequest (j_RequestID j) \<and> optionalID (j_RequestEpoch j) \<and>
     (j_State j = ''queued'' \<or> j_State j = ''running'' \<or> Terminal_job (j_State j) \<or> j_State j = ''needs-attention'') \<and>
     (j_Handler j = ''none'' \<or> j_Handler j = ''tls-activation'' \<or> j_Handler j = ''provider'' \<or>
      j_Handler j = ''field-execution'')"

definition running_job :: "Job \<Rightarrow> bool" where
  "running_job j \<longleftrightarrow> j_State j = ''running'' \<or> j_State j = ''cancel-requested''"

text \<open>\<open>saveJob\<close>: the insertion keeps the first sequence number, an update advances it.\<close>

definition next_sequence :: "bool \<Rightarrow> Job \<Rightarrow> Job outcome" where
  "next_sequence new j =
     (if new
      then (let j = (if j_Sequence j = '''' then j\<lparr>j_Sequence := ''1''\<rparr> else j) in
            case ParseUint 64 (j_Sequence j) of
              None \<Rightarrow> failed 503 ''JOB_SEQUENCE_INVALID''
            | Some n \<Rightarrow> if n = 0 then failed 503 ''JOB_SEQUENCE_INVALID'' else Inr j)
      else (case ParseUint 64 (j_Sequence j) of
              None \<Rightarrow> failed 503 ''JOB_SEQUENCE_INVALID''
            | Some n \<Rightarrow>
                if n = 0 \<or> n = 2 ^ 64 - 1 then failed 503 ''JOB_SEQUENCE_INVALID''
                else Inr (j\<lparr>j_Sequence := FormatUint (n + 1)\<rparr>)))"

definition saveJob ::
    "'z evidence_ambient_scheme \<Rightarrow> bool \<Rightarrow> Job \<Rightarrow> 'y evidence_db_scheme \<Rightarrow> (Job \<times> 'y evidence_db_scheme) outcome" where
  "saveJob a new j d =
     (let d = d\<lparr>db_revision := db_revision d + 1\<rparr> in
      then_do (next_sequence new j) (\<lambda>j.
        if 8192 < am_job_bytes a j then failed 422 ''JOB_BUDGET_EXCEEDED''
        else Inr (j, d\<lparr>db_jobs := update_row (j_ID j) j (db_jobs d)\<rparr>)))"

definition job_event :: "string \<Rightarrow> bool \<Rightarrow> moment \<Rightarrow> Job \<Rightarrow> Evidence_Record" where
  "job_event op critical now j =
     \<lparr>ev_RelatedObjects = j_RelatedObjects j, ev_ID = '''', ev_Collection = ''event'', ev_Sequence = '''',
      ev_Origin = ''Manager'', ev_Actor = '''', ev_Credential = '''', ev_Capability = j_Capability j,
      ev_Operation = op, ev_Object = j_Resource j, ev_ChangeSet = j_ChangeSet j, ev_Transaction = j_Transaction j,
      ev_Job = j_ID j, ev_RequestID = j_RequestID j, ev_RequestDomain = j_RequestDomain j,
      ev_RequestEpoch = j_RequestEpoch j, ev_Correlation = j_Correlation j, ev_Result = j_State j,
      ev_Reason = j_Reason j, ev_Created = now, ev_DedupKey = '''', ev_Critical = critical\<rparr>"

definition job_room :: "Job \<Rightarrow> Job tab \<Rightarrow> bool" where
  "job_room j t \<longleftrightarrow>
     \<not> (MaxJobs - (if ControlOperation (j_Operation j) then 0 else ReservedControlRecords) \<le> length t \<or>
        j_State j = ''queued'' \<and> MaxQueued \<le> count_rows (\<lambda>q. j_State q = ''queued'') t \<or>
        j_State j = ''running'' \<and> MaxRunning \<le> count_rows running_job t)"

definition CreateJob ::
    "'z evidence_ambient_scheme \<Rightarrow> Job \<Rightarrow> 'y evidence_db_scheme \<Rightarrow> (Job \<times> 'y evidence_db_scheme) outcome" where
  "CreateJob a j0 d =
     (let j = fill_job a j0 in
      if \<not> job_valid j then failed 422 ''INVALID_JOB''
      else if \<not> job_room j (db_jobs d) then failed 429 ''JOB_CAPACITY_REACHED''
      else let j = (if Terminal_job (j_State j) then j\<lparr>j_Completed := Some (j_Updated j), j_Cancellable := False\<rparr> else j) in
        if \<not> validOutcomes j then failed 422 ''INVALID_JOB_OUTCOME''
        else then_do (insert_row (j_ID j) j (db_jobs d)) (\<lambda>rows.
             then_do (saveJob a True j (d\<lparr>db_jobs := rows\<rparr>)) (\<lambda>(j, d).
             then_do (Append (later 2 a) (job_event ''job-created'' (ControlOperation (j_Operation j)) (j_Created j) j) d)
               (\<lambda>(x, d). Inr (j, d)))))"

definition LoadJob :: "string \<Rightarrow> 'y evidence_db_scheme \<Rightarrow> Job outcome" where
  "LoadJob x d = (case map_of (db_jobs d) x of None \<Rightarrow> failed 404 ''NOT_FOUND'' | Some j \<Rightarrow> Inr j)"

definition job_move :: "Job \<Rightarrow> string \<Rightarrow> bool" where
  "job_move j t \<longleftrightarrow>
     (if j_State j = ''queued''
      then t = ''running'' \<or> t = ''cancelled'' \<or> t = ''failed'' \<or> t = ''needs-attention''
      else if j_State j \<in> set [''running'', ''cancel-requested'', ''needs-attention'']
      then t = ''cancel-requested'' \<or> t = ''needs-attention'' \<or> Terminal_job t \<or>
           j_Handler j = ''field-execution'' \<and> t = ''running'' \<and> j_State j = ''running''
      else False)"

definition set_outcomes :: "Job_Transition \<Rightarrow> Job \<Rightarrow> Job outcome" where
  "set_outcomes t j =
     (let pick = (\<lambda>new old. if new = '''' then old else new) in
      if list_ex (\<lambda>v. v \<noteq> '''' \<and> \<not> code_text v)
           [jt_Dispatch t, jt_Business t, jt_Commit t, jt_Applied t, jt_Confirmation t]
      then failed 422 ''INVALID_JOB_OUTCOME''
      else Inr (j\<lparr>j_Dispatch := pick (jt_Dispatch t) (j_Dispatch j), j_Business := pick (jt_Business t) (j_Business j),
                  j_Commit := pick (jt_Commit t) (j_Commit j), j_Applied := pick (jt_Applied t) (j_Applied j),
                  j_Confirmation := pick (jt_Confirmation t) (j_Confirmation j)\<rparr>))"

definition close_job :: "Job \<Rightarrow> Job" where
  "close_job j =
     (let j = (if j_State j = ''cancel-requested'' then j\<lparr>j_CancelRequested := True, j_Cancellable := False\<rparr> else j)
      in if Terminal_job (j_State j) then j\<lparr>j_Completed := Some (j_Updated j), j_Cancellable := False\<rparr> else j)"

definition same_receipt :: "receipt_row \<Rightarrow> receipt_row \<Rightarrow> bool" where
  "same_receipt v w \<longleftrightarrow> ar_principal w = ar_principal v \<and> ar_epoch w = ar_epoch v \<and> ar_domain w = ''management'' \<and>
     ar_request w = ar_request v"

definition completeReceipts :: "Job \<Rightarrow> moment \<Rightarrow> 'y evidence_db_scheme \<Rightarrow> 'y evidence_db_scheme" where
  "completeReceipts j now d =
     (let pending = filter (\<lambda>v. map_option ref_ID (rc_Job (ar_receipt v)) = Some (j_ID j) \<and> ar_completed v = None)
                      (db_receipts d);
          complete = (\<lambda>rows v. map (\<lambda>w. if same_receipt v w
             then w\<lparr>ar_receipt := (ar_receipt v)\<lparr>rc_State := ''completed''\<rparr>, ar_completed := Some (UnixMilli now)\<rparr>
             else w) rows)
      in d\<lparr>db_receipts := foldl complete (db_receipts d) pending\<rparr>)"

definition settle_receipts :: "Job \<Rightarrow> moment \<Rightarrow> 'y evidence_db_scheme \<Rightarrow> 'y evidence_db_scheme" where
  "settle_receipts j now d = (if j_Completed j \<noteq> None then completeReceipts j now d else d)"

definition ChangeJob ::
    "'z evidence_ambient_scheme \<Rightarrow> string \<Rightarrow> string \<Rightarrow> Job_Transition \<Rightarrow> moment \<Rightarrow> 'y evidence_db_scheme \<Rightarrow>
     (Job \<times> 'y evidence_db_scheme) outcome" where
  "ChangeJob a x expected t now d =
     then_do (LoadJob x d) (\<lambda>j.
     if expected \<noteq> j_Sequence j then failed 409 ''JOB_REVISION_CHANGED''
     else if Terminal_job (j_State j) then failed 409 ''JOB_TERMINAL''
     else if \<not> job_move j (jt_State t) \<or> \<not> code_text (jt_Reason t) then failed 422 ''INVALID_JOB_TRANSITION''
     else if j_State j = ''queued'' \<and> jt_State t = ''running'' \<and> MaxRunning \<le> count_rows running_job (db_jobs d)
     then failed 429 ''JOB_RUNNING_CAPACITY_REACHED''
     else then_do (set_outcomes t (j\<lparr>j_State := jt_State t, j_Updated := now, j_Reason := jt_Reason t\<rparr>)) (\<lambda>j.
          let j = close_job j in
          if \<not> validOutcomes j then failed 422 ''INVALID_JOB_OUTCOME''
          else then_do (saveJob a False j d) (\<lambda>(j, d).
               then_do (Append a (job_event ''job-state-changed'' True now j) (settle_receipts j now d))
                 (\<lambda>(x, d). Inr (j, d)))))"

section \<open>What the evidence operations keep\<close>

text \<open>The evidence operations touch their own tables only.\<close>

lemma store_record_Inr:
  assumes "store_record a r d = Inr (x, d')"
  obtains rows where "map_of (db_records d) (ev_ID r) = None"
    and "db_records d' = db_records d @ [(ev_ID r, r\<lparr>ev_Sequence := FormatInt (db_last_sequence d + 1)\<rparr>)]"
    and "db_last_sequence d' = db_last_sequence d + 1" and "db_jobs d' = db_jobs d"
    and "db_revision d' = db_revision d" and "db_receipts d' = db_receipts d"
    and "evidence_db.more d' = evidence_db.more d"
  using assms by (auto simp: store_record_def Let_def then_do_Inr insert_row_Inr split: if_splits)

lemma Append_Inr:
  assumes "Append a r d = Inr (x, d')"
  shows "d' = d \<or> (let q = fill_record a r in
     record_valid q \<and> count_rows (\<lambda>p. ev_Collection p = ev_Collection q) (db_records d) < record_limit q \<and>
     map_of (db_records d) (ev_ID q) = None \<and>
     db_records d' = db_records d @ [(ev_ID q, q\<lparr>ev_Sequence := FormatInt (db_last_sequence d + 1)\<rparr>)] \<and>
     db_last_sequence d' = db_last_sequence d + 1)"
  using assms unfolding Append_def Let_def
  by (auto split: if_splits option.splits elim!: store_record_Inr)

lemma Append_frame:
  assumes "Append a r d = Inr (x, d')"
  shows "db_jobs d' = db_jobs d" and "db_revision d' = db_revision d" and "db_receipts d' = db_receipts d"
    and "evidence_db.more d' = evidence_db.more d"
  using assms unfolding Append_def Let_def
  by (auto split: if_splits option.splits elim!: store_record_Inr)

lemma saveJob_Inr:
  assumes "saveJob a new j d = Inr (k, d')"
  shows "next_sequence new j = Inr k" and "db_jobs d' = update_row (j_ID k) k (db_jobs d)"
    and "db_records d' = db_records d" and "db_last_sequence d' = db_last_sequence d"
    and "db_receipts d' = db_receipts d" and "evidence_db.more d' = evidence_db.more d"
    and "db_revision d' = db_revision d + 1"
  using assms by (auto simp: saveJob_def Let_def then_do_Inr split: if_splits)

lemma next_sequence_Inr:
  assumes "next_sequence new j = Inr k"
  shows "\<exists>s. k = j\<lparr>j_Sequence := s\<rparr>" and "ParseUint 64 (j_Sequence k) \<noteq> None"
    and "\<not> new \<Longrightarrow> dec_val (j_Sequence k) = dec_val (j_Sequence j) + 1"
    and "new \<Longrightarrow> j_Sequence j \<noteq> '''' \<Longrightarrow> k = j"
proof -
  show "\<exists>s. k = j\<lparr>j_Sequence := s\<rparr>"
    using assms by (auto simp: next_sequence_def Let_def split: if_splits option.splits intro: exI [of _ "j_Sequence j"])
  have bound: "n < 2 ^ 64 - 1" if "ParseUint 64 s = Some n" "n \<noteq> 2 ^ 64 - 1" for s n
    using that by (auto simp: ParseUint_Some)
  show "ParseUint 64 (j_Sequence k) \<noteq> None"
    using assms bound by (fastforce simp: next_sequence_def Let_def split: if_splits option.splits)
  show "dec_val (j_Sequence k) = dec_val (j_Sequence j) + 1" if "\<not> new"
    using assms that by (auto simp: next_sequence_def ParseUint_Some split: if_splits option.splits)
  show "k = j" if "new" "j_Sequence j \<noteq> ''''"
    using assms that by (auto simp: next_sequence_def Let_def split: if_splits option.splits)
qed

lemma completeReceipts_frame [simp]:
  "db_jobs (completeReceipts j now d) = db_jobs d" "db_records (completeReceipts j now d) = db_records d"
  "db_last_sequence (completeReceipts j now d) = db_last_sequence d"
  "db_revision (completeReceipts j now d) = db_revision d"
  "evidence_db.more (completeReceipts j now d) = evidence_db.more d"
  by (simp_all add: completeReceipts_def Let_def)

lemma settle_receipts_frame [simp]:
  "db_jobs (settle_receipts j now d) = db_jobs d" "db_records (settle_receipts j now d) = db_records d"
  "db_last_sequence (settle_receipts j now d) = db_last_sequence d"
  "db_revision (settle_receipts j now d) = db_revision d"
  "evidence_db.more (settle_receipts j now d) = evidence_db.more d"
  by (simp_all add: settle_receipts_def)

text \<open>A successful \<open>ChangeJob\<close> in one rule: the move was legal from a job that was not terminal, under
  the expected revision, and the stored document is the successor with its sequence advanced.\<close>

lemma set_outcomes_Inr:
  assumes "set_outcomes t j = Inr k"
  shows "j_ID k = j_ID j" "j_State k = j_State j" "j_Sequence k = j_Sequence j" "j_Handler k = j_Handler j"
    "j_Updated k = j_Updated j" "j_Transaction k = j_Transaction j" "j_Owner k = j_Owner j" "j_Reason k = j_Reason j"
    "j_Completed k = j_Completed j"
    "j_Confirmation k = (if jt_Confirmation t = '''' then j_Confirmation j else jt_Confirmation t)"
    "j_Business k = (if jt_Business t = '''' then j_Business j else jt_Business t)"
    "j_Commit k = (if jt_Commit t = '''' then j_Commit j else jt_Commit t)"
    "j_Applied k = (if jt_Applied t = '''' then j_Applied j else jt_Applied t)"
    "j_Dispatch k = (if jt_Dispatch t = '''' then j_Dispatch j else jt_Dispatch t)"
  using assms by (auto simp: set_outcomes_def Let_def split: if_splits)

lemma close_job_fields [simp]:
  "j_ID (close_job j) = j_ID j" "j_State (close_job j) = j_State j" "j_Sequence (close_job j) = j_Sequence j"
  "j_Handler (close_job j) = j_Handler j" "j_Transaction (close_job j) = j_Transaction j"
  "j_Owner (close_job j) = j_Owner j" "j_Reason (close_job j) = j_Reason j" "j_Updated (close_job j) = j_Updated j"
  "j_Business (close_job j) = j_Business j" "j_Commit (close_job j) = j_Commit j"
  "j_Applied (close_job j) = j_Applied j" "j_Dispatch (close_job j) = j_Dispatch j"
  "j_Confirmation (close_job j) = j_Confirmation j"
  "Terminal_job (j_State j) \<Longrightarrow> j_Completed (close_job j) = Some (j_Updated j)"
  by (auto simp: close_job_def Let_def Terminal_job_def)

lemma validOutcomes_sequence [simp]: "validOutcomes (j\<lparr>j_Sequence := s\<rparr>) = validOutcomes j"
  by (simp add: validOutcomes_def)

lemma ChangeJob_Inr:
  assumes "ChangeJob a x expected t now d = Inr (k, d')" and "\<forall>y j. map_of (db_jobs d) y = Some j \<longrightarrow> j_ID j = y"
  obtains j y where "map_of (db_jobs d) x = Some j" and "expected = j_Sequence j" and "\<not> Terminal_job (j_State j)"
    and "job_move j (jt_State t)" and "j_State k = jt_State t" and "j_Reason k = jt_Reason t" and "j_ID k = x"
    and "j_Handler k = j_Handler j" and "j_Transaction k = j_Transaction j" and "j_Owner k = j_Owner j"
    and "validOutcomes k" and "Terminal_job (j_State k) \<Longrightarrow> j_Completed k = Some now"
    and "dec_val (j_Sequence k) = dec_val (j_Sequence j) + 1" and "ParseUint 64 (j_Sequence k) \<noteq> None"
    and "db_jobs d' = update_row x k (db_jobs d)" and "evidence_db.more d' = evidence_db.more d"
    and "Append a (job_event ''job-state-changed'' True now k) (settle_receipts k now
           (d\<lparr>db_revision := db_revision d + 1, db_jobs := update_row x k (db_jobs d)\<rparr>)) = Inr (y, d')"
proof -
  obtain j j1 d1 y where load: "map_of (db_jobs d) x = Some j"
    and guards: "expected = j_Sequence j" "\<not> Terminal_job (j_State j)" "job_move j (jt_State t)"
    and out: "set_outcomes t (j\<lparr>j_State := jt_State t, j_Updated := now, j_Reason := jt_Reason t\<rparr>) = Inr j1"
    and ok: "validOutcomes (close_job j1)" and save: "saveJob a False (close_job j1) d = Inr (k, d1)"
    and app: "Append a (job_event ''job-state-changed'' True now k) (settle_receipts k now d1) = Inr (y, d')"
    using assms(1) unfolding ChangeJob_def LoadJob_def
    by (auto simp: Let_def then_do_Inr split: if_splits option.splits)
  note s = set_outcomes_Inr [OF out, simplified]
  have seq: "next_sequence False (close_job j1) = Inr k" by (rule saveJob_Inr [OF save])
  from next_sequence_Inr(1) [OF seq] obtain s' where k: "k = (close_job j1)\<lparr>j_Sequence := s'\<rparr>" by blast
  have key: "j_ID k = x" using k s(1) assms(2) load by simp
  have d1: "d1 = d\<lparr>db_revision := db_revision d + 1, db_jobs := update_row x k (db_jobs d)\<rparr>"
    using save key by (auto simp: saveJob_def Let_def then_do_Inr split: if_splits)
  note fr = Append_frame [OF app]
  show ?thesis
  proof (rule that [OF load guards])
    show "j_State k = jt_State t" "j_Reason k = jt_Reason t" "j_Handler k = j_Handler j"
      "j_Transaction k = j_Transaction j" "j_Owner k = j_Owner j"
      using k s by simp_all
    show "j_ID k = x" by (rule key)
    show "validOutcomes k" using ok k by simp
    show "Terminal_job (j_State k) \<Longrightarrow> j_Completed k = Some now" using k s by simp
    show "dec_val (j_Sequence k) = dec_val (j_Sequence j) + 1"
      using next_sequence_Inr(3) [OF seq] s by simp
    show "ParseUint 64 (j_Sequence k) \<noteq> None" using next_sequence_Inr(2) [OF seq] .
    show "db_jobs d' = update_row x k (db_jobs d)" "evidence_db.more d' = evidence_db.more d"
      using fr d1 by auto
    show "Append a (job_event ''job-state-changed'' True now k) (settle_receipts k now
           (d\<lparr>db_revision := db_revision d + 1, db_jobs := update_row x k (db_jobs d)\<rparr>)) = Inr (y, d')"
      using app unfolding d1 .
  qed
qed

lemma CreateJob_Inr:
  assumes "CreateJob a j0 d = Inr (k, d')"
  obtains rows y where "job_valid k" and "job_room k (db_jobs d)" and "validOutcomes k"
    and "map_of (db_jobs d) (j_ID k) = None" and "db_jobs d' = db_jobs d @ [(j_ID k, k)]"
    and "ParseUint 64 (j_Sequence k) \<noteq> None" and "Terminal_job (j_State k) \<Longrightarrow> j_Completed k \<noteq> None"
    and "j_ID j0 \<noteq> '''' \<Longrightarrow> j_ID k = j_ID j0" and "j_State j0 \<noteq> '''' \<Longrightarrow> j_State k = j_State j0"
    and "j_Handler j0 \<noteq> '''' \<Longrightarrow> j_Handler k = j_Handler j0" and "j_Transaction k = j_Transaction j0"
    and "evidence_db.more d' = evidence_db.more d"
    and "Append (later 2 a) (job_event ''job-created'' (ControlOperation (j_Operation k)) (j_Created k) k)
           (d\<lparr>db_jobs := db_jobs d @ [(j_ID k, k)], db_revision := db_revision d + 1\<rparr>) = Inr (y, d')"
proof -
  define j where "j = (if Terminal_job (j_State (fill_job a j0))
    then (fill_job a j0)\<lparr>j_Completed := Some (j_Updated (fill_job a j0)), j_Cancellable := False\<rparr> else fill_job a j0)"
  obtain rows d1 y where valid: "job_valid (fill_job a j0)" and room: "job_room (fill_job a j0) (db_jobs d)"
    and ok: "validOutcomes j" and rows: "insert_row (j_ID j) j (db_jobs d) = Inr rows"
    and save: "saveJob a True j (d\<lparr>db_jobs := rows\<rparr>) = Inr (k, d1)"
    and app: "Append (later 2 a) (job_event ''job-created'' (ControlOperation (j_Operation k)) (j_Created k) k) d1
       = Inr (y, d')"
    using assms unfolding CreateJob_def Let_def j_def [symmetric] by (auto simp: then_do_Inr split: if_splits)
  have fill: "j_Sequence (fill_job a j0) = ''1''" by (simp add: fill_job_def Let_def)
  have seq: "next_sequence True j = Inr k" by (rule saveJob_Inr [OF save])
  have kj: "k = j" using next_sequence_Inr(4) [OF seq] fill by (simp add: j_def)
  have absent: "map_of (db_jobs d) (j_ID k) = None" and rows': "rows = db_jobs d @ [(j_ID k, k)]"
    using rows kj by (simp_all add: insert_row_Inr)
  have upd: "update_row (j_ID k) k rows = rows"
  proof -
    have "update_row x v t = t" if "x \<notin> fst ` set t" for x and v :: Job and t
      using that by (induction t) (auto simp: update_row_def)
    then show ?thesis using absent rows'
      by (auto simp: update_row_def map_of_eq_None_iff)
  qed
  have d1: "d1 = d\<lparr>db_jobs := db_jobs d @ [(j_ID k, k)], db_revision := db_revision d + 1\<rparr>"
    using save rows' upd by (auto simp: saveJob_def Let_def then_do_Inr split: if_splits)
  show ?thesis
  proof (rule that [OF _ _ _ absent])
    show "job_valid k" "job_room k (db_jobs d)"
      using valid room kj by (auto simp: j_def job_valid_def job_room_def)
    show "validOutcomes k" using ok kj by simp
    show "db_jobs d' = db_jobs d @ [(j_ID k, k)]" "evidence_db.more d' = evidence_db.more d"
      using Append_frame [OF app] d1 by auto
    show "ParseUint 64 (j_Sequence k) \<noteq> None" using next_sequence_Inr(2) [OF seq] .
    show "Terminal_job (j_State k) \<Longrightarrow> j_Completed k \<noteq> None" using kj by (auto simp: j_def)
    show "j_ID j0 \<noteq> '''' \<Longrightarrow> j_ID k = j_ID j0" "j_State j0 \<noteq> '''' \<Longrightarrow> j_State k = j_State j0"
      "j_Handler j0 \<noteq> '''' \<Longrightarrow> j_Handler k = j_Handler j0" "j_Transaction k = j_Transaction j0"
      using kj by (auto simp: j_def fill_job_def Let_def)
    show "Append (later 2 a) (job_event ''job-created'' (ControlOperation (j_Operation k)) (j_Created k) k)
           (d\<lparr>db_jobs := db_jobs d @ [(j_ID k, k)], db_revision := db_revision d + 1\<rparr>) = Inr (y, d')"
      using app d1 by simp
  qed
qed

section \<open>Runs of evidence writes\<close>

definition records_wf :: "'y evidence_db_scheme \<Rightarrow> bool" where
  "records_wf d \<longleftrightarrow> distinct (map fst (db_records d)) \<and> 0 \<le> db_last_sequence d \<and>
     sorted_wrt (<) (map (\<lambda>(k, r). dec_val (ev_Sequence r)) (db_records d)) \<and>
     (\<forall>(k, r) \<in> set (db_records d). k = ev_ID r \<and> int (dec_val (ev_Sequence r)) \<le> db_last_sequence d) \<and>
     count_rows (\<lambda>r. ev_Collection r = ''event'') (db_records d) \<le> MaxEvents \<and>
     count_rows (\<lambda>r. ev_Collection r = ''audit'') (db_records d) \<le> MaxAudit"

definition job_wf :: "string \<Rightarrow> Job \<Rightarrow> bool" where
  "job_wf x j \<longleftrightarrow> j_ID j = x \<and> ParseUint 64 (j_Sequence j) \<noteq> None \<and> validOutcomes j \<and>
     (Terminal_job (j_State j) \<longrightarrow> j_Completed j \<noteq> None)"

definition jobs_wf :: "'y evidence_db_scheme \<Rightarrow> bool" where
  "jobs_wf d \<longleftrightarrow> distinct (map fst (db_jobs d)) \<and> (\<forall>x j. map_of (db_jobs d) x = Some j \<longrightarrow> job_wf x j) \<and>
     length (db_jobs d) \<le> MaxJobs"

definition job_le :: "Job \<Rightarrow> Job \<Rightarrow> bool" where
  "job_le j k \<longleftrightarrow> j_ID k = j_ID j \<and> j_Handler k = j_Handler j \<and> j_Owner k = j_Owner j \<and>
     j_Transaction k = j_Transaction j \<and> dec_val (j_Sequence j) \<le> dec_val (j_Sequence k) \<and>
     (dec_val (j_Sequence j) = dec_val (j_Sequence k) \<or> Terminal_job (j_State j) \<longrightarrow> k = j)"

definition evidence_le :: "'y evidence_db_scheme \<Rightarrow> 'y evidence_db_scheme \<Rightarrow> bool" where
  "evidence_le d e \<longleftrightarrow> (\<exists>rs. db_records e = db_records d @ rs) \<and>
     (\<forall>x j. map_of (db_jobs d) x = Some j \<longrightarrow> (\<exists>k. map_of (db_jobs e) x = Some k \<and> job_le j k))"

lemma job_le_refl [simp]: "job_le j j"
  by (simp add: job_le_def)

lemma job_le_trans: "job_le i j \<Longrightarrow> job_le j k \<Longrightarrow> job_le i k"
  unfolding job_le_def by (metis le_antisym le_trans)

interpretation evidence: store_order evidence_le
proof
  show "evidence_le d d" for d :: "'y evidence_db_scheme" by (simp add: evidence_le_def)
  show "evidence_le d f" if "evidence_le d e" "evidence_le e f" for d e f :: "'y evidence_db_scheme"
    using that unfolding evidence_le_def by (metis append_assoc job_le_trans)
qed

lemma dec_val_FormatInt [simp]: "0 \<le> n \<Longrightarrow> dec_val (FormatInt n) = nat n"
  by (simp add: FormatInt_def)

lemma count_rows_limit:
  "record_valid r \<Longrightarrow> n < record_limit r \<Longrightarrow> n < (if ev_Collection r = ''audit'' then MaxAudit else MaxEvents)"
  by (auto simp: record_limit_def Let_def split: if_splits)

lemma Append_records_wf:
  assumes "Append a r d = Inr (x, d')" and "records_wf d"
  shows "records_wf d'" and "\<exists>rs. db_records d' = db_records d @ rs"
proof -
  define q where "q = fill_record a r"
  consider "d' = d"
    | (new) "record_valid q" "count_rows (\<lambda>p. ev_Collection p = ev_Collection q) (db_records d) < record_limit q"
        "map_of (db_records d) (ev_ID q) = None"
        "db_records d' = db_records d @ [(ev_ID q, q\<lparr>ev_Sequence := FormatInt (db_last_sequence d + 1)\<rparr>)]"
        "db_last_sequence d' = db_last_sequence d + 1"
    using Append_Inr [OF assms(1)] unfolding q_def [symmetric] Let_def by (elim disjE conjE)
  then show "records_wf d'"
  proof cases
    case new
    have collection: "ev_Collection q = ''event'' \<or> ev_Collection q = ''audit''"
      using new(1) by (simp add: record_valid_def)
    have keys: "distinct (map fst (db_records d'))"
      using assms(2) new(3,4) by (auto simp: records_wf_def map_of_eq_None_iff)
    have "int (dec_val (ev_Sequence p)) < db_last_sequence d + 1" if "(k, p) \<in> set (db_records d)" for k p
      using assms(2) that unfolding records_wf_def by fastforce
    then have old: "dec_val (ev_Sequence p) < nat (db_last_sequence d + 1)" if "(k, p) \<in> set (db_records d)" for k p
      using that by (simp add: zless_nat_eq_int_zless)
    have sorted: "sorted_wrt (<) (map (\<lambda>(k, r). dec_val (ev_Sequence r)) (db_records d'))"
      using assms(2) new(4) old by (auto simp: records_wf_def sorted_wrt_append)
    have members: "\<forall>(k, r) \<in> set (db_records d'). k = ev_ID r \<and> int (dec_val (ev_Sequence r)) \<le> db_last_sequence d'"
      using assms(2) new(4,5) by (fastforce simp: records_wf_def)
    have cap: "count_rows (\<lambda>r. ev_Collection r = c) (db_records d') \<le> (if c = ''audit'' then MaxAudit else MaxEvents)"
      if "c = ''event'' \<or> c = ''audit''" for c
      using assms(2) new(4) that collection count_rows_limit [OF new(1,2)]
      by (auto simp: records_wf_def split: if_splits)
    show ?thesis
      using cap [of "''event''"] cap [of "''audit''"] keys sorted members assms(2) new(5)
      unfolding records_wf_def by simp
  qed (use assms(2) in simp)
  from Append_Inr [OF assms(1)] show "\<exists>rs. db_records d' = db_records d @ rs"
    by (auto simp: Let_def)
qed

lemma Append_jobs_wf: "Append a r d = Inr (x, d') \<Longrightarrow> jobs_wf d' = jobs_wf d"
  by (simp add: jobs_wf_def Append_frame)

lemma Append_le: "Append a r d = Inr (x, d') \<Longrightarrow> records_wf d \<Longrightarrow> evidence_le d d'"
  by (simp add: evidence_le_def Append_frame Append_records_wf(2))

lemma records_wf_cong:
  "db_records d' = db_records d \<Longrightarrow> db_last_sequence d' = db_last_sequence d \<Longrightarrow> records_wf d' = records_wf d"
  by (simp add: records_wf_def)

lemma jobs_wf_ids: "jobs_wf d \<Longrightarrow> \<forall>y j. map_of (db_jobs d) y = Some j \<longrightarrow> j_ID j = y"
  by (simp add: jobs_wf_def job_wf_def)

lemma ChangeJob_keeps:
  assumes "ChangeJob a x expected t now d = Inr (k, d')" and "jobs_wf d" and "records_wf d"
  shows "jobs_wf d'" and "records_wf d'" and "evidence_le d d'"
proof -
  obtain j y where j: "map_of (db_jobs d) x = Some j" "\<not> Terminal_job (j_State j)" "j_ID k = x"
      "j_Handler k = j_Handler j" "j_Transaction k = j_Transaction j" "j_Owner k = j_Owner j" "validOutcomes k"
      "Terminal_job (j_State k) \<Longrightarrow> j_Completed k = Some now"
      "dec_val (j_Sequence k) = dec_val (j_Sequence j) + 1" "ParseUint 64 (j_Sequence k) \<noteq> None"
      "db_jobs d' = update_row x k (db_jobs d)"
    and app: "Append a (job_event ''job-state-changed'' True now k) (settle_receipts k now
       (d\<lparr>db_revision := db_revision d + 1, db_jobs := update_row x k (db_jobs d)\<rparr>)) = Inr (y, d')"
    using ChangeJob_Inr [OF assms(1) jobs_wf_ids [OF assms(2)]] by metis
  let ?d1 = "settle_receipts k now (d\<lparr>db_revision := db_revision d + 1, db_jobs := update_row x k (db_jobs d)\<rparr>)"
  have rec: "records_wf ?d1" using assms(3) by (simp add: records_wf_def)
  show "records_wf d'" by (rule Append_records_wf(1) [OF app rec])
  have "job_wf x k" using j(3,7,8,10) by (auto simp: job_wf_def)
  then show "jobs_wf d'" using assms(2) j(11) by (simp add: jobs_wf_def map_of_update_row)
  have "job_le j k" using j(2,3,4,5,6,9) j(1) assms(2) by (auto simp: job_le_def jobs_wf_def job_wf_def)
  then show "evidence_le d d'"
    using Append_records_wf(2) [OF app rec] j(1,11) by (auto simp: evidence_le_def map_of_update_row)
qed

lemma CreateJob_keeps:
  assumes "CreateJob a j0 d = Inr (k, d')" and "jobs_wf d" and "records_wf d"
  shows "jobs_wf d'" and "records_wf d'" and "evidence_le d d'"
proof -
  obtain y where k: "job_room k (db_jobs d)" "validOutcomes k" "map_of (db_jobs d) (j_ID k) = None"
      "db_jobs d' = db_jobs d @ [(j_ID k, k)]" "ParseUint 64 (j_Sequence k) \<noteq> None"
      "Terminal_job (j_State k) \<Longrightarrow> j_Completed k \<noteq> None"
    and app: "Append (later 2 a) (job_event ''job-created'' (ControlOperation (j_Operation k)) (j_Created k) k)
       (d\<lparr>db_jobs := db_jobs d @ [(j_ID k, k)], db_revision := db_revision d + 1\<rparr>) = Inr (y, d')"
    using CreateJob_Inr [OF assms(1)] by metis
  have rec: "records_wf (d\<lparr>db_jobs := db_jobs d @ [(j_ID k, k)], db_revision := db_revision d + 1\<rparr>)"
    using assms(3) by (simp add: records_wf_def)
  show "records_wf d'" by (rule Append_records_wf(1) [OF app rec])
  have "job_wf (j_ID k) k" using k(2,5,6) by (simp add: job_wf_def)
  moreover have "length (db_jobs d) < MaxJobs" using k(1) by (auto simp: job_room_def)
  ultimately show "jobs_wf d'"
    using assms(2) k(3,4) by (auto simp: jobs_wf_def map_of_snoc map_of_eq_None_iff split: option.splits if_splits)
  show "evidence_le d d'"
    using Append_records_wf(2) [OF app rec] k(3,4) by (auto simp: evidence_le_def map_of_snoc split: option.splits)
qed

text \<open>Any sequence of evidence writes, by whatever callers, under whatever fates.\<close>

inductive evidence_step :: "'y evidence_db_scheme \<Rightarrow> 'y evidence_db_scheme \<Rightarrow> bool" where
  append: "evidence_step d (snd (store_write f (Append (a :: evidence_ambient) r) d))"
| create: "evidence_step d (snd (store_write f (CreateJob (a :: evidence_ambient) j) d))"
| change: "evidence_step d (snd (store_write f (ChangeJob (a :: evidence_ambient) x expected t now) d))"

lemma write_keeps:
  assumes "P d" and "\<And>x d'. tx d = Inr (x, d') \<Longrightarrow> P d'"
  shows "P (snd (store_write f tx d))"
  using assms by (cases rule: store_write_cases [of f tx d]) auto

lemma evidence_step_keeps:
  assumes "evidence_step d d'" and "jobs_wf d" and "records_wf d"
  shows "jobs_wf d' \<and> records_wf d' \<and> evidence_le d d'"
  using assms(1)
proof cases
  case (append f a r)
  show ?thesis unfolding append
    by (rule write_keeps [where P = "\<lambda>e. jobs_wf e \<and> records_wf e \<and> evidence_le d e"])
      (use assms in \<open>auto simp: Append_jobs_wf Append_records_wf Append_le evidence.le_refl\<close>)
next
  case (create f a j)
  show ?thesis unfolding create
    by (rule write_keeps [where P = "\<lambda>e. jobs_wf e \<and> records_wf e \<and> evidence_le d e"])
      (use assms in \<open>auto simp: CreateJob_keeps evidence.le_refl\<close>)
next
  case (change f a x expected t now)
  show ?thesis unfolding change
    by (rule write_keeps [where P = "\<lambda>e. jobs_wf e \<and> records_wf e \<and> evidence_le d e"])
      (use assms in \<open>auto simp: ChangeJob_keeps evidence.le_refl\<close>)
qed

lemma evidence_runs_keep:
  assumes "evidence_step\<^sup>*\<^sup>* d d'" and "jobs_wf d" and "records_wf d"
  shows "jobs_wf d' \<and> records_wf d' \<and> evidence_le d d'"
  using assms
proof (induction rule: rtranclp_induct)
  case base
  then show ?case by (simp add: evidence.le_refl)
next
  case (step e f)
  then show ?case using evidence_step_keeps evidence.le_trans by blast
qed


text \<open>A job never leaves a terminal state: along any run of evidence writes a job keeps its
  identity, owner, transaction and handler, its revision never decreases, an unchanged revision means
  an unchanged document, and a terminal job keeps its document for ever.\<close>

theorem terminal_job_is_final:
  assumes "evidence_step\<^sup>*\<^sup>* d d'" and "jobs_wf d" and "records_wf d" and "map_of (db_jobs d) x = Some j"
  shows "\<exists>k. map_of (db_jobs d') x = Some k \<and> job_le j k \<and> (Terminal_job (j_State j) \<longrightarrow> k = j)"
  using evidence_runs_keep [OF assms(1-3)] assms(4) by (auto simp: evidence_le_def job_le_def)

section \<open>Sample tables\<close>

definition sample_source :: evidence_ambient where
  "sample_source = \<lparr>am_host = \<lparr>h_Digest = (\<lambda>_. ''digest''), h_random = (\<lambda>n. replicate 15 0 @ [of_nat n]),
     h_view_bytes = (\<lambda>_. 0), h_envelope_bytes = (\<lambda>_. 0)\<rparr>, am_now = (\<lambda>_. 1), am_request = no_request,
     am_job_bytes = (\<lambda>_. 100), am_record_bytes = (\<lambda>_. 100)\<rparr>"

definition sample_job :: Job where
  "sample_job = \<lparr>j_RelatedObjects = [], j_ID = ''00000000-0000-4000-8000-0000000000aa'', j_Sequence = ''2'',
     j_State = ''succeeded'', j_Operation = ''createTransaction'', j_Owner = ''00000000-0000-4000-8000-0000000000bb'',
     j_Capability = ''configuration.apply'', j_Resource = None,
     j_Correlation = ''00000000-0000-4000-8000-0000000000cc'', j_RequestID = '''', j_RequestDomain = '''',
     j_RequestEpoch = '''', j_Credential = '''', j_ChangeSet = '''', j_Transaction = '''', j_Cancellable = False,
     j_CancelRequested = False, j_Dispatch = ''completed'', j_Business = ''success'', j_Commit = ''committed'',
     j_Applied = ''applied'', j_Confirmation = ''confirmed'', j_Reason = ''done'', j_Handler = ''field-execution'',
     j_Created = 1, j_Updated = 2, j_Completed = Some 2\<rparr>"

definition sample_tables :: evidence_db where
  "sample_tables = \<lparr>db_revision = 1, db_jobs = [(j_ID sample_job, sample_job)], db_records = [], db_last_sequence = 0,
     db_objects = [], db_receipts = []\<rparr>"

lemma sample_tables_wf: "jobs_wf sample_tables" "records_wf sample_tables"
  by (simp_all add: sample_tables_def jobs_wf_def job_wf_def records_wf_def sample_job_def validOutcomes_def
      code_text_def alnum_def less_eq_char_def ParseUint_def is_digit_def dec_val_def digit_val_def evidence_limits
      count_rows_def Terminal_job_def)

definition sample_run :: evidence_db where
  "sample_run = snd (store_write Done (Append sample_source (job_event ''job-created'' True 1 sample_job)) sample_tables)"

lemma sample_run_steps: "evidence_step\<^sup>*\<^sup>* sample_tables sample_run"
  unfolding sample_run_def by (rule r_into_rtranclp, rule evidence_step.append)


theorem terminal_job_is_final_witness:
  "Terminal_job (j_State sample_job) \<and> map_of (db_jobs sample_run) (j_ID sample_job) = Some sample_job"
proof -
  have row: "map_of (db_jobs sample_tables) (j_ID sample_job) = Some sample_job" by (simp add: sample_tables_def)
  have ended: "Terminal_job (j_State sample_job)" by (simp add: sample_job_def Terminal_job_def)
  from terminal_job_is_final [OF sample_run_steps sample_tables_wf row] ended show ?thesis by auto
qed

end
