(* ===== verification/Requests.thy ===== *)
theory Requests
  imports Evidence Complex_Main
begin

text \<open>
  Durable API idempotency (\<^verbatim>\<open>internal/repository/requests/requests.go\<close>): canonical payloads and
  fingerprints, the replay of a stored receipt, and the admission of a mutation together with its
  receipt in one writer transaction. The payload is the decoded JSON value (\<open>None\<close> for bytes that are
  not JSON) with its length; the two digests are the host's.
\<close>

section \<open>Data\<close>

definition MaxReceipts :: nat where "MaxReceipts = 100000"

record Api_Command =
  ac_Principal :: string
  ac_Epoch :: string
  ac_Domain :: string
  ac_ID :: string
  ac_Operation :: string
  ac_Method :: string
  ac_URI :: string
  ac_Precondition :: string
  ac_Credential :: string
  ac_Capability :: string
  ac_Payload :: "any option"
  ac_PayloadBytes :: nat
  ac_Sensitive :: bool
  ac_FingerprintKey :: "8 word list"
  ac_SecretResponse :: bool

record Mutation =
  mn_Status :: nat
  mn_Body :: "any option"
  mn_BodyBytes :: nat
  mn_Resource :: "Ref option"
  mn_Job :: "Ref option"
  mn_Terminal :: bool
  mn_SecretResponse :: bool

record Result =
  rs_Status :: nat
  rs_Body :: any
  rs_Receipt :: Receipt
  rs_Replayed :: bool

record requests_db = evidence_db +
  db_epoch :: string
  db_high_watermark :: int

record requests_ambient = evidence_ambient +
  am_hmac :: "8 word list \<Rightarrow> any \<Rightarrow> string"

section \<open>Canonical payloads\<close>

text \<open>\<open>strings.IndexAny\<close> and the slices around it: the text before the first character of the set,
  and the text after it if there is one.\<close>

definition cut_at :: "string \<Rightarrow> string \<Rightarrow> string \<times> string option" where
  "cut_at cs s = (case dropWhile (\<lambda>c. c \<notin> set cs) s of
     [] \<Rightarrow> (s, None) | _ # r \<Rightarrow> (takeWhile (\<lambda>c. c \<notin> set cs) s, Some r))"

definition TrimLeft0 :: "string \<Rightarrow> string" where
  "TrimLeft0 s = dropWhile (\<lambda>c. c = CHR ''0'') s"

definition TrimRight0 :: "string \<Rightarrow> string" where
  "TrimRight0 s = rev (dropWhile (\<lambda>c. c = CHR ''0'') (rev s))"

definition trim_sign :: "string \<Rightarrow> bool \<times> string" where
  "trim_sign s = (case s of c # r \<Rightarrow> (if c = CHR ''-'' then (True, r) else (False, s)) | [] \<Rightarrow> (False, s))"

text \<open>The number case of \<open>canonicalValue\<close>.\<close>

definition canonical_digits :: "bool \<Rightarrow> string \<Rightarrow> int \<Rightarrow> string" where
  "canonical_digits negative digits exponent =
     (let text = TrimLeft0 digits in
      if text = '''' then ''0e'' @ FormatInt 0
      else let trimmed = TrimRight0 text;
               exponent = exponent + int (length text) - int (length trimmed)
           in (if negative then ''-'' else '''') @ trimmed @ ''e'' @ FormatInt exponent)"

definition canonical_number :: "string \<Rightarrow> string option" where
  "canonical_number s =
     (let (negative, text) = trim_sign s; (text, tail) = cut_at ''eE'' text in
      case (case tail of None \<Rightarrow> Some 0 | Some x \<Rightarrow> ParseInt 32 x) of
        None \<Rightarrow> None
      | Some exponent \<Rightarrow>
          (let (whole, fraction) = cut_at ''.'' text in
           Some (case fraction of
                   None \<Rightarrow> canonical_digits negative text exponent
                 | Some f \<Rightarrow> canonical_digits negative (whole @ f) (exponent - int (length f)))))"

fun canonicalValue :: "any \<Rightarrow> any option" where
  "canonicalValue (GNum s) = map_option (\<lambda>t. GArr [GStr ''number'', GStr t]) (canonical_number s)"
| "canonicalValue (GObj kvs) =
     map_option (\<lambda>vs. GArr [GStr ''object'', GObj (zip (map fst kvs) vs)])
       (those (map (\<lambda>(k, v). canonicalValue v) kvs))"
| "canonicalValue (GArr vs) = map_option (\<lambda>vs. GArr [GStr ''array'', GArr vs]) (those (map canonicalValue vs))"
| "canonicalValue (GStr s) = Some (GArr [GStr ''string'', GStr s])"
| "canonicalValue (GBool b) = Some (GArr [GStr ''boolean'', GBool b])"
| "canonicalValue GNil = Some (GArr [GStr ''null''])"

definition fingerprint :: "'z requests_ambient_scheme \<Rightarrow> Api_Command \<Rightarrow> string outcome" where
  "fingerprint a c =
     (case ac_Payload c of
        None \<Rightarrow> failed 422 ''INVALID_REQUEST''
      | Some p \<Rightarrow>
          (case canonicalValue p of
             None \<Rightarrow> failed 422 ''INVALID_REQUEST''
           | Some payload \<Rightarrow>
               let v = GArr [GStr (ac_Operation c), GStr (ac_Method c), GStr (ac_URI c), GStr (ac_Precondition c), payload] in
               if ac_Sensitive c
               then (if length (ac_FingerprintKey c) < 32 then failed 503 ''SECRETSTORE_UNAVAILABLE''
                     else Inr (''hmac-sha256:'' @ am_hmac a (ac_FingerprintKey c) v))
               else Inr (''sha256:'' @ h_Digest (am_host a) v)))"

section \<open>Receipts\<close>

definition ref_json :: "Ref option \<Rightarrow> any" where
  "ref_json r = (case r of None \<Rightarrow> GNil | Some r \<Rightarrow> GObj [(''kind'', GStr (ref_Kind r)), (''id'', GStr (ref_ID r))])"

definition receipt_json :: "Receipt \<Rightarrow> any" where
  "receipt_json r = GObj [(''request_id'', GStr (rc_RequestID r)), (''request_domain'', GStr (rc_Domain r)),
     (''request_epoch'', GStr (rc_Epoch r)), (''state'', GStr (rc_State r)), (''command_effect'', GStr (rc_Effect r)),
     (''resource_ref'', ref_json (rc_Resource r)), (''job_ref'', ref_json (rc_Job r)),
     (''correlation_id'', GStr (rc_CorrelationID r))]"

definition accepted_json :: "Api_Command \<Rightarrow> Mutation \<Rightarrow> string \<Rightarrow> any" where
  "accepted_json c m correlation = GObj [(''request_id'', GStr (ac_ID c)), (''request_domain'', GStr (ac_Domain c)),
     (''request_epoch'', GStr (ac_Epoch c)), (''job_id'', GStr (case mn_Job m of None \<Rightarrow> '''' | Some r \<Rightarrow> ref_ID r)),
     (''resource_ref'', ref_json (mn_Resource m)), (''correlation_id'', GStr correlation)]"

definition receipt_key :: "Api_Command \<Rightarrow> receipt_row \<Rightarrow> bool" where
  "receipt_key c v \<longleftrightarrow> ar_principal v = ac_Principal c \<and> ar_epoch v = ac_Epoch c \<and> ar_domain v = ac_Domain c \<and>
     ar_request v = ac_ID c"

definition find_receipt :: "Api_Command \<Rightarrow> 'y evidence_db_scheme \<Rightarrow> receipt_row option" where
  "find_receipt c d = find (receipt_key c) (db_receipts d)"

definition replay_row :: "string \<Rightarrow> receipt_row \<Rightarrow> Result outcome" where
  "replay_row digest v =
     (if ar_fingerprint v \<noteq> digest then failed 409 ''IDEMPOTENCY_MISMATCH''
      else Inr \<lparr>rs_Status = ar_status v, rs_Body = ar_response v, rs_Receipt = ar_receipt v, rs_Replayed = True\<rparr>)"

text \<open>\<open>Replay\<close>: \<open>None\<close> stands for \<open>found == false\<close>.\<close>

definition Replay ::
    "'z requests_ambient_scheme \<Rightarrow> Api_Command \<Rightarrow> unit outcome \<Rightarrow> 'y evidence_db_scheme \<Rightarrow> Result option outcome" where
  "Replay a c authorized d =
     then_do authorized (\<lambda>_. then_do (fingerprint a c) (\<lambda>digest.
       case find_receipt c d of
         None \<Rightarrow> Inr None
       | Some v \<Rightarrow> then_do (replay_row digest v) (\<lambda>r. Inr (Some r))))"

definition ValidDocument :: "any option \<Rightarrow> nat \<Rightarrow> bool" where
  "ValidDocument doc bytes \<longleftrightarrow> 0 < bytes \<and> bytes \<le> 2 ^ 20 \<and> doc \<noteq> None"

definition response_ok :: "string \<Rightarrow> Mutation \<Rightarrow> 'y evidence_db_scheme \<Rightarrow> unit outcome" where
  "response_ok domain m d =
     (if mn_Status m < 200 \<or> 299 < mn_Status m \<or> mn_Status m = 204 \<or> mn_Body m = None \<or> 65536 < mn_BodyBytes m
      then failed 500 ''INVALID_SERVICE_RESPONSE''
      else if mn_Status m \<noteq> 202 then Inr ()
      else case (mn_Job m, mn_Resource m) of
             (Some j, Some r) \<Rightarrow>
               if ref_Kind j \<noteq> ''job'' \<or> \<not> ManagementID (ref_ID j) \<or> \<not> ManagementID (ref_ID r) \<or> domain \<noteq> ''management''
               then failed 500 ''INVALID_SERVICE_RESPONSE''
               else if map_of (db_jobs d) (ref_ID j) = None then failed 500 ''JOB_NOT_DURABLE''
               else Inr ()
           | _ \<Rightarrow> failed 500 ''INVALID_SERVICE_RESPONSE'')"

definition new_receipt :: "Api_Command \<Rightarrow> Mutation \<Rightarrow> string \<Rightarrow> Receipt" where
  "new_receipt c m correlation =
     \<lparr>rc_RequestID = ac_ID c, rc_Domain = ac_Domain c, rc_Epoch = ac_Epoch c,
      rc_State = (if mn_Terminal m then ''completed'' else ''accepted''),
      rc_Effect = (if mn_Resource m \<noteq> None then ''linked-resource'' else ''unknown''), rc_Resource = mn_Resource m,
      rc_Job = mn_Job m, rc_CorrelationID = correlation\<rparr>"

definition body_of :: "Api_Command \<Rightarrow> Mutation \<Rightarrow> string \<Rightarrow> any" where
  "body_of c m correlation =
     (if mn_Status m = 202 then accepted_json c m correlation
      else case mn_Body m of None \<Rightarrow> GNil | Some b \<Rightarrow> b)"

definition new_row :: "Api_Command \<Rightarrow> string \<Rightarrow> moment \<Rightarrow> Mutation \<Rightarrow> string \<Rightarrow> receipt_row" where
  "new_row c digest now m correlation =
     (let secret = ac_SecretResponse c \<or> mn_SecretResponse m; receipt = new_receipt c m correlation in
      \<lparr>ar_principal = ac_Principal c, ar_epoch = ac_Epoch c, ar_domain = ac_Domain c, ar_request = ac_ID c,
       ar_fingerprint = digest, ar_initial_status = mn_Status m, ar_status = (if secret then 200 else mn_Status m),
       ar_response = (if secret then receipt_json receipt else body_of c m correlation), ar_receipt = receipt,
       ar_created = UnixMilli now, ar_completed = (if mn_Terminal m then Some (UnixMilli now) else None),
       ar_operation = ac_Operation c\<rparr>)"

text \<open>The window of a request key: at most five minutes old and two minutes ahead of the clock.\<close>

definition key_expired :: "moment \<Rightarrow> int \<Rightarrow> bool" where
  "key_expired now ms \<longleftrightarrow>
     (let key = (ms + 62135596800000) * 1000000 in seconds 300 < now - key \<or> seconds 120 < key - now)"

definition admit_guard :: "string \<Rightarrow> Api_Command \<Rightarrow> int \<Rightarrow> moment \<Rightarrow> 'y requests_db_scheme \<Rightarrow> unit outcome" where
  "admit_guard domain c key now d =
     (if db_epoch d \<noteq> ac_Epoch c then failed 410 ''REQUEST_EPOCH_CHANGED''
      else if UnixMilli now + 120000 < db_high_watermark d then failed 503 ''CLOCK_UNSAFE''
      else if key_expired now key then failed 410 ''REQUEST_KEY_EXPIRED''
      else if MaxReceipts - (if domain = ''management'' \<and> \<not> ControlOperation (ac_Operation c) then ReservedControlRecords else 0)
              \<le> length (db_receipts d)
      then failed 429 ''RESOURCE_BUDGET_EXCEEDED''
      else Inr ())"

definition with_command :: "string \<Rightarrow> Api_Command \<Rightarrow> string \<Rightarrow> 'z requests_ambient_scheme \<Rightarrow> 'z requests_ambient_scheme" where
  "with_command domain c correlation a =
     (if domain = ''management''
      then WithRequest \<lparr>rq_Principal = ac_Principal c, rq_Credential = ac_Credential c, rq_Capability = ac_Capability c,
             rq_Operation = ac_Operation c, rq_Domain = ac_Domain c, rq_Epoch = ac_Epoch c, rq_ID = ac_ID c,
             rq_Correlation = correlation\<rparr> a
      else a)"

definition record_receipt ::
    "Api_Command \<Rightarrow> string \<Rightarrow> moment \<Rightarrow> Mutation \<Rightarrow> string \<Rightarrow> 'y requests_db_scheme \<Rightarrow> (Result \<times> 'y requests_db_scheme) outcome" where
  "record_receipt c digest now m correlation d =
     (if find_receipt c d \<noteq> None then Inl ErrConflict
      else Inr (\<lparr>rs_Status = mn_Status m, rs_Body = body_of c m correlation,
                 rs_Receipt = new_receipt c m correlation, rs_Replayed = False\<rparr>,
        d\<lparr>db_receipts := db_receipts d @ [new_row c digest now m correlation],
          db_high_watermark := max (db_high_watermark d) (UnixMilli now)\<rparr>))"

definition execute_tx ::
    "'z requests_ambient_scheme \<Rightarrow> string \<Rightarrow> Api_Command \<Rightarrow> string \<Rightarrow> int \<Rightarrow> ('y requests_db_scheme \<Rightarrow> unit outcome) \<Rightarrow>
     ('z requests_ambient_scheme \<Rightarrow> 'y requests_db_scheme \<Rightarrow> (Mutation \<times> 'y requests_db_scheme) outcome) \<Rightarrow>
     'y requests_db_scheme \<Rightarrow> (Result \<times> 'y requests_db_scheme) outcome" where
  "execute_tx a domain c digest key reauthorize mutate d =
     then_do (reauthorize d) (\<lambda>_.
     case find_receipt c d of
       Some v \<Rightarrow> then_do (replay_row digest v) (\<lambda>r. Inr (r, d))
     | None \<Rightarrow>
         then_do (admit_guard domain c key (am_now a 0) d) (\<lambda>_.
         let correlation = new_id a 0 in
         then_do (mutate (with_command domain c correlation (later 1 a)) d) (\<lambda>(m, d).
         then_do (response_ok domain m d) (\<lambda>_.
         record_receipt c digest (am_now a 0) m correlation d))))"

definition Execute ::
    "fate \<Rightarrow> 'z requests_ambient_scheme \<Rightarrow> string \<Rightarrow> Api_Command \<Rightarrow> unit outcome \<Rightarrow>
     ('y requests_db_scheme \<Rightarrow> unit outcome) \<Rightarrow>
     ('z requests_ambient_scheme \<Rightarrow> 'y requests_db_scheme \<Rightarrow> (Mutation \<times> 'y requests_db_scheme) outcome) \<Rightarrow>
     'y requests_db_scheme \<Rightarrow> Result outcome \<times> 'y requests_db_scheme" where
  "Execute f a domain c authorized reauthorize mutate d =
     (case RequestTime (ac_ID c) of
        None \<Rightarrow> (failed 422 ''INVALID_REQUEST'', d)
      | Some key \<Rightarrow>
          if \<not> ManagementID (ac_Principal c) \<or> \<not> ManagementID (ac_Epoch c) \<or> ac_Domain c \<noteq> domain \<or>
             ac_Operation c = '''' \<or> 4096 < length (ac_URI c) \<or> \<not> ValidDocument (ac_Payload c) (ac_PayloadBytes c)
          then (failed 422 ''INVALID_REQUEST'', d)
          else case authorized of
                 Inl e \<Rightarrow> (Inl e, d)
               | Inr _ \<Rightarrow>
                   (case fingerprint a c of
                      Inl e \<Rightarrow> (Inl e, d)
                    | Inr digest \<Rightarrow> store_write f (execute_tx a domain c digest key reauthorize mutate) d))"

definition Find ::
    "string \<Rightarrow> string \<Rightarrow> string \<Rightarrow> string \<Rightarrow> (string \<Rightarrow> Ref option \<Rightarrow> unit outcome) \<Rightarrow> 'y evidence_db_scheme \<Rightarrow> Receipt outcome" where
  "Find domain owner epoch x authorize d =
     (if \<not> ManagementID owner \<or> \<not> ManagementID epoch \<or> \<not> UUID x then failed 422 ''INVALID_REQUEST''
      else case find (\<lambda>v. ar_principal v = owner \<and> ar_epoch v = epoch \<and> ar_domain v = domain \<and> ar_request v = x)
                  (db_receipts d) of
             None \<Rightarrow> Inl ErrNotFound
           | Some v \<Rightarrow> then_do (authorize (ar_operation v) (rc_Resource (ar_receipt v))) (\<lambda>_. Inr (ar_receipt v)))"

text \<open>\<open>Prune\<close>: at most 256 receipts, oldest completion first, that completed more than thirty days ago
  and (for the manager) whose job and evidence are already gone.\<close>

definition prunable :: "string \<Rightarrow> moment \<Rightarrow> 'y evidence_db_scheme \<Rightarrow> receipt_row \<Rightarrow> bool" where
  "prunable domain now d v \<longleftrightarrow>
     (case ar_completed v of None \<Rightarrow> False | Some t \<Rightarrow> t < UnixMilli (now - seconds (30 * 24 * 3600))) \<and>
     (domain = ''management'' \<longrightarrow>
        list_all (\<lambda>(x, j). map_option ref_ID (rc_Job (ar_receipt v)) \<noteq> Some x) (db_jobs d) \<and>
        list_all (\<lambda>(x, r). ev_RequestID r \<noteq> ar_request v) (db_records d))"

definition prune_tx :: "string \<Rightarrow> moment \<Rightarrow> 'y evidence_db_scheme \<Rightarrow> (unit \<times> 'y evidence_db_scheme) outcome" where
  "prune_tx domain now d =
     (let old = filter (\<lambda>i. prunable domain now d (db_receipts d ! i)) [0..<length (db_receipts d)];
          chosen = take 256 (sort_key (\<lambda>i. the (ar_completed (db_receipts d ! i))) old)
      in Inr ((), d\<lparr>db_receipts := map ((!) (db_receipts d)) (filter (\<lambda>i. i \<notin> set chosen) [0..<length (db_receipts d)])\<rparr>))"

section \<open>Canonical numbers\<close>

text \<open>The value of a JSON number, read independently of \<open>canonicalValue\<close>: sign, digits with an
  optional point, and an optional decimal exponent.\<close>

definition json_number :: "string \<Rightarrow> bool" where
  "json_number s \<longleftrightarrow>
     (let (negative, text) = trim_sign s; (mantissa, tail) = cut_at ''eE'' text; (whole, fraction) = cut_at ''.'' mantissa in
      whole \<noteq> '''' \<and> list_all is_digit whole \<and>
      (case fraction of None \<Rightarrow> True | Some f \<Rightarrow> f \<noteq> '''' \<and> list_all is_digit f) \<and>
      (case tail of None \<Rightarrow> True | Some x \<Rightarrow> ParseInt 32 x \<noteq> None))"

definition ten_power :: "int \<Rightarrow> rat" where
  "ten_power e = power_int 10 e"

definition json_value :: "string \<Rightarrow> rat" where
  "json_value s =
     (let (negative, text) = trim_sign s; (mantissa, tail) = cut_at ''eE'' text; (whole, fraction) = cut_at ''.'' mantissa;
          e = (case tail of None \<Rightarrow> 0 | Some x \<Rightarrow> the (ParseInt 32 x));
          f = (case fraction of None \<Rightarrow> '''' | Some f \<Rightarrow> f)
      in (if negative then -1 else 1) * (of_nat (dec_val (whole @ f)) * ten_power (e - int (length f))))"

lemma dec_val_append: "dec_val (s @ t) = dec_val s * 10 ^ length t + dec_val t"
proof (induction t rule: rev_induct)
  case (snoc c t)
  have "dec_val (s @ t @ [c]) = dec_val (s @ t) * 10 + digit_val c"
    by (metis append_assoc dec_val_snoc)
  then show ?case using snoc by (simp add: algebra_simps)
qed simp

lemma dec_val_Cons_zero [simp]: "dec_val (CHR ''0'' # s) = dec_val s"
  using dec_val_append [of "[CHR ''0'']" s] by (simp add: dec_val_def digit_val_def)

lemma dec_val_zeros [simp]: "dec_val (replicate n (CHR ''0'')) = 0"
  by (induction n) simp_all

lemma dec_val_TrimLeft0 [simp]: "dec_val (TrimLeft0 s) = dec_val s"
  by (induction s) (auto simp: TrimLeft0_def)

lemma TrimRight0_split: "\<exists>n. s = TrimRight0 s @ replicate n (CHR ''0'')"
proof (induction s rule: rev_induct)
  case (snoc c s)
  then obtain n where s: "s = TrimRight0 s @ replicate n (CHR ''0'')" by blast
  show ?case
  proof (cases "c = CHR ''0''")
    case True
    then have "TrimRight0 (s @ [c]) = TrimRight0 s" by (simp add: TrimRight0_def)
    moreover have "s @ [c] = TrimRight0 s @ replicate (Suc n) (CHR ''0'')"
      using s True by (metis append_assoc replicate_Suc replicate_append_same)
    ultimately show ?thesis by metis
  next
    case False
    then have "TrimRight0 (s @ [c]) = s @ [c]" by (simp add: TrimRight0_def)
    then show ?thesis by (intro exI [of _ 0]) simp
  qed
qed (simp add: TrimRight0_def)

lemma digit_zero: "is_digit c \<Longrightarrow> digit_val c = 0 \<Longrightarrow> c = CHR ''0''"
  using digit_char_val [of c] by (simp add: digit_char_numeral)

text \<open>A digit string is normal when it neither starts nor ends with a zero; it is then determined by
  its value, which is not divisible by ten.\<close>

definition normal_digits :: "string \<Rightarrow> bool" where
  "normal_digits t \<longleftrightarrow> t \<noteq> '''' \<and> list_all is_digit t \<and> hd t \<noteq> CHR ''0'' \<and> last t \<noteq> CHR ''0''"

lemma dec_val_bound: "list_all is_digit s \<Longrightarrow> dec_val s < 10 ^ length s"
proof (induction s rule: rev_induct)
  case (snoc c s)
  then show ?case using digit_val_lt [of c] by simp
qed simp

lemma dec_val_lower:
  assumes "list_all is_digit s" and "s \<noteq> []" and "hd s \<noteq> CHR ''0''"
  shows "10 ^ (length s - 1) \<le> dec_val s"
proof -
  obtain c r where s: "s = c # r" using assms(2) by (cases s) auto
  have "digit_val c \<noteq> 0" using assms s digit_zero by auto
  then have "10 ^ length r \<le> digit_val c * 10 ^ length r" by simp
  moreover have "dec_val s = digit_val c * 10 ^ length r + dec_val r"
    using dec_val_append [of "[c]" r] s by (simp add: dec_val_def)
  ultimately have "10 ^ length r \<le> dec_val s" by linarith
  then show ?thesis using s by simp
qed

lemma dec_val_inj:
  assumes "list_all is_digit s" "list_all is_digit t" "length s = length t" "dec_val s = dec_val t"
  shows "s = t"
  using assms
proof (induction s arbitrary: t rule: rev_induct)
  case (snoc c s)
  obtain d u where t: "t = u @ [d]" using snoc.prems(3) by (cases t rule: rev_cases) auto
  have "digit_val c < 10" "digit_val d < 10" using snoc.prems t digit_val_lt by auto
  then have "dec_val s = dec_val u \<and> digit_val c = digit_val d"
    using snoc.prems(4) t by (simp; presburger)
  then have same: "dec_val s = dec_val u" and val: "digit_val c = digit_val d" by simp_all
  have dig: "is_digit c" "is_digit d" "list_all is_digit s" "list_all is_digit u" using snoc.prems(1,2) t by simp_all
  have "c = d" by (rule box_equals [OF arg_cong [OF val, of digit_char] digit_char_val [OF dig(1)] digit_char_val [OF dig(2)]])
  moreover have "s = u" using snoc.IH [OF dig(3,4) _ same] snoc.prems(3) t by simp
  ultimately show ?case using t by simp
qed simp

lemma normal_digits_inj:
  assumes "normal_digits s" "normal_digits t" "dec_val s = dec_val t"
  shows "s = t"
proof -
  have len: "length u \<le> length v" if "normal_digits u" "normal_digits v" "dec_val u = dec_val v" for u v
  proof (rule ccontr)
    assume "\<not> length u \<le> length v"
    then have "(10::nat) ^ length v \<le> 10 ^ (length u - 1)" by (intro power_increasing) auto
    moreover have "10 ^ (length u - 1) \<le> dec_val u" "dec_val v < 10 ^ length v"
      using dec_val_lower [of u] dec_val_bound [of v] that by (simp_all add: normal_digits_def)
    ultimately show False using that(3) by linarith
  qed
  then have "length s = length t" using assms by (metis le_antisym)
  then show ?thesis using dec_val_inj assms by (auto simp: normal_digits_def)
qed

lemma normal_digits_mod10:
  assumes "normal_digits t"
  shows "\<not> 10 dvd dec_val t"
proof -
  obtain s c where t: "t = s @ [c]" using assms by (metis normal_digits_def append_butlast_last_id)
  have "is_digit c" "c \<noteq> CHR ''0''" using assms t by (auto simp: normal_digits_def)
  then have "0 < digit_val c" "digit_val c < 10" using digit_zero digit_val_lt by auto
  then show ?thesis unfolding t dec_val_snoc by presburger
qed

lemma power10_unique:
  fixes n m :: nat
  assumes "\<not> 10 dvd n" and "\<not> 10 dvd m" and "of_nat n * ten_power e = of_nat m * ten_power f"
  shows "n = m \<and> e = f"
proof -
  have half: "n = m \<and> e = f"
    if "\<not> 10 dvd n" "\<not> 10 dvd m" "of_nat n * ten_power e = of_nat m * ten_power f" "e \<le> f" for n m :: nat and e f
  proof -
    have "ten_power f = ten_power e * 10 ^ nat (f - e)"
      using that(4) by (simp add: ten_power_def power_int_add [symmetric] flip: power_int_of_nat)
    moreover have "ten_power e \<noteq> 0" by (simp add: ten_power_def)
    ultimately have "(of_nat n :: rat) = of_nat (m * 10 ^ nat (f - e))" using that(3) by simp
    then have n: "n = m * 10 ^ nat (f - e)" by (simp only: of_nat_eq_iff)
    show ?thesis
    proof (cases "nat (f - e)")
      case 0
      then show ?thesis using n that(4) by simp
    next
      case (Suc k)
      then have "10 dvd n" using n by simp
      then show ?thesis using that(1) by simp
    qed
  qed
  show ?thesis using half [of n m e f] half [of m n f e] assms by (metis linear)
qed

text \<open>The normal form of a digit string at an exponent, and the text printed for it.\<close>

lemma canonical_digits_cases:
  assumes "list_all is_digit ds"
  obtains (zero) "dec_val ds = 0" "canonical_digits neg ds e = ''0e'' @ FormatInt 0"
  | (normal) t f where "normal_digits t" "of_nat (dec_val ds) * ten_power e = of_nat (dec_val t) * ten_power f"
      "canonical_digits neg ds e = (if neg then ''-'' else '''') @ t @ ''e'' @ FormatInt f"
proof -
  define u where "u = TrimLeft0 ds"
  have digits: "list_all is_digit u"
    using assms unfolding u_def TrimLeft0_def by (auto simp: list_all_iff dest: set_dropWhileD)
  have val: "dec_val u = dec_val ds" by (simp add: u_def)
  show ?thesis
  proof (cases "u = ''''")
    case True
    then show ?thesis using val by (intro zero) (auto simp: canonical_digits_def u_def [symmetric])
  next
    case False
    obtain n where split: "u = TrimRight0 u @ replicate n (CHR ''0'')" using TrimRight0_split by blast
    define t where "t = TrimRight0 u"
    have hd0: "hd u \<noteq> CHR ''0''" using hd_dropWhile [OF False [unfolded u_def TrimLeft0_def]] unfolding u_def TrimLeft0_def .
    have t0: "t \<noteq> ''''"
    proof
      assume "t = ''''"
      then have "u = replicate n (CHR ''0'')" using split t_def by simp
      then show False using hd0 False by (cases n) auto
    qed
    have "normal_digits t"
    proof -
      have "list_all is_digit t" using digits split t_def by (metis list_all_append)
      moreover have "hd t = hd u" using split t0 t_def by (metis hd_append2)
      moreover have "last t \<noteq> CHR ''0''"
      proof -
        have "dropWhile (\<lambda>c. c = CHR ''0'') (rev u) \<noteq> []" using t0 unfolding t_def TrimRight0_def by simp
        then have "hd (dropWhile (\<lambda>c. c = CHR ''0'') (rev u)) \<noteq> CHR ''0''" by (rule hd_dropWhile)
        then show ?thesis using t0 unfolding t_def TrimRight0_def by (simp add: last_rev)
      qed
      ultimately show ?thesis using hd0 t0 by (simp add: normal_digits_def)
    qed
    moreover have "length u = length t + n" using split t_def by (metis length_append length_replicate)
    moreover have "dec_val u = dec_val t * 10 ^ n"
      using split t_def dec_val_append [of t "replicate n (CHR ''0'')"] by simp
    then have "(of_nat (dec_val ds) :: rat) = of_nat (dec_val t) * 10 ^ n" using val by simp
    then have "of_nat (dec_val ds) * ten_power e = of_nat (dec_val t) * ten_power (e + int n)"
      by (simp add: ten_power_def power_int_add)
    ultimately show ?thesis
      using False t_def u_def by (intro normal [of t "e + int n"]) (auto simp: canonical_digits_def Let_def)
  qed
qed

lemma FormatInt_inject: "FormatInt m = FormatInt n \<longleftrightarrow> m = n"
proof -
  have no_minus: "FormatUint k \<noteq> CHR ''-'' # s" for k s using FormatUint_hd [of k] by auto
  show ?thesis by (auto simp: FormatInt_def FormatUint_inject no_minus no_minus [symmetric])
qed

lemma digits_no_e: "list_all is_digit t \<Longrightarrow> CHR ''e'' \<notin> set t"
  by (auto simp: list_all_iff is_digit_def less_eq_char_def)

lemma digits_e_inject:
  assumes "list_all is_digit s" "list_all is_digit t" "s @ ''e'' @ x = t @ ''e'' @ y"
  shows "s = t \<and> x = y"
  using assms(3) digits_no_e [OF assms(1)] digits_no_e [OF assms(2)]
  by (auto simp: append_eq_append_conv2 append_eq_Cons_conv Cons_eq_append_conv)

lemma number_parts:
  assumes "json_number s"
  obtains neg ds e where "list_all is_digit ds" and "canonical_number s = Some (canonical_digits neg ds e)"
    and "json_value s = (if neg then -1 else 1) * (of_nat (dec_val ds) * ten_power e)"
proof -
  obtain neg body where sign: "trim_sign s = (neg, body)" by (cases "trim_sign s")
  obtain mantissa tail where cut: "cut_at ''eE'' body = (mantissa, tail)" by (cases "cut_at ''eE'' body")
  obtain whole fraction where point: "cut_at ''.'' mantissa = (whole, fraction)" by (cases "cut_at ''.'' mantissa")
  have whole: "fraction = None \<Longrightarrow> whole = mantissa"
    using point by (auto simp: cut_at_def split: list.splits)
  note split = sign cut point
  obtain e where e: "(case tail of None \<Rightarrow> Some 0 | Some x \<Rightarrow> ParseInt 32 x) = Some e"
    and e': "(case tail of None \<Rightarrow> 0 | Some x \<Rightarrow> the (ParseInt 32 x)) = e"
    using assms by (auto simp: json_number_def split split: option.splits)
  show ?thesis
  proof (cases fraction)
    case None
    show ?thesis
      by (rule that [of whole neg e])
        (use assms None whole e e' in \<open>auto simp: json_number_def canonical_number_def json_value_def split\<close>)
  next
    case (Some f)
    show ?thesis
      by (rule that [of "whole @ f" neg "e - int (length f)"])
        (use assms Some e e' in \<open>auto simp: json_number_def canonical_number_def json_value_def split\<close>)
  qed
qed

lemma normal_digits_pos: "normal_digits t \<Longrightarrow> 0 < dec_val t"
  using normal_digits_mod10 [of t] by (cases "dec_val t") auto

lemma ten_power_pos [simp]: "0 < ten_power e"
  by (simp add: ten_power_def)

lemma sign_text_inject:
  assumes "normal_digits t" "normal_digits u"
  shows "(if p then ''-'' else '''') @ t @ ''e'' @ FormatInt e = (if q then ''-'' else '''') @ u @ ''e'' @ FormatInt f \<longleftrightarrow>
    p = q \<and> t = u \<and> e = f"
proof -
  have hd: "t = c # r \<Longrightarrow> c \<noteq> CHR ''-''" "u = c # r \<Longrightarrow> c \<noteq> CHR ''-''" for c r
    using assms by (auto simp: normal_digits_def is_digit_def less_eq_char_def)
  have dig: "list_all is_digit t" "list_all is_digit u" "t \<noteq> []" "u \<noteq> []"
    using assms by (simp_all add: normal_digits_def)
  have core: "t @ ''e'' @ FormatInt e = u @ ''e'' @ FormatInt f \<longleftrightarrow> t = u \<and> e = f"
    using digits_e_inject [OF dig(1,2)] by (metis FormatInt_inject)
  have "CHR ''-'' # x \<noteq> t @ y" "CHR ''-'' # x \<noteq> u @ y" for x y
    using hd dig(3,4) by (cases t; cases u; auto)+
  then show ?thesis using core by (cases p; cases q) (auto simp: dest: sym)
qed

lemma signed_value_inject:
  fixes n m :: nat
  assumes "0 < n" "0 < m"
  shows "(if p then -1 else 1) * (of_nat n * ten_power e) = (if q then -1 else 1) * (of_nat m * ten_power f) \<longleftrightarrow>
    p = q \<and> of_nat n * ten_power e = of_nat m * ten_power f"
proof -
  have "0 < of_nat n * ten_power e" "0 < of_nat m * ten_power f" using assms by simp_all
  then show ?thesis by (cases p; cases q; simp; linarith)
qed

lemma normal_text_not_zero:
  assumes "normal_digits u"
  shows "''0e'' @ FormatInt 0 \<noteq> (if r then ''-'' else '''') @ u @ ''e'' @ FormatInt f"
    and "(if r then -1 else 1) * (of_nat (dec_val u) * ten_power f) \<noteq> (0 :: rat)"
  using assms normal_digits_pos [OF assms] less_imp_neq [OF ten_power_pos [of f]]
  by (cases u; auto simp: normal_digits_def)+

text \<open>Canonical digits are equal exactly when the values they stand for are.\<close>

lemma canonical_digits_value:
  assumes "list_all is_digit ds" and "list_all is_digit es"
  shows "canonical_digits p ds d = canonical_digits q es e \<longleftrightarrow>
    (if p then -1 else 1) * (of_nat (dec_val ds) * ten_power d) = ((if q then -1 else 1) * (of_nat (dec_val es) * ten_power e) :: rat)"
  using assms(1)
proof (cases rule: canonical_digits_cases [where neg = p and e = d])
  case zeros: zero
  show ?thesis using assms(2)
  proof (cases rule: canonical_digits_cases [where neg = q and e = e])
    case zero
    then show ?thesis using zeros by simp
  next
    case nt: (normal v g)
    show ?thesis unfolding zeros(2) nt(2,3) using zeros(1) normal_text_not_zero [OF nt(1), of q g] by simp
  qed
next
  case ns: (normal u f)
  show ?thesis using assms(2)
  proof (cases rule: canonical_digits_cases [where neg = q and e = e])
    case zero
    show ?thesis unfolding zero(2) ns(2,3) using zero(1) normal_text_not_zero [OF ns(1), of p f] by simp
  next
    case nt: (normal v g)
    have "canonical_digits p ds d = canonical_digits q es e \<longleftrightarrow> p = q \<and> u = v \<and> f = g"
      unfolding ns(3) nt(3) by (rule sign_text_inject [OF ns(1) nt(1)])
    also have "\<dots> \<longleftrightarrow> p = q \<and> of_nat (dec_val u) * ten_power f = of_nat (dec_val v) * ten_power g"
      using power10_unique [OF normal_digits_mod10 [OF ns(1)] normal_digits_mod10 [OF nt(1)]]
        normal_digits_inj [OF ns(1) nt(1)] by metis
    finally show ?thesis
      unfolding ns(2) nt(2) using signed_value_inject [OF normal_digits_pos [OF ns(1)] normal_digits_pos [OF nt(1)]] by simp
  qed
qed

text \<open>C31. The request fingerprint distinguishes numbers by value and by nothing else: two JSON
  numbers with a 32-bit exponent have the same canonical form exactly when they denote the same
  rational number, however they are spelt (1, 1.0, 10e-1, -0), and no digit is ever rounded away.\<close>

theorem canonicalValue_number_exact:
  assumes "json_number s" and "json_number t"
  shows "canonicalValue (GNum s) \<noteq> None \<and>
    (canonicalValue (GNum s) = canonicalValue (GNum t) \<longleftrightarrow> json_value s = json_value t)"
proof -
  obtain p ds d where s: "list_all is_digit ds" "canonical_number s = Some (canonical_digits p ds d)"
    "json_value s = (if p then -1 else 1) * (of_nat (dec_val ds) * ten_power d)"
    using number_parts [OF assms(1)] .
  obtain q es e where t: "list_all is_digit es" "canonical_number t = Some (canonical_digits q es e)"
    "json_value t = (if q then -1 else 1) * (of_nat (dec_val es) * ten_power e)"
    using number_parts [OF assms(2)] .
  show ?thesis using canonical_digits_value [OF s(1) t(1), of p d q e] s(2,3) t(2,3) by simp
qed

section \<open>Idempotency\<close>

text \<open>A stored receipt may only be completed: everything a replay returns is fixed.\<close>

definition fixed_row :: "receipt_row \<Rightarrow> receipt_row" where
  "fixed_row v = v\<lparr>ar_receipt := (ar_receipt v)\<lparr>rc_State := ''''\<rparr>, ar_completed := None\<rparr>"

definition receipt_le :: "receipt_row \<Rightarrow> receipt_row \<Rightarrow> bool" where
  "receipt_le v w \<longleftrightarrow> fixed_row w = fixed_row v \<and> (ar_completed v \<noteq> None \<longrightarrow> ar_completed w = ar_completed v)"

definition receipts_le :: "'y evidence_db_scheme \<Rightarrow> 'y evidence_db_scheme \<Rightarrow> bool" where
  "receipts_le d e \<longleftrightarrow> (\<exists>old new. db_receipts e = old @ new \<and> list_all2 receipt_le (db_receipts d) old)"

definition row_key :: "receipt_row \<Rightarrow> string \<times> string \<times> string" where
  "row_key v = (ar_principal v, ar_epoch v, ar_request v)"

definition receipts_wf :: "'y evidence_db_scheme \<Rightarrow> bool" where
  "receipts_wf d \<longleftrightarrow> distinct (map row_key (db_receipts d)) \<and> (\<forall>v \<in> set (db_receipts d). ar_domain v = ''management'')"

lemma receipt_le_refl [simp]: "receipt_le v v"
  by (simp add: receipt_le_def)

lemma receipt_le_trans: "receipt_le u v \<Longrightarrow> receipt_le v w \<Longrightarrow> receipt_le u w"
  by (simp add: receipt_le_def)

lemma fixed_row_fields:
  "ar_principal (fixed_row v) = ar_principal v" "ar_epoch (fixed_row v) = ar_epoch v"
  "ar_domain (fixed_row v) = ar_domain v" "ar_request (fixed_row v) = ar_request v"
  "ar_fingerprint (fixed_row v) = ar_fingerprint v" "ar_status (fixed_row v) = ar_status v"
  "ar_response (fixed_row v) = ar_response v"
  by (simp_all add: fixed_row_def)

lemma receipt_le_fields:
  assumes "receipt_le v w"
  shows "ar_principal w = ar_principal v" "ar_epoch w = ar_epoch v" "ar_domain w = ar_domain v"
    "ar_request w = ar_request v" "ar_fingerprint w = ar_fingerprint v" "ar_status w = ar_status v"
    "ar_response w = ar_response v" "row_key w = row_key v" "receipt_key c w = receipt_key c v"
proof -
  have eq: "fixed_row w = fixed_row v" using assms by (simp add: receipt_le_def)
  show fields: "ar_principal w = ar_principal v" "ar_epoch w = ar_epoch v" "ar_domain w = ar_domain v"
    "ar_request w = ar_request v" "ar_fingerprint w = ar_fingerprint v" "ar_status w = ar_status v"
    "ar_response w = ar_response v"
    using eq fixed_row_fields [of v] fixed_row_fields [of w] by simp_all
  show "row_key w = row_key v" "receipt_key c w = receipt_key c v"
    by (simp_all add: row_key_def receipt_key_def fields)
qed

lemma list_all2_receipt_refl [simp]: "list_all2 receipt_le rows rows"
  by (simp add: list_all2_conv_all_nth)

interpretation receipts: store_order receipts_le
proof
  show "receipts_le d d" for d :: "'y evidence_db_scheme"
    unfolding receipts_le_def by (intro exI [of _ "db_receipts d"] exI [of _ "[]"]) simp
  show "receipts_le d f" if de: "receipts_le d e" and ef: "receipts_le e f" for d e f :: "'y evidence_db_scheme"
  proof -
    from de obtain old new where e: "db_receipts e = old @ new" "list_all2 receipt_le (db_receipts d) old"
      by (auto simp: receipts_le_def)
    from ef e(1) obtain old' new' more where f: "db_receipts f = old' @ new' @ more" "list_all2 receipt_le old old'"
      by (auto simp: receipts_le_def list_all2_append1)
    have "list_all2 receipt_le (db_receipts d) old'"
      by (rule list_all2_trans [OF receipt_le_trans e(2) f(2)])
    then show ?thesis using f(1) by (auto simp: receipts_le_def)
  qed
qed

lemma find_list_all2:
  assumes "list_all2 receipt_le xs ys" and "find (receipt_key c) xs = Some v"
  shows "\<exists>w. find (receipt_key c) (ys @ zs) = Some w \<and> receipt_le v w"
  using assms
  by (induction xs ys rule: list_all2_induct) (auto simp: receipt_le_fields split: if_splits)

lemma find_receipt_le:
  "receipts_le d e \<Longrightarrow> find_receipt c d = Some v \<Longrightarrow> \<exists>w. find_receipt c e = Some w \<and> receipt_le v w"
  unfolding receipts_le_def find_receipt_def by (metis find_list_all2)

lemma list_all2_row_keys: "list_all2 receipt_le xs ys \<Longrightarrow> map row_key ys = map row_key xs"
  by (induction rule: list_all2_induct) (simp_all add: receipt_le_fields)

lemma list_all2_domains:
  "list_all2 receipt_le xs ys \<Longrightarrow> \<forall>v \<in> set xs. ar_domain v = ''management'' \<Longrightarrow> \<forall>w \<in> set ys. ar_domain w = ''management''"
  by (induction rule: list_all2_induct) (simp_all add: receipt_le_fields)

text \<open>Completing the receipts of a job keeps the order: keys are unique, so each pending row only
  meets itself.\<close>

lemma complete_rows:
  assumes "distinct (map row_key rows)" and "set pending \<subseteq> set rows"
    and "\<forall>v \<in> set pending. ar_completed v = None" and "list_all2 receipt_le rows now_rows"
    and "distinct (map row_key pending)" and "\<forall>v \<in> set pending. v \<in> set now_rows"
  shows "list_all2 receipt_le rows (foldl (\<lambda>rows v. map (\<lambda>w. if same_receipt v w
     then w\<lparr>ar_receipt := (ar_receipt v)\<lparr>rc_State := ''completed''\<rparr>, ar_completed := Some t\<rparr> else w) rows) now_rows pending)"
  using assms(2-6)
proof (induction pending arbitrary: now_rows)
  case (Cons v pending)
  let ?step = "\<lambda>w. if same_receipt v w
     then w\<lparr>ar_receipt := (ar_receipt v)\<lparr>rc_State := ''completed''\<rparr>, ar_completed := Some t\<rparr> else w"
  have keys: "distinct (map row_key now_rows)" using list_all2_row_keys [OF Cons.prems(3)] assms(1) by simp
  have self: "w = v" if "w \<in> set now_rows" "same_receipt v w" for w
  proof -
    have "v \<in> set now_rows" using Cons.prems(5) by simp
    moreover have "row_key w = row_key v" using that(2) by (simp add: same_receipt_def row_key_def)
    ultimately show ?thesis using keys that(1) by (metis inj_onD distinct_map)
  qed
  have up: "receipt_le w (?step w)" if "w \<in> set now_rows" for w
    using self [OF that] Cons.prems(2) by (auto simp: receipt_le_def fixed_row_def)
  have ups: "list_all2 receipt_le now_rows (map ?step now_rows)"
    using up by (simp add: list_all2_conv_all_nth)
  have le: "list_all2 receipt_le rows (map ?step now_rows)"
    by (rule list_all2_trans [OF receipt_le_trans Cons.prems(3) ups])
  have "u \<in> set (map ?step now_rows)" if "u \<in> set pending" for u
  proof -
    have u: "u \<in> set now_rows" using Cons.prems(5) that by simp
    have "row_key u \<noteq> row_key v" using Cons.prems(4) imageI [OF that, of row_key] by auto
    then have "?step u = u" by (auto simp: same_receipt_def row_key_def)
    then show ?thesis using u by force
  qed
  then show ?case using Cons.IH [of "map ?step now_rows"] Cons.prems le by simp
qed simp

lemma distinct_map_filter_key: "distinct (map f xs) \<Longrightarrow> distinct (map f (filter P xs))"
  by (simp add: distinct_map_filter)

lemma settle_receipts_le:
  assumes "receipts_wf d"
  shows "receipts_wf (settle_receipts j now d) \<and> receipts_le d (settle_receipts j now d)"
proof (cases "j_Completed j = None")
  case True
  then show ?thesis using assms receipts.le_refl by (simp add: settle_receipts_def)
next
  case False
  let ?pending = "filter (\<lambda>v. map_option ref_ID (rc_Job (ar_receipt v)) = Some (j_ID j) \<and> ar_completed v = None) (db_receipts d)"
  have rows: "list_all2 receipt_le (db_receipts d) (db_receipts (settle_receipts j now d))"
    unfolding settle_receipts_def completeReceipts_def Let_def using False
    by simp (rule complete_rows; use assms in \<open>auto simp: receipts_wf_def distinct_map_filter_key\<close>)
  have "receipts_wf (settle_receipts j now d)"
    using assms list_all2_row_keys [OF rows] list_all2_domains [OF rows] by (simp add: receipts_wf_def)
  moreover have "receipts_le d (settle_receipts j now d)"
    unfolding receipts_le_def
    by (intro exI [of _ "db_receipts (settle_receipts j now d)"] exI [of _ "[]"]) (simp add: rows)
  ultimately show ?thesis ..
qed

lemma receipts_same:
  "db_receipts e = db_receipts d \<Longrightarrow> receipts_wf d \<Longrightarrow> receipts_wf e \<and> receipts_le d e"
  using receipts.le_refl [of d] by (simp add: receipts_wf_def receipts_le_def)

lemma Append_receipts: "Append a r d = Inr (x, d') \<Longrightarrow> receipts_wf d \<Longrightarrow> receipts_wf d' \<and> receipts_le d d'"
  by (rule receipts_same) (rule Append_frame)

lemma CreateJob_receipts: "CreateJob a j d = Inr (k, d') \<Longrightarrow> receipts_wf d \<Longrightarrow> receipts_wf d' \<and> receipts_le d d'"
  by (elim CreateJob_Inr, rule receipts_same) (auto dest: Append_frame(3))

lemma ChangeJob_receipts:
  assumes "ChangeJob a x expected t now d = Inr (k, d')" and "jobs_wf d" and "receipts_wf d"
  shows "receipts_wf d' \<and> receipts_le d d'"
proof -
  obtain y where app: "Append a (job_event ''job-state-changed'' True now k) (settle_receipts k now
       (d\<lparr>db_revision := db_revision d + 1, db_jobs := update_row x k (db_jobs d)\<rparr>)) = Inr (y, d')"
    using ChangeJob_Inr [OF assms(1) jobs_wf_ids [OF assms(2)]] by metis
  let ?d1 = "d\<lparr>db_revision := db_revision d + 1, db_jobs := update_row x k (db_jobs d)\<rparr>"
  have first: "receipts_wf ?d1 \<and> receipts_le d ?d1" using assms(3) by (intro receipts_same) simp_all
  then show ?thesis
    using settle_receipts_le [of ?d1 k now] Append_receipts [OF app] receipts.le_trans by blast
qed

lemma find_snoc: "find P (xs @ [y]) = (case find P xs of Some z \<Rightarrow> Some z | None \<Rightarrow> if P y then Some y else None)"
  by (induction xs) auto

lemma new_row_fields [simp]:
  "row_key (new_row c digest now m k) = (ac_Principal c, ac_Epoch c, ac_ID c)"
  "ar_domain (new_row c digest now m k) = ac_Domain c" "ar_fingerprint (new_row c digest now m k) = digest"
  "receipt_key c (new_row c digest now m k)"
  "\<not> ac_SecretResponse c \<Longrightarrow> \<not> mn_SecretResponse m \<Longrightarrow> ar_status (new_row c digest now m k) = mn_Status m"
  "\<not> ac_SecretResponse c \<Longrightarrow> \<not> mn_SecretResponse m \<Longrightarrow> ar_response (new_row c digest now m k) = body_of c m k"
  by (simp_all add: new_row_def Let_def row_key_def receipt_key_def)

text \<open>What a repository operation run by \<open>Execute\<close> owes to the receipts.\<close>

locale receipt_keeper =
  fixes mutate :: "'z requests_ambient_scheme \<Rightarrow> 'y requests_db_scheme \<Rightarrow> (Mutation \<times> 'y requests_db_scheme) outcome"
    and ok :: "'y requests_db_scheme \<Rightarrow> bool"
  assumes keeps: "mutate a d = Inr (m, d') \<Longrightarrow> ok d \<Longrightarrow> receipts_wf d \<Longrightarrow> receipts_wf d' \<and> receipts_le d d'"
begin

lemma execute_tx_cases:
  assumes "execute_tx a ''management'' c digest key reauthorize mutate d = Inr (r, d')" and "ok d" and "receipts_wf d"
    and "ac_Domain c = ''management''"
  obtains (replay) v where "find_receipt c d = Some v" "d' = d" "replay_row digest v = Inr r"
  | (admit) m e now correlation where "find_receipt c d = None"
      "mutate (with_command ''management'' c (new_id a 0) (later 1 a)) d = Inr (m, e)"
      "d' = e\<lparr>db_receipts := db_receipts e @ [new_row c digest now m correlation],
         db_high_watermark := max (db_high_watermark e) (UnixMilli now)\<rparr>"
      "find_receipt c e = None" "receipts_wf d'" "receipts_le d d'"
      "r = \<lparr>rs_Status = mn_Status m, rs_Body = body_of c m correlation, rs_Receipt = new_receipt c m correlation, rs_Replayed = False\<rparr>"
proof (cases "find_receipt c d")
  case (Some v)
  then show ?thesis using assms(1) by (intro replay [of v]) (auto simp: execute_tx_def then_do_Inr)
next
  case None
  obtain m e where m: "mutate (with_command ''management'' c (new_id a 0) (later 1 a)) d = Inr (m, e)"
    and rec: "record_receipt c digest (am_now a 0) m (new_id a 0) e = Inr (r, d')"
    using assms(1) None by (auto simp: execute_tx_def then_do_Inr Let_def)
  let ?row = "new_row c digest (am_now a 0) m (new_id a 0)"
  have d': "find_receipt c e = None"
    "d' = e\<lparr>db_receipts := db_receipts e @ [?row], db_high_watermark := max (db_high_watermark e) (UnixMilli (am_now a 0))\<rparr>"
    "r = \<lparr>rs_Status = mn_Status m, rs_Body = body_of c m (new_id a 0), rs_Receipt = new_receipt c m (new_id a 0),
       rs_Replayed = False\<rparr>"
    using rec by (auto simp: record_receipt_def split: if_splits)
  have e: "receipts_wf e" "receipts_le d e" using keeps [OF m assms(2,3)] by simp_all
  have "row_key v \<noteq> row_key ?row" if "v \<in> set (db_receipts e)" for v
  proof
    assume "row_key v = row_key ?row"
    then have "receipt_key c v"
      using e(1) that assms(4) by (simp add: receipt_key_def receipts_wf_def) (simp add: row_key_def)
    then show False using d'(1) that by (simp add: find_receipt_def find_None_iff)
  qed
  then have "row_key ?row \<notin> row_key ` set (db_receipts e)" by (metis imageE)
  then have "receipts_wf d'"
    using e(1) d'(2) assms(4) by (simp add: receipts_wf_def)
  moreover have "receipts_le e d'" unfolding receipts_le_def d'(2) by auto
  then have "receipts_le d d'" by (rule receipts.le_trans [OF e(2)])
  ultimately show ?thesis by (intro admit [OF None m d'(2,1) _ _ d'(3)])
qed

lemma Execute_write:
  assumes "Execute f a ''management'' c authorized reauthorize mutate d = (r, d')" and "d' \<noteq> d \<or> r = Inr x"
  obtains key digest where "ac_Domain c = ''management''" "fingerprint a c = Inr digest"
    "store_write f (execute_tx a ''management'' c digest key reauthorize mutate) d = (r, d')"
  using assms by (auto simp: Execute_def split: option.splits if_splits sum.splits)

lemma Execute_keeps:
  assumes "Execute f a ''management'' c authorized reauthorize mutate d = (r, d')" and "ok d" and "receipts_wf d"
  shows "receipts_wf d' \<and> receipts_le d d'"
proof (cases "d' = d")
  case True
  then show ?thesis using assms(3) receipts.le_refl by simp
next
  case False
  then obtain key digest where w: "ac_Domain c = ''management''"
    "store_write f (execute_tx a ''management'' c digest key reauthorize mutate) d = (r, d')"
    using Execute_write [OF assms(1)] by metis
  from store_write_result [OF w(2)] False obtain x where
    x: "execute_tx a ''management'' c digest key reauthorize mutate d = Inr (x, d')" by blast
  show ?thesis
    by (rule execute_tx_cases [OF x assms(2,3) w(1)]) (use assms(3) receipts.le_refl in auto)
qed

text \<open>The answer of an admitted command is stored with it.\<close>

lemma Execute_admits:
  assumes "Execute f a ''management'' c authorized reauthorize mutate d = (r, d')" and "ok d" and "receipts_wf d"
    and "d' \<noteq> d"
  obtains m e v digest where "find_receipt c d' = Some v" "fingerprint a c = Inr digest" "ar_fingerprint v = digest"
    "mutate (with_command ''management'' c (new_id a 0) (later 1 a)) d = Inr (m, e)"
    "\<not> ac_SecretResponse c \<Longrightarrow> \<not> mn_SecretResponse m \<Longrightarrow>
       \<forall>res. r = Inr res \<longrightarrow> ar_status v = rs_Status res \<and> ar_response v = rs_Body res"
proof -
  obtain key digest where w: "ac_Domain c = ''management''" "fingerprint a c = Inr digest"
    "store_write f (execute_tx a ''management'' c digest key reauthorize mutate) d = (r, d')"
    using Execute_write [OF assms(1)] assms(4) by metis
  from store_write_result [OF w(3)] assms(4) obtain x where
    x: "execute_tx a ''management'' c digest key reauthorize mutate d = Inr (x, d')" by blast
  show ?thesis
  proof (rule execute_tx_cases [OF x assms(2,3) w(1)])
    fix m e now correlation
    assume m: "mutate (with_command ''management'' c (new_id a 0) (later 1 a)) d = Inr (m, e)"
      and d': "d' = e\<lparr>db_receipts := db_receipts e @ [new_row c digest now m correlation],
         db_high_watermark := max (db_high_watermark e) (UnixMilli now)\<rparr>"
      and none: "find_receipt c e = None"
      and res: "x = \<lparr>rs_Status = mn_Status m, rs_Body = body_of c m correlation,
         rs_Receipt = new_receipt c m correlation, rs_Replayed = False\<rparr>"
    have "find_receipt c d' = Some (new_row c digest now m correlation)"
      using none unfolding d' find_receipt_def by (simp add: find_snoc)
    then show ?thesis
      by (rule that [OF _ w(2) _ m])
        (use w(3) x res in \<open>auto simp: store_write_def split: fate.splits\<close>)
  qed (use assms(4) in auto)
qed

end

lemma Execute_known:
  assumes "find_receipt c d = Some v"
  shows "snd (Execute f a domain c authorized reauthorize mutate d) = d"
proof -
  have "d' = d" if "execute_tx a domain c digest key reauthorize mutate d = Inr (x, d')" for digest key x d'
    using that assms by (auto simp: execute_tx_def then_do_Inr)
  then have "snd (store_write f (execute_tx a domain c digest key reauthorize mutate) d) = d" for digest key
    by (cases rule: store_write_cases [of f "execute_tx a domain c digest key reauthorize mutate" d]) auto
  then show ?thesis by (simp add: Execute_def split: option.splits sum.splits)
qed


section \<open>Sample command\<close>

definition sample_request_id :: string where
  "sample_request_id = ''0190a000-0000-7000-8000-000000000001''"

definition sample_owner :: string where
  "sample_owner = ''00000000-0000-4000-8000-0000000000bb''"

definition sample_api_command :: Api_Command where
  "sample_api_command = \<lparr>ac_Principal = sample_owner, ac_Epoch = sample_owner, ac_Domain = ''management'',
     ac_ID = sample_request_id, ac_Operation = ''createLabel'', ac_Method = ''POST'', ac_URI = ''/api/v1/labels'',
     ac_Precondition = '''', ac_Credential = '''', ac_Capability = ''labels.write'', ac_Payload = Some (GNum ''1.50''),
     ac_PayloadBytes = 4, ac_Sensitive = False, ac_FingerprintKey = [], ac_SecretResponse = False\<rparr>"

definition sample_requests_db :: requests_db where
  "sample_requests_db = evidence_db.extend sample_tables \<lparr>db_epoch = sample_owner, db_high_watermark = 0\<rparr>"

definition sample_requests_source :: requests_ambient where
  "sample_requests_source = evidence_ambient.extend
     (sample_source\<lparr>am_now := (\<lambda>_. 63856268072960000000)\<rparr>) \<lparr>am_hmac = (\<lambda>k v. ''mac'')\<rparr>"

definition sample_mutate :: "requests_ambient \<Rightarrow> requests_db \<Rightarrow> (Mutation \<times> requests_db) outcome" where
  "sample_mutate a d = Inr (\<lparr>mn_Status = 200, mn_Body = Some GNil, mn_BodyBytes = 4, mn_Resource = None, mn_Job = None,
     mn_Terminal = True, mn_SecretResponse = False\<rparr>, d\<lparr>db_revision := db_revision d + 1\<rparr>)"

lemma sample_owner_valid: "ManagementID sample_owner"
  by (simp add: ManagementID_def UUID_def sample_owner_def no_dash_def lower_def hex_val_def)

lemma sample_request_time: "RequestTime sample_request_id = Some 1720671272960"
  by (simp add: RequestTime_def UUID_def sample_request_id_def no_dash_def lower_def hex_val_def)

lemma sample_receipts_wf: "receipts_wf sample_requests_db"
  by (simp add: receipts_wf_def sample_requests_db_def sample_tables_def evidence_db.defs)

lemma sample_fingerprint: "fingerprint sample_requests_source sample_api_command = Inr ''sha256:digest''"
  by (simp add: fingerprint_def sample_api_command_def canonical_number_def trim_sign_def cut_at_def
      sample_requests_source_def sample_source_def evidence_ambient.defs)

lemma sample_execute:
  "Execute Lost sample_requests_source ''management'' sample_api_command (Inr ()) (\<lambda>_. Inr ()) sample_mutate sample_requests_db =
     (Inl ErrCommitUnknown, sample_requests_db\<lparr>db_revision := 2, db_receipts := [new_row sample_api_command ''sha256:digest''
        63856268072960000000 (fst (projr (sample_mutate sample_requests_source sample_requests_db))) (new_id sample_requests_source 0)],
        db_high_watermark := 1720671272960\<rparr>)"
  unfolding Execute_def sample_fingerprint
  by (simp add: sample_api_command_def sample_request_time sample_owner_valid ValidDocument_def store_write_def
      execute_tx_def find_receipt_def sample_requests_db_def sample_tables_def evidence_db.defs admit_guard_def
      key_expired_def seconds_def UnixMilli_def MaxReceipts_def evidence_limits ControlOperation_def Let_def
      sample_mutate_def response_ok_def record_receipt_def sample_requests_source_def sample_source_def
      evidence_ambient.defs later_def with_command_def WithRequest_def)


theorem canonicalValue_number_exact_witness:
  "json_number ''1.50'' \<and> json_number ''15e-1'' \<and> json_value ''1.50'' = json_value ''15e-1'' \<and>
   canonicalValue (GNum ''1.50'') = canonicalValue (GNum ''15e-1'')"
proof -
  have n: "json_number ''1.50''" "json_number ''15e-1''"
    by (simp_all add: json_number_def trim_sign_def cut_at_def is_digit_def less_eq_char_def ParseInt_def dec_val_def digit_val_def)
  have v: "json_value ''1.50'' = json_value ''15e-1''"
    by (simp add: json_value_def trim_sign_def cut_at_def is_digit_def less_eq_char_def ParseInt_def dec_val_def digit_val_def
        ten_power_def power_int_def)
  show ?thesis using canonicalValue_number_exact [OF n] n v by blast
qed

end
