(* ===== verification/Journal.thy ===== *)
theory Journal
  imports Requests Candidate_Plan
begin

text \<open>
  The data of the field-execution journal (\<^verbatim>\<open>internal/execution/types.go\<close>,
  \<^verbatim>\<open>internal/safety/types.go\<close>), the manager tables the engine writes, and the two reservations
  that an admission makes: management identities (\<^verbatim>\<open>internal/repository/inventory/creation.go\<close>)
  and protected resources (\<^verbatim>\<open>engine.go\<close>, \<^verbatim>\<open>bridge_delete.go\<close>).
\<close>

section \<open>Data\<close>

record Plan =
  pl_ID :: string
  pl_Envelope :: Envelope
  pl_Schema :: string
  pl_Generation :: string
  pl_Root :: string
  pl_Marker :: string
  pl_NextFloor :: string
  pl_CurFloor :: string
  pl_Prepared :: moment
  pl_Native :: string
  pl_GraphBindings :: "Binding list"

record Outcome =
  oc_Commit :: string
  oc_Applied :: string
  oc_Reason :: string
  oc_Target :: "string option"
  oc_Current :: "string option"
  oc_Observed :: "moment option"

definition plain_outcome :: "string \<Rightarrow> string \<Rightarrow> string \<Rightarrow> Outcome" where
  "plain_outcome commit applied reason = \<lparr>oc_Commit = commit, oc_Applied = applied, oc_Reason = reason,
     oc_Target = None, oc_Current = None, oc_Observed = None\<rparr>"

record Authorization =
  az_Owner :: string
  az_Credential :: string
  az_Epoch :: string
  az_Policy :: string
  az_ProviderPolicy :: string
  az_ChangeSet :: string
  az_Validation :: string
  az_Scope :: string
  az_Expires :: moment
  az_FieldCapabilities :: string

record Execution_Request =
  xr_ID :: string
  xr_ValidationID :: string
  xr_Envelope :: Envelope

record Execution =
  x_ID :: string
  x_Sequence :: string
  x_State :: string
  x_Owner :: string
  x_RequestID :: string
  x_JobID :: string
  x_Correlation :: string
  x_ValidationID :: string
  x_CandidateID :: string
  x_CandidateRevision :: string
  x_Generation :: string
  x_Created :: moment
  x_Updated :: moment
  x_Outcome :: Outcome
  x_Authorization :: Authorization
  x_Plan :: Plan

text \<open>\<^verbatim>\<open>tlscontrol.Clock\<close>: boot identity, monotonic nanoseconds and wall time.\<close>

record Clock =
  ck_BootID :: string
  ck_NS :: int
  ck_Wall :: moment

record Deadline =
  dl_Boot :: string
  dl_StartNS :: int
  dl_EndNS :: int
  dl_Started :: moment
  dl_Wall :: moment

definition NewDeadline :: "Clock \<Rightarrow> int \<Rightarrow> Deadline" where
  "NewDeadline c duration = \<lparr>dl_Boot = ck_BootID c, dl_StartNS = ck_NS c, dl_EndNS = int64 (ck_NS c + duration),
     dl_Started = ck_Wall c, dl_Wall = ck_Wall c + duration\<rparr>"

definition Expired :: "Deadline \<Rightarrow> Clock \<Rightarrow> bool" where
  "Expired d c \<longleftrightarrow> dl_Boot d = '''' \<or> ck_BootID c \<noteq> dl_Boot d \<or> ck_NS c < dl_StartNS d \<or> dl_EndNS d \<le> ck_NS c \<or>
     ck_Wall c < dl_Started d \<or> \<not> ck_Wall c < dl_Wall d"

record Safety =
  sf_LastWall :: moment
  sf_State :: string
  sf_Reason :: string
  sf_Domain :: string
  sf_Reservation :: string
  sf_Fingerprint :: string
  sf_Trigger :: string
  sf_Preparation :: Deadline
  sf_Confirmation :: "Deadline option"
  sf_HealthyAt :: "moment option"
  sf_ProbeFailures :: int
  sf_Rollback :: "Plan option"
  sf_Outcome :: Outcome

definition Terminal_safety :: "string \<Rightarrow> bool" where
  "Terminal_safety s \<longleftrightarrow> s = ''confirmed'' \<or> s = ''rolled-back'' \<or> s = ''not-committed''"

definition terminal :: "Execution \<Rightarrow> bool" where
  "terminal r \<longleftrightarrow> x_State r = ''succeeded'' \<or> x_State r = ''failed''"

definition PreparationBudget :: int where "PreparationBudget = seconds 30"
definition ConfirmationWindow :: int where "ConfirmationWindow = seconds 120"
definition AppliedFor :: int where "AppliedFor = seconds 15"
definition MaxRecords :: nat where "MaxRecords = 1024"
definition MaxUnsettled :: nat where "MaxUnsettled = 16"
definition MaxIdentities :: nat where "MaxIdentities = 16384"

section \<open>Tables\<close>

record identity =
  it_Binding :: Binding
  it_State :: string

record safe_row =
  sr_Owner :: string
  sr_Epoch :: string
  sr_Request :: string
  sr_Doc :: Safety

record journal_db = requests_db +
  db_anchors :: "(string \<times> string \<times> string \<times> string) list"
  db_journal :: "(int \<times> string) tab"
  db_execs :: "Execution tab"
  db_safes :: "safe_row tab"
  db_protections :: "(string \<times> string \<times> string) list"
  db_identities :: "identity tab"
  db_creations :: "(string \<times> string) tab"
  db_resolutions :: "(string \<times> string \<times> string) list"
  db_last_known_good :: "(string \<times> string \<times> int \<times> Plan) option"

text \<open>What an engine call reads from its environment: besides the ambient values of a repository
  call, the clock of the safety options, the management-path probe, the current authority, the state
  of the store and the sizes of the journal documents. Readings are numbered in call order.\<close>

record engine_ambient = requests_ambient +
  am_exec_bytes :: "Execution \<Rightarrow> nat"
  am_safe_bytes :: "Safety \<Rightarrow> nat"
  am_clock :: "nat \<Rightarrow> Clock"
  am_probe :: "nat \<Rightarrow> bool"
  am_authority :: "nat \<Rightarrow> Authorization \<Rightarrow> unit outcome"
  am_sha256 :: "any \<Rightarrow> string"

definition forth :: "nat \<Rightarrow> engine_ambient \<Rightarrow> engine_ambient" where
  "forth n a = (later n a)\<lparr>am_clock := (\<lambda>k. am_clock a (n + k)), am_probe := (\<lambda>k. am_probe a (n + k)),
     am_authority := (\<lambda>k. am_authority a (n + k))\<rparr>"

definition safe_terminal :: "string \<Rightarrow> journal_db \<Rightarrow> bool" where
  "safe_terminal x d = (case map_of (db_safes d) x of None \<Rightarrow> False | Some s \<Rightarrow> Terminal_safety (sf_State (sr_Doc s)))"

text \<open>\<open>f.state NOT IN ('succeeded','failed') AND NOT EXISTS (... s.state IN ('confirmed',...))\<close>\<close>

definition unsettled :: "journal_db \<Rightarrow> string \<times> Execution \<Rightarrow> bool" where
  "unsettled d = (\<lambda>(x, r). \<not> terminal r \<and> \<not> safe_terminal x d)"

definition load :: "string \<Rightarrow> journal_db \<Rightarrow> Execution outcome" where
  "load x d = then_do (select_row x (db_execs d)) (\<lambda>r.
     if x_ID r \<noteq> x \<or> x_Sequence r = '''' then Inl ErrUnavailable else Inr r)"

definition loadSafety :: "string \<Rightarrow> journal_db \<Rightarrow> Safety outcome" where
  "loadSafety x d = then_do (select_row x (db_safes d)) (\<lambda>s.
     if sf_State (sr_Doc s) = '''' \<or> sf_Domain (sr_Doc s) = '''' then Inl ErrUnavailable else Inr (sr_Doc s))"

definition readSafety :: "string \<Rightarrow> journal_db \<Rightarrow> (Execution \<times> Safety) outcome" where
  "readSafety x d = store_read (then_do (load x d) (\<lambda>r. then_do (loadSafety x d) (\<lambda>s. Inr (r, s))))"

definition Read_execution :: "string \<Rightarrow> journal_db \<Rightarrow> Execution outcome" where
  "Read_execution x d = store_read (load x d)"

lemma Read_execution_Inr [simp]: "Read_execution x d = Inr r \<longleftrightarrow> load x d = Inr r"
  by (simp add: Read_execution_def)

definition encode :: "engine_ambient \<Rightarrow> Execution \<Rightarrow> unit outcome" where
  "encode a r = (if 320 * 1024 < am_exec_bytes a r then failed 429 ''EXECUTION_RECORD_BUDGET'' else Inr ())"

section \<open>Evidence objects\<close>

definition table_kind :: "string \<Rightarrow> string" where
  "table_kind t = (if t = ''Bridge'' then ''bridge'' else if t = ''Port'' then ''port''
     else if t = ''Interface'' then ''interface'' else if t = ''Mirror'' then ''mirror'' else '''')"

definition add_ref :: "Ref list \<Rightarrow> Ref \<Rightarrow> Ref list" where
  "add_ref refs r = (if r \<in> set refs then refs else refs @ [r])"

definition evidence_refs :: "Ref list \<Rightarrow> StoredIntent \<Rightarrow> Ref list" where
  "evidence_refs refs i =
     (let ob = si_Object i; x = ManagementID_of ob in
      if si_Operation i = PortIsolationSet \<and> Table ob = ''Port'' \<and> ManagementID x
      then refs @ [\<lparr>ref_Kind = ''port'', ref_ID = x\<rparr>]
      else if (si_Operation i = SpanningTreeConfigure \<or> si_Operation i = BridgeMulticastSet) \<and> Table ob = ''Bridge'' \<and>
         ManagementID x
      then refs @ [\<lparr>ref_Kind = ''bridge'', ref_ID = x\<rparr>]
      else case si_Topology i of
             Some g \<Rightarrow> foldl (\<lambda>refs n. add_ref refs \<lparr>ref_Kind = table_kind (Table (n_Binding n)),
                         ref_ID = ManagementID_of (n_Binding n)\<rparr>) refs (g_Before g @ g_After g)
           | None \<Rightarrow>
               if (si_MTU i \<noteq> None \<and> IsMTUOperation (si_Operation i) \<or>
                   si_Policing i \<noteq> None \<and> si_Operation i = InterfacePolicingSet) \<and> Table ob = ''Interface'' \<and> ManagementID x
               then add_ref refs \<lparr>ref_Kind = ''interface'', ref_ID = x\<rparr>
               else refs)"

definition plan_intents :: "Execution \<Rightarrow> StoredIntent list" where
  "plan_intents r = c_Intents (e_Candidate (pl_Envelope (x_Plan r)))"

definition interfaceEvidenceObjects :: "Execution \<Rightarrow> Ref list" where
  "interfaceEvidenceObjects r = foldl evidence_refs [] (plan_intents r)"

section \<open>Identity reservations\<close>

definition same_identity :: "Binding \<Rightarrow> string \<times> identity \<Rightarrow> bool" where
  "same_identity b = (\<lambda>(x, t). x = ManagementID_of b \<or>
     Generation_of (it_Binding t) = Generation_of b \<and> Table (it_Binding t) = Table b \<and> OVSUUID (it_Binding t) = OVSUUID b)"

fun reserve_all :: "string \<Rightarrow> string \<Rightarrow> Binding list \<Rightarrow> journal_db \<Rightarrow> journal_db outcome" where
  "reserve_all tx marker [] d = Inr d"
| "reserve_all tx marker (b # bs) d =
     (if list_ex (same_identity b) (db_identities d) then failed 409 ''CREATION_IDENTITY_CONSUMED''
      else then_do (insert_row (ManagementID_of b) \<lparr>it_Binding = b, it_State = ''pending''\<rparr> (db_identities d)) (\<lambda>is.
           then_do (insert_row (ManagementID_of b) (tx, marker) (db_creations d)) (\<lambda>cs.
           reserve_all tx marker bs (d\<lparr>db_identities := is, db_creations := cs\<rparr>))))"

definition reserveTopology :: "string \<Rightarrow> string \<Rightarrow> Binding list \<Rightarrow> journal_db \<Rightarrow> journal_db outcome" where
  "reserveTopology tx marker bs d =
     (if MaxIdentities < length (db_identities d) + length bs then failed 503 ''IDENTITY_REGISTRY_FULL''
      else reserve_all tx marker bs d)"

definition creation_requested :: "StoredIntent \<Rightarrow> bool" where
  "creation_requested i \<longleftrightarrow>
     si_Operation i = BridgeCreate \<and> (case si_Creation i of None \<Rightarrow> False | Some c \<Rightarrow> \<not> bc_BeforePresent c \<and> bc_AfterPresent c) \<or>
     si_Operation i = InternalPortCreate \<and>
       (case si_PortCreation i of None \<Rightarrow> False | Some p \<Rightarrow> \<not> ip_BeforePresent p \<and> ip_AfterPresent p)"

definition reserve_creation :: "string \<Rightarrow> string \<Rightarrow> StoredIntent \<Rightarrow> journal_db \<Rightarrow> journal_db outcome" where
  "reserve_creation tx marker i d =
     (if si_Topology i \<noteq> None then reserveTopology tx marker (TopologyCreations i False) d
      else if si_Operation i \<noteq> BridgeCreate \<and> si_Operation i \<noteq> InternalPortCreate then Inr d
      else if \<not> creation_requested i then failed 422 ''INVALID_CREATION_RESERVATION''
      else reserveTopology tx marker (CreationBindings i) d)"

fun ReserveCreations :: "string \<Rightarrow> string \<Rightarrow> StoredIntent list \<Rightarrow> journal_db \<Rightarrow> journal_db outcome" where
  "ReserveCreations tx marker [] d = Inr d"
| "ReserveCreations tx marker (i # is) d = then_do (reserve_creation tx marker i d) (ReserveCreations tx marker is)"

definition restoration_of :: "BridgeGraph \<Rightarrow> StoredIntent" where
  "restoration_of g = zero_intent\<lparr>si_Operation := BridgeCreate, si_Object := bg_Bridge g,
     si_Creation := Some \<lparr>bc_Name = bg_Name g, bc_Root = bg_Root g, bc_Port = bg_Port g, bc_Interface = bg_Interface g,
       bc_BeforePresent = False, bc_AfterPresent = True\<rparr>\<rparr>"

definition reserve_restoration :: "string \<Rightarrow> string \<Rightarrow> StoredIntent \<Rightarrow> journal_db \<Rightarrow> journal_db outcome" where
  "reserve_restoration tx marker i d =
     (if si_Topology i \<noteq> None then reserveTopology tx marker (TopologyCreations i True) d
      else if si_Operation i = InternalPortDelete
      then (case si_PortDeletion i of
              None \<Rightarrow> failed 422 ''INVALID_RESTORATION_RESERVATION''
            | Some p \<Rightarrow>
                if id_Restoring p \<or> id_Observed p then failed 422 ''INVALID_RESTORATION_RESERVATION''
                else (case InternalPortGraphIntent (Reverse i) of
                        None \<Rightarrow> failed 422 ''INVALID_RESTORATION_RESERVATION''
                      | Some creation \<Rightarrow> ReserveCreations tx marker [creation] d))
      else if si_Operation i \<noteq> BridgeDelete then Inr d
      else (case si_Deletion i of
              None \<Rightarrow> failed 422 ''INVALID_RESTORATION_RESERVATION''
            | Some g \<Rightarrow>
                if bd_Restoring g \<or> bd_Observed g then failed 422 ''INVALID_RESTORATION_RESERVATION''
                else ReserveCreations tx marker [restoration_of (bd_Replacement g)] d))"

fun ReserveRestorations :: "string \<Rightarrow> string \<Rightarrow> StoredIntent list \<Rightarrow> journal_db \<Rightarrow> journal_db outcome" where
  "ReserveRestorations tx marker [] d = Inr d"
| "ReserveRestorations tx marker (i # is) d = then_do (reserve_restoration tx marker i d) (ReserveRestorations tx marker is)"

definition RetirePending :: "string \<Rightarrow> journal_db \<Rightarrow> journal_db" where
  "RetirePending tx d = d\<lparr>db_identities := map (\<lambda>(x, t).
     if it_State t = ''pending'' \<and> list_ex (\<lambda>(y, u). y = x \<and> fst u = tx) (db_creations d)
     then (x, t\<lparr>it_State := ''tombstone''\<rparr>) else (x, t)) (db_identities d)\<rparr>"

section \<open>Protected resources\<close>

type_synonym protections = "(string \<times> string \<times> string) list"

definition protect :: "string \<Rightarrow> string \<Rightarrow> string \<Rightarrow> protections \<Rightarrow> protections outcome" where
  "protect tx resource field ps =
     (if list_ex (\<lambda>(q, f, t). q = resource) ps then failed 409 ''FIELD_PROTECTED'' else Inr (ps @ [(resource, field, tx)]))"

fun protect_objects :: "string \<Rightarrow> Binding list \<Rightarrow> protections \<Rightarrow> protections outcome" where
  "protect_objects tx [] ps = Inr ps"
| "protect_objects tx (b # bs) ps = then_do (protect tx (ManagementID_of b) ''object.lifecycle'' ps) (protect_objects tx bs)"

definition protectGraph :: "string \<Rightarrow> string \<Rightarrow> Binding list \<Rightarrow> protections \<Rightarrow> protections outcome" where
  "protectGraph tx base bs ps = then_do (protect tx base ''root.bridge-creation'' ps) (protect_objects tx bs)"

definition protectDeletion :: "string \<Rightarrow> BridgeDeletion \<Rightarrow> protections \<Rightarrow> protections outcome" where
  "protectDeletion tx g ps =
     protectGraph tx (bg_Root (bd_Source g)) (graph_bindings (bd_Source g) @ graph_bindings (bd_Replacement g)) ps"

definition field_paths :: "string list" where
  "field_paths = [''port.vlan'', ''port.bond'', ''root.bridge-creation'', ''object.lifecycle'']"

definition protect_field :: "string \<Rightarrow> string \<Rightarrow> string \<Rightarrow> protections \<Rightarrow> protections outcome" where
  "protect_field tx resource field ps =
     (if list_ex (\<lambda>(q, f, t). q = resource \<and> f \<in> set field_paths) ps then failed 409 ''FIELD_PROTECTED''
      else if list_ex (\<lambda>(q, f, t). q = resource \<and> f = field) ps then Inl ErrConflict
      else Inr (ps @ [(resource, field, tx)]))"

text \<open>The protection of one intent, in the order of the cases of the admission loop.\<close>

definition protect_intent :: "string \<Rightarrow> Plan \<Rightarrow> StoredIntent \<Rightarrow> protections \<Rightarrow> protections outcome" where
  "protect_intent tx p i ps =
     (if si_Operation i = SpanningTreeConfigure \<or> si_Operation i = PortIsolationSet \<or> si_Operation i = BridgeMulticastSet
      then (if pl_GraphBindings p = []
            then failed 409 (if si_Operation i = BridgeMulticastSet then ''MULTICAST_GRAPH_RESERVATION_REQUIRED''
              else if si_Operation i = PortIsolationSet then ''ISOLATION_GRAPH_RESERVATION_REQUIRED''
              else ''SPANNING_TREE_GRAPH_RESERVATION_REQUIRED'')
            else protectGraph tx (pl_Root p) (pl_GraphBindings p) ps)
      else if si_Topology i \<noteq> None then protectGraph tx (pl_Root p) (TopologyBindings i) ps
      else case si_MTU i of
        Some m \<Rightarrow> protectGraph tx (pl_Root p)
            (add_new [mt_Bridge m, mt_Port m, si_Object i]
               (case mt_Default m of None \<Rightarrow> [] | Some f \<Rightarrow> elems (md_Bindings f))) ps
      | None \<Rightarrow>
      (case si_PortDeletion i of
        Some g \<Rightarrow> protectGraph tx (ip_Root (ig_Configuration (id_Source g)))
            (ip_Bridge (ig_Configuration (id_Source g)) # port_graph_bindings (id_Source g) @
             port_graph_bindings (id_Replacement g)) ps
      | None \<Rightarrow>
      (case si_PortCreation i of
        Some q \<Rightarrow> protectGraph tx (ip_Root q) [ip_Bridge q, si_Object i, ip_Interface q] ps
      | None \<Rightarrow>
      (case si_Deletion i of
        Some g \<Rightarrow> protectDeletion tx g ps
      | None \<Rightarrow>
          let (resource, field) = (case si_Creation i of
                 None \<Rightarrow> (ManagementID_of (si_Object i), ''port.vlan'')
               | Some c \<Rightarrow> (bc_Root c, ''root.bridge-creation''));
              field = (if IsBondOperation (si_Operation i) then ''port.bond'' else field)
          in protect_field tx resource field ps))))"

fun protect_intents :: "string \<Rightarrow> Plan \<Rightarrow> StoredIntent list \<Rightarrow> protections \<Rightarrow> protections outcome" where
  "protect_intents tx p [] ps = Inr ps"
| "protect_intents tx p (i # is) ps = then_do (protect_intent tx p i ps) (protect_intents tx p is)"

definition unprotect :: "string \<Rightarrow> journal_db \<Rightarrow> journal_db" where
  "unprotect tx d = d\<lparr>db_protections := filter (\<lambda>(q, f, t). t \<noteq> tx) (db_protections d)\<rparr>"

text \<open>Only a settled, proven compensation makes replacement identities usable.\<close>

definition replaced_bindings :: "StoredIntent \<Rightarrow> (Binding \<times> Binding) list" where
  "replaced_bindings i =
     (case si_Topology i of
        Some g \<Rightarrow> List.map_filter (\<lambda>n. map_option (\<lambda>b. (n_Binding n, b)) (map_of (g_Replacements g) (OVSUUID (n_Binding n))))
                    (g_Before g)
      | None \<Rightarrow>
          if si_Operation i = BridgeDelete \<and> si_Deletion i \<noteq> None
          then zip (graph_bindings (bd_Source (the (si_Deletion i)))) (graph_bindings (bd_Replacement (the (si_Deletion i))))
          else if si_Operation i = InternalPortDelete \<and> si_PortDeletion i \<noteq> None
          then zip (port_graph_bindings (id_Source (the (si_PortDeletion i))))
                 (port_graph_bindings (id_Replacement (the (si_PortDeletion i))))
          else [])"

definition replacement_state :: "Safety \<Rightarrow> string" where
  "replacement_state s =
     (if sf_State s \<in> set [''preparing'', ''awaiting-confirmation'', ''rollback-requested'', ''rolling-back''] then ''reserved''
      else if sf_State s = ''confirmed'' \<or> sf_State s = ''not-committed'' then ''not-used''
      else if sf_State s = ''rolled-back'' \<and> sf_Rollback s \<noteq> None \<and> oc_Commit (sf_Outcome s) = ''committed'' \<and>
         oc_Applied (sf_Outcome s) = ''applied'' \<and> sf_HealthyAt s \<noteq> None
      then ''restored'' else ''unverified'')"

definition identityReplacements :: "Execution \<Rightarrow> Safety \<Rightarrow> (Binding \<times> Binding \<times> string) list" where
  "identityReplacements r s =
     concat (map (\<lambda>i. map (\<lambda>(p, q). (p, q, replacement_state s)) (replaced_bindings i)) (plan_intents r))"

end
