(* ===== verification/Executions.thy ===== *)
theory Executions
  imports Journal "HOL-Library.Product_Lexorder"
begin

text \<open>
  The field-execution engine (\<^verbatim>\<open>internal/repository/executions/engine.go\<close>, and the admission of a
  safe apply in \<^verbatim>\<open>safety.go\<close>): admission, the write-ahead dispatch intent, the recorded outcome and
  the observation-only recovery. A call that waits for the provider, the lease or the current
  authority takes their answers from its environment; each writer transaction has its own fate.
\<close>

section \<open>Environment\<close>

record engine_config =
  ec_Domain :: string
  ec_Window :: int
  ec_Key :: "8 word list"

record safe_admission =
  ad_Command :: Api_Command
  ad_Reservation :: string

text \<open>\<open>Provider.Commit\<close>: the provider may give up without asking, or ask \<open>beforeSend\<close> once; a refusal
  and a permission lead to its two answers.\<close>

datatype commit_call = Withheld Outcome | Asked (on_refusal: Outcome) (on_permission: Outcome)

record provider =
  pv_Prepare :: "string \<Rightarrow> string \<Rightarrow> Envelope \<Rightarrow> Plan outcome"
  pv_Commit :: "Plan \<Rightarrow> commit_call"
  pv_Observe :: "Plan \<Rightarrow> Outcome \<Rightarrow> Outcome"
  pv_PrepareRollback :: "Plan \<Rightarrow> string \<Rightarrow> Plan outcome"

section \<open>State of an execution\<close>

definition stateFor :: "moment \<Rightarrow> Execution \<Rightarrow> Outcome \<Rightarrow> string" where
  "stateFor now r oc =
     (if oc_Commit oc = ''rejected'' then ''failed''
      else if oc_Commit oc = ''committed'' \<and> oc_Applied oc = ''applied'' then ''succeeded''
      else if oc_Commit oc = ''committed'' \<and> oc_Applied oc = ''pending'' \<and> x_State r \<noteq> ''recovery-required'' \<and>
         now - x_Created r < AppliedFor
      then ''applying''
      else ''recovery-required'')"

definition sameOutcome :: "Outcome \<Rightarrow> Outcome \<Rightarrow> bool" where
  "sameOutcome p q \<longleftrightarrow> p\<lparr>oc_Observed := None\<rparr> = q\<lparr>oc_Observed := None\<rparr>"

definition next_record_sequence :: "string \<Rightarrow> int outcome" where
  "next_record_sequence s =
     (case ParseInt 64 s of
        None \<Rightarrow> Inl ErrUnavailable
      | Some n \<Rightarrow> if n \<le> 0 \<or> n = 2 ^ 63 - 1 then Inl ErrUnavailable else Inr (n + 1))"

definition transaction_ref :: "string \<Rightarrow> Ref" where
  "transaction_ref x = \<lparr>ref_Kind = ''transaction'', ref_ID = x\<rparr>"

definition audit_record :: "string \<Rightarrow> string \<Rightarrow> string \<Rightarrow> bool \<Rightarrow> moment \<Rightarrow> Execution \<Rightarrow> Evidence_Record" where
  "audit_record op result reason critical now r =
     \<lparr>ev_RelatedObjects = interfaceEvidenceObjects r, ev_ID = '''', ev_Collection = ''audit'', ev_Sequence = '''',
      ev_Origin = ''Manager'', ev_Actor = '''', ev_Credential = '''', ev_Capability = '''', ev_Operation = op,
      ev_Object = Some (transaction_ref (x_ID r)), ev_ChangeSet = az_ChangeSet (x_Authorization r),
      ev_Transaction = x_ID r, ev_Job = x_JobID r, ev_RequestID = '''', ev_RequestDomain = '''',
      ev_RequestEpoch = '''', ev_Correlation = '''', ev_Result = result, ev_Reason = reason, ev_Created = now,
      ev_DedupKey = '''', ev_Critical = critical\<rparr>"

definition record_request :: "Execution \<Rightarrow> Request" where
  "record_request r = \<lparr>rq_Principal = x_Owner r, rq_Credential = az_Credential (x_Authorization r),
     rq_Capability = ''configuration.apply'', rq_Operation = ''createTransaction'', rq_Domain = ''management'',
     rq_Epoch = az_Epoch (x_Authorization r), rq_ID = x_RequestID r, rq_Correlation = x_Correlation r\<rparr>"

text \<open>The job phase of a field transition: an execution under a safe apply leaves the decision to it.\<close>

definition field_phase :: "bool \<Rightarrow> Job \<Rightarrow> string \<Rightarrow> Outcome \<Rightarrow> Job_Transition" where
  "field_phase safe job state oc =
     (let (jobState, dispatch, business) = (''running'', ''sent'', ''unknown'');
          jobState = (if state = ''recovery-required'' then ''needs-attention'' else jobState);
          dispatch = (if oc_Commit oc = ''unknown'' then ''unknown'' else dispatch);
          (jobState, dispatch, business) =
            (if oc_Commit oc = ''rejected'' then (''failed'', ''completed'', ''failure'') else (jobState, dispatch, business));
          (jobState, dispatch, business) =
            (if state = ''succeeded'' then (''succeeded'', ''completed'', ''success'') else (jobState, dispatch, business));
          (jobState, business) =
            (if safe
             then (if state = ''recovery-required'' \<or> j_State job = ''needs-attention'' then ''needs-attention'' else ''running'', ''unknown'')
             else (jobState, business))
      in \<lparr>jt_State = jobState, jt_Dispatch = dispatch, jt_Business = business, jt_Commit = oc_Commit oc,
          jt_Applied = oc_Applied oc, jt_Confirmation = '''', jt_Reason = oc_Reason oc\<rparr>)"

definition settle_fields :: "string \<Rightarrow> journal_db \<Rightarrow> journal_db" where
  "settle_fields x d = unprotect x (RetirePending x d)"

definition changed :: "Execution \<Rightarrow> int \<Rightarrow> string \<Rightarrow> Outcome \<Rightarrow> moment \<Rightarrow> Execution" where
  "changed r n state oc now = r\<lparr>x_Sequence := FormatInt n, x_State := state, x_Outcome := oc, x_Updated := now\<rparr>"

definition write_field :: "bool \<Rightarrow> Execution \<Rightarrow> int \<Rightarrow> journal_db \<Rightarrow> journal_db" where
  "write_field safe r n d =
     (let d = d\<lparr>db_journal := update_row (x_ID r) (n, x_State r) (db_journal d),
                db_execs := update_row (x_ID r) r (db_execs d)\<rparr>
      in if terminal r \<and> \<not> safe then settle_fields (x_ID r) d else d)"

definition transition ::
    "engine_ambient \<Rightarrow> Execution \<Rightarrow> Outcome \<Rightarrow> string \<Rightarrow> journal_db \<Rightarrow> (Execution \<times> journal_db) outcome" where
  "transition a r0 oc state d =
     then_do (next_record_sequence (x_Sequence r0)) (\<lambda>n.
     let now = am_now a 0; r = changed r0 n state oc now; safe = (map_of (db_safes d) (x_ID r0) \<noteq> None) in
     then_do (encode a r) (\<lambda>_.
     then_do (LoadJob (x_JobID r) d) (\<lambda>job.
     then_do (ChangeJob (WithRequest (record_request r) (later 1 a)) (j_ID job) (j_Sequence job)
                (field_phase safe job state oc) now d) (\<lambda>(_, d).
     then_do (Append (WithRequest (record_request r) (later 3 a))
                (audit_record ''field-execution-state'' state (oc_Reason oc) True now r) (write_field safe r n d)) (\<lambda>(_, d).
     Inr (r, d))))))"

definition outcome_reason :: "moment \<Rightarrow> Execution \<Rightarrow> string \<Rightarrow> Outcome \<Rightarrow> Outcome" where
  "outcome_reason now r state oc =
     (if state = ''recovery-required'' \<and> oc_Applied oc = ''pending'' \<and> AppliedFor \<le> now - x_Created r
      then oc\<lparr>oc_Reason := ''applied-budget-exhausted''\<rparr> else oc)"

definition saveOutcome_tx :: "engine_ambient \<Rightarrow> string \<Rightarrow> Outcome \<Rightarrow> journal_db \<Rightarrow> (unit \<times> journal_db) outcome" where
  "saveOutcome_tx a x oc d =
     then_do (load x d) (\<lambda>r.
     if terminal r then Inr ((), d)
     else let go = (let state = stateFor (am_now a 0) r oc; oc = outcome_reason (am_now a 1) r state oc in
                    if sameOutcome (x_Outcome r) oc \<and> x_State r = state then Inr ((), d)
                    else then_do (transition (forth 2 a) r oc state d) (\<lambda>(_, d). Inr ((), d)))
          in case loadSafety x d of
               Inr s \<Rightarrow> if Terminal_safety (sf_State s) then Inr ((), d) else go
             | Inl e \<Rightarrow> if e \<noteq> ErrNoRows then Inl e else go)"

definition saveOutcome :: "fate \<Rightarrow> engine_ambient \<Rightarrow> string \<Rightarrow> Outcome \<Rightarrow> journal_db \<Rightarrow> unit outcome \<times> journal_db" where
  "saveOutcome f a x oc d = store_write f (saveOutcome_tx a x oc) d"

section \<open>Admission\<close>

definition rollbackMarker :: "engine_ambient \<Rightarrow> engine_config \<Rightarrow> string \<Rightarrow> string \<Rightarrow> string" where
  "rollbackMarker a g x marker =
     am_hmac a (ec_Key g) (GStr (''ovs-webui/rollback/v1'' @ [CHR 0x00] @ x @ [CHR 0x00] @ marker))"

definition commitMarker :: "engine_ambient \<Rightarrow> engine_config \<Rightarrow> string \<Rightarrow> string \<Rightarrow> string" where
  "commitMarker a g x scope =
     am_hmac a (ec_Key g) (GStr (''ovs-webui/field-commit/v1'' @ [CHR 0x00] @ x @ [CHR 0x00] @ scope))"

definition zero_safety :: Safety where
  "zero_safety = \<lparr>sf_LastWall = 0, sf_State = '''', sf_Reason = '''', sf_Domain = '''', sf_Reservation = '''',
     sf_Fingerprint = '''', sf_Trigger = '''',
     sf_Preparation = \<lparr>dl_Boot = '''', dl_StartNS = 0, dl_EndNS = 0, dl_Started = 0, dl_Wall = 0\<rparr>,
     sf_Confirmation = None, sf_HealthyAt = None, sf_ProbeFailures = 0, sf_Rollback = None,
     sf_Outcome = plain_outcome '''' '''' ''''\<rparr>"

definition open_domain :: "string \<Rightarrow> safe_row \<Rightarrow> bool" where
  "open_domain domain s \<longleftrightarrow> sf_Domain (sr_Doc s) = domain \<and> \<not> Terminal_safety (sf_State (sr_Doc s))"

definition admitSafety ::
    "engine_ambient \<Rightarrow> engine_config \<Rightarrow> Execution \<Rightarrow> safe_admission \<Rightarrow> journal_db \<Rightarrow> journal_db outcome" where
  "admitSafety a g r s d =
     (if (x_Owner r, ac_Epoch (ad_Command s), x_RequestID r) \<in> set (db_resolutions d)
      then failed 409 ''SAFE_APPLY_ALREADY_RESOLVED''
      else if count_rows (open_domain (ec_Domain g)) (db_safes d) \<noteq> 0 then failed 409 ''MANAGEMENT_PATH_PROTECTED''
      else then_do (am_authority a 0 (x_Authorization r)) (\<lambda>_.
      let c = am_clock a 0 in
      if ck_BootID c = '''' then failed 503 ''SAFE_CLOCK_UNAVAILABLE''
      else let doc = zero_safety\<lparr>sf_State := ''preparing'', sf_Reason := ''checkpoint-durable'', sf_Domain := ec_Domain g,
                 sf_Reservation := ad_Reservation s, sf_Preparation := NewDeadline c PreparationBudget,
                 sf_Fingerprint := am_sha256 a (case ac_Payload (ad_Command s) of None \<Rightarrow> GNil | Some p \<Rightarrow> p)\<rparr>
           in if list_ex (\<lambda>(k, q). sr_Owner q = x_Owner r \<and> sr_Epoch q = ac_Epoch (ad_Command s) \<and>
                   sr_Request q = x_RequestID r) (db_safes d)
              then Inl ErrConflict
              else then_do (insert_row (x_ID r) \<lparr>sr_Owner = x_Owner r, sr_Epoch = ac_Epoch (ad_Command s),
                     sr_Request = x_RequestID r, sr_Doc = doc\<rparr> (db_safes d)) (\<lambda>rows. Inr (d\<lparr>db_safes := rows\<rparr>))))"

definition new_execution ::
    "engine_ambient \<Rightarrow> string \<Rightarrow> Execution_Request \<Rightarrow> Authorization \<Rightarrow> Plan \<Rightarrow> Execution" where
  "new_execution a x q c p =
     \<lparr>x_ID = x, x_Sequence = ''1'', x_State = ''admitted'', x_Owner = az_Owner c, x_RequestID = xr_ID q,
      x_JobID = new_id a 0, x_Correlation = rq_Correlation (am_request a), x_ValidationID = xr_ValidationID q,
      x_CandidateID = c_ID (e_Candidate (xr_Envelope q)), x_CandidateRevision = c_Revision (e_Candidate (xr_Envelope q)),
      x_Generation = pl_Generation p, x_Created = am_now a 0, x_Updated = am_now a 0,
      x_Outcome = plain_outcome ''not-sent'' ''not-applied'' ''admitted'', x_Authorization = c, x_Plan = p\<rparr>"

definition field_job :: "Execution \<Rightarrow> Job" where
  "field_job r =
     \<lparr>j_RelatedObjects = interfaceEvidenceObjects r, j_ID = x_JobID r, j_Sequence = '''', j_State = ''running'',
      j_Operation = '''', j_Owner = '''', j_Capability = '''', j_Resource = Some (transaction_ref (x_ID r)),
      j_Correlation = '''', j_RequestID = '''', j_RequestDomain = '''', j_RequestEpoch = '''', j_Credential = '''',
      j_ChangeSet = az_ChangeSet (x_Authorization r), j_Transaction = x_ID r, j_Cancellable = False,
      j_CancelRequested = False, j_Dispatch = ''prepared'', j_Business = '''', j_Commit = '''', j_Applied = ''unknown'',
      j_Confirmation = '''', j_Reason = ''execution-admitted'', j_Handler = ''field-execution'', j_Created = x_Created r,
      j_Updated = 0, j_Completed = None\<rparr>"

definition insert_anchor :: "string \<times> string \<times> string \<times> string \<Rightarrow> journal_db \<Rightarrow> journal_db outcome" where
  "insert_anchor n d =
     (case n of (w, x, y, z) \<Rightarrow>
        if list_ex (\<lambda>(w', x', y', z'). w' = w \<or> x' = x \<or> y' = y \<or> z' = z) (db_anchors d) then Inl ErrConflict
        else Inr (d\<lparr>db_anchors := db_anchors d @ [n]\<rparr>))"

definition accepted :: "string \<Rightarrow> string \<Rightarrow> bool \<Rightarrow> Mutation" where
  "accepted x job done = \<lparr>mn_Status = 202, mn_Body = Some (GObj []), mn_BodyBytes = 2,
     mn_Resource = Some (transaction_ref x), mn_Job = Some \<lparr>ref_Kind = ''job'', ref_ID = job\<rparr>, mn_Terminal = done,
     mn_SecretResponse = False\<rparr>"

definition execution_room :: "journal_db \<Rightarrow> bool" where
  "execution_room d \<longleftrightarrow> length (db_execs d) < MaxRecords \<and> length (filter (unsettled d) (db_execs d)) < MaxUnsettled"

text \<open>The reservations of an admission: journal anchor, identities and protections.\<close>

definition reserve ::
    "engine_ambient \<Rightarrow> engine_config \<Rightarrow> Execution \<Rightarrow> journal_db \<Rightarrow> journal_db outcome" where
  "reserve a g r d =
     then_do (insert_anchor (new_id a 1, new_id a 2, x_ID r, x_Correlation r) d) (\<lambda>d.
     then_do (insert_row (x_ID r) (1, x_State r) (db_journal d)) (\<lambda>js.
     then_do (ReserveCreations (x_ID r) (pl_Marker (x_Plan r)) (plan_intents r) (d\<lparr>db_journal := js\<rparr>)) (\<lambda>d.
     then_do (ReserveRestorations (x_ID r) (rollbackMarker a g (x_ID r) (pl_Marker (x_Plan r))) (plan_intents r) d) (\<lambda>d.
     then_do (protect_intents (x_ID r) (x_Plan r) (plan_intents r) (db_protections d)) (\<lambda>ps.
     Inr (d\<lparr>db_protections := ps\<rparr>))))))"

text \<open>The mutation of \<open>submit\<close>. Identities and resources are reserved for the intents of the
  submitted envelope, with the marker, root and graph bindings of the prepared plan.\<close>

definition admit ::
    "engine_config \<Rightarrow> string \<Rightarrow> Execution_Request \<Rightarrow> Authorization \<Rightarrow> Authorization outcome \<Rightarrow> Plan \<Rightarrow>
     safe_admission option \<Rightarrow> engine_ambient \<Rightarrow> journal_db \<Rightarrow> (Mutation \<times> journal_db) outcome" where
  "admit g x q c fresh p safe a d =
     then_do fresh (\<lambda>c'.
     if c' \<noteq> c then failed 409 ''EXECUTION_AUTHORITY_CHANGED''
     else if \<not> execution_room d then failed 429 ''EXECUTION_CAPACITY_REACHED''
     else let r = new_execution a x q c p in
     then_do (encode a r) (\<lambda>_.
     then_do (reserve a g (r\<lparr>x_Plan := p\<lparr>pl_Envelope := xr_Envelope q\<rparr>\<rparr>) d) (\<lambda>d.
     then_do (CreateJob (later 3 a) (field_job r) d) (\<lambda>(_, d).
     then_do (insert_row x r (db_execs d)) (\<lambda>rows.
     let d = d\<lparr>db_execs := rows\<rparr> in
     then_do (case safe of None \<Rightarrow> Inr d | Some s \<Rightarrow> admitSafety a g r s d) (\<lambda>d.
     then_do (Append (later 7 a) (audit_record ''execute-fields'' ''admitted'' '''' False (x_Created r) r) d) (\<lambda>(_, d).
     Inr (accepted x (x_JobID r) False, d))))))))"

section \<open>The engine\<close>

text \<open>The engine in memory: the claimed transactions, the asynchronous workers that hold a claim, and
  the log of the plans a provider was permitted to send.\<close>

datatype direction = Forward | Compensation

type_synonym dispatched = "string \<times> direction \<times> Plan"

record worker =
  wk_ID :: string
  wk_Authorization :: Authorization
  wk_Plan :: Plan
  wk_Safe :: bool

record engine =
  en_db :: journal_db
  en_active :: "string list"
  en_workers :: "worker list"
  en_sent :: "dispatched list"

definition claim :: "string \<Rightarrow> engine \<Rightarrow> engine option" where
  "claim x e = (if x \<in> set (en_active e) then None else Some (e\<lparr>en_active := x # en_active e\<rparr>))"

definition release :: "string \<Rightarrow> engine \<Rightarrow> engine" where
  "release x e = e\<lparr>en_active := removeAll x (en_active e)\<rparr>"

text \<open>The environment of a running worker: the lease and authority it reloads before sending.\<close>

record worker_env =
  we_lease :: "unit outcome"
  we_fresh :: "Authorization outcome"

definition dispatch_tx ::
    "engine_ambient \<Rightarrow> worker \<Rightarrow> Authorization outcome \<Rightarrow> journal_db \<Rightarrow> (Execution \<times> journal_db) outcome" where
  "dispatch_tx a w fresh d =
     then_do fresh (\<lambda>c.
     if c \<noteq> wk_Authorization w \<or> \<not> am_now a 0 < az_Expires c then failed 409 ''EXECUTION_AUTHORITY_CHANGED''
     else then_do (load (wk_ID w) d) (\<lambda>r.
     if x_State r \<noteq> ''admitted'' then failed 409 ''EXECUTION_ALREADY_DISPATCHED''
     else then_do (if wk_Safe w
                   then then_do (loadSafety (wk_ID w) d) (\<lambda>s.
                        if sf_State s \<noteq> ''preparing'' \<or> Expired (sf_Preparation s) (am_clock a 0)
                        then failed 409 ''SAFE_APPLY_EXPIRED'' else Inr ())
                   else Inr ()) (\<lambda>_.
          transition (forth 1 a) r (plain_outcome ''unknown'' ''unknown'' ''dispatch-intent-durable'') ''committing'' d)))"

definition beforeSend ::
    "fate \<Rightarrow> engine_ambient \<Rightarrow> worker \<Rightarrow> worker_env \<Rightarrow> journal_db \<Rightarrow> Execution outcome \<times> journal_db" where
  "beforeSend f a w v d =
     (case we_lease v of Inl e \<Rightarrow> (Inl e, d) | Inr _ \<Rightarrow> store_write f (dispatch_tx a w (we_fresh v)) d)"

text \<open>\<open>run\<close> after the provider has answered: the outcome is made durable before it is observed again.\<close>

definition run_finish ::
    "(nat \<Rightarrow> fate) \<Rightarrow> engine_ambient \<Rightarrow> provider \<Rightarrow> string \<Rightarrow> Plan \<Rightarrow> Outcome \<Rightarrow> journal_db \<Rightarrow> unit outcome \<times> journal_db" where
  "run_finish f a p x plan result d =
     (case saveOutcome (f 1) (forth 20 a) x result d of
        (Inl e, d) \<Rightarrow> (Inl e, d)
      | (Inr _, d) \<Rightarrow>
          if oc_Commit result = ''committed''
          then saveOutcome (f 2) (forth 40 a) x (pv_Observe p plan result) d
          else (Inr (), d))"

definition run ::
    "(nat \<Rightarrow> fate) \<Rightarrow> engine_ambient \<Rightarrow> provider \<Rightarrow> worker_env \<Rightarrow> worker \<Rightarrow> engine \<Rightarrow> unit outcome \<times> engine" where
  "run f a p v w e =
     (case pv_Commit p (wk_Plan w) of
        Withheld result \<Rightarrow>
          (case run_finish f a p (wk_ID w) (wk_Plan w) result (en_db e) of (r, d) \<Rightarrow> (r, e\<lparr>en_db := d\<rparr>))
      | Asked refused permitted \<Rightarrow>
          (case beforeSend (f 0) a w v (en_db e) of
             (Inl _, d) \<Rightarrow>
               (case run_finish f a p (wk_ID w) (wk_Plan w) refused d of (r, d) \<Rightarrow> (r, e\<lparr>en_db := d\<rparr>))
           | (Inr _, d) \<Rightarrow>
               (case run_finish f a p (wk_ID w) (wk_Plan w) permitted d of
                  (r, d) \<Rightarrow> (r, e\<lparr>en_db := d, en_sent := en_sent e @ [(wk_ID w, Forward, wk_Plan w)]\<rparr>))))"

definition work :: "(nat \<Rightarrow> fate) \<Rightarrow> engine_ambient \<Rightarrow> provider \<Rightarrow> worker_env \<Rightarrow> worker \<Rightarrow> engine \<Rightarrow> engine" where
  "work f a p v w e =
     (let e = snd (run f a p v w e) in release (wk_ID w) (e\<lparr>en_workers := removeAll w (en_workers e)\<rparr>))"

section \<open>Submission\<close>

text \<open>A submission with the answers it meets; \<open>su_payload\<close> is the JSON document of the request.\<close>

record submission =
  su_request :: Execution_Request
  su_payload :: any
  su_payload_bytes :: nat
  su_replay_auth :: "Authorization outcome"
  su_reauth :: "unit outcome"
  su_auth :: "Authorization outcome"
  su_fresh :: "Authorization outcome"
  su_lease :: "unit outcome option"
  su_writable :: bool
  su_safe :: "safe_admission option"
  su_worker :: worker_env

definition safetyReady :: "engine_ambient \<Rightarrow> bool \<Rightarrow> unit outcome" where
  "safetyReady a available =
     (if \<not> available \<or> ck_BootID (am_clock a 0) = '''' then failed 409 ''SAFE_APPLY_CAPABILITY_UNAVAILABLE''
      else if \<not> am_probe a 0 then failed 409 ''MANAGEMENT_PATH_UNVERIFIED''
      else Inr ())"

definition submit_command :: "submission \<Rightarrow> Authorization \<Rightarrow> Api_Command" where
  "submit_command u c =
     (case su_safe u of
        Some s \<Rightarrow> ad_Command s
      | None \<Rightarrow>
          \<lparr>ac_Principal = az_Owner c, ac_Epoch = az_Epoch c, ac_Domain = ''management'', ac_ID = xr_ID (su_request u),
           ac_Operation = ''createTransaction'', ac_Method = ''POST'', ac_URI = ''/api/v1/transactions'', ac_Precondition = '''',
           ac_Credential = az_Credential c, ac_Capability = ''configuration.apply'',
           ac_Payload = Some (su_payload u), ac_PayloadBytes = su_payload_bytes u, ac_Sensitive = False,
           ac_FingerprintKey = [], ac_SecretResponse = False\<rparr>)"

text \<open>Everything before the admission write: the guards, the replay and the provider's preparation. The command
  keeps the authorization of the replay, the execution has the one that is read after it.\<close>

datatype prepared = Answered "Result outcome" | Ready Api_Command Authorization Plan

definition submit_prepare ::
    "engine_ambient \<Rightarrow> engine_config \<Rightarrow> provider \<Rightarrow> submission \<Rightarrow> string \<Rightarrow> journal_db \<Rightarrow> prepared" where
  "submit_prepare a g p u x d =
     (if MaxDocument < h_envelope_bytes (am_host a) (xr_Envelope (su_request u)) \<or> \<not> ManagementID (xr_ValidationID (su_request u))
      then Answered (failed 422 ''INVALID_EXECUTION'')
      else case su_replay_auth u of
        Inl e \<Rightarrow> Answered (Inl e)
      | Inr c0 \<Rightarrow>
        (case Replay a (submit_command u c0) (su_reauth u) d of
           Inl e \<Rightarrow> Answered (Inl e)
         | Inr (Some prior) \<Rightarrow> Answered (Inr prior)
         | Inr None \<Rightarrow>
           (case su_lease u of
              None \<Rightarrow> Answered (failed 409 ''SAFE_APPLY_REQUIRED'')
            | Some (Inl e) \<Rightarrow> Answered (Inl e)
            | Some (Inr _) \<Rightarrow>
              (case (if su_safe u \<noteq> None then safetyReady a (su_writable u) else Inr ()) of
                 Inl e \<Rightarrow> Answered (Inl e)
               | Inr _ \<Rightarrow>
                 (case su_auth u of
                    Inl e \<Rightarrow> Answered (Inl e)
                  | Inr c \<Rightarrow>
                    (case pv_Prepare p x (commitMarker a g x (az_Scope c)) (xr_Envelope (su_request u)) of
                       Inl e \<Rightarrow> Answered (Inl e)
                     | Inr plan \<Rightarrow> Ready (submit_command u c0) c plan))))))"

definition submit ::
    "(nat \<Rightarrow> fate) \<Rightarrow> engine_ambient \<Rightarrow> engine_config \<Rightarrow> provider \<Rightarrow> submission \<Rightarrow> engine \<Rightarrow> Result outcome \<times> engine" where
  "submit f a g p u e =
     (let x = new_id a 0 in
      case submit_prepare a g p u x (en_db e) of
        Answered r \<Rightarrow> (r, e)
      | Ready command c plan \<Rightarrow>
          (case claim x e of
             None \<Rightarrow> (failed 409 ''EXECUTION_BUSY'', e)
           | Some e \<Rightarrow>
               (case Execute (f 3) (forth 1 a) ''management'' command (su_reauth u) (\<lambda>_. su_reauth u)
                       (admit g x (su_request u) c (su_fresh u) plan (su_safe u)) (en_db e) of
                  (Inl err, d) \<Rightarrow> (Inl err, release x (e\<lparr>en_db := d\<rparr>))
                | (Inr out, d) \<Rightarrow>
                    let e = e\<lparr>en_db := d\<rparr>;
                        w = \<lparr>wk_ID = x, wk_Authorization = c, wk_Plan = plan, wk_Safe = (su_safe u \<noteq> None)\<rparr> in
                    if rs_Replayed out then (Inr out, release x e)
                    else if su_safe u \<noteq> None then (Inr out, e\<lparr>en_workers := en_workers e @ [w]\<rparr>)
                    else (case run f (forth 60 a) p (su_worker u) w e of
                            (Inl err, e) \<Rightarrow> (Inl err, release x e)
                          | (Inr _, e) \<Rightarrow> (Inr out, release x e)))))"

definition Submit ::
    "(nat \<Rightarrow> fate) \<Rightarrow> engine_ambient \<Rightarrow> engine_config \<Rightarrow> provider \<Rightarrow> submission \<Rightarrow> engine \<Rightarrow> Result outcome \<times> engine" where
  "Submit f a g p u e = submit f a g p (u\<lparr>su_safe := None\<rparr>) e"

definition SubmitSafe ::
    "(nat \<Rightarrow> fate) \<Rightarrow> engine_ambient \<Rightarrow> engine_config \<Rightarrow> provider \<Rightarrow> submission \<Rightarrow> safe_admission \<Rightarrow> engine \<Rightarrow>
     Result outcome \<times> engine" where
  "SubmitSafe f a g p u s e =
     (if \<not> ManagementID (ad_Reservation s) then (failed 422 ''RESERVATION_REQUIRED'', e)
      else submit f a g p (u\<lparr>su_safe := Some s\<rparr>) e)"

section \<open>Recovery\<close>

text \<open>\<open>Reconcile\<close>: observation only. A transaction whose worker still holds the claim is left alone.\<close>

definition reconcile_db ::
    "fate \<Rightarrow> engine_ambient \<Rightarrow> provider \<Rightarrow> string \<Rightarrow> journal_db \<Rightarrow> unit outcome \<times> journal_db" where
  "reconcile_db f a p x d =
     (case Read_execution x d of
        Inl e \<Rightarrow> (Inl e, d)
      | Inr r \<Rightarrow>
          if terminal r then (Inr (), d)
          else if x_State r = ''admitted''
          then saveOutcome f a x (plain_outcome ''rejected'' ''not-applied'' ''recovered-before-dispatch'') d
          else saveOutcome f a x (pv_Observe p (x_Plan r) (x_Outcome r)) d)"

definition Reconcile :: "fate \<Rightarrow> engine_ambient \<Rightarrow> provider \<Rightarrow> string \<Rightarrow> engine \<Rightarrow> unit outcome \<times> engine" where
  "Reconcile f a p x e =
     (case claim x e of
        None \<Rightarrow> (Inr (), e)
      | Some e \<Rightarrow> (case reconcile_db f a p x (en_db e) of (r, d) \<Rightarrow> (r, release x (e\<lparr>en_db := d\<rparr>))))"

text \<open>The loop of \<open>Recover\<close> goes on after \<open>context.Canceled\<close> and then ends with \<open>ctx.Err()\<close>: a call reports it
  only when the context is cancelled, and a cancelled context stays so.\<close>

fun reconcile_all ::
    "(nat \<Rightarrow> fate) \<Rightarrow> (nat \<Rightarrow> engine_ambient) \<Rightarrow> (nat \<Rightarrow> provider) \<Rightarrow> nat \<Rightarrow> string list \<Rightarrow> engine \<Rightarrow> unit outcome \<times> engine" where
  "reconcile_all f a p n [] e = (Inr (), e)"
| "reconcile_all f a p n (x # xs) e =
     (case Reconcile (f n) (a n) (p n) x e of
        (Inr _, e) \<Rightarrow> reconcile_all f a p (n + 1) xs e
      | (Inl err, e) \<Rightarrow>
          if err = ErrCanceled
          then (case reconcile_all f a p (n + 1) xs e of (Inr _, e) \<Rightarrow> (Inl ErrCanceled, e) | r \<Rightarrow> r)
          else (Inl err, e))"

definition recoverable :: "journal_db \<Rightarrow> string list" where
  "recoverable d = take (MaxUnsettled + 1)
     (map fst (sort_key (\<lambda>(x, r). (UnixMilli (x_Updated r), x)) (filter (unsettled d) (db_execs d))))"

definition Recover ::
    "bool \<Rightarrow> (nat \<Rightarrow> fate) \<Rightarrow> (nat \<Rightarrow> engine_ambient) \<Rightarrow> (nat \<Rightarrow> provider) \<Rightarrow> engine \<Rightarrow> unit outcome \<times> engine" where
  "Recover cancelled f a p e =
     (let ids = recoverable (en_db e) in
      if MaxUnsettled < length ids then (failed 503 ''EXECUTION_RECOVERY_BUDGET'', e)
      else case reconcile_all f a p 0 ids e of
             (Inl err, e) \<Rightarrow> (Inl err, e)
           | (Inr _, e) \<Rightarrow> (if cancelled then Inl ErrCanceled else Inr (), e))"

end
