(* ===== verification/Safe_Apply.thy ===== *)
theory Safe_Apply
  imports Executions
begin

text \<open>
  Safe Apply (\<^verbatim>\<open>internal/repository/executions/safety.go\<close>): every state change of a safe apply is one
  writer transaction that also carries its journal row, job, protections, checkpoint and audit record;
  the watchdog step observes, opens and refreshes the confirmation window and compensates; a decision
  confirms or requests a rollback under the journal revision it was made for.
\<close>

section \<open>Configuration\<close>

definition ConfigureSafety :: "bool \<Rightarrow> string option \<Rightarrow> bool \<Rightarrow> int \<Rightarrow> 8 word list \<Rightarrow> engine_config outcome" where
  "ConfigureSafety provider probe authority window key =
     (case probe of
        None \<Rightarrow> failed 409 ''SAFE_APPLY_CAPABILITY_UNAVAILABLE''
      | Some domain \<Rightarrow>
          if \<not> provider \<or> domain = '''' \<or> \<not> authority then failed 409 ''SAFE_APPLY_CAPABILITY_UNAVAILABLE''
          else let window = (if window = 0 then ConfirmationWindow else window) in
               if window < seconds 30 \<or> seconds 600 < window then Inl ErrInvalid
               else Inr \<lparr>ec_Domain = domain, ec_Window = window, ec_Key = key\<rparr>)"

definition RequireSafetyConfiguration :: "bool \<Rightarrow> journal_db \<Rightarrow> unit outcome" where
  "RequireSafetyConfiguration configured d =
     (if count_rows (\<lambda>s. \<not> Terminal_safety (sf_State (sr_Doc s))) (db_safes d) \<noteq> 0 \<and> \<not> configured
      then failed 503 ''SAFE_APPLY_RECOVERY_CONFIGURATION_REQUIRED'' else Inr ())"

section \<open>One durable change\<close>

definition safe_phase :: "Job \<Rightarrow> Execution \<Rightarrow> Safety \<Rightarrow> Job_Transition" where
  "safe_phase job r s =
     (let (state, business, confirmation) = (''running'', ''unknown'', ''pending'');
          state = (if sf_State s = ''recovery-required'' \<or> sf_State s = ''rollback-conflict'' \<or> j_State job = ''needs-attention''
                   then ''needs-attention'' else state);
          (state, business, confirmation) =
            (if sf_State s = ''confirmed'' then (''succeeded'', ''success'', ''confirmed'') else (state, business, confirmation));
          (state, business, confirmation) =
            (if sf_State s = ''rolled-back'' \<or> sf_State s = ''not-committed'' then (''failed'', ''failure'', ''expired'')
             else (state, business, confirmation));
          oc = (if sf_Rollback s \<noteq> None then sf_Outcome s else x_Outcome r)
      in \<lparr>jt_State = state, jt_Dispatch = '''', jt_Business = business, jt_Commit = oc_Commit oc, jt_Applied = oc_Applied oc,
          jt_Confirmation = confirmation, jt_Reason = sf_Reason s\<rparr>)"

definition set_safety :: "string \<Rightarrow> Safety \<Rightarrow> journal_db \<Rightarrow> journal_db" where
  "set_safety x s d =
     (case map_of (db_safes d) x of
        None \<Rightarrow> d | Some row \<Rightarrow> d\<lparr>db_safes := update_row x (row\<lparr>sr_Doc := s\<rparr>) (db_safes d)\<rparr>)"

definition checkpoint :: "Execution \<Rightarrow> Safety \<Rightarrow> journal_db \<Rightarrow> journal_db" where
  "checkpoint r s d =
     (if sf_State s = ''confirmed''
      then d\<lparr>db_last_known_good := Some (x_ID r, x_Generation r, UnixMilli (x_Updated r), x_Plan r)\<rparr> else d)"

definition safety_record :: "Execution \<Rightarrow> Safety \<Rightarrow> Evidence_Record" where
  "safety_record r s =
     (audit_record ''safe-apply-state'' (sf_State s) (sf_Reason s) True (x_Updated r) r)
       \<lparr>ev_Actor := x_Owner r, ev_Credential := az_Credential (x_Authorization r), ev_Capability := ''configuration.apply'',
        ev_Correlation := x_Correlation r, ev_RequestID := x_RequestID r, ev_RequestDomain := ''management'',
        ev_RequestEpoch := az_Epoch (x_Authorization r)\<rparr>"

text \<open>The rows written before the job changes, and what a settled or confirmed apply adds to them.\<close>

definition write_safety :: "Execution \<Rightarrow> Safety \<Rightarrow> int \<Rightarrow> journal_db \<Rightarrow> journal_db" where
  "write_safety r s n d =
     (set_safety (x_ID r) s d)\<lparr>db_execs := update_row (x_ID r) r (db_execs d),
        db_journal := update_row (x_ID r) (n, sf_State s) (db_journal d)\<rparr>"

definition close_safety :: "Execution \<Rightarrow> Safety \<Rightarrow> journal_db \<Rightarrow> journal_db" where
  "close_safety r s d = checkpoint r s (if Terminal_safety (sf_State s) then settle_fields (x_ID r) d else d)"

definition updateSafety :: "engine_ambient \<Rightarrow> Execution \<Rightarrow> Safety \<Rightarrow> journal_db \<Rightarrow> (unit \<times> journal_db) outcome" where
  "updateSafety a r0 s d =
     then_do (next_record_sequence (x_Sequence r0)) (\<lambda>n.
     let r = changed r0 n (x_State r0) (x_Outcome r0) (ck_Wall (am_clock a 0)) in
     if 640000 < am_safe_bytes a s then Inl ErrUnavailable
     else then_do (encode a r) (\<lambda>_.
     then_do (LoadJob (x_JobID r) d) (\<lambda>job.
     then_do (ChangeJob a (j_ID job) (j_Sequence job) (safe_phase job r s) (x_Updated r) (write_safety r s n d)) (\<lambda>(_, d).
     then_do (Append (later 2 a) (safety_record r s) (close_safety r s d)) (\<lambda>(_, d). Inr ((), d))))))"

definition saveSafety_tx :: "engine_ambient \<Rightarrow> Execution \<Rightarrow> Safety \<Rightarrow> journal_db \<Rightarrow> (unit \<times> journal_db) outcome" where
  "saveSafety_tx a r s d =
     then_do (load (x_ID r) d) (\<lambda>current.
     if x_Sequence current \<noteq> x_Sequence r then failed 409 ''TRANSACTION_VERSION_CHANGED''
     else updateSafety a current s d)"

definition saveSafety ::
    "fate \<Rightarrow> engine_ambient \<Rightarrow> Execution \<Rightarrow> Safety \<Rightarrow> journal_db \<Rightarrow> unit outcome \<times> journal_db" where
  "saveSafety f a r s d = store_write f (saveSafety_tx a r s) d"

definition holdSafety ::
    "fate \<Rightarrow> engine_ambient \<Rightarrow> Execution \<Rightarrow> Safety \<Rightarrow> string \<Rightarrow> string \<Rightarrow> journal_db \<Rightarrow> unit outcome \<times> journal_db" where
  "holdSafety f a r s state reason d =
     (if sf_State s = state \<and> sf_Reason s = reason then (Inr (), d)
      else saveSafety f a r (s\<lparr>sf_State := state, sf_Reason := reason, sf_HealthyAt := None\<rparr>) d)"

section \<open>Compensation\<close>

definition rollback_problem :: "err \<Rightarrow> string \<times> string" where
  "rollback_problem e =
     (case e of
        Problem (Fail _ code) \<Rightarrow>
          if code = ''ROLLBACK_CONFLICT'' then (''rollback-conflict'', ''rollback-conflict'')
          else if code = ''ROLLBACK_GENERATION_CHANGED'' then (''recovery-required'', ''rollback-generation-changed'')
          else (''recovery-required'', ''rollback-provider-unavailable'')
      | _ \<Rightarrow> (''recovery-required'', ''rollback-provider-unavailable''))"

text \<open>After a durable dispatch: the provider's answer is recorded on the journal that was just written.\<close>

definition rollback_answer ::
    "fate \<Rightarrow> engine_ambient \<Rightarrow> string \<Rightarrow> Outcome \<Rightarrow> journal_db \<Rightarrow> unit outcome \<times> journal_db" where
  "rollback_answer f a x oc d =
     (case readSafety x d of
        Inl e \<Rightarrow> (Inl e, d)
      | Inr (r, s) \<Rightarrow>
          let s = s\<lparr>sf_Outcome := oc\<rparr>;
              s = (if oc_Commit oc = ''rejected''
                   then s\<lparr>sf_State := ''rollback-conflict'', sf_Reason := ''rollback-transaction-rejected''\<rparr>
                   else s\<lparr>sf_Reason := oc_Reason oc\<rparr>)
          in saveSafety f a r s d)"

definition dispatch_rollback :: "Plan \<Rightarrow> Safety \<Rightarrow> Safety" where
  "dispatch_rollback p s = s\<lparr>sf_Rollback := Some p, sf_State := ''rolling-back'', sf_Reason := ''rollback-dispatch-durable'',
     sf_HealthyAt := None, sf_Outcome := plain_outcome ''unknown'' ''unknown'' ''rollback-dispatch-durable''\<rparr>"

text \<open>The sent log gains an entry exactly when the provider was permitted to send.\<close>

definition rollback ::
    "(nat \<Rightarrow> fate) \<Rightarrow> engine_ambient \<Rightarrow> engine_config \<Rightarrow> provider \<Rightarrow> Execution \<Rightarrow> Safety \<Rightarrow> journal_db \<Rightarrow>
     unit outcome \<times> journal_db \<times> dispatched list" where
  "rollback f a g p r s d =
     (case pv_PrepareRollback p (x_Plan r) (rollbackMarker a g (x_ID r) (pl_Marker (x_Plan r))) of
        Inl e \<Rightarrow>
          (let (state, reason) = rollback_problem e; (res, d) = holdSafety (f 0) (forth 30 a) r s state reason d
           in (res, d, []))
      | Inr plan \<Rightarrow>
          (let s1 = dispatch_rollback plan s in
           case pv_Commit p plan of
             Withheld _ \<Rightarrow>
               (let (res, d) = holdSafety (f 1) (forth 60 a) r (s1\<lparr>sf_Rollback := None\<rparr>) ''recovery-required'' ''rollback-not-dispatched'' d
                in (res, d, []))
           | Asked refused permitted \<Rightarrow>
               (case saveSafety (f 0) (forth 30 a) r s1 d of
                  (Inl _, d) \<Rightarrow>
                    (let (res, d) = holdSafety (f 1) (forth 60 a) r (s1\<lparr>sf_Rollback := None\<rparr>) ''recovery-required'' ''rollback-not-dispatched'' d
                     in (res, d, []))
                | (Inr _, d) \<Rightarrow>
                    (let (res, d) = rollback_answer (f 1) (forth 60 a) (x_ID r) permitted d
                     in (res, d, [(x_ID r, Compensation, plan)])))))"

section \<open>The watchdog\<close>

text \<open>A dispatched rollback is only observed.\<close>

definition observe_rollback :: "engine_ambient \<Rightarrow> provider \<Rightarrow> Plan \<Rightarrow> Safety \<Rightarrow> Safety" where
  "observe_rollback a p plan s =
     (let oc = pv_Observe p plan (sf_Outcome s); s = s\<lparr>sf_Outcome := oc\<rparr> in
      if oc_Commit oc = ''committed'' \<and> oc_Applied oc = ''applied''
      then (if am_probe a 0
            then s\<lparr>sf_State := ''rolled-back'', sf_Reason := ''rollback-applied-management-reachable'',
                   sf_HealthyAt := Some (ck_Wall (am_clock a 0))\<rparr>
            else s\<lparr>sf_State := ''recovery-required'', sf_Reason := ''rollback-management-path-unverified''\<rparr>)
      else s\<lparr>sf_State := ''recovery-required'', sf_Reason := oc_Reason oc\<rparr>)"

definition window_expired :: "Clock \<Rightarrow> Execution \<Rightarrow> Safety \<Rightarrow> bool" where
  "window_expired c r s \<longleftrightarrow>
     (case sf_Confirmation s of None \<Rightarrow> Expired (sf_Preparation s) c | Some w \<Rightarrow> Expired w c) \<or>
     ck_Wall c < x_Updated r \<or> ck_Wall c < sf_LastWall s"

definition rollback_trigger :: "Clock \<Rightarrow> bool \<Rightarrow> Execution \<Rightarrow> Safety \<Rightarrow> string" where
  "rollback_trigger c authorized r s =
     (if sf_State s = ''rollback-requested'' then ''authorized-rollback-requested''
      else if \<not> authorized then ''apply-authority-revoked''
      else if ck_Wall c < x_Updated r \<or> ck_Wall c < sf_LastWall s then ''clock-reversed''
      else if ck_BootID c \<noteq> dl_Boot (sf_Preparation s) then ''boot-changed''
      else if sf_Confirmation s \<noteq> None then ''confirmation-window-expired''
      else ''preparation-budget-exhausted'')"

definition healthy :: "engine_ambient \<Rightarrow> engine_config \<Rightarrow> Clock \<Rightarrow> Safety \<Rightarrow> Safety" where
  "healthy a g c s = s\<lparr>sf_ProbeFailures := 0, sf_HealthyAt := Some (ck_Wall c), sf_LastWall := ck_Wall c,
     sf_Confirmation := (case sf_Confirmation s of None \<Rightarrow> Some (NewDeadline (am_clock a 1) (ec_Window g)) | w \<Rightarrow> w),
     sf_State := ''awaiting-confirmation'', sf_Reason := ''applied-management-reachable''\<rparr>"

definition refresh_tx :: "Execution \<Rightarrow> Safety \<Rightarrow> journal_db \<Rightarrow> (unit \<times> journal_db) outcome" where
  "refresh_tx r s d =
     then_do (load (x_ID r) d) (\<lambda>current.
     if x_Sequence current \<noteq> x_Sequence r then failed 409 ''TRANSACTION_VERSION_CHANGED''
     else Inr ((), set_safety (x_ID r) s d))"

text \<open>The part of \<open>safetyStep\<close> that follows a committed observation.\<close>

definition watch_committed ::
    "(nat \<Rightarrow> fate) \<Rightarrow> engine_ambient \<Rightarrow> engine_config \<Rightarrow> provider \<Rightarrow> Execution \<Rightarrow> Safety \<Rightarrow> Outcome \<Rightarrow> journal_db \<Rightarrow>
     unit outcome \<times> journal_db \<times> dispatched list" where
  "watch_committed f a g p r s oc d =
     (let c = am_clock a 0; authorized = (am_authority a 0 (x_Authorization r) = Inr ());
          back = (window_expired c r s \<or> \<not> authorized \<or> sf_State s = ''rollback-requested'');
          s = (if sf_Trigger s = '''' \<and> back then s\<lparr>sf_Trigger := rollback_trigger c authorized r s\<rparr> else s);
          quiet = (\<lambda>(res, d). (res, d, [])) in
      if back then rollback f a g p r s d
      else if oc_Applied oc \<noteq> ''applied'' then quiet (holdSafety (f 0) (forth 30 a) r s ''recovery-required'' (oc_Reason oc) d)
      else if \<not> am_probe a 0
      then (let s = s\<lparr>sf_ProbeFailures := sf_ProbeFailures s + 1, sf_HealthyAt := None\<rparr> in
            if 3 \<le> sf_ProbeFailures s then rollback f a g p r (s\<lparr>sf_Trigger := ''management-path-probes-failed''\<rparr>) d
            else quiet (saveSafety (f 0) (forth 30 a) r (s\<lparr>sf_Reason := ''management-path-unverified''\<rparr>) d))
      else let stable = (sf_State s = ''awaiting-confirmation'' \<and> sf_ProbeFailures s = 0 \<and> sf_HealthyAt s \<noteq> None);
               s = healthy a g c s in
           if stable then quiet (store_write (f 0) (refresh_tx r s) d)
           else quiet (saveSafety (f 0) (forth 30 a) r s d))"

definition safety_step_db ::
    "(nat \<Rightarrow> fate) \<Rightarrow> engine_ambient \<Rightarrow> engine_config \<Rightarrow> provider \<Rightarrow> string \<Rightarrow> journal_db \<Rightarrow>
     unit outcome \<times> journal_db \<times> dispatched list" where
  "safety_step_db f a g p x d =
     (let quiet = (\<lambda>(res, d). (res, d, [])) in
      case readSafety x d of
        Inl e \<Rightarrow> (Inl e, d, [])
      | Inr (r, s) \<Rightarrow>
          if Terminal_safety (sf_State s) then (Inr (), d, [])
          else if sf_Domain s \<noteq> ec_Domain g
          then quiet (holdSafety (f 0) a r s ''recovery-required'' ''management-probe-policy-changed'' d)
          else if sf_State s = ''rollback-conflict'' then (Inr (), d, [])
          else case sf_Rollback s of
            Some plan \<Rightarrow>
              (let s' = observe_rollback a p plan s in
               if sf_State s' = sf_State s \<and> sf_Reason s' = sf_Reason s \<and> sameOutcome (sf_Outcome s') (sf_Outcome s)
               then (Inr (), d, [])
               else quiet (saveSafety (f 0) (forth 10 a) r s' d))
          | None \<Rightarrow>
              if oc_Commit (x_Outcome r) = ''rejected''
              then quiet (holdSafety (f 0) a r s ''not-committed'' ''apply-not-committed'' d)
              else if x_State r = ''admitted'' then (Inr (), d, [])
              else let oc = pv_Observe p (x_Plan r) (x_Outcome r) in
                (case saveOutcome (f 2) (forth 100 a) x oc d of
                   (Inl e, d) \<Rightarrow> (Inl e, d, [])
                 | (Inr _, d) \<Rightarrow>
                     (case Read_execution x d of
                        Inl e \<Rightarrow> (Inl e, d, [])
                      | Inr r \<Rightarrow>
                          if oc_Commit oc \<noteq> ''committed''
                          then quiet (holdSafety (f 0) a r s ''recovery-required'' ''apply-outcome-unknown'' d)
                          else watch_committed f a g p r s oc d)))"

definition safetyStep ::
    "(nat \<Rightarrow> fate) \<Rightarrow> engine_ambient \<Rightarrow> engine_config \<Rightarrow> provider \<Rightarrow> string \<Rightarrow> engine \<Rightarrow> unit outcome \<times> engine" where
  "safetyStep f a g p x e =
     (case claim x e of
        None \<Rightarrow> (Inr (), e)
      | Some e \<Rightarrow>
          (case safety_step_db f a g p x (en_db e) of
             (res, d, sent) \<Rightarrow> (res, release x (e\<lparr>en_db := d, en_sent := en_sent e @ sent\<rparr>))))"

fun safety_all ::
    "(nat \<Rightarrow> nat \<Rightarrow> fate) \<Rightarrow> (nat \<Rightarrow> engine_ambient) \<Rightarrow> engine_config \<Rightarrow> (nat \<Rightarrow> provider) \<Rightarrow> nat \<Rightarrow> string list \<Rightarrow> engine \<Rightarrow>
     unit outcome \<times> engine" where
  "safety_all f a g p n [] e = (Inr (), e)"
| "safety_all f a g p n (x # xs) e =
     (case safetyStep (f n) (a n) g (p n) x e of
        (Inl err, e) \<Rightarrow> (Inl err, e) | (Inr _, e) \<Rightarrow> safety_all f a g p (n + 1) xs e)"

definition open_applies :: "journal_db \<Rightarrow> string list" where
  "open_applies d = take 33 (sort (map fst (filter (\<lambda>(x, s). \<not> Terminal_safety (sf_State (sr_Doc s))) (db_safes d))))"

definition SafetyTick ::
    "(nat \<Rightarrow> nat \<Rightarrow> fate) \<Rightarrow> (nat \<Rightarrow> engine_ambient) \<Rightarrow> engine_config option \<Rightarrow> (nat \<Rightarrow> provider) \<Rightarrow> engine \<Rightarrow>
     unit outcome \<times> engine" where
  "SafetyTick f a g p e =
     (case g of
        None \<Rightarrow> (Inr (), e)
      | Some g \<Rightarrow>
          let ids = open_applies (en_db e) in
          if 32 < length ids then (failed 503 ''SAFETY_RECOVERY_BUDGET'', e)
          else safety_all f a g p 0 ids e)"

section \<open>Decisions\<close>

record decision_call =
  de_sequence :: string
  de_decision :: string
  de_check :: "unit outcome"
  de_command :: Api_Command
  de_writable :: bool

definition decision_record :: "string \<Rightarrow> Execution \<Rightarrow> Evidence_Record" where
  "decision_record decision r =
     (audit_record ''safe-apply-decision'' decision '''' True 0 r)\<lparr>ev_ChangeSet := ''''\<rparr>"

text \<open>The mutation of \<open>Decide\<close>; \<open>r\<close> and \<open>s\<close> were read before the transaction, \<open>confirmation\<close> is the
  evidence observed for a confirmation.\<close>

definition decide_tx ::
    "string \<Rightarrow> decision_call \<Rightarrow> Execution \<Rightarrow> Safety \<Rightarrow> Outcome \<Rightarrow> engine_ambient \<Rightarrow> journal_db \<Rightarrow> (Mutation \<times> journal_db) outcome" where
  "decide_tx x v r s confirmation a d =
     then_do (de_check v) (\<lambda>_.
     then_do (load x d) (\<lambda>current.
     if x_Sequence current \<noteq> de_sequence v then failed 409 ''TRANSACTION_VERSION_CHANGED''
     else then_do
       (if de_decision v = ''confirm''
        then (case sf_Confirmation s of
                None \<Rightarrow> Inl ErrUnavailable
              | Some w \<Rightarrow>
                  if Expired w (am_clock a 1) \<or> ck_Wall (am_clock a 2) < x_Updated current \<or> ck_Wall (am_clock a 3) < sf_LastWall s
                  then failed 409 ''DECISION_EXPIRED''
                  else then_do (am_authority a 1 (x_Authorization r)) (\<lambda>_.
                    Inr (current\<lparr>x_Outcome := confirmation, x_State := stateFor (am_now a 0) current confirmation\<rparr>,
                         s\<lparr>sf_State := ''confirmed'', sf_Reason := ''connectivity-confirmed'',
                           sf_HealthyAt := Some (ck_Wall (am_clock a 4))\<rparr>)))
        else if de_decision v = ''rollback''
        then (if sf_Rollback s \<noteq> None \<or> sf_State s = ''rollback-conflict'' then failed 409 ''ROLLBACK_ALREADY_DISPATCHED''
              else Inr (current, s\<lparr>sf_State := ''rollback-requested'', sf_Reason := ''authorized-rollback-requested''\<rparr>))
        else failed 422 ''INVALID_DECISION'') (\<lambda>(current, s).
     then_do (updateSafety (forth 5 a) current s d) (\<lambda>(_, d).
     then_do (Append (later 40 a) (decision_record (de_decision v) r) d) (\<lambda>(_, d).
     Inr (accepted x (x_JobID r) (de_decision v = ''confirm''), d))))))"

definition confirm_ready :: "engine_ambient \<Rightarrow> engine_config \<Rightarrow> Safety \<Rightarrow> bool" where
  "confirm_ready a g s \<longleftrightarrow> sf_State s = ''awaiting-confirmation'' \<and> sf_Domain s = ec_Domain g \<and>
     (case sf_Confirmation s of None \<Rightarrow> False | Some w \<Rightarrow> \<not> Expired w (am_clock a 0))"

definition decide_db ::
    "fate \<Rightarrow> engine_ambient \<Rightarrow> engine_config \<Rightarrow> provider \<Rightarrow> string \<Rightarrow> decision_call \<Rightarrow> journal_db \<Rightarrow> Result outcome \<times> journal_db" where
  "decide_db f a g p x v d =
     (case readSafety x d of
        Inl e \<Rightarrow> (Inl e, d)
      | Inr (r, s) \<Rightarrow>
          if x_Sequence r \<noteq> de_sequence v then (failed 409 ''TRANSACTION_VERSION_CHANGED'', d)
          else if Terminal_safety (sf_State s) then (failed 409 ''TRANSACTION_SETTLED'', d)
          else let oc = pv_Observe p (x_Plan r) (x_Outcome r) in
            if de_decision v = ''confirm'' \<and> \<not> confirm_ready a g s then (failed 409 ''DECISION_EXPIRED'', d)
            else if de_decision v = ''confirm'' \<and> (oc_Commit oc \<noteq> ''committed'' \<or> oc_Applied oc \<noteq> ''applied'' \<or> \<not> am_probe a 0)
            then (failed 409 ''CONFIRMATION_EVIDENCE_UNAVAILABLE'', d)
            else Execute f (forth 1 a) ''management'' (de_command v) (de_check v) (\<lambda>_. de_check v)
                   (decide_tx x v r s oc) d)"

definition Decide ::
    "fate \<Rightarrow> engine_ambient \<Rightarrow> engine_config option \<Rightarrow> provider \<Rightarrow> string \<Rightarrow> decision_call \<Rightarrow> engine \<Rightarrow> Result outcome \<times> engine" where
  "Decide f a g p x v e =
     (case Replay a (de_command v) (de_check v) (en_db e) of
        Inl err \<Rightarrow> (Inl err, e)
      | Inr (Some prior) \<Rightarrow> (Inr prior, e)
      | Inr None \<Rightarrow>
          (case g of
             None \<Rightarrow> (failed 503 ''SAFE_APPLY_CAPABILITY_UNAVAILABLE'', e)
           | Some g \<Rightarrow>
               if \<not> de_writable v then (failed 503 ''SAFE_APPLY_CAPABILITY_UNAVAILABLE'', e)
               else (case claim x e of
                       None \<Rightarrow> (failed 409 ''TRANSACTION_BUSY'', e)
                     | Some e \<Rightarrow>
                         (case Replay a (de_command v) (de_check v) (en_db e) of
                            Inl err \<Rightarrow> (Inl err, release x e)
                          | Inr (Some prior) \<Rightarrow> (Inr prior, release x e)
                          | Inr None \<Rightarrow>
                              (case decide_db f a g p x v (en_db e) of (res, d) \<Rightarrow> (res, release x (e\<lparr>en_db := d\<rparr>)))))))"

end
