(* ===== verification/Engine_Writes.thy ===== *)
theory Engine_Writes
  imports Safe_Apply
begin

text \<open>
  What every writer transaction of the engine does to the journal tables: the field transition, the
  safe-apply change, the refresh and the admission, each in one effect lemma, and the evidence and
  receipt invariants they all keep.
\<close>

section \<open>Frames\<close>

lemma journal_more:
  fixes d e :: journal_db
  assumes "evidence_db.more e = evidence_db.more d"
  shows "db_epoch e = db_epoch d" "db_high_watermark e = db_high_watermark d" "db_anchors e = db_anchors d"
    "db_journal e = db_journal d" "db_execs e = db_execs d" "db_safes e = db_safes d"
    "db_protections e = db_protections d" "db_identities e = db_identities d" "db_creations e = db_creations d"
    "db_resolutions e = db_resolutions d" "db_last_known_good e = db_last_known_good d"
  using assms by (cases d; cases e; simp)+

lemmas Append_journal = journal_more [OF Append_frame(4)]

lemma ChangeJob_more:
  assumes "ChangeJob a x expected t now d = Inr (k, d')" and "jobs_wf d"
  shows "evidence_db.more d' = evidence_db.more d"
  by (rule ChangeJob_Inr [OF assms(1) jobs_wf_ids [OF assms(2)]])

lemma CreateJob_more:
  assumes "CreateJob a j d = Inr (k, d')"
  shows "evidence_db.more d' = evidence_db.more d"
  by (rule CreateJob_Inr [OF assms])

lemmas ChangeJob_journal = journal_more [OF ChangeJob_more]
lemmas CreateJob_journal = journal_more [OF CreateJob_more]

text \<open>The evidence and receipt tables are well formed, whatever the journal tables hold, and grow.\<close>

definition tables_wf :: "journal_db \<Rightarrow> bool" where
  "tables_wf d \<longleftrightarrow> jobs_wf d \<and> records_wf d \<and> receipts_wf d"

definition grown :: "journal_db \<Rightarrow> journal_db \<Rightarrow> bool" where
  "grown d e \<longleftrightarrow> (tables_wf d \<longrightarrow> tables_wf e) \<and> (tables_wf d \<longrightarrow> evidence_le d e \<and> receipts_le d e)"

interpretation growth: store_order grown
proof
  show "grown d d" for d by (simp add: grown_def evidence.le_refl receipts.le_refl)
  show "grown d f" if "grown d e" "grown e f" for d e f
    using that by (auto simp: grown_def intro: evidence.le_trans receipts.le_trans)
qed

lemma grownD:
  assumes "grown d e" and "tables_wf d"
  shows "tables_wf e" "evidence_le d e" "receipts_le d e" "jobs_wf e"
  using assms by (auto simp: grown_def tables_wf_def)

lemma same_tables:
  assumes "db_jobs e = db_jobs d" "db_records e = db_records d" "db_last_sequence e = db_last_sequence d"
    "db_receipts e = db_receipts d"
  shows "grown d e"
  using assms evidence.le_refl [of d] receipts.le_refl [of d]
  by (auto simp: grown_def tables_wf_def jobs_wf_def records_wf_def receipts_wf_def evidence_le_def receipts_le_def)

lemma grown_updates [simp]:
  "grown d (d\<lparr>db_journal := j\<rparr>)" "grown d (d\<lparr>db_execs := x\<rparr>)" "grown d (d\<lparr>db_safes := s\<rparr>)"
  "grown d (d\<lparr>db_protections := p\<rparr>)" "grown d (d\<lparr>db_identities := i\<rparr>)" "grown d (d\<lparr>db_creations := c\<rparr>)"
  "grown d (d\<lparr>db_anchors := n\<rparr>)" "grown d (d\<lparr>db_last_known_good := g\<rparr>)"
  by (simp_all add: same_tables)

lemma grown_helpers [simp]:
  "grown d (set_safety x s d)" "grown d (settle_fields x d)" "grown d (checkpoint r s d)"
  "grown d (write_field safe r n d)" "grown d (write_safety r s n d)" "grown d (close_safety r s d)"
  by (rule same_tables; simp add: set_safety_def settle_fields_def unprotect_def RetirePending_def checkpoint_def
      write_field_def write_safety_def close_safety_def Let_def split: option.splits)+

lemma Append_grown: "Append a r d = Inr (x, d') \<Longrightarrow> grown d d'"
  by (simp add: grown_def tables_wf_def Append_jobs_wf Append_records_wf(1) Append_receipts Append_le)

lemma ChangeJob_grown: "ChangeJob a x expected t now d = Inr (k, d') \<Longrightarrow> grown d d'"
  by (simp add: grown_def tables_wf_def ChangeJob_keeps ChangeJob_receipts)

lemma CreateJob_grown: "CreateJob a j d = Inr (k, d') \<Longrightarrow> grown d d'"
  by (simp add: grown_def tables_wf_def CreateJob_keeps CreateJob_receipts)

lemma tables_wf_jobs: "tables_wf d \<Longrightarrow> jobs_wf d"
  by (simp add: tables_wf_def)

section \<open>Sequences\<close>

definition record_sequence :: "Execution \<Rightarrow> int" where
  "record_sequence r = (case ParseInt 64 (x_Sequence r) of None \<Rightarrow> 0 | Some n \<Rightarrow> n)"

lemma ParseInt_bound: "ParseInt bits s = Some n \<Longrightarrow> n < 2 ^ (bits - 1)"
proof -
  have pos: "- int k < 2 ^ (bits - 1)" for k
    by (rule le_less_trans [of _ 0]) simp_all
  assume "ParseInt bits s = Some n"
  then show ?thesis by (auto simp: ParseInt_def Let_def pos [simplified] split: list.splits if_splits)
qed

lemma next_record_sequence_Inr:
  assumes "next_record_sequence (x_Sequence r) = Inr n"
  shows "n = record_sequence r + 1" and "0 < record_sequence r" and "ParseInt 64 (FormatInt n) = Some n"
    and "FormatInt n \<noteq> x_Sequence r"
proof -
  obtain m where m: "ParseInt 64 (x_Sequence r) = Some m" "0 < m" "m \<noteq> 2 ^ 63 - 1" "n = m + 1"
    using assms by (auto simp: next_record_sequence_def split: option.splits if_splits)
  have "m < 2 ^ 63" using ParseInt_bound [OF m(1)] by simp
  then show "ParseInt 64 (FormatInt n) = Some n" using m(2-4) by simp
  then show "FormatInt n \<noteq> x_Sequence r" using m by auto
  show "n = record_sequence r + 1" "0 < record_sequence r" using m by (simp_all add: record_sequence_def)
qed

section \<open>Effects\<close>

definition released :: "bool \<Rightarrow> string \<Rightarrow> protections \<Rightarrow> protections" where
  "released settled x ps = (if settled then filter (\<lambda>(q, f, t). t \<noteq> x) ps else ps)"

lemma settle_fields_frame [simp]:
  "db_execs (settle_fields x d) = db_execs d" "db_safes (settle_fields x d) = db_safes d"
  "db_journal (settle_fields x d) = db_journal d" "db_last_known_good (settle_fields x d) = db_last_known_good d"
  "db_protections (settle_fields x d) = filter (\<lambda>(q, f, t). t \<noteq> x) (db_protections d)"
  "db_resolutions (settle_fields x d) = db_resolutions d" "db_jobs (settle_fields x d) = db_jobs d"
  by (simp_all add: settle_fields_def unprotect_def RetirePending_def)

lemma checkpoint_frame [simp]:
  "db_execs (checkpoint r s d) = db_execs d" "db_safes (checkpoint r s d) = db_safes d"
  "db_journal (checkpoint r s d) = db_journal d" "db_protections (checkpoint r s d) = db_protections d"
  "db_resolutions (checkpoint r s d) = db_resolutions d" "db_jobs (checkpoint r s d) = db_jobs d"
  by (simp_all add: checkpoint_def)

lemma set_safety_frame [simp]:
  "db_execs (set_safety x s d) = db_execs d" "db_protections (set_safety x s d) = db_protections d"
  "db_journal (set_safety x s d) = db_journal d" "db_last_known_good (set_safety x s d) = db_last_known_good d"
  "db_jobs (set_safety x s d) = db_jobs d"
  by (simp_all add: set_safety_def split: option.splits)

lemma changed_fields [simp]:
  "x_ID (changed r n state oc now) = x_ID r" "x_Plan (changed r n state oc now) = x_Plan r"
  "x_JobID (changed r n state oc now) = x_JobID r" "x_State (changed r n state oc now) = state"
  "x_Outcome (changed r n state oc now) = oc" "x_Sequence (changed r n state oc now) = FormatInt n"
  "x_Owner (changed r n state oc now) = x_Owner r" "x_Updated (changed r n state oc now) = now"
  "x_Authorization (changed r n state oc now) = x_Authorization r" "x_Created (changed r n state oc now) = x_Created r"
  by (simp_all add: changed_def)

lemma write_field_frame [simp]:
  "db_execs (write_field safe r n d) = update_row (x_ID r) r (db_execs d)" "db_safes (write_field safe r n d) = db_safes d"
  "db_protections (write_field safe r n d) = released (terminal r \<and> \<not> safe) (x_ID r) (db_protections d)"
  "db_last_known_good (write_field safe r n d) = db_last_known_good d"
  by (simp_all add: write_field_def Let_def released_def)

lemma write_safety_frame [simp]:
  "db_execs (write_safety r s n d) = update_row (x_ID r) r (db_execs d)"
  "db_safes (write_safety r s n d) = db_safes (set_safety (x_ID r) s d)"
  "db_protections (write_safety r s n d) = db_protections d" "db_jobs (write_safety r s n d) = db_jobs d"
  "db_last_known_good (write_safety r s n d) = db_last_known_good d"
  by (simp_all add: write_safety_def)

lemma close_safety_frame [simp]:
  "db_execs (close_safety r s d) = db_execs d" "db_safes (close_safety r s d) = db_safes d"
  "db_protections (close_safety r s d) = released (Terminal_safety (sf_State s)) (x_ID r) (db_protections d)"
  "db_last_known_good (close_safety r s d) = (if sf_State s = ''confirmed''
     then Some (x_ID r, x_Generation r, UnixMilli (x_Updated r), x_Plan r) else db_last_known_good d)"
  by (simp_all add: close_safety_def released_def) (simp add: checkpoint_def)

lemma transition_effect:
  assumes "transition a r oc state d = Inr (r', d')" and "tables_wf d"
  obtains n where "next_record_sequence (x_Sequence r) = Inr n" and "r' = changed r n state oc (am_now a 0)"
    and "grown d d'" and "db_execs d' = update_row (x_ID r) r' (db_execs d)" and "db_safes d' = db_safes d"
    and "db_protections d' = released (terminal r' \<and> map_of (db_safes d) (x_ID r) = None) (x_ID r) (db_protections d)"
    and "db_last_known_good d' = db_last_known_good d"
proof -
  obtain n job k d1 y where n: "next_record_sequence (x_Sequence r) = Inr n"
    and r': "r' = changed r n state oc (am_now a 0)"
    and job: "ChangeJob (WithRequest (record_request r') (later 1 a)) (j_ID job) (j_Sequence job)
       (field_phase (map_of (db_safes d) (x_ID r) \<noteq> None) job state oc) (am_now a 0) d = Inr (k, d1)"
    and app: "Append (WithRequest (record_request r') (later 3 a))
       (audit_record ''field-execution-state'' state (oc_Reason oc) True (am_now a 0) r')
       (write_field (map_of (db_safes d) (x_ID r) \<noteq> None) r' n d1) = Inr (y, d')"
    using assms(1) unfolding transition_def Let_def by (elim then_doE) (auto elim!: then_doE)
  note f1 = ChangeJob_journal [OF job tables_wf_jobs [OF assms(2)]] and f2 = Append_journal [OF app]
  have "grown d d'"
    by (rule growth.le_trans [OF ChangeJob_grown [OF job] growth.le_trans [OF grown_helpers(4) Append_grown [OF app]]])
  then show ?thesis using f1 f2 r' by (intro that [OF n r']) simp_all
qed

lemma updateSafety_effect:
  assumes "updateSafety a r s d = Inr (u, d')" and "tables_wf d" and "map_of (db_safes d) (x_ID r) = Some row"
  obtains n r' where "next_record_sequence (x_Sequence r) = Inr n"
    and "r' = changed r n (x_State r) (x_Outcome r) (ck_Wall (am_clock a 0))" and "grown d d'"
    and "db_execs d' = update_row (x_ID r) r' (db_execs d)"
    and "db_safes d' = update_row (x_ID r) (row\<lparr>sr_Doc := s\<rparr>) (db_safes d)"
    and "db_protections d' = released (Terminal_safety (sf_State s)) (x_ID r) (db_protections d)"
    and "db_last_known_good d' = (if sf_State s = ''confirmed''
       then Some (x_ID r, x_Generation r', UnixMilli (x_Updated r'), x_Plan r) else db_last_known_good d)"
proof -
  define r' where "r' = (\<lambda>n. changed r n (x_State r) (x_Outcome r) (ck_Wall (am_clock a 0)))"
  obtain n job k d1 y where n: "next_record_sequence (x_Sequence r) = Inr n"
    and job: "ChangeJob a (j_ID job) (j_Sequence job) (safe_phase job (r' n) s) (x_Updated (r' n)) (write_safety (r' n) s n d)
       = Inr (k, d1)"
    and app: "Append (later 2 a) (safety_record (r' n) s) (close_safety (r' n) s d1) = Inr (y, d')"
    using assms(1) unfolding updateSafety_def Let_def r'_def
    by (elim then_doE) (auto elim!: then_doE split: if_splits)
  have wf: "tables_wf (write_safety (r' n) s n d)" by (rule grownD(1) [OF grown_helpers(5) assms(2)])
  note f1 = ChangeJob_journal [OF job tables_wf_jobs [OF wf]] and f2 = Append_journal [OF app]
  have "grown d d'"
    by (rule growth.le_trans [OF growth.le_trans [OF grown_helpers(5) ChangeJob_grown [OF job]]
          growth.le_trans [OF grown_helpers(6) Append_grown [OF app]]])
  moreover have "x_ID (r' n) = x_ID r" "x_Plan (r' n) = x_Plan r" by (simp_all add: r'_def)
  ultimately show ?thesis
    using f1 f2 assms(3) by (intro that [OF n, of "r' n"]) (simp_all add: r'_def set_safety_def)
qed

section \<open>Reservations\<close>

text \<open>Reserving identities touches the two identity tables only.\<close>

definition only_identities :: "journal_db \<Rightarrow> journal_db \<Rightarrow> bool" where
  "only_identities d e \<longleftrightarrow> (\<exists>ids cs. e = d\<lparr>db_identities := ids, db_creations := cs\<rparr>)"

interpretation identities_only: store_order only_identities
proof
  show "only_identities d d" for d
    unfolding only_identities_def by (intro exI [of _ "db_identities d"] exI [of _ "db_creations d"]) simp
  show "only_identities d f" if 1: "only_identities d e" and 2: "only_identities e f" for d e f
  proof -
    obtain ids cs where e: "e = d\<lparr>db_identities := ids, db_creations := cs\<rparr>" using 1 by (auto simp: only_identities_def)
    obtain ids' cs' where "f = e\<lparr>db_identities := ids', db_creations := cs'\<rparr>" using 2 by (auto simp: only_identities_def)
    then show ?thesis unfolding only_identities_def e by (intro exI [of _ ids'] exI [of _ cs']) simp
  qed
qed

lemma only_identities_frame:
  assumes "only_identities d e"
  shows "grown d e" "db_execs e = db_execs d" "db_safes e = db_safes d" "db_protections e = db_protections d"
    "db_last_known_good e = db_last_known_good d" "db_resolutions e = db_resolutions d"
  using assms by (auto simp: only_identities_def intro: same_tables)

lemma reserve_all_only: "reserve_all tx marker bs d = Inr e \<Longrightarrow> only_identities d e"
proof (induction bs arbitrary: d)
  case (Cons b bs)
  then obtain ids cs where "reserve_all tx marker bs (d\<lparr>db_identities := ids, db_creations := cs\<rparr>) = Inr e"
    by (auto simp: then_do_Inr split: if_splits)
  from Cons.IH [OF this] show ?case
    by (rule identities_only.le_trans [rotated]) (auto simp: only_identities_def)
qed (simp add: identities_only.le_refl)

lemma reserveTopology_only: "reserveTopology tx marker bs d = Inr e \<Longrightarrow> only_identities d e"
  by (auto simp: reserveTopology_def reserve_all_only split: if_splits)

lemma reserve_creation_only: "reserve_creation tx marker i d = Inr e \<Longrightarrow> only_identities d e"
  by (auto simp: reserve_creation_def reserveTopology_only identities_only.le_refl split: if_splits)

lemma ReserveCreations_only: "ReserveCreations tx marker is d = Inr e \<Longrightarrow> only_identities d e"
  by (induction "is" arbitrary: d)
    (auto simp: then_do_Inr identities_only.le_refl intro: identities_only.le_trans reserve_creation_only)

lemma reserve_restoration_only: "reserve_restoration tx marker i d = Inr e \<Longrightarrow> only_identities d e"
  unfolding reserve_restoration_def
  by (auto simp: reserveTopology_only identities_only.le_refl simp del: ReserveCreations.simps
      intro: ReserveCreations_only split: if_splits option.splits)

lemma ReserveRestorations_only: "ReserveRestorations tx marker is d = Inr e \<Longrightarrow> only_identities d e"
  by (induction "is" arbitrary: d)
    (auto simp: then_do_Inr identities_only.le_refl intro: identities_only.le_trans reserve_restoration_only)

text \<open>No resource is protected twice: every protection of the schema excludes every other one on the
  same resource.\<close>

definition exclusive :: "protections \<Rightarrow> bool" where
  "exclusive ps \<longleftrightarrow> distinct (map fst ps) \<and> (\<forall>(q, f, t) \<in> set ps. f \<in> set field_paths)"

definition protect_grow :: "string \<Rightarrow> protections \<Rightarrow> protections \<Rightarrow> bool" where
  "protect_grow tx ps qs \<longleftrightarrow> (exclusive ps \<longrightarrow> exclusive qs) \<and> (\<exists>new. qs = ps @ new \<and> (\<forall>(q, f, t) \<in> set new. t = tx))"

interpretation protecting: store_order "protect_grow tx" for tx
proof
  show "protect_grow tx ps ps" for ps by (simp add: protect_grow_def)
  show "protect_grow tx ps rs" if "protect_grow tx ps qs" "protect_grow tx qs rs" for ps qs rs
    using that by (auto simp: protect_grow_def)
qed

lemma protect_grows:
  assumes "protect tx q f ps = Inr qs" and "f \<in> set field_paths"
  shows "protect_grow tx ps qs"
proof -
  have qs: "qs = ps @ [(q, f, tx)]" and "\<not> list_ex (\<lambda>(q', f, t). q' = q) ps"
    using assms(1) by (auto simp: protect_def split: if_splits)
  then have "q \<notin> fst ` set ps" by (fastforce simp: list_ex_iff)
  then show ?thesis using assms(2) by (auto simp: protect_grow_def qs exclusive_def)
qed

lemma field_paths_members [simp]:
  "''port.vlan'' \<in> set field_paths" "''port.bond'' \<in> set field_paths" "''root.bridge-creation'' \<in> set field_paths"
  "''object.lifecycle'' \<in> set field_paths"
  by (simp_all add: field_paths_def)

lemma protect_objects_grows: "protect_objects tx bs ps = Inr qs \<Longrightarrow> protect_grow tx ps qs"
  by (induction bs arbitrary: ps)
    (auto simp: then_do_Inr protecting.le_refl intro: protecting.le_trans [OF protect_grows])

lemma protectGraph_grows: "protectGraph tx base bs ps = Inr qs \<Longrightarrow> protect_grow tx ps qs"
  unfolding protectGraph_def
  by (auto simp: then_do_Inr intro: protecting.le_trans [OF protect_grows protect_objects_grows])

lemma protect_field_grows:
  assumes "protect_field tx q f ps = Inr qs" and "f \<in> set field_paths"
  shows "protect_grow tx ps qs"
proof -
  have qs: "qs = ps @ [(q, f, tx)]" and free: "\<forall>(q', f', t) \<in> set ps. q' = q \<longrightarrow> f' \<notin> set field_paths"
    using assms(1) by (auto simp: protect_field_def list_ex_iff split: if_splits)
  have "q \<notin> fst ` set ps" if "exclusive ps" using that free by (fastforce simp: exclusive_def)
  then show ?thesis using assms(2) by (auto simp: protect_grow_def qs exclusive_def)
qed

lemma protect_intent_grows: "protect_intent tx p i ps = Inr qs \<Longrightarrow> protect_grow tx ps qs"
  unfolding protect_intent_def protectDeletion_def Let_def
  by (auto intro: protectGraph_grows protect_field_grows split: if_splits option.splits)

lemma protect_intents_grows: "protect_intents tx p is ps = Inr qs \<Longrightarrow> protect_grow tx ps qs"
  by (induction "is" arbitrary: ps)
    (auto simp: then_do_Inr protecting.le_refl intro: protecting.le_trans protect_intent_grows)

lemma reserve_effect:
  assumes "reserve a g r d = Inr d'"
  shows "grown d d'" "db_execs d' = db_execs d" "db_safes d' = db_safes d"
    "db_last_known_good d' = db_last_known_good d" "protect_grow (x_ID r) (db_protections d) (db_protections d')"
proof -
  obtain d1 js d2 d3 ps where d1: "insert_anchor (new_id a 1, new_id a 2, x_ID r, x_Correlation r) d = Inr d1"
    and c: "ReserveCreations (x_ID r) (pl_Marker (x_Plan r)) (plan_intents r) (d1\<lparr>db_journal := js\<rparr>) = Inr d2"
    and b: "ReserveRestorations (x_ID r) (rollbackMarker a g (x_ID r) (pl_Marker (x_Plan r))) (plan_intents r) d2 = Inr d3"
    and p: "protect_intents (x_ID r) (x_Plan r) (plan_intents r) (db_protections d3) = Inr ps"
    and d': "d' = d3\<lparr>db_protections := ps\<rparr>"
    using assms unfolding reserve_def by (elim then_doE) auto
  obtain n where d1': "d1 = d\<lparr>db_anchors := n\<rparr>" using d1 by (auto simp: insert_anchor_def split: prod.splits if_splits)
  note f = only_identities_frame [OF identities_only.le_trans [OF ReserveCreations_only [OF c] ReserveRestorations_only [OF b]]]
  have "grown d (d1\<lparr>db_journal := js\<rparr>)" unfolding d1' by (rule same_tables) simp_all
  then show "grown d d'" unfolding d' by (rule growth.le_trans [OF _ growth.le_trans [OF f(1)]]) simp
  show "db_execs d' = db_execs d" "db_safes d' = db_safes d" "db_last_known_good d' = db_last_known_good d"
    using f by (simp_all add: d' d1')
  show "protect_grow (x_ID r) (db_protections d) (db_protections d')"
    using protect_intents_grows [OF p] f(4) by (simp add: d' d1')
qed

section \<open>Admission\<close>

definition admitted_doc :: "string \<Rightarrow> Safety \<Rightarrow> bool" where
  "admitted_doc domain s \<longleftrightarrow> sf_State s = ''preparing'' \<and> sf_Domain s = domain \<and> sf_Rollback s = None \<and> sf_Confirmation s = None"

lemma admitSafety_effect:
  assumes "admitSafety a g r s d = Inr d'"
  obtains row where "d' = d\<lparr>db_safes := db_safes d @ [(x_ID r, row)]\<rparr>" and "map_of (db_safes d) (x_ID r) = None"
    and "admitted_doc (ec_Domain g) (sr_Doc row)" and "count_rows (open_domain (ec_Domain g)) (db_safes d) = 0"
  using assms unfolding admitSafety_def Let_def
  by (auto simp: then_do_Inr insert_row_Inr admitted_doc_def zero_safety_def split: if_splits)

definition journal_admit :: "string \<Rightarrow> journal_db \<Rightarrow> journal_db \<Rightarrow> bool" where
  "journal_admit x d e \<longleftrightarrow> grown d e \<and> execution_room d \<and> db_last_known_good e = db_last_known_good d \<and>
     protect_grow x (db_protections d) (db_protections e) \<and> map_of (db_execs d) x = None \<and>
     (\<exists>r. db_execs e = db_execs d @ [(x, r)] \<and> x_ID r = x \<and> x_Sequence r = ''1'' \<and> x_State r = ''admitted'' \<and>
        oc_Commit (x_Outcome r) = ''not-sent'') \<and>
     (db_safes e = db_safes d \<or>
      (\<exists>row. db_safes e = db_safes d @ [(x, row)] \<and> map_of (db_safes d) x = None \<and>
         admitted_doc (sf_Domain (sr_Doc row)) (sr_Doc row) \<and>
         count_rows (open_domain (sf_Domain (sr_Doc row))) (db_safes d) = 0))"

lemma admit_effect:
  assumes "admit g x q c fresh p safe a d = Inr (m, d')"
  shows "journal_admit x d d'" and "m = accepted x (x_JobID (new_execution a x q c p)) False"
    and "map_of (db_execs d') x = Some (new_execution a x q c p)"
    and "safe = None \<longleftrightarrow> db_safes d' = db_safes d"
proof -
  define r where "r = new_execution a x q c p"
  have r: "x_ID r = x" "x_Sequence r = ''1''" "x_State r = ''admitted''" "oc_Commit (x_Outcome r) = ''not-sent''"
    by (simp_all add: r_def new_execution_def plain_outcome_def)
  obtain d1 k d2 rows d3 y where room: "execution_room d"
    and res: "reserve a g (r\<lparr>x_Plan := p\<lparr>pl_Envelope := xr_Envelope q\<rparr>\<rparr>) d = Inr d1"
    and job: "CreateJob (later 3 a) (field_job r) d1 = Inr (k, d2)"
    and rows: "insert_row x r (db_execs d2) = Inr rows"
    and safety: "(case safe of None \<Rightarrow> Inr (d2\<lparr>db_execs := rows\<rparr>) | Some s \<Rightarrow> admitSafety a g r s (d2\<lparr>db_execs := rows\<rparr>)) = Inr d3"
    and app: "Append (later 7 a) (audit_record ''execute-fields'' ''admitted'' '''' False (x_Created r) r) d3 = Inr (y, d')"
    and m: "m = accepted x (x_JobID r) False"
    using assms unfolding admit_def Let_def r_def [symmetric]
    by (elim then_doE) (auto elim!: then_doE split: if_splits)
  note f1 = reserve_effect [OF res] and f2 = CreateJob_journal [OF job] and f3 = Append_journal [OF app]
  have new: "map_of (db_execs d) x = None" "rows = db_execs d @ [(x, r)]"
    using rows f1(2) f2 by (simp_all add: insert_row_Inr)
  have safes: "db_safes d3 = db_safes d \<and> safe = None \<or>
      (\<exists>row. db_safes d3 = db_safes d @ [(x, row)] \<and> map_of (db_safes d) x = None \<and>
         admitted_doc (sf_Domain (sr_Doc row)) (sr_Doc row) \<and>
         count_rows (open_domain (sf_Domain (sr_Doc row))) (db_safes d) = 0 \<and> safe \<noteq> None)"
    and d3: "grown (d2\<lparr>db_execs := rows\<rparr>) d3" "db_execs d3 = rows" "db_protections d3 = db_protections d2"
      "db_last_known_good d3 = db_last_known_good d2"
    using safety f1(3) f2 r(1)
    by (auto simp: growth.le_refl admitted_doc_def split: option.splits elim!: admitSafety_effect)
  have "grown d d'"
    by (rule growth.le_trans [OF f1(1) growth.le_trans [OF CreateJob_grown [OF job]
          growth.le_trans [OF growth.le_trans [OF grown_updates(2) d3(1)] Append_grown [OF app]]]])
  then show "journal_admit x d d'"
    unfolding journal_admit_def using room new r f1 f2 f3 d3 safes by auto
  show "m = accepted x (x_JobID (new_execution a x q c p)) False" using m by (simp add: r_def)
  show "map_of (db_execs d') x = Some (new_execution a x q c p)"
    using f3 d3 new by (simp add: r_def [symmetric] map_add_def)
  show "safe = None \<longleftrightarrow> db_safes d' = db_safes d" using safes f3 by auto
qed

end
