(* ===== verification/Engine_Journal.thy ===== *)
theory Engine_Journal
  imports Engine_Writes
begin

text \<open>
  The journal as an abstract transaction system. A successful writer transaction of the engine either
  admits one new transaction (\<open>journal_admit\<close>) or changes one open transaction (\<open>journal_change\<close>); all
  invariants, the order that every write climbs and the lifecycle of a transaction are proved once for
  these two relations.
\<close>

section \<open>Rows\<close>

text \<open>The state of a field execution says what is known of its commit.\<close>

definition exec_ok :: "string \<Rightarrow> Execution \<Rightarrow> bool" where
  "exec_ok x r \<longleftrightarrow> x_ID r = x \<and> (x_State r = ''failed'' \<longleftrightarrow> oc_Commit (x_Outcome r) = ''rejected'') \<and>
     (x_State r = ''succeeded'' \<longleftrightarrow> oc_Commit (x_Outcome r) = ''committed'' \<and> oc_Applied (x_Outcome r) = ''applied'')"

definition compensating :: "string \<Rightarrow> bool" where
  "compensating state \<longleftrightarrow> state \<in> set [''rolling-back'', ''recovery-required'', ''rollback-conflict'', ''rolled-back'']"

text \<open>What a safe apply may claim: a compensation plan exists only on its way back, a confirmation only
  for a succeeded execution, \<open>rolled-back\<close> only with an applied compensation, \<open>not-committed\<close> only for
  a rejected execution.\<close>

definition safe_ok :: "Execution \<Rightarrow> Safety \<Rightarrow> bool" where
  "safe_ok r s \<longleftrightarrow> (sf_Rollback s \<noteq> None \<longrightarrow> compensating (sf_State s) \<and> x_State r \<noteq> ''admitted'') \<and>
     (sf_State s = ''rolled-back'' \<longrightarrow> sf_Rollback s \<noteq> None \<and> sf_HealthyAt s \<noteq> None \<and>
        oc_Commit (sf_Outcome s) = ''committed'' \<and> oc_Applied (sf_Outcome s) = ''applied'') \<and>
     (sf_State s = ''awaiting-confirmation'' \<or> sf_State s = ''confirmed'' \<longrightarrow>
        x_State r = ''succeeded'' \<and> sf_Confirmation s \<noteq> None) \<and>
     (sf_State s = ''not-committed'' \<longrightarrow> x_State r = ''failed'')"

definition exec_le :: "Execution \<Rightarrow> Execution \<Rightarrow> bool" where
  "exec_le r q \<longleftrightarrow> x_ID q = x_ID r \<and> x_Plan q = x_Plan r \<and> x_JobID q = x_JobID r \<and> x_Owner q = x_Owner r \<and>
     x_Authorization q = x_Authorization r \<and> x_Created q = x_Created r \<and>
     record_sequence r \<le> record_sequence q \<and> (record_sequence r = record_sequence q \<longrightarrow> q = r) \<and>
     (x_State q = ''admitted'' \<longrightarrow> x_State r = ''admitted'') \<and> (terminal r \<longrightarrow> terminal q)"

definition safe_le :: "Safety \<Rightarrow> Safety \<Rightarrow> bool" where
  "safe_le s t \<longleftrightarrow> sf_Domain t = sf_Domain s \<and> sf_Reservation t = sf_Reservation s \<and>
     sf_Fingerprint t = sf_Fingerprint s \<and> sf_Preparation t = sf_Preparation s \<and>
     (sf_Confirmation s \<noteq> None \<longrightarrow> sf_Confirmation t = sf_Confirmation s) \<and>
     (sf_Rollback s \<noteq> None \<longrightarrow> sf_Rollback t = sf_Rollback s)"

lemma exec_le_refl [simp]: "exec_le r r"
  by (simp add: exec_le_def)

lemma exec_le_trans: "exec_le r q \<Longrightarrow> exec_le q p \<Longrightarrow> exec_le r p"
  unfolding exec_le_def by auto

lemma safe_le_refl [simp]: "safe_le s s"
  by (simp add: safe_le_def)

lemma safe_le_trans: "safe_le s t \<Longrightarrow> safe_le t u \<Longrightarrow> safe_le s u"
  unfolding safe_le_def by auto

lemma exec_le_changed:
  assumes "next_record_sequence (x_Sequence r) = Inr n" and "state = ''admitted'' \<longrightarrow> x_State r = ''admitted''"
    and "terminal r \<longrightarrow> state = ''succeeded'' \<or> state = ''failed''"
  shows "exec_le r (changed r n state oc now)"
  using next_record_sequence_Inr [OF assms(1)] assms(2,3)
  by (auto simp: exec_le_def terminal_def record_sequence_def)

section \<open>The two kinds of journal write\<close>

definition settled :: "journal_db \<Rightarrow> string \<Rightarrow> bool" where
  "settled d x \<longleftrightarrow>
     (case map_of (db_safes d) x of
        None \<Rightarrow> (case map_of (db_execs d) x of None \<Rightarrow> False | Some r \<Rightarrow> terminal r)
      | Some row \<Rightarrow> Terminal_safety (sf_State (sr_Doc row)))"

definition safe_change :: "journal_db \<Rightarrow> string \<Rightarrow> Execution \<Rightarrow> journal_db \<Rightarrow> bool" where
  "safe_change d x q e \<longleftrightarrow>
     (case map_of (db_safes d) x of
        None \<Rightarrow> db_safes e = db_safes d
      | Some row \<Rightarrow> (\<exists>t. db_safes e = update_row x (row\<lparr>sr_Doc := t\<rparr>) (db_safes d) \<and> safe_le (sr_Doc row) t \<and> safe_ok q t \<and>
          (sf_State t = ''confirmed'' \<longrightarrow> sf_State (sr_Doc row) = ''awaiting-confirmation'')))"

definition journal_change :: "string \<Rightarrow> journal_db \<Rightarrow> journal_db \<Rightarrow> bool" where
  "journal_change x d e \<longleftrightarrow> grown d e \<and> \<not> settled d x \<and>
     (\<exists>r q. map_of (db_execs d) x = Some r \<and> exec_le r q \<and> exec_ok x q \<and> db_execs e = update_row x q (db_execs d) \<and>
        safe_change d x q e \<and> db_protections e = released (settled e x) x (db_protections d) \<and>
        (db_last_known_good e = db_last_known_good d \<or>
         (\<exists>gen tm. db_last_known_good e = Some (x, gen, tm, x_Plan q)) \<and>
         (\<exists>row. map_of (db_safes e) x = Some row \<and> sf_State (sr_Doc row) = ''confirmed'')))"

definition journal_wf :: "journal_db \<Rightarrow> bool" where
  "journal_wf d \<longleftrightarrow> tables_wf d \<and> distinct (map fst (db_execs d)) \<and> distinct (map fst (db_safes d)) \<and>
     (\<forall>x r. map_of (db_execs d) x = Some r \<longrightarrow> exec_ok x r) \<and>
     (\<forall>x row. map_of (db_safes d) x = Some row \<longrightarrow>
        (\<exists>r. map_of (db_execs d) x = Some r \<and> safe_ok r (sr_Doc row))) \<and>
     exclusive (db_protections d) \<and>
     (\<forall>q f t. (q, f, t) \<in> set (db_protections d) \<longrightarrow> map_of (db_execs d) t \<noteq> None \<and> \<not> settled d t) \<and>
     length (db_execs d) \<le> MaxRecords \<and> length (filter (unsettled d) (db_execs d)) \<le> MaxUnsettled \<and>
     (\<forall>domain. count_rows (open_domain domain) (db_safes d) \<le> 1) \<and>
     (\<forall>x gen tm p. db_last_known_good d = Some (x, gen, tm, p) \<longrightarrow>
        (\<exists>r row. map_of (db_execs d) x = Some r \<and> x_Plan r = p \<and> map_of (db_safes d) x = Some row \<and>
           sf_State (sr_Doc row) = ''confirmed''))"

definition journal_le :: "journal_db \<Rightarrow> journal_db \<Rightarrow> bool" where
  "journal_le d e \<longleftrightarrow>
     (\<forall>x r. map_of (db_execs d) x = Some r \<longrightarrow> (\<exists>q. map_of (db_execs e) x = Some q \<and> exec_le r q)) \<and>
     (\<forall>x row. map_of (db_safes d) x = Some row \<longrightarrow>
        (\<exists>row'. map_of (db_safes e) x = Some row' \<and> safe_le (sr_Doc row) (sr_Doc row'))) \<and>
     (\<forall>x. map_of (db_execs d) x \<noteq> None \<and> map_of (db_safes d) x = None \<longrightarrow> map_of (db_safes e) x = None) \<and>
     (\<forall>x. settled d x \<longrightarrow> map_of (db_execs e) x = map_of (db_execs d) x \<and> map_of (db_safes e) x = map_of (db_safes d) x) \<and>
     (\<forall>x. map_of (db_execs d) x \<noteq> None \<and> \<not> settled e x \<longrightarrow>
        filter (\<lambda>(q, f, t). t = x) (db_protections e) = filter (\<lambda>(q, f, t). t = x) (db_protections d))"

lemma settled_cong:
  "map_of (db_execs e) x = map_of (db_execs d) x \<Longrightarrow> map_of (db_safes e) x = map_of (db_safes d) x \<Longrightarrow>
   settled e x = settled d x"
  by (auto simp: settled_def split: option.splits)

lemma journal_leD:
  assumes "journal_le d e"
  shows "map_of (db_execs d) x = Some r \<Longrightarrow> \<exists>q. map_of (db_execs e) x = Some q \<and> exec_le r q"
    and "map_of (db_safes d) x = Some row \<Longrightarrow> \<exists>row'. map_of (db_safes e) x = Some row' \<and> safe_le (sr_Doc row) (sr_Doc row')"
    and "map_of (db_execs d) x = Some r \<Longrightarrow> map_of (db_safes d) x = None \<Longrightarrow> map_of (db_safes e) x = None"
    and "settled d x \<Longrightarrow> map_of (db_execs e) x = map_of (db_execs d) x"
    and "settled d x \<Longrightarrow> map_of (db_safes e) x = map_of (db_safes d) x"
    and "map_of (db_execs d) x = Some r \<Longrightarrow> \<not> settled e x \<Longrightarrow>
      filter (\<lambda>(q, f, t). t = x) (db_protections e) = filter (\<lambda>(q, f, t). t = x) (db_protections d)"
  using assms unfolding journal_le_def by blast+

lemma journal_le_settled: "journal_le d e \<Longrightarrow> settled d x \<Longrightarrow> settled e x"
  using settled_cong [OF journal_leD(4,5)] by blast

interpretation journal: store_order journal_le
proof
  show "journal_le d d" for d by (simp add: journal_le_def)
  show "journal_le d f" if 1: "journal_le d e" and 2: "journal_le e f" for d e f
    unfolding journal_le_def
  proof (intro conjI allI impI)
    fix x r assume r: "map_of (db_execs d) x = Some r"
    then obtain q where q: "map_of (db_execs e) x = Some q" "exec_le r q" using journal_leD(1) [OF 1] by blast
    from journal_leD(1) [OF 2 q(1)] q(2) show "\<exists>q. map_of (db_execs f) x = Some q \<and> exec_le r q"
      by (auto intro: exec_le_trans)
  next
    fix x row assume "map_of (db_safes d) x = Some row"
    then obtain row' where row': "map_of (db_safes e) x = Some row'" "safe_le (sr_Doc row) (sr_Doc row')"
      using journal_leD(2) [OF 1] by blast
    from journal_leD(2) [OF 2 row'(1)] row'(2)
    show "\<exists>row'. map_of (db_safes f) x = Some row' \<and> safe_le (sr_Doc row) (sr_Doc row')" by (auto intro: safe_le_trans)
  next
    fix x assume "map_of (db_execs d) x \<noteq> None \<and> map_of (db_safes d) x = None"
    then obtain r where r: "map_of (db_execs d) x = Some r" "map_of (db_safes d) x = None" by auto
    then obtain q where "map_of (db_execs e) x = Some q" using journal_leD(1) [OF 1] by blast
    then show "map_of (db_safes f) x = None" using journal_leD(3) [OF 2] journal_leD(3) [OF 1 r] by blast
  next
    fix x assume s: "settled d x"
    show "map_of (db_execs f) x = map_of (db_execs d) x" "map_of (db_safes f) x = map_of (db_safes d) x"
      using journal_leD(4,5) [OF 1 s] journal_leD(4,5) [OF 2 journal_le_settled [OF 1 s]] by simp_all
  next
    fix x assume "map_of (db_execs d) x \<noteq> None \<and> \<not> settled f x"
    then obtain r where r: "map_of (db_execs d) x = Some r" "\<not> settled f x" by auto
    then obtain q where "map_of (db_execs e) x = Some q" using journal_leD(1) [OF 1] by blast
    then show "filter (\<lambda>(q, g, t). t = x) (db_protections f) = filter (\<lambda>(q, g, t). t = x) (db_protections d)"
      using journal_leD(6) [OF 2 _ r(2)] journal_leD(6) [OF 1 r(1)] journal_le_settled [OF 2] r(2) by auto
  qed
qed

section \<open>A change of one transaction\<close>

lemma length_filter_map_le:
  "(\<And>z. z \<in> set zs \<Longrightarrow> P (f z) \<Longrightarrow> Q z) \<Longrightarrow> length (filter P (map f zs)) \<le> length (filter Q zs)"
  by (induction zs) (auto simp: le_SucI)

lemma journal_wfD:
  assumes "journal_wf d"
  shows "tables_wf d" "distinct (map fst (db_execs d))" "distinct (map fst (db_safes d))"
    "\<And>x r. map_of (db_execs d) x = Some r \<Longrightarrow> exec_ok x r"
    "\<And>x row. map_of (db_safes d) x = Some row \<Longrightarrow> \<exists>r. map_of (db_execs d) x = Some r \<and> safe_ok r (sr_Doc row)"
    "exclusive (db_protections d)"
    "\<And>q f t. (q, f, t) \<in> set (db_protections d) \<Longrightarrow> map_of (db_execs d) t \<noteq> None \<and> \<not> settled d t"
    "length (db_execs d) \<le> MaxRecords" "length (filter (unsettled d) (db_execs d)) \<le> MaxUnsettled"
    "\<And>domain. count_rows (open_domain domain) (db_safes d) \<le> 1"
    "\<And>x gen tm p. db_last_known_good d = Some (x, gen, tm, p) \<Longrightarrow>
        \<exists>r row. map_of (db_execs d) x = Some r \<and> x_Plan r = p \<and> map_of (db_safes d) x = Some row \<and>
           sf_State (sr_Doc row) = ''confirmed''"
  using assms unfolding journal_wf_def by blast+

lemma journal_changeE:
  assumes "journal_change x d e"
  obtains r q where "grown d e" "\<not> settled d x" "map_of (db_execs d) x = Some r" "exec_le r q" "exec_ok x q"
    "db_execs e = update_row x q (db_execs d)" "safe_change d x q e"
    "db_protections e = released (settled e x) x (db_protections d)"
    "db_last_known_good e = db_last_known_good d \<or>
       (\<exists>gen tm. db_last_known_good e = Some (x, gen, tm, x_Plan q)) \<and>
       (\<exists>row. map_of (db_safes e) x = Some row \<and> sf_State (sr_Doc row) = ''confirmed'')"
  using assms unfolding journal_change_def by auto

lemma safe_change_rows:
  assumes "safe_change d x q e"
  shows "y \<noteq> x \<Longrightarrow> map_of (db_safes e) y = map_of (db_safes d) y"
    and "map_of (db_safes d) x = None \<Longrightarrow> map_of (db_safes e) x = None"
    and "map_of (db_safes d) x = Some row \<Longrightarrow> \<exists>t. map_of (db_safes e) x = Some (row\<lparr>sr_Doc := t\<rparr>) \<and>
       safe_le (sr_Doc row) t \<and> safe_ok q t \<and> (sf_State t = ''confirmed'' \<longrightarrow> sf_State (sr_Doc row) = ''awaiting-confirmation'')"
    and "map fst (db_safes e) = map fst (db_safes d)"
  using assms by (auto simp: safe_change_def map_of_update_row split: option.splits)

lemma journal_change_other:
  assumes "journal_change x d e" and "y \<noteq> x"
  shows "map_of (db_execs e) y = map_of (db_execs d) y" "map_of (db_safes e) y = map_of (db_safes d) y"
    "settled e y = settled d y"
proof -
  show 1: "map_of (db_execs e) y = map_of (db_execs d) y" "map_of (db_safes e) y = map_of (db_safes d) y"
    using assms by (auto simp: map_of_update_row safe_change_rows elim!: journal_changeE)
  show "settled e y = settled d y" by (rule settled_cong [OF 1])
qed

lemma journal_change_le:
  assumes "journal_change x d e"
  shows "journal_le d e"
proof -
  obtain r q where r: "map_of (db_execs d) x = Some r" "exec_le r q" "db_execs e = update_row x q (db_execs d)"
    and open_x: "\<not> settled d x" and s: "safe_change d x q e"
    and p: "db_protections e = released (settled e x) x (db_protections d)"
    using journal_changeE [OF assms] by metis
  note other = journal_change_other [OF assms] and rows = safe_change_rows [OF s]
  show ?thesis
    unfolding journal_le_def
  proof (intro conjI allI impI)
    fix y r' assume "map_of (db_execs d) y = Some r'"
    then show "\<exists>q. map_of (db_execs e) y = Some q \<and> exec_le r' q" using r by (auto simp: map_of_update_row)
  next
    fix y row assume "map_of (db_safes d) y = Some row"
    then show "\<exists>row'. map_of (db_safes e) y = Some row' \<and> safe_le (sr_Doc row) (sr_Doc row')"
      using rows(1,3) by (cases "y = x") auto
  next
    fix y assume "map_of (db_execs d) y \<noteq> None \<and> map_of (db_safes d) y = None"
    then show "map_of (db_safes e) y = None" using rows(1,2) by (cases "y = x") auto
  next
    fix y assume "settled d y"
    then show "map_of (db_execs e) y = map_of (db_execs d) y" "map_of (db_safes e) y = map_of (db_safes d) y"
      using other open_x by (cases "y = x"; simp)+
  next
    fix y assume "map_of (db_execs d) y \<noteq> None \<and> \<not> settled e y"
    then show "filter (\<lambda>(q, f, t). t = y) (db_protections e) = filter (\<lambda>(q, f, t). t = y) (db_protections d)"
      by (auto simp: p released_def intro: filter_cong)
  qed
qed

lemma journal_change_open:
  assumes "journal_change x d e" and "journal_wf d"
  shows "length (filter (unsettled e) (db_execs e)) \<le> length (filter (unsettled d) (db_execs d))"
    and "count_rows (open_domain domain) (db_safes e) \<le> count_rows (open_domain domain) (db_safes d)"
proof -
  obtain r q where r: "map_of (db_execs d) x = Some r" "exec_le r q" "db_execs e = update_row x q (db_execs d)"
    and open_x: "\<not> settled d x" and s: "safe_change d x q e"
    using journal_changeE [OF assms(1)] by metis
  note other = journal_change_other [OF assms(1)] and wf = journal_wfD [OF assms(2)]
  have row: "z = (x, r)" if "z \<in> set (db_execs d)" "fst z = x" for z
    by (rule prod_eqI) (use that r(1) map_of_is_SomeI [OF wf(2), of "fst z" "snd z"] in auto)
  have x: "unsettled d (x, r)" if "unsettled e (x, q)"
  proof -
    have "\<not> terminal r" using that r(2) by (auto simp: unsettled_def exec_le_def)
    moreover have "\<not> safe_terminal x d" using open_x by (auto simp: settled_def safe_terminal_def split: option.splits)
    ultimately show ?thesis by (simp add: unsettled_def)
  qed
  have y: "unsettled e (y, v) = unsettled d (y, v)" if "y \<noteq> x" for y v
    using other(2) [OF that] by (simp add: unsettled_def safe_terminal_def)
  show "length (filter (unsettled e) (db_execs e)) \<le> length (filter (unsettled d) (db_execs d))"
    unfolding r(3) update_row_def by (rule length_filter_map_le) (use x y row in \<open>auto split: if_splits\<close>)
  show "count_rows (open_domain domain) (db_safes e) \<le> count_rows (open_domain domain) (db_safes d)"
  proof (cases "map_of (db_safes d) x")
    case None
    then show ?thesis using s by (simp add: safe_change_def)
  next
    case (Some sr)
    then obtain t where t: "db_safes e = update_row x (sr\<lparr>sr_Doc := t\<rparr>) (db_safes d)" "safe_le (sr_Doc sr) t"
      using s by (auto simp: safe_change_def)
    have "open_domain domain sr" if "open_domain domain (sr\<lparr>sr_Doc := t\<rparr>)"
      using that t(2) open_x Some by (auto simp: open_domain_def safe_le_def settled_def)
    then show ?thesis unfolding t(1) by (intro count_rows_update_le [OF Some _ wf(3)])
  qed
qed

lemma exclusive_released: "exclusive ps \<Longrightarrow> exclusive (released b x ps)"
  by (auto simp: exclusive_def released_def distinct_map inj_on_def)

lemma journal_change_wf:
  assumes "journal_change x d e" and "journal_wf d"
  shows "journal_wf e"
proof -
  obtain r q where r: "grown d e" "map_of (db_execs d) x = Some r" "exec_le r q" "exec_ok x q"
      "db_execs e = update_row x q (db_execs d)"
    and open_x: "\<not> settled d x" and s: "safe_change d x q e"
    and p: "db_protections e = released (settled e x) x (db_protections d)"
    and good: "db_last_known_good e = db_last_known_good d \<or>
       (\<exists>gen tm. db_last_known_good e = Some (x, gen, tm, x_Plan q)) \<and>
       (\<exists>row. map_of (db_safes e) x = Some row \<and> sf_State (sr_Doc row) = ''confirmed'')"
    using journal_changeE [OF assms(1)] by metis
  note other = journal_change_other [OF assms(1)] and wf = journal_wfD [OF assms(2)]
    and rows = safe_change_rows [OF s] and less = journal_change_open [OF assms]
  have x: "map_of (db_execs e) x = Some q" using r(2,5) by (simp add: map_of_update_row)
  have "\<exists>r. map_of (db_execs e) y = Some r \<and> safe_ok r (sr_Doc row)" if "map_of (db_safes e) y = Some row" for y row
    using that x rows(2,3) other wf(5) by (cases "y = x"; cases "map_of (db_safes d) x") auto
  moreover have "map_of (db_execs e) t \<noteq> None \<and> \<not> settled e t" if "(q', f, t) \<in> set (db_protections e)" for q' f t
    using that wf(7) [of q' f t] x other unfolding p released_def by (cases "t = x") (auto split: if_splits)
  moreover have "exec_ok y r'" if "map_of (db_execs e) y = Some r'" for y r'
    using that x r(4) other wf(4) by (cases "y = x") auto
  moreover have "\<exists>r row. map_of (db_execs e) y = Some r \<and> x_Plan r = pl \<and> map_of (db_safes e) y = Some row \<and>
      sf_State (sr_Doc row) = ''confirmed''" if "db_last_known_good e = Some (y, gen, tm, pl)" for y gen tm pl
  proof (cases "y = x")
    case True
    with that good wf(11) [of x gen tm pl] open_x x show ?thesis by (auto simp: settled_def Terminal_safety_def)
  next
    case False
    with that good wf(11) [of y gen tm pl] other(1,2) [OF False] show ?thesis by auto
  qed
  moreover have "count_rows (open_domain domain) (db_safes e) \<le> 1" for domain
    using less(2) wf(10) by (rule le_trans)
  ultimately show ?thesis
    unfolding journal_wf_def
    using grownD(1) [OF r(1) wf(1)] wf rows(4) less(1) exclusive_released by (auto simp: r(5) p)
qed

section \<open>An admission\<close>

lemma journal_admitE:
  assumes "journal_admit x d e" and "journal_wf d"
  obtains r where "grown d e" "execution_room d" "map_of (db_execs d) x = None" "map_of (db_safes d) x = None"
    "db_execs e = db_execs d @ [(x, r)]" "exec_ok x r" "x_State r = ''admitted''"
    "db_last_known_good e = db_last_known_good d" "protect_grow x (db_protections d) (db_protections e)"
    "map_of (db_execs e) x = Some r" "\<not> settled e x"
    "db_safes e = db_safes d \<or> (\<exists>row. db_safes e = db_safes d @ [(x, row)] \<and> admitted_doc (sf_Domain (sr_Doc row)) (sr_Doc row) \<and>
       safe_ok r (sr_Doc row) \<and> count_rows (open_domain (sf_Domain (sr_Doc row))) (db_safes d) = 0)"
proof -
  from assms(1) obtain r where a: "grown d e" "execution_room d" "map_of (db_execs d) x = None"
      "db_execs e = db_execs d @ [(x, r)]" "x_ID r = x" "x_State r = ''admitted''" "oc_Commit (x_Outcome r) = ''not-sent''"
      "db_last_known_good e = db_last_known_good d" "protect_grow x (db_protections d) (db_protections e)"
    and s: "db_safes e = db_safes d \<or> (\<exists>row. db_safes e = db_safes d @ [(x, row)] \<and> map_of (db_safes d) x = None \<and>
         admitted_doc (sf_Domain (sr_Doc row)) (sr_Doc row) \<and>
         count_rows (open_domain (sf_Domain (sr_Doc row))) (db_safes d) = 0)"
    unfolding journal_admit_def by auto
  have none: "map_of (db_safes d) x = None" using journal_wfD(5) [OF assms(2)] a(3)
    by (metis not_Some_eq)
  have ok: "exec_ok x r" using a(5-7) by (simp add: exec_ok_def)
  have row: "map_of (db_execs e) x = Some r" unfolding a(4) map_of_snoc using a(3) by simp
  have doc: "safe_ok r t" if "admitted_doc domain t" for domain t
    using that by (simp add: admitted_doc_def safe_ok_def)
  have "\<not> settled e x"
    using s none row a(6)
    by (auto simp: settled_def map_of_snoc terminal_def admitted_doc_def Terminal_safety_def simp del: map_of_append)
  with s doc show ?thesis by (intro that [OF a(1-3) none a(4) ok a(6,8,9) row]) auto
qed

lemma journal_admit_other:
  assumes "journal_admit x d e" and "journal_wf d" and "y \<noteq> x"
  shows "map_of (db_execs e) y = map_of (db_execs d) y" "map_of (db_safes e) y = map_of (db_safes d) y"
    "settled e y = settled d y"
proof -
  have exec: "map_of (db_execs e) y = map_of (db_execs d) y"
    by (rule journal_admitE [OF assms(1,2)]) (use assms(3) in \<open>simp add: map_of_snoc del: map_of_append split: option.splits\<close>)
  moreover have safe: "map_of (db_safes e) y = map_of (db_safes d) y"
    by (rule journal_admitE [OF assms(1,2)]) (use assms(3) in \<open>auto simp: map_of_snoc simp del: map_of_append split: option.splits\<close>)
  ultimately show 1: "map_of (db_execs e) y = map_of (db_execs d) y" "map_of (db_safes e) y = map_of (db_safes d) y" .
  show "settled e y = settled d y" by (rule settled_cong [OF 1])
qed

lemma journal_admit_le:
  assumes "journal_admit x d e" and "journal_wf d"
  shows "journal_le d e"
proof -
  obtain r where r: "map_of (db_execs d) x = None" "map_of (db_safes d) x = None" "\<not> settled e x"
    "protect_grow x (db_protections d) (db_protections e)"
    using journal_admitE [OF assms] by metis
  note other = journal_admit_other [OF assms]
  have "\<not> settled d x" using r by (simp add: settled_def)
  moreover obtain new where "db_protections e = db_protections d @ new" "\<forall>(q, f, t) \<in> set new. t = x"
    using r(4) by (auto simp: protect_grow_def)
  then have held: "filter (\<lambda>(q, f, t). t = y) (db_protections e) = filter (\<lambda>(q, f, t). t = y) (db_protections d)" if "y \<noteq> x" for y
    using that by (auto simp: filter_empty_conv)
  ultimately have other_x: "y \<noteq> x" if "map_of (db_execs d) y \<noteq> None \<or> map_of (db_safes d) y \<noteq> None \<or> settled d y" for y
    using that r(1,2) by auto
  show ?thesis
    unfolding journal_le_def
  proof (intro conjI allI impI)
    fix y q assume "map_of (db_execs d) y = Some q"
    then show "\<exists>q'. map_of (db_execs e) y = Some q' \<and> exec_le q q'" using other(1) [OF other_x] by simp
  next
    fix y row assume "map_of (db_safes d) y = Some row"
    then show "\<exists>row'. map_of (db_safes e) y = Some row' \<and> safe_le (sr_Doc row) (sr_Doc row')"
      using other(2) [OF other_x] by simp
  next
    fix y assume "map_of (db_execs d) y \<noteq> None \<and> map_of (db_safes d) y = None"
    then show "map_of (db_safes e) y = None" using other(2) [OF other_x] by simp
  next
    fix y assume "settled d y"
    then show "map_of (db_execs e) y = map_of (db_execs d) y" "map_of (db_safes e) y = map_of (db_safes d) y"
      using other(1,2) [OF other_x] by simp_all
  next
    fix y assume "map_of (db_execs d) y \<noteq> None \<and> \<not> settled e y"
    then show "filter (\<lambda>(q, f, t). t = y) (db_protections e) = filter (\<lambda>(q, f, t). t = y) (db_protections d)"
      using held [OF other_x] by simp
  qed
qed

lemma journal_admit_wf:
  assumes "journal_admit x d e" and "journal_wf d"
  shows "journal_wf e"
proof -
  obtain r where r: "grown d e" "execution_room d" "map_of (db_execs d) x = None" "map_of (db_safes d) x = None"
    "db_execs e = db_execs d @ [(x, r)]" "exec_ok x r" "db_last_known_good e = db_last_known_good d"
    "protect_grow x (db_protections d) (db_protections e)" "map_of (db_execs e) x = Some r" "\<not> settled e x"
    and s: "db_safes e = db_safes d \<or> (\<exists>row. db_safes e = db_safes d @ [(x, row)] \<and>
       admitted_doc (sf_Domain (sr_Doc row)) (sr_Doc row) \<and> safe_ok r (sr_Doc row) \<and>
       count_rows (open_domain (sf_Domain (sr_Doc row))) (db_safes d) = 0)"
    using journal_admitE [OF assms] by metis
  note other = journal_admit_other [OF assms] and wf = journal_wfD [OF assms(2)]
  obtain new where new: "db_protections e = db_protections d @ new" "\<forall>(q, f, t) \<in> set new. t = x" "exclusive (db_protections e)"
    using r(8) wf(6) by (auto simp: protect_grow_def)
  have keys: "distinct (map fst (db_execs e))" "distinct (map fst (db_safes e))"
    using s wf(2,3) r(3-5) distinct_snoc_key by auto
  have execs: "exec_ok y q" if "map_of (db_execs e) y = Some q" for y q
    using that r(6,9) other(1) wf(4) by (cases "y = x") auto
  have safes: "\<exists>q. map_of (db_execs e) y = Some q \<and> safe_ok q (sr_Doc row)" if "map_of (db_safes e) y = Some row" for y row
  proof (cases "y = x")
    case True
    with that s r(4,9) show ?thesis by (auto simp: map_of_snoc simp del: map_of_append)
  qed (use that other(1,2) wf(5) in auto)
  have held: "map_of (db_execs e) t \<noteq> None \<and> \<not> settled e t" if "(q, f, t) \<in> set (db_protections e)" for q f t
    using that new(1,2) wf(7) [of q f t] r(9,10) other by (cases "t = x") auto
  have "unsettled e z = unsettled d z" if "z \<in> set (db_execs d)" for z
  proof -
    have "fst z \<noteq> x" using that r(3) by (auto simp: map_of_eq_None_iff)
    then show ?thesis using other(2) [of "fst z"] by (simp add: unsettled_def safe_terminal_def case_prod_beta)
  qed
  then have "filter (unsettled e) (db_execs d) = filter (unsettled d) (db_execs d)" by (rule filter_cong [OF refl])
  then have room: "length (db_execs e) \<le> MaxRecords" "length (filter (unsettled e) (db_execs e)) \<le> MaxUnsettled"
    using r(2,5) by (auto simp: execution_room_def)
  have domains: "count_rows (open_domain domain) (db_safes e) \<le> 1" for domain
    using s wf(10) [of domain] by (auto simp: open_domain_def admitted_doc_def Terminal_safety_def)
  have good: "\<exists>q row. map_of (db_execs e) y = Some q \<and> x_Plan q = p \<and> map_of (db_safes e) y = Some row \<and>
      sf_State (sr_Doc row) = ''confirmed''" if "db_last_known_good e = Some (y, gen, tm, p)" for y gen tm p
    using wf(11) [of y gen tm p] that r(3,7) other [of y] by (cases "y = x") auto
  show ?thesis
    unfolding journal_wf_def using grownD(1) [OF r(1) wf(1)] keys execs safes new(3) held room domains good by blast
qed

end
