(* ===== verification/Engine_Transactions.thy ===== *)
theory Engine_Transactions
  imports Engine_Journal
begin

text \<open>
  Every writer transaction of the engine is an admission or a change of one transaction in the sense of
  \<open>Engine_Journal\<close>: recording an outcome, the dispatch intent, a safe-apply change, its refresh, the
  admission and the decision, the last two inside the request journal.
\<close>

section \<open>Field transitions\<close>

lemma load_Inr:
  "load x d = Inr r \<Longrightarrow> map_of (db_execs d) x = Some r \<and> x_ID r = x"
  by (auto simp: load_def then_do_Inr split: if_splits)

lemma loadSafety_Inr:
  assumes "loadSafety x d = Inr s"
  obtains row where "map_of (db_safes d) x = Some row" "sr_Doc row = s"
  using assms by (auto simp: loadSafety_def then_do_Inr split: if_splits)

lemma loadSafety_NoRows: "loadSafety x d = Inl ErrNoRows \<longleftrightarrow> map_of (db_safes d) x = None"
  by (auto simp: loadSafety_def select_row_def split: option.splits)

lemma exec_ok_stateFor: "x_ID r = x \<Longrightarrow> exec_ok x (changed r n (stateFor now r oc) (outcome_reason tm r state oc) tm')"
  by (auto simp: exec_ok_def stateFor_def outcome_reason_def)

lemma stateFor_cases:
  "stateFor now r oc = ''failed'' \<longleftrightarrow> oc_Commit oc = ''rejected''"
  "stateFor now r oc = ''succeeded'' \<longleftrightarrow> oc_Commit oc = ''committed'' \<and> oc_Applied oc = ''applied''"
  "stateFor now r oc \<noteq> ''admitted''"
  by (auto simp: stateFor_def)

text \<open>A field transition of an open execution that is not terminal.\<close>

lemma transition_change:
  assumes "transition a r oc state d = Inr (r', d')" and "journal_wf d" and "map_of (db_execs d) x = Some r"
    and "\<not> terminal r" and "\<not> safe_terminal x d" and "state \<noteq> ''admitted''"
    and "exec_ok x (changed r 0 state oc 0)"
  shows "journal_change x d d'" and "map_of (db_execs d') x = Some r'" and "x_State r' = state"
    and "db_safes d' = db_safes d" and "x_Outcome r' = oc"
proof -
  have id: "x_ID r = x" using journal_wfD(4) [OF assms(2,3)] by (simp add: exec_ok_def)
  obtain n where n: "next_record_sequence (x_Sequence r) = Inr n" "r' = changed r n state oc (am_now a 0)" "grown d d'"
    "db_execs d' = update_row x r' (db_execs d)" "db_safes d' = db_safes d"
    "db_protections d' = released (terminal r' \<and> map_of (db_safes d) x = None) x (db_protections d)"
    "db_last_known_good d' = db_last_known_good d"
    using transition_effect [OF assms(1) journal_wfD(1) [OF assms(2)]] unfolding id by metis
  show row: "map_of (db_execs d') x = Some r'" using n(4) assms(3) by (simp add: map_of_update_row)
  show "x_State r' = state" "db_safes d' = db_safes d" "x_Outcome r' = oc" using n(2,5) by simp_all
  have open_x: "\<not> settled d x"
    using assms(3-5) by (auto simp: settled_def safe_terminal_def split: option.splits)
  have "settled d' x \<longleftrightarrow> terminal r' \<and> map_of (db_safes d) x = None"
    using n(5) row assms(5) by (auto simp: settled_def safe_terminal_def split: option.splits)
  moreover have "exec_le r r'" unfolding n(2) by (rule exec_le_changed [OF n(1)]) (use assms(4,6) in auto)
  moreover have "exec_ok x r'" using assms(7) unfolding n(2) exec_ok_def by simp
  moreover have "safe_change d x r' d'"
  proof (cases "map_of (db_safes d) x")
    case (Some row)
    note doc = journal_wfD(5) [OF assms(2) Some]
    have "safe_ok r' (sr_Doc row)"
      using doc assms(3-6) Some n(2) by (auto simp: safe_ok_def safe_terminal_def terminal_def Terminal_safety_def)
    moreover have "db_safes d' = update_row x (row\<lparr>sr_Doc := sr_Doc row\<rparr>) (db_safes d)"
      using n(5) update_row_same [OF Some journal_wfD(3) [OF assms(2)]] by simp
    ultimately show ?thesis
      unfolding safe_change_def using Some assms(5) safe_le_refl
      by (auto simp: safe_terminal_def Terminal_safety_def intro!: exI [of _ "sr_Doc row"])
  qed (simp add: safe_change_def n(5))
  ultimately show "journal_change x d d'"
    unfolding journal_change_def using n open_x assms(3) by auto
qed

lemma saveOutcome_tx_change:
  assumes "saveOutcome_tx a x oc d = Inr (u, d')" and "journal_wf d"
  obtains r where "load x d = Inr r" "d' = d" "terminal r \<or> safe_terminal x d"
  | r q where "load x d = Inr r" "\<not> terminal r" "\<not> safe_terminal x d" "d' = d \<or> journal_change x d d'"
      "map_of (db_execs d') x = Some q" "x_State q = stateFor (am_now a 0) r oc" "db_safes d' = db_safes d"
proof -
  obtain r where r: "load x d = Inr r" using assms(1) by (auto simp: saveOutcome_tx_def then_do_Inr)
  note row = load_Inr [OF r]
  show ?thesis
  proof (cases "terminal r \<or> safe_terminal x d")
    case True
    have "d' = d"
    proof (cases "terminal r")
      case False
      with True obtain row where "map_of (db_safes d) x = Some row" "Terminal_safety (sf_State (sr_Doc row))"
        by (auto simp: safe_terminal_def split: option.splits)
      then show ?thesis using assms(1) r False
        by (auto simp: saveOutcome_tx_def loadSafety_def select_row_def split: if_splits)
    qed (use assms(1) r in \<open>simp add: saveOutcome_tx_def\<close>)
    then show ?thesis using that(1) [OF r _ True] by simp
  next
    case False
    define state where "state = stateFor (am_now a 0) r oc"
    define oc' where "oc' = outcome_reason (am_now a 1) r state oc"
    have go: "(if sameOutcome (x_Outcome r) oc' \<and> x_State r = state then Inr ((), d)
        else then_do (transition (forth 2 a) r oc' state d) (\<lambda>(_, d). Inr ((), d))) = Inr (u, d')"
      using assms(1) r False unfolding saveOutcome_tx_def state_def oc'_def
      by (auto simp: Let_def loadSafety_def safe_terminal_def then_do_Inr select_row_def split: sum.splits if_splits option.splits)
    show ?thesis
    proof (cases "sameOutcome (x_Outcome r) oc' \<and> x_State r = state")
      case True
      then show ?thesis using go row False by (intro that(2) [OF r]) (auto simp: state_def)
    next
      case changed: False
      then obtain r' where t: "transition (forth 2 a) r oc' state d = Inr (r', d')"
        using go by (auto simp: then_do_Inr split: prod.splits)
      have ok: "exec_ok x (changed r 0 state oc' 0)"
        unfolding state_def oc'_def by (rule exec_ok_stateFor) (use row in simp)
      have "state \<noteq> ''admitted''" unfolding state_def by (rule stateFor_cases)
      from transition_change [OF t assms(2) _ _ _ this ok] row False show ?thesis
        by (intro that(2) [OF r]) (auto simp: state_def)
    qed
  qed
qed

lemma dispatch_tx_change:
  assumes "dispatch_tx a w fresh d = Inr (r', d')" and "journal_wf d"
  shows "journal_change (wk_ID w) d d'" and "map_of (db_execs d') (wk_ID w) = Some r'" and "x_State r' = ''committing''"
    and "\<exists>r. map_of (db_execs d) (wk_ID w) = Some r \<and> x_State r = ''admitted''"
    and "fresh = Inr (wk_Authorization w)" and "am_now a 0 < az_Expires (wk_Authorization w)"
    and "wk_Safe w \<Longrightarrow> \<exists>row. map_of (db_safes d) (wk_ID w) = Some row \<and> sf_State (sr_Doc row) = ''preparing'' \<and>
       \<not> Expired (sf_Preparation (sr_Doc row)) (am_clock a 0)"
proof -
  define oc where "oc = plain_outcome ''unknown'' ''unknown'' ''dispatch-intent-durable''"
  obtain r where fresh: "fresh = Inr (wk_Authorization w)" "am_now a 0 < az_Expires (wk_Authorization w)"
    and r: "load (wk_ID w) d = Inr r" "x_State r = ''admitted''"
    and safe: "(if wk_Safe w then then_do (loadSafety (wk_ID w) d) (\<lambda>s.
         if sf_State s \<noteq> ''preparing'' \<or> Expired (sf_Preparation s) (am_clock a 0) then failed 409 ''SAFE_APPLY_EXPIRED''
         else Inr ()) else Inr ()) = Inr ()"
    and t: "transition (forth 1 a) r oc ''committing'' d = Inr (r', d')"
    using assms(1) unfolding dispatch_tx_def oc_def by (elim then_doE) (auto elim!: then_doE split: if_splits)
  note row = load_Inr [OF r(1)]
  have ok: "exec_ok (wk_ID w) (changed r 0 ''committing'' oc 0)"
    using row by (simp add: exec_ok_def oc_def plain_outcome_def)
  have "\<not> safe_terminal (wk_ID w) d"
  proof
    assume s: "safe_terminal (wk_ID w) d"
    then obtain sr where sr: "map_of (db_safes d) (wk_ID w) = Some sr" "Terminal_safety (sf_State (sr_Doc sr))"
      by (auto simp: safe_terminal_def split: option.splits)
    show False using journal_wfD(5) [OF assms(2) sr(1)] sr(2) r(2) row
      by (auto simp: safe_ok_def Terminal_safety_def)
  qed
  moreover have "\<not> terminal r" using r(2) by (simp add: terminal_def)
  ultimately show "journal_change (wk_ID w) d d'" "map_of (db_execs d') (wk_ID w) = Some r'" "x_State r' = ''committing''"
    using transition_change [OF t assms(2) _ _ _ _ ok] row by simp_all
  show "\<exists>r. map_of (db_execs d) (wk_ID w) = Some r \<and> x_State r = ''admitted''" using row r(2) by blast
  show "fresh = Inr (wk_Authorization w)" "am_now a 0 < az_Expires (wk_Authorization w)" by (fact fresh)+
  show "\<exists>row. map_of (db_safes d) (wk_ID w) = Some row \<and> sf_State (sr_Doc row) = ''preparing'' \<and>
       \<not> Expired (sf_Preparation (sr_Doc row)) (am_clock a 0)" if "wk_Safe w"
    using safe that by (auto simp: then_do_Inr split: if_splits elim!: loadSafety_Inr)
qed

section \<open>Safe-apply changes\<close>

text \<open>The contract of a safe-apply document that replaces \<open>s\<close> for the execution \<open>r\<close>.\<close>

definition safe_next :: "Execution \<Rightarrow> Safety \<Rightarrow> Safety \<Rightarrow> bool" where
  "safe_next r s t \<longleftrightarrow> safe_le s t \<and> safe_ok r t \<and> (sf_State t = ''confirmed'' \<longrightarrow> sf_State s = ''awaiting-confirmation'')"

lemma safe_ok_state: "x_State q = x_State r \<Longrightarrow> safe_ok q s = safe_ok r s"
  by (simp add: safe_ok_def)

lemma updateSafety_change:
  assumes "updateSafety a r s d = Inr (u, d')" and "journal_wf d" and "map_of (db_execs d) x = Some r0"
    and "map_of (db_safes d) x = Some row" and "\<not> Terminal_safety (sf_State (sr_Doc row))" and "safe_next r (sr_Doc row) s"
    and "r = r0\<lparr>x_Outcome := oc, x_State := state\<rparr>" and "exec_ok x r" and "state = ''admitted'' \<longrightarrow> x_State r0 = ''admitted''"
    and "terminal r0 \<longrightarrow> terminal r"
  shows "journal_change x d d'" and "map_of (db_safes d') x = Some (row\<lparr>sr_Doc := s\<rparr>)"
    and "\<exists>q. map_of (db_execs d') x = Some q \<and> x_State q = state \<and> x_Outcome q = oc \<and> x_Plan q = x_Plan r0 \<and>
       x_Sequence q \<noteq> x_Sequence r0"
proof -
  have id: "x_ID r = x" using assms(8) by (simp add: exec_ok_def)
  obtain n q where n: "next_record_sequence (x_Sequence r) = Inr n"
    and q: "q = changed r n (x_State r) (x_Outcome r) (ck_Wall (am_clock a 0))" and g: "grown d d'"
    and e: "db_execs d' = update_row x q (db_execs d)" "db_safes d' = update_row x (row\<lparr>sr_Doc := s\<rparr>) (db_safes d)"
      "db_protections d' = released (Terminal_safety (sf_State s)) x (db_protections d)"
      "db_last_known_good d' = (if sf_State s = ''confirmed''
         then Some (x, x_Generation q, UnixMilli (x_Updated q), x_Plan r) else db_last_known_good d)"
    using updateSafety_effect [OF assms(1) journal_wfD(1) [OF assms(2)], of row] assms(4) unfolding id by metis
  show row': "map_of (db_safes d') x = Some (row\<lparr>sr_Doc := s\<rparr>)" using e(2) assms(4) by (simp add: map_of_update_row)
  have seq: "x_Sequence r = x_Sequence r0" "x_Plan r = x_Plan r0" using assms(7) by simp_all
  have "q = changed r0 n state oc (ck_Wall (am_clock a 0))" unfolding q changed_def assms(7) by simp
  then have "exec_le r0 q"
    using exec_le_changed [of r0 n] n assms(7,9,10) seq(1) by (auto simp: terminal_def)
  moreover have "exec_ok x q" using assms(8) by (simp add: q exec_ok_def)
  moreover have "settled d' x \<longleftrightarrow> Terminal_safety (sf_State s)" by (simp add: settled_def row')
  moreover have "\<not> settled d x" using assms(4,5) by (simp add: settled_def)
  moreover have "safe_change d x q d'"
    using assms(4,6) e(2) safe_ok_state [of q r] by (auto simp: safe_change_def safe_next_def q)
  moreover have "x_Plan q = x_Plan r" by (simp add: q)
  ultimately show "journal_change x d d'"
    unfolding journal_change_def using g e row' assms(3) by (cases "sf_State s = ''confirmed''") auto
  show "\<exists>q. map_of (db_execs d') x = Some q \<and> x_State q = state \<and> x_Outcome q = oc \<and> x_Plan q = x_Plan r0 \<and>
       x_Sequence q \<noteq> x_Sequence r0"
    using e(1) assms(3,7) next_record_sequence_Inr(4) [OF n] seq
    by (intro exI [of _ q]) (auto simp: map_of_update_row q)
qed

lemma saveSafety_tx_change:
  assumes "saveSafety_tx a r s d = Inr (u, d')" and "journal_wf d" and "map_of (db_execs d) x = Some r"
    and "map_of (db_safes d) x = Some row" and "\<not> Terminal_safety (sf_State (sr_Doc row))" and "safe_next r (sr_Doc row) s"
  shows "journal_change x d d'" and "map_of (db_safes d') x = Some (row\<lparr>sr_Doc := s\<rparr>)"
    and "\<exists>q. map_of (db_execs d') x = Some q \<and> x_State q = x_State r \<and> x_Outcome q = x_Outcome r \<and> x_Plan q = x_Plan r \<and>
       x_Sequence q \<noteq> x_Sequence r"
proof -
  have ok: "exec_ok x r" by (rule journal_wfD(4) [OF assms(2,3)])
  then have "updateSafety a r s d = Inr (u, d')"
    using assms(1,3) load_Inr by (auto simp: saveSafety_tx_def then_do_Inr exec_ok_def dest!: load_Inr split: if_splits)
  from updateSafety_change [OF this assms(2-6), where oc = "x_Outcome r" and state = "x_State r"] ok
  show "journal_change x d d'" "map_of (db_safes d') x = Some (row\<lparr>sr_Doc := s\<rparr>)"
    "\<exists>q. map_of (db_execs d') x = Some q \<and> x_State q = x_State r \<and> x_Outcome q = x_Outcome r \<and> x_Plan q = x_Plan r \<and>
       x_Sequence q \<noteq> x_Sequence r"
    by auto
qed

lemma saveSafety_stale:
  assumes "map_of (db_execs d) (x_ID r) = Some q" and "x_Sequence q \<noteq> x_Sequence r"
  shows "snd (saveSafety f a r s d) = d" and "\<nexists>u. fst (saveSafety f a r s d) = Inr u"
proof -
  have "\<nexists>p. saveSafety_tx a r s d = Inr p"
    using assms by (auto simp: saveSafety_tx_def then_do_Inr dest!: load_Inr split: if_splits)
  then show "snd (saveSafety f a r s d) = d" "\<nexists>u. fst (saveSafety f a r s d) = Inr u"
    by (cases "saveSafety_tx a r s d"; auto simp: saveSafety_def store_write_def split: fate.splits)+
qed

lemma saveSafety_change:
  assumes "saveSafety f a r s d = (res, d')" and "journal_wf d" and "map_of (db_execs d) x = Some r"
    and "map_of (db_safes d) x = Some row" and "\<not> Terminal_safety (sf_State (sr_Doc row))" and "safe_next r (sr_Doc row) s"
  obtains (same) "d' = d" "\<nexists>u. res = Inr u"
  | (saved) q where "journal_change x d d'" "map_of (db_safes d') x = Some (row\<lparr>sr_Doc := s\<rparr>)" "map_of (db_execs d') x = Some q"
      "x_State q = x_State r" "x_Outcome q = x_Outcome r" "x_Plan q = x_Plan r" "x_Sequence q \<noteq> x_Sequence r"
proof -
  have w: "res = fst (store_write f (saveSafety_tx a r s) d)" "d' = snd (store_write f (saveSafety_tx a r s) d)"
    using assms(1) by (simp_all add: saveSafety_def)
  show ?thesis
  proof (cases rule: store_write_cases [of f "saveSafety_tx a r s" d])
    case same
    then show ?thesis using that(1) w by auto
  next
    case (commit u)
    then have "saveSafety_tx a r s d = Inr (u, d')" using w by simp
    from saveSafety_tx_change [OF this assms(2-6)] show ?thesis using that(2) by blast
  qed
qed

lemma refresh_tx_change:
  assumes "refresh_tx r s d = Inr (u, d')" and "journal_wf d" and "map_of (db_execs d) x = Some r"
    and "map_of (db_safes d) x = Some row" and "\<not> Terminal_safety (sf_State (sr_Doc row))" and "safe_next r (sr_Doc row) s"
    and "\<not> Terminal_safety (sf_State s)"
  shows "journal_change x d d'" and "map_of (db_safes d') x = Some (row\<lparr>sr_Doc := s\<rparr>)" and "db_execs d' = db_execs d"
proof -
  have ok: "exec_ok x r" by (rule journal_wfD(4) [OF assms(2,3)])
  have d': "d' = d\<lparr>db_safes := update_row x (row\<lparr>sr_Doc := s\<rparr>) (db_safes d)\<rparr>"
    using assms(1,4) ok by (auto simp: refresh_tx_def then_do_Inr set_safety_def exec_ok_def split: if_splits)
  show row': "map_of (db_safes d') x = Some (row\<lparr>sr_Doc := s\<rparr>)" using assms(4) by (simp add: d' map_of_update_row)
  show "db_execs d' = db_execs d" by (simp add: d')
  have "\<not> settled d' x" "\<not> settled d x" using row' assms(4,5,7) by (simp_all add: settled_def)
  moreover have "update_row x r (db_execs d) = db_execs d"
    by (rule update_row_same [OF assms(3) journal_wfD(2) [OF assms(2)]])
  moreover have "safe_change d x r d'" using assms(4,6) by (auto simp: safe_change_def safe_next_def d')
  ultimately show "journal_change x d d'"
    unfolding journal_change_def using ok assms(3)
    by (intro conjI exI [of _ r]) (auto simp: d' released_def)
qed

section \<open>Writes inside the request journal\<close>

lemma journal_change_frame:
  assumes "journal_change x d e" and "grown d f" and "db_execs f = db_execs e" and "db_safes f = db_safes e"
    and "db_protections f = db_protections e" and "db_last_known_good f = db_last_known_good e"
  shows "journal_change x d f"
proof -
  have "settled f x = settled e x" by (rule settled_cong) (simp_all add: assms)
  moreover have "safe_change d x q f = safe_change d x q e" for q
    using assms(4) by (simp add: safe_change_def split: option.splits)
  ultimately show ?thesis
    using assms unfolding journal_change_def by simp
qed

lemma updateSafety_grown:
  assumes "updateSafety a r s d = Inr (u, d')"
  shows "grown d d'"
proof -
  define r' where "r' = (\<lambda>n. changed r n (x_State r) (x_Outcome r) (ck_Wall (am_clock a 0)))"
  obtain n job k d1 y where
    job: "ChangeJob a (j_ID job) (j_Sequence job) (safe_phase job (r' n) s) (x_Updated (r' n)) (write_safety (r' n) s n d)
       = Inr (k, d1)"
    and app: "Append (later 2 a) (safety_record (r' n) s) (close_safety (r' n) s d1) = Inr (y, d')"
    using assms unfolding updateSafety_def Let_def r'_def
    by (elim then_doE) (auto elim!: then_doE split: if_splits)
  show ?thesis
    by (rule growth.le_trans [OF growth.le_trans [OF grown_helpers(5) ChangeJob_grown [OF job]]
          growth.le_trans [OF grown_helpers(6) Append_grown [OF app]]])
qed

lemma decide_tx_effect:
  assumes "decide_tx x v r s oc a d = Inr (m, d')" and "journal_wf d" and "load x d = Inr r"
    and "map_of (db_safes d) x = Some row" and "sr_Doc row = s" and "\<not> Terminal_safety (sf_State s)"
    and "de_decision v = ''confirm'' \<longrightarrow> sf_State s = ''awaiting-confirmation'' \<and> oc_Commit oc = ''committed'' \<and>
       oc_Applied oc = ''applied''"
  obtains (confirm) s' where "de_decision v = ''confirm''" "s' = s\<lparr>sf_State := ''confirmed'', sf_Reason := ''connectivity-confirmed'',
       sf_HealthyAt := Some (ck_Wall (am_clock a 4))\<rparr>"
      "case sf_Confirmation s of None \<Rightarrow> False | Some w \<Rightarrow> \<not> Expired w (am_clock a 1)"
      "am_authority a 1 (x_Authorization r) = Inr ()" "x_Sequence r = de_sequence v" "de_check v = Inr ()"
      "journal_change x d d'" "map_of (db_safes d') x = Some (row\<lparr>sr_Doc := s'\<rparr>)"
  | (rollback) s' where "de_decision v = ''rollback''" "sf_Rollback s = None"
      "s' = s\<lparr>sf_State := ''rollback-requested'', sf_Reason := ''authorized-rollback-requested''\<rparr>"
      "journal_change x d d'" "map_of (db_safes d') x = Some (row\<lparr>sr_Doc := s'\<rparr>)"
proof -
  note row = load_Inr [OF assms(3)]
  have ok: "exec_ok x r" "safe_ok r s"
    using journal_wfD(4) [OF assms(2)] journal_wfD(5) [OF assms(2,4)] row assms(5) by auto
  obtain q t d1 y where check: "de_check v = Inr ()" and seq: "x_Sequence r = de_sequence v"
    and decided: "(if de_decision v = ''confirm''
        then (case sf_Confirmation s of
                None \<Rightarrow> Inl ErrUnavailable
              | Some w \<Rightarrow>
                  if Expired w (am_clock a 1) \<or> ck_Wall (am_clock a 2) < x_Updated r \<or> ck_Wall (am_clock a 3) < sf_LastWall s
                  then failed 409 ''DECISION_EXPIRED''
                  else then_do (am_authority a 1 (x_Authorization r)) (\<lambda>_.
                    Inr (r\<lparr>x_Outcome := oc, x_State := stateFor (am_now a 0) r oc\<rparr>,
                         s\<lparr>sf_State := ''confirmed'', sf_Reason := ''connectivity-confirmed'',
                           sf_HealthyAt := Some (ck_Wall (am_clock a 4))\<rparr>)))
        else if de_decision v = ''rollback''
        then (if sf_Rollback s \<noteq> None \<or> sf_State s = ''rollback-conflict'' then failed 409 ''ROLLBACK_ALREADY_DISPATCHED''
              else Inr (r, s\<lparr>sf_State := ''rollback-requested'', sf_Reason := ''authorized-rollback-requested''\<rparr>))
        else failed 422 ''INVALID_DECISION'') = Inr (q, t)"
    and upd: "updateSafety (forth 5 a) q t d = Inr ((), d1)"
    and app: "Append (later 40 a) (decision_record (de_decision v) r) d1 = Inr (y, d')"
    using assms(1,3) unfolding decide_tx_def
    by (elim then_doE) (simp split: if_split_asm, auto elim!: then_doE simp: Let_def)
  note fr = Append_journal [OF app]
  have frame: "journal_change x d d'" if "journal_change x d d1"
    by (rule journal_change_frame [OF that growth.le_trans [OF updateSafety_grown [OF upd] Append_grown [OF app]]])
      (simp_all add: fr)
  show ?thesis
  proof (cases "de_decision v = ''confirm''")
    case True
    with decided obtain w where w: "sf_Confirmation s = Some w" "\<not> Expired w (am_clock a 1)"
      "am_authority a 1 (x_Authorization r) = Inr ()" "q = r\<lparr>x_Outcome := oc, x_State := stateFor (am_now a 0) r oc\<rparr>"
      "t = s\<lparr>sf_State := ''confirmed'', sf_Reason := ''connectivity-confirmed'', sf_HealthyAt := Some (ck_Wall (am_clock a 4))\<rparr>"
      by (auto simp: then_do_Inr split: option.splits if_splits)
    have st: "stateFor (am_now a 0) r oc = ''succeeded''" using assms(7) True by (simp add: stateFor_cases)
    have "safe_next q (sr_Doc row) t"
      using ok(2) assms(5,7) True w st by (auto simp: safe_next_def safe_le_def safe_ok_def compensating_def)
    moreover have "exec_ok x q" using ok(1) assms(7) True st by (simp add: exec_ok_def w(4))
    moreover have "terminal q" by (simp add: terminal_def w(4) st)
    ultimately have "journal_change x d d1" "map_of (db_safes d1) x = Some (row\<lparr>sr_Doc := t\<rparr>)"
      using updateSafety_change [OF upd assms(2) _ assms(4) _ _ w(4)] row assms(5,6) st by auto
    then show ?thesis using confirm [OF True w(5) _ w(3) seq check] frame fr w(1,2) by simp
  next
    case False
    with decided have b: "de_decision v = ''rollback''" "sf_Rollback s = None" "q = r"
      "t = s\<lparr>sf_State := ''rollback-requested'', sf_Reason := ''authorized-rollback-requested''\<rparr>"
      by (auto split: if_splits)
    have "safe_next r (sr_Doc row) t" using ok(2) assms(5) b by (auto simp: safe_next_def safe_le_def safe_ok_def)
    then have "journal_change x d d1" "map_of (db_safes d1) x = Some (row\<lparr>sr_Doc := t\<rparr>)"
      using updateSafety_change [OF upd [unfolded b(3)] assms(2) _ assms(4), where oc = "x_Outcome r" and state = "x_State r"] row ok(1) assms(5,6)
      by auto
    then show ?thesis using rollback [OF b(1,2,4)] frame fr by simp
  qed
qed

lemma decide_tx_grown:
  assumes "decide_tx x v r s oc a d = Inr (m, d')"
  shows "grown d d'"
proof -
  obtain q t d1 y where "updateSafety (forth 5 a) q t d = Inr ((), d1)"
    and "Append (later 40 a) (decision_record (de_decision v) r) d1 = Inr (y, d')"
    using assms unfolding decide_tx_def
    by (elim then_doE) (simp split: if_split_asm, auto elim!: then_doE simp: Let_def)
  then show ?thesis by (blast intro: growth.le_trans updateSafety_grown Append_grown)
qed

lemma grown_receipts_keep: "grown d e \<Longrightarrow> tables_wf d \<Longrightarrow> receipts_wf e \<and> receipts_le d e"
  using grownD [of d e] by (simp add: tables_wf_def)

text \<open>Both mutations of the engine keep the receipts, so what the request journal promises holds for them.\<close>

interpretation admission: receipt_keeper "admit g x q c fresh p safe" tables_wf for g x q c fresh p safe
proof
  fix a d m d'
  assume "admit g x q c fresh p safe a d = Inr (m, d')" and "tables_wf d"
  then show "receipts_wf d' \<and> receipts_le d d'"
    using admit_effect(1) grown_receipts_keep unfolding journal_admit_def by blast
qed

interpretation decision: receipt_keeper "decide_tx x v r s oc" tables_wf for x v r s oc
proof
  fix a d m d'
  assume "decide_tx x v r s oc a d = Inr (m, d')" and "tables_wf d"
  then show "receipts_wf d' \<and> receipts_le d d'" using decide_tx_grown grown_receipts_keep by blast
qed

context receipt_keeper
begin

text \<open>A command either leaves the tables alone, and then an answer is a replayed one, or the tables are
  those of its mutation with the receipt added, and then an answer is a first one.\<close>

lemma Execute_cases:
  assumes "Execute f a ''management'' c authorized reauthorize mutate d = (r, d')" and "ok d" and "receipts_wf d"
  obtains (same) "d' = d" "\<forall>out. r = Inr out \<longrightarrow> rs_Replayed out"
  | (written) m e rows w where "mutate (with_command ''management'' c (new_id a 0) (later 1 a)) d = Inr (m, e)"
      "d' = e\<lparr>db_receipts := rows, db_high_watermark := w\<rparr>" "receipts_wf d'" "receipts_le d d'"
      "\<forall>out. r = Inr out \<longrightarrow> \<not> rs_Replayed out" "\<forall>err. r = Inl err \<longrightarrow> err = ErrCommitUnknown"
proof (cases "d' \<noteq> d \<or> (\<exists>x. r = Inr x)")
  case False
  then show ?thesis by (intro same) auto
next
  case True
  then obtain key digest where dom: "ac_Domain c = ''management''"
    and w: "store_write f (execute_tx a ''management'' c digest key reauthorize mutate) d = (r, d')"
    using Execute_write [OF assms(1)] by metis
  let ?tx = "execute_tx a ''management'' c digest key reauthorize mutate"
  have snd_fst: "snd (store_write f ?tx d) = d'" "fst (store_write f ?tx d) = r" using w by simp_all
  show ?thesis
  proof (cases rule: store_write_cases [of f ?tx d])
    case same
    then show ?thesis using True snd_fst by auto
  next
    case (commit y)
    then have tx: "?tx d = Inr (y, d')" and r: "r = Inr y \<or> r = Inl ErrCommitUnknown" by (simp_all add: snd_fst)
    show ?thesis
    proof (rule execute_tx_cases [OF tx assms(2,3) dom])
      fix v assume "d' = d" "replay_row digest v = Inr y"
      then show ?thesis using r by (intro same) (auto simp: replay_row_def split: if_splits)
    next
      fix m e now correlation
      assume "mutate (with_command ''management'' c (new_id a 0) (later 1 a)) d = Inr (m, e)"
        "d' = e\<lparr>db_receipts := db_receipts e @ [new_row c digest now m correlation],
         db_high_watermark := max (db_high_watermark e) (UnixMilli now)\<rparr>" "receipts_wf d'" "receipts_le d d'"
        "y = \<lparr>rs_Status = mn_Status m, rs_Body = body_of c m correlation, rs_Receipt = new_receipt c m correlation, rs_Replayed = False\<rparr>"
      then show ?thesis using r by (intro written) auto
    qed
  qed
qed

end

lemma grown_with_receipt:
  assumes "grown d e" and "d' = e\<lparr>db_receipts := rows, db_high_watermark := w\<rparr>" and "receipts_wf d'" and "receipts_le d d'"
  shows "grown d d'"
proof -
  have "jobs_wf d' = jobs_wf e" "records_wf d' = records_wf e" "evidence_le d d' = evidence_le d e"
    unfolding assms(2) by (simp_all add: jobs_wf_def records_wf_def evidence_le_def)
  with assms(1,3,4) show ?thesis by (auto simp: grown_def tables_wf_def)
qed

text \<open>An admission through the request journal.\<close>

lemma Execute_admit:
  assumes "Execute f a ''management'' c authorized reauthorize (admit g x q az fresh p safe) d = (r, d')" and "journal_wf d"
  obtains (same) "d' = d" "\<forall>out. r = Inr out \<longrightarrow> rs_Replayed out"
  | (admitted) row where "journal_admit x d d'" "map_of (db_execs d') x = Some row" "x_Plan row = p"
      "x_Authorization row = az" "x_State row = ''admitted''" "map_of (db_safes d') x \<noteq> None \<longleftrightarrow> safe \<noteq> None"
      "\<forall>out. r = Inr out \<longrightarrow> \<not> rs_Replayed out" "\<forall>err. r = Inl err \<longrightarrow> err = ErrCommitUnknown" "fresh = Inr az"
proof (rule admission.Execute_cases [OF assms(1)])
  show "tables_wf d" "receipts_wf d" using journal_wfD(1) [OF assms(2)] by (simp_all add: tables_wf_def)
  assume "d' = d" "\<forall>out. r = Inr out \<longrightarrow> rs_Replayed out"
  then show ?thesis by (rule same)
next
  fix m e rows w
  assume m: "admit g x q az fresh p safe (with_command ''management'' c (new_id a 0) (later 1 a)) d = Inr (m, e)"
    and d': "d' = e\<lparr>db_receipts := rows, db_high_watermark := w\<rparr>" and keep: "receipts_wf d'" "receipts_le d d'"
    and r: "\<forall>out. r = Inr out \<longrightarrow> \<not> rs_Replayed out" "\<forall>err. r = Inl err \<longrightarrow> err = ErrCommitUnknown"
  note e = admit_effect [OF m]
  have admit: "journal_admit x d d'"
    using e(1) grown_with_receipt [OF _ d' keep] unfolding journal_admit_def by (simp add: d')
  then have "map_of (db_safes d) x = None" by (rule journal_admitE [OF _ assms(2)])
  then have safe: "map_of (db_safes d') x \<noteq> None \<longleftrightarrow> safe \<noteq> None"
    using e(1,4) unfolding journal_admit_def d' by (auto simp: map_of_snoc simp del: map_of_append)
  have fresh: "fresh = Inr az" using m by (auto simp: admit_def then_do_Inr split: if_splits)
  have "map_of (db_execs d') x = Some (new_execution (with_command ''management'' c (new_id a 0) (later 1 a)) x q az p)"
    using e(3) by (simp add: d')
  then show ?thesis by (rule admitted [OF admit _ _ _ _ safe r fresh]) (simp_all add: new_execution_def)
qed

end
