(* ===== verification/Engine_Handlers.thy ===== *)
theory Engine_Handlers
  imports Engine_Transactions
begin

text \<open>
  The handlers of the engine on the journal: each is a sequence of changes of its own transaction, only a
  decision confirms, and a compensation is reported as sent only after its plan is durable.
\<close>

section \<open>Sequences of changes\<close>

definition confirmed :: "journal_db \<Rightarrow> string \<Rightarrow> bool" where
  "confirmed d x \<longleftrightarrow> (\<exists>row. map_of (db_safes d) x = Some row \<and> sf_State (sr_Doc row) = ''confirmed'')"

definition journal_watch :: "string \<Rightarrow> journal_db \<Rightarrow> journal_db \<Rightarrow> bool" where
  "journal_watch x d e \<longleftrightarrow> journal_change x d e \<and> \<not> confirmed e x"

lemma watch_run:
  assumes "(journal_watch x)\<^sup>*\<^sup>* d e" and "journal_wf d"
  shows "journal_wf e" and "journal_le d e" and "grown d e" and "confirmed e y \<Longrightarrow> confirmed d y"
    and "(journal_change x)\<^sup>*\<^sup>* d e"
proof -
  have "journal_wf e \<and> journal_le d e \<and> grown d e \<and> (\<forall>y. confirmed e y \<longrightarrow> confirmed d y) \<and> (journal_change x)\<^sup>*\<^sup>* d e"
    using assms
  proof (induction rule: rtranclp_induct)
    case base
    then show ?case by (simp add: journal.le_refl growth.le_refl)
  next
    case (step e f)
    then have c: "journal_change x e f" "\<not> confirmed f x" by (simp_all add: journal_watch_def)
    have "confirmed f y \<Longrightarrow> confirmed e y" for y
      using journal_change_other(2) [OF c(1), of y] c(2) by (cases "y = x") (auto simp: confirmed_def)
    moreover have "grown e f" using c(1) by (simp add: journal_change_def)
    ultimately show ?case
      using step c(1) journal_change_wf journal_change_le journal.le_trans growth.le_trans
      by (meson rtranclp.rtrancl_into_rtrancl)
  qed
  then show "journal_wf e" "journal_le d e" "grown d e" "confirmed e y \<Longrightarrow> confirmed d y" "(journal_change x)\<^sup>*\<^sup>* d e"
    by blast+
qed

lemma watch_other:
  assumes "(journal_change x)\<^sup>*\<^sup>* d e" and "y \<noteq> x"
  shows "map_of (db_execs e) y = map_of (db_execs d) y" "map_of (db_safes e) y = map_of (db_safes d) y"
  using assms(1) by (induction rule: rtranclp_induct) (simp_all add: journal_change_other [OF _ assms(2)])

lemma watch_step: "e = d \<or> journal_watch x d e \<Longrightarrow> (journal_watch x)\<^sup>*\<^sup>* d e"
  by auto

lemma open_not_confirmed: "\<not> settled d x \<Longrightarrow> \<not> confirmed d x"
  by (auto simp: settled_def confirmed_def Terminal_safety_def)

section \<open>Field handlers\<close>

lemma saveOutcome_result:
  assumes "saveOutcome f a x oc d = (res, d')" and "journal_wf d"
  shows "d' = d \<or> journal_watch x d d'" and "db_safes d' = db_safes d"
    and "res = Inr u \<Longrightarrow> load x d = Inr r \<Longrightarrow> \<exists>q. map_of (db_execs d') x = Some q \<and>
       (if terminal r \<or> safe_terminal x d then q = r else x_State q = stateFor (am_now a 0) r oc)"
proof -
  have eff: "(d' = d \<or> journal_watch x d d') \<and> db_safes d' = db_safes d \<and>
      (\<forall>r. load x d = Inr r \<longrightarrow> (\<exists>q. map_of (db_execs d') x = Some q \<and>
       (if terminal r \<or> safe_terminal x d then q = r else x_State q = stateFor (am_now a 0) r oc)))"
    if tx: "saveOutcome_tx a x oc d = Inr (v, d')" for v
  proof (rule saveOutcome_tx_change [OF tx assms(2)])
    fix r assume "load x d = Inr r" "d' = d" "terminal r \<or> safe_terminal x d"
    then show ?thesis using load_Inr by auto
  next
    fix r q assume r: "load x d = Inr r" "\<not> terminal r" "\<not> safe_terminal x d" "d' = d \<or> journal_change x d d'"
      "map_of (db_execs d') x = Some q" "x_State q = stateFor (am_now a 0) r oc" "db_safes d' = db_safes d"
    have "\<not> confirmed d' x"
      using r(3,7) by (auto simp: confirmed_def safe_terminal_def Terminal_safety_def)
    then show ?thesis using r by (auto simp: journal_watch_def)
  qed
  have w: "store_write f (saveOutcome_tx a x oc) d = (res, d')" using assms(1) by (simp add: saveOutcome_def)
  from store_write_result [OF w] eff show "d' = d \<or> journal_watch x d d'" "db_safes d' = db_safes d" by auto
  show "\<exists>q. map_of (db_execs d') x = Some q \<and>
       (if terminal r \<or> safe_terminal x d then q = r else x_State q = stateFor (am_now a 0) r oc)"
    if "res = Inr u" "load x d = Inr r"
    using store_write_Inr [OF w [unfolded that(1)]] eff that(2) by blast
qed

lemma run_finish_run:
  assumes "run_finish f a p x plan result d = (res, d')" and "journal_wf d"
  shows "(journal_watch x)\<^sup>*\<^sup>* d d'"
proof -
  obtain r1 d1 where s1: "saveOutcome (f 1) (forth 20 a) x result d = (r1, d1)" by fastforce
  note one = watch_step [OF saveOutcome_result(1) [OF s1 assms(2)]]
  show ?thesis
  proof (cases "(\<exists>u. r1 = Inr u) \<and> oc_Commit result = ''committed''")
    case True
    then have "saveOutcome (f 2) (forth 40 a) x (pv_Observe p plan result) d1 = (res, d')"
      using assms(1) s1 by (auto simp: run_finish_def)
    from watch_step [OF saveOutcome_result(1) [OF this watch_run(1) [OF one assms(2)]]] one show ?thesis by simp
  next
    case False
    then have "d' = d1" using assms(1) s1 by (auto simp: run_finish_def split: sum.splits if_splits)
    then show ?thesis using one by simp
  qed
qed

lemma reconcile_run:
  assumes "reconcile_db f a p x d = (res, d')" and "journal_wf d"
  shows "(journal_watch x)\<^sup>*\<^sup>* d d'"
  using assms by (auto simp: reconcile_db_def split: sum.splits if_splits dest!: saveOutcome_result(1))

lemma beforeSend_run:
  assumes "beforeSend f a w v d = (res, d')" and "journal_wf d"
  shows "d' = d \<or> journal_watch (wk_ID w) d d'"
    and "res = Inr r' \<Longrightarrow> map_of (db_execs d') (wk_ID w) = Some r' \<and> x_State r' = ''committing'' \<and>
       (\<exists>r. map_of (db_execs d) (wk_ID w) = Some r \<and> x_State r = ''admitted'')"
proof -
  have tx: "journal_watch (wk_ID w) d d'" if "dispatch_tx a w (we_fresh v) d = Inr (u, d')" for u
  proof -
    note c = dispatch_tx_change [OF that assms(2)]
    have "\<not> confirmed d' (wk_ID w)"
      using journal_wfD(5) [OF journal_change_wf [OF c(1) assms(2)]] c(2,3) by (fastforce simp: confirmed_def safe_ok_def)
    then show ?thesis using c(1) by (simp add: journal_watch_def)
  qed
  have w: "d' = d \<and> (\<nexists>u. res = Inr u) \<or> store_write f (dispatch_tx a w (we_fresh v)) d = (res, d')"
    using assms(1) by (auto simp: beforeSend_def split: sum.splits)
  then show "d' = d \<or> journal_watch (wk_ID w) d d'" by (auto dest!: store_write_result intro: tx)
  show "map_of (db_execs d') (wk_ID w) = Some r' \<and> x_State r' = ''committing'' \<and>
       (\<exists>r. map_of (db_execs d) (wk_ID w) = Some r \<and> x_State r = ''admitted'')" if "res = Inr r'"
  proof -
    have "dispatch_tx a w (we_fresh v) d = Inr (r', d')" using w that by (auto dest: store_write_Inr)
    from dispatch_tx_change(2-4) [OF this assms(2)] show ?thesis by blast
  qed
qed

section \<open>Compensation\<close>

lemma saveSafety_watch:
  assumes "saveSafety f a r s d = (res, d')" and "journal_wf d" and "map_of (db_execs d) x = Some r"
    and "map_of (db_safes d) x = Some row" and "\<not> Terminal_safety (sf_State (sr_Doc row))" and "safe_next r (sr_Doc row) s"
    and "sf_State s \<noteq> ''confirmed''"
  shows "d' = d \<or> journal_watch x d d'"
  by (rule saveSafety_change [OF assms(1-6)]) (use assms(7) in \<open>auto simp: journal_watch_def confirmed_def\<close>)

lemma safe_next_hold:
  assumes "safe_le s0 s" and "sf_Rollback s \<noteq> None \<Longrightarrow> x_State r \<noteq> ''admitted''"
    and "state = ''recovery-required'' \<or> state = ''rollback-conflict''"
  shows "safe_next r s0 (s\<lparr>sf_State := state, sf_Reason := reason, sf_HealthyAt := h\<rparr>)"
  using assms by (auto simp: safe_next_def safe_le_def safe_ok_def compensating_def)

lemma holdSafety_watch:
  assumes "holdSafety f a r s state reason d = (res, d')" and "journal_wf d" and "map_of (db_execs d) x = Some r"
    and "map_of (db_safes d) x = Some row" and "\<not> Terminal_safety (sf_State (sr_Doc row))"
    and "safe_next r (sr_Doc row) (s\<lparr>sf_State := state, sf_Reason := reason, sf_HealthyAt := None\<rparr>)"
    and "state \<noteq> ''confirmed''"
  shows "(journal_watch x)\<^sup>*\<^sup>* d d'"
proof (cases "sf_State s = state \<and> sf_Reason s = reason")
  case False
  then have "saveSafety f a r (s\<lparr>sf_State := state, sf_Reason := reason, sf_HealthyAt := None\<rparr>) d = (res, d')"
    using assms(1) unfolding holdSafety_def by (auto split: if_split_asm)
  from watch_step [OF saveSafety_watch [OF this assms(2-6)]] assms(7) show ?thesis by simp
qed (use assms(1) in \<open>simp add: holdSafety_def\<close>)

lemma rollback_problem_state:
  "rollback_problem e = (state, reason) \<Longrightarrow> state = ''recovery-required'' \<or> state = ''rollback-conflict''"
  by (auto simp: rollback_problem_def split: err.splits problem.splits if_splits)

lemma rollback_answer_run:
  assumes "rollback_answer f a x oc d = (res, d')" and "journal_wf d" and "map_of (db_execs d) x = Some r"
    and "map_of (db_safes d) x = Some row" and "sf_State (sr_Doc row) = ''rolling-back''" and "sf_Rollback (sr_Doc row) = Some plan"
  shows "(journal_watch x)\<^sup>*\<^sup>* d d'" and "\<exists>row'. map_of (db_safes d') x = Some row' \<and> sf_Rollback (sr_Doc row') = Some plan"
proof -
  have "(journal_watch x)\<^sup>*\<^sup>* d d' \<and> (\<exists>row'. map_of (db_safes d') x = Some row' \<and> sf_Rollback (sr_Doc row') = Some plan)"
  proof (cases "readSafety x d")
    case (Inl e)
    then show ?thesis using assms by (simp add: rollback_answer_def)
  next
    case (Inr rs)
    then have rs: "rs = (r, sr_Doc row)"
      using assms(3,4) by (auto simp: readSafety_def then_do_Inr dest!: load_Inr elim!: loadSafety_Inr)
    define s where "s = (let s = (sr_Doc row)\<lparr>sf_Outcome := oc\<rparr> in
       if oc_Commit oc = ''rejected''
       then s\<lparr>sf_State := ''rollback-conflict'', sf_Reason := ''rollback-transaction-rejected''\<rparr>
       else s\<lparr>sf_Reason := oc_Reason oc\<rparr>)"
    have save: "saveSafety f a r s d = (res, d')"
      using assms(1) Inr rs by (simp add: rollback_answer_def s_def Let_def)
    have s: "sf_Rollback s = Some plan" "sf_State s = ''rollback-conflict'' \<or> sf_State s = ''rolling-back''"
      "safe_le (sr_Doc row) s"
      using assms(5,6) by (simp_all add: s_def Let_def safe_le_def)
    have "x_State r \<noteq> ''admitted''"
      using journal_wfD(5) [OF assms(2,4)] assms(3,6) by (auto simp: safe_ok_def)
    then have next_s: "safe_next r (sr_Doc row) s" using s by (auto simp: safe_next_def safe_ok_def compensating_def)
    have open_row: "\<not> Terminal_safety (sf_State (sr_Doc row))" using assms(5) by (simp add: Terminal_safety_def)
    show ?thesis
      by (rule saveSafety_change [OF save assms(2-4) open_row next_s])
        (use assms(4,6) s in \<open>auto simp: journal_watch_def confirmed_def\<close>)
  qed
  then show "(journal_watch x)\<^sup>*\<^sup>* d d'" "\<exists>row'. map_of (db_safes d') x = Some row' \<and> sf_Rollback (sr_Doc row') = Some plan"
    by blast+
qed

text \<open>What one watchdog call may report as sent.\<close>

definition sent_ok :: "string \<Rightarrow> journal_db \<Rightarrow> journal_db \<Rightarrow> dispatched list \<Rightarrow> bool" where
  "sent_ok x d e sent \<longleftrightarrow> sent = [] \<or>
     (\<exists>plan row row'. sent = [(x, Compensation, plan)] \<and> map_of (db_safes d) x = Some row \<and> sf_Rollback (sr_Doc row) = None \<and>
        map_of (db_safes e) x = Some row' \<and> sf_Rollback (sr_Doc row') = Some plan)"

lemma rollback_run:
  assumes "rollback f a g p r s d = (res, d', sent)" and "journal_wf d" and "map_of (db_execs d) x = Some r"
    and "map_of (db_safes d) x = Some row" and "\<not> Terminal_safety (sf_State (sr_Doc row))" and "safe_le (sr_Doc row) s"
    and "sf_Rollback (sr_Doc row) = None" and "sf_Rollback s = None" and "x_State r \<noteq> ''admitted''"
  shows "(journal_watch x)\<^sup>*\<^sup>* d d'" and "sent_ok x d d' sent"
proof -
  have id: "x_ID r = x" using journal_wfD(4) [OF assms(2,3)] by (simp add: exec_ok_def)
  note hold = holdSafety_watch [OF _ assms(2-5)]
  have "(journal_watch x)\<^sup>*\<^sup>* d d' \<and> sent_ok x d d' sent"
  proof (cases "pv_PrepareRollback p (x_Plan r) (rollbackMarker a g (x_ID r) (pl_Marker (x_Plan r)))")
    case (Inl e)
    obtain state reason where sr: "rollback_problem e = (state, reason)" by fastforce
    note state = rollback_problem_state [OF sr]
    obtain res' d1 where h: "holdSafety (f 0) (forth 30 a) r s state reason d = (res', d1)" by fastforce
    have "safe_next r (sr_Doc row) (s\<lparr>sf_State := state, sf_Reason := reason, sf_HealthyAt := None\<rparr>)"
      by (rule safe_next_hold [OF assms(6) _ state]) (use assms(9) in simp)
    from hold [OF h this] state have "(journal_watch x)\<^sup>*\<^sup>* d d1" by auto
    then show ?thesis using assms(1) Inl sr h by (simp add: rollback_def sent_ok_def)
  next
    case (Inr plan)
    define s1 where "s1 = dispatch_rollback plan s"
    have s1: "safe_le (sr_Doc row) s1" "sf_Rollback s1 = Some plan" "sf_State s1 = ''rolling-back''"
      "safe_le (sr_Doc row) (s1\<lparr>sf_Rollback := None\<rparr>)"
      using assms(6,7) by (simp_all add: s1_def dispatch_rollback_def safe_le_def)
    have next1: "safe_next r (sr_Doc row) s1"
      using s1 assms(9) by (simp add: safe_next_def safe_ok_def compensating_def)
    have held: "(journal_watch x)\<^sup>*\<^sup>* d d1"
      if "holdSafety (f 1) (forth 60 a) r (s1\<lparr>sf_Rollback := None\<rparr>) ''recovery-required'' ''rollback-not-dispatched'' d = (res', d1)"
      for res' d1
      by (rule hold [OF that]) (use safe_next_hold [OF s1(4)] in auto)
    show ?thesis
    proof (cases "pv_Commit p plan")
      case (Withheld u)
      obtain res' d1 where h: "holdSafety (f 1) (forth 60 a) r (s1\<lparr>sf_Rollback := None\<rparr>) ''recovery-required''
         ''rollback-not-dispatched'' d = (res', d1)" by fastforce
      then have "d' = d1" "sent = []" using assms(1) Inr Withheld by (simp_all add: rollback_def s1_def [symmetric])
      then show ?thesis using held [OF h] by (simp add: sent_ok_def)
    next
      case (Asked refused permitted)
      obtain r1 d1 where save: "saveSafety (f 0) (forth 30 a) r s1 d = (r1, d1)" by fastforce
      show ?thesis
      proof (cases r1)
        case (Inl e)
        obtain res' d2 where h: "holdSafety (f 1) (forth 60 a) r (s1\<lparr>sf_Rollback := None\<rparr>) ''recovery-required''
           ''rollback-not-dispatched'' d1 = (res', d2)" by fastforce
        then have d': "d' = d2" "sent = []"
          using assms(1) Inr Asked save Inl by (simp_all add: rollback_def s1_def [symmetric])
        show ?thesis
        proof (rule saveSafety_change [OF save assms(2-5) next1])
          assume "d1 = d"
          then show ?thesis using held h d' by (simp add: sent_ok_def)
        next
          fix q assume q: "journal_change x d d1" "map_of (db_safes d1) x = Some (row\<lparr>sr_Doc := s1\<rparr>)"
            "map_of (db_execs d1) x = Some q" "x_Sequence q \<noteq> x_Sequence r"
          then have "journal_watch x d d1" using s1(3) by (simp add: journal_watch_def confirmed_def)
          moreover have "d2 = d1"
            using h saveSafety_stale(1) [of d1 r q] q(3,4) id s1(3) by (auto simp: holdSafety_def dest: arg_cong [of _ _ snd])
          ultimately show ?thesis using d' by (auto simp: sent_ok_def)
        qed
      next
        case (Inr u)
        obtain res' d2 where ans: "rollback_answer (f 1) (forth 60 a) x permitted d1 = (res', d2)" by fastforce
        then have d': "d' = d2" "sent = [(x, Compensation, plan)]"
          using assms(1) \<open>_ = Inr plan\<close> Asked save Inr id by (simp_all add: rollback_def s1_def [symmetric])
        show ?thesis
        proof (rule saveSafety_change [OF save assms(2-5) next1])
          fix q assume q: "journal_change x d d1" "map_of (db_safes d1) x = Some (row\<lparr>sr_Doc := s1\<rparr>)"
            "map_of (db_execs d1) x = Some q"
          then have w: "journal_watch x d d1" using s1(3) by (simp add: journal_watch_def confirmed_def)
          have "journal_wf d1" by (rule journal_change_wf [OF q(1) assms(2)])
          note ra = rollback_answer_run [OF ans this q(3,2), simplified, OF s1(3,2)]
          have "(journal_watch x)\<^sup>*\<^sup>* d d2" using w ra(1) by (rule converse_rtranclp_into_rtranclp)
          then show ?thesis using ra(2) d' assms(4,7) by (auto simp: sent_ok_def)
        qed (use Inr in simp)
      qed
    qed
  qed
  then show "(journal_watch x)\<^sup>*\<^sup>* d d'" "sent_ok x d d' sent" by blast+
qed

section \<open>The watchdog\<close>

lemma safe_next_same_state:
  assumes "safe_ok r s0" and "safe_le s0 s" and "sf_State s = sf_State s0" and "sf_Rollback s = None"
    and "\<not> Terminal_safety (sf_State s0)"
  shows "safe_next r s0 s"
  using assms by (auto simp: safe_next_def safe_ok_def safe_le_def Terminal_safety_def)

lemma healthy_next:
  assumes "safe_le s0 s" and "sf_Rollback s = None" and "x_State r = ''succeeded''"
  shows "safe_next r s0 (healthy a g c s)"
  using assms by (auto simp: healthy_def safe_next_def safe_ok_def safe_le_def split: option.splits)

lemma watch_committed_run:
  assumes "watch_committed f a g p r s oc d = (res, d', sent)" and "journal_wf d" and "map_of (db_execs d) x = Some r"
    and "map_of (db_safes d) x = Some row" and "sr_Doc row = s" and "\<not> Terminal_safety (sf_State s)"
    and "sf_Rollback s = None" and "x_State r \<noteq> ''admitted''" and "oc_Applied oc = ''applied'' \<Longrightarrow> x_State r = ''succeeded''"
  shows "(journal_watch x)\<^sup>*\<^sup>* d d' \<and> sent_ok x d d' sent"
proof -
  define c where "c = am_clock a 0"
  define authorized where "authorized \<longleftrightarrow> am_authority a 0 (x_Authorization r) = Inr ()"
  define undo where "undo \<longleftrightarrow> window_expired c r s \<or> \<not> authorized \<or> sf_State s = ''rollback-requested''"
  define s1 where "s1 = (if sf_Trigger s = '''' \<and> undo then s\<lparr>sf_Trigger := rollback_trigger c authorized r s\<rparr> else s)"
  define s2 where "s2 = s1\<lparr>sf_ProbeFailures := sf_ProbeFailures s1 + 1, sf_HealthyAt := None\<rparr>"
  have ok: "safe_ok r s" using journal_wfD(5) [OF assms(2,4)] assms(3,5) by auto
  have s1: "safe_le s s1" "sf_Rollback s1 = None" "sf_State s1 = sf_State s" using assms(7) by (simp_all add: s1_def safe_le_def)
  have s2: "safe_le s s2" "sf_Rollback s2 = None" "sf_State s2 = sf_State s" using s1 by (simp_all add: s2_def safe_le_def)
  have eq: "(if undo then rollback f a g p r s1 d
      else if oc_Applied oc \<noteq> ''applied''
      then (\<lambda>(res, d). (res, d, [])) (holdSafety (f 0) (forth 30 a) r s1 ''recovery-required'' (oc_Reason oc) d)
      else if \<not> am_probe a 0
      then (if 3 \<le> sf_ProbeFailures s2 then rollback f a g p r (s2\<lparr>sf_Trigger := ''management-path-probes-failed''\<rparr>) d
            else (\<lambda>(res, d). (res, d, [])) (saveSafety (f 0) (forth 30 a) r (s2\<lparr>sf_Reason := ''management-path-unverified''\<rparr>) d))
      else if sf_State s1 = ''awaiting-confirmation'' \<and> sf_ProbeFailures s1 = 0 \<and> sf_HealthyAt s1 \<noteq> None
           then (\<lambda>(res, d). (res, d, [])) (store_write (f 0) (refresh_tx r (healthy a g c s1)) d)
           else (\<lambda>(res, d). (res, d, [])) (saveSafety (f 0) (forth 30 a) r (healthy a g c s1) d)) = (res, d', sent)"
    using assms(1) unfolding watch_committed_def Let_def c_def [symmetric] authorized_def [symmetric] undo_def [symmetric]
      s1_def [symmetric] s2_def [symmetric] .
  note row = assms(2-4) assms(6) [folded assms(5)]
  have roll: "(journal_watch x)\<^sup>*\<^sup>* d d' \<and> sent_ok x d d' sent"
    if "rollback f a g p r t d = (res, d', sent)" "safe_le s t" "sf_Rollback t = None" for t
    using rollback_run [OF that(1) row] that(2,3) assms(5,7,8) by auto
  have quiet: "sent = [] \<Longrightarrow> (journal_watch x)\<^sup>*\<^sup>* d d' \<Longrightarrow> ?thesis" by (simp add: sent_ok_def)
  consider (undo) "undo" | (pending) "\<not> undo" "oc_Applied oc \<noteq> ''applied''"
    | (failing) "\<not> undo" "oc_Applied oc = ''applied''" "\<not> am_probe a 0" "3 \<le> sf_ProbeFailures s2"
    | (unverified) "\<not> undo" "oc_Applied oc = ''applied''" "\<not> am_probe a 0" "\<not> 3 \<le> sf_ProbeFailures s2"
    | (stable) "\<not> undo" "oc_Applied oc = ''applied''" "am_probe a 0"
        "sf_State s1 = ''awaiting-confirmation'' \<and> sf_ProbeFailures s1 = 0 \<and> sf_HealthyAt s1 \<noteq> None"
    | (opened) "\<not> undo" "oc_Applied oc = ''applied''" "am_probe a 0"
        "\<not> (sf_State s1 = ''awaiting-confirmation'' \<and> sf_ProbeFailures s1 = 0 \<and> sf_HealthyAt s1 \<noteq> None)"
    by blast
  then show ?thesis
  proof cases
    case undo
    then show ?thesis using eq s1 by (intro roll [of s1]) simp_all
  next
    case pending
    then have h: "holdSafety (f 0) (forth 30 a) r s1 ''recovery-required'' (oc_Reason oc) d = (res, d')" "sent = []"
      using eq by (auto split: prod.splits)
    have "(journal_watch x)\<^sup>*\<^sup>* d d'"
      by (rule holdSafety_watch [OF h(1) row safe_next_hold]) (use s1 assms(5) in auto)
    then show ?thesis using h(2) by (rule quiet [rotated])
  next
    case failing
    then have "rollback f a g p r (s2\<lparr>sf_Trigger := ''management-path-probes-failed''\<rparr>) d = (res, d', sent)" using eq by simp
    then show ?thesis by (rule roll) (use s2 in \<open>simp_all add: safe_le_def\<close>)
  next
    case unverified
    then have h: "saveSafety (f 0) (forth 30 a) r (s2\<lparr>sf_Reason := ''management-path-unverified''\<rparr>) d = (res, d')" "sent = []"
      using eq by (auto split: prod.splits)
    have "safe_next r (sr_Doc row) (s2\<lparr>sf_Reason := ''management-path-unverified''\<rparr>)"
      by (rule safe_next_same_state) (use ok s2 assms(5,6) in \<open>auto simp: safe_le_def\<close>)
    from watch_step [OF saveSafety_watch [OF h(1) row this]] s2(3) assms(6) h(2) show ?thesis
      by (intro quiet) (auto simp: Terminal_safety_def)
  next
    case stable
    then have h: "store_write (f 0) (refresh_tx r (healthy a g c s1)) d = (res, d')" "sent = []"
      using eq by (auto split: prod.splits)
    have n: "safe_next r (sr_Doc row) (healthy a g c s1)"
      unfolding assms(5) by (rule healthy_next [OF s1(1,2) assms(9) [OF stable(2)]])
    have t: "\<not> Terminal_safety (sf_State (healthy a g c s1))" "sf_State (healthy a g c s1) = ''awaiting-confirmation''"
      by (simp_all add: healthy_def Terminal_safety_def)
    from store_write_result [OF h(1)] refresh_tx_change(1,2) [OF _ row n t(1)] t(2) h(2) show ?thesis
      by (intro quiet watch_step) (auto simp: journal_watch_def confirmed_def)
  next
    case opened
    then have h: "saveSafety (f 0) (forth 30 a) r (healthy a g c s1) d = (res, d')" "sent = []"
      using eq by (auto split: prod.splits if_splits)
    have "safe_next r (sr_Doc row) (healthy a g c s1)"
      unfolding assms(5) by (rule healthy_next [OF s1(1,2) assms(9) [OF opened(2)]])
    from watch_step [OF saveSafety_watch [OF h(1) row this]] h(2) show ?thesis
      by (intro quiet) (auto simp: healthy_def)
  qed
qed

lemma observe_next:
  assumes "safe_ok r s" and "sf_Rollback s = Some plan" and "s' = observe_rollback a p plan s"
  shows "safe_next r s s'" and "sf_State s' \<noteq> ''confirmed''"
  using assms by (auto simp: observe_rollback_def Let_def safe_next_def safe_ok_def safe_le_def compensating_def)

lemma readSafety_Inr:
  assumes "readSafety x d = Inr (r, s)"
  obtains row where "map_of (db_execs d) x = Some r" "x_ID r = x" "load x d = Inr r" "map_of (db_safes d) x = Some row" "sr_Doc row = s"
  using assms by (auto simp: readSafety_def then_do_Inr load_Inr elim!: loadSafety_Inr)

text \<open>After a successful \<open>saveOutcome\<close> of a committed and applied observation the execution has succeeded.\<close>

lemma saveOutcome_applied:
  assumes "saveOutcome f a x oc d = (Inr u, d')" and "journal_wf d" and "load x d = Inr r"
    and "oc_Commit (x_Outcome r) \<noteq> ''rejected''" and "x_State r \<noteq> ''admitted''" and "\<not> safe_terminal x d"
    and "load x d' = Inr q"
  shows "x_State q \<noteq> ''admitted''" and "oc_Commit oc = ''committed'' \<Longrightarrow> oc_Applied oc = ''applied'' \<Longrightarrow> x_State q = ''succeeded''"
proof -
  have ok: "exec_ok x r" by (rule journal_wfD(4) [OF assms(2)]) (use load_Inr [OF assms(3)] in simp)
  have q: "if terminal r then q = r else x_State q = stateFor (am_now a 0) r oc"
    using saveOutcome_result(3) [OF assms(1,2) refl assms(3)] load_Inr [OF assms(7)] assms(6) by auto
  show "x_State q \<noteq> ''admitted''" using q assms(5) stateFor_cases(3) by (auto split: if_splits)
  show "x_State q = ''succeeded''" if "oc_Commit oc = ''committed''" "oc_Applied oc = ''applied''"
    using q ok assms(4) that stateFor_cases(2) [of _ r oc] by (auto simp: terminal_def exec_ok_def split: if_splits)
qed

text \<open>The observation of a dispatched apply.\<close>

lemma observe_apply_run:
  assumes "(case saveOutcome f2 a2 x oc d of
       (Inl e, d) \<Rightarrow> (Inl e, d, [])
     | (Inr _, d) \<Rightarrow>
         (case Read_execution x d of
            Inl e \<Rightarrow> (Inl e, d, [])
          | Inr r \<Rightarrow>
              if oc_Commit oc \<noteq> ''committed''
              then (\<lambda>(res, d). (res, d, [])) (holdSafety (f 0) a r s ''recovery-required'' ''apply-outcome-unknown'' d)
              else watch_committed f a g p r s oc d)) = (res, d', sent)"
    and "journal_wf d" and "load x d = Inr r" and "map_of (db_safes d) x = Some row" and "sr_Doc row = s"
    and "\<not> Terminal_safety (sf_State s)" and "sf_Rollback s = None" and "oc_Commit (x_Outcome r) \<noteq> ''rejected''"
    and "x_State r \<noteq> ''admitted''"
  shows "(journal_watch x)\<^sup>*\<^sup>* d d' \<and> sent_ok x d d' sent"
proof -
  obtain res1 d1 where save: "saveOutcome f2 a2 x oc d = (res1, d1)" by fastforce
  note one = watch_step [OF saveOutcome_result(1) [OF save assms(2)]]
  have row1: "map_of (db_safes d1) x = Some row" using saveOutcome_result(2) [OF save assms(2)] assms(4) by simp
  show ?thesis
  proof (cases "\<exists>q u. res1 = Inr u \<and> load x d1 = Inr q")
    case False
    then have "d' = d1" "sent = []" using assms(1) save by (auto split: sum.splits)
    then show ?thesis using one by (simp add: sent_ok_def)
  next
    case True
    then obtain q u where q: "res1 = Inr u" "load x d1 = Inr q" by blast
    have st: "\<not> safe_terminal x d" using assms(4-6) by (simp add: safe_terminal_def)
    note applied = saveOutcome_applied [OF save [unfolded q(1)] assms(2,3,8,9) st q(2)]
    have eq: "(if oc_Commit oc \<noteq> ''committed''
        then (\<lambda>(res, d). (res, d, [])) (holdSafety (f 0) a q s ''recovery-required'' ''apply-outcome-unknown'' d1)
        else watch_committed f a g p q s oc d1) = (res, d', sent)"
      using assms(1) save q by (simp add: Read_execution_def)
    note here = watch_run(1) [OF one assms(2)] conjunct1 [OF load_Inr [OF q(2)]] row1
    have "(journal_watch x)\<^sup>*\<^sup>* d1 d' \<and> sent_ok x d1 d' sent"
    proof (cases "oc_Commit oc = ''committed''")
      case True
      then have "watch_committed f a g p q s oc d1 = (res, d', sent)" using eq by simp
      then show ?thesis by (rule watch_committed_run [OF _ here assms(5-7)]) (use applied True in auto)
    next
      case False
      then have h: "holdSafety (f 0) a q s ''recovery-required'' ''apply-outcome-unknown'' d1 = (res, d')" "sent = []"
        using eq by (auto split: prod.splits)
      have "(journal_watch x)\<^sup>*\<^sup>* d1 d'"
        by (rule holdSafety_watch [OF h(1) here _ safe_next_hold]) (use assms(5-7) in auto)
      then show ?thesis using h(2) by (simp add: sent_ok_def)
    qed
    then show ?thesis using one assms(4) row1 by (auto simp: sent_ok_def)
  qed
qed

lemma safety_step_run:
  assumes "safety_step_db f a g p x d = (res, d', sent)" and "journal_wf d"
  shows "(journal_watch x)\<^sup>*\<^sup>* d d' \<and> sent_ok x d d' sent"
proof (cases "\<exists>r s. readSafety x d = Inr (r, s) \<and> \<not> Terminal_safety (sf_State s)")
  case False
  then show ?thesis
    using assms(1) by (cases "readSafety x d") (auto simp: safety_step_db_def sent_ok_def Let_def split: prod.splits if_splits)
next
  case True
  then obtain r s where read: "readSafety x d = Inr (r, s)" and live: "\<not> Terminal_safety (sf_State s)" by blast
  obtain row where row: "map_of (db_execs d) x = Some r" "x_ID r = x" "load x d = Inr r" "map_of (db_safes d) x = Some row"
    "sr_Doc row = s"
    by (rule readSafety_Inr [OF read])
  note step = assms(1) [unfolded safety_step_db_def Let_def read, simplified]
    and here = assms(2) row(1,4) live [folded row(5)]
  have ok: "safe_ok r s" "exec_ok x r"
    using journal_wfD(5) [OF assms(2) row(4)] journal_wfD(4) [OF assms(2) row(1)] row(1,5) by auto
  have quiet: "?thesis" if "sent = []" "(journal_watch x)\<^sup>*\<^sup>* d d'" using that by (simp add: sent_ok_def)
  consider (domain) "sf_Domain s \<noteq> ec_Domain g" | (conflict) "sf_Domain s = ec_Domain g" "sf_State s = ''rollback-conflict''"
    | (returning) plan where "sf_Domain s = ec_Domain g" "sf_State s \<noteq> ''rollback-conflict''" "sf_Rollback s = Some plan"
    | (rejected) "sf_Domain s = ec_Domain g" "sf_State s \<noteq> ''rollback-conflict''" "sf_Rollback s = None"
        "oc_Commit (x_Outcome r) = ''rejected''"
    | (waiting) "sf_Domain s = ec_Domain g" "sf_State s \<noteq> ''rollback-conflict''" "sf_Rollback s = None"
        "oc_Commit (x_Outcome r) \<noteq> ''rejected''" "x_State r = ''admitted''"
    | (applied) "sf_Domain s = ec_Domain g" "sf_State s \<noteq> ''rollback-conflict''" "sf_Rollback s = None"
        "oc_Commit (x_Outcome r) \<noteq> ''rejected''" "x_State r \<noteq> ''admitted''"
    by (cases "sf_Rollback s") auto
  then show ?thesis
  proof cases
    case domain
    then have h: "holdSafety (f 0) a r s ''recovery-required'' ''management-probe-policy-changed'' d = (res, d')" "sent = []"
      using step live by (auto split: prod.splits)
    have "(journal_watch x)\<^sup>*\<^sup>* d d'"
      by (rule holdSafety_watch [OF h(1) here safe_next_hold]) (use ok(1) row(5) in \<open>auto simp: safe_ok_def\<close>)
    then show ?thesis using h(2) by (rule quiet [rotated])
  next
    case (returning plan)
    define s' where "s' = observe_rollback a p plan s"
    note next_s = observe_next [OF ok(1) returning(3) s'_def]
    have "sent = [] \<and> (d' = d \<or> saveSafety (f 0) (forth 10 a) r s' d = (res, d'))"
      using step live returning by (auto simp: s'_def split: if_splits prod.splits)
    then show ?thesis using watch_step [OF saveSafety_watch [OF _ here]] next_s row(5) by (intro quiet) auto
  next
    case rejected
    then have h: "holdSafety (f 0) a r s ''not-committed'' ''apply-not-committed'' d = (res, d')" "sent = []"
      using step live by (auto split: if_splits prod.splits)
    have "safe_next r (sr_Doc row) (s\<lparr>sf_State := ''not-committed'', sf_Reason := ''apply-not-committed'', sf_HealthyAt := None\<rparr>)"
      using rejected ok(2) row(5) by (simp add: safe_next_def safe_ok_def safe_le_def exec_ok_def)
    from holdSafety_watch [OF h(1) here this] h(2) show ?thesis by (intro quiet) simp_all
  next
    case applied
    then show ?thesis
      using step live by (intro observe_apply_run [OF _ assms(2) row(3-5) live applied(3-5)]) (simp split del: if_split)
  qed (use step live in \<open>auto simp: sent_ok_def split: if_splits\<close>)
qed

section \<open>Decisions\<close>

definition decided :: "engine_ambient \<Rightarrow> engine_config \<Rightarrow> provider \<Rightarrow> string \<Rightarrow> decision_call \<Rightarrow> journal_db \<Rightarrow> bool" where
  "decided a g p x v d \<longleftrightarrow> de_decision v = ''confirm'' \<and> de_check v = Inr () \<and>
     (\<exists>r s w. readSafety x d = Inr (r, s) \<and> x_Sequence r = de_sequence v \<and> sf_State s = ''awaiting-confirmation'' \<and>
        sf_Domain s = ec_Domain g \<and> sf_Confirmation s = Some w \<and> \<not> Expired w (am_clock a 0) \<and> \<not> Expired w (am_clock a 2) \<and>
        oc_Commit (pv_Observe p (x_Plan r) (x_Outcome r)) = ''committed'' \<and>
        oc_Applied (pv_Observe p (x_Plan r) (x_Outcome r)) = ''applied'' \<and> am_probe a 0 \<and>
        am_authority a 2 (x_Authorization r) = Inr ())"

lemma with_command_clock [simp]:
  "am_clock (with_command domain c y (later n a)) = am_clock a" "am_authority (with_command domain c y (later n a)) = am_authority a"
  by (simp_all add: with_command_def WithRequest_def later_def)

lemma forth_clock [simp]: "am_clock (forth n a) k = am_clock a (n + k)" "am_authority (forth n a) k = am_authority a (n + k)"
  by (simp_all add: forth_def)

lemma decide_run:
  assumes "decide_db f a g p x v d = (res, d')" and "journal_wf d"
  shows "d' = d \<or> journal_change x d d'" and "confirmed d' x \<Longrightarrow> confirmed d x \<or> decided a g p x v d"
    and "\<exists>row. map_of (db_safes d) x = Some row \<Longrightarrow> \<exists>row'. map_of (db_safes d') x = Some row'"
proof -
  have "(d' = d \<or> journal_change x d d') \<and> (confirmed d' x \<longrightarrow> confirmed d x \<or> decided a g p x v d)"
  proof (cases "d' = d")
    case False
    then obtain r s where read: "readSafety x d = Inr (r, s)" "\<not> Terminal_safety (sf_State s)" "x_Sequence r = de_sequence v"
      using assms(1) by (auto simp: decide_db_def split: sum.splits if_splits)
    obtain row where row: "load x d = Inr r" "map_of (db_safes d) x = Some row" "sr_Doc row = s"
      by (rule readSafety_Inr [OF read(1)])
    define oc where "oc = pv_Observe p (x_Plan r) (x_Outcome r)"
    have ready: "de_decision v = ''confirm'' \<longrightarrow> confirm_ready a g s \<and> oc_Commit oc = ''committed'' \<and> oc_Applied oc = ''applied'' \<and> am_probe a 0"
      and ex: "Execute f (forth 1 a) ''management'' (de_command v) (de_check v) (\<lambda>_. de_check v) (decide_tx x v r s oc) d = (res, d')"
      using assms(1) False read by (auto simp: decide_db_def Let_def oc_def split: if_splits)
    have tw: "tables_wf d" "receipts_wf d" using journal_wfD(1) [OF assms(2)] by (simp_all add: tables_wf_def)
    show ?thesis
    proof (rule decision.Execute_cases [OF ex tw])
      fix m e rows w
      assume m: "decide_tx x v r s oc (with_command ''management'' (de_command v) (new_id (forth 1 a) 0) (later 1 (forth 1 a))) d
          = Inr (m, e)"
        and d': "d' = e\<lparr>db_receipts := rows, db_high_watermark := w\<rparr>" and keep: "receipts_wf d'" "receipts_le d d'"
      have frame: "journal_change x d d'" if "journal_change x d e"
        by (rule journal_change_frame [OF that grown_with_receipt [OF decide_tx_grown [OF m] d' keep]]) (simp_all add: d')
      show ?thesis
      proof (rule decide_tx_effect [OF m assms(2) row(1-3) read(2)])
        show "de_decision v = ''confirm'' \<longrightarrow> sf_State s = ''awaiting-confirmation'' \<and> oc_Commit oc = ''committed'' \<and> oc_Applied oc = ''applied''"
          using ready by (simp add: confirm_ready_def)
      next
        fix s' assume "de_decision v = ''confirm''" "de_check v = Inr ()" "journal_change x d e"
          "case sf_Confirmation s of None \<Rightarrow> False | Some w \<Rightarrow> \<not> Expired w (am_clock
             (with_command ''management'' (de_command v) (new_id (forth 1 a) 0) (later 1 (forth 1 a))) 1)"
          "am_authority (with_command ''management'' (de_command v) (new_id (forth 1 a) 0) (later 1 (forth 1 a))) 1 (x_Authorization r) = Inr ()"
        then show ?thesis using frame ready read
          by (auto simp: decided_def confirm_ready_def oc_def numeral_2_eq_2 split: option.splits)
      next
        fix s' assume "journal_change x d e" "map_of (db_safes e) x = Some (row\<lparr>sr_Doc := s'\<rparr>)"
          "s' = s\<lparr>sf_State := ''rollback-requested'', sf_Reason := ''authorized-rollback-requested''\<rparr>"
        then show ?thesis using frame by (auto simp: confirmed_def d')
      qed
    qed (use False in auto)
  qed simp
  then show "d' = d \<or> journal_change x d d'" "confirmed d' x \<Longrightarrow> confirmed d x \<or> decided a g p x v d" by blast+
  then show "\<exists>row'. map_of (db_safes d') x = Some row'" if "\<exists>row. map_of (db_safes d) x = Some row"
    using that journal_leD(2) [OF journal_change_le] by blast
qed

end
