(* ===== verification/Engine_Runs.thy ===== *)
theory Engine_Runs
  imports Engine_Handlers
begin

text \<open>
  Runs of the engine: submissions, asynchronous workers, recovery, the watchdog, decisions and restarts
  in any order, with any answers of the provider, any clocks and any fate of each write. The invariant
  of the journal and of the log of sent plans holds in every reachable state, and every run climbs the
  order of the journal.
\<close>

section \<open>Steps\<close>

inductive engine_step :: "engine \<Rightarrow> engine \<Rightarrow> bool" where
  submit: "engine_step e (snd (submit f a g p u e))"
| worker: "w \<in> set (en_workers e) \<Longrightarrow> engine_step e (work f a p v w e)"
| reconcile: "engine_step e (snd (Reconcile f1 a p x e))"
| watchdog: "engine_step e (snd (safetyStep f a g p x e))"
| decide: "engine_step e (snd (Decide f1 a go p x dv e))"
| restart: "engine_step e (e\<lparr>en_active := [], en_workers := []\<rparr>)"

inductive_cases engine_stepE: "engine_step e e'"

text \<open>The same steps by the call that makes them, with everything the call meets: its answers of the clock, the
  probe, the authority and the provider, and the fate of its writes.\<close>

datatype engine_call =
    Submission "nat \<Rightarrow> fate" engine_ambient engine_config provider submission
  | Work "nat \<Rightarrow> fate" engine_ambient provider worker_env worker
  | Reconciliation fate engine_ambient provider string
  | Tick "nat \<Rightarrow> fate" engine_ambient engine_config provider string
  | Decision fate engine_ambient "engine_config option" provider string decision_call
  | Restart

fun possible :: "engine_call \<Rightarrow> engine \<Rightarrow> bool" where
  "possible (Work f a p v w) e = (w \<in> set (en_workers e))"
| "possible _ e = True"

fun perform :: "engine_call \<Rightarrow> engine \<Rightarrow> engine" where
  "perform (Submission f a g p u) e = snd (submit f a g p u e)"
| "perform (Work f a p v w) e = work f a p v w e"
| "perform (Reconciliation f a p x) e = snd (Reconcile f a p x e)"
| "perform (Tick f a g p x) e = snd (safetyStep f a g p x e)"
| "perform (Decision f a g p x v) e = snd (Decide f a g p x v e)"
| "perform Restart e = e\<lparr>en_active := [], en_workers := []\<rparr>"

lemma engine_step_perform: "engine_step e e' \<longleftrightarrow> (\<exists>c. possible c e \<and> e' = perform c e)"
proof
  assume "engine_step e e'"
  then show "\<exists>c. possible c e \<and> e' = perform c e"
  proof cases
    case (submit f a g p u)
    then show ?thesis by (intro exI [of _ "Submission f a g p u"]) simp
  next
    case (worker w f a p v)
    then show ?thesis by (intro exI [of _ "Work f a p v w"]) simp
  next
    case (reconcile f a p x)
    then show ?thesis by (intro exI [of _ "Reconciliation f a p x"]) simp
  next
    case (watchdog f a g p x)
    then show ?thesis by (intro exI [of _ "Tick f a g p x"]) simp
  next
    case (decide f a g p x v)
    then show ?thesis by (intro exI [of _ "Decision f a g p x v"]) simp
  next
    case restart
    then show ?thesis by (intro exI [of _ Restart]) simp
  qed
next
  assume "\<exists>c. possible c e \<and> e' = perform c e"
  then obtain c where "possible c e" "e' = perform c e" by blast
  then show "engine_step e e'" by (cases c) (auto intro: engine_step.intros)
qed

definition initial_engine :: "engine \<Rightarrow> bool" where
  "initial_engine e \<longleftrightarrow> en_active e = [] \<and> en_workers e = [] \<and> en_sent e = [] \<and> db_jobs (en_db e) = [] \<and>
     db_records (en_db e) = [] \<and> db_last_sequence (en_db e) = 0 \<and> db_receipts (en_db e) = [] \<and> db_execs (en_db e) = [] \<and>
     db_safes (en_db e) = [] \<and> db_protections (en_db e) = [] \<and> db_last_known_good (en_db e) = None"

text \<open>The log of sent plans against the journal.\<close>

definition log_ok :: "journal_db \<Rightarrow> dispatched list \<Rightarrow> bool" where
  "log_ok d sent \<longleftrightarrow> distinct (map (\<lambda>(x, dir, p). (x, dir)) sent) \<and>
     (\<forall>x p. (x, Forward, p) \<in> set sent \<longrightarrow>
        (\<exists>r. map_of (db_execs d) x = Some r \<and> x_Plan r = p \<and> x_State r \<noteq> ''admitted'')) \<and>
     (\<forall>x p. (x, Compensation, p) \<in> set sent \<longrightarrow>
        (\<exists>row. map_of (db_safes d) x = Some row \<and> sf_Rollback (sr_Doc row) = Some p))"

definition workers_ok :: "engine \<Rightarrow> bool" where
  "workers_ok e \<longleftrightarrow> distinct (map wk_ID (en_workers e)) \<and> (\<forall>w \<in> set (en_workers e). wk_ID w \<in> set (en_active e) \<and>
     (\<exists>r. map_of (db_execs (en_db e)) (wk_ID w) = Some r \<and> x_Plan r = wk_Plan w))"

definition engine_wf :: "engine \<Rightarrow> bool" where
  "engine_wf e \<longleftrightarrow> journal_wf (en_db e) \<and> log_ok (en_db e) (en_sent e) \<and> workers_ok e"

definition engine_le :: "engine \<Rightarrow> engine \<Rightarrow> bool" where
  "engine_le e e' \<longleftrightarrow> journal_le (en_db e) (en_db e') \<and> (\<exists>new. en_sent e' = en_sent e @ new)"

interpretation engine_order: store_order engine_le
proof
  show "engine_le e e" for e by (simp add: engine_le_def journal.le_refl)
  show "engine_le e f" if 1: "engine_le e e'" and 2: "engine_le e' f" for e e' f
    using 1 2 journal.le_trans by (auto simp: engine_le_def)
qed

lemma log_okD:
  assumes "log_ok d sent"
  shows "distinct (map (\<lambda>(x, dir, p). (x, dir)) sent)"
    and "(x, Forward, p) \<in> set sent \<Longrightarrow> \<exists>r. map_of (db_execs d) x = Some r \<and> x_Plan r = p \<and> x_State r \<noteq> ''admitted''"
    and "(x, Compensation, p) \<in> set sent \<Longrightarrow> \<exists>row. map_of (db_safes d) x = Some row \<and> sf_Rollback (sr_Doc row) = Some p"
  using assms unfolding log_ok_def by blast+

lemma log_ok_later:
  assumes "log_ok d sent" and "journal_le d e"
  shows "log_ok e sent"
  unfolding log_ok_def
proof (intro conjI allI impI)
  show "distinct (map (\<lambda>(x, dir, p). (x, dir)) sent)" using assms(1) by (simp add: log_ok_def)
next
  fix x p assume "(x, Forward, p) \<in> set sent"
  then obtain r where r: "map_of (db_execs d) x = Some r" "x_Plan r = p" "x_State r \<noteq> ''admitted''"
    using log_okD(2) [OF assms(1)] by blast
  then show "\<exists>r. map_of (db_execs e) x = Some r \<and> x_Plan r = p \<and> x_State r \<noteq> ''admitted''"
    using journal_leD(1) [OF assms(2) r(1)] by (auto simp: exec_le_def)
next
  fix x p assume "(x, Compensation, p) \<in> set sent"
  then obtain row where row: "map_of (db_safes d) x = Some row" "sf_Rollback (sr_Doc row) = Some p"
    using log_okD(3) [OF assms(1)] by blast
  then show "\<exists>row. map_of (db_safes e) x = Some row \<and> sf_Rollback (sr_Doc row) = Some p"
    using journal_leD(2) [OF assms(2) row(1)] by (auto simp: safe_le_def)
qed

lemma log_ok_forward:
  assumes "log_ok d sent" and "journal_le d e" and "map_of (db_execs d) x = Some r" and "x_State r = ''admitted''"
    and "map_of (db_execs e) x = Some q" and "x_State q \<noteq> ''admitted''"
  shows "log_ok e (sent @ [(x, Forward, x_Plan q)])"
proof -
  have "(x, Forward) \<notin> (\<lambda>(x, dir, p). (x, dir)) ` set sent"
    using log_okD(2) [OF assms(1), of x] assms(3,4) by auto
  then show ?thesis using log_ok_later [OF assms(1,2)] assms(5,6) by (auto simp: log_ok_def)
qed

lemma log_ok_sent:
  assumes "log_ok d sent" and "journal_le d e" and "sent_ok x d e new"
  shows "log_ok e (sent @ new)"
proof (cases "new = []")
  case True
  then show ?thesis using log_ok_later [OF assms(1,2)] by simp
next
  case False
  then obtain plan row row' where s: "new = [(x, Compensation, plan)]" "map_of (db_safes d) x = Some row"
    "sf_Rollback (sr_Doc row) = None" "map_of (db_safes e) x = Some row'" "sf_Rollback (sr_Doc row') = Some plan"
    using assms(3) by (auto simp: sent_ok_def)
  have "(x, Compensation) \<notin> (\<lambda>(x, dir, p). (x, dir)) ` set sent"
    using log_okD(3) [OF assms(1), of x] s(2,3) by auto
  then show ?thesis using log_ok_later [OF assms(1,2)] s by (auto simp: log_ok_def)
qed

lemma workers_later:
  assumes "workers_ok e" and "journal_le (en_db e) (en_db e')" and "en_workers e' = filter f (en_workers e)"
    and "\<And>w. w \<in> set (en_workers e') \<Longrightarrow> wk_ID w \<in> set (en_active e) \<Longrightarrow> wk_ID w \<in> set (en_active e')"
  shows "workers_ok e'"
  unfolding workers_ok_def
proof (intro conjI ballI)
  show "distinct (map wk_ID (en_workers e'))" using assms(1,3) by (simp add: workers_ok_def distinct_map_filter)
  fix w assume w: "w \<in> set (en_workers e')"
  then obtain r where "map_of (db_execs (en_db e)) (wk_ID w) = Some r" "x_Plan r = wk_Plan w" "wk_ID w \<in> set (en_active e)"
    using assms(1,3) by (auto simp: workers_ok_def)
  then show "wk_ID w \<in> set (en_active e')" "\<exists>r. map_of (db_execs (en_db e')) (wk_ID w) = Some r \<and> x_Plan r = wk_Plan w"
    using journal_leD(1) [OF assms(2)] assms(4) [OF w] by (fastforce simp: exec_le_def)+
qed

section \<open>Every step keeps the invariant\<close>

lemma claim_Some: "claim x e = Some e1 \<Longrightarrow> e1 = e\<lparr>en_active := x # en_active e\<rparr> \<and> x \<notin> set (en_active e)"
  by (auto simp: claim_def split: if_splits)

text \<open>A handler that claims its transaction, changes the journal and the log, and releases it.\<close>

lemma claimed_handler:
  assumes "engine_wf e" and "x \<notin> set (en_active e)" and "journal_wf d'" and "journal_le (en_db e) d'" and "log_ok d' (en_sent e @ new)"
  shows "engine_wf (release x (e\<lparr>en_active := x # en_active e, en_db := d', en_sent := en_sent e @ new\<rparr>))"
proof -
  let ?e = "release x (e\<lparr>en_active := x # en_active e, en_db := d', en_sent := en_sent e @ new\<rparr>)"
  have "workers_ok ?e"
  proof (rule workers_later [of e])
    show "workers_ok e" using assms(1) by (simp add: engine_wf_def)
    show "journal_le (en_db e) (en_db ?e)" using assms(4) by (simp add: release_def)
    show "en_workers ?e = filter (\<lambda>_. True) (en_workers e)" by (simp add: release_def)
  qed (use assms(2) in \<open>auto simp: release_def\<close>)
  then show ?thesis using assms(3,5) by (simp add: engine_wf_def release_def)
qed

lemma run_effect:
  assumes "run f a p v w e = (res, e')" and "journal_wf (en_db e)" and "log_ok (en_db e) (en_sent e)"
    and "map_of (db_execs (en_db e)) (wk_ID w) = Some r" and "x_Plan r = wk_Plan w"
  obtains new where "(journal_watch (wk_ID w))\<^sup>*\<^sup>* (en_db e) (en_db e')" "en_sent e' = en_sent e @ new"
    "log_ok (en_db e') (en_sent e')" "en_active e' = en_active e" "en_workers e' = en_workers e"
    "\<forall>z \<in> set new. \<exists>plan. z = (wk_ID w, Forward, plan)"
proof -
  let ?x = "wk_ID w"
  have finish: "(journal_watch ?x)\<^sup>*\<^sup>* (en_db e) d2"
    if "run_finish f a p ?x (wk_Plan w) oc d1 = (res', d2)" "d1 = en_db e \<or> journal_watch ?x (en_db e) d1" for oc d1 d2 res'
  proof -
    note one = watch_step [OF that(2)]
    show ?thesis by (rule rtranclp_trans [OF one run_finish_run [OF that(1) watch_run(1) [OF one assms(2)]]])
  qed
  show ?thesis
  proof (cases "pv_Commit p (wk_Plan w)")
    case (Withheld result)
    obtain res' d2 where d2: "run_finish f a p ?x (wk_Plan w) result (en_db e) = (res', d2)" by fastforce
    have e': "e' = e\<lparr>en_db := d2\<rparr>" using assms(1) Withheld d2 by (simp add: run_def)
    note path = finish [OF d2 disjI1 [OF refl]]
    show ?thesis
      by (rule that [of "[]"]) (use path log_ok_later [OF assms(3) watch_run(2) [OF path assms(2)]] in \<open>simp_all add: e'\<close>)
  next
    case (Asked refused permitted)
    obtain r1 d1 where b: "beforeSend (f 0) a w v (en_db e) = (r1, d1)" by fastforce
    note one = beforeSend_run(1) [OF b assms(2)]
    show ?thesis
    proof (cases r1)
      case (Inl err)
      obtain res' d2 where d2: "run_finish f a p ?x (wk_Plan w) refused d1 = (res', d2)" by fastforce
      have e': "e' = e\<lparr>en_db := d2\<rparr>" using assms(1) Asked b Inl d2 by (simp add: run_def)
      note path = finish [OF d2 one]
      show ?thesis
        by (rule that [of "[]"]) (use path log_ok_later [OF assms(3) watch_run(2) [OF path assms(2)]] in \<open>simp_all add: e'\<close>)
    next
      case (Inr r')
      obtain res' d2 where d2: "run_finish f a p ?x (wk_Plan w) permitted d1 = (res', d2)" by fastforce
      have e': "e' = e\<lparr>en_db := d2, en_sent := en_sent e @ [(?x, Forward, wk_Plan w)]\<rparr>"
        using assms(1) Asked b Inr d2 by (simp add: run_def)
      note path = finish [OF d2 one]
      note wf1 = watch_run(1,2) [OF watch_step [OF one] assms(2)]
      have s: "map_of (db_execs d1) ?x = Some r'" "x_State r' = ''committing''" "x_State r = ''admitted''"
        using beforeSend_run(2) [OF b assms(2) Inr] assms(4) by auto
      have plan: "x_Plan r' = wk_Plan w"
        using journal_leD(1) [OF wf1(2) assms(4)] s(1) assms(5) by (auto simp: exec_le_def)
      have log1: "log_ok d1 (en_sent e @ [(?x, Forward, wk_Plan w)])"
        using log_ok_forward [OF assms(3) wf1(2) assms(4) s(3,1)] s(2) plan by simp
      have "log_ok d2 (en_sent e @ [(?x, Forward, wk_Plan w)])"
        by (rule log_ok_later [OF log1 watch_run(2) [OF run_finish_run [OF d2 wf1(1)] wf1(1)]])
      then show ?thesis
        by (intro that [of "[(?x, Forward, wk_Plan w)]"]) (use path in \<open>simp_all add: e'\<close>)
    qed
  qed
qed

text \<open>The journal under a step: admissions and changes.\<close>

definition journal_step :: "journal_db \<Rightarrow> journal_db \<Rightarrow> bool" where
  "journal_step d e \<longleftrightarrow> (\<exists>x. journal_admit x d e \<or> journal_change x d e)"

lemma change_grown: "journal_change x d e \<Longrightarrow> grown d e"
  by (simp add: journal_change_def)

lemma admit_grown: "journal_admit x d e \<Longrightarrow> grown d e"
  by (simp add: journal_admit_def)

lemma journal_steps:
  assumes "journal_step\<^sup>*\<^sup>* d e" and "journal_wf d"
  shows "journal_wf e" and "journal_le d e" and "grown d e"
proof -
  have "journal_wf e \<and> journal_le d e \<and> grown d e"
    using assms
  proof (induction rule: rtranclp_induct)
    case base
    then show ?case by (simp add: journal.le_refl growth.le_refl)
  next
    case (step e f)
    then have wf: "journal_wf e" and le: "journal_le d e" "grown d e" by simp_all
    from step(2) have "journal_wf f \<and> journal_le e f \<and> grown e f"
      unfolding journal_step_def
      by (auto simp: journal_admit_wf [OF _ wf] journal_admit_le [OF _ wf] journal_change_wf [OF _ wf] journal_change_le
          dest: admit_grown change_grown)
    then show ?case using le journal.le_trans growth.le_trans by blast
  qed
  then show "journal_wf e" "journal_le d e" "grown d e" by blast+
qed

lemma watch_journal_steps: "(journal_change x)\<^sup>*\<^sup>* d e \<Longrightarrow> journal_step\<^sup>*\<^sup>* d e"
  by (erule rtranclp_mono [THEN predicate2D, rotated]) (auto simp: journal_step_def)

definition good_step :: "engine \<Rightarrow> engine \<Rightarrow> bool" where
  "good_step e e' \<longleftrightarrow> journal_step\<^sup>*\<^sup>* (en_db e) (en_db e') \<and> engine_wf e' \<and> (\<exists>new. en_sent e' = en_sent e @ new)"

lemma good_step_refl [simp]: "engine_wf e \<Longrightarrow> good_step e e"
  by (simp add: good_step_def)

lemma good_step_watch:
  assumes "engine_wf e" and "x \<notin> set (en_active e)" and "(journal_change x)\<^sup>*\<^sup>* (en_db e) d'" and "sent_ok x (en_db e) d' new"
  shows "good_step e (release x (e\<lparr>en_active := x # en_active e, en_db := d', en_sent := en_sent e @ new\<rparr>))"
proof -
  have wf: "journal_wf (en_db e)" "log_ok (en_db e) (en_sent e)" using assms(1) by (simp_all add: engine_wf_def)
  note j = journal_steps [OF watch_journal_steps [OF assms(3)] wf(1)]
  have "engine_wf (release x (e\<lparr>en_active := x # en_active e, en_db := d', en_sent := en_sent e @ new\<rparr>))"
    by (rule claimed_handler [OF assms(1,2) j(1,2) log_ok_sent [OF wf(2) j(2) assms(4)]])
  then show ?thesis using watch_journal_steps [OF assms(3)] by (simp add: good_step_def release_def)
qed

lemma Reconcile_good:
  assumes "Reconcile f a p x e = (res, e')" and "engine_wf e"
  shows "good_step e e'" and "confirmed (en_db e') y \<Longrightarrow> confirmed (en_db e) y"
proof -
  have wf: "journal_wf (en_db e)" using assms(2) by (simp add: engine_wf_def)
  have "good_step e e' \<and> (confirmed (en_db e') y \<longrightarrow> confirmed (en_db e) y)"
  proof (cases "claim x e")
    case (Some e1)
    note c = claim_Some [OF Some]
    obtain r d where d: "reconcile_db f a p x (en_db e) = (r, d)" by fastforce
    note path = reconcile_run [OF d wf]
    have "e' = release x (e\<lparr>en_active := x # en_active e, en_db := d, en_sent := en_sent e @ []\<rparr>)"
      using assms(1) Some c d by (simp add: Reconcile_def)
    then show ?thesis
      using good_step_watch [OF assms(2) _ watch_run(5) [OF path wf], of "[]"] c watch_run(4) [OF path wf]
      by (simp add: sent_ok_def) (simp add: release_def)
  qed (use assms in \<open>simp add: Reconcile_def\<close>)
  then show "good_step e e'" "confirmed (en_db e') y \<Longrightarrow> confirmed (en_db e) y" by blast+
qed

lemma safetyStep_good:
  assumes "safetyStep f a g p x e = (res, e')" and "engine_wf e"
  shows "good_step e e'" and "confirmed (en_db e') y \<Longrightarrow> confirmed (en_db e) y"
proof -
  have wf: "journal_wf (en_db e)" using assms(2) by (simp add: engine_wf_def)
  have "good_step e e' \<and> (confirmed (en_db e') y \<longrightarrow> confirmed (en_db e) y)"
  proof (cases "claim x e")
    case (Some e1)
    note c = claim_Some [OF Some]
    obtain r d sent where d: "safety_step_db f a g p x (en_db e) = (r, d, sent)" by (cases "safety_step_db f a g p x (en_db e)")
    have path: "(journal_watch x)\<^sup>*\<^sup>* (en_db e) d" and sent: "sent_ok x (en_db e) d sent"
      using safety_step_run [OF d wf] by simp_all
    have "e' = release x (e\<lparr>en_active := x # en_active e, en_db := d, en_sent := en_sent e @ sent\<rparr>)"
      using assms(1) Some c d by (simp add: safetyStep_def)
    then show ?thesis
      using good_step_watch [OF assms(2) _ watch_run(5) [OF path wf] sent] c watch_run(4) [OF path wf]
      by (simp add: release_def)
  qed (use assms in \<open>simp add: safetyStep_def\<close>)
  then show "good_step e e'" "confirmed (en_db e') y \<Longrightarrow> confirmed (en_db e) y" by blast+
qed

lemma Decide_good:
  assumes "Decide f a go p x v e = (res, e')" and "engine_wf e"
  shows "good_step e e'"
    and "confirmed (en_db e') y \<Longrightarrow> confirmed (en_db e) y \<or> (\<exists>g. go = Some g \<and> y = x \<and> decided a g p x v (en_db e))"
proof -
  have wf: "journal_wf (en_db e)" using assms(2) by (simp add: engine_wf_def)
  have "good_step e e' \<and> (confirmed (en_db e') y \<longrightarrow> confirmed (en_db e) y \<or> (\<exists>g. go = Some g \<and> y = x \<and> decided a g p x v (en_db e)))"
  proof (cases "en_db e' = en_db e \<and> e' = e")
    case False
    then obtain g e1 where g: "go = Some g" "claim x e = Some e1" "\<exists>d. Decide f a go p x v e = (fst (decide_db f a g p x v (en_db e1)), d)"
      and e': "e' = release x (e1\<lparr>en_db := snd (decide_db f a g p x v (en_db e1))\<rparr>)"
      using assms(1) by (auto simp: Decide_def split: sum.splits option.splits if_splits prod.splits dest: claim_Some)
    note c = claim_Some [OF g(2)]
    obtain r d where d: "decide_db f a g p x v (en_db e) = (r, d)" by fastforce
    note run = decide_run(1,2) [OF d wf]
    have path: "(journal_change x)\<^sup>*\<^sup>* (en_db e) d" using run(1) by auto
    have e'': "e' = release x (e\<lparr>en_active := x # en_active e, en_db := d, en_sent := en_sent e @ []\<rparr>)"
      using e' c d by simp
    have "confirmed d y \<longrightarrow> confirmed (en_db e) y \<or> (y = x \<and> decided a g p x v (en_db e))"
      using run(2) watch_other(2) [OF path, of y] by (cases "y = x") (auto simp: confirmed_def)
    then show ?thesis
      using good_step_watch [OF assms(2) _ path, of "[]"] c g(1) unfolding e''
      by (simp add: sent_ok_def) (simp add: release_def)
  qed (use assms(2) in simp)
  then show "good_step e e'" "confirmed (en_db e') y \<Longrightarrow> confirmed (en_db e) y \<or> (\<exists>g. go = Some g \<and> y = x \<and> decided a g p x v (en_db e))"
    by blast+
qed

lemma work_good:
  assumes "w \<in> set (en_workers e)" and "engine_wf e" and "e' = work f a p v w e"
  shows "good_step e e'" and "confirmed (en_db e') y \<Longrightarrow> confirmed (en_db e) y"
proof -
  have wf: "journal_wf (en_db e)" "log_ok (en_db e) (en_sent e)" "workers_ok e" using assms(2) by (simp_all add: engine_wf_def)
  obtain r where r: "map_of (db_execs (en_db e)) (wk_ID w) = Some r" "x_Plan r = wk_Plan w"
    using wf(3) assms(1) by (auto simp: workers_ok_def)
  obtain res e1 where run: "run f a p v w e = (res, e1)" by fastforce
  obtain new where n: "(journal_watch (wk_ID w))\<^sup>*\<^sup>* (en_db e) (en_db e1)" "en_sent e1 = en_sent e @ new"
    "log_ok (en_db e1) (en_sent e1)" "en_active e1 = en_active e" "en_workers e1 = en_workers e"
    by (rule run_effect [OF run wf(1,2) r])
  have e': "e' = release (wk_ID w) (e1\<lparr>en_workers := removeAll w (en_workers e1)\<rparr>)"
    using assms(3) run by (simp add: work_def)
  note path = watch_run [OF n(1) wf(1)]
  have "workers_ok e'"
  proof (rule workers_later [OF wf(3)])
    show "journal_le (en_db e) (en_db e')" using path(2) by (simp add: e' release_def)
    show "en_workers e' = filter (\<lambda>u. u \<noteq> w) (en_workers e)"
      by (simp add: e' release_def n(5) removeAll_filter_not_eq eq_commute)
    fix u assume "u \<in> set (en_workers e')" "wk_ID u \<in> set (en_active e)"
    moreover from this have "wk_ID u \<noteq> wk_ID w"
      using wf(3) assms(1) n(5) by (auto simp: e' release_def workers_ok_def distinct_map inj_on_def)
    ultimately show "wk_ID u \<in> set (en_active e')" by (simp add: e' release_def n(4))
  qed
  then show "good_step e e'"
    using path(1) n(2,3) watch_journal_steps [OF path(5)] by (auto simp: good_step_def engine_wf_def e' release_def)
  show "confirmed (en_db e') y \<Longrightarrow> confirmed (en_db e) y" using path(4) by (simp add: e' release_def)
qed

lemma admit_not_confirmed:
  assumes "journal_admit x d e" and "journal_wf d" and "confirmed e y"
  shows "confirmed d y"
  using journal_admit_other(2) [OF assms(1,2), of y] journal_admitE [OF assms(1,2)] open_not_confirmed [of e x] assms(3)
  by (cases "y = x") (auto simp: confirmed_def)

text \<open>A submission: nothing, an admission whose acknowledgement is lost, an admission that starts a worker,
  or an admission followed by its run.\<close>

lemma submit_cases:
  assumes "submit f a g p u e = (res, e')" and "journal_wf (en_db e)"
  obtains (same) "en_db e' = en_db e" "en_sent e' = en_sent e" "en_workers e' = en_workers e"
      "set (en_active e) = set (en_active e')"
  | (admitted) x row new where "x \<notin> set (en_active e)" "journal_admit x (en_db e) (en_db e')" "en_sent e' = en_sent e"
      "map_of (db_execs (en_db e')) x = Some row" "new = [] \<or> (\<exists>w. new = [w] \<and> wk_ID w = x \<and> wk_Plan w = x_Plan row)"
      "en_workers e' = en_workers e @ new" "set (en_active e) \<subseteq> set (en_active e')"
      "new = [] \<or> x \<in> set (en_active e')" "\<forall>err. res = Inl err \<longrightarrow> err = ErrCommitUnknown"
  | (ran) x row e1 e2 w res' where "x \<notin> set (en_active e)" "journal_admit x (en_db e) (en_db e1)" "en_sent e1 = en_sent e"
      "map_of (db_execs (en_db e1)) x = Some row" "wk_ID w = x" "wk_Plan w = x_Plan row" "en_workers e1 = en_workers e"
      "en_active e1 = x # en_active e" "run f (forth 60 a) p (su_worker u) w e1 = (res', e2)" "e' = release x e2"
      "su_safe u = None"
proof -
  define x where "x = new_id a 0"
  show ?thesis
  proof (cases "\<exists>command c plan e1. submit_prepare a g p u x (en_db e) = Ready command c plan \<and> claim x e = Some e1")
    case False
    then have "e' = e" using assms(1) unfolding submit_def x_def [symmetric] Let_def
      by (auto split: prepared.splits option.splits)
    then show ?thesis by (intro same) simp_all
  next
    case True
    then obtain command c plan e1 where prep: "submit_prepare a g p u x (en_db e) = Ready command c plan" and cl: "claim x e = Some e1" by blast
    note e1 = claim_Some [OF cl]
    obtain r d where ex: "Execute (f 3) (forth 1 a) ''management'' command (su_reauth u) (\<lambda>_. su_reauth u)
        (admit g x (su_request u) c (su_fresh u) plan (su_safe u)) (en_db e) = (r, d)" by fastforce
    define w where "w = \<lparr>wk_ID = x, wk_Authorization = c, wk_Plan = plan, wk_Safe = (su_safe u \<noteq> None)\<rparr>"
    have eq: "submit f a g p u e = (case r of
         Inl err \<Rightarrow> (Inl err, release x (e1\<lparr>en_db := d\<rparr>))
       | Inr out \<Rightarrow>
           if rs_Replayed out then (Inr out, release x (e1\<lparr>en_db := d\<rparr>))
           else if su_safe u \<noteq> None then (Inr out, e1\<lparr>en_db := d, en_workers := en_workers e1 @ [w]\<rparr>)
           else (case run f (forth 60 a) p (su_worker u) w (e1\<lparr>en_db := d\<rparr>) of
                   (Inl err, e) \<Rightarrow> (Inl err, release x e) | (Inr _, e) \<Rightarrow> (Inr out, release x e)))"
      unfolding submit_def x_def [symmetric] Let_def w_def
      by (cases r) (simp_all add: prep cl ex [simplified] e1)
    note eq = trans [OF eq [symmetric] assms(1)]
    show ?thesis
    proof (rule Execute_admit [OF ex assms(2)])
      assume "d = en_db e" "\<forall>out. r = Inr out \<longrightarrow> rs_Replayed out"
      then have "e' = release x (e1\<lparr>en_db := en_db e\<rparr>)" using eq by (auto split: sum.splits)
      then show ?thesis using e1 by (intro same) (auto simp: release_def)
    next
      fix row
      assume a: "journal_admit x (en_db e) d" "map_of (db_execs d) x = Some row" "x_Plan row = plan"
        and out: "\<forall>out. r = Inr out \<longrightarrow> \<not> rs_Replayed out" "\<forall>err. r = Inl err \<longrightarrow> err = ErrCommitUnknown"
      consider (lost) err where "r = Inl err" | (safe) ok where "r = Inr ok" "su_safe u \<noteq> None" | (plain) ok where "r = Inr ok" "su_safe u = None"
        by (cases r) auto
      then show ?thesis
      proof cases
        case lost
        then have "e' = release x (e1\<lparr>en_db := d\<rparr>)" "res = r" using eq by auto
        then show ?thesis using e1 a out(2) by (intro admitted [of x row "[]"]) (auto simp: release_def)
      next
        case safe
        then have "e' = e1\<lparr>en_db := d, en_workers := en_workers e1 @ [w]\<rparr>" "\<exists>v. res = Inr v" using eq out by auto
        then show ?thesis using e1 a by (intro admitted [of x row "[w]"]) (auto simp: w_def)
      next
        case plain
        obtain res' e2 where run: "run f (forth 60 a) p (su_worker u) w (e1\<lparr>en_db := d\<rparr>) = (res', e2)" by fastforce
        have "e' = release x e2" using eq out plain run by (auto split: sum.splits)
        then show ?thesis using run e1 a plain(2) by (intro ran [of x "e1\<lparr>en_db := d\<rparr>" row w]) (auto simp: w_def)
      qed
    qed
  qed
qed

lemma submit_good:
  assumes "submit f a g p u e = (res, e')" and "engine_wf e"
  shows "good_step e e'" and "confirmed (en_db e') y \<Longrightarrow> confirmed (en_db e) y"
proof -
  have wf: "journal_wf (en_db e)" "log_ok (en_db e) (en_sent e)" "workers_ok e" using assms(2) by (simp_all add: engine_wf_def)
  have "good_step e e' \<and> (confirmed (en_db e') y \<longrightarrow> confirmed (en_db e) y)"
    using assms(1) wf(1)
  proof (cases rule: submit_cases)
    case same
    then have "workers_ok e'" using wf(3) by (simp add: workers_ok_def)
    then show ?thesis using wf same by (simp add: good_step_def engine_wf_def)
  next
    case (admitted x row new)
    note j = journal_admit_wf [OF admitted(2) wf(1)] journal_admit_le [OF admitted(2) wf(1)]
    have "distinct (map wk_ID (en_workers e'))" using wf(3) admitted(1,5,6) by (auto simp: workers_ok_def)
    moreover have "wk_ID w \<in> set (en_active e') \<and> (\<exists>r. map_of (db_execs (en_db e')) (wk_ID w) = Some r \<and> x_Plan r = wk_Plan w)"
      if "w \<in> set (en_workers e')" for w
    proof (cases "w \<in> set (en_workers e)")
      case True
      then obtain r where "map_of (db_execs (en_db e)) (wk_ID w) = Some r" "x_Plan r = wk_Plan w" "wk_ID w \<in> set (en_active e)"
        using wf(3) by (auto simp: workers_ok_def)
      then show ?thesis using journal_leD(1) [OF j(2)] admitted(7) by (fastforce simp: exec_le_def)
    next
      case False
      then show ?thesis using that admitted(4-6,8) by auto
    qed
    ultimately have "workers_ok e'" by (simp add: workers_ok_def)
    moreover have "journal_step (en_db e) (en_db e')" using admitted(2) by (auto simp: journal_step_def)
    ultimately show ?thesis
      using j log_ok_later [OF wf(2) j(2)] admitted(3) admit_not_confirmed [OF admitted(2) wf(1)]
      by (auto simp: good_step_def engine_wf_def)
  next
    case (ran x row e1 e2 w res')
    note j = journal_admit_wf [OF ran(2) wf(1)] journal_admit_le [OF ran(2) wf(1)]
    have log1: "log_ok (en_db e1) (en_sent e1)" using log_ok_later [OF wf(2) j(2)] ran(3) by simp
    obtain new where n: "(journal_watch x)\<^sup>*\<^sup>* (en_db e1) (en_db e2)" "en_sent e2 = en_sent e1 @ new" "log_ok (en_db e2) (en_sent e2)"
      "en_active e2 = en_active e1" "en_workers e2 = en_workers e1"
      using run_effect [OF ran(9) j(1) log1, of row] ran(4-6) by (metis (no_types, lifting))
    note path = watch_run [OF n(1) j(1)]
    have "workers_ok e'"
    proof (rule workers_later [OF wf(3)])
      show "journal_le (en_db e) (en_db e')" using journal.le_trans [OF j(2) path(2)] ran(10) by (simp add: release_def)
      show "en_workers e' = filter (\<lambda>_. True) (en_workers e)" using ran(7,10) n(5) by (simp add: release_def)
    qed (use ran(1,8,10) n(4) in \<open>auto simp: release_def\<close>)
    moreover have "journal_step\<^sup>*\<^sup>* (en_db e) (en_db e2)"
      by (rule converse_rtranclp_into_rtranclp [OF _ watch_journal_steps [OF path(5)]]) (use ran(2) in \<open>auto simp: journal_step_def\<close>)
    moreover have e': "en_db e' = en_db e2" "en_sent e' = en_sent e @ new" using ran(3,10) n(2) by (simp_all add: release_def)
    moreover have "log_ok (en_db e2) (en_sent e @ new)" using n(2,3) ran(3) by simp
    ultimately have "good_step e e'" using path(1) by (simp add: good_step_def engine_wf_def)
    moreover have "confirmed (en_db e) y" if "confirmed (en_db e') y"
      using path(4) that admit_not_confirmed [OF ran(2) wf(1)] unfolding e'(1) by blast
    ultimately show ?thesis by blast
  qed
  then show "good_step e e'" "confirmed (en_db e') y \<Longrightarrow> confirmed (en_db e) y" by blast+
qed

lemma engine_step_good:
  assumes "engine_step e e'" and "engine_wf e"
  shows "good_step e e'"
  using assms(1)
proof cases
  case restart
  then show ?thesis using assms(2) by (simp add: good_step_def engine_wf_def workers_ok_def)
qed (use assms(2) in \<open>auto intro: work_good(1) submit_good(1) [OF surjective_pairing] Reconcile_good(1) [OF surjective_pairing]
    safetyStep_good(1) [OF surjective_pairing] Decide_good(1) [OF surjective_pairing]\<close>)

lemma engine_runs_good:
  assumes "engine_step\<^sup>*\<^sup>* e e'" and "engine_wf e"
  shows "engine_wf e'" and "engine_le e e'" and "grown (en_db e) (en_db e')" and "journal_step\<^sup>*\<^sup>* (en_db e) (en_db e')"
proof -
  have "good_step e e'"
    using assms
  proof (induction rule: rtranclp_induct)
    case (step f g)
    then have 1: "good_step e f" by simp
    then have "good_step f g" using engine_step_good [OF step(2)] by (simp add: good_step_def)
    with 1 show ?case by (auto simp: good_step_def)
  qed simp
  then show "journal_step\<^sup>*\<^sup>* (en_db e) (en_db e')" "engine_wf e'" by (simp_all add: good_step_def)
  moreover have "journal_wf (en_db e)" using assms(2) by (simp add: engine_wf_def)
  ultimately show "engine_le e e'" "grown (en_db e) (en_db e')"
    using journal_steps \<open>good_step e e'\<close> by (auto simp: engine_le_def good_step_def)
qed

lemma initial_wf: "initial_engine e \<Longrightarrow> engine_wf e"
  by (simp add: initial_engine_def engine_wf_def journal_wf_def tables_wf_def jobs_wf_def records_wf_def receipts_wf_def
      exclusive_def log_ok_def workers_ok_def count_rows_def)

end
