(* ===== verification/Engine_Samples.thy ===== *)
theory Engine_Samples
  imports Engine_Runs
begin

text \<open>
  When a write of the journal goes through, and a concrete journal with one settled execution and one
  safe apply that awaits its confirmation, on which the properties of the engine are instantiated.
\<close>

section \<open>Writes that go through\<close>

definition record_fits :: "'z evidence_ambient_scheme \<Rightarrow> Evidence_Record \<Rightarrow> 'y evidence_db_scheme \<Rightarrow> bool" where
  "record_fits a r d \<longleftrightarrow> (let q = fill_record a r in
     record_valid q \<and> ev_DedupKey q = '''' \<and> length (db_records d) < record_limit q \<and>
     map_of (db_records d) (ev_ID q) = None \<and> (\<forall>n. am_record_bytes a (q\<lparr>ev_Sequence := n\<rparr>) \<le> 8192))"

lemma Append_fits:
  assumes "record_fits a r d"
  shows "\<exists>q d'. Append a r d = Inr (ev_ID (fill_record a r), d') \<and> db_records d' = db_records d @ [(ev_ID (fill_record a r), q)]"
proof -
  let ?q = "fill_record a r"
  have "count_rows (\<lambda>p. ev_Collection p = ev_Collection ?q) (db_records d) \<le> length (db_records d)" by (simp add: count_rows_def)
  then have room: "\<not> record_limit ?q \<le> count_rows (\<lambda>p. ev_Collection p = ev_Collection ?q) (db_records d)"
    using assms by (auto simp: record_fits_def Let_def)
  have small: "\<not> 8192 < am_record_bytes a (?q\<lparr>ev_Sequence := n\<rparr>)" for n
    using assms by (simp add: record_fits_def Let_def not_less)
  show ?thesis
    using assms room small by (simp add: record_fits_def Let_def Append_def store_record_def insert_row_def)
qed

lemma ChangeJob_fits:
  assumes "map_of (db_jobs d) x = Some j" and "\<not> Terminal_job (j_State j)" and "job_move j (jt_State t)" and "code_text (jt_Reason t)"
    and "\<not> (j_State j = ''queued'' \<and> jt_State t = ''running'')"
    and "set_outcomes t (j\<lparr>j_State := jt_State t, j_Updated := now, j_Reason := jt_Reason t\<rparr>) = Inr k" and "validOutcomes (close_job k)"
    and "next_sequence False (close_job k) = Inr k'" and "am_job_bytes a k' \<le> 8192"
    and "record_fits a (job_event ''job-state-changed'' True now k') d"
  shows "\<exists>d' q. ChangeJob a x (j_Sequence j) t now d = Inr (k', d') \<and>
     db_records d' = db_records d @ [(ev_ID (fill_record a (job_event ''job-state-changed'' True now k')), q)]"
proof -
  let ?d = "d\<lparr>db_revision := db_revision d + 1, db_jobs := update_row (j_ID k') k' (db_jobs d)\<rparr>"
  have save: "saveJob a False (close_job k) d = Inr (k', ?d)" using assms(8,9) by (simp add: saveJob_def Let_def)
  have "record_fits a (job_event ''job-state-changed'' True now k') (settle_receipts k' now ?d)"
    using assms(10) by (simp add: record_fits_def)
  from Append_fits [OF this] obtain y q d' where app: "Append a (job_event ''job-state-changed'' True now k') (settle_receipts k' now ?d) = Inr (y, d')"
    "db_records d' = db_records d @ [(ev_ID (fill_record a (job_event ''job-state-changed'' True now k')), q)]"
    by (auto simp: Let_def)
  then show ?thesis
    using assms(1-7) save by (auto simp: ChangeJob_def LoadJob_def Let_def)
qed

lemma updateSafety_fits:
  assumes "next_record_sequence (x_Sequence r) = Inr n" and "r' = changed r n (x_State r) (x_Outcome r) (ck_Wall (am_clock a 0))"
    and "am_safe_bytes a s \<le> 640000" and "am_exec_bytes a r' \<le> 320 * 1024" and "map_of (db_jobs d) (x_JobID r) = Some j"
    and "j_ID j = x_JobID r" and "ChangeJob a (x_JobID r) (j_Sequence j) (safe_phase j r' s) (x_Updated r') (write_safety r' s n d) = Inr (k, d1)"
    and "record_fits (later 2 a) (safety_record r' s) d1"
  shows "\<exists>d' q. updateSafety a r s d = Inr ((), d') \<and>
     db_records d' = db_records d1 @ [(ev_ID (fill_record (later 2 a) (safety_record r' s)), q)]"
proof -
  have "db_records (close_safety r' s d1) = db_records d1"
    by (simp add: close_safety_def checkpoint_def settle_fields_def unprotect_def RetirePending_def)
  then have "record_fits (later 2 a) (safety_record r' s) (close_safety r' s d1)"
    using assms(8) by (simp add: record_fits_def)
  from Append_fits [OF this] \<open>db_records (close_safety r' s d1) = db_records d1\<close> obtain y q d' where
    app: "Append (later 2 a) (safety_record r' s) (close_safety r' s d1) = Inr (y, d')"
      "db_records d' = db_records d1 @ [(ev_ID (fill_record (later 2 a) (safety_record r' s)), q)]"
    by auto
  have "x_JobID r' = x_JobID r" by (simp add: assms(2))
  then show ?thesis
    using assms app by (simp add: updateSafety_def Let_def encode_def LoadJob_def)
qed

lemma transition_fits:
  assumes "next_record_sequence (x_Sequence r) = Inr n" and "r' = changed r n state oc (am_now a 0)"
    and "am_exec_bytes a r' \<le> 320 * 1024" and "map_of (db_jobs d) (x_JobID r) = Some j" and "j_ID j = x_JobID r"
    and "ChangeJob (WithRequest (record_request r') (later 1 a)) (x_JobID r) (j_Sequence j)
      (field_phase (map_of (db_safes d) (x_ID r) \<noteq> None) j state oc) (am_now a 0) d = Inr (k, d1)"
    and "record_fits (WithRequest (record_request r') (later 3 a))
      (audit_record ''field-execution-state'' state (oc_Reason oc) True (am_now a 0) r') d1"
  shows "\<exists>d'. transition a r oc state d = Inr (r', d')"
proof -
  let ?e = "audit_record ''field-execution-state'' state (oc_Reason oc) True (am_now a 0) r'"
  let ?d = "write_field (map_of (db_safes d) (x_ID r) \<noteq> None) r' n d1"
  have "db_records ?d = db_records d1"
    by (simp add: write_field_def Let_def settle_fields_def unprotect_def RetirePending_def)
  then have "record_fits (WithRequest (record_request r') (later 3 a)) ?e ?d" using assms(7) by (simp add: record_fits_def)
  from Append_fits [OF this] obtain y d' where app: "Append (WithRequest (record_request r') (later 3 a)) ?e ?d = Inr (y, d')" by blast
  have "x_JobID r' = x_JobID r" by (simp add: assms(2))
  then show ?thesis using assms(1-6) app by (simp add: transition_def Let_def encode_def LoadJob_def)
qed

section \<open>A journal with an open safe apply\<close>

definition sample_tx :: string where "sample_tx = ''00000000-0000-4000-8000-0000000000a1''"
definition sample_old_tx :: string where "sample_old_tx = ''00000000-0000-4000-8000-0000000000a2''"
definition sample_job_id :: string where "sample_job_id = ''00000000-0000-4000-8000-0000000000aa''"
definition sample_moment :: moment where "sample_moment = 63856268072960000000"

definition sample_authority :: Authorization where
  "sample_authority = \<lparr>az_Owner = sample_owner, az_Credential = sample_owner, az_Epoch = sample_owner, az_Policy = ''policy'',
     az_ProviderPolicy = ''policy'', az_ChangeSet = sample_owner, az_Validation = sample_owner, az_Scope = ''scope'',
     az_Expires = sample_moment + 1, az_FieldCapabilities = ''''\<rparr>"

definition sample_field_intent :: StoredIntent where
  "sample_field_intent = zero_intent\<lparr>si_Operation := ''port.vlan.set'', si_Object := sample_object ''Port''\<rparr>"

definition sample_plan :: Plan where
  "sample_plan = \<lparr>pl_ID = sample_tx, pl_Envelope = \<lparr>e_Owner = sample_owner, e_Epoch = sample_owner, e_Sequence = 1,
       e_Candidate = sample_candidate\<lparr>c_Intents := [sample_field_intent]\<rparr>, e_Seal = ''''\<rparr>, pl_Schema = '''',
     pl_Generation = ''g1'', pl_Root = sample_id, pl_Marker = ''marker'', pl_NextFloor = '''', pl_CurFloor = '''',
     pl_Prepared = sample_moment, pl_Native = '''', pl_GraphBindings = []\<rparr>"

definition sample_applied_outcome :: Outcome where
  "sample_applied_outcome = plain_outcome ''committed'' ''applied'' ''observed''"

definition sample_exec :: "string \<Rightarrow> Execution" where
  "sample_exec x = \<lparr>x_ID = x, x_Sequence = ''1'', x_State = ''succeeded'', x_Owner = sample_owner, x_RequestID = sample_request_id,
     x_JobID = sample_job_id, x_Correlation = sample_owner, x_ValidationID = sample_owner, x_CandidateID = sample_id,
     x_CandidateRevision = sample_id, x_Generation = ''g1'', x_Created = sample_moment, x_Updated = sample_moment,
     x_Outcome = sample_applied_outcome, x_Authorization = sample_authority, x_Plan = sample_plan\<rparr>"

definition sample_clock :: Clock where
  "sample_clock = \<lparr>ck_BootID = ''boot'', ck_NS = 1000, ck_Wall = sample_moment\<rparr>"

definition sample_late_clock :: Clock where
  "sample_late_clock = sample_clock\<lparr>ck_NS := 1000 + seconds 120, ck_Wall := sample_moment + seconds 120\<rparr>"

definition sample_engine_source :: "Clock \<Rightarrow> engine_ambient" where
  "sample_engine_source c = requests_ambient.extend sample_requests_source
     \<lparr>am_exec_bytes = (\<lambda>_. 100), am_safe_bytes = (\<lambda>_. 100), am_clock = (\<lambda>_. c),
      am_probe = (\<lambda>_. True), am_authority = (\<lambda>_ _. Inr ()), am_sha256 = (\<lambda>_. ''sha'')\<rparr>"

definition sample_config :: engine_config where
  "sample_config = \<lparr>ec_Domain = ''domain'', ec_Window = seconds 120, ec_Key = []\<rparr>"

definition sample_safety :: Safety where
  "sample_safety = zero_safety\<lparr>sf_State := ''awaiting-confirmation'', sf_Reason := ''applied-management-reachable'',
     sf_Domain := ''domain'', sf_Reservation := sample_id, sf_Preparation := NewDeadline sample_clock PreparationBudget,
     sf_Confirmation := Some (NewDeadline sample_clock (seconds 120)), sf_HealthyAt := Some sample_moment,
     sf_LastWall := sample_moment, sf_Fingerprint := ''sha''\<rparr>"

definition sample_field_job :: Job where
  "sample_field_job = sample_job\<lparr>j_ID := sample_job_id, j_Sequence := ''1'', j_State := ''running'', j_Transaction := sample_tx,
     j_RequestID := sample_request_id, j_RequestDomain := ''management'', j_RequestEpoch := sample_owner,
     j_Dispatch := ''sent'', j_Business := ''unknown'', j_Confirmation := ''pending'', j_Completed := None\<rparr>"

definition sample_row :: "Safety \<Rightarrow> safe_row" where
  "sample_row doc = \<lparr>sr_Owner = sample_owner, sr_Epoch = sample_owner, sr_Request = sample_request_id, sr_Doc = doc\<rparr>"

definition sample_journal :: "Safety \<Rightarrow> journal_db" where
  "sample_journal doc = requests_db.extend (sample_requests_db\<lparr>db_jobs := [(sample_job_id, sample_field_job)]\<rparr>)
     \<lparr>db_anchors = [], db_journal = [(sample_tx, (1, ''awaiting-confirmation''))],
      db_execs = [(sample_old_tx, sample_exec sample_old_tx), (sample_tx, sample_exec sample_tx)],
      db_safes = [(sample_tx, (sample_row doc))],
      db_protections = [(sample_id, ''port.vlan'', sample_tx)], db_identities = [], db_creations = [], db_resolutions = [],
      db_last_known_good = None\<rparr>"

definition sample_engine :: "Safety \<Rightarrow> engine" where
  "sample_engine doc = \<lparr>en_db = sample_journal doc, en_active = [], en_workers = [], en_sent = [(sample_tx, Forward, sample_plan)]\<rparr>"

definition sample_provider :: provider where
  "sample_provider = \<lparr>pv_Prepare = (\<lambda>x m v. Inr sample_plan),
     pv_Commit = (\<lambda>p. Asked (plain_outcome ''rejected'' ''not-applied'' ''refused'') (plain_outcome ''committed'' ''pending'' ''sent'')),
     pv_Observe = (\<lambda>p oc. sample_applied_outcome), pv_PrepareRollback = (\<lambda>p m. Inr (p\<lparr>pl_Marker := m\<rparr>))\<rparr>"

lemma sample_ids [simp]:
  "ManagementID sample_tx" "ManagementID sample_old_tx" "ManagementID sample_job_id" "ManagementID sample_owner" "UUID sample_owner"
  "UUID sample_request_id" "sample_tx \<noteq> sample_old_tx" "sample_old_tx \<noteq> sample_tx" "sample_tx \<noteq> ''''" "sample_owner \<noteq> ''''"
  "sample_request_id \<noteq> ''''" "sample_job_id \<noteq> ''''"
  by (simp_all add: ManagementID_def UUID_def sample_tx_def sample_old_tx_def sample_job_id_def sample_owner_def sample_request_id_def
      no_dash_def lower_def hex_val_def)

lemma sample_tables_fields [simp]:
  "db_jobs (sample_journal doc) = [(sample_job_id, sample_field_job)]" "db_records (sample_journal doc) = []" "db_last_sequence (sample_journal doc) = 0"
  "db_receipts (sample_journal doc) = []" "db_execs (sample_journal doc) = [(sample_old_tx, sample_exec sample_old_tx), (sample_tx, sample_exec sample_tx)]"
  "db_safes (sample_journal doc) = [(sample_tx, (sample_row doc))]" "db_protections (sample_journal doc) = [(sample_id, ''port.vlan'', sample_tx)]"
  "db_last_known_good (sample_journal doc) = None" "db_epoch (sample_journal doc) = sample_owner" "db_high_watermark (sample_journal doc) = 0"
  by (simp_all add: sample_journal_def sample_requests_db_def sample_tables_def requests_db.defs evidence_db.defs)

lemma sample_exec_fields [simp]:
  "x_ID (sample_exec x) = x" "x_Sequence (sample_exec x) = ''1''" "x_State (sample_exec x) = ''succeeded''"
  "x_Plan (sample_exec x) = sample_plan" "x_Outcome (sample_exec x) = sample_applied_outcome" "x_JobID (sample_exec x) = sample_job_id"
  "x_Updated (sample_exec x) = sample_moment" "x_Authorization (sample_exec x) = sample_authority"
  "x_Owner (sample_exec x) = sample_owner" "x_Correlation (sample_exec x) = sample_owner" "x_RequestID (sample_exec x) = sample_request_id"
  by (simp_all add: sample_exec_def)

lemma sample_safety_fields [simp]:
  "sr_Doc (sample_row doc) = doc" "sf_State sample_safety = ''awaiting-confirmation''" "sf_Rollback sample_safety = None"
  "sf_Domain sample_safety = ''domain''" "sf_Confirmation sample_safety = Some (NewDeadline sample_clock (seconds 120))"
  "sf_LastWall sample_safety = sample_moment" "sf_Trigger sample_safety = ''''" "sf_HealthyAt sample_safety = Some sample_moment"
  by (simp_all add: sample_row_def sample_safety_def zero_safety_def)

lemma sample_outcome [simp]:
  "oc_Commit sample_applied_outcome = ''committed''" "oc_Applied sample_applied_outcome = ''applied''"
  by (simp_all add: sample_applied_outcome_def plain_outcome_def)

lemma sample_engine_wf:
  assumes "safe_ok (sample_exec sample_tx) doc" and "\<not> Terminal_safety (sf_State doc)"
  shows "engine_wf (sample_engine doc)"
proof -
  have job: "job_wf sample_job_id sample_field_job"
    by (simp add: job_wf_def sample_field_job_def sample_job_def validOutcomes_def Terminal_job_def ParseUint_def is_digit_def
        less_eq_char_def dec_val_def digit_val_def code_text_def alnum_def)
  have "tables_wf (sample_journal doc)"
    using job by (simp add: tables_wf_def jobs_wf_def records_wf_def receipts_wf_def count_rows_def evidence_limits)
  moreover have "unsettled (sample_journal doc) z = False" if "z \<in> set (db_execs (sample_journal doc))" for z
    using that by (auto simp: unsettled_def terminal_def)
  ultimately have "journal_wf (sample_journal doc)"
    using assms by (simp add: journal_wf_def exec_ok_def exclusive_def settled_def Terminal_safety_def
        unsettled_def terminal_def MaxRecords_def MaxUnsettled_def count_rows_def)
  then show ?thesis using assms(1) by (simp add: engine_wf_def sample_engine_def log_ok_def workers_ok_def)
qed

section \<open>Its writes\<close>

lemma sample_refs: "x_Plan r = sample_plan \<Longrightarrow> interfaceEvidenceObjects r = []"
  by (simp add: interfaceEvidenceObjects_def plan_intents_def sample_plan_def sample_field_intent_def sample_candidate_def
      evidence_refs_def zero_intent_def sample_object_def Let_def PortIsolationSet_def SpanningTreeConfigure_def BridgeMulticastSet_def)

lemma code_text_samples [simp]:
  "code_text ''createTransaction''" "code_text ''configuration.apply''" "code_text ''job-state-changed''" "code_text ''running''"
  "code_text ''succeeded''" "code_text ''unknown''" "code_text ''pending''" "code_text ''confirmed''" "code_text ''success''"
  "code_text ''committed''" "code_text ''applied''" "code_text ''safe-apply-state''" "code_text ''rolling-back''"
  "code_text ''rollback-dispatch-durable''" "code_text ''connectivity-confirmed''" "code_text ''transaction''"
  "code_text ''safe-apply-decision''" "code_text ''confirm''"
  by (simp_all add: code_text_def alnum_def is_digit_def less_eq_char_def)

lemma sample_job_fields [simp]:
  "j_ID sample_field_job = sample_job_id" "j_Sequence sample_field_job = ''1''" "j_State sample_field_job = ''running''"
  "j_Handler sample_field_job = ''field-execution''" "j_Dispatch sample_field_job = ''sent''"
  "j_Operation sample_field_job = ''createTransaction''" "j_Capability sample_field_job = ''configuration.apply''"
  "j_Resource sample_field_job = None" "j_RelatedObjects sample_field_job = []" "j_ChangeSet sample_field_job = ''''"
  "j_Transaction sample_field_job = sample_tx" "j_RequestID sample_field_job = sample_request_id"
  "j_RequestDomain sample_field_job = ''management''" "j_RequestEpoch sample_field_job = sample_owner"
  "j_Correlation sample_field_job = ''00000000-0000-4000-8000-0000000000cc''"
  by (simp_all add: sample_field_job_def sample_job_def)

lemma code_text_awaiting [simp]: "code_text ''awaiting-confirmation''" "code_text ''applied-management-reachable''"
  by (simp_all add: code_text_def alnum_def is_digit_def less_eq_char_def)

lemma sample_correlation [simp]: "ManagementID ''00000000-0000-4000-8000-0000000000cc''"
  by (simp add: ManagementID_def UUID_def no_dash_def lower_def hex_val_def)

lemma sample_authority_fields [simp]:
  "az_Credential sample_authority = sample_owner" "az_ChangeSet sample_authority = sample_owner" "az_Epoch sample_authority = sample_owner"
  by (simp_all add: sample_authority_def)

lemma fill_fields:
  "ev_Collection (fill_record a r) = ev_Collection r" "ev_Origin (fill_record a r) = ev_Origin r"
  "ev_RelatedObjects (fill_record a r) = ev_RelatedObjects r" "ev_Object (fill_record a r) = ev_Object r"
  "ev_ChangeSet (fill_record a r) = ev_ChangeSet r" "ev_Transaction (fill_record a r) = ev_Transaction r"
  "ev_Job (fill_record a r) = ev_Job r" "ev_Operation (fill_record a r) = ev_Operation r" "ev_Result (fill_record a r) = ev_Result r"
  "ev_Reason (fill_record a r) = ev_Reason r" "ev_DedupKey (fill_record a r) = ev_DedupKey r" "ev_Critical (fill_record a r) = ev_Critical r"
  "ev_Correlation r \<noteq> '''' \<Longrightarrow> ev_Correlation (fill_record a r) = ev_Correlation r"
  "ev_RequestID r \<noteq> '''' \<Longrightarrow> ev_RequestID (fill_record a r) = ev_RequestID r"
  "ev_RequestID r \<noteq> '''' \<Longrightarrow> ev_RequestDomain (fill_record a r) = ev_RequestDomain r"
  "ev_RequestID r \<noteq> '''' \<Longrightarrow> ev_RequestEpoch (fill_record a r) = ev_RequestEpoch r"
  "ev_Capability r \<noteq> '''' \<Longrightarrow> ev_Capability (fill_record a r) = ev_Capability r"
  "ev_Origin r = ''Manager'' \<Longrightarrow> ev_Actor (fill_record a r) = (if ev_Actor r = '''' then rq_Principal (am_request a) else ev_Actor r)"
  "ev_Origin r = ''Manager'' \<Longrightarrow> ev_Credential (fill_record a r) = (if ev_Credential r = '''' then rq_Credential (am_request a) else ev_Credential r)"
  "ev_ID (fill_record a r) = (if ev_ID r = '''' then new_id a 1 else ev_ID r)"
  by (simp_all add: fill_record_def Let_def)

lemma FormatUint_2: "FormatUint (Suc (Suc 0)) = ''2''"
  by code_simp

lemma close_job_more:
  "j_Capability (close_job j) = j_Capability j" "j_Resource (close_job j) = j_Resource j"
  "j_RelatedObjects (close_job j) = j_RelatedObjects j" "j_ChangeSet (close_job j) = j_ChangeSet j"
  "j_RequestID (close_job j) = j_RequestID j" "j_RequestDomain (close_job j) = j_RequestDomain j"
  "j_RequestEpoch (close_job j) = j_RequestEpoch j" "j_Correlation (close_job j) = j_Correlation j"
  by (simp_all add: close_job_def Let_def)

text \<open>An environment in which the documents are small and the minted identifiers valid and different.\<close>

definition sample_env :: "engine_ambient \<Rightarrow> bool" where
  "sample_env a \<longleftrightarrow> (\<forall>j. am_job_bytes a j = 100) \<and> (\<forall>r. am_record_bytes a r = 100) \<and> (\<forall>r. am_exec_bytes a r = 100) \<and>
     (\<forall>s. am_safe_bytes a s = 100) \<and> ManagementID (new_id a 1) \<and> ManagementID (new_id a 3) \<and> new_id a 1 \<noteq> new_id a 3 \<and>
     optionalID (rq_Principal (am_request a)) \<and> optionalID (rq_Credential (am_request a))"

lemma sample_update:
  assumes "sample_env a" and "r = sample_exec sample_tx" and "sf_State s \<in> {''rolling-back'', ''confirmed'', ''awaiting-confirmation''}"
    and "code_text (sf_Reason s)" and "s0 = (if sf_Rollback s \<noteq> None then sf_Outcome s else sample_applied_outcome)"
    and "oc_Commit s0 \<in> {''unknown'', ''committed''}" and "oc_Applied s0 \<in> {''unknown'', ''applied''}"
  shows "\<exists>d' q1 q2. updateSafety a r s (sample_journal doc) = Inr ((), d') \<and> db_records d' = [(new_id a 1, q1), (new_id a 3, q2)]"
proof -
  define r' where "r' = changed r 2 (x_State r) (x_Outcome r) (ck_Wall (am_clock a 0))"
  define t where "t = safe_phase sample_field_job r' s"
  have r': "x_Outcome r' = sample_applied_outcome" "x_Plan r' = sample_plan" "x_ID r' = sample_tx" "x_JobID r' = sample_job_id"
    "x_Owner r' = sample_owner" "x_Correlation r' = sample_owner" "x_RequestID r' = sample_request_id" "x_Authorization r' = sample_authority"
    by (simp_all add: r'_def changed_def assms(2))
  have t: "jt_State t = (if sf_State s = ''confirmed'' then ''succeeded'' else ''running'')" "jt_Dispatch t = ''''"
    "jt_Business t = (if sf_State s = ''confirmed'' then ''success'' else ''unknown'')" "jt_Commit t = oc_Commit s0" "jt_Applied t = oc_Applied s0"
    "jt_Confirmation t = (if sf_State s = ''confirmed'' then ''confirmed'' else ''pending'')" "jt_Reason t = sf_Reason s"
    using assms(3,5) r' by (auto simp: t_def safe_phase_def Let_def)
  define k where "k = sample_field_job\<lparr>j_State := jt_State t, j_Updated := x_Updated r', j_Reason := jt_Reason t, j_Business := jt_Business t,
    j_Commit := jt_Commit t, j_Applied := jt_Applied t, j_Confirmation := jt_Confirmation t\<rparr>"
  define k' where "k' = (close_job k)\<lparr>j_Sequence := ''2''\<rparr>"
  have env: "am_job_bytes a j = 100" "am_record_bytes a q = 100" "am_exec_bytes a x = 100" "am_safe_bytes a s' = 100" for j q x s'
    using assms(1) by (simp_all add: sample_env_def)
  have ids: "ManagementID (new_id a 1)" "ManagementID (new_id a 3)" "new_id a 1 \<noteq> new_id a 3" "new_id a 1 \<noteq> ''''" "new_id a 3 \<noteq> ''''"
    using assms(1) by (auto simp: sample_env_def ManagementID_def UUID_def)
  have req: "optionalID (rq_Principal (am_request a))" "optionalID (rq_Credential (am_request a))"
    using assms(1) by (simp_all add: sample_env_def)
  have next_id: "new_id (later 2 a) (Suc 0) = new_id a 3" "am_request (later 2 a) = am_request a"
    "am_record_bytes (later 2 a) = am_record_bytes a"
    by (simp_all add: new_id_def later_def mint_def numeral_3_eq_3)
  have k': "j_State k' = jt_State t" "j_Reason k' = sf_Reason s" "j_Capability k' = ''configuration.apply''" "j_Resource k' = None"
    "j_RelatedObjects k' = []" "j_ChangeSet k' = ''''" "j_Transaction k' = sample_tx" "j_ID k' = sample_job_id"
    "j_RequestID k' = sample_request_id" "j_RequestDomain k' = ''management''" "j_RequestEpoch k' = sample_owner"
    "j_Correlation k' = ''00000000-0000-4000-8000-0000000000cc''"
    by (simp_all add: k'_def k_def t(7) close_job_more)
  have event: "record_fits a (job_event ''job-state-changed'' True now k') (write_safety r' s 2 (sample_journal doc))"
    and event_id: "ev_ID (fill_record a (job_event ''job-state-changed'' True now k')) = new_id a 1" for now
  proof -
    let ?e = "job_event ''job-state-changed'' True now k'"
    show "ev_ID (fill_record a ?e) = new_id a 1" by (simp add: fill_fields job_event_def)
    have "record_valid (fill_record a ?e)"
      using ids(1) req assms(4) t(1)
      by (simp add: record_valid_def fill_fields job_event_def k' optionalRequest_def validRef_def validRelated_def optionalID_def)
    then show "record_fits a ?e (write_safety r' s 2 (sample_journal doc))"
      by (simp add: record_fits_def Let_def fill_fields env job_event_def record_limit_def evidence_limits write_safety_def set_safety_def)
  qed
  have codes: "code_text (jt_Business t)" "code_text (jt_Commit t)" "code_text (jt_Applied t)" "code_text (jt_Confirmation t)"
    using t assms(6,7) by auto
  then have nonempty: "jt_Business t \<noteq> ''''" "jt_Commit t \<noteq> ''''" "jt_Applied t \<noteq> ''''" "jt_Confirmation t \<noteq> ''''"
    by (auto simp: code_text_def)
  have outcomes: "set_outcomes t (sample_field_job\<lparr>j_State := jt_State t, j_Updated := x_Updated r', j_Reason := jt_Reason t\<rparr>) = Inr k"
    by (simp add: set_outcomes_def Let_def k_def codes nonempty t(2))
  have valid: "validOutcomes (close_job k)"
    using assms(4,6,7) by (auto simp: validOutcomes_def k_def t)
  have "j_Sequence (close_job k) = ''1''" by (simp add: k_def)
  then have seq: "next_sequence False (close_job k) = Inr k'"
    by (simp add: next_sequence_def k'_def ParseUint_def is_digit_def less_eq_char_def dec_val_def digit_val_def FormatUint_2)
  have tables: "db_jobs (write_safety r' s 2 (sample_journal doc)) = [(sample_job_id, sample_field_job)]"
    "db_records (write_safety r' s 2 (sample_journal doc)) = []"
    by (simp_all add: write_safety_def set_safety_def r'(3))
  have moves: "job_move sample_field_job (jt_State t)" by (simp add: job_move_def t(1) Terminal_job_def)
  obtain d1 q where change: "ChangeJob a sample_job_id ''1'' t (x_Updated r') (write_safety r' s 2 (sample_journal doc)) = Inr (k', d1)"
    and records: "db_records d1 = [(new_id a 1, q)]"
    using ChangeJob_fits [OF _ _ moves _ _ outcomes valid seq _ event, of sample_job_id] t(7) assms(4) env
    by (auto simp: tables event_id Terminal_job_def)
  have audit: "record_fits (later 2 a) (safety_record r' s) d1"
    and audit_id: "ev_ID (fill_record (later 2 a) (safety_record r' s)) = new_id a 3"
  proof -
    let ?e = "safety_record r' s"
    show "ev_ID (fill_record (later 2 a) ?e) = new_id a 3" by (simp add: fill_fields safety_record_def audit_record_def next_id)
    have "code_text (sf_State s)" using assms(3) by auto
    then have "record_valid (fill_record (later 2 a) ?e)"
      using ids(2) assms(4)
      by (simp add: record_valid_def fill_fields safety_record_def audit_record_def r' next_id sample_refs transaction_ref_def
          optionalRequest_def validRef_def validRelated_def optionalID_def)
    then show "record_fits (later 2 a) ?e d1"
      using ids(3)
      by (simp add: record_fits_def Let_def fill_fields env next_id records safety_record_def audit_record_def record_limit_def evidence_limits)
  qed
  have "next_record_sequence (x_Sequence r) = Inr 2"
    by (simp add: assms(2) next_record_sequence_def ParseInt_def is_digit_def less_eq_char_def dec_val_def digit_val_def)
  from updateSafety_fits [OF this r'_def _ _ _ _ _ audit, of "sample_journal doc" sample_field_job k'] change audit_id records env show ?thesis
    by (auto simp: assms(2) t_def)
qed

lemma sample_engine_fields [simp]:
  "en_db (sample_engine doc) = sample_journal doc" "en_active (sample_engine doc) = []" "en_workers (sample_engine doc) = []"
  "en_sent (sample_engine doc) = [(sample_tx, Forward, sample_plan)]"
  by (simp_all add: sample_engine_def)

lemma sample_source_fields [simp]:
  "am_clock (sample_engine_source c) n = c" "am_probe (sample_engine_source c) n" "am_authority (sample_engine_source c) n z = Inr ()"
  "am_job_bytes (sample_engine_source c) j = 100" "am_record_bytes (sample_engine_source c) r = 100"
  "am_exec_bytes (sample_engine_source c) q = 100" "am_safe_bytes (sample_engine_source c) s = 100"
  "am_request (sample_engine_source c) = no_request" "am_now (sample_engine_source c) n = sample_moment"
  "h_random (am_host (sample_engine_source c)) n = replicate 15 0 @ [of_nat n]"
  by (simp_all add: sample_engine_source_def sample_requests_source_def sample_source_def evidence_ambient.defs requests_ambient.defs
      sample_moment_def)

lemma forth_fields [simp]:
  "am_job_bytes (forth n a) = am_job_bytes a" "am_record_bytes (forth n a) = am_record_bytes a" "am_exec_bytes (forth n a) = am_exec_bytes a"
  "am_safe_bytes (forth n a) = am_safe_bytes a" "am_request (forth n a) = am_request a" "new_id (forth n a) k = new_id a (n + k)"
  "am_now (forth n a) k = am_now a (n + k)"
  by (simp_all add: forth_def later_def new_id_def mint_def)

lemma sample_minted:
  "new_id (sample_engine_source c) 31 = ''00000000-0000-4000-8000-00000000001f''"
  "new_id (sample_engine_source c) 33 = ''00000000-0000-4000-8000-000000000021''"
proof -
  have "NewID (replicate 15 0 @ [31]) = ''00000000-0000-4000-8000-00000000001f''"
    "NewID (replicate 15 0 @ [33]) = ''00000000-0000-4000-8000-000000000021''"
    by code_simp+
  then show "new_id (sample_engine_source c) 31 = ''00000000-0000-4000-8000-00000000001f''"
    "new_id (sample_engine_source c) 33 = ''00000000-0000-4000-8000-000000000021''"
    by (simp_all add: new_id_def mint_def)
qed

lemma sample_env_tick: "sample_env (forth 30 (sample_engine_source c))"
  by (simp add: sample_env_def sample_minted no_request_def optionalID_def ManagementID_def UUID_def no_dash_def lower_def hex_val_def)

section \<open>A journal with an apply that was sent and not yet observed\<close>

definition sample_unsure_exec :: Execution where
  "sample_unsure_exec = (sample_exec sample_tx)\<lparr>x_State := ''committing'',
     x_Outcome := plain_outcome ''unknown'' ''unknown'' ''dispatch-intent-durable''\<rparr>"

definition sample_preparing :: Safety where
  "sample_preparing = sample_safety\<lparr>sf_State := ''preparing'', sf_Reason := ''checkpoint-durable'', sf_Confirmation := None, sf_HealthyAt := None\<rparr>"

definition sample_unsure :: journal_db where
  "sample_unsure = (sample_journal sample_preparing)\<lparr>db_execs := [(sample_old_tx, sample_exec sample_old_tx), (sample_tx, sample_unsure_exec)]\<rparr>"

definition sample_unsure_engine :: engine where
  "sample_unsure_engine = (sample_engine sample_preparing)\<lparr>en_db := sample_unsure\<rparr>"

lemma sample_unsure_fields [simp]:
  "x_ID sample_unsure_exec = sample_tx" "x_State sample_unsure_exec = ''committing''" "x_Plan sample_unsure_exec = sample_plan"
  "x_Outcome sample_unsure_exec = plain_outcome ''unknown'' ''unknown'' ''dispatch-intent-durable''" "x_Sequence sample_unsure_exec = ''1''"
  "x_JobID sample_unsure_exec = sample_job_id" "x_Authorization sample_unsure_exec = sample_authority" "x_Owner sample_unsure_exec = sample_owner"
  "x_Correlation sample_unsure_exec = sample_owner" "x_RequestID sample_unsure_exec = sample_request_id" "x_Updated sample_unsure_exec = sample_moment"
  "sf_State sample_preparing = ''preparing''" "sf_Rollback sample_preparing = None" "sf_Domain sample_preparing = ''domain''"
  "sf_Confirmation sample_preparing = None" "sf_LastWall sample_preparing = sample_moment" "sf_Trigger sample_preparing = ''''"
  "db_jobs sample_unsure = [(sample_job_id, sample_field_job)]" "db_records sample_unsure = []"
  "db_execs sample_unsure = [(sample_old_tx, sample_exec sample_old_tx), (sample_tx, sample_unsure_exec)]"
  "db_safes sample_unsure = [(sample_tx, sample_row sample_preparing)]"
  "en_db sample_unsure_engine = sample_unsure" "en_active sample_unsure_engine = []"
  by (simp_all add: sample_unsure_exec_def sample_preparing_def sample_unsure_def sample_unsure_engine_def)

lemma sample_unsure_wf [simp]: "engine_wf sample_unsure_engine"
proof -
  have job: "job_wf sample_job_id sample_field_job"
    by (simp add: job_wf_def sample_field_job_def sample_job_def validOutcomes_def Terminal_job_def ParseUint_def is_digit_def
        less_eq_char_def dec_val_def digit_val_def code_text_def alnum_def)
  have tables: "tables_wf sample_unsure"
    using job by (simp add: tables_wf_def jobs_wf_def records_wf_def receipts_wf_def count_rows_def evidence_limits sample_unsure_def)
  have old: "unsettled sample_unsure (sample_old_tx, sample_exec sample_old_tx) = False" by (simp add: unsettled_def terminal_def)
  have "journal_wf sample_unsure"
    using tables old
    by (simp add: journal_wf_def exec_ok_def safe_ok_def exclusive_def settled_def Terminal_safety_def plain_outcome_def
        unsettled_def terminal_def MaxRecords_def MaxUnsettled_def count_rows_def sample_unsure_def)
  then show ?thesis by (simp add: engine_wf_def sample_unsure_engine_def log_ok_def workers_ok_def)
qed

lemma sample_sent_ids:
  "NewID (replicate 15 0 @ [4]) = ''00000000-0000-4000-8000-000000000004''"
  "NewID (replicate 15 0 @ [6]) = ''00000000-0000-4000-8000-000000000006''"
  by code_simp+

lemma sample_sent_valid [simp]:
  "ManagementID ''00000000-0000-4000-8000-000000000004''" "ManagementID ''00000000-0000-4000-8000-000000000006''"
  by (simp_all add: ManagementID_def UUID_def no_dash_def lower_def hex_val_def)

text \<open>The observation of the applied plan is recorded, with the clock at rest.\<close>

lemma code_text_observed [simp]: "code_text ''observed''" "code_text ''completed''" "code_text ''field-execution-state''"
  by (simp_all add: code_text_def alnum_def is_digit_def less_eq_char_def)

lemma sample_observation:
  "\<exists>d. saveOutcome_tx (sample_engine_source c) sample_tx sample_applied_outcome sample_unsure = Inr ((), d)"
proof -
  define a where "a = forth 2 (sample_engine_source c)"
  define r' where "r' = changed sample_unsure_exec 2 ''succeeded'' sample_applied_outcome sample_moment"
  define t where "t = field_phase True sample_field_job ''succeeded'' sample_applied_outcome"
  have oc: "oc_Reason sample_applied_outcome = ''observed''" by (simp add: sample_applied_outcome_def plain_outcome_def)
  have t: "t = \<lparr>jt_State = ''running'', jt_Dispatch = ''completed'', jt_Business = ''unknown'', jt_Commit = ''committed'',
      jt_Applied = ''applied'', jt_Confirmation = '''', jt_Reason = ''observed''\<rparr>"
    by (simp add: t_def field_phase_def Let_def oc)
  have r': "x_Outcome r' = sample_applied_outcome" "x_Plan r' = sample_plan" "x_ID r' = sample_tx" "x_JobID r' = sample_job_id"
    "x_Owner r' = sample_owner" "x_Correlation r' = sample_owner" "x_RequestID r' = sample_request_id" "x_Authorization r' = sample_authority"
    by (simp_all add: r'_def changed_def)
  define A where "A = WithRequest (record_request r') (later 1 a)"
  define B where "B = WithRequest (record_request r') (later 3 a)"
  have req: "rq_Principal (am_request A) = sample_owner" "rq_Credential (am_request A) = sample_owner"
    "rq_Principal (am_request B) = sample_owner" "rq_Credential (am_request B) = sample_owner" "rq_Correlation (am_request B) = sample_owner"
    "rq_ID (am_request B) = sample_request_id" "rq_Domain (am_request B) = ''management''" "rq_Epoch (am_request B) = sample_owner"
    "rq_Capability (am_request B) = ''configuration.apply''"
    by (simp_all add: A_def B_def WithRequest_def record_request_def r')
  have bytes: "am_record_bytes A q = 100" "am_record_bytes B q = 100" "am_job_bytes A j = 100" for q j
    by (simp_all add: A_def B_def WithRequest_def later_def a_def forth_def)
  have ids: "new_id A 1 = ''00000000-0000-4000-8000-000000000004''" "new_id B 1 = ''00000000-0000-4000-8000-000000000006''"
    by (simp_all add: A_def B_def WithRequest_def a_def forth_def new_id_def later_def mint_def sample_sent_ids)
  have ids': "new_id A (Suc 0) = ''00000000-0000-4000-8000-000000000004''" "new_id B (Suc 0) = ''00000000-0000-4000-8000-000000000006''"
    using ids by simp_all
  define k where "k = sample_field_job\<lparr>j_State := ''running'', j_Updated := sample_moment, j_Reason := ''observed'', j_Dispatch := ''completed'',
    j_Business := ''unknown'', j_Commit := ''committed'', j_Applied := ''applied''\<rparr>"
  define k' where "k' = (close_job k)\<lparr>j_Sequence := ''2''\<rparr>"
  have k': "j_State k' = ''running''" "j_Reason k' = ''observed''" "j_Capability k' = ''configuration.apply''" "j_Resource k' = None"
    "j_RelatedObjects k' = []" "j_ChangeSet k' = ''''" "j_Transaction k' = sample_tx" "j_ID k' = sample_job_id"
    "j_RequestID k' = sample_request_id" "j_RequestDomain k' = ''management''" "j_RequestEpoch k' = sample_owner"
    "j_Correlation k' = ''00000000-0000-4000-8000-0000000000cc''"
    by (simp_all add: k'_def k_def close_job_more)
  let ?e = "job_event ''job-state-changed'' True sample_moment k'"
  have event_id: "ev_ID (fill_record A ?e) = new_id A 1" by (simp add: fill_fields job_event_def)
  have "record_valid (fill_record A ?e)"
    by (simp add: record_valid_def fill_fields job_event_def k' optionalRequest_def validRef_def validRelated_def optionalID_def
        req ids')
  then have event: "record_fits A ?e sample_unsure"
    by (simp add: record_fits_def Let_def fill_fields bytes job_event_def record_limit_def evidence_limits)
  have outcomes: "set_outcomes t (sample_field_job\<lparr>j_State := jt_State t, j_Updated := sample_moment, j_Reason := jt_Reason t\<rparr>) = Inr k"
    by (simp add: set_outcomes_def Let_def k_def t sample_field_job_def)
  have valid: "validOutcomes (close_job k)" by (simp add: validOutcomes_def k_def close_job_def sample_field_job_def sample_job_def Let_def Terminal_job_def)
  have "j_Sequence (close_job k) = ''1''" by (simp add: k_def)
  then have seq: "next_sequence False (close_job k) = Inr k'"
    by (simp add: next_sequence_def k'_def ParseUint_def is_digit_def less_eq_char_def dec_val_def digit_val_def FormatUint_2)
  have moves: "job_move sample_field_job (jt_State t)" by (simp add: job_move_def t Terminal_job_def)
  obtain d1 q where change: "ChangeJob A sample_job_id ''1'' t sample_moment sample_unsure = Inr (k', d1)"
    and records: "db_records d1 = [(new_id A 1, q)]"
    using ChangeJob_fits [OF _ _ moves _ _ outcomes valid seq _ event, of sample_job_id] bytes
    by (auto simp: event_id t Terminal_job_def)
  let ?u = "audit_record ''field-execution-state'' ''succeeded'' ''observed'' True sample_moment r'"
  have filled: "fill_record B ?u = ?u\<lparr>ev_Correlation := sample_owner, ev_RequestID := sample_request_id, ev_RequestDomain := ''management'',
      ev_RequestEpoch := sample_owner, ev_Capability := ''configuration.apply'', ev_Actor := sample_owner, ev_Credential := sample_owner,
      ev_ID := ''00000000-0000-4000-8000-000000000006''\<rparr>"
    by (simp add: fill_record_def Let_def audit_record_def req ids' sample_moment_def)
  have "record_valid (fill_record B ?u)" unfolding filled
    by (simp add: record_valid_def audit_record_def req ids' r' sample_refs transaction_ref_def optionalRequest_def validRef_def
        validRelated_def optionalID_def)
  then have audit: "record_fits B ?u d1"
    by (simp add: record_fits_def Let_def filled bytes records ids') (simp add: audit_record_def record_limit_def evidence_limits)
  have step: "next_record_sequence (x_Sequence sample_unsure_exec) = Inr 2"
    by (simp add: next_record_sequence_def ParseInt_def is_digit_def less_eq_char_def dec_val_def digit_val_def)
  have safe: "(map_of (db_safes sample_unsure) (x_ID sample_unsure_exec) \<noteq> None) = True" by simp
  have now: "am_now a 0 = sample_moment" by (simp add: a_def)
  have "\<exists>d'. transition a sample_unsure_exec sample_applied_outcome ''succeeded'' sample_unsure = Inr (r', d')"
    by (rule transition_fits [OF step, of r' _ _ a sample_unsure sample_field_job k' d1])
      (use change audit in \<open>simp_all add: A_def B_def r'_def a_def t_def safe oc\<close>)
  then obtain d' where "transition a sample_unsure_exec sample_applied_outcome ''succeeded'' sample_unsure = Inr (r', d')" by blast
  then have tr: "transition (forth 2 (sample_engine_source c)) sample_unsure_exec sample_applied_outcome ''succeeded'' sample_unsure = Inr (r', d')"
    by (simp add: a_def)
  have state: "stateFor now sample_unsure_exec sample_applied_outcome = ''succeeded''" for now by (simp add: stateFor_def)
  have "load sample_tx sample_unsure = Inr sample_unsure_exec" "loadSafety sample_tx sample_unsure = Inr sample_preparing"
    by (simp_all add: load_def loadSafety_def select_row_def)
  then show ?thesis
    using tr by (simp add: saveOutcome_tx_def state terminal_def Terminal_safety_def outcome_reason_def)
qed

end
