(* ===== verification/Engine_Ticks.thy ===== *)
theory Engine_Ticks
  imports Engine_Samples
begin

text \<open>
  Single calls of the engine evaluated: a tick of the watchdog that compensates, a tick that returns to the
  open window, and a confirmation, each in general and on the journal of \<open>Engine_Samples\<close>.
\<close>

section \<open>A tick that compensates\<close>

definition triggered :: "Clock \<Rightarrow> bool \<Rightarrow> Execution \<Rightarrow> Safety \<Rightarrow> Safety" where
  "triggered c authorized r s = (if sf_Trigger s = '''' then s\<lparr>sf_Trigger := rollback_trigger c authorized r s\<rparr> else s)"

definition must_compensate :: "engine_ambient \<Rightarrow> Execution \<Rightarrow> Safety \<Rightarrow> bool" where
  "must_compensate a r s \<longleftrightarrow> window_expired (am_clock a 0) r s \<or> am_authority a 0 (x_Authorization r) \<noteq> Inr () \<or>
     sf_State s = ''rollback-requested''"

lemma readSafetyD:
  assumes "readSafety x d = Inr (r, s)"
  shows "load x d = Inr r" "x_ID r = x" "map_of (db_execs d) x = Some r" "loadSafety x d = Inr s"
    "\<exists>row. map_of (db_safes d) x = Some row \<and> sr_Doc row = s"
  using assms
  by (auto simp: readSafety_def load_def loadSafety_def select_row_def split: sum.splits option.splits if_splits)

lemma saveOutcome_terminal:
  assumes "load x d = Inr r" and "terminal r"
  shows "saveOutcome Done a x oc d = (Inr (), d)"
  using assms by (simp add: saveOutcome_def saveOutcome_tx_def store_write_def)

lemma compensating_tick:
  assumes s: "readSafety x (en_db e) = Inr (r, s)" "sf_Domain s = ec_Domain g" "\<not> Terminal_safety (sf_State s)"
      "sf_State s \<noteq> ''rollback-conflict''" "sf_Rollback s = None" "x_State r \<noteq> ''admitted''" "oc_Commit (x_Outcome r) \<noteq> ''rejected''"
    and seen: "oc_Commit (pv_Observe p (x_Plan r) (x_Outcome r)) = ''committed''"
      "saveOutcome (f 2) (forth 100 a) x (pv_Observe p (x_Plan r) (x_Outcome r)) (en_db e) = (Inr (), d1)" "load x d1 = Inr q"
    and p: "must_compensate a q s"
      "pv_PrepareRollback p (x_Plan q) (rollbackMarker a g x (pl_Marker (x_Plan q))) = Inr plan" "pv_Commit p plan = Asked no yes"
    and w: "x \<notin> set (en_active e)" "f 0 = Done"
      "saveSafety_tx (forth 30 a) q (dispatch_rollback plan (triggered (am_clock a 0) (am_authority a 0 (x_Authorization q) = Inr ()) q s)) d1 = Inr ((), d)"
  shows "en_sent (snd (safetyStep f a g p x e)) = en_sent e @ [(x, Compensation, plan)]"
proof -
  have id: "x_ID q = x" using seen(3) by (auto simp: load_def select_row_def split: sum.splits option.splits if_splits)
  let ?t = "triggered (am_clock a 0) (am_authority a 0 (x_Authorization q) = Inr ()) q s"
  have step: "safety_step_db f a g p x (en_db e) = watch_committed f a g p q s (pv_Observe p (x_Plan r) (x_Outcome r)) d1"
    using s seen by (simp add: Read_execution_def safety_step_db_def Let_def)
  have watch: "watch_committed f a g p q s oc d1 = rollback f a g p q ?t d1" for oc
    using p(1) by (simp add: watch_committed_def Let_def must_compensate_def triggered_def)
  have save: "saveSafety (f 0) (forth 30 a) q (dispatch_rollback plan ?t) d1 = (Inr (), d)"
    using w(2,3) by (simp add: saveSafety_def store_write_def)
  obtain res d' where answer: "rollback_answer (f 1) (forth 60 a) x yes d = (res, d')" by fastforce
  have "rollback f a g p q ?t d1 = (res, d', [(x, Compensation, plan)])"
    using p(2,3) save answer by (simp add: rollback_def Let_def id)
  then show ?thesis using w(1) step watch by (simp add: safetyStep_def claim_def release_def)
qed

section \<open>The sample compensates\<close>

lemma sample_safe_ok: "safe_ok (sample_exec sample_tx) sample_safety"
  by (simp add: safe_ok_def)

lemma sample_wf [simp]: "engine_wf (sample_engine sample_safety)"
  by (rule sample_engine_wf [OF sample_safe_ok]) (simp add: Terminal_safety_def)

lemma sample_read [simp]:
  assumes "sf_State doc \<noteq> ''''" and "sf_Domain doc \<noteq> ''''"
  shows "readSafety sample_tx (sample_journal doc) = Inr (sample_exec sample_tx, doc)"
  using assms by (simp add: readSafety_def load_def loadSafety_def select_row_def)

lemma sample_save:
  assumes "sample_env a" and "sf_State s \<in> {''rolling-back'', ''confirmed'', ''awaiting-confirmation''}"
    and "code_text (sf_Reason s)" and "s0 = (if sf_Rollback s \<noteq> None then sf_Outcome s else sample_applied_outcome)"
    and "oc_Commit s0 \<in> {''unknown'', ''committed''}" and "oc_Applied s0 \<in> {''unknown'', ''applied''}"
  shows "\<exists>d. saveSafety_tx a (sample_exec sample_tx) s (sample_journal doc) = Inr ((), d)"
  using sample_update [OF assms(1) refl assms(2-6), of doc] by (auto simp: saveSafety_tx_def load_def select_row_def)

lemma sample_expired: "must_compensate (sample_engine_source sample_late_clock) (sample_exec sample_tx) sample_safety"
  by (simp add: must_compensate_def window_expired_def Expired_def NewDeadline_def sample_late_clock_def sample_clock_def)

definition sample_rollback :: "engine_ambient \<Rightarrow> Plan" where
  "sample_rollback a = sample_plan\<lparr>pl_Marker := rollbackMarker a sample_config sample_tx (pl_Marker sample_plan)\<rparr>"

lemma sample_provider_fields [simp]:
  "pv_PrepareRollback sample_provider p m = Inr (p\<lparr>pl_Marker := m\<rparr>)" "pv_Observe sample_provider p oc = sample_applied_outcome"
  "pv_Commit sample_provider p = Asked (plain_outcome ''rejected'' ''not-applied'' ''refused'') (plain_outcome ''committed'' ''pending'' ''sent'')"
  "ec_Domain sample_config = ''domain''"
  by (simp_all add: sample_provider_def sample_config_def)

definition sample_late :: engine_ambient where
  "sample_late = sample_engine_source sample_late_clock"

lemma sample_intent_saved:
  "\<exists>d. saveSafety_tx (forth 30 sample_late) (sample_exec sample_tx)
     (dispatch_rollback (sample_rollback sample_late) (triggered (am_clock sample_late 0) (am_authority sample_late 0 sample_authority = Inr ())
        (sample_exec sample_tx) sample_safety)) (sample_journal sample_safety) = Inr ((), d)"
  unfolding sample_late_def
  by (rule sample_save [OF sample_env_tick _ _ refl]) (simp_all add: dispatch_rollback_def plain_outcome_def)

lemma sample_observed: "saveOutcome Done a sample_tx oc (sample_journal sample_safety) = (Inr (), sample_journal sample_safety)"
  by (rule saveOutcome_terminal [of _ _ "sample_exec sample_tx"]) (simp_all add: load_def select_row_def terminal_def)

lemma sample_tick:
  "en_sent (snd (safetyStep (\<lambda>_. Done) sample_late sample_config sample_provider sample_tx (sample_engine sample_safety)))
   = [(sample_tx, Forward, sample_plan), (sample_tx, Compensation, sample_rollback sample_late)]"
proof -
  obtain d where "saveSafety_tx (forth 30 sample_late) (sample_exec sample_tx)
     (dispatch_rollback (sample_rollback sample_late) (triggered (am_clock sample_late 0) (am_authority sample_late 0 sample_authority = Inr ())
        (sample_exec sample_tx) sample_safety)) (sample_journal sample_safety) = Inr ((), d)"
    using sample_intent_saved by blast
  then show ?thesis
    by (subst compensating_tick [where r = "sample_exec sample_tx" and q = "sample_exec sample_tx" and s = sample_safety and
        ?d1.0 = "sample_journal sample_safety" and plan = "sample_rollback sample_late"])
      (simp_all add: Terminal_safety_def sample_expired [folded sample_late_def] sample_rollback_def sample_observed load_def select_row_def)
qed

section \<open>The sample is confirmed\<close>

definition sample_early :: engine_ambient where
  "sample_early = sample_engine_source sample_clock"

definition sample_confirm :: decision_call where
  "sample_confirm = \<lparr>de_sequence = ''1'', de_decision = ''confirm'', de_check = Inr (), de_command = sample_api_command, de_writable = True\<rparr>"

definition sample_inner :: engine_ambient where
  "sample_inner = with_command ''management'' sample_api_command (new_id (forth 1 sample_early) 0) (later 1 (forth 1 sample_early))"

lemma sample_confirm_fields [simp]:
  "de_sequence sample_confirm = ''1''" "de_decision sample_confirm = ''confirm''" "de_check sample_confirm = Inr ()"
  "de_command sample_confirm = sample_api_command" "de_writable sample_confirm"
  by (simp_all add: sample_confirm_def)

lemma sample_inner_fields [simp]:
  "am_clock sample_inner n = sample_clock" "am_authority sample_inner n z = Inr ()" "am_job_bytes sample_inner j = 100"
  "am_record_bytes sample_inner q = 100" "am_exec_bytes sample_inner r = 100" "am_safe_bytes sample_inner s = 100"
  "am_now sample_inner n = sample_moment" "new_id sample_inner n = NewID (replicate 15 0 @ [of_nat (n + 2)])"
  "rq_Principal (am_request sample_inner) = sample_owner" "rq_Credential (am_request sample_inner) = ''''"
  "rq_Correlation (am_request sample_inner) = NewID (replicate 15 0 @ [1])" "rq_ID (am_request sample_inner) = sample_request_id"
  "rq_Domain (am_request sample_inner) = ''management''" "rq_Epoch (am_request sample_inner) = sample_owner"
  "rq_Capability (am_request sample_inner) = ''labels.write''"
  by (simp_all add: sample_inner_def sample_early_def with_command_def WithRequest_def later_def forth_def new_id_def mint_def
      sample_api_command_def add.commute)

lemma sample_inner_ids:
  "NewID (replicate 15 0 @ [1]) = ''00000000-0000-4000-8000-000000000001''"
  "NewID (replicate 15 0 @ [8]) = ''00000000-0000-4000-8000-000000000008''"
  "NewID (replicate 15 0 @ [10]) = ''00000000-0000-4000-8000-00000000000a''"
  "NewID (replicate 15 0 @ [43]) = ''00000000-0000-4000-8000-00000000002b''"
  by code_simp+

lemma sample_inner_valid [simp]:
  "ManagementID ''00000000-0000-4000-8000-000000000001''" "ManagementID ''00000000-0000-4000-8000-000000000008''"
  "ManagementID ''00000000-0000-4000-8000-00000000000a''" "ManagementID ''00000000-0000-4000-8000-00000000002b''"
  by (simp_all add: ManagementID_def UUID_def no_dash_def lower_def hex_val_def)

lemma sample_env_decide: "sample_env (forth 5 sample_inner)"
  by (simp add: sample_env_def sample_inner_ids optionalID_def)

lemma code_text_label [simp]: "code_text ''labels.write''"
  by (simp add: code_text_def alnum_def is_digit_def less_eq_char_def)

lemma sample_decision_filled:
  "fill_record (later 40 sample_inner) (decision_record ''confirm'' (sample_exec sample_tx)) =
   (decision_record ''confirm'' (sample_exec sample_tx))\<lparr>ev_Correlation := ''00000000-0000-4000-8000-000000000001'',
      ev_RequestID := sample_request_id, ev_RequestDomain := ''management'', ev_RequestEpoch := sample_owner,
      ev_Capability := ''labels.write'', ev_Actor := sample_owner, ev_ID := ''00000000-0000-4000-8000-00000000002b'',
      ev_Created := sample_moment\<rparr>"
proof -
  have "am_request (later 40 sample_inner) = am_request sample_inner" "am_now (later 40 sample_inner) 0 = sample_moment"
    by (simp_all add: later_def)
  moreover have "new_id (later 40 sample_inner) 1 = new_id sample_inner 41" by (simp add: new_id_def later_def mint_def)
  ultimately show ?thesis
    by (simp add: fill_record_def Let_def decision_record_def audit_record_def sample_inner_ids)
qed

lemma sample_decision_fits:
  assumes "db_records d = [(''00000000-0000-4000-8000-000000000008'', q1), (''00000000-0000-4000-8000-00000000000a'', q2)]"
  shows "record_fits (later 40 sample_inner) (decision_record ''confirm'' (sample_exec sample_tx)) d"
proof -
  have bytes: "am_record_bytes (later 40 sample_inner) = am_record_bytes sample_inner" by (simp add: later_def)
  have "record_valid (fill_record (later 40 sample_inner) (decision_record ''confirm'' (sample_exec sample_tx)))"
    unfolding sample_decision_filled
    by (simp add: decision_record_def audit_record_def record_valid_def sample_refs validRef_def validRelated_def optionalID_def
        optionalRequest_def transaction_ref_def)
  then show ?thesis
    unfolding record_fits_def Let_def
    by (simp add: sample_decision_filled bytes assms)
      (simp add: decision_record_def audit_record_def record_limit_def evidence_limits)
qed

lemma sample_unexpired: "\<not> Expired (NewDeadline sample_clock (seconds 120)) sample_clock"
  by (simp add: Expired_def NewDeadline_def sample_clock_def seconds_def int64_def)

lemma sample_decide_tx:
  "\<exists>d. decide_tx sample_tx sample_confirm (sample_exec sample_tx) sample_safety sample_applied_outcome sample_inner (sample_journal sample_safety)
     = Inr (accepted sample_tx sample_job_id True, d)"
proof -
  let ?s = "sample_safety\<lparr>sf_State := ''confirmed'', sf_Reason := ''connectivity-confirmed'', sf_HealthyAt := Some (ck_Wall sample_clock)\<rparr>"
  let ?d = "sample_journal sample_safety" and ?e = "decision_record ''confirm'' (sample_exec sample_tx)"
  obtain d1 q1 q2 where up: "updateSafety (forth 5 sample_inner) (sample_exec sample_tx) ?s ?d = Inr ((), d1)"
    and records: "db_records d1 = [(new_id (forth 5 sample_inner) 1, q1), (new_id (forth 5 sample_inner) 3, q2)]"
    using sample_update [OF sample_env_decide refl _ _ refl, of ?s sample_safety] by auto
  have "record_fits (later 40 sample_inner) ?e d1"
    using records by (intro sample_decision_fits) (simp add: sample_inner_ids)
  from Append_fits [OF this] obtain y d2 where app: "Append (later 40 sample_inner) ?e d1 = Inr (y, d2)" by blast
  have same: "(sample_exec sample_tx)\<lparr>x_Outcome := sample_applied_outcome,
      x_State := stateFor sample_moment (sample_exec sample_tx) sample_applied_outcome\<rparr> = sample_exec sample_tx"
    by (simp add: stateFor_def sample_exec_def)
  have "ck_Wall sample_clock = sample_moment" by (simp add: sample_clock_def)
  then show ?thesis
    using up app same sample_unexpired by (simp add: decide_tx_def load_def select_row_def)
qed

lemma ChangeJob_no_receipts:
  assumes "ChangeJob a x expected t now d = Inr (k, d')" and "jobs_wf d" and "db_receipts d = []"
  shows "db_receipts d' = []"
proof -
  obtain y where "Append a (job_event ''job-state-changed'' True now k) (settle_receipts k now
       (d\<lparr>db_revision := db_revision d + 1, db_jobs := update_row x k (db_jobs d)\<rparr>)) = Inr (y, d')"
    using ChangeJob_Inr [OF assms(1) jobs_wf_ids [OF assms(2)]] by metis
  from Append_frame(3) [OF this] show ?thesis by (simp add: assms(3) settle_receipts_def completeReceipts_def)
qed

lemma updateSafety_no_receipts:
  assumes "updateSafety a r s d = Inr (u, d')" and "tables_wf d" and "db_receipts d = []"
  shows "db_receipts d' = []"
proof -
  obtain r' n job now k d1 y where job: "ChangeJob a (j_ID job) (j_Sequence job) (safe_phase job r' s) now (write_safety r' s n d) = Inr (k, d1)"
    and app: "Append (later 2 a) (safety_record r' s) (close_safety r' s d1) = Inr (y, d')"
    using assms(1) unfolding updateSafety_def Let_def by (elim then_doE) (auto elim!: then_doE split: if_splits)
  have wf: "jobs_wf (write_safety r' s n d)" by (rule tables_wf_jobs [OF grownD(1) [OF grown_helpers(5) assms(2)]])
  have "db_receipts (write_safety r' s n d) = []" using assms(3) by (simp add: write_safety_def set_safety_def split: option.splits)
  then have "db_receipts d1 = []" by (rule ChangeJob_no_receipts [OF job wf])
  then show ?thesis
    using Append_frame(3) [OF app] by (simp add: close_safety_def checkpoint_def settle_fields_def unprotect_def RetirePending_def)
qed

lemma decide_tx_no_receipts:
  assumes "decide_tx x v r s oc a d = Inr (m, d')" and "tables_wf d" and "db_receipts d = []"
  shows "db_receipts d' = []"
proof -
  obtain q t d1 y where "updateSafety (forth 5 a) q t d = Inr ((), d1)"
    and "Append (later 40 a) (decision_record (de_decision v) r) d1 = Inr (y, d')"
    using assms(1) unfolding decide_tx_def
    by (elim then_doE) (simp split: if_split_asm, auto elim!: then_doE simp: Let_def)
  then show ?thesis using updateSafety_no_receipts [OF _ assms(2,3)] Append_frame(3) by metis
qed

lemma sample_guard: "admit_guard ''management'' sample_api_command 1720671272960 sample_moment (sample_journal doc) = Inr ()"
  by (simp add: admit_guard_def sample_api_command_def key_expired_def seconds_def UnixMilli_def MaxReceipts_def evidence_limits
      ControlOperation_def sample_moment_def)

lemma sample_decide_execute:
  assumes "decide_tx sample_tx sample_confirm (sample_exec sample_tx) sample_safety sample_applied_outcome sample_inner (sample_journal sample_safety)
     = Inr (m, d)" and "response_ok ''management'' m d = Inr ()" and "db_receipts d = []"
  shows "db_safes (snd (Execute Done (forth 1 sample_early) ''management'' sample_api_command (Inr ()) (\<lambda>_. Inr ())
     (decide_tx sample_tx sample_confirm (sample_exec sample_tx) sample_safety sample_applied_outcome) (sample_journal sample_safety))) = db_safes d"
proof -
  obtain digest where finger: "fingerprint (forth 1 sample_early) sample_api_command = Inr digest"
    by (simp add: fingerprint_def sample_api_command_def canonical_number_def trim_sign_def cut_at_def Let_def)
  have c: "ac_ID sample_api_command = sample_request_id" "ac_Principal sample_api_command = sample_owner"
    "ac_Epoch sample_api_command = sample_owner" "ac_Domain sample_api_command = ''management''" "ac_Operation sample_api_command \<noteq> ''''"
    "length (ac_URI sample_api_command) \<le> 4096" "ValidDocument (ac_Payload sample_api_command) (ac_PayloadBytes sample_api_command)"
    by (simp_all add: sample_api_command_def ValidDocument_def)
  have now: "am_now (forth 1 sample_early) 0 = sample_moment" by (simp add: sample_early_def)
  have none: "find_receipt sample_api_command (sample_journal sample_safety) = None" "find_receipt sample_api_command d = None"
    by (simp_all add: find_receipt_def assms(3))
  have "execute_tx (forth 1 sample_early) ''management'' sample_api_command digest 1720671272960 (\<lambda>_. Inr ())
     (decide_tx sample_tx sample_confirm (sample_exec sample_tx) sample_safety sample_applied_outcome) (sample_journal sample_safety) =
     record_receipt sample_api_command digest sample_moment m (new_id (forth 1 sample_early) 0) d"
    unfolding execute_tx_def Let_def now none sample_inner_def [symmetric] assms(1) by (simp add: sample_guard assms(2))
  then show ?thesis
    using c none unfolding Execute_def
    by (simp add: sample_request_time finger [simplified] record_receipt_def store_write_def)
qed

lemma sample_confirms:
  "confirmed (en_db (snd (Decide Done sample_early (Some sample_config) sample_provider sample_tx sample_confirm (sample_engine sample_safety)))) sample_tx"
proof -
  let ?d = "sample_journal sample_safety"
  have wf: "journal_wf ?d" "tables_wf ?d" using sample_wf by (simp_all add: engine_wf_def journal_wf_def)
  obtain d where tx: "decide_tx sample_tx sample_confirm (sample_exec sample_tx) sample_safety sample_applied_outcome sample_inner ?d
     = Inr (accepted sample_tx sample_job_id True, d)" using sample_decide_tx by blast
  have row: "confirmed d sample_tx"
    using tx wf(1)
    by (rule decide_tx_effect [where row = "sample_row sample_safety"])
      (auto simp: load_def select_row_def Terminal_safety_def confirmed_def)
  have receipts: "db_receipts d = []" by (rule decide_tx_no_receipts [OF tx wf(2)]) simp
  have "evidence_le ?d d" by (rule grownD(2) [OF decide_tx_grown [OF tx] wf(2)])
  then obtain k where "map_of (db_jobs d) sample_job_id = Some k"
    unfolding evidence_le_def by (metis sample_tables_fields(1) map_of_Cons_code(2) map_of_eq_Some_iff)
  then have ok: "response_ok ''management'' (accepted sample_tx sample_job_id True) d = Inr ()"
    by (simp add: response_ok_def accepted_def transaction_ref_def)
  note safes = sample_decide_execute [OF tx ok receipts]
  have replay: "Replay sample_early sample_api_command (Inr ()) ?d = Inr None"
    by (simp add: Replay_def find_receipt_def fingerprint_def sample_api_command_def canonical_number_def trim_sign_def cut_at_def Let_def)
  have "confirm_ready sample_early sample_config sample_safety"
    by (simp add: confirm_ready_def sample_early_def sample_unexpired)
  moreover have "am_probe sample_early 0" by (simp add: sample_early_def)
  ultimately show ?thesis
    using row safes replay
    by (simp add: Decide_def claim_def decide_db_def Let_def Terminal_safety_def release_def confirmed_def case_prod_unfold)
qed

section \<open>A tick that returns to the open window\<close>

text \<open>An apply that is held, with no compensation dispatched, an open window, current authority, an applied
  observation and a reachable management path.\<close>

definition back_to_health :: "engine_ambient \<Rightarrow> engine_config \<Rightarrow> provider \<Rightarrow> Execution \<Rightarrow> Safety \<Rightarrow> bool" where
  "back_to_health a g p r s \<longleftrightarrow> sf_State s = ''recovery-required'' \<and> sf_Rollback s = None \<and> sf_Domain s = ec_Domain g \<and>
     x_State r = ''succeeded'' \<and> oc_Commit (pv_Observe p (x_Plan r) (x_Outcome r)) = ''committed'' \<and>
     oc_Applied (pv_Observe p (x_Plan r) (x_Outcome r)) = ''applied'' \<and> \<not> must_compensate a r s \<and> am_probe a 0"

lemma healthy_step_db:
  assumes "journal_wf d" and "readSafety x d = Inr (r, s)" and "back_to_health a g p r s" and "f 2 = Done"
  shows "safety_step_db f a g p x d = (case saveSafety (f 0) (forth 30 a) r (healthy a g (am_clock a 0) s) d of (res, d) \<Rightarrow> (res, d, []))"
proof -
  note id = readSafetyD [OF assms(2)]
  note h = assms(3) [unfolded back_to_health_def]
  have skip: "saveOutcome (f 2) (forth 100 a) x oc d = (Inr (), d)" for oc
    by (simp only: assms(4)) (rule saveOutcome_terminal [OF id(1)], use h in \<open>simp add: terminal_def\<close>)
  have "oc_Commit (x_Outcome r) \<noteq> ''rejected''" using journal_wfD(4) [OF assms(1) id(3)] h by (auto simp: exec_ok_def)
  then have "safety_step_db f a g p x d = watch_committed f a g p r s (pv_Observe p (x_Plan r) (x_Outcome r)) d"
    using h id assms(2) skip by (simp add: Read_execution_def safety_step_db_def Let_def Terminal_safety_def)
  also have "\<dots> = (case saveSafety (f 0) (forth 30 a) r (healthy a g (am_clock a 0) s) d of (res, d) \<Rightarrow> (res, d, []))"
    using h by (simp add: watch_committed_def Let_def must_compensate_def)
  finally show ?thesis .
qed

lemma healthy_tick:
  assumes "engine_wf e" and "readSafety x (en_db e) = Inr (r, s)" and "back_to_health a g p r s" and "x \<notin> set (en_active e)" and "f 2 = Done"
    and "safetyStep f a g p x e = (Inr (), e')"
  shows "en_sent e' = en_sent e" and "\<exists>row. map_of (db_safes (en_db e')) x = Some row \<and> sr_Doc row = healthy a g (am_clock a 0) s"
proof -
  note id = readSafetyD [OF assms(2)]
  note h = assms(3) [unfolded back_to_health_def]
  have wf: "journal_wf (en_db e)" using assms(1) by (simp add: engine_wf_def)
  let ?s = "healthy a g (am_clock a 0) s"
  obtain res d where save: "saveSafety (f 0) (forth 30 a) r ?s (en_db e) = (res, d)" by fastforce
  have e': "e' = release x (e\<lparr>en_active := x # en_active e, en_db := d, en_sent := en_sent e @ []\<rparr>)" "res = Inr ()"
    using assms(4,6) healthy_step_db [where f = f, OF wf assms(2,3,5)] save by (simp_all add: safetyStep_def claim_def)
  then show "en_sent e' = en_sent e" by (simp add: release_def)
  obtain row where row: "map_of (db_safes (en_db e)) x = Some row" "sr_Doc row = s" using id(5) by blast
  have next_doc: "safe_next r (sr_Doc row) ?s"
    unfolding row(2) by (rule healthy_next) (use h in \<open>simp_all add: safe_le_def Terminal_safety_def\<close>)
  have open_doc: "\<not> Terminal_safety (sf_State (sr_Doc row))" using h row(2) by (simp add: Terminal_safety_def)
  have "map_of (db_safes d) x = Some (row\<lparr>sr_Doc := ?s\<rparr>)"
    by (rule saveSafety_change [OF save wf id(3) row(1) open_doc next_doc]) (use e'(2) in simp_all)
  then show "\<exists>row. map_of (db_safes (en_db e')) x = Some row \<and> sr_Doc row = ?s" using e'(1) by (auto simp: release_def)
qed

section \<open>Recovery settles\<close>

text \<open>An observation that decides: rejected, or committed and applied.\<close>

definition decisive :: "Outcome \<Rightarrow> bool" where
  "decisive oc \<longleftrightarrow> oc_Commit oc = ''rejected'' \<or> (oc_Commit oc = ''committed'' \<and> oc_Applied oc = ''applied'')"

definition open_executions :: "journal_db \<Rightarrow> string set" where
  "open_executions d = {x. \<exists>r. map_of (db_execs d) x = Some r \<and> \<not> terminal r \<and> \<not> safe_terminal x d}"

lemma stateFor_decisive: "decisive oc \<Longrightarrow> stateFor now r oc \<in> {''succeeded'', ''failed''}"
  by (auto simp: decisive_def stateFor_def)

lemma saveOutcome_settles:
  assumes "saveOutcome f a x oc d = (Inr (), d')" and "journal_wf d" and "load x d = Inr r" and "decisive oc"
  shows "x \<notin> open_executions d'"
proof -
  obtain q where q: "map_of (db_execs d') x = Some q"
    "if terminal r \<or> safe_terminal x d then q = r else x_State q = stateFor (am_now a 0) r oc"
    using saveOutcome_result(3) [OF assms(1,2) refl assms(3)] by blast
  have "safe_terminal x d' = safe_terminal x d" using saveOutcome_result(2) [OF assms(1,2)] by (simp add: safe_terminal_def)
  then show ?thesis
    using q stateFor_decisive [OF assms(4), of "am_now a 0" r] by (auto simp: open_executions_def terminal_def split: if_splits)
qed

lemma reconcile_db_settles:
  assumes "reconcile_db f a p x d = (Inr (), d')" and "journal_wf d" and "\<forall>plan oc. decisive (pv_Observe p plan oc)"
  shows "open_executions d' \<subseteq> open_executions d - {x}"
proof -
  obtain r where r: "load x d = Inr r" using assms(1) by (cases "Read_execution x d") (simp_all add: reconcile_db_def)
  have "x \<notin> open_executions d'"
  proof (cases "terminal r")
    case True
    then have "d' = d" using assms(1) r by (simp add: Read_execution_def reconcile_db_def)
    then show ?thesis using True load_Inr [OF r] by (auto simp: open_executions_def)
  next
    case False
    then obtain oc where "saveOutcome f a x oc d = (Inr (), d')" "decisive oc"
      using assms(1,3) r by (auto simp: Read_execution_def reconcile_db_def decisive_def plain_outcome_def split: if_splits)
    then show ?thesis by (rule saveOutcome_settles [OF _ assms(2) r])
  qed
  moreover have "y \<in> open_executions d" if "y \<in> open_executions d'" "y \<noteq> x" for y
    using that watch_other [OF watch_run(5) [OF reconcile_run [OF assms(1,2)] assms(2)] that(2)]
    by (simp add: open_executions_def safe_terminal_def)
  ultimately show ?thesis by blast
qed

lemma Reconcile_settles:
  assumes "Reconcile f a p x e = (Inr (), e')" and "engine_wf e" and "\<forall>plan oc. decisive (pv_Observe p plan oc)"
  shows "open_executions (en_db e') - set (en_active e) \<subseteq> open_executions (en_db e) - set (en_active e) - {x}"
    and "set (en_active e') = set (en_active e)" and "en_sent e' = en_sent e"
proof -
  have wf: "journal_wf (en_db e)" using assms(2) by (simp add: engine_wf_def)
  have "open_executions (en_db e') - set (en_active e) \<subseteq> open_executions (en_db e) - set (en_active e) - {x} \<and>
      set (en_active e') = set (en_active e) \<and> en_sent e' = en_sent e"
  proof (cases "x \<in> set (en_active e)")
    case False
    obtain d where d: "reconcile_db f a p x (en_db e) = (Inr (), d)" "e' = release x (e\<lparr>en_active := x # en_active e, en_db := d\<rparr>)"
      using assms(1) False by (auto simp: Reconcile_def claim_def split: prod.splits)
    then show ?thesis using reconcile_db_settles [OF d(1) wf assms(3)] False by (auto simp: release_def)
  qed (use assms(1) in \<open>auto simp: Reconcile_def claim_def\<close>)
  then show "open_executions (en_db e') - set (en_active e) \<subseteq> open_executions (en_db e) - set (en_active e) - {x}"
    "set (en_active e') = set (en_active e)" "en_sent e' = en_sent e" by blast+
qed

lemma reconcile_all_settles:
  assumes "reconcile_all f a p n xs e = (Inr (), e')" and "engine_wf e" and "\<forall>n plan oc. decisive (pv_Observe (p n) plan oc)"
  shows "open_executions (en_db e') - set (en_active e) \<subseteq> open_executions (en_db e) - set (en_active e) - set xs \<and> en_sent e' = en_sent e"
  using assms(1,2)
proof (induction xs arbitrary: n e)
  case (Cons x xs)
  obtain e1 where e1: "Reconcile (f n) (a n) (p n) x e = (Inr (), e1)" "reconcile_all f a p (n + 1) xs e1 = (Inr (), e')"
    using Cons.prems(1) by (auto split: prod.splits sum.splits if_splits)
  have "engine_wf e1" using Reconcile_good(1) [OF e1(1) Cons.prems(2)] by (simp add: good_step_def)
  note rest = Cons.IH [OF e1(2) this]
  have "\<forall>plan oc. decisive (pv_Observe (p n) plan oc)" using assms(3) by blast
  note one = Reconcile_settles [OF e1(1) Cons.prems(2) this]
  show ?case using one rest by auto
qed auto

lemma open_recoverable:
  assumes "journal_wf d"
  shows "set (recoverable d) = open_executions d" and "length (recoverable d) \<le> MaxUnsettled"
proof -
  have few: "length (filter (unsettled d) (db_execs d)) \<le> MaxUnsettled" by (rule journal_wfD(9) [OF assms])
  then have "recoverable d = map fst (sort_key (\<lambda>(x, r). (UnixMilli (x_Updated r), x)) (filter (unsettled d) (db_execs d)))"
    by (simp add: recoverable_def)
  then show "set (recoverable d) = open_executions d" "length (recoverable d) \<le> MaxUnsettled"
    using few journal_wfD(2) [OF assms]
    by (auto simp: open_executions_def unsettled_def image_iff map_of_eq_Some_iff; force)+
qed

lemma Recover_settles:
  assumes "Recover cancelled f a p e = (Inr (), e')" and "engine_wf e" and "\<forall>n plan oc. decisive (pv_Observe (p n) plan oc)"
  shows "open_executions (en_db e') \<subseteq> set (en_active e)" and "en_sent e' = en_sent e"
proof -
  have wf: "journal_wf (en_db e)" using assms(2) by (simp add: engine_wf_def)
  have "reconcile_all f a p 0 (recoverable (en_db e)) e = (Inr (), e')"
    using assms(1) by (auto simp: Recover_def Let_def split: if_splits prod.splits sum.splits)
  from reconcile_all_settles [OF this assms(2,3)] open_recoverable(1) [OF wf]
  show "open_executions (en_db e') \<subseteq> set (en_active e)" "en_sent e' = en_sent e" by auto
qed

end
