(* ===== verification/Engine_Lifecycle.thy ===== *)
theory Engine_Lifecycle
  imports Engine_Ticks
begin

text \<open>
  The lifecycle of a transaction as an abstract automaton, the simulation of the engine by it, and the
  properties of the engine's runs.
\<close>

section \<open>The lifecycle\<close>

datatype phase = Absent | Queued | Sent | Succeeded | Failed
  | Armed | Watching | Awaiting | Compensating | Confirmed | RolledBack | NotCommitted

inductive phase_step :: "phase \<Rightarrow> phase \<Rightarrow> bool" where
  "phase_step Absent Queued"
| "phase_step Queued Sent"
| "phase_step Sent Succeeded"
| "phase_step Sent Failed"
| "phase_step Absent Armed"
| "phase_step Armed Watching"
| "phase_step Watching Awaiting"
| "phase_step Awaiting Watching"
| "phase_step Awaiting Confirmed"
| "phase_step Watching Compensating"
| "phase_step Awaiting Compensating"
| "phase_step Compensating RolledBack"
| "phase_step Watching NotCommitted"

inductive_simps phase_step_from [simp]: "phase_step p q"

definition plain_phase :: "Execution \<Rightarrow> phase" where
  "plain_phase r = (if x_State r = ''admitted'' then Queued else if x_State r = ''succeeded'' then Succeeded
     else if x_State r = ''failed'' then Failed else Sent)"

definition safe_phase_of :: "Execution \<Rightarrow> Safety \<Rightarrow> phase" where
  "safe_phase_of r s = (if sf_State s = ''confirmed'' then Confirmed else if sf_State s = ''rolled-back'' then RolledBack
     else if sf_State s = ''not-committed'' then NotCommitted else if sf_Rollback s \<noteq> None then Compensating
     else if sf_State s = ''awaiting-confirmation'' then Awaiting else if x_State r = ''admitted'' then Armed else Watching)"

definition phase :: "journal_db \<Rightarrow> string \<Rightarrow> phase" where
  "phase d x = (case map_of (db_execs d) x of None \<Rightarrow> Absent
     | Some r \<Rightarrow> (case map_of (db_safes d) x of None \<Rightarrow> plain_phase r | Some row \<Rightarrow> safe_phase_of r (sr_Doc row)))"

lemma phase_cong:
  "map_of (db_execs e) x = map_of (db_execs d) x \<Longrightarrow> map_of (db_safes e) x = map_of (db_safes d) x \<Longrightarrow> phase e x = phase d x"
  by (auto simp: phase_def split: option.splits)

lemma phase_paths [simp]:
  "phase_step\<^sup>*\<^sup>* Queued Sent" "phase_step\<^sup>*\<^sup>* Queued Succeeded" "phase_step\<^sup>*\<^sup>* Queued Failed" "phase_step\<^sup>*\<^sup>* Sent Succeeded"
  "phase_step\<^sup>*\<^sup>* Sent Failed" "phase_step\<^sup>*\<^sup>* Armed Watching" "phase_step\<^sup>*\<^sup>* Armed Awaiting" "phase_step\<^sup>*\<^sup>* Armed Compensating"
  "phase_step\<^sup>*\<^sup>* Armed RolledBack" "phase_step\<^sup>*\<^sup>* Armed NotCommitted" "phase_step\<^sup>*\<^sup>* Watching Awaiting"
  "phase_step\<^sup>*\<^sup>* Watching Compensating" "phase_step\<^sup>*\<^sup>* Watching RolledBack" "phase_step\<^sup>*\<^sup>* Watching NotCommitted"
  "phase_step\<^sup>*\<^sup>* Awaiting Watching" "phase_step\<^sup>*\<^sup>* Awaiting Confirmed" "phase_step\<^sup>*\<^sup>* Awaiting Compensating"
  "phase_step\<^sup>*\<^sup>* Awaiting RolledBack" "phase_step\<^sup>*\<^sup>* Awaiting NotCommitted" "phase_step\<^sup>*\<^sup>* Compensating RolledBack"
  "phase_step\<^sup>*\<^sup>* Absent Queued" "phase_step\<^sup>*\<^sup>* Absent Armed"
proof -
  have hop: "phase_step\<^sup>*\<^sup>* p r" if "phase_step p q" "phase_step\<^sup>*\<^sup>* q r" for p q r
    using that by (rule converse_rtranclp_into_rtranclp)
  show 1: "phase_step\<^sup>*\<^sup>* Sent Succeeded" "phase_step\<^sup>*\<^sup>* Sent Failed" "phase_step\<^sup>*\<^sup>* Queued Sent" "phase_step\<^sup>*\<^sup>* Armed Watching"
    "phase_step\<^sup>*\<^sup>* Watching Awaiting" "phase_step\<^sup>*\<^sup>* Watching Compensating" "phase_step\<^sup>*\<^sup>* Watching NotCommitted"
    "phase_step\<^sup>*\<^sup>* Awaiting Watching" "phase_step\<^sup>*\<^sup>* Awaiting Confirmed" "phase_step\<^sup>*\<^sup>* Awaiting Compensating"
    "phase_step\<^sup>*\<^sup>* Compensating RolledBack" "phase_step\<^sup>*\<^sup>* Absent Queued" "phase_step\<^sup>*\<^sup>* Absent Armed"
    by (rule r_into_rtranclp; simp)+
  show "phase_step\<^sup>*\<^sup>* Queued Succeeded" "phase_step\<^sup>*\<^sup>* Queued Failed" by (rule hop [of _ Sent]; simp add: 1)+
  show 2: "phase_step\<^sup>*\<^sup>* Watching RolledBack" by (rule hop [of _ Compensating]) (simp_all add: 1)
  show "phase_step\<^sup>*\<^sup>* Awaiting RolledBack" "phase_step\<^sup>*\<^sup>* Awaiting NotCommitted"
    by (rule hop [of _ Watching]; simp add: 1 2)+
  show "phase_step\<^sup>*\<^sup>* Armed Awaiting" "phase_step\<^sup>*\<^sup>* Armed Compensating" "phase_step\<^sup>*\<^sup>* Armed RolledBack" "phase_step\<^sup>*\<^sup>* Armed NotCommitted"
    by (rule hop [of _ Watching]; simp add: 1 2)+
qed

text \<open>One write moves a transaction along the automaton and no other one.\<close>

lemma plain_phase_path:
  assumes "exec_le r q" and "\<not> terminal r"
  shows "phase_step\<^sup>*\<^sup>* (plain_phase r) (plain_phase q)"
  using assms by (auto simp: plain_phase_def exec_le_def terminal_def)

lemma safe_phase_path:
  assumes "exec_le r q" and "safe_le s t" and "safe_ok r s" and "safe_ok q t" and "\<not> Terminal_safety (sf_State s)"
    and "sf_State t = ''confirmed'' \<longrightarrow> sf_State s = ''awaiting-confirmation''"
  shows "phase_step\<^sup>*\<^sup>* (safe_phase_of r s) (safe_phase_of q t)"
proof (cases "sf_Rollback s")
  case (Some p)
  then have "sf_Rollback t = Some p" "compensating (sf_State t)" using assms(2,4) by (auto simp: safe_le_def safe_ok_def)
  then show ?thesis using Some assms(5) by (auto simp: safe_phase_of_def Terminal_safety_def compensating_def)
next
  case None
  have r: "sf_State s \<noteq> ''confirmed''" "sf_State s \<noteq> ''rolled-back''" "sf_State s \<noteq> ''not-committed''"
    using assms(5) by (auto simp: Terminal_safety_def)
  have awaiting: "x_State q \<noteq> ''admitted''" if "sf_State s = ''awaiting-confirmation''"
    using that assms(1,3) by (auto simp: safe_ok_def exec_le_def)
  show ?thesis
    using None r awaiting assms(1,6) by (auto simp: safe_phase_of_def exec_le_def)
qed

lemma change_phase:
  assumes "journal_change x d e" and "journal_wf d"
  shows "phase_step\<^sup>*\<^sup>* (phase d y) (phase e y)"
proof (cases "y = x")
  case True
  obtain r q where r: "\<not> settled d x" "map_of (db_execs d) x = Some r" "exec_le r q" "db_execs e = update_row x q (db_execs d)"
    "safe_change d x q e"
    using journal_changeE [OF assms(1)] by metis
  have q: "map_of (db_execs e) x = Some q" using r(2,4) by (simp add: map_of_update_row)
  show ?thesis
  proof (cases "map_of (db_safes d) x")
    case None
    then have "\<not> terminal r" using r(1,2) by (simp add: settled_def)
    then show ?thesis
      using plain_phase_path [OF r(3)] None safe_change_rows(2) [OF r(5) None] r(2) q True by (simp add: phase_def)
  next
    case (Some row)
    obtain t where t: "map_of (db_safes e) x = Some (row\<lparr>sr_Doc := t\<rparr>)" "safe_le (sr_Doc row) t" "safe_ok q t"
      "sf_State t = ''confirmed'' \<longrightarrow> sf_State (sr_Doc row) = ''awaiting-confirmation''"
      using safe_change_rows(3) [OF r(5) Some] by blast
    have "safe_ok r (sr_Doc row)" using journal_wfD(5) [OF assms(2) Some] r(2) by auto
    moreover have "\<not> Terminal_safety (sf_State (sr_Doc row))" using r(1) Some by (simp add: settled_def)
    ultimately have "phase_step\<^sup>*\<^sup>* (safe_phase_of r (sr_Doc row)) (safe_phase_of q t)"
      by (rule safe_phase_path [OF r(3) t(2) _ t(3) _ t(4)])
    then show ?thesis using Some t(1) r(2) q True by (simp add: phase_def)
  qed
next
  case False
  then show ?thesis using phase_cong [OF journal_change_other(1,2) [OF assms(1) False]] by simp
qed

lemma admit_phase:
  assumes "journal_admit x d e" and "journal_wf d"
  shows "phase_step\<^sup>*\<^sup>* (phase d y) (phase e y)"
proof (cases "y = x")
  case True
  obtain r where r: "map_of (db_execs d) x = None" "map_of (db_safes d) x = None" "map_of (db_execs e) x = Some r" "x_State r = ''admitted''"
    and s: "db_safes e = db_safes d \<or> (\<exists>row. db_safes e = db_safes d @ [(x, row)] \<and> admitted_doc (sf_Domain (sr_Doc row)) (sr_Doc row))"
    using journal_admitE [OF assms] by metis
  have "phase e x = Queued \<or> phase e x = Armed"
    using s r by (auto simp: phase_def plain_phase_def safe_phase_of_def admitted_doc_def map_of_snoc simp del: map_of_append)
  then show ?thesis using r(1) True by (auto simp: phase_def)
next
  case False
  then show ?thesis using phase_cong [OF journal_admit_other(1,2) [OF assms False]] by simp
qed

lemma journal_steps_phase:
  assumes "journal_step\<^sup>*\<^sup>* d e" and "journal_wf d"
  shows "phase_step\<^sup>*\<^sup>* (phase d y) (phase e y)"
  using assms
proof (induction rule: rtranclp_induct)
  case (step e f)
  have "journal_wf e" by (rule journal_steps(1) [OF step(1,4)])
  then have "phase_step\<^sup>*\<^sup>* (phase e y) (phase f y)"
    using step(2) change_phase admit_phase unfolding journal_step_def by blast
  then show ?case using step by (meson rtranclp_trans)
qed simp


lemma logged_phase:
  assumes "log_ok d sent" and "journal_wf d"
  shows "(x, Forward, p) \<in> set sent \<Longrightarrow> phase d x \<notin> {Absent, Queued, Armed}"
    and "(x, Compensation, p) \<in> set sent \<Longrightarrow> phase d x \<in> {Compensating, RolledBack}"
proof -
  show "phase d x \<notin> {Absent, Queued, Armed}" if "(x, Forward, p) \<in> set sent"
    using log_okD(2) [OF assms(1) that] by (auto simp: phase_def plain_phase_def safe_phase_of_def split: option.splits)
  show "phase d x \<in> {Compensating, RolledBack}" if sent: "(x, Compensation, p) \<in> set sent"
  proof -
    obtain row where row: "map_of (db_safes d) x = Some row" "sf_Rollback (sr_Doc row) = Some p"
      using log_okD(3) [OF assms(1) sent] by blast
    obtain r where "map_of (db_execs d) x = Some r" "safe_ok r (sr_Doc row)" using journal_wfD(5) [OF assms(2) row(1)] by blast
    then show ?thesis using row by (auto simp: phase_def safe_phase_of_def safe_ok_def compensating_def)
  qed
qed

lemma perform_confirms:
  assumes "possible c e" and "engine_wf e" and "confirmed (en_db (perform c e)) x"
  shows "confirmed (en_db e) x \<or> (\<exists>f a g p v. c = Decision f a (Some g) p x v \<and> decided a g p x v (en_db e))"
proof (cases c)
  case Submission
  then show ?thesis using submit_good(2) [OF surjective_pairing assms(2)] assms(3) by simp
next
  case (Work f a p v w)
  then show ?thesis using work_good(2) [OF _ assms(2) refl] assms(1,3) by simp
next
  case Reconciliation
  then show ?thesis using Reconcile_good(2) [OF surjective_pairing assms(2)] assms(3) by simp
next
  case Tick
  then show ?thesis using safetyStep_good(2) [OF surjective_pairing assms(2)] assms(3) by simp
next
  case (Decision f a go p y v)
  then have "confirmed (en_db (snd (Decide f a go p y v e))) x" using assms(3) by simp
  from Decide_good(2) [OF surjective_pairing assms(2) this] Decision show ?thesis by blast
next
  case Restart
  then show ?thesis using assms(3) by simp
qed

section \<open>Properties of the runs\<close>

text \<open>C1. A transaction is sent at most once in each direction, across workers, recovery, watchdog ticks, lost
  acknowledgements and restarts: the log of the plans that a provider was permitted to send never
  repeats a transaction and direction, every forward entry is the journalled plan of a transaction that
  is no longer merely admitted, and every compensation entry is the rollback plan that is durable in its
  safe apply.\<close>

theorem dispatched_at_most_once:
  assumes "engine_wf e0" and "engine_step\<^sup>*\<^sup>* e0 e"
  shows "distinct (map (\<lambda>(x, dir, p). (x, dir)) (en_sent e)) \<and>
    (\<forall>x p. (x, Forward, p) \<in> set (en_sent e) \<longrightarrow>
       (\<exists>r. map_of (db_execs (en_db e)) x = Some r \<and> x_Plan r = p \<and> x_State r \<noteq> ''admitted'')) \<and>
    (\<forall>x p. (x, Compensation, p) \<in> set (en_sent e) \<longrightarrow>
       (\<exists>row. map_of (db_safes (en_db e)) x = Some row \<and> sf_Rollback (sr_Doc row) = Some p))"
  using engine_runs_good(1) [OF assms(2,1)] unfolding engine_wf_def log_ok_def by blast

text \<open>C2. Every step of the engine is a path of the transaction lifecycle, for every transaction: in
  particular a compensating transaction is never confirmed, a confirmation comes from the awaiting phase
  only, and nothing leaves a settled phase. A transaction with a sent forward plan has left the phases
  before dispatch, one with a sent compensation is compensating or rolled back.\<close>

theorem engine_refines_lifecycle:
  assumes "engine_wf e" and "engine_step e e'"
  shows "phase_step\<^sup>*\<^sup>* (phase (en_db e) x) (phase (en_db e') x) \<and>
    ((x, Forward, p) \<in> set (en_sent e') \<longrightarrow> phase (en_db e') x \<notin> {Absent, Queued, Armed}) \<and>
    ((x, Compensation, p) \<in> set (en_sent e') \<longrightarrow> phase (en_db e') x \<in> {Compensating, RolledBack})"
proof -
  have g: "good_step e e'" by (rule engine_step_good [OF assms(2,1)])
  then have "log_ok (en_db e') (en_sent e')" "journal_wf (en_db e')" by (simp_all add: good_step_def engine_wf_def)
  moreover have "phase_step\<^sup>*\<^sup>* (phase (en_db e) x) (phase (en_db e') x)"
    using g assms(1) by (intro journal_steps_phase) (simp_all add: good_step_def engine_wf_def)
  ultimately show ?thesis using logged_phase by blast
qed

text \<open>C17. A settled transaction is final: whatever the engine does afterwards, its execution row and its
  safe-apply row are unchanged, it stays settled and it holds no protected resource.\<close>

theorem settled_is_final:
  assumes "engine_wf e" and "engine_step\<^sup>*\<^sup>* e e'" and "settled (en_db e) x"
  shows "map_of (db_execs (en_db e')) x = map_of (db_execs (en_db e)) x \<and>
    map_of (db_safes (en_db e')) x = map_of (db_safes (en_db e)) x \<and> settled (en_db e') x \<and>
    (\<forall>q f. (q, f, x) \<notin> set (db_protections (en_db e')))"
proof -
  note g = engine_runs_good [OF assms(2,1)]
  have le: "journal_le (en_db e) (en_db e')" using g(2) by (simp add: engine_le_def)
  have wf: "journal_wf (en_db e')" using g(1) by (simp add: engine_wf_def)
  show ?thesis
    using journal_leD(4,5) [OF le assms(3)] journal_le_settled [OF le assms(3)] journal_wfD(7) [OF wf] by blast
qed

text \<open>C18. Protected resources are exclusive and held exactly as long as needed: no resource has two
  protections, every protection belongs to a transaction that exists and is not settled, and as long as a
  transaction of an earlier state is not settled it holds exactly the protections it held then.\<close>

theorem protections_exclusive:
  assumes "engine_wf e" and "engine_step\<^sup>*\<^sup>* e e'"
  shows "distinct (map fst (db_protections (en_db e'))) \<and>
    (\<forall>q f x. (q, f, x) \<in> set (db_protections (en_db e')) \<longrightarrow>
       map_of (db_execs (en_db e')) x \<noteq> None \<and> \<not> settled (en_db e') x) \<and>
    (\<forall>x. map_of (db_execs (en_db e)) x \<noteq> None \<and> \<not> settled (en_db e') x \<longrightarrow>
       filter (\<lambda>(q, f, t). t = x) (db_protections (en_db e')) = filter (\<lambda>(q, f, t). t = x) (db_protections (en_db e)))"
proof -
  note g = engine_runs_good [OF assms(2,1)]
  have le: "journal_le (en_db e) (en_db e')" using g(2) by (simp add: engine_le_def)
  have wf: "journal_wf (en_db e')" using g(1) by (simp add: engine_wf_def)
  show ?thesis
    using journal_wfD(6,7) [OF wf] journal_leD(6) [OF le] by (auto simp: exclusive_def)
qed

text \<open>C3. An apply becomes confirmed through one kind of call only: a decision to confirm it, made under the current
  journal revision by a caller who passes the check of the operation. In the answers that this very call
  meets, the apply is awaiting confirmation of this management domain, its window has not run out when the
  decision arrives and when it is written, the provider observes the plan committed and applied, the
  management path is reachable, and the authority of the apply is current when it is written. No other
  call of the engine, with any answers, confirms it.\<close>

theorem confirmed_only_with_evidence:
  assumes "engine_wf e" and "possible c e" and "confirmed (en_db (perform c e)) x" and "\<not> confirmed (en_db e) x"
  shows "\<exists>f a g p v r s w. c = Decision f a (Some g) p x v \<and> de_decision v = ''confirm'' \<and> de_check v = Inr () \<and>
    readSafety x (en_db e) = Inr (r, s) \<and> x_Sequence r = de_sequence v \<and> sf_State s = ''awaiting-confirmation'' \<and>
    sf_Domain s = ec_Domain g \<and> sf_Confirmation s = Some w \<and> \<not> Expired w (am_clock a 0) \<and> \<not> Expired w (am_clock a 2) \<and>
    oc_Commit (pv_Observe p (x_Plan r) (x_Outcome r)) = ''committed'' \<and>
    oc_Applied (pv_Observe p (x_Plan r) (x_Outcome r)) = ''applied'' \<and> am_probe a 0 \<and>
    am_authority a 2 (x_Authorization r) = Inr ()"
  using perform_confirms [OF assms(2,1,3)] assms(4) unfolding decided_def by blast

text \<open>C19. The journal stays within its bounds: at most 1024 executions, at most 16 of them unsettled, so that
  recovery never exceeds its budget, at most one open safe apply per management domain, and the
  last-known-good checkpoint is the plan of a confirmed apply.\<close>

theorem journal_bounds:
  assumes "engine_wf e0" and "engine_step\<^sup>*\<^sup>* e0 e"
  shows "length (db_execs (en_db e)) \<le> 1024 \<and> length (recoverable (en_db e)) \<le> 16 \<and>
    count_rows (open_domain domain) (db_safes (en_db e)) \<le> 1 \<and>
    (\<forall>x gen tm p. db_last_known_good (en_db e) = Some (x, gen, tm, p) \<longrightarrow>
       confirmed (en_db e) x \<and> (\<exists>r. map_of (db_execs (en_db e)) x = Some r \<and> x_Plan r = p))"
proof -
  have wf: "journal_wf (en_db e)" using engine_runs_good(1) [OF assms(2,1)] by (simp add: engine_wf_def)
  show ?thesis
    using journal_wfD(8,9,10) [OF wf] journal_wfD(11) [OF wf]
    by (auto simp: recoverable_def MaxRecords_def MaxUnsettled_def confirmed_def)
qed

text \<open>C20. Deadlines are never extended: once a safe apply exists its preparation deadline and its domain stay,
  once its confirmation window is open the window stays, and once its compensation is chosen the
  rollback plan stays, whatever decisions, ticks and restarts follow.\<close>

theorem window_never_extended:
  assumes "engine_wf e" and "engine_step\<^sup>*\<^sup>* e e'" and "map_of (db_safes (en_db e)) x = Some row"
  shows "\<exists>row'. map_of (db_safes (en_db e')) x = Some row' \<and>
    sf_Preparation (sr_Doc row') = sf_Preparation (sr_Doc row) \<and> sf_Domain (sr_Doc row') = sf_Domain (sr_Doc row) \<and>
    (sf_Confirmation (sr_Doc row) \<noteq> None \<longrightarrow> sf_Confirmation (sr_Doc row') = sf_Confirmation (sr_Doc row)) \<and>
    (sf_Rollback (sr_Doc row) \<noteq> None \<longrightarrow> sf_Rollback (sr_Doc row') = sf_Rollback (sr_Doc row))"
proof -
  have "journal_le (en_db e) (en_db e')" using engine_runs_good(2) [OF assms(2,1)] by (simp add: engine_le_def)
  from journal_leD(2) [OF this assms(3)] show ?thesis by (auto simp: safe_le_def)
qed

text \<open>C6. An apply that must go back is sent back, whether it has been applied, is still being applied or waits for
  recovery: a tick meets a dispatched safe apply of its management domain that is neither settled nor
  compensating and that no other call holds. The provider observes it committed, and the observation is
  recorded. When on the recorded row the window has expired or the clock was set back, the authority is
  lost or a rollback was requested, the provider prepares the compensation and asks to send it, and the
  write of the dispatch intent goes through, then that tick permits exactly this compensation, and the
  transaction is compensating with that plan durable.\<close>

theorem expired_window_compensates:
  assumes "engine_wf e" and "readSafety x (en_db e) = Inr (r, s)" and "sf_Domain s = ec_Domain g" and "\<not> Terminal_safety (sf_State s)"
    and "sf_State s \<noteq> ''rollback-conflict''" and "sf_Rollback s = None" and "x_State r \<noteq> ''admitted''" and "oc_Commit (x_Outcome r) \<noteq> ''rejected''"
    and "oc_Commit (pv_Observe p (x_Plan r) (x_Outcome r)) = ''committed''"
    and "saveOutcome (f 2) (forth 100 a) x (pv_Observe p (x_Plan r) (x_Outcome r)) (en_db e) = (Inr (), d1)" and "load x d1 = Inr q"
    and "window_expired (am_clock a 0) q s \<or> am_authority a 0 (x_Authorization q) \<noteq> Inr () \<or> sf_State s = ''rollback-requested''"
    and "pv_PrepareRollback p (x_Plan q) (rollbackMarker a g x (pl_Marker (x_Plan q))) = Inr plan" and "pv_Commit p plan = Asked no yes"
    and "x \<notin> set (en_active e)" and "f 0 = Done"
    and "saveSafety_tx (forth 30 a) q (dispatch_rollback plan (triggered (am_clock a 0) (am_authority a 0 (x_Authorization q) = Inr ()) q s))
      d1 = Inr ((), d)"
    and "e' = snd (safetyStep f a g p x e)"
  shows "en_sent e' = en_sent e @ [(x, Compensation, plan)] \<and> phase (en_db e') x \<in> {Compensating, RolledBack} \<and>
    (\<exists>row. map_of (db_safes (en_db e')) x = Some row \<and> sf_Rollback (sr_Doc row) = Some plan)"
proof -
  have sent: "en_sent e' = en_sent e @ [(x, Compensation, plan)]"
    unfolding assms(18) by (rule compensating_tick [OF assms(2-11) _ assms(13-17)]) (use assms(12) in \<open>simp add: must_compensate_def\<close>)
  have "engine_wf e'"
    using safetyStep_good(1) [OF surjective_pairing assms(1)] unfolding assms(18) by (simp add: good_step_def)
  then have wf: "log_ok (en_db e') (en_sent e')" "journal_wf (en_db e')" by (simp_all add: engine_wf_def)
  show ?thesis using sent log_okD(3) [OF wf(1), of x plan] logged_phase(2) [OF wf, of x plan] by simp
qed

text \<open>C33. A rollback request can be forgotten. An apply whose requested rollback could not be prepared is held with
  the trigger of the request. When a later tick finds the provider, the authority and the management
  path well again, it sends nothing, and the apply is back in the open window, where it can be confirmed,
  although the request still stands in its record.\<close>

theorem rollback_request_forgotten:
  assumes "engine_wf e" and "readSafety x (en_db e) = Inr (r, s)" and "back_to_health a g p r s"
    and "sf_Trigger s = ''authorized-rollback-requested''" and "x \<notin> set (en_active e)" and "f 2 = Done"
    and "safetyStep f a g p x e = (Inr (), e')"
  shows "en_sent e' = en_sent e \<and> phase (en_db e') x = Awaiting \<and>
    (\<exists>row. map_of (db_safes (en_db e')) x = Some row \<and> sf_State (sr_Doc row) = ''awaiting-confirmation'' \<and>
       sf_Trigger (sr_Doc row) = ''authorized-rollback-requested'' \<and> sf_Rollback (sr_Doc row) = None)"
proof -
  have le: "journal_le (en_db e) (en_db e')"
    using safetyStep_good(1) [OF assms(7,1)] journal_steps(2) assms(1) by (auto simp: good_step_def engine_wf_def)
  note t = healthy_tick [OF assms(1-3,5-7)]
  obtain row where row: "map_of (db_safes (en_db e')) x = Some row" "sr_Doc row = healthy a g (am_clock a 0) s" using t(2) by blast
  obtain q where "map_of (db_execs (en_db e')) x = Some q" using journal_leD(1) [OF le readSafetyD(3) [OF assms(2)]] by blast
  then show ?thesis
    using t(1) row assms(3,4) by (simp add: phase_def safe_phase_of_def healthy_def back_to_health_def)
qed

text \<open>C21. A safe submission that reports an error has changed nothing: unless the error is the one for a lost
  acknowledgement, the journal, the log of sent plans, the workers and the claimed transactions are those
  before the call.\<close>

theorem submit_error_changes_nothing:
  assumes "engine_wf e" and "SubmitSafe f a g p u s e = (Inl err, e')" and "err \<noteq> ErrCommitUnknown"
  shows "en_db e' = en_db e \<and> en_sent e' = en_sent e \<and> en_workers e' = en_workers e \<and> set (en_active e') = set (en_active e)"
proof (cases "ManagementID (ad_Reservation s)")
  case True
  have "submit f a g p (u\<lparr>su_safe := Some s\<rparr>) e = (Inl err, e')" using assms(2) True by (simp add: SubmitSafe_def)
  moreover have "journal_wf (en_db e)" using assms(1) by (simp add: engine_wf_def)
  ultimately show ?thesis by (cases rule: submit_cases) (use assms(3) in auto)
qed (use assms(2) in \<open>simp add: SubmitSafe_def\<close>)

text \<open>C22. Recovery settles what it can decide: when it returns without an error and every observation was decisive
  (rejected, or committed and applied), every transaction that no other call holds is terminal or its
  safe apply is, and nothing was sent.\<close>

theorem recover_settles:
  assumes "engine_wf e" and "Recover cancelled f a p e = (Inr (), e')" and "\<forall>n plan oc. decisive (pv_Observe (p n) plan oc)"
    and "x \<notin> set (en_active e)" and "map_of (db_execs (en_db e')) x = Some r"
  shows "\<not> cancelled \<and> (terminal r \<or> safe_terminal x (en_db e')) \<and> en_sent e' = en_sent e"
proof -
  have "\<not> cancelled" using assms(2) by (auto simp: Recover_def Let_def split: if_splits prod.splits sum.splits)
  then show ?thesis using Recover_settles [OF assms(2,1,3)] assms(4,5) by (auto simp: open_executions_def)
qed

section \<open>The properties on the sample journal\<close>

lemma sample_steps:
  "engine_step\<^sup>*\<^sup>* (sample_engine sample_safety) (snd (safetyStep (\<lambda>_. Done) sample_late sample_config sample_provider sample_tx (sample_engine sample_safety)))"
  by (rule r_into_rtranclp) (rule watchdog)

theorem dispatched_at_most_once_witness:
  "let e = snd (safetyStep (\<lambda>_. Done) sample_late sample_config sample_provider sample_tx (sample_engine sample_safety)) in
   (sample_tx, Compensation, sample_rollback sample_late) \<in> set (en_sent e) \<and>
   (\<exists>row. map_of (db_safes (en_db e)) sample_tx = Some row \<and> sf_Rollback (sr_Doc row) = Some (sample_rollback sample_late))"
  using dispatched_at_most_once [OF sample_wf sample_steps] by (simp add: Let_def sample_tick)

theorem engine_refines_lifecycle_witness:
  "let e = snd (safetyStep (\<lambda>_. Done) sample_late sample_config sample_provider sample_tx (sample_engine sample_safety)) in
   phase (sample_journal sample_safety) sample_tx = Awaiting \<and> phase_step\<^sup>*\<^sup>* Awaiting (phase (en_db e) sample_tx) \<and>
   phase (en_db e) sample_tx \<in> {Compensating, RolledBack}"
proof -
  have "phase (sample_journal sample_safety) sample_tx = Awaiting" by (simp add: phase_def safe_phase_of_def)
  then show ?thesis
    using engine_refines_lifecycle [OF sample_wf watchdog, where x = sample_tx and p = "sample_rollback sample_late",
        of "\<lambda>_. Done" sample_late sample_config sample_provider sample_tx]
    by (simp add: Let_def sample_tick)
qed

theorem settled_is_final_witness:
  "let e = snd (safetyStep (\<lambda>_. Done) sample_late sample_config sample_provider sample_tx (sample_engine sample_safety)) in
   settled (sample_journal sample_safety) sample_old_tx \<and> map_of (db_execs (en_db e)) sample_old_tx = Some (sample_exec sample_old_tx)"
proof -
  have "settled (sample_journal sample_safety) sample_old_tx" by (simp add: settled_def terminal_def)
  then show ?thesis using settled_is_final [OF sample_wf sample_steps, of sample_old_tx] by (simp add: Let_def)
qed

theorem protections_exclusive_witness:
  "let e = (sample_engine sample_safety)\<lparr>en_active := [], en_workers := []\<rparr> in
   engine_step\<^sup>*\<^sup>* (sample_engine sample_safety) e \<and> \<not> settled (en_db e) sample_tx \<and> distinct (map fst (db_protections (en_db e))) \<and>
   filter (\<lambda>(q, f, t). t = sample_tx) (db_protections (en_db e)) = [(sample_id, ''port.vlan'', sample_tx)]"
proof -
  have steps: "engine_step\<^sup>*\<^sup>* (sample_engine sample_safety) ((sample_engine sample_safety)\<lparr>en_active := [], en_workers := []\<rparr>)"
    by (rule r_into_rtranclp) (rule restart)
  have unsettled: "\<not> settled (sample_journal sample_safety) sample_tx" by (simp add: settled_def Terminal_safety_def)
  show ?thesis using protections_exclusive [OF sample_wf steps] steps unsettled by (simp add: Let_def)
qed

theorem confirmed_only_with_evidence_witness:
  "let c = Decision Done sample_early (Some sample_config) sample_provider sample_tx sample_confirm in
   \<not> confirmed (en_db (sample_engine sample_safety)) sample_tx \<and> confirmed (en_db (perform c (sample_engine sample_safety))) sample_tx \<and>
   am_probe sample_early 0 \<and> \<not> Expired (NewDeadline sample_clock (seconds 120)) (am_clock sample_early 2)"
proof -
  let ?c = "Decision Done sample_early (Some sample_config) sample_provider sample_tx sample_confirm"
  have new: "\<not> confirmed (en_db (sample_engine sample_safety)) sample_tx" by (simp add: confirmed_def)
  have able: "possible ?c (sample_engine sample_safety)" by simp
  have set: "confirmed (en_db (perform ?c (sample_engine sample_safety))) sample_tx" using sample_confirms by simp
  from confirmed_only_with_evidence [OF sample_wf able set new] new set show ?thesis by (auto simp: Let_def)
qed

theorem journal_bounds_witness:
  "let e = snd (safetyStep (\<lambda>_. Done) sample_late sample_config sample_provider sample_tx (sample_engine sample_safety)) in
   length (db_execs (en_db e)) \<le> 1024 \<and> count_rows (open_domain ''domain'') (db_safes (en_db e)) \<le> 1"
  using journal_bounds [OF sample_wf sample_steps, of "''domain''"] by (simp add: Let_def)

theorem window_never_extended_witness:
  "\<exists>row. map_of (db_safes (en_db (snd (safetyStep (\<lambda>_. Done) sample_late sample_config sample_provider sample_tx (sample_engine sample_safety))))) sample_tx
      = Some row \<and> sf_Confirmation (sr_Doc row) = Some (NewDeadline sample_clock (seconds 120))"
  using window_never_extended [OF sample_wf sample_steps, of sample_tx "sample_row sample_safety"] by auto

theorem expired_window_compensates_witness:
  "en_sent (snd (safetyStep (\<lambda>_. Done) sample_late sample_config sample_provider sample_tx (sample_engine sample_safety))) =
     [(sample_tx, Forward, sample_plan), (sample_tx, Compensation, sample_rollback sample_late)] \<and>
   phase (en_db (snd (safetyStep (\<lambda>_. Done) sample_late sample_config sample_provider sample_tx (sample_engine sample_safety)))) sample_tx
     \<in> {Compensating, RolledBack}"
proof -
  obtain d where "saveSafety_tx (forth 30 sample_late) (sample_exec sample_tx)
     (dispatch_rollback (sample_rollback sample_late) (triggered (am_clock sample_late 0) (am_authority sample_late 0 sample_authority = Inr ())
        (sample_exec sample_tx) sample_safety)) (sample_journal sample_safety) = Inr ((), d)"
    using sample_intent_saved by blast
  then have "saveSafety_tx (forth 30 sample_late) (sample_exec sample_tx)
     (dispatch_rollback (sample_rollback sample_late) (triggered (am_clock sample_late 0)
        (am_authority sample_late 0 (x_Authorization (sample_exec sample_tx)) = Inr ()) (sample_exec sample_tx) sample_safety))
     (en_db (sample_engine sample_safety)) = Inr ((), d)" by simp
  from expired_window_compensates [OF sample_wf _ _ _ _ _ _ _ _ _ _ _ _ _ _ _ this refl, of sample_tx "sample_exec sample_tx" sample_config sample_provider "\<lambda>_. Done"]
  show ?thesis
    using sample_expired [folded sample_late_def]
    by (simp add: must_compensate_def Terminal_safety_def sample_rollback_def sample_observed load_def select_row_def)
qed

definition sample_held :: Safety where
  "sample_held = sample_safety\<lparr>sf_State := ''recovery-required'', sf_Reason := ''rollback-provider-unavailable'',
     sf_Trigger := ''authorized-rollback-requested'', sf_HealthyAt := None\<rparr>"

lemma sample_held_fields [simp]:
  "sf_State sample_held = ''recovery-required''" "sf_Rollback sample_held = None" "sf_Domain sample_held = ''domain''"
  "sf_Trigger sample_held = ''authorized-rollback-requested''" "sf_LastWall sample_held = sample_moment"
  "sf_Confirmation sample_held = Some (NewDeadline sample_clock (seconds 120))"
  by (simp_all add: sample_held_def)

theorem rollback_request_forgotten_witness:
  "let e = snd (safetyStep (\<lambda>_. Done) sample_early sample_config sample_provider sample_tx (sample_engine sample_held)) in
   en_sent e = [(sample_tx, Forward, sample_plan)] \<and> phase (en_db e) sample_tx = Awaiting"
proof -
  have wf: "engine_wf (sample_engine sample_held)"
    by (rule sample_engine_wf) (simp_all add: safe_ok_def Terminal_safety_def)
  have read: "readSafety sample_tx (en_db (sample_engine sample_held)) = Inr (sample_exec sample_tx, sample_held)" by simp
  have well: "back_to_health sample_early sample_config sample_provider (sample_exec sample_tx) sample_held"
    by (simp add: back_to_health_def must_compensate_def window_expired_def sample_unexpired sample_early_def) (simp add: sample_clock_def)
  have "\<exists>d. saveSafety_tx (forth 30 sample_early) (sample_exec sample_tx) (healthy sample_early sample_config (am_clock sample_early 0) sample_held)
      (sample_journal sample_held) = Inr ((), d)"
    unfolding sample_early_def by (rule sample_save [OF sample_env_tick _ _ refl]) (simp_all add: healthy_def)
  then have "\<exists>e'. safetyStep (\<lambda>_. Done) sample_early sample_config sample_provider sample_tx (sample_engine sample_held) = (Inr (), e')"
    using healthy_step_db [OF _ _ well, of "sample_journal sample_held" sample_tx "\<lambda>_. Done"] wf
    by (auto simp: safetyStep_def claim_def engine_wf_def saveSafety_def store_write_def)
  then obtain e' where tick: "safetyStep (\<lambda>_. Done) sample_early sample_config sample_provider sample_tx (sample_engine sample_held) = (Inr (), e')"
    by blast
  from rollback_request_forgotten [OF wf read well _ _ _ tick] show ?thesis by (simp add: tick Let_def)
qed

definition sample_submission :: submission where
  "sample_submission = \<lparr>su_request = \<lparr>xr_ID = sample_request_id, xr_ValidationID = sample_owner, xr_Envelope = pl_Envelope sample_plan\<rparr>,
     su_payload = GNum ''1'', su_payload_bytes = 1, su_replay_auth = Inr sample_authority, su_reauth = failed 403 ''FORBIDDEN'',
     su_auth = Inr sample_authority, su_fresh = Inr sample_authority, su_lease = Some (Inr ()), su_writable = True, su_safe = None,
     su_worker = \<lparr>we_lease = Inr (), we_fresh = Inr sample_authority\<rparr>\<rparr>"

definition sample_admission :: safe_admission where
  "sample_admission = \<lparr>ad_Command = sample_api_command, ad_Reservation = sample_owner\<rparr>"

theorem submit_error_changes_nothing_witness:
  "\<exists>err. fst (SubmitSafe (\<lambda>_. Done) sample_early sample_config sample_provider sample_submission sample_admission (sample_engine sample_safety)) = Inl err \<and>
     en_db (snd (SubmitSafe (\<lambda>_. Done) sample_early sample_config sample_provider sample_submission sample_admission (sample_engine sample_safety)))
       = sample_journal sample_safety"
proof -
  have "\<exists>status code. fst (SubmitSafe (\<lambda>_. Done) sample_early sample_config sample_provider sample_submission sample_admission (sample_engine sample_safety)) =
      failed status code"
    by (simp add: SubmitSafe_def sample_admission_def submit_def submit_prepare_def sample_submission_def Let_def Replay_def)
  then obtain status code e' where s: "SubmitSafe (\<lambda>_. Done) sample_early sample_config sample_provider sample_submission sample_admission
      (sample_engine sample_safety) = (failed status code, e')" by (metis prod.collapse)
  from submit_error_changes_nothing [OF sample_wf s] s show ?thesis by simp
qed

theorem recover_settles_witness:
  "let res = Recover False (\<lambda>_. Done) (\<lambda>_. sample_late) (\<lambda>_. sample_provider) sample_unsure_engine in
   recoverable (en_db sample_unsure_engine) = [sample_tx] \<and> x_State sample_unsure_exec = ''committing'' \<and> fst res = Inr () \<and>
   (\<exists>r. map_of (db_execs (en_db (snd res))) sample_tx = Some r \<and> (terminal r \<or> safe_terminal sample_tx (en_db (snd res))))"
proof -
  have "unsettled sample_unsure (sample_tx, sample_unsure_exec)" "\<not> unsettled sample_unsure (sample_old_tx, sample_exec sample_old_tx)"
    by (simp_all add: unsettled_def terminal_def safe_terminal_def Terminal_safety_def)
  then have ids: "recoverable sample_unsure = [sample_tx]" by (simp add: recoverable_def)
  obtain d where d: "saveOutcome_tx sample_late sample_tx sample_applied_outcome sample_unsure = Inr ((), d)"
    using sample_observation unfolding sample_late_def by blast
  have "reconcile_db Done sample_late sample_provider sample_tx sample_unsure = (Inr (), d)"
    using d by (simp add: reconcile_db_def Read_execution_def load_def select_row_def terminal_def saveOutcome_def store_write_def)
  then obtain e' where one: "Reconcile Done sample_late sample_provider sample_tx sample_unsure_engine = (Inr (), e')"
    by (simp add: Reconcile_def claim_def)
  then have all: "Recover False (\<lambda>_. Done) (\<lambda>_. sample_late) (\<lambda>_. sample_provider) sample_unsure_engine = (Inr (), e')"
    by (simp add: Recover_def Let_def ids MaxUnsettled_def)
  have "journal_wf (en_db sample_unsure_engine)" using sample_unsure_wf unfolding engine_wf_def by blast
  then have "journal_le (en_db sample_unsure_engine) (en_db e')"
    using journal_steps(2) Reconcile_good(1) [OF one sample_unsure_wf] unfolding good_step_def by blast
  then obtain r where r: "map_of (db_execs (en_db e')) sample_tx = Some r"
    using journal_leD(1) [of "en_db sample_unsure_engine" "en_db e'" sample_tx sample_unsure_exec] by auto
  have free: "sample_tx \<notin> set (en_active sample_unsure_engine)" by simp
  have seen: "\<forall>(n :: nat) plan oc. decisive (pv_Observe ((\<lambda>_. sample_provider) n) plan oc)" by (simp add: decisive_def)
  from recover_settles [OF sample_unsure_wf all seen free r] r ids all show ?thesis by (simp add: Let_def)
qed

end
