(* ===== verification/Credentials.thy ===== *)
theory Credentials
  imports Store Candidate_Interfaces
begin

text \<open>
  Passwords and bearer secrets (\<^verbatim>\<open>internal/authn/types.go\<close>, \<^verbatim>\<open>internal/authn/secrets.go\<close>,
  \<^verbatim>\<open>internal/repository/auth/password.go\<close>): the unpadded base64 texts, the versioned password
  verifier and the recogniser of opaque grants and tokens. Argon2id is a parameter (\<open>IDKey\<close>), as are the
  bytes drawn from the random source; a password verifier is the text that is stored in the
  principal's row.
\<close>

section \<open>Unpadded base64\<close>

definition std_alphabet :: string where
  "std_alphabet = ''ABCDEFGHIJKLMNOPQRSTUVWXYZabcdefghijklmnopqrstuvwxyz0123456789+/''"

definition url_alphabet :: string where
  "url_alphabet = ''ABCDEFGHIJKLMNOPQRSTUVWXYZabcdefghijklmnopqrstuvwxyz0123456789-_''"

text \<open>Three bytes are four sextets; a last group of one or two bytes is two or three sextets, filled with
  zero bits.\<close>

fun sextets :: "8 word list \<Rightarrow> nat list" where
  "sextets [] = []"
| "sextets [a] = [unat a div 4, unat a mod 4 * 16]"
| "sextets [a, b] = [unat a div 4, unat a mod 4 * 16 + unat b div 16, unat b mod 16 * 4]"
| "sextets (a # b # c # r) =
     [unat a div 4, unat a mod 4 * 16 + unat b div 16, unat b mod 16 * 4 + unat c div 64, unat c mod 64] @ sextets r"

text \<open>The decoder ignores the filling bits and refuses a last group of one sextet.\<close>

fun octets :: "nat list \<Rightarrow> 8 word list option" where
  "octets [] = Some []"
| "octets [w] = None"
| "octets [w, x] = Some [of_nat (w * 4 + x div 16)]"
| "octets [w, x, y] = Some [of_nat (w * 4 + x div 16), of_nat (x mod 16 * 16 + y div 4)]"
| "octets (w # x # y # z # r) =
     map_option (\<lambda>bs. [of_nat (w * 4 + x div 16), of_nat (x mod 16 * 16 + y div 4), of_nat (y mod 4 * 64 + z)] @ bs) (octets r)"

definition sextet :: "string \<Rightarrow> char \<Rightarrow> nat option" where
  "sextet alphabet c = (case filter (\<lambda>n. alphabet ! n = c) [0..<64] of [] \<Rightarrow> None | n # _ \<Rightarrow> Some n)"

definition base64_encode :: "string \<Rightarrow> 8 word list \<Rightarrow> string" where
  "base64_encode alphabet bs = map ((!) alphabet) (sextets bs)"

text \<open>Line breaks are skipped; any other character outside the alphabet is an error.\<close>

definition base64_decode :: "string \<Rightarrow> string \<Rightarrow> 8 word list option" where
  "base64_decode alphabet s =
     (case those (map (sextet alphabet) (filter (\<lambda>c. c \<noteq> CHR 0x0A \<and> c \<noteq> CHR 0x0D) s)) of
        None \<Rightarrow> None
      | Some ns \<Rightarrow> octets ns)"

section \<open>Secrets\<close>

definition Secret :: "string \<Rightarrow> 8 word list \<Rightarrow> string" where
  "Secret prefix bytes = prefix @ base64_encode url_alphabet bytes"

definition ValidSecret :: "string \<Rightarrow> string \<Rightarrow> bool" where
  "ValidSecret v prefix =
     (if \<not> HasPrefix v prefix then False
      else case base64_decode url_alphabet (drop (length prefix) v) of
             None \<Rightarrow> False
           | Some b \<Rightarrow> length b = 32 \<and> v = prefix @ base64_encode url_alphabet b)"

section \<open>Password verifiers\<close>

definition passwordPrefix :: string where
  "passwordPrefix = ''$argon2id$v=19$m=65536,t=3,p=1$''"

definition validPassword :: "string \<Rightarrow> bool" where
  "validPassword p \<longleftrightarrow> 12 \<le> length p \<and> length p \<le> 1024"

text \<open>\<open>argon2.IDKey([]byte(password), salt, 3, 64*1024, 1, 32)\<close>\<close>

type_synonym id_key = "string \<Rightarrow> 8 word list \<Rightarrow> nat \<Rightarrow> nat \<Rightarrow> nat \<Rightarrow> nat \<Rightarrow> 8 word list"

definition derive :: "id_key \<Rightarrow> string \<Rightarrow> 8 word list \<Rightarrow> 8 word list" where
  "derive IDKey password salt = IDKey password salt 3 (64 * 1024) 1 32"

definition hashPassword :: "id_key \<Rightarrow> 8 word list \<Rightarrow> string \<Rightarrow> string outcome" where
  "hashPassword IDKey salt password =
     (if \<not> validPassword password then failed 422 ''PASSWORD_POLICY_REJECTED''
      else Inr (passwordPrefix @ base64_encode std_alphabet salt @ ''$'' @
             base64_encode std_alphabet (derive IDKey password salt)))"

text \<open>\<open>strings.Split(s, "$")\<close> for a one-character separator.\<close>

fun Split :: "char \<Rightarrow> string \<Rightarrow> string list" where
  "Split c [] = [[]]"
| "Split c (x # s) = (if x = c then [] # Split c s else (x # hd (Split c s)) # tl (Split c s))"

text \<open>The salt and the key that \<open>verifyPassword\<close> compares with: those of a well-formed verifier, zero bytes
  otherwise, so that the same work is done for every name.\<close>

definition verifier_parts :: "string \<Rightarrow> (8 word list \<times> 8 word list) option" where
  "verifier_parts verifier =
     (if \<not> HasPrefix verifier passwordPrefix then None
      else case Split (CHR ''$'') (drop (length passwordPrefix) verifier) of
             [s, h] \<Rightarrow>
               (case (base64_decode std_alphabet s, base64_decode std_alphabet h) of
                  (Some salt, Some key) \<Rightarrow> if length salt = 16 \<and> length key = 32 then Some (salt, key) else None
                | _ \<Rightarrow> None)
           | _ \<Rightarrow> None)"

definition verifyPassword :: "id_key \<Rightarrow> string \<Rightarrow> string \<Rightarrow> bool" where
  "verifyPassword IDKey password verifier =
     (let (salt, expected, valid) =
        (case verifier_parts verifier of
           Some (s, h) \<Rightarrow> (s, h, True)
         | None \<Rightarrow> (replicate 16 0, replicate 32 0, False));
        actual = derive IDKey password salt
      in actual = expected \<and> valid)"

section \<open>What a verifier and a secret hold\<close>

lemma byte_small: "unat (w :: 8 word) < 256"
  using unsigned_less [of w] by simp

lemma byte_back: "n = unat w \<Longrightarrow> of_nat n = (w :: 8 word)"
  by simp

lemma digit_split: "(y :: nat) < k \<Longrightarrow> (x * k + y) div k = x" "y < k \<Longrightarrow> (x * k + y) mod k = y"
  by simp_all

lemma byte_parts:
  "unat (b :: 8 word) div 16 < 16" "unat b div 64 < 4" "unat b div 4 < 64"
  using byte_small [of b] by simp_all

lemma octets_sextets: "octets (sextets bs) = Some bs"
proof (induction bs rule: sextets.induct)
  case (2 a)
  show ?case by (simp add: byte_back)
next
  case (3 a b)
  show ?case
    by (simp add: digit_split byte_parts byte_back div_mult_mod_eq)
next
  case (4 a b c r)
  then show ?case
    by (simp add: digit_split byte_parts byte_back div_mult_mod_eq)
qed simp

lemma sextets_small: "list_all (\<lambda>n. n < 64) (sextets bs)"
proof -
  have "unat (a :: 8 word) mod 4 * 16 + unat (b :: 8 word) div 16 < 64"
    "unat (b :: 8 word) mod 16 * 4 + unat (c :: 8 word) div 64 < 64" for a b c
    using byte_parts [of b] byte_parts [of c] mod_less_divisor [of 4 "unat a"] mod_less_divisor [of 16 "unat b"] by linarith+
  then show ?thesis
    using byte_parts by (induction bs rule: sextets.induct) simp_all
qed

definition proper_alphabet :: "string \<Rightarrow> bool" where
  "proper_alphabet s \<longleftrightarrow> length s = 64 \<and> distinct s \<and> CHR 0x0A \<notin> set s \<and> CHR 0x0D \<notin> set s"

lemma alphabets [simp]: "proper_alphabet std_alphabet" "proper_alphabet url_alphabet"
  by (simp_all add: proper_alphabet_def std_alphabet_def url_alphabet_def)

lemma sextet_nth: "proper_alphabet s \<Longrightarrow> n < 64 \<Longrightarrow> sextet s (s ! n) = Some n"
proof -
  assume s: "proper_alphabet s" "n < 64"
  then have "filter (\<lambda>m. s ! m = s ! n) [0..<64] = filter (\<lambda>m. m = n) [0..<64]"
    by (intro filter_cong) (auto simp: proper_alphabet_def nth_eq_iff_index_eq)
  also have "\<dots> = [n]"
    using s(2) sorted_distinct_set_unique [of "filter (\<lambda>m. m = n) [0..<64]" "[n]"] by (auto simp: sorted_wrt_filter)
  finally show ?thesis by (simp add: sextet_def)
qed

lemma sextet_map: "proper_alphabet s \<Longrightarrow> list_all (\<lambda>n. n < 64) ns \<Longrightarrow> those (map (sextet s) (map ((!) s) ns)) = Some ns"
  by (induction ns) (simp_all add: sextet_nth)

lemma base64_chars: "proper_alphabet s \<Longrightarrow> c \<in> set (base64_encode s bs) \<Longrightarrow> c \<in> set s"
  using sextets_small [of bs] by (auto simp: base64_encode_def proper_alphabet_def list_all_iff)

lemma base64_decode_encode:
  assumes "proper_alphabet s"
  shows "base64_decode s (base64_encode s bs) = Some bs"
proof -
  have "filter (\<lambda>c. c \<noteq> CHR 0x0A \<and> c \<noteq> CHR 0x0D) (base64_encode s bs) = base64_encode s bs"
    using assms base64_chars [OF assms] by (auto simp: filter_id_conv proper_alphabet_def)
  then show ?thesis
    using sextet_map [OF assms sextets_small, of bs] by (simp add: base64_decode_def octets_sextets base64_encode_def)
qed

lemma Split_once: "c \<notin> set s \<Longrightarrow> c \<notin> set t \<Longrightarrow> Split c (s @ c # t) = [s, t]"
proof (induction s)
  case Nil
  have "Split c t = [t]" using Nil by (induction t) auto
  then show ?case by simp
qed auto

lemma HasPrefix_append [simp]: "HasPrefix (p @ s) p"
  by (simp add: HasPrefix_def)

lemma HasPrefixD: "HasPrefix s p \<Longrightarrow> s = p @ drop (length p) s"
  by (metis HasPrefix_def append_take_drop_id)

lemma verifier_parts_hash:
  assumes "length salt = 16" and "length key = 32"
  shows "verifier_parts (passwordPrefix @ base64_encode std_alphabet salt @ ''$'' @ base64_encode std_alphabet key) = Some (salt, key)"
proof -
  have "CHR ''$'' \<notin> set std_alphabet" by (simp add: std_alphabet_def)
  then have "CHR ''$'' \<notin> set (base64_encode std_alphabet bs)" for bs
    using base64_chars [OF alphabets(1)] by blast
  then have "Split (CHR ''$'') (base64_encode std_alphabet salt @ CHR ''$'' # base64_encode std_alphabet key) =
      [base64_encode std_alphabet salt, base64_encode std_alphabet key]"
    by (intro Split_once)
  then show ?thesis using assms by (simp add: verifier_parts_def base64_decode_encode)
qed

text \<open>C29. A stored verifier accepts exactly the passwords with the same Argon2id key under its salt, in particular the
  password it was made from; and a verifier that was emptied, or has other parameters, accepts nothing.\<close>

theorem verifyPassword_exact:
  assumes "hashPassword IDKey salt password = Inr verifier" and "length salt = 16"
    and "\<And>p s t m n k. length (IDKey p s t m n k) = k"
  shows "(verifyPassword IDKey attempt verifier \<longleftrightarrow> derive IDKey attempt salt = derive IDKey password salt) \<and>
    verifyPassword IDKey password verifier \<and>
    (verifyPassword IDKey attempt other \<longrightarrow> HasPrefix other passwordPrefix)"
proof -
  have v: "verifier = passwordPrefix @ base64_encode std_alphabet salt @ ''$'' @ base64_encode std_alphabet (derive IDKey password salt)"
    using assms(1) by (simp add: hashPassword_def split: if_splits)
  have "verifier_parts verifier = Some (salt, derive IDKey password salt)"
    unfolding v by (rule verifier_parts_hash) (simp_all add: assms derive_def)
  moreover have "verifyPassword IDKey attempt other \<Longrightarrow> HasPrefix other passwordPrefix"
    by (auto simp: verifyPassword_def verifier_parts_def split: if_splits)
  ultimately show ?thesis by (auto simp: verifyPassword_def)
qed

lemma ValidSecret_iff: "ValidSecret v p \<longleftrightarrow> (\<exists>b. length b = 32 \<and> v = Secret p b)"
  by (auto simp: ValidSecret_def Secret_def base64_decode_encode split: option.splits)

end
