(* ===== verification/Access_Policy.thy ===== *)
theory Access_Policy
  imports Credentials Journal
begin

text \<open>
  Access decisions of the manager (\<^verbatim>\<open>internal/authn/types.go\<close>, \<^verbatim>\<open>internal/repository/auth/policy.go\<close>
  and the reading half of \<^verbatim>\<open>auth.go\<close>): capabilities and role templates, the tables of principals,
  roles, grants and tokens, the claims a credential has at a moment, and the checks of a capability and of
  the objects a request names.

  \<^item> A stored capability list is what \<^verbatim>\<open>json.Unmarshal\<close> makes of its blob; \<open>None\<close> is a blob that is not a
    list of strings.
  \<^item> \<open>am_Hash\<close> is SHA-256, \<open>am_IDKey\<close> is Argon2id and \<open>am_bytes\<close> are the bytes drawn for secrets and salts;
    \<open>am_json_bytes\<close> and \<open>am_time_text\<close> are the length of a JSON encoding and the RFC 3339 text of a moment.
  \<^item> Successive readings of the clock are numbered in call order, as in the rest of the manager.
\<close>

section \<open>Capabilities\<close>

text \<open>Transport aliases of the public API and the canonical codes that roles hold.\<close>

definition aliases :: "(string \<times> string) list" where
  "aliases = [
    (''state.read'', ''state.read''), (''workspace.read'', ''workspace.read''),
    (''workspace.write'', ''workspace.write''), (''config.stage'', ''workspace.write''),
    (''config.validate'', ''configuration.validate''), (''config.read'', ''configuration.read''),
    (''config.apply'', ''configuration.apply''), (''config.decide'', ''configuration.confirm''),
    (''request.read'', ''requests.read''), (''job.read'', ''jobs.read''), (''job.cancel'', ''jobs.cancel''),
    (''event.read'', ''events.read''), (''audit.read'', ''audit.read''), (''user.read'', ''access.users.manage''),
    (''user.manage'', ''access.users.manage''), (''role.read'', ''access.roles.manage''),
    (''role.manage'', ''access.roles.manage''), (''token.read'', ''access.tokens.self''),
    (''token.manage'', ''access.tokens.self''), (''access.read'', ''access.aaa.manage''),
    (''access.configure'', ''access.aaa.manage''), (''certificate.read'', ''access.tls.manage''),
    (''certificate.manage'', ''access.tls.manage''), (''backup.read'', ''backup.create''),
    (''backup.manage'', ''backup.create''), (''recovery.read'', ''configuration.read''),
    (''recovery.manage'', ''backup.restore''), (''diagnostic.read'', ''diagnostics.read''),
    (''diagnostic.run'', ''diagnostics.active''), (''capture.run'', ''diagnostics.disruptive''),
    (''support.export'', ''support_bundle.create''), (''lifecycle.manage'', ''ovs.lifecycle.manage''),
    (''config.export'', ''configuration.read''), (''artifact.read'', ''artifacts.read''),
    (''artifact.write'', ''artifacts.write''), (''openflow.manage'', ''openflow.local.write'')]"

definition readCapabilities :: "string list" where
  "readCapabilities = [
    ''inventory.read'', ''state.read'', ''capabilities.read'', ''jobs.read'', ''events.read'', ''audit.read'',
    ''workspace.read'', ''configuration.read'', ''requests.read'', ''diagnostics.read'', ''artifacts.read'',
    ''access.tokens.self'']"

definition securityCapabilities :: "string list" where
  "securityCapabilities = [
    ''access.users.manage'', ''access.roles.manage'', ''access.aaa.manage'', ''access.tokens.manage'',
    ''access.tls.manage'']"

definition networkCapabilities :: "string list" where
  "networkCapabilities = [
    ''ovs.bridge.spanning-tree.prepare'', ''ovs.topology.write'', ''workspace.write'', ''configuration.validate'',
    ''configuration.apply'', ''configuration.confirm'', ''configuration.rollback'', ''ovs.port.vlan.write'',
    ''ovs.port.bond.write'', ''ovs.bridge.create'', ''ovs.bridge.delete'', ''ovs.port.internal.create'',
    ''ovs.port.internal.delete'', ''ovs.interface.mtu.write'', ''ovs.interface.policing.write'',
    ''diagnostics.active'', ''diagnostics.disruptive'', ''support_bundle.create'', ''backup.create'',
    ''backup.restore'', ''configuration.import'', ''management_network.write'', ''ovs.lifecycle.manage'',
    ''jobs.cancel'', ''artifacts.write'']"

definition managementCapabilities :: "string list" where
  "managementCapabilities = [
    ''management.policy.write'', ''management.debug.write'', ''management.services.control'', ''openflow.local.write'']"

text \<open>\<open>sort.Strings\<close> and \<open>slices.Compact\<close>\<close>

definition unique :: "string list \<Rightarrow> string list" where
  "unique vs = remdups_adj (sort vs)"

definition allCapabilities :: "string list" where
  "allCapabilities = unique (readCapabilities @ networkCapabilities @ securityCapabilities @ managementCapabilities)"

definition Templates :: "(string \<times> string list) list" where
  "Templates = [
    (''Reader'', unique readCapabilities),
    (''Operator'', unique (readCapabilities @ [''diagnostics.active'', ''jobs.cancel''])),
    (''NetworkAdmin'', unique (readCapabilities @ networkCapabilities)),
    (''SecurityAdmin'', unique (readCapabilities @ securityCapabilities)),
    (''Administrator'', allCapabilities)]"

definition SpanningTreeExecutionCapability :: string where
  "SpanningTreeExecutionCapability = ''ovs.bridge.spanning-tree.write''"

definition knownCapability :: "string \<Rightarrow> bool" where
  "knownCapability c \<longleftrightarrow> c = ''ovs.mirror.write'' \<or> c = ''ovs.tunnel.static.write'' \<or> c = ''ovs.bridge.multicast.write'' \<or>
     c = ''ovs.port.isolation.write'' \<or> c = SpanningTreeExecutionCapability \<or> c \<in> set allCapabilities"

definition validateCapabilities :: "string list \<Rightarrow> unit outcome" where
  "validateCapabilities vs =
     (if 128 < length vs \<or> length (unique vs) \<noteq> length vs then failed 422 ''INVALID_CAPABILITIES''
      else if \<not> list_all knownCapability vs then failed 422 ''UNKNOWN_CAPABILITY''
      else Inr ())"

definition subset_caps :: "string list \<Rightarrow> string list \<Rightarrow> bool" where
  "subset_caps vs bound \<longleftrightarrow> list_all (\<lambda>c. c \<in> set bound) vs"

definition intersection :: "string list \<Rightarrow> string list \<Rightarrow> string list" where
  "intersection vs bound = unique (filter (\<lambda>c. c \<in> set bound) vs)"

lemma unique_set [simp]: "set (unique vs) = set vs"
  by (simp add: unique_def)

lemma sorted_compact: "sorted vs \<Longrightarrow> distinct (remdups_adj vs)"
proof (induction vs rule: remdups_adj.induct)
  case (3 x y vs)
  have "x \<notin> set (y # vs)" if "x \<noteq> y" using 3(3) that by (fastforce simp: order.antisym)
  then show ?case using 3 by auto
qed simp_all

lemma unique_sorted: "sorted (unique vs)" "distinct (unique vs)"
  by (simp_all add: unique_def sorted_compact)

lemma unique_length: "length (unique vs) = length vs \<longleftrightarrow> distinct vs"
  by (metis unique_set unique_sorted(2) card_distinct distinct_card)

lemma subset_caps_iff [simp]: "subset_caps vs bound \<longleftrightarrow> set vs \<subseteq> set bound"
  by (auto simp: subset_caps_def list_all_iff)

lemma intersection_set [simp]: "set (intersection vs bound) = set vs \<inter> set bound"
  by (auto simp: intersection_def)

lemma validateCapabilities_Inr [simp]:
  "validateCapabilities vs = Inr u \<longleftrightarrow> length vs \<le> 128 \<and> distinct vs \<and> (\<forall>c\<in>set vs. knownCapability c)"
  by (auto simp: validateCapabilities_def unique_length list_all_iff)

section \<open>Claims and tables\<close>

definition SessionIdle :: int where "SessionIdle = seconds (15 * 60)"
definition SessionAbsolute :: int where "SessionAbsolute = seconds (8 * 3600)"
definition Elevation :: int where "Elevation = seconds (5 * 60)"
definition MaxPrincipals :: nat where "MaxPrincipals = 1000"
definition MaxRoles :: nat where "MaxRoles = 128"
definition MaxGrants :: nat where "MaxGrants = 4096"
definition MaxTokens :: nat where "MaxTokens = 4096"

lemmas authn_limits = MaxPrincipals_def MaxRoles_def MaxGrants_def MaxTokens_def

record Claims =
  cl_PrincipalID :: string
  cl_CredentialID :: string
  cl_CredentialKind :: string
  cl_DisplayName :: string
  cl_Capabilities :: "string list"
  cl_Revision :: string
  cl_Epoch :: string
  cl_RequestEpoch :: string
  cl_IssuedAt :: moment
  cl_ExpiresAt :: moment
  cl_ElevatedUntil :: moment

definition no_claims :: Claims where
  "no_claims = \<lparr>cl_PrincipalID = '''', cl_CredentialID = '''', cl_CredentialKind = '''', cl_DisplayName = '''',
     cl_Capabilities = [], cl_Revision = '''', cl_Epoch = '''', cl_RequestEpoch = '''', cl_IssuedAt = 0,
     cl_ExpiresAt = 0, cl_ElevatedUntil = 0\<rparr>"

record principal_row =
  pr_name :: string
  pr_disabled :: bool
  pr_verifier :: string

text \<open>A row of \<^verbatim>\<open>grants\<close> or of \<^verbatim>\<open>api_tokens\<close> (whose ceiling is the scope list), and its companion row.\<close>

record credential_row =
  cr_principal :: string
  cr_epoch :: string
  cr_ceiling :: "string list option"
  cr_expires :: int
  cr_revoked :: "int option"

record grant_use =
  gu_id :: string
  gu_issued :: int
  gu_last :: int
  gu_elevated :: int

record token_use =
  tu_id :: string
  tu_name :: string
  tu_created :: int
  tu_last :: int

record inventory_row =
  iv_generation :: string
  iv_state :: string
  iv_reason :: string
  iv_pending :: string
  iv_restore :: bool

record witness_row =
  wn_candidate :: string
  wn_epoch :: string
  wn_sequence :: int
  wn_revision :: string
  wn_hash :: string

record audit_row =
  aw_principal :: string
  aw_credential :: string
  aw_operation :: string
  aw_target :: string
  aw_result :: string
  aw_request :: string
  aw_created :: int

text \<open>The answer of a resolved safe apply: the successor of the frozen draft.\<close>

record Safe_Resolution =
  rz_Confirmed :: bool
  rz_Pending :: bool
  rz_Transaction :: "Ref option"
  rz_Envelope :: "Envelope option"

text \<open>The tables of the manager's database that access decisions read and write; the journal's tables come
  first. \<^verbatim>\<open>auth_state\<close> is a single row; a validation is kept with its owner, as a document. The keys of
  \<^verbatim>\<open>safe_resolutions\<close> are in the journal's tables, \<open>db_resolved\<close> holds the fingerprints and documents of its rows.\<close>

record 'v access_db = journal_db +
  db_principals :: "principal_row tab"
  db_auth_principals :: "(string \<times> int) tab"
  db_roles :: "string list option tab"
  db_auth_roles :: "(string \<times> string) tab"
  db_principal_roles :: "(string \<times> string) list"
  db_grants :: "credential_row tab"
  db_auth_grants :: "grant_use tab"
  db_tokens :: "credential_row tab"
  db_auth_tokens :: "token_use tab"
  db_attempts :: "(int \<times> int) tab"
  db_auth_epoch :: string
  db_auth_revision :: string
  db_auth_watermark :: int
  db_auth_audit :: "audit_row tab"
  db_inventory :: "inventory_row option"
  db_witnesses :: "witness_row tab"
  db_validations :: "(string \<times> 'v) tab"
  db_resolved :: "((string \<times> string \<times> string) \<times> string \<times> Safe_Resolution) list"
  db_certificates :: "string tab"

record access_ambient = requests_ambient +
  am_IDKey :: id_key
  am_Hash :: "string \<Rightarrow> string"
  am_bytes :: "nat \<Rightarrow> 8 word list"
  am_json_bytes :: "any \<Rightarrow> nat"
  am_time_text :: "moment \<Rightarrow> string"

definition Unix :: "moment \<Rightarrow> int" where
  "Unix t = t div 1000000000 - 62135596800"

text \<open>\<open>time.Unix(s, 0)\<close>\<close>

definition of_Unix :: "int \<Rightarrow> moment" where
  "of_Unix s = (s + 62135596800) * 1000000000"

lemma Unix_of_Unix [simp]: "Unix (of_Unix s) = s"
  by (simp add: Unix_def of_Unix_def)

section \<open>Current capabilities\<close>

fun role_lists :: "string list option list \<Rightarrow> string list outcome" where
  "role_lists [] = Inr []"
| "role_lists (blob # blobs) =
     (case blob of
        None \<Rightarrow> failed 503 ''AUTH_POLICY_INVALID''
      | Some caps \<Rightarrow>
          (case validateCapabilities caps of
             Inl _ \<Rightarrow> failed 503 ''AUTH_POLICY_INVALID''
           | Inr _ \<Rightarrow> then_do (role_lists blobs) (\<lambda>out. Inr (caps @ out))))"

text \<open>\<open>roles r JOIN auth_roles a ... JOIN principal_roles p ... WHERE p.principal_id=?\<close>\<close>

definition roles_of :: "string \<Rightarrow> ('v, 'y) access_db_scheme \<Rightarrow> string list option list" where
  "roles_of who d = List.map_filter
     (\<lambda>(p, r). if p = who \<and> map_of (db_auth_roles d) r \<noteq> None then map_of (db_roles d) r else None)
     (db_principal_roles d)"

definition capabilities :: "string \<Rightarrow> ('v, 'y) access_db_scheme \<Rightarrow> string list outcome" where
  "capabilities who d = then_do (role_lists (roles_of who d)) (\<lambda>out. Inr (unique out))"

section \<open>Claims of a credential\<close>

definition clock :: "'z ambient_scheme \<Rightarrow> ('v, 'y) access_db_scheme \<Rightarrow> (string \<times> string) outcome" where
  "clock a d =
     (if UnixMilli (am_now a 0) < db_auth_watermark d then failed 503 ''AUTH_CLOCK_UNSAFE''
      else Inr (db_auth_epoch d, db_auth_revision d))"

text \<open>The joined rows that \<open>claims\<close> scans: principal, credential row and use.\<close>

record credential_view =
  cv_kind :: string
  cv_principal :: string
  cv_name :: string
  cv_disabled :: bool
  cv_row :: credential_row
  cv_id :: string
  cv_issued :: int
  cv_last :: int
  cv_elevated :: int

definition with_principal ::
    "string \<Rightarrow> credential_row \<Rightarrow> string \<Rightarrow> int \<Rightarrow> int \<Rightarrow> int \<Rightarrow> ('v, 'y) access_db_scheme \<Rightarrow> credential_view option" where
  "with_principal kind row cid issued used elevated d =
     (case (map_of (db_principals d) (cr_principal row), map_of (db_auth_principals d) (cr_principal row)) of
        (Some p, Some _) \<Rightarrow> Some \<lparr>cv_kind = kind, cv_principal = cr_principal row, cv_name = pr_name p,
           cv_disabled = pr_disabled p, cv_row = row, cv_id = cid, cv_issued = issued, cv_last = used, cv_elevated = elevated\<rparr>
      | _ \<Rightarrow> None)"

definition grant_view :: "string \<Rightarrow> ('v, 'y) access_db_scheme \<Rightarrow> credential_view option" where
  "grant_view hash d =
     (case (map_of (db_grants d) hash, map_of (db_auth_grants d) hash) of
        (Some row, Some u) \<Rightarrow> with_principal ''grant'' row (gu_id u) (gu_issued u) (gu_last u) (gu_elevated u) d
      | _ \<Rightarrow> None)"

definition token_view :: "string \<Rightarrow> ('v, 'y) access_db_scheme \<Rightarrow> credential_view option" where
  "token_view hash d =
     (case (map_of (db_tokens d) hash, map_of (db_auth_tokens d) hash) of
        (Some row, Some u) \<Rightarrow> with_principal ''token'' row (tu_id u) (tu_created u) (tu_last u) 0 d
      | _ \<Rightarrow> None)"

definition find_credential :: "('z access_ambient_scheme) \<Rightarrow> string \<Rightarrow> ('v, 'y) access_db_scheme \<Rightarrow> credential_view option" where
  "find_credential a credential d =
     (if ValidSecret credential ''ovsg_'' then grant_view (am_Hash a credential) d
      else if ValidSecret credential ''ovst_'' then token_view (am_Hash a credential) d
      else None)"

text \<open>The rule a credential has to satisfy at second \<open>now\<close>.\<close>

definition credential_dead :: "string \<Rightarrow> int \<Rightarrow> credential_view \<Rightarrow> bool" where
  "credential_dead epoch now v \<longleftrightarrow>
     cv_disabled v \<or> cr_revoked (cv_row v) \<noteq> None \<or> cr_epoch (cv_row v) \<noteq> epoch \<or> cr_expires (cv_row v) \<le> now \<or>
     now < cv_issued v \<or>
     cv_kind v = ''grant'' \<and> (cv_last v + SessionIdle div 1000000000 \<le> now \<or>
       cv_issued v + SessionAbsolute div 1000000000 < cr_expires (cv_row v))"

definition claims :: "'z access_ambient_scheme \<Rightarrow> string \<Rightarrow> ('v, 'y) access_db_scheme \<Rightarrow> Claims outcome" where
  "claims a credential d =
     then_do (clock a d) (\<lambda>(epoch, revision).
     case find_credential a credential d of
       None \<Rightarrow> failed 401 ''UNAUTHENTICATED''
     | Some v \<Rightarrow>
         if credential_dead epoch (Unix (am_now a 1)) v then failed 401 ''CREDENTIAL_EXPIRED_OR_REVOKED''
         else case cr_ceiling (cv_row v) of
                None \<Rightarrow> failed 503 ''AUTH_POLICY_INVALID''
              | Some caps \<Rightarrow>
                  (case validateCapabilities caps of
                     Inl _ \<Rightarrow> failed 503 ''AUTH_POLICY_INVALID''
                   | Inr _ \<Rightarrow> then_do (capabilities (cv_principal v) d) (\<lambda>current.
                       Inr \<lparr>cl_PrincipalID = cv_principal v, cl_CredentialID = cv_id v, cl_CredentialKind = cv_kind v,
                         cl_DisplayName = cv_name v, cl_Capabilities = intersection current caps, cl_Revision = revision,
                         cl_Epoch = epoch, cl_RequestEpoch = db_epoch d, cl_IssuedAt = of_Unix (cv_issued v),
                         cl_ExpiresAt = of_Unix (cr_expires (cv_row v)), cl_ElevatedUntil = of_Unix (cv_elevated v)\<rparr>)))"

section \<open>Checks\<close>

definition require_capability :: "Claims \<Rightarrow> string \<Rightarrow> bool \<Rightarrow> int \<Rightarrow> unit outcome" where
  "require_capability c cap elevated now =
     (if cap = ''config.decide'' \<and>
         (''configuration.confirm'' \<in> set (cl_Capabilities c) \<or> ''configuration.rollback'' \<in> set (cl_Capabilities c))
      then Inr ()
      else if cap = ''session.read'' \<or> cap = ''session.end''
      then (if cl_CredentialKind c \<noteq> ''grant'' then failed 403 ''BROWSER_SESSION_REQUIRED'' else Inr ())
      else let (code, ok) = (case map_of aliases cap of
                 Some v \<Rightarrow> (v, True) | None \<Rightarrow> (cap, knownCapability cap)) in
        if \<not> ok then failed 403 ''CAPABILITY_UNKNOWN''
        else if code \<notin> set (cl_Capabilities c) then failed 403 ''CAPABILITY_DENIED''
        else if elevated \<and> (cl_CredentialKind c \<noteq> ''grant'' \<or> Unix (cl_ElevatedUntil c) \<le> now)
        then failed 403 ''REAUTHENTICATION_REQUIRED''
        else Inr ())"

abbreviation allowed :: "Claims \<Rightarrow> string \<Rightarrow> unit outcome" where
  "allowed c cap \<equiv> require_capability c cap False 0"

abbreviation not_found :: "unit outcome" where
  "not_found \<equiv> failed 404 ''NOT_FOUND''"

definition inventory_table :: "string \<Rightarrow> string" where
  "inventory_table kind = (if kind = ''bridge'' then ''Bridge'' else if kind = ''interface'' then ''Interface''
     else if kind = ''mirror'' then ''Mirror'' else ''Port'')"

definition active_identity :: "string \<Rightarrow> string \<Rightarrow> string \<Rightarrow> string \<times> identity \<Rightarrow> bool" where
  "active_identity x table generation = (\<lambda>(k, i). k = x \<and> Table (it_Binding i) = table \<and>
     Generation_of (it_Binding i) = generation \<and> it_State i = ''active'')"

definition checkInventory :: "Claims \<Rightarrow> Ref \<Rightarrow> ('v, 'y) access_db_scheme \<Rightarrow> unit outcome" where
  "checkInventory c ref d =
     then_do (allowed c ''inventory.read'') (\<lambda>_.
     then_do (if ref_Kind ref = ''tunnel'' \<or> ref_Kind ref = ''mirror'' then allowed c ''configuration.read'' else Inr ()) (\<lambda>_.
     case db_inventory d of
       None \<Rightarrow> failed 503 ''OBJECT_AUTHORITY_UNAVAILABLE''
     | Some s \<Rightarrow>
         if iv_state s \<noteq> ''confirmed'' then failed 503 ''INSTANCE_RECONCILIATION_REQUIRED''
         else if length (filter (active_identity (ref_ID ref) (inventory_table (ref_Kind ref)) (iv_generation s)) (db_identities d)) \<noteq> 1
         then not_found else Inr ()))"

definition token_owner :: "string \<Rightarrow> ('v, 'y) access_db_scheme \<Rightarrow> string option" where
  "token_owner x d =
     (case find (\<lambda>(h, u). tu_id u = x \<and> map_of (db_tokens d) h \<noteq> None) (db_auth_tokens d) of
        None \<Rightarrow> None
      | Some (h, u) \<Rightarrow> map_option cr_principal (map_of (db_tokens d) h))"

definition checkRef :: "Claims \<Rightarrow> Ref \<Rightarrow> ('v, 'y) access_db_scheme \<Rightarrow> unit outcome" where
  "checkRef c ref d =
     (let kind = ref_Kind ref; x = ref_ID ref; owner = cl_PrincipalID c in
      if kind \<noteq> ''request'' \<and> \<not> ManagementID x \<or> kind = ''request'' \<and> \<not> UUID x
      then failed 422 ''INVALID_RESOURCE_SCOPE''
      else if kind = ''transaction''
      then then_do (allowed c ''configuration.read'') (\<lambda>_.
           case map_of (db_execs d) x of
             None \<Rightarrow> not_found
           | Some r \<Rightarrow> if x_Owner r \<noteq> owner then not_found else Inr ())
      else if kind = ''candidate''
      then then_do (allowed c ''workspace.read'') (\<lambda>_. then_do (allowed c ''configuration.read'') (\<lambda>_.
           case map_of (db_witnesses d) owner of
             None \<Rightarrow> not_found
           | Some w \<Rightarrow> if wn_candidate w \<noteq> x then not_found else Inr ()))
      else if kind = ''validation''
      then then_do (allowed c ''config.validate'') (\<lambda>_.
           case map_of (db_validations d) x of
             None \<Rightarrow> not_found
           | Some (who, _) \<Rightarrow> if who \<noteq> owner then not_found else Inr ())
      else if kind = ''request''
      then (if list_ex (\<lambda>v. ar_principal v = owner \<and> ar_request v = x) (db_receipts d) then Inr () else not_found)
      else if kind = ''job''
      then (case map_of (db_jobs d) x of
              None \<Rightarrow> not_found
            | Some j \<Rightarrow> if j_Owner j \<noteq> owner then not_found else allowed c (j_Capability j))
      else if kind = ''event'' \<or> kind = ''audit''
      then then_do (allowed c (if kind = ''audit'' then ''audit.read'' else ''events.read'')) (\<lambda>_.
           case map_of (db_records d) x of
             None \<Rightarrow> not_found
           | Some r \<Rightarrow> if ev_Collection r \<noteq> kind then not_found else Inr ())
      else if kind = ''token''
      then (case token_owner x d of
              None \<Rightarrow> not_found
            | Some who \<Rightarrow>
                if who \<noteq> owner \<and> ''access.tokens.manage'' \<notin> set (cl_Capabilities c) then failed 403 ''RESOURCE_DENIED'' else Inr ())
      else if kind = ''user'' then allowed c ''user.read''
      else if kind = ''role'' then allowed c ''role.read''
      else if kind \<in> set [''bridge'', ''port'', ''interface'', ''bond'', ''tunnel'', ''mirror''] then checkInventory c ref d
      else if kind = ''certificate''
      then then_do (allowed c ''certificate.read'') (\<lambda>_. if map_of (db_certificates d) x = None then not_found else Inr ())
      else failed 503 ''OBJECT_AUTHORITY_UNAVAILABLE'')"

fun check_each :: "Claims \<Rightarrow> Ref list \<Rightarrow> ('v, 'y) access_db_scheme \<Rightarrow> unit outcome" where
  "check_each c [] d = Inr ()"
| "check_each c (ref # refs) d = then_do (checkRef c ref d) (\<lambda>_. check_each c refs d)"

definition checkRefs :: "Claims \<Rightarrow> Ref list \<Rightarrow> ('v, 'y) access_db_scheme \<Rightarrow> unit outcome" where
  "checkRefs c refs d = (if 32 < length refs then failed 422 ''INVALID_RESOURCE_SCOPE'' else check_each c refs d)"

text \<open>An operation of the contract, as far as access depends on it.\<close>

record Operation =
  op_ID :: string
  op_Domain :: string
  op_Capability :: string
  op_ResourceKind :: string
  op_Sensitive :: bool
  op_SecretResponse :: bool

definition refsFor :: "Operation \<Rightarrow> string list \<Rightarrow> Ref list" where
  "refsFor op path = map (\<lambda>x. \<lparr>ref_Kind = op_ResourceKind op, ref_ID = x\<rparr>) path"

definition evidence_Operation :: "string \<Rightarrow> bool" where
  "evidence_Operation op \<longleftrightarrow> op \<in> set [''listJobs'', ''readJob'', ''listEvents'', ''readEvent'', ''listAudit'', ''readAudit'',
     ''exportJobs'', ''exportEvents'', ''exportAudit'']"

definition checkOperation ::
    "'z access_ambient_scheme \<Rightarrow> string \<Rightarrow> Operation \<Rightarrow> Ref list \<Rightarrow> bool \<Rightarrow> ('v, 'y) access_db_scheme \<Rightarrow> Claims outcome" where
  "checkOperation a credential op refs elevated d =
     then_do (claims a credential d) (\<lambda>c.
     then_do (require_capability c (op_Capability op) elevated (Unix (am_now a 2))) (\<lambda>_.
     then_do (if op_ID op \<noteq> ''readRequestReceipt'' \<and> \<not> evidence_Operation (op_ID op) then checkRefs c refs d else Inr ()) (\<lambda>_.
     Inr c)))"

definition InspectAuth :: "bool \<Rightarrow> 'z access_ambient_scheme \<Rightarrow> string \<Rightarrow> ('v, 'y) access_db_scheme \<Rightarrow> Claims outcome" where
  "InspectAuth writable a credential d =
     (if \<not> writable then failed 503 ''AUTH_UNAVAILABLE'' else store_read (claims a credential d))"

definition CheckAuth ::
    "bool \<Rightarrow> 'z access_ambient_scheme \<Rightarrow> string \<Rightarrow> string \<Rightarrow> Ref list \<Rightarrow> ('v, 'y) access_db_scheme \<Rightarrow> Claims outcome" where
  "CheckAuth writable a credential cap refs d =
     (if \<not> writable then failed 503 ''AUTH_UNAVAILABLE''
      else store_read (then_do (claims a credential d) (\<lambda>c.
           then_do (require_capability c cap False (Unix (am_now a 2))) (\<lambda>_.
           then_do (checkRefs c refs d) (\<lambda>_. Inr c)))))"

definition SpanningTreeExecutionAuthorizer ::
    "'z access_ambient_scheme \<Rightarrow> bool \<Rightarrow> string \<Rightarrow> ('v, 'y) access_db_scheme \<Rightarrow> unit outcome" where
  "SpanningTreeExecutionAuthorizer a cancelled credential d =
     store_read (then_do (claims a credential d) (\<lambda>c.
       then_do (foldl (\<lambda>r (n, cap). then_do r (\<lambda>_. require_capability c cap False (Unix (am_now a n)))) (Inr ())
         (enumerate 2 [''inventory.read'', ''configuration.read'', ''workspace.write'', ''configuration.apply'',
            SpanningTreeExecutionCapability])) (\<lambda>_.
       if cancelled then failed 503 ''SPANNING_TREE_PREFLIGHT_CANCELLED'' else Inr ())))"

end
