(* ===== verification/Access.thy ===== *)
theory Access
  imports Access_Policy
begin

text \<open>
  The operations on principals, roles and credentials (\<^verbatim>\<open>internal/repository/auth/auth.go\<close>,
  \<^verbatim>\<open>commands.go\<close>, \<^verbatim>\<open>mirror_role.go\<close> and its siblings): bootstrap, login with its rate limit,
  reauthentication, logout, the security commands behind a durable receipt and the offline role switches.
  Each writer transaction is a function from the tables; the calls that check a password between two
  transactions take the effect of everything else that runs meanwhile as an argument (\<open>others\<close>), because the
  password work happens outside the gate.
\<close>

section \<open>Shared writes\<close>

definition modify_row :: "string \<Rightarrow> ('v \<Rightarrow> 'v) \<Rightarrow> 'v tab \<Rightarrow> 'v tab" where
  "modify_row k f t = map (\<lambda>(j, w). if j = k then (j, f w) else (j, w)) t"

text \<open>\<open>^[a-zA-Z0-9][a-zA-Z0-9_.@-]{0,127}$\<close> and \<open>^"[A-Za-z0-9_-]{1,128}"$\<close>\<close>

definition usernamePattern :: "string \<Rightarrow> bool" where
  "usernamePattern s \<longleftrightarrow> s \<noteq> '''' \<and> alnum (hd s) \<and> length s \<le> 128 \<and>
     list_all (\<lambda>c. alnum c \<or> c \<in> set ''_.@-'') (tl s)"

definition quoted :: "string \<Rightarrow> string" where
  "quoted s = CHR 0x22 # s @ [CHR 0x22]"

definition etagPattern :: "string \<Rightarrow> bool" where
  "etagPattern s \<longleftrightarrow> (let inner = butlast (tl s) in
     s = quoted inner \<and> 1 \<le> length inner \<and> length inner \<le> 128 \<and>
     list_all (\<lambda>c. alnum c \<or> c = CHR ''_'' \<or> c = CHR ''-'') inner)"

definition audit_event ::
    "'z ambient_scheme \<Rightarrow> Claims \<Rightarrow> string \<Rightarrow> string \<Rightarrow> string \<Rightarrow> string \<Rightarrow> Ref option \<Rightarrow> string \<Rightarrow> Evidence_Record" where
  "audit_event a c op target result request ob job =
     \<lparr>ev_RelatedObjects = [], ev_ID = '''', ev_Collection = ''audit'', ev_Sequence = '''', ev_Origin = ''Manager'',
      ev_Actor = cl_PrincipalID c, ev_Credential = cl_CredentialID c, ev_Capability = '''', ev_Operation = op,
      ev_Object = (case ob of
          Some r \<Rightarrow> Some r
        | None \<Rightarrow> if ManagementID target then Some \<lparr>ref_Kind = ''security-resource'', ref_ID = target\<rparr> else None),
      ev_ChangeSet = '''', ev_Transaction = '''', ev_Job = job, ev_RequestID = request, ev_RequestDomain = '''',
      ev_RequestEpoch = '''', ev_Correlation = '''', ev_Result = result, ev_Reason = '''', ev_Created = am_now a 0,
      ev_DedupKey = '''', ev_Critical = (op = ''tls-recovery'' \<or> ControlOperation op)\<rparr>"

definition audit ::
    "'z access_ambient_scheme \<Rightarrow> Claims \<Rightarrow> string \<Rightarrow> string \<Rightarrow> string \<Rightarrow> string \<Rightarrow> Ref option \<Rightarrow> string \<Rightarrow>
     'v access_db \<Rightarrow> (unit \<times> 'v access_db) outcome" where
  "audit a c op target result request ob job d =
     then_do (Append a (audit_event a c op target result request ob job) d) (\<lambda>(x, d).
     then_do (insert_row x \<lparr>aw_principal = cl_PrincipalID c, aw_credential = cl_CredentialID c, aw_operation = op,
         aw_target = target, aw_result = result, aw_request = request, aw_created = Unix (am_now a 1)\<rparr> (db_auth_audit d)) (\<lambda>rows.
     Inr ((), d\<lparr>db_auth_audit := rows\<rparr>)))"

definition watermark :: "'z ambient_scheme \<Rightarrow> 'v access_db \<Rightarrow> 'v access_db" where
  "watermark a d = d\<lparr>db_auth_watermark := max (db_auth_watermark d) (UnixMilli (am_now a 0))\<rparr>"

definition touch :: "'z access_ambient_scheme \<Rightarrow> string \<Rightarrow> Claims \<Rightarrow> 'v access_db \<Rightarrow> 'v access_db" where
  "touch a credential c d =
     (let hash = am_Hash a credential; now = Unix (am_now a 0) in
      watermark (later 1 a)
        (if cl_CredentialKind c = ''token''
         then d\<lparr>db_auth_tokens := modify_row hash (\<lambda>u. u\<lparr>tu_last := now\<rparr>) (db_auth_tokens d)\<rparr>
         else d\<lparr>db_auth_grants := modify_row hash (\<lambda>u. u\<lparr>gu_last := now\<rparr>) (db_auth_grants d)\<rparr>))"

section \<open>Bootstrap\<close>

text \<open>The role templates in the order in which the map is ranged over; \<open>n\<close> numbers the identifiers.\<close>

fun insert_templates ::
    "'z ambient_scheme \<Rightarrow> nat \<Rightarrow> (string \<times> string list) list \<Rightarrow> string \<Rightarrow> 'v access_db \<Rightarrow> (string \<times> 'v access_db) outcome" where
  "insert_templates a n [] admin d = Inr (admin, d)"
| "insert_templates a n ((name, caps) # ts) admin d =
     then_do (insert_row (new_id a n) (Some caps) (db_roles d)) (\<lambda>roles.
     then_do (insert_row (new_id a n) (name, new_id a (n + 1)) (db_auth_roles d)) (\<lambda>auth_roles.
     insert_templates a (n + 2) ts (if name = ''Administrator'' then new_id a n else admin)
       (d\<lparr>db_roles := roles, db_auth_roles := auth_roles\<rparr>)))"

definition bootstrap_tx ::
    "'z access_ambient_scheme \<Rightarrow> (string \<times> string list) list \<Rightarrow> string \<Rightarrow> string \<Rightarrow> 'v access_db \<Rightarrow> (unit \<times> 'v access_db) outcome" where
  "bootstrap_tx a templates username hash d =
     (if db_principals d \<noteq> [] then failed 409 ''ALREADY_BOOTSTRAPPED''
      else then_do (insert_templates a 0 templates '''' d) (\<lambda>(admin, d).
        let x = new_id a 10 in
        then_do (insert_row x \<lparr>pr_name = username, pr_disabled = False, pr_verifier = hash\<rparr> (db_principals d)) (\<lambda>principals.
        then_do (insert_row x (new_id a 11, Unix (am_now a 0)) (db_auth_principals d)) (\<lambda>auth_principals.
        audit (later 12 a) (no_claims\<lparr>cl_PrincipalID := x\<rparr>) ''bootstrap'' x ''success'' '''' None ''''
          (d\<lparr>db_principals := principals, db_auth_principals := auth_principals,
             db_principal_roles := db_principal_roles d @ [(x, admin)]\<rparr>)))))"

definition Bootstrap ::
    "fate \<Rightarrow> 'z access_ambient_scheme \<Rightarrow> (string \<times> string list) list \<Rightarrow> string \<Rightarrow> string \<Rightarrow> 'v access_db \<Rightarrow> unit outcome \<times> 'v access_db" where
  "Bootstrap f a templates username password d =
     (if \<not> usernamePattern username then (failed 422 ''INVALID_USERNAME'', d)
      else case hashPassword (am_IDKey a) (am_bytes a 0) password of
             Inl e \<Rightarrow> (Inl e, d)
           | Inr hash \<Rightarrow> store_write f (bootstrap_tx a templates username hash) d)"

section \<open>Login\<close>

definition attempt_tx :: "'z access_ambient_scheme \<Rightarrow> string \<Rightarrow> 'v access_db \<Rightarrow> (unit \<times> 'v access_db) outcome" where
  "attempt_tx a username d =
     then_do (clock a d) (\<lambda>_.
     let now = Unix (am_now a 1); hash = am_Hash a (map lower username);
         rows = filter (\<lambda>(h, start, n). \<not> start < now - 60) (db_attempts d);
         tried = (case map_of rows hash of None \<Rightarrow> 0 | Some (start, n) \<Rightarrow> n) in
     if 60 \<le> sum_list (map (\<lambda>(h, start, n). n) rows) then failed 429 ''AUTH_RATE_LIMITED''
     else if 10 \<le> tried then failed 429 ''AUTH_RATE_LIMITED''
     else Inr ((), watermark (later 2 a) (d\<lparr>db_attempts :=
       (if map_of rows hash = None then rows @ [(hash, now, 1)]
        else modify_row hash (\<lambda>(start, n). (start, n + 1)) rows)\<rparr>)))"

definition attempt :: "fate \<Rightarrow> 'z access_ambient_scheme \<Rightarrow> string \<Rightarrow> 'v access_db \<Rightarrow> unit outcome \<times> 'v access_db" where
  "attempt f a username d = store_write f (attempt_tx a username) d"

record Login =
  lg_Provider :: string
  lg_Username :: string
  lg_Password :: string

text \<open>\<open>SELECT p.id,p.password_verifier,p.disabled FROM principals p JOIN auth_principals a ... WHERE p.name=?\<close>; no row
  leaves the zero values.\<close>

definition find_login :: "string \<Rightarrow> 'v access_db \<Rightarrow> string \<times> string \<times> bool" where
  "find_login name d =
     (case find (\<lambda>(x, p). pr_name p = name \<and> map_of (db_auth_principals d) x \<noteq> None) (db_principals d) of
        None \<Rightarrow> ('''', '''', False)
      | Some (x, p) \<Rightarrow> (x, pr_verifier p, pr_disabled p))"

definition live_grants :: "int \<Rightarrow> 'v access_db \<Rightarrow> nat" where
  "live_grants now d = count_rows (\<lambda>g. cr_revoked g = None \<and> now < cr_expires g) (db_grants d)"

text \<open>A new grant: its secret is returned, its hash is stored.\<close>

definition issue_grant ::
    "'z access_ambient_scheme \<Rightarrow> string \<Rightarrow> string \<Rightarrow> string list \<Rightarrow> 'v access_db \<Rightarrow> (string \<times> 'v access_db) outcome" where
  "issue_grant a x epoch caps d =
     (let grant = Secret ''ovsg_'' (am_bytes a 1); hash = am_Hash a grant;
          now = Unix (am_now a 2); expiry = Unix (am_now a 3 + SessionAbsolute) in
      then_do (insert_row hash \<lparr>cr_principal = x, cr_epoch = epoch, cr_ceiling = Some caps, cr_expires = expiry,
          cr_revoked = None\<rparr> (db_grants d)) (\<lambda>grants.
      then_do (insert_row hash \<lparr>gu_id = new_id a 0, gu_issued = now, gu_last = now, gu_elevated = 0\<rparr> (db_auth_grants d)) (\<lambda>uses.
      Inr (grant, d\<lparr>db_grants := grants, db_auth_grants := uses\<rparr>))))"

text \<open>The write of \<open>Authenticate\<close>: \<open>None\<close> is a refused login, which is recorded.\<close>

definition reject_login :: "'z access_ambient_scheme \<Rightarrow> 'v access_db \<Rightarrow> ((string \<times> Claims) option \<times> 'v access_db) outcome" where
  "reject_login a d =
     then_do (audit a no_claims ''authenticate'' '''' ''rejected'' '''' None '''' d) (\<lambda>(_, d). Inr (None, d))"

definition authenticate_tx ::
    "'z access_ambient_scheme \<Rightarrow> bool \<Rightarrow> string \<Rightarrow> string \<Rightarrow> 'v access_db \<Rightarrow> ((string \<times> Claims) option \<times> 'v access_db) outcome" where
  "authenticate_tx a denied x verifier d =
     (if denied then reject_login a d
      else then_do (select_row x (db_principals d)) (\<lambda>p.
        if pr_disabled p \<or> pr_verifier p \<noteq> verifier then reject_login a d
        else then_do (clock a d) (\<lambda>(epoch, _).
        if MaxGrants \<le> live_grants (Unix (am_now a 1)) d then failed 429 ''AUTH_GRANT_CAPACITY_REACHED''
        else then_do (capabilities x d) (\<lambda>caps.
             then_do (issue_grant a x epoch caps d) (\<lambda>(grant, d).
             then_do (claims (later 4 a) grant d) (\<lambda>c.
             then_do (audit (later 6 a) c ''authenticate'' x ''success'' '''' None '''' d) (\<lambda>(_, d).
             Inr (Some (grant, c), watermark (later 8 a) d))))))))"

definition Authenticate ::
    "(nat \<Rightarrow> fate) \<Rightarrow> 'z access_ambient_scheme \<Rightarrow> unit outcome \<Rightarrow> ('v access_db \<Rightarrow> 'v access_db) \<Rightarrow> Login \<Rightarrow> 'v access_db \<Rightarrow>
     (string \<times> Claims) outcome \<times> 'v access_db" where
  "Authenticate f a slot others login d =
     (if lg_Provider login \<noteq> ''local'' then (failed 503 ''AUTH_PROVIDER_UNAVAILABLE'', d)
      else if \<not> usernamePattern (lg_Username login) \<or> length (lg_Password login) < 1 \<or> 1024 < length (lg_Password login)
      then (failed 401 ''AUTHENTICATION_REJECTED'', d)
      else case slot of
        Inl e \<Rightarrow> (Inl e, d)
      | Inr _ \<Rightarrow>
        (case attempt (f 0) a (lg_Username login) d of
           (Inl e, d) \<Rightarrow> (Inl e, d)
         | (Inr _, d) \<Rightarrow>
             let (x, verifier, disabled) = find_login (lg_Username login) d;
                 valid = verifyPassword (am_IDKey a) (lg_Password login) verifier;
                 denied = (\<not> valid \<or> disabled \<or> x = '''') in
             (case store_write (f 1) (authenticate_tx (later 3 a) denied x verifier) (others d) of
                (Inl e, d) \<Rightarrow> (Inl e, d)
              | (Inr None, d) \<Rightarrow> (failed 401 ''AUTHENTICATION_REJECTED'', d)
              | (Inr (Some out), d) \<Rightarrow> (Inr out, d))))"

section \<open>Reauthentication and logout\<close>

definition raise_elevation :: "string \<Rightarrow> moment \<Rightarrow> 'v access_db \<Rightarrow> 'v access_db" where
  "raise_elevation hash until d =
     d\<lparr>db_auth_grants := modify_row hash (\<lambda>u. u\<lparr>gu_elevated := Unix until\<rparr>) (db_auth_grants d)\<rparr>"

definition revoke_grant :: "string \<Rightarrow> int \<Rightarrow> 'v access_db \<Rightarrow> 'v access_db" where
  "revoke_grant hash now d = d\<lparr>db_grants := modify_row hash (\<lambda>g. g\<lparr>cr_revoked := Some now\<rparr>) (db_grants d)\<rparr>"

text \<open>The write of \<open>Reauthenticate\<close>: the flag tells whether the password still fits.\<close>

definition reauthenticate_tx ::
    "'z access_ambient_scheme \<Rightarrow> string \<Rightarrow> bool \<Rightarrow> string \<Rightarrow> 'v access_db \<Rightarrow> (Claims option \<times> 'v access_db) outcome" where
  "reauthenticate_tx a credential valid verifier d =
     then_do (claims a credential d) (\<lambda>c.
     then_do (select_row (cl_PrincipalID c) (db_principals d)) (\<lambda>p.
     if \<not> (valid \<and> pr_verifier p = verifier)
     then then_do (audit (later 2 a) c ''reauthenticate'' (cl_PrincipalID c) ''rejected'' '''' None '''' d) (\<lambda>(_, d). Inr (None, d))
     else let until = am_now a 2 + Elevation;
              until = (if cl_ExpiresAt c < until then cl_ExpiresAt c else until);
              c = c\<lparr>cl_ElevatedUntil := until\<rparr> in
       then_do (audit (later 3 a) c ''reauthenticate'' (cl_PrincipalID c) ''success'' '''' None ''''
           (raise_elevation (am_Hash a credential) until d)) (\<lambda>(_, d).
       Inr (Some c, touch (later 5 a) credential c d))))"

definition Reauthenticate ::
    "(nat \<Rightarrow> fate) \<Rightarrow> bool \<Rightarrow> 'z access_ambient_scheme \<Rightarrow> unit outcome \<Rightarrow> ('v access_db \<Rightarrow> 'v access_db) \<Rightarrow> string \<Rightarrow> string \<Rightarrow>
     'v access_db \<Rightarrow> Claims outcome \<times> 'v access_db" where
  "Reauthenticate f writable a slot others credential password d =
     (case InspectAuth writable a credential d of
        Inl e \<Rightarrow> (Inl e, d)
      | Inr c \<Rightarrow>
          if cl_CredentialKind c \<noteq> ''grant'' then (failed 403 ''BROWSER_SESSION_REQUIRED'', d)
          else if length password < 1 \<or> 1024 < length password then (failed 401 ''AUTHENTICATION_REJECTED'', d)
          else case slot of
            Inl e \<Rightarrow> (Inl e, d)
          | Inr _ \<Rightarrow>
            (case attempt (f 0) (later 2 a) (cl_DisplayName c) d of
               (Inl e, d) \<Rightarrow> (Inl e, d)
             | (Inr _, d) \<Rightarrow>
                 (case store_read (select_row (cl_PrincipalID c) (db_principals d)) of
                    Inl e \<Rightarrow> (Inl e, d)
                  | Inr p \<Rightarrow>
                      let valid = verifyPassword (am_IDKey a) password (pr_verifier p) in
                      (case store_write (f 1) (reauthenticate_tx (later 5 a) credential valid (pr_verifier p)) (others d) of
                         (Inl e, d) \<Rightarrow> (Inl e, d)
                       | (Inr None, d) \<Rightarrow> (failed 401 ''AUTHENTICATION_REJECTED'', d)
                       | (Inr (Some c), d) \<Rightarrow> (Inr c, d)))))"

definition revoke_auth_tx :: "'z access_ambient_scheme \<Rightarrow> string \<Rightarrow> 'v access_db \<Rightarrow> (unit \<times> 'v access_db) outcome" where
  "revoke_auth_tx a credential d =
     then_do (claims a credential d) (\<lambda>c.
     if cl_CredentialKind c \<noteq> ''grant'' then failed 403 ''BROWSER_SESSION_REQUIRED''
     else then_do (audit (later 3 a) c ''revoke-session'' (cl_CredentialID c) ''success'' '''' None ''''
              (revoke_grant (am_Hash a credential) (Unix (am_now a 2)) d)) (\<lambda>(_, d).
            Inr ((), watermark (later 5 a) d)))"

definition RevokeAuth :: "fate \<Rightarrow> 'z access_ambient_scheme \<Rightarrow> string \<Rightarrow> 'v access_db \<Rightarrow> unit outcome \<times> 'v access_db" where
  "RevokeAuth f a credential d = store_write f (revoke_auth_tx a credential) d"

section \<open>Security commands\<close>

text \<open>The body of a command after the contract's decoding; the object comes from the path.\<close>

datatype security_command =
    CreateUser string "string list" string
  | ChangeUser "string list" bool
  | ChangePassword string
  | DeleteUser
  | CreateRole string "string list"
  | ChangeRole string "string list"
  | CreateToken string "string list" "moment option"
  | RevokeToken

definition contract_operation :: "security_command \<Rightarrow> Operation" where
  "contract_operation cmd =
     (let op = (\<lambda>name cap kind sensitive secret. \<lparr>op_ID = name, op_Domain = ''management'', op_Capability = cap,
                  op_ResourceKind = kind, op_Sensitive = sensitive, op_SecretResponse = secret\<rparr>) in
      case cmd of
        CreateUser _ _ _ \<Rightarrow> op ''createUser'' ''user.manage'' '''' True False
      | ChangeUser _ _ \<Rightarrow> op ''changeUser'' ''user.manage'' ''user'' False False
      | ChangePassword _ \<Rightarrow> op ''changePassword'' ''user.manage'' ''user'' True False
      | DeleteUser \<Rightarrow> op ''deleteUser'' ''user.manage'' ''user'' False False
      | CreateRole _ _ \<Rightarrow> op ''createRole'' ''role.manage'' '''' False False
      | ChangeRole _ _ \<Rightarrow> op ''changeRole'' ''role.manage'' ''role'' False False
      | CreateToken _ _ _ \<Rightarrow> op ''createToken'' ''token.manage'' '''' False True
      | RevokeToken \<Rightarrow> op ''revokeToken'' ''token.manage'' ''token'' False False)"

definition revision_matches :: "string option \<Rightarrow> string \<Rightarrow> unit outcome" where
  "revision_matches current expected =
     (case current of
        None \<Rightarrow> not_found
      | Some r \<Rightarrow> if expected \<noteq> quoted r then failed 412 ''PRECONDITION_FAILED'' else Inr ())"

fun assignable :: "Claims \<Rightarrow> string list \<Rightarrow> 'v access_db \<Rightarrow> unit outcome" where
  "assignable c [] d = Inr ()"
| "assignable c (role # roles) d =
     (if map_of (db_auth_roles d) role = None then failed 422 ''ROLE_NOT_FOUND''
      else case map_of (db_roles d) role of
        None \<Rightarrow> failed 422 ''ROLE_NOT_FOUND''
      | Some blob \<Rightarrow>
          then_do (role_lists [blob]) (\<lambda>caps.
          if \<not> subset_caps caps (cl_Capabilities c) then failed 403 ''CAPABILITY_CEILING_EXCEEDED''
          else assignable c roles d))"

definition roleAssignment :: "Claims \<Rightarrow> string list \<Rightarrow> 'v access_db \<Rightarrow> unit outcome" where
  "roleAssignment c roles d =
     (if 64 < length roles \<or> length (unique roles) \<noteq> length roles then failed 422 ''INVALID_ROLE_ASSIGNMENT''
      else assignable c roles d)"

text \<open>A repeated pair violates the key of \<^verbatim>\<open>principal_roles\<close>.\<close>

definition replaceRoles :: "string \<Rightarrow> string list \<Rightarrow> 'v access_db \<Rightarrow> 'v access_db outcome" where
  "replaceRoles x roles d =
     (if \<not> distinct roles then Inl ErrConflict
      else Inr (d\<lparr>db_principal_roles := filter (\<lambda>(p, r). p \<noteq> x) (db_principal_roles d) @ map (\<lambda>r. (x, r)) roles\<rparr>))"

definition revoke_rows :: "string \<Rightarrow> int \<Rightarrow> credential_row tab \<Rightarrow> credential_row tab" where
  "revoke_rows x now t = map (\<lambda>(h, g). if cr_principal g = x \<and> cr_revoked g = None then (h, g\<lparr>cr_revoked := Some now\<rparr>) else (h, g)) t"

definition invalidatePrincipal :: "'z ambient_scheme \<Rightarrow> string \<Rightarrow> 'v access_db \<Rightarrow> 'v access_db" where
  "invalidatePrincipal a x d = d\<lparr>db_grants := revoke_rows x (Unix (am_now a 0)) (db_grants d),
     db_tokens := revoke_rows x (Unix (am_now a 1)) (db_tokens d)\<rparr>"

fun some_administrator :: "string list \<Rightarrow> 'v access_db \<Rightarrow> unit outcome" where
  "some_administrator [] d = failed 409 ''LAST_LOCAL_ADMINISTRATOR''"
| "some_administrator (x # xs) d =
     then_do (capabilities x d) (\<lambda>caps. if subset_caps allCapabilities caps then Inr () else some_administrator xs d)"

definition local_principals :: "'v access_db \<Rightarrow> string list" where
  "local_principals d = map fst (filter (\<lambda>(x, p). \<not> pr_disabled p \<and> map_of (db_auth_principals d) x \<noteq> None \<and>
     HasPrefix (pr_verifier p) passwordPrefix) (db_principals d))"

definition lastAdministrator :: "'v access_db \<Rightarrow> unit outcome" where
  "lastAdministrator d = some_administrator (local_principals d) d"

section \<open>The mutation of each command\<close>

definition create_user ::
    "'z access_ambient_scheme \<Rightarrow> Claims \<Rightarrow> string \<Rightarrow> string list \<Rightarrow> string \<Rightarrow> 'v access_db \<Rightarrow> (string \<times> 'v access_db) outcome" where
  "create_user a c name roles verifier d =
     (if \<not> usernamePattern name then failed 422 ''INVALID_USERNAME''
      else then_do (roleAssignment c roles d) (\<lambda>_.
        if list_ex (\<lambda>(x, p). pr_name p = name) (db_principals d) then failed 409 ''USERNAME_EXISTS''
        else if MaxPrincipals \<le> length (db_principals d) then failed 429 ''PRINCIPAL_CAPACITY_REACHED''
        else let x = new_id a 0 in
          then_do (insert_row x \<lparr>pr_name = name, pr_disabled = False, pr_verifier = verifier\<rparr> (db_principals d)) (\<lambda>principals.
          then_do (insert_row x (new_id a 1, Unix (am_now a 0)) (db_auth_principals d)) (\<lambda>auth_principals.
          then_do (replaceRoles x roles (d\<lparr>db_principals := principals, db_auth_principals := auth_principals\<rparr>)) (\<lambda>d.
          Inr (x, d))))))"

definition set_disabled :: "string \<Rightarrow> bool \<Rightarrow> 'v access_db \<Rightarrow> 'v access_db" where
  "set_disabled x off d = d\<lparr>db_principals := modify_row x (\<lambda>p. p\<lparr>pr_disabled := off\<rparr>) (db_principals d)\<rparr>"

definition change_principal ::
    "'z access_ambient_scheme \<Rightarrow> Claims \<Rightarrow> string \<Rightarrow> security_command \<Rightarrow> string \<Rightarrow> 'v access_db \<Rightarrow> 'v access_db outcome" where
  "change_principal a c x cmd verifier d =
     (case cmd of
        ChangeUser roles disabled \<Rightarrow>
          then_do (roleAssignment c roles d) (\<lambda>_.
          then_do (replaceRoles x roles d) (\<lambda>d.
          let d = set_disabled x disabled d in
          Inr (if disabled then invalidatePrincipal a x d else d)))
      | ChangePassword _ \<Rightarrow>
          Inr (invalidatePrincipal a x
            (d\<lparr>db_principals := modify_row x (\<lambda>p. p\<lparr>pr_verifier := verifier\<rparr>) (db_principals d)\<rparr>))
      | _ \<Rightarrow>
          then_do (replaceRoles x []
            (d\<lparr>db_principals := modify_row x (\<lambda>p. p\<lparr>pr_disabled := True, pr_verifier := ''''\<rparr>) (db_principals d)\<rparr>)) (\<lambda>d.
          Inr (invalidatePrincipal a x d)))"

definition change_user ::
    "'z access_ambient_scheme \<Rightarrow> Claims \<Rightarrow> string \<Rightarrow> security_command \<Rightarrow> string \<Rightarrow> string \<Rightarrow> 'v access_db \<Rightarrow> (string \<times> 'v access_db) outcome" where
  "change_user a c x cmd verifier expected d =
     then_do (revision_matches (map_option fst (map_of (db_auth_principals d) x)) expected) (\<lambda>_.
     then_do (change_principal (later 1 a) c x cmd verifier d) (\<lambda>d.
     Inr (x, d\<lparr>db_auth_principals := modify_row x (\<lambda>(r, t). (new_id a 0, t)) (db_auth_principals d)\<rparr>)))"

definition write_role ::
    "'z access_ambient_scheme \<Rightarrow> Claims \<Rightarrow> string option \<Rightarrow> string \<Rightarrow> string list \<Rightarrow> string \<Rightarrow> 'v access_db \<Rightarrow> (string \<times> 'v access_db) outcome" where
  "write_role a c target name caps expected d =
     then_do (validateCapabilities caps) (\<lambda>_.
     if \<not> subset_caps caps (cl_Capabilities c) then failed 403 ''CAPABILITY_CEILING_EXCEEDED''
     else if list_ex (\<lambda>(x, n, r). n = name \<and> x \<noteq> (case target of None \<Rightarrow> '''' | Some t \<Rightarrow> t)) (db_auth_roles d)
     then failed 409 ''ROLE_NAME_EXISTS''
     else case target of
       None \<Rightarrow>
         if MaxRoles \<le> length (db_auth_roles d) then failed 429 ''ROLE_CAPACITY_REACHED''
         else let x = new_id a 0 in
           then_do (insert_row x (Some (unique caps)) (db_roles d)) (\<lambda>roles.
           then_do (insert_row x (name, new_id a 1) (db_auth_roles d)) (\<lambda>auth_roles.
           Inr (x, d\<lparr>db_roles := roles, db_auth_roles := auth_roles\<rparr>)))
     | Some x \<Rightarrow>
         then_do (revision_matches (map_option snd (map_of (db_auth_roles d) x)) expected) (\<lambda>_.
         Inr (x, d\<lparr>db_roles := modify_row x (\<lambda>_. Some (unique caps)) (db_roles d),
           db_auth_roles := modify_row x (\<lambda>_. (name, new_id a 0)) (db_auth_roles d)\<rparr>)))"

text \<open>The answer to \<open>createToken\<close> shows the secret once.\<close>

definition token_json :: "'z access_ambient_scheme \<Rightarrow> string \<Rightarrow> string \<Rightarrow> string list \<Rightarrow> moment \<Rightarrow> string \<Rightarrow> any" where
  "token_json a x name scopes expiry secret = GObj [(''expires_at'', GStr (am_time_text a expiry)), (''id'', GStr x),
     (''name'', GStr name), (''revoked'', GBool False), (''scopes'', GArr (map GStr (unique scopes))),
     (''secret'', GStr secret), (''secret_available'', GBool True)]"

definition create_token ::
    "'z access_ambient_scheme \<Rightarrow> Claims \<Rightarrow> string \<Rightarrow> string list \<Rightarrow> moment option \<Rightarrow> 'v access_db \<Rightarrow>
     ((string \<times> any) \<times> 'v access_db) outcome" where
  "create_token a c name scopes expires d =
     then_do (validateCapabilities scopes) (\<lambda>_.
     if \<not> subset_caps scopes (cl_Capabilities c) then failed 403 ''CAPABILITY_CEILING_EXCEEDED''
     else case expires of
       None \<Rightarrow> failed 422 ''INVALID_TOKEN_EXPIRY''
     | Some expiry \<Rightarrow>
         if \<not> am_now a 1 < expiry \<or> am_now a 2 + seconds (365 * 24 * 3600) < expiry then failed 422 ''INVALID_TOKEN_EXPIRY''
         else if MaxTokens \<le> length (db_tokens d) then failed 429 ''TOKEN_CAPACITY_REACHED''
         else let x = new_id a 0; secret = Secret ''ovst_'' (am_bytes a 0); hash = am_Hash a secret in
           then_do (insert_row hash \<lparr>cr_principal = cl_PrincipalID c, cr_epoch = cl_Epoch c, cr_ceiling = Some (unique scopes),
               cr_expires = Unix expiry, cr_revoked = None\<rparr> (db_tokens d)) (\<lambda>tokens.
           then_do (insert_row hash \<lparr>tu_id = x, tu_name = name, tu_created = Unix (am_now a 0), tu_last = 0\<rparr> (db_auth_tokens d)) (\<lambda>uses.
           Inr ((x, token_json a x name scopes expiry secret), d\<lparr>db_tokens := tokens, db_auth_tokens := uses\<rparr>))))"

definition revoke_token ::
    "'z access_ambient_scheme \<Rightarrow> Claims \<Rightarrow> string \<Rightarrow> 'v access_db \<Rightarrow> (string \<times> 'v access_db) outcome" where
  "revoke_token a c x d =
     (case token_owner x d of
        None \<Rightarrow> Inl ErrNoRows
      | Some who \<Rightarrow>
          if who \<noteq> cl_PrincipalID c \<and> ''access.tokens.manage'' \<notin> set (cl_Capabilities c) then failed 403 ''RESOURCE_DENIED''
          else case find (\<lambda>(h, u). tu_id u = x) (db_auth_tokens d) of
                 None \<Rightarrow> Inr (x, d)
               | Some (h, _) \<Rightarrow> Inr (x, d\<lparr>db_tokens := modify_row h
                   (\<lambda>t. t\<lparr>cr_revoked := Some (case cr_revoked t of None \<Rightarrow> Unix (am_now a 0) | Some s \<Rightarrow> s)\<rparr>) (db_tokens d)\<rparr>))"

text \<open>The command itself: the object it names or makes, the answer of a creation, and the new tables.\<close>

definition carry_out ::
    "'z access_ambient_scheme \<Rightarrow> Claims \<Rightarrow> security_command \<Rightarrow> string \<Rightarrow> string \<Rightarrow> string \<Rightarrow> 'v access_db \<Rightarrow>
     ((string \<times> any option) \<times> 'v access_db) outcome" where
  "carry_out a c cmd x expected verifier d =
     (let plain = (\<lambda>r. then_do r (\<lambda>(y, d). Inr ((y, None), d))) in
      case cmd of
        CreateUser name roles _ \<Rightarrow> plain (create_user a c name roles verifier d)
      | ChangeUser _ _ \<Rightarrow> plain (change_user a c x cmd verifier expected d)
      | ChangePassword _ \<Rightarrow> plain (change_user a c x cmd verifier expected d)
      | DeleteUser \<Rightarrow> plain (change_user a c x cmd verifier expected d)
      | CreateRole name caps \<Rightarrow> plain (write_role a c None name caps expected d)
      | ChangeRole name caps \<Rightarrow> plain (write_role a c (Some x) name caps expected d)
      | CreateToken name scopes expires \<Rightarrow>
          then_do (create_token a c name scopes expires d) (\<lambda>((y, body), d). Inr ((y, Some body), d))
      | RevokeToken \<Rightarrow> plain (revoke_token a c x d))"

definition object_kind :: "security_command \<Rightarrow> string" where
  "object_kind cmd = (case cmd of
     CreateRole _ _ \<Rightarrow> ''role'' | ChangeRole _ _ \<Rightarrow> ''role'' | CreateToken _ _ _ \<Rightarrow> ''token'' | RevokeToken \<Rightarrow> ''token''
   | _ \<Rightarrow> ''user'')"

definition security_job :: "string \<Rightarrow> Ref \<Rightarrow> moment \<Rightarrow> Job" where
  "security_job x resource created =
     \<lparr>j_RelatedObjects = [], j_ID = x, j_Sequence = '''', j_State = ''succeeded'', j_Operation = '''', j_Owner = '''',
      j_Capability = '''', j_Resource = Some resource, j_Correlation = '''', j_RequestID = '''', j_RequestDomain = '''',
      j_RequestEpoch = '''', j_Credential = '''', j_ChangeSet = '''', j_Transaction = '''', j_Cancellable = False,
      j_CancelRequested = False, j_Dispatch = '''', j_Business = ''success'', j_Commit = '''', j_Applied = '''',
      j_Confirmation = '''', j_Reason = ''security-operation-completed'', j_Handler = '''', j_Created = created,
      j_Updated = 0, j_Completed = None\<rparr>"

text \<open>The evidence of a command: its finished job (a creation that answers with a body has none), the new policy
  revision and the audit record.\<close>

definition record_job ::
    "'z access_ambient_scheme \<Rightarrow> string \<Rightarrow> Ref \<Rightarrow> any option \<Rightarrow> 'v access_db \<Rightarrow> 'v access_db outcome" where
  "record_job a job resource body d =
     (case body of
        Some _ \<Rightarrow> Inr d
      | None \<Rightarrow> then_do (CreateJob (later 1 a) (security_job job resource (am_now a 0)) d) (\<lambda>(_, d). Inr d))"

definition record_command ::
    "'z access_ambient_scheme \<Rightarrow> Claims \<Rightarrow> string \<Rightarrow> string \<Rightarrow> string \<Rightarrow> Ref \<Rightarrow> any option \<Rightarrow> 'v access_db \<Rightarrow> 'v access_db outcome" where
  "record_command a c op request job resource body d =
     then_do (record_job a job resource body d) (\<lambda>d.
     then_do (audit (later 6 a) c op (ref_ID resource) ''success'' request (Some resource) (if body = None then job else '''')
         (d\<lparr>db_auth_revision := new_id (later 5 a) 0\<rparr>)) (\<lambda>(_, d). Inr d))"

definition command_answer :: "'z access_ambient_scheme \<Rightarrow> string \<Rightarrow> Ref \<Rightarrow> any option \<Rightarrow> Mutation" where
  "command_answer a job resource body =
     \<lparr>mn_Status = (if body = None then 202 else 201), mn_Body = Some (case body of None \<Rightarrow> GObj [] | Some b \<Rightarrow> b),
      mn_BodyBytes = (case body of None \<Rightarrow> 2 | Some b \<Rightarrow> am_json_bytes a b), mn_Resource = Some resource,
      mn_Job = (if body = None then Some \<lparr>ref_Kind = ''job'', ref_ID = job\<rparr> else None), mn_Terminal = True,
      mn_SecretResponse = (body \<noteq> None)\<rparr>"

definition mutate ::
    "'z access_ambient_scheme \<Rightarrow> Claims \<Rightarrow> security_command \<Rightarrow> string \<Rightarrow> string \<Rightarrow> string \<Rightarrow> string \<Rightarrow> 'v access_db \<Rightarrow>
     (Mutation \<times> 'v access_db) outcome" where
  "mutate a c cmd x expected verifier request d =
     then_do (carry_out a c cmd x expected verifier d) (\<lambda>((y, body), d).
     let resource = \<lparr>ref_Kind = object_kind cmd, ref_ID = y\<rparr>; job = new_id (later 3 a) 0 in
     then_do (record_command (later 4 a) c (op_ID (contract_operation cmd)) request job resource body d) (\<lambda>d.
     Inr (command_answer a job resource body, d)))"

section \<open>Execution of a security command\<close>

record security_call =
  sc_command :: security_command
  sc_path :: "string list"
  sc_parameters :: "unit outcome"
  sc_decoded :: "string outcome"
  sc_Method :: string
  sc_URI :: string
  sc_Epoch :: string
  sc_RequestID :: string
  sc_Precondition :: string
  sc_Payload :: "any option"
  sc_PayloadBytes :: nat

definition path_id :: "security_call \<Rightarrow> string" where
  "path_id s = (case sc_path s of [] \<Rightarrow> '''' | x # _ \<Rightarrow> x)"

definition command_password :: "security_command \<Rightarrow> string option" where
  "command_password cmd = (case cmd of CreateUser _ _ p \<Rightarrow> Some p | ChangePassword p \<Rightarrow> Some p | _ \<Rightarrow> None)"

definition security_request :: "8 word list \<Rightarrow> Claims \<Rightarrow> security_call \<Rightarrow> Api_Command" where
  "security_request key c s =
     (let op = contract_operation (sc_command s) in
      \<lparr>ac_Principal = cl_PrincipalID c, ac_Epoch = sc_Epoch s, ac_Domain = ''management'', ac_ID = sc_RequestID s,
       ac_Operation = op_ID op, ac_Method = sc_Method s, ac_URI = sc_URI s, ac_Precondition = sc_Precondition s,
       ac_Credential = cl_CredentialID c, ac_Capability = (case map_of aliases (op_Capability op) of None \<Rightarrow> '''' | Some v \<Rightarrow> v),
       ac_Payload = sc_Payload s, ac_PayloadBytes = sc_PayloadBytes s, ac_Sensitive = op_Sensitive op,
       ac_FingerprintKey = key, ac_SecretResponse = op_SecretResponse op\<rparr>)"

definition check_call :: "'z access_ambient_scheme \<Rightarrow> string \<Rightarrow> security_call \<Rightarrow> 'v access_db \<Rightarrow> Claims outcome" where
  "check_call a credential s d = (let op = contract_operation (sc_command s) in
     checkOperation a credential op (refsFor op (sc_path s)) True d)"

text \<open>The mutation that \<open>Execute\<close> runs in its transaction: the check, the command, the rule that an
  administrator remains, and the use of the credential.\<close>

definition security_tx ::
    "string \<Rightarrow> security_call \<Rightarrow> string \<Rightarrow> 'z access_ambient_scheme \<Rightarrow> 'v access_db \<Rightarrow> (Mutation \<times> 'v access_db) outcome" where
  "security_tx credential s verifier a d =
     then_do (check_call a credential s d) (\<lambda>c.
     then_do (mutate (later 3 a) c (sc_command s) (path_id s) (sc_Precondition s) verifier (sc_RequestID s) d) (\<lambda>(m, d).
     then_do (lastAdministrator d) (\<lambda>_.
     Inr (m, touch (later 20 a) credential c d))))"

text \<open>The password work: nothing for a command without a password.\<close>

definition prepare_password ::
    "bool \<Rightarrow> 'z access_ambient_scheme \<Rightarrow> unit outcome \<Rightarrow> string \<Rightarrow> security_call \<Rightarrow> 'v access_db \<Rightarrow> string outcome" where
  "prepare_password writable a slot credential s d =
     (let op = contract_operation (sc_command s) in
      case command_password (sc_command s) of
        None \<Rightarrow> Inr ''''
      | Some password \<Rightarrow>
          then_do (CheckAuth writable a credential (op_Capability op) (refsFor op (sc_path s)) d) (\<lambda>_.
          then_do slot (\<lambda>_. hashPassword (am_IDKey a) (am_bytes a 2) password)))"

definition ExecuteAuth ::
    "fate \<Rightarrow> bool \<Rightarrow> 8 word list \<Rightarrow> 'z access_ambient_scheme \<Rightarrow> unit outcome \<Rightarrow> ('v access_db \<Rightarrow> 'v access_db) \<Rightarrow> string \<Rightarrow>
     security_call \<Rightarrow> 'v access_db \<Rightarrow> Result outcome \<times> 'v access_db" where
  "ExecuteAuth f writable key a slot others credential s d =
     (case then_do (sc_parameters s) (\<lambda>_.
             if sc_Precondition s \<noteq> '''' \<and> \<not> etagPattern (sc_Precondition s) then failed 428 ''STRONG_PRECONDITION_REQUIRED''
             else then_do (sc_decoded s) (\<lambda>request.
               if request \<noteq> sc_RequestID s then failed 409 ''IDEMPOTENCY_KEY_MISMATCH''
               else prepare_password writable a slot credential s d)) of
        Inl e \<Rightarrow> (Inl e, d)
      | Inr verifier \<Rightarrow>
          let d = others d in
          (case InspectAuth writable (later 3 a) credential d of
             Inl e \<Rightarrow> (Inl e, d)
           | Inr c \<Rightarrow>
               Execute f (later 8 a) ''management'' (security_request key c s)
                 (store_read (then_do (check_call (later 5 a) credential s d) (\<lambda>_. Inr ())))
                 (\<lambda>d. store_read (then_do (check_call (later 8 a) credential s d) (\<lambda>_. Inr ())))
                 (security_tx credential s verifier) d))"

section \<open>Offline role switches\<close>

text \<open>\<open>SetMirrorExecutionRole\<close> and its four siblings, which differ in the capability and in the name of the
  audited operation.\<close>

definition switch_audit :: "'z ambient_scheme \<Rightarrow> string \<Rightarrow> string \<Rightarrow> string \<Rightarrow> Evidence_Record" where
  "switch_audit a op result x = (audit_event a no_claims op '''' result '''' (Some \<lparr>ref_Kind = ''role'', ref_ID = x\<rparr>) '''')
     \<lparr>ev_Reason := ''offline-root-policy'', ev_Critical := False\<rparr>"

definition set_role_tx ::
    "'z access_ambient_scheme \<Rightarrow> string \<Rightarrow> string \<Rightarrow> string \<Rightarrow> bool \<Rightarrow> 'v access_db \<Rightarrow> (unit \<times> 'v access_db) outcome" where
  "set_role_tx a cap op x enabled d =
     (case (map_of (db_roles d) x, map_of (db_auth_roles d) x) of
        (Some blob, Some _) \<Rightarrow>
          (case blob of
             None \<Rightarrow> Inl ErrUnavailable
           | Some caps \<Rightarrow>
               (case validateCapabilities caps of
                  Inl _ \<Rightarrow> Inl ErrUnavailable
                | Inr _ \<Rightarrow>
                    if (cap \<in> set caps) = enabled then Inr ((), d)
                    else let kept = filter (\<lambda>v. v \<noteq> cap) caps; new = (if enabled then kept @ [cap] else kept) in
                      then_do (Append a (switch_audit a op (if enabled then ''granted'' else ''revoked'') x)
                          (d\<lparr>db_roles := modify_row x (\<lambda>_. Some (unique new)) (db_roles d),
                             db_auth_roles := modify_row x (\<lambda>(n, r). (n, new_id (later 2 a) 0)) (db_auth_roles d)\<rparr>))
                        (\<lambda>(_, d). Inr ((), d))))
      | _ \<Rightarrow> failed 404 ''ROLE_NOT_FOUND'')"

definition set_role ::
    "fate \<Rightarrow> 'z access_ambient_scheme \<Rightarrow> string \<Rightarrow> string \<Rightarrow> string \<Rightarrow> bool \<Rightarrow> 'v access_db \<Rightarrow> unit outcome \<times> 'v access_db" where
  "set_role f a cap op x enabled d =
     (if \<not> ManagementID x then (failed 422 ''INVALID_ROLE'', d) else store_write f (set_role_tx a cap op x enabled) d)"

definition SetMirrorExecutionRole where
  "SetMirrorExecutionRole f a = set_role f a ''ovs.mirror.write'' ''mirror-execution-role''"

definition SetStaticTunnelExecutionRole where
  "SetStaticTunnelExecutionRole f a = set_role f a ''ovs.tunnel.static.write'' ''static-tunnel-execution-role''"

definition SetIsolationExecutionRole where
  "SetIsolationExecutionRole f a = set_role f a ''ovs.port.isolation.write'' ''port-isolation-execution-role''"

definition SetMulticastExecutionRole where
  "SetMulticastExecutionRole f a = set_role f a ''ovs.bridge.multicast.write'' ''multicast-execution-role''"

definition SetSpanningTreeExecutionRole where
  "SetSpanningTreeExecutionRole f a = set_role f a SpanningTreeExecutionCapability ''spanning-tree-execution-role''"

end
