(* ===== verification/Access_Safety.thy ===== *)
theory Access_Safety
  imports Access
begin

text \<open>
  What the access operations keep: a credential never gains a capability or comes back to life, no
  operation hands out more than the one who asked for it holds, an administrator remains, and a login
  needs the password and respects the attempt limits. The operations are the steps of a relation that is
  labelled with the capabilities the actor exercised.
\<close>

section \<open>Tables\<close>

lemma map_of_modify_row:
  "map_of (modify_row k f t) j = (if j = k then map_option f (map_of t j) else map_of t j)"
  by (induction t) (auto simp: modify_row_def)

lemma modify_row_keys [simp]: "map fst (modify_row k f t) = map fst t" "length (modify_row k f t) = length t"
  by (induction t) (auto simp: modify_row_def)

lemma access_more:
  fixes d e :: "'v access_db"
  assumes "evidence_db.more e = evidence_db.more d"
  shows "db_epoch e = db_epoch d" "db_principals e = db_principals d" "db_auth_principals e = db_auth_principals d"
    "db_roles e = db_roles d" "db_auth_roles e = db_auth_roles d" "db_principal_roles e = db_principal_roles d"
    "db_grants e = db_grants d" "db_auth_grants e = db_auth_grants d" "db_tokens e = db_tokens d"
    "db_auth_tokens e = db_auth_tokens d" "db_attempts e = db_attempts d" "db_auth_epoch e = db_auth_epoch d"
    "db_auth_watermark e = db_auth_watermark d" "db_auth_revision e = db_auth_revision d"
    "db_witnesses e = db_witnesses d" "db_validations e = db_validations d" "db_execs e = db_execs d"
  using assms by (cases d; cases e; simp)+

text \<open>The tables that decide what a credential may do.\<close>

definition same_people :: "'v access_db \<Rightarrow> 'v access_db \<Rightarrow> bool" where
  "same_people d e \<longleftrightarrow> db_principals e = db_principals d \<and> db_auth_principals e = db_auth_principals d \<and>
     db_roles e = db_roles d \<and> db_auth_roles e = db_auth_roles d \<and> db_principal_roles e = db_principal_roles d"

definition same_credentials :: "'v access_db \<Rightarrow> 'v access_db \<Rightarrow> bool" where
  "same_credentials d e \<longleftrightarrow> db_grants e = db_grants d \<and> db_tokens e = db_tokens d"

definition same_access :: "'v access_db \<Rightarrow> 'v access_db \<Rightarrow> bool" where
  "same_access d e \<longleftrightarrow> same_people d e \<and> same_credentials d e \<and> db_auth_grants e = db_auth_grants d \<and>
     db_auth_tokens e = db_auth_tokens d \<and> db_attempts e = db_attempts d"

lemmas same_defs = same_access_def same_people_def same_credentials_def

lemma same_refl [simp]: "same_access d d" "same_people d d" "same_credentials d d"
  by (simp_all add: same_defs)

lemma same_more:
  assumes "evidence_db.more e = evidence_db.more d"
  shows "same_access d e"
  by (simp add: same_defs access_more [OF assms])

lemma audit_same: "audit a c op target res request ob job d = Inr (u, e) \<Longrightarrow> same_access d e"
proof -
  assume "audit a c op target res request ob job d = Inr (u, e)"
  then obtain x b rows where b: "Append a (audit_event a c op target res request ob job) d = Inr (x, b)"
    "e = b\<lparr>db_auth_audit := rows\<rparr>"
    by (auto simp: audit_def then_do_Inr)
  show ?thesis using same_more [OF Append_frame(4) [OF b(1)]] b(2) by (simp add: same_defs)
qed

lemma CreateJob_same: "CreateJob a j d = Inr (k, e) \<Longrightarrow> same_access d e"
  by (elim CreateJob_Inr) (rule same_more)

lemma watermark_same [simp]: "same_access d (watermark a d)"
  by (simp add: watermark_def same_defs)

lemma touch_same [simp]: "same_people d (touch a credential c d)" "same_credentials d (touch a credential c d)"
  by (simp_all add: touch_def watermark_def same_defs Let_def)

section \<open>Capabilities of principals\<close>

definition role_caps :: "'v access_db \<Rightarrow> string \<Rightarrow> string set" where
  "role_caps d r =
     (case (map_of (db_auth_roles d) r, map_of (db_roles d) r) of
        (Some _, Some (Some caps)) \<Rightarrow> set caps
      | _ \<Rightarrow> {})"

definition granted :: "'v access_db \<Rightarrow> string \<Rightarrow> string set" where
  "granted d x = (\<Union>r\<in>{r. (x, r) \<in> set (db_principal_roles d)}. role_caps d r)"

lemma role_lists_Inr:
  "role_lists blobs = Inr out \<Longrightarrow> x \<in> set out \<longleftrightarrow> (\<exists>caps. Some caps \<in> set blobs \<and> x \<in> set caps)"
  by (induction blobs arbitrary: out) (auto simp: then_do_Inr split: option.splits sum.splits)

lemma roles_of_iff:
  "Some caps \<in> set (roles_of x d) \<longleftrightarrow> (\<exists>r. (x, r) \<in> set (db_principal_roles d) \<and>
     map_of (db_auth_roles d) r \<noteq> None \<and> map_of (db_roles d) r = Some (Some caps))"
  by (force simp: roles_of_def List.map_filter_def split: if_splits)

lemma granted_iff:
  "k \<in> granted d x \<longleftrightarrow> (\<exists>r caps. (x, r) \<in> set (db_principal_roles d) \<and> map_of (db_auth_roles d) r \<noteq> None \<and>
     map_of (db_roles d) r = Some (Some caps) \<and> k \<in> set caps)"
  by (fastforce simp: granted_def role_caps_def split: option.splits if_splits)

lemma capabilities_granted:
  assumes "capabilities x d = Inr caps"
  shows "set caps = granted d x"
proof -
  obtain out where out: "role_lists (roles_of x d) = Inr out" "caps = unique out"
    using assms by (auto simp: capabilities_def then_do_Inr)
  have "k \<in> set caps \<longleftrightarrow> k \<in> granted d x" for k
    using role_lists_Inr [OF out(1), of k] out(2) unfolding roles_of_iff granted_iff by (simp only: unique_set) blast
  then show ?thesis by blast
qed

lemma same_peopleD:
  assumes "same_people d e"
  shows "db_principals e = db_principals d" "db_auth_principals e = db_auth_principals d" "db_roles e = db_roles d"
    "db_auth_roles e = db_auth_roles d" "db_principal_roles e = db_principal_roles d"
  using assms by (simp_all add: same_people_def)

lemma same_people_granted: "same_people d e \<Longrightarrow> granted e x = granted d x"
  unfolding granted_def role_caps_def by (simp only: same_peopleD)

lemma same_people_capabilities: "same_people d e \<Longrightarrow> capabilities x e = capabilities x d"
  unfolding capabilities_def roles_of_def by (simp only: same_peopleD)

lemma granted_within:
  assumes "\<And>r. role_caps e r \<subseteq> role_caps d r \<union> A"
    and "\<And>p r. (p, r) \<in> set (db_principal_roles e) \<Longrightarrow> (p, r) \<in> set (db_principal_roles d) \<or> role_caps e r \<subseteq> A"
  shows "granted e x \<subseteq> granted d x \<union> A"
  using assms unfolding granted_def by fastforce

section \<open>Claims\<close>

lemma claims_Inr:
  assumes "claims a credential d = Inr c"
  obtains v caps where "find_credential a credential d = Some v"
    and "\<not> credential_dead (db_auth_epoch d) (Unix (am_now a 1)) v"
    and "cr_ceiling (cv_row v) = Some caps" and "set (cl_Capabilities c) = granted d (cl_PrincipalID c) \<inter> set caps"
    and "cl_PrincipalID c = cv_principal v" and "cl_CredentialKind c = cv_kind v" and "cl_CredentialID c = cv_id v"
    and "cl_ExpiresAt c = of_Unix (cr_expires (cv_row v))" and "cl_ElevatedUntil c = of_Unix (cv_elevated v)"
    and "cl_Epoch c = db_auth_epoch d" and "cl_RequestEpoch c = db_epoch d" and "cl_Revision c = db_auth_revision d"
    and "db_auth_watermark d \<le> UnixMilli (am_now a 0)"
proof -
  obtain v where clk: "\<not> UnixMilli (am_now a 0) < db_auth_watermark d" and v: "find_credential a credential d = Some v"
    "\<not> credential_dead (db_auth_epoch d) (Unix (am_now a 1)) v"
    using assms by (auto simp: claims_def clock_def then_do_def split: option.splits if_splits)
  obtain caps current where caps: "cr_ceiling (cv_row v) = Some caps" "capabilities (cv_principal v) d = Inr current"
    and c: "c = \<lparr>cl_PrincipalID = cv_principal v, cl_CredentialID = cv_id v, cl_CredentialKind = cv_kind v,
       cl_DisplayName = cv_name v, cl_Capabilities = intersection current caps, cl_Revision = db_auth_revision d,
       cl_Epoch = db_auth_epoch d, cl_RequestEpoch = db_epoch d, cl_IssuedAt = of_Unix (cv_issued v),
       cl_ExpiresAt = of_Unix (cr_expires (cv_row v)), cl_ElevatedUntil = of_Unix (cv_elevated v)\<rparr>"
    using assms v clk by (auto simp: claims_def clock_def then_do_Inr split: option.splits sum.splits)
  show ?thesis
    by (rule that [OF v caps(1)]) (use clk c capabilities_granted [OF caps(2)] in simp_all)
qed

section \<open>Credentials only lose\<close>

definition credential_le :: "credential_row \<Rightarrow> credential_row \<Rightarrow> bool" where
  "credential_le g h \<longleftrightarrow> cr_principal h = cr_principal g \<and> cr_epoch h = cr_epoch g \<and> cr_ceiling h = cr_ceiling g \<and>
     cr_expires h = cr_expires g \<and> (\<forall>t. cr_revoked g = Some t \<longrightarrow> cr_revoked h = Some t)"

definition rows_le :: "credential_row tab \<Rightarrow> credential_row tab \<Rightarrow> bool" where
  "rows_le t u \<longleftrightarrow> (\<forall>k g. map_of t k = Some g \<longrightarrow> (\<exists>h. map_of u k = Some h \<and> credential_le g h))"

definition vault_le :: "'v access_db \<Rightarrow> 'v access_db \<Rightarrow> bool" where
  "vault_le d e \<longleftrightarrow> rows_le (db_grants d) (db_grants e) \<and> rows_le (db_tokens d) (db_tokens e)"

lemma credential_le_refl [simp]: "credential_le g g"
  by (simp add: credential_le_def)

lemma rows_le_refl [simp]: "rows_le t t"
  by (auto simp: rows_le_def)

lemma credential_le_trans: "credential_le g h \<Longrightarrow> credential_le h k \<Longrightarrow> credential_le g k"
  by (simp add: credential_le_def)

lemma rows_le_trans: "rows_le t u \<Longrightarrow> rows_le u v \<Longrightarrow> rows_le t v"
  unfolding rows_le_def by (meson credential_le_trans)

interpretation vault: store_order vault_le
  by unfold_locales (auto simp: vault_le_def intro: rows_le_trans)

lemma same_credentials_le: "same_credentials d e \<Longrightarrow> vault_le d e"
  by (simp add: vault_le_def same_credentials_def)

lemma rows_le_insert: "insert_row k g t = Inr u \<Longrightarrow> rows_le t u"
  by (auto simp: rows_le_def insert_row_Inr map_of_snoc split: option.splits)

lemma rows_le_modify: "(\<And>g. map_of t k = Some g \<Longrightarrow> credential_le g (f g)) \<Longrightarrow> rows_le t (modify_row k f t)"
  by (auto simp: rows_le_def map_of_modify_row)

lemma map_of_revoke_rows:
  "map_of (revoke_rows x now t) k =
     map_option (\<lambda>g. if cr_principal g = x \<and> cr_revoked g = None then g\<lparr>cr_revoked := Some now\<rparr> else g) (map_of t k)"
  by (induction t) (auto simp: revoke_rows_def)

lemma rows_le_revoke [simp]: "rows_le t (revoke_rows x now t)"
  by (auto simp: rows_le_def map_of_revoke_rows credential_le_def)

lemma invalidate_le [simp]: "vault_le d (invalidatePrincipal a x d)"
  by (simp add: vault_le_def invalidatePrincipal_def)

lemma invalidate_same [simp]: "same_people d (invalidatePrincipal a x d)"
  by (simp add: same_people_def invalidatePrincipal_def)

section \<open>What a command changes\<close>

lemma assignable_caps:
  "assignable c roles d = Inr u \<Longrightarrow> r \<in> set roles \<Longrightarrow> role_caps d r \<subseteq> set (cl_Capabilities c)"
  by (induction roles) (auto simp: then_do_Inr role_caps_def split: if_splits option.splits sum.splits)

lemma roleAssignment_caps:
  "roleAssignment c roles d = Inr u \<Longrightarrow> r \<in> set roles \<Longrightarrow> role_caps d r \<subseteq> set (cl_Capabilities c)"
  by (auto simp: roleAssignment_def split: if_splits dest: assignable_caps)

lemma replaceRoles_Inr:
  assumes "replaceRoles x roles d = Inr e"
  shows "same_credentials d e" "db_principals e = db_principals d" "db_auth_principals e = db_auth_principals d"
    "role_caps e = role_caps d"
    "set (db_principal_roles e) = {(p, r) \<in> set (db_principal_roles d). p \<noteq> x} \<union> {x} \<times> set roles"
  using assms by (auto simp: replaceRoles_def same_defs role_caps_def split: if_splits)

lemma role_caps_cong:
  "db_roles e = db_roles d \<Longrightarrow> db_auth_roles e = db_auth_roles d \<Longrightarrow> role_caps e = role_caps d"
  by (rule ext) (simp add: role_caps_def)

text \<open>Every command: credentials only lose, and nobody is granted more than the actor has.\<close>

definition bounded_change :: "string set \<Rightarrow> 'v access_db \<Rightarrow> 'v access_db \<Rightarrow> bool" where
  "bounded_change A d e \<longleftrightarrow> vault_le d e \<and> (\<forall>x. granted e x \<subseteq> granted d x \<union> A)"

lemma bounded_same: "same_people d e \<Longrightarrow> vault_le d e \<Longrightarrow> bounded_change A d e"
  by (simp add: bounded_change_def same_people_granted)

lemma bounded_change_cong:
  assumes "bounded_change A d e" and "db_grants f = db_grants e" "db_tokens f = db_tokens e" "db_roles f = db_roles e"
    "db_auth_roles f = db_auth_roles e" "db_principal_roles f = db_principal_roles e"
  shows "bounded_change A d f"
  using assms by (simp add: bounded_change_def vault_le_def granted_def role_caps_cong [of f e])

lemma bounded_trans: "bounded_change A d e \<Longrightarrow> bounded_change B e f \<Longrightarrow> bounded_change (A \<union> B) d f"
  unfolding bounded_change_def using vault.le_trans by (metis (no_types, lifting) Un_mono Un_assoc order_refl subset_trans)

lemma bounded_same_after: "bounded_change A d e \<Longrightarrow> same_people e f \<Longrightarrow> vault_le e f \<Longrightarrow> bounded_change A d f"
  using bounded_trans [of A d e "{}" f] bounded_same [of e f "{}"] by simp

lemma bounded_roles:
  assumes "role_caps e = role_caps d" and "set (db_principal_roles e) = {(p, r) \<in> set (db_principal_roles d). p \<noteq> x} \<union> {x} \<times> set roles"
    and "\<And>r. r \<in> set roles \<Longrightarrow> role_caps d r \<subseteq> A" and "vault_le d e"
  shows "bounded_change A d e"
proof -
  have "granted e y \<subseteq> granted d y \<union> A" for y
    by (rule granted_within) (use assms(1-3) in auto)
  then show ?thesis using assms(4) by (simp add: bounded_change_def)
qed

lemma create_user_bounded:
  assumes "create_user a c name roles verifier d = Inr (x, e)"
  shows "bounded_change (set (cl_Capabilities c)) d e"
proof -
  obtain ps aps where r: "roleAssignment c roles d = Inr ()"
    "replaceRoles x roles (d\<lparr>db_principals := ps, db_auth_principals := aps\<rparr>) = Inr e"
    using assms by (auto simp: create_user_def then_do_Inr Let_def split: if_splits)
  note e = replaceRoles_Inr [OF r(2)]
  show ?thesis
    by (rule bounded_roles [of e d x roles])
      (use e roleAssignment_caps [OF r(1)] in \<open>auto simp: same_defs vault_le_def role_caps_def cong: option.case_cong\<close>)
qed

lemma change_principal_bounded:
  assumes "change_principal a c x cmd verifier d = Inr f"
  shows "bounded_change (set (cl_Capabilities c)) d f"
proof (cases "\<exists>roles disabled. cmd = ChangeUser roles disabled")
  case True
  then obtain roles disabled where cmd: "cmd = ChangeUser roles disabled" by blast
  obtain g where r: "roleAssignment c roles d = Inr ()" "replaceRoles x roles d = Inr g"
    and fg: "f = (if disabled then invalidatePrincipal a x (set_disabled x disabled g) else set_disabled x disabled g)"
    using assms unfolding change_principal_def cmd by (auto simp: then_do_Inr Let_def)
  note g = replaceRoles_Inr [OF r(2)]
  have "role_caps f = role_caps g" "db_principal_roles f = db_principal_roles g" "vault_le g f"
    unfolding fg by (auto simp: set_disabled_def invalidatePrincipal_def vault_le_def intro!: role_caps_cong)
  moreover have "vault_le d g" using g(1) by (rule same_credentials_le)
  ultimately show ?thesis
    by (intro bounded_roles [of f d x roles]) (use g(4,5) roleAssignment_caps [OF r(1)] vault.le_trans in auto)
next
  case False
  have "db_roles f = db_roles d" "db_auth_roles f = db_auth_roles d" and
    keep: "set (db_principal_roles f) \<subseteq> set (db_principal_roles d)" "vault_le d f"
    using assms False
    by (auto simp: change_principal_def then_do_Inr replaceRoles_def invalidatePrincipal_def vault_le_def
        split: security_command.splits)
  then have "role_caps f = role_caps d" by (intro role_caps_cong)
  then show ?thesis using keep unfolding bounded_change_def granted_def by auto
qed

lemma change_user_bounded:
  assumes "change_user a c x cmd verifier expected d = Inr (y, e)"
  shows "bounded_change (set (cl_Capabilities c)) d e"
proof -
  obtain f where "change_principal (later 1 a) c x cmd verifier d = Inr f"
    "e = f\<lparr>db_auth_principals := modify_row x (\<lambda>(r, t). (new_id a 0, t)) (db_auth_principals f)\<rparr>"
    using assms by (auto simp: change_user_def then_do_Inr)
  then show ?thesis by (intro bounded_change_cong [OF change_principal_bounded]) simp_all
qed

lemma write_role_bounded:
  assumes "write_role a c target name caps expected d = Inr (x, e)"
  shows "bounded_change (set (cl_Capabilities c)) d e"
proof -
  have caps: "set caps \<subseteq> set (cl_Capabilities c)" and keep: "vault_le d e" "db_principal_roles e = db_principal_roles d"
    and roles: "role_caps e r \<subseteq> role_caps d r \<union> set caps" for r
    using assms
    by (auto simp: write_role_def then_do_Inr Let_def role_caps_def insert_row_Inr map_of_snoc map_of_modify_row vault_le_def
        split: if_splits option.splits)
  have "granted e y \<subseteq> granted d y \<union> set (cl_Capabilities c)" for y
    by (rule granted_within) (use caps roles keep in auto)
  then show ?thesis using keep by (simp add: bounded_change_def)
qed

lemma create_token_bounded:
  assumes "create_token a c name scopes expires d = Inr (y, e)"
  shows "same_people d e" "vault_le d e"
  using assms by (auto simp: create_token_def then_do_Inr Let_def same_people_def vault_le_def
      split: if_splits option.splits dest: rows_le_insert)

lemma revoke_token_bounded:
  assumes "revoke_token a c x d = Inr (y, e)"
  shows "same_people d e" "vault_le d e"
  using assms by (auto simp: revoke_token_def same_people_def vault_le_def credential_le_def
      split: if_splits option.splits intro!: rows_le_modify)

lemma carry_out_bounded:
  assumes "carry_out a c cmd x expected verifier d = Inr (y, e)"
  shows "bounded_change (set (cl_Capabilities c)) d e"
  using assms
  by (auto simp: carry_out_def then_do_Inr Let_def split: security_command.splits
      dest: create_user_bounded change_user_bounded write_role_bounded create_token_bounded revoke_token_bounded intro: bounded_same)

lemma record_job_same: "record_job a job resource body d = Inr e \<Longrightarrow> same_access d e"
  by (auto simp: record_job_def then_do_Inr split: option.splits dest: CreateJob_same)

lemma same_access_trans: "same_access d e \<Longrightarrow> same_access e f \<Longrightarrow> same_access d f"
  by (simp add: same_defs)

lemma record_command_same:
  assumes "record_command a c op request job resource body d = Inr e"
  shows "same_access d e"
proof -
  obtain f where f: "record_job a job resource body d = Inr f"
    and e: "audit (later 6 a) c op (ref_ID resource) ''success'' request (Some resource) (if body = None then job else '''')
         (f\<lparr>db_auth_revision := new_id (later 5 a) 0\<rparr>) = Inr ((), e)"
    using assms by (auto simp: record_command_def then_do_Inr)
  have "same_access f e" using audit_same [OF e] by (simp add: same_defs)
  then show ?thesis by (rule same_access_trans [OF record_job_same [OF f]])
qed

lemma same_accessD:
  assumes "same_access d e"
  shows "same_people d e" "same_credentials d e" "vault_le d e" "db_auth_grants e = db_auth_grants d"
    "db_auth_tokens e = db_auth_tokens d" "db_attempts e = db_attempts d"
  using assms by (simp_all add: same_defs vault_le_def)

lemma mutate_Inr:
  assumes "mutate a c cmd x expected verifier request d = Inr (m, e)"
  obtains y body f where "carry_out a c cmd x expected verifier d = Inr ((y, body), f)" and "same_access f e"
    and "mn_SecretResponse m = (body \<noteq> None)"
  using assms by (auto simp: mutate_def then_do_Inr Let_def command_answer_def dest: record_command_same)

lemma mutate_bounded:
  assumes "mutate a c cmd x expected verifier request d = Inr (m, e)"
  shows "bounded_change (set (cl_Capabilities c)) d e"
  by (rule mutate_Inr [OF assms]) (metis bounded_same_after carry_out_bounded same_accessD(1,3))

lemma security_tx_Inr:
  assumes "security_tx credential s verifier a d = Inr (m, e)"
  obtains c f where "check_call a credential s d = Inr c"
    and "mutate (later 3 a) c (sc_command s) (path_id s) (sc_Precondition s) verifier (sc_RequestID s) d = Inr (m, f)"
    and "lastAdministrator f = Inr ()" and "same_people f e" and "same_credentials f e"
    and "e = touch (later 20 a) credential c f"
  using assms by (auto simp: security_tx_def then_do_Inr)

end
