(* ===== verification/Access_Runs.thy ===== *)
theory Access_Runs
  imports Access_Safety
begin

text \<open>
  The access operations as a step relation. A step is labelled with the capabilities its actor exercised:
  none for a login, the actor's claims for a security command, the switched capability for an offline
  switch. A run is any interleaving of steps; the calls that work outside the gate between two
  transactions are runs themselves.
\<close>

section \<open>Administrators\<close>

definition administrates :: "'v access_db \<Rightarrow> string \<Rightarrow> bool" where
  "administrates d x =
     (case capabilities x d of Inr caps \<Rightarrow> subset_caps allCapabilities caps | Inl _ \<Rightarrow> False)"

definition administrator :: "'v access_db \<Rightarrow> bool" where
  "administrator d \<longleftrightarrow> list_ex (administrates d) (local_principals d)"

lemma some_administrator_Inr: "some_administrator xs d = Inr u \<Longrightarrow> list_ex (administrates d) xs"
  by (induction xs) (auto simp: then_do_Inr administrates_def split: if_splits)

lemma lastAdministrator_Inr: "lastAdministrator d = Inr u \<Longrightarrow> administrator d"
  unfolding lastAdministrator_def administrator_def by (rule some_administrator_Inr)

lemma same_people_administrator:
  assumes "same_people d e"
  shows "administrator e = administrator d"
proof -
  have "administrates e = administrates d"
    by (rule ext) (simp add: administrates_def same_people_capabilities [OF assms])
  moreover have "local_principals e = local_principals d"
    unfolding local_principals_def same_peopleD [OF assms] ..
  ultimately show ?thesis by (simp add: administrator_def)
qed

lemma administrator_principals: "administrator d \<Longrightarrow> db_principals d \<noteq> []"
  by (auto simp: administrator_def local_principals_def)

text \<open>The five capabilities that are switched offline are known and belong to no template.\<close>

definition switched :: "string list" where
  "switched = [''ovs.mirror.write'', ''ovs.tunnel.static.write'', ''ovs.bridge.multicast.write'', ''ovs.port.isolation.write'',
     SpanningTreeExecutionCapability]"

lemma known_iff: "knownCapability c \<longleftrightarrow> c \<in> set switched \<or> c \<in> set allCapabilities"
  unfolding switched_def knownCapability_def list.set insert_iff empty_iff by (simp only: disj_assoc simp_thms)

lemma switched_known: "c \<in> set switched \<Longrightarrow> knownCapability c"
  by (simp add: known_iff)

lemma switched_extra_all:
  "list_all (\<lambda>c. \<not> list_ex ((=) c) (readCapabilities @ networkCapabilities @ securityCapabilities @ managementCapabilities)) switched"
  by code_simp

lemma switched_extra: "c \<in> set switched \<Longrightarrow> c \<notin> set allCapabilities"
  using switched_extra_all by (auto simp: list_all_iff list_ex_iff allCapabilities_def)

lemma known_few: "distinct vs \<Longrightarrow> \<forall>c\<in>set vs. knownCapability c \<Longrightarrow> length vs \<le> 128"
proof -
  assume vs: "distinct vs" "\<forall>c\<in>set vs. knownCapability c"
  let ?all = "switched @ readCapabilities @ networkCapabilities @ securityCapabilities @ managementCapabilities"
  have "set vs \<subseteq> set ?all" using vs(2) by (auto simp: known_iff allCapabilities_def)
  then have "card (set vs) \<le> card (set ?all)" by (intro card_mono) simp_all
  also have "\<dots> \<le> length ?all" by (rule card_length)
  also have "\<dots> \<le> 128"
    by (simp add: switched_def readCapabilities_def networkCapabilities_def securityCapabilities_def managementCapabilities_def)
  finally show ?thesis using distinct_card [OF vs(1)] by simp
qed

lemma validate_switch:
  assumes "validateCapabilities caps = Inr ()" and "cap \<in> set switched"
  shows "validateCapabilities (unique (filter (\<lambda>v. v \<noteq> cap) caps @ (if b then [cap] else []))) = Inr ()"
    (is "validateCapabilities ?new = _")
proof -
  have known: "\<forall>c\<in>set ?new. knownCapability c" using assms switched_known by auto
  show ?thesis using known_few [OF unique_sorted(2) known] unique_sorted(2) known by simp
qed

section \<open>Steps and runs\<close>

definition command_ambient :: "'z access_ambient_scheme \<Rightarrow> Api_Command \<Rightarrow> 'z access_ambient_scheme" where
  "command_ambient a q = with_command ''management'' q (new_id a 0) (later 1 a)"

definition exercised :: "'z access_ambient_scheme \<Rightarrow> Api_Command \<Rightarrow> string \<Rightarrow> security_call \<Rightarrow> 'v access_db \<Rightarrow> string set" where
  "exercised a q credential s d =
     (case check_call (command_ambient a q) credential s d of Inr c \<Rightarrow> set (cl_Capabilities c) | Inl _ \<Rightarrow> {})"

inductive access_step :: "string set \<Rightarrow> 'v access_db \<Rightarrow> 'v access_db \<Rightarrow> bool" where
  bootstrap: "Bootstrap f (a :: access_ambient) templates username password d = (r, e) \<Longrightarrow> set templates = set Templates \<Longrightarrow>
    access_step (set allCapabilities) d e"
| attempted: "attempt f (a :: access_ambient) username d = (r, e) \<Longrightarrow> access_step {} d e"
| login: "store_write f (authenticate_tx (a :: access_ambient) denied x verifier) d = (r, e) \<Longrightarrow> access_step {} d e"
| elevate: "store_write f (reauthenticate_tx (a :: access_ambient) credential valid verifier) d = (r, e) \<Longrightarrow> access_step {} d e"
| logout: "RevokeAuth f (a :: access_ambient) credential d = (r, e) \<Longrightarrow> access_step {} d e"
| command: "Execute f (a :: access_ambient) ''management'' q authorized reauthorize (security_tx credential s verifier) d = (r, e) \<Longrightarrow>
    access_step (exercised a q credential s d) d e"
| switch: "set_role f (a :: access_ambient) cap op x enabled d = (r, e) \<Longrightarrow> cap \<in> set switched \<Longrightarrow>
    access_step (if enabled then {cap} else {}) d e"
| used: "access_step {} d (touch (a :: access_ambient) credential c d)"
| elsewhere: "same_access d e \<Longrightarrow> access_step {} d e"

text \<open>Runs whose actors exercise capabilities of \<open>A\<close> only.\<close>

inductive access_runs :: "string set \<Rightarrow> 'v access_db \<Rightarrow> 'v access_db \<Rightarrow> bool" for A where
  none: "access_runs A d d"
| more: "access_runs A d e \<Longrightarrow> access_step B e f \<Longrightarrow> B \<subseteq> A \<Longrightarrow> access_runs A d f"

lemma access_runs_trans:
  assumes "access_runs A e f" and "access_runs A d e"
  shows "access_runs A d f"
  using assms by (induction rule: access_runs.induct) (auto intro: access_runs.more)

lemma access_runs_step: "access_step B d e \<Longrightarrow> B \<subseteq> A \<Longrightarrow> access_runs A d e"
  by (rule access_runs.more [OF access_runs.none])

section \<open>What each step keeps\<close>

text \<open>Operations that leave principals and roles alone and only add or revoke credentials.\<close>

definition quiet :: "'v access_db \<Rightarrow> 'v access_db \<Rightarrow> bool" where
  "quiet d e \<longleftrightarrow> same_people d e \<and> vault_le d e"

interpretation quiet: store_order quiet
proof
  show "quiet d d" for d :: "'v access_db" by (simp add: quiet_def vault.le_refl)
  show "quiet d f" if "quiet d e" "quiet e f" for d e f :: "'v access_db"
    using that vault.le_trans by (auto simp: quiet_def same_people_def)
qed

lemma same_quiet: "same_access d e \<Longrightarrow> quiet d e"
  by (simp add: quiet_def same_accessD)

lemma quiet_bounded: "quiet d e \<Longrightarrow> bounded_change {} d e"
  by (simp add: quiet_def bounded_same)

lemma attempt_quiet: "quiet.climbs (attempt_tx a username)"
  unfolding quiet.climbs_def
  by (auto simp: attempt_tx_def then_do_Inr Let_def quiet_def same_defs vault_le_def watermark_def split: if_splits)

lemma touch_quiet [simp]: "quiet d (touch a credential c d)"
  by (simp add: quiet_def same_credentials_le)

lemma issue_grant_quiet: "issue_grant a x epoch caps d = Inr (g, e) \<Longrightarrow> quiet d e"
  by (auto simp: issue_grant_def Let_def then_do_Inr quiet_def same_people_def vault_le_def dest: rows_le_insert)

lemma reject_quiet: "reject_login a d = Inr (r, e) \<Longrightarrow> quiet d e"
  by (auto simp: reject_login_def then_do_Inr dest!: audit_same intro: same_quiet)

lemma watermark_quiet [simp]: "quiet d (watermark a d)"
  by (rule same_quiet) simp

lemma authenticate_quiet: "quiet.climbs (authenticate_tx a denied x verifier)"
  unfolding quiet.climbs_def
proof (intro allI impI)
  fix d r e
  assume tx: "authenticate_tx a denied x verifier d = Inr (r, e)"
  show "quiet d e"
  proof (cases "reject_login a d = Inr (r, e)")
    case False
    then obtain epoch caps grant f c u g where f: "issue_grant a x epoch caps d = Inr (grant, f)"
      and g: "audit (later 6 a) c ''authenticate'' x ''success'' '''' None '''' f = Inr (u, g)" and e: "e = watermark (later 8 a) g"
      using tx by (auto simp: authenticate_tx_def then_do_Inr split: if_splits prod.splits)
    show ?thesis
      unfolding e by (meson quiet.le_trans issue_grant_quiet [OF f] same_quiet [OF audit_same [OF g]] watermark_quiet)
  qed (rule reject_quiet)
qed

lemma raise_quiet [simp]: "quiet d (raise_elevation hash until d)"
  by (simp add: quiet_def raise_elevation_def same_defs vault_le_def)

lemma audited_quiet: "audit a c op target res request ob job d = Inr (u, e) \<Longrightarrow> quiet d e"
  by (rule same_quiet) (rule audit_same)

lemma reauthenticate_tx_Inr:
  assumes "reauthenticate_tx a credential valid verifier d = Inr (r, e)"
  obtains (refused) c u where "claims a credential d = Inr c" and "r = None"
      and "audit (later 2 a) c ''reauthenticate'' (cl_PrincipalID c) ''rejected'' '''' None '''' d = Inr (u, e)"
  | (raised) c p until u g where "claims a credential d = Inr c" and "map_of (db_principals d) (cl_PrincipalID c) = Some p"
      and "valid" and "pr_verifier p = verifier" and "until \<le> am_now a 2 + Elevation" and "until \<le> cl_ExpiresAt c"
      and "r = Some (c\<lparr>cl_ElevatedUntil := until\<rparr>)"
      and "audit (later 3 a) (c\<lparr>cl_ElevatedUntil := until\<rparr>) ''reauthenticate'' (cl_PrincipalID c) ''success'' '''' None ''''
        (raise_elevation (am_Hash a credential) until d) = Inr (u, g)"
      and "e = touch (later 5 a) credential (c\<lparr>cl_ElevatedUntil := until\<rparr>) g"
proof -
  obtain c p where c: "claims a credential d = Inr c" and p: "map_of (db_principals d) (cl_PrincipalID c) = Some p"
    and rest: "(if \<not> (valid \<and> pr_verifier p = verifier)
     then then_do (audit (later 2 a) c ''reauthenticate'' (cl_PrincipalID c) ''rejected'' '''' None '''' d) (\<lambda>(_, d). Inr (None, d))
     else let until = am_now a 2 + Elevation;
              until = (if cl_ExpiresAt c < until then cl_ExpiresAt c else until);
              c = c\<lparr>cl_ElevatedUntil := until\<rparr> in
       then_do (audit (later 3 a) c ''reauthenticate'' (cl_PrincipalID c) ''success'' '''' None ''''
           (raise_elevation (am_Hash a credential) until d)) (\<lambda>(_, d).
       Inr (Some c, touch (later 5 a) credential c d))) = Inr (r, e)"
    using assms unfolding reauthenticate_tx_def by (elim then_doE) simp
  define until where "until = (if cl_ExpiresAt c < am_now a 2 + Elevation then cl_ExpiresAt c else am_now a 2 + Elevation)"
  show ?thesis
  proof (cases "valid \<and> pr_verifier p = verifier")
    case True
    then have "then_do (audit (later 3 a) (c\<lparr>cl_ElevatedUntil := until\<rparr>) ''reauthenticate'' (cl_PrincipalID c) ''success'' '''' None ''''
           (raise_elevation (am_Hash a credential) until d))
         (\<lambda>(_, d). Inr (Some (c\<lparr>cl_ElevatedUntil := until\<rparr>), touch (later 5 a) credential (c\<lparr>cl_ElevatedUntil := until\<rparr>) d)) = Inr (r, e)"
      using rest by (simp add: Let_def until_def)
    then obtain u g where "audit (later 3 a) (c\<lparr>cl_ElevatedUntil := until\<rparr>) ''reauthenticate'' (cl_PrincipalID c) ''success'' '''' None ''''
           (raise_elevation (am_Hash a credential) until d) = Inr (u, g)" "r = Some (c\<lparr>cl_ElevatedUntil := until\<rparr>)"
      "e = touch (later 5 a) credential (c\<lparr>cl_ElevatedUntil := until\<rparr>) g"
      by (auto simp: then_do_Inr)
    then show ?thesis using True by (intro raised [OF c p]) (auto simp: until_def)
  next
    case False
    then show ?thesis using rest by (auto simp: then_do_Inr intro: refused [OF c])
  qed
qed

lemma reauthenticate_quiet: "quiet.climbs (reauthenticate_tx a credential valid verifier)"
  unfolding quiet.climbs_def
proof (intro allI impI)
  fix d r e
  assume "reauthenticate_tx a credential valid verifier d = Inr (r, e)"
  then show "quiet d e"
  proof (cases rule: reauthenticate_tx_Inr)
    case refused
    then show ?thesis by (intro audited_quiet)
  next
    case raised
    then show ?thesis
      using quiet.le_trans [OF quiet.le_trans [OF raise_quiet audited_quiet [OF raised(8)]] touch_quiet] by simp
  qed
qed

lemma find_credential_grant:
  assumes "find_credential a credential d = Some v" and "cv_kind v = ''grant''"
  shows "map_of (db_grants d) (am_Hash a credential) = Some (cv_row v)"
  using assms by (auto simp: find_credential_def grant_view_def token_view_def with_principal_def split: if_splits option.splits)

lemma revoke_quiet: "quiet.climbs (revoke_auth_tx a credential)"
  unfolding quiet.climbs_def
proof (intro allI impI)
  fix d r e
  assume tx: "revoke_auth_tx a credential d = Inr (r, e)"
  obtain c where c: "claims a credential d = Inr c" and rest: "(if cl_CredentialKind c \<noteq> ''grant'' then failed 403 ''BROWSER_SESSION_REQUIRED''
     else then_do (audit (later 3 a) c ''revoke-session'' (cl_CredentialID c) ''success'' '''' None ''''
              (revoke_grant (am_Hash a credential) (Unix (am_now a 2)) d)) (\<lambda>(_, d).
            Inr ((), watermark (later 5 a) d))) = Inr (r, e)"
    using tx unfolding revoke_auth_tx_def by (elim then_doE)
  then obtain g u where g: "audit (later 3 a) c ''revoke-session'' (cl_CredentialID c) ''success'' '''' None ''''
      (revoke_grant (am_Hash a credential) (Unix (am_now a 2)) d) = Inr (u, g)" "e = watermark (later 5 a) g"
    and kind: "cl_CredentialKind c = ''grant''"
    by (auto simp: then_do_Inr split: if_splits)
  obtain v where v: "find_credential a credential d = Some v" "\<not> credential_dead (db_auth_epoch d) (Unix (am_now a 1)) v"
    "cv_kind v = ''grant''"
    by (rule claims_Inr [OF c]) (use kind in auto)
  have "cr_revoked (cv_row v) = None" using v(2) by (simp add: credential_dead_def)
  then have "quiet d (revoke_grant (am_Hash a credential) (Unix (am_now a 2)) d)"
    using find_credential_grant [OF v(1,3)]
    by (auto simp: quiet_def revoke_grant_def same_people_def vault_le_def credential_le_def intro!: rows_le_modify)
  then show "quiet d e"
    unfolding g(2) by (meson quiet.le_trans audited_quiet [OF g(1)] watermark_quiet)
qed

section \<open>Roles and administrators\<close>

lemma roles_of_blob:
  "blob \<in> set (roles_of x d) \<longleftrightarrow> (\<exists>r. (x, r) \<in> set (db_principal_roles d) \<and>
     map_of (db_auth_roles d) r \<noteq> None \<and> map_of (db_roles d) r = Some blob)"
  by (force simp: roles_of_def List.map_filter_def split: if_splits)

definition valid_blob :: "string list option \<Rightarrow> bool" where
  "valid_blob blob \<longleftrightarrow> (\<exists>caps. blob = Some caps \<and> validateCapabilities caps = Inr ())"

lemma valid_blob_simps [simp]: "\<not> valid_blob None" "valid_blob (Some caps) \<longleftrightarrow> validateCapabilities caps = Inr ()"
  by (simp_all add: valid_blob_def)

lemma role_lists_ok: "(\<exists>out. role_lists blobs = Inr out) \<longleftrightarrow> list_all valid_blob blobs"
proof (induction blobs)
  case (Cons blob blobs)
  then show ?case
    by (cases blob) (auto simp: then_do_Inr simp del: validateCapabilities_Inr split: sum.splits)
qed simp

lemma administrates_iff:
  "administrates d x \<longleftrightarrow> list_all valid_blob (roles_of x d) \<and> set allCapabilities \<subseteq> granted d x"
proof (cases "role_lists (roles_of x d)")
  case (Inl err)
  then show ?thesis
    using role_lists_ok [of "roles_of x d"] by (auto simp: administrates_def capabilities_def)
next
  case (Inr out)
  then have "capabilities x d = Inr (unique out)" by (simp add: capabilities_def)
  then show ?thesis
    using role_lists_ok [of "roles_of x d"] capabilities_granted [of x d] Inr by (simp add: administrates_def)
qed

text \<open>An offline switch touches one capability of one role.\<close>

lemma set_role_tx_Inr:
  assumes "set_role_tx a cap op x enabled d = Inr (u, e)" and "e \<noteq> d"
  obtains caps where "map_of (db_roles d) x = Some (Some caps)" and "validateCapabilities caps = Inr ()"
    and "\<And>r. map_of (db_roles e) r = (if r = x then Some (Some (unique (filter (\<lambda>v. v \<noteq> cap) caps @ (if enabled then [cap] else []))))
           else map_of (db_roles d) r)"
    and "\<And>r. (map_of (db_auth_roles e) r = None) = (map_of (db_auth_roles d) r = None)"
    and "db_principal_roles e = db_principal_roles d" and "db_principals e = db_principals d"
    and "db_auth_principals e = db_auth_principals d" and "vault_le d e"
proof -
  obtain caps where caps: "map_of (db_roles d) x = Some (Some caps)" "validateCapabilities caps = Inr ()"
    using assms by (auto simp: set_role_tx_def simp del: validateCapabilities_Inr split: option.splits sum.splits)
  obtain r y where app: "Append a r
      (d\<lparr>db_roles := modify_row x (\<lambda>_. Some (unique (filter (\<lambda>v. v \<noteq> cap) caps @ (if enabled then [cap] else [])))) (db_roles d),
         db_auth_roles := modify_row x (\<lambda>(n, r). (n, new_id (later 2 a) 0)) (db_auth_roles d)\<rparr>) = Inr (y, e)" (is "Append a r ?d = _")
    using assms caps
    by (auto simp: set_role_tx_def then_do_Inr Let_def simp del: validateCapabilities_Inr split: option.splits sum.splits if_splits)
  note same = same_more [OF Append_frame(4) [OF app]]
  show ?thesis
    by (rule that [OF caps])
      (use same caps(1) in \<open>auto simp: same_defs map_of_modify_row vault_le_def split: if_splits\<close>)
qed

lemma set_role_bounded:
  assumes "set_role f a cap op x enabled d = (r, e)"
  shows "bounded_change (if enabled then {cap} else {}) d e"
proof (cases "e = d")
  case True
  then show ?thesis by (simp add: bounded_change_def vault.le_refl)
next
  case False
  then obtain u where tx: "set_role_tx a cap op x enabled d = Inr (u, e)"
    using assms by (auto simp: set_role_def split: if_splits dest!: store_write_result)
  show ?thesis
  proof (rule set_role_tx_Inr [OF tx False])
    fix caps
    assume *: "map_of (db_roles d) x = Some (Some caps)"
      "\<And>r. map_of (db_roles e) r = (if r = x then Some (Some (unique (filter (\<lambda>v. v \<noteq> cap) caps @ (if enabled then [cap] else []))))
           else map_of (db_roles d) r)"
      "\<And>r. (map_of (db_auth_roles e) r = None) = (map_of (db_auth_roles d) r = None)"
      "db_principal_roles e = db_principal_roles d" "vault_le d e"
    have "role_caps e y \<subseteq> role_caps d y \<union> (if enabled then {cap} else {})" for y
      using *(3) [of y] by (auto simp: role_caps_def *(1,2) split: option.splits if_splits)
    then have "granted e z \<subseteq> granted d z \<union> (if enabled then {cap} else {})" for z
      by (intro granted_within) (simp_all add: *(4))
    then show ?thesis using *(5) by (simp add: bounded_change_def)
  qed
qed

lemma set_role_administrator:
  assumes "set_role f a cap op x enabled d = (r, e)" and "cap \<in> set switched" and "administrator d"
  shows "administrator e"
proof (cases "e = d")
  case False
  then obtain u where tx: "set_role_tx a cap op x enabled d = Inr (u, e)"
    using assms(1) by (auto simp: set_role_def split: if_splits dest!: store_write_result)
  show ?thesis
  proof (rule set_role_tx_Inr [OF tx False])
    fix caps
    assume *: "map_of (db_roles d) x = Some (Some caps)" "validateCapabilities caps = Inr ()"
      "\<And>r. map_of (db_roles e) r = (if r = x then Some (Some (unique (filter (\<lambda>v. v \<noteq> cap) caps @ (if enabled then [cap] else []))))
           else map_of (db_roles d) r)"
      "\<And>r. (map_of (db_auth_roles e) r = None) = (map_of (db_auth_roles d) r = None)"
      "db_principal_roles e = db_principal_roles d" "db_principals e = db_principals d" "db_auth_principals e = db_auth_principals d"
    have "administrates e y" if adm: "administrates d y" for y
    proof -
      have old: "valid_blob blob" if "blob \<in> set (roles_of y d)" for blob
        using that adm by (simp add: administrates_iff list_all_iff)
      have "valid_blob blob" if "blob \<in> set (roles_of y e)" for blob
        using that validate_switch [OF *(2) assms(2), of enabled] old [of blob]
        unfolding roles_of_blob *(3-5) by (auto simp del: validateCapabilities_Inr split: if_splits)
      moreover have "c \<in> granted e y" if g: "c \<in> granted d y" and ne: "c \<noteq> cap" for c
      proof -
        obtain r k where r: "(y, r) \<in> set (db_principal_roles d)" "map_of (db_auth_roles d) r \<noteq> None"
          "map_of (db_roles d) r = Some (Some k)" "c \<in> set k"
          using g unfolding granted_iff by blast
        have "\<exists>k'. map_of (db_roles e) r = Some (Some k') \<and> c \<in> set k'"
          using r(3,4) ne *(1) by (cases "r = x") (auto simp: *(3))
        then show ?thesis using r(1,2) unfolding granted_iff *(4,5) by blast
      qed
      ultimately show ?thesis
        using adm switched_extra [OF assms(2)] unfolding administrates_iff list_all_iff by auto
    qed
    moreover have "local_principals e = local_principals d" unfolding local_principals_def *(6,7) ..
    ultimately show ?thesis using assms(3) by (auto simp: administrator_def list_ex_iff)
  qed
qed (use assms in simp)

section \<open>Bootstrap\<close>

lemma insert_templates_Inr:
  assumes "insert_templates a n ts admin d = Inr (x, e)"
  shows "(\<forall>r v. map_of (db_roles d) r = Some v \<longrightarrow> map_of (db_roles e) r = Some v) \<and>
    (\<forall>r v. map_of (db_auth_roles d) r = Some v \<longrightarrow> map_of (db_auth_roles e) r = Some v) \<and>
    (\<forall>r. role_caps e r \<subseteq> role_caps d r \<union> (\<Union>(name, caps)\<in>set ts. set caps)) \<and>
    db_principals e = db_principals d \<and> db_auth_principals e = db_auth_principals d \<and>
    db_principal_roles e = db_principal_roles d \<and> same_credentials d e \<and>
    (if ''Administrator'' \<in> fst ` set ts
     then \<exists>caps. (''Administrator'', caps) \<in> set ts \<and> map_of (db_roles e) x = Some (Some caps) \<and> map_of (db_auth_roles e) x \<noteq> None
     else x = admin)"
  using assms
proof (induction ts arbitrary: n admin d)
  case Nil
  then show ?case by simp
next
  case (Cons t ts)
  obtain name caps where t: "t = (name, caps)" by (cases t)
  let ?f = "d\<lparr>db_roles := db_roles d @ [(new_id a n, Some caps)],
    db_auth_roles := db_auth_roles d @ [(new_id a n, name, new_id a (n + 1))]\<rparr>"
  have fresh: "map_of (db_roles d) (new_id a n) = None" "map_of (db_auth_roles d) (new_id a n) = None"
    and rest: "insert_templates a (n + 2) ts (if name = ''Administrator'' then new_id a n else admin) ?f = Inr (x, e)"
    using Cons.prems by (auto simp: t then_do_Inr insert_row_Inr)
  have f: "map_of (db_roles ?f) (new_id a n) = Some (Some caps)" "map_of (db_auth_roles ?f) (new_id a n) \<noteq> None"
    using fresh by (simp_all add: map_of_snoc del: map_of_append)
  have "role_caps ?f r \<subseteq> role_caps d r \<union> set caps" for r
    using fresh by (auto simp: role_caps_def map_of_snoc simp del: map_of_append split: option.splits if_splits)
  moreover note IH = Cons.IH [OF rest]
  ultimately have caps: "role_caps e r \<subseteq> role_caps d r \<union> (\<Union>(name, caps)\<in>set (t # ts). set caps)" for r
    unfolding t by fastforce
  have keep: "\<forall>r v. map_of (db_roles d) r = Some v \<longrightarrow> map_of (db_roles e) r = Some v"
    "\<forall>r v. map_of (db_auth_roles d) r = Some v \<longrightarrow> map_of (db_auth_roles e) r = Some v"
    using IH by (auto simp: map_of_snoc simp del: map_of_append)
  have "\<exists>k. (''Administrator'', k) \<in> set (t # ts) \<and> map_of (db_roles e) x = Some (Some k) \<and> map_of (db_auth_roles e) x \<noteq> None"
    if "''Administrator'' \<in> fst ` set (t # ts)"
  proof (cases "''Administrator'' \<in> fst ` set ts")
    case True
    then show ?thesis using IH by auto
  next
    case False
    then have "name = ''Administrator''" "x = new_id a n" using IH that by (auto simp: t)
    moreover have "map_of (db_roles e) (new_id a n) = Some (Some caps)" "map_of (db_auth_roles e) (new_id a n) \<noteq> None"
      using IH f by blast+
    ultimately show ?thesis by (auto simp: t)
  qed
  moreover have "x = admin" if "''Administrator'' \<notin> fst ` set (t # ts)"
    using that IH by (auto simp: t)
  ultimately show ?case using keep caps IH by (simp add: same_credentials_def)
qed

lemma templates_within: "(name, caps) \<in> set Templates \<Longrightarrow> set caps \<subseteq> set allCapabilities"
proof -
  have "list_all (\<lambda>c. list_ex ((=) c) networkCapabilities) [''diagnostics.active'', ''jobs.cancel'']" by code_simp
  then have "''diagnostics.active'' \<in> set networkCapabilities" "''jobs.cancel'' \<in> set networkCapabilities"
    by (auto simp: list_ex_iff)
  then show "(name, caps) \<in> set Templates \<Longrightarrow> set caps \<subseteq> set allCapabilities"
    by (auto simp: Templates_def allCapabilities_def)
qed

lemma templates_administrator: "(''Administrator'', caps) \<in> set Templates \<longleftrightarrow> caps = allCapabilities"
  by (auto simp: Templates_def)

lemma allCapabilities_valid: "validateCapabilities allCapabilities = Inr ()"
proof -
  have "distinct allCapabilities" "\<forall>c\<in>set allCapabilities. knownCapability c"
    by (simp_all add: allCapabilities_def [THEN arg_cong, of distinct] unique_sorted known_iff)
  then show ?thesis using known_few by simp
qed

lemma bootstrap_tx_Inr:
  assumes "bootstrap_tx a templates username hash d = Inr (u, e)" and "set templates = set Templates"
  obtains x admin f where "db_principals d = []" and "same_credentials d e"
    and "db_principals e = [(x, \<lparr>pr_name = username, pr_disabled = False, pr_verifier = hash\<rparr>)]"
    and "map_of (db_auth_principals e) x \<noteq> None"
    and "db_principal_roles e = db_principal_roles d @ [(x, admin)]"
    and "map_of (db_roles e) admin = Some (Some allCapabilities)" and "map_of (db_auth_roles e) admin \<noteq> None"
    and "\<And>r. role_caps e r \<subseteq> role_caps d r \<union> set allCapabilities"
proof -
  obtain admin f ap v where empty: "db_principals d = []" and ins: "insert_templates a 0 templates '''' d = Inr (admin, f)"
    and ap: "insert_row (new_id a 10) (new_id a 11, Unix (am_now a 0)) (db_auth_principals f) = Inr ap"
    and au: "audit (later 12 a) (no_claims\<lparr>cl_PrincipalID := new_id a 10\<rparr>) ''bootstrap'' (new_id a 10) ''success'' '''' None ''''
       (f\<lparr>db_principals := [(new_id a 10, \<lparr>pr_name = username, pr_disabled = False, pr_verifier = hash\<rparr>)], db_auth_principals := ap,
          db_principal_roles := db_principal_roles f @ [(new_id a 10, admin)]\<rparr>) = Inr (v, e)"
  proof -
    have empty: "db_principals d = []" using assms(1) by (auto simp: bootstrap_tx_def split: if_splits)
    obtain admin f where ins: "insert_templates a 0 templates '''' d = Inr (admin, f)"
      and rest: "(let x = new_id a 10 in
        then_do (insert_row x \<lparr>pr_name = username, pr_disabled = False, pr_verifier = hash\<rparr> (db_principals f)) (\<lambda>principals.
        then_do (insert_row x (new_id a 11, Unix (am_now a 0)) (db_auth_principals f)) (\<lambda>auth_principals.
        audit (later 12 a) (no_claims\<lparr>cl_PrincipalID := x\<rparr>) ''bootstrap'' x ''success'' '''' None ''''
          (f\<lparr>db_principals := principals, db_auth_principals := auth_principals,
             db_principal_roles := db_principal_roles f @ [(x, admin)]\<rparr>)))) = Inr (u, e)"
      using assms(1) empty by (auto simp: bootstrap_tx_def then_do_Inr [of "insert_templates a 0 templates '''' d"])
    have "db_principals f = []" using insert_templates_Inr [OF ins] empty by simp
    then show ?thesis
      using rest unfolding Let_def by (elim then_doE) (rule that [OF empty ins], auto simp: insert_row_Inr)
  qed
  note t = insert_templates_Inr [OF ins]
  note e = same_accessD(1,2) [OF audit_same [OF au]]
  have roles: "role_caps e = role_caps f" using e(1) by (intro role_caps_cong) (simp_all add: same_people_def)
  have within: "(\<Union>(name, caps)\<in>set templates. set caps) \<subseteq> set allCapabilities"
    using templates_within assms(2) by auto
  have "(''Administrator'', allCapabilities) \<in> set templates" using templates_administrator [of allCapabilities] assms(2) by simp
  then have "''Administrator'' \<in> fst ` set templates" by (rule image_eqI [rotated]) simp
  then obtain caps where caps: "(''Administrator'', caps) \<in> set templates" "map_of (db_roles f) admin = Some (Some caps)"
    "map_of (db_auth_roles f) admin \<noteq> None"
    using t by auto
  then have "caps = allCapabilities" using templates_administrator assms(2) by simp
  have few: "role_caps e r \<subseteq> role_caps d r \<union> set allCapabilities" for r
    using t within unfolding roles by blast
  show ?thesis
    by (rule that [of "new_id a 10" admin, OF _ _ _ _ _ _ _ few])
      (use empty t e caps \<open>caps = allCapabilities\<close> ap in
        \<open>auto simp: same_defs insert_row_Inr map_of_snoc split: option.splits\<close>)
qed

lemma bootstrap_bounded:
  assumes "Bootstrap f a templates username password d = (r, e)" and "set templates = set Templates"
  shows "bounded_change (set allCapabilities) d e"
proof (cases "e = d")
  case False
  then obtain hash u where tx: "bootstrap_tx a templates username hash d = Inr (u, e)"
    using assms(1) by (auto simp: Bootstrap_def split: if_splits sum.splits dest!: store_write_result)
  show ?thesis
  proof (rule bootstrap_tx_Inr [OF tx assms(2)])
    fix x admin
    assume *: "same_credentials d e" "db_principal_roles e = db_principal_roles d @ [(x, admin)]"
      "map_of (db_roles e) admin = Some (Some allCapabilities)" "\<And>r. role_caps e r \<subseteq> role_caps d r \<union> set allCapabilities"
    have "role_caps e admin \<subseteq> set allCapabilities" using *(3) by (auto simp: role_caps_def split: option.splits)
    then have "granted e y \<subseteq> granted d y \<union> set allCapabilities" for y
      by (intro granted_within [OF *(4)]) (use *(2) in auto)
    then show ?thesis using same_credentials_le [OF *(1)] by (simp add: bounded_change_def)
  qed
qed (simp add: bounded_change_def vault.le_refl)

lemma bootstrap_administrator:
  assumes "Bootstrap f a templates username password d = (r, e)" and "set templates = set Templates"
    and "e \<noteq> d" and "db_principal_roles d = []"
  shows "administrator e"
proof -
  obtain hash u where h: "hashPassword (am_IDKey a) (am_bytes a 0) password = Inr hash"
    and tx: "bootstrap_tx a templates username hash d = Inr (u, e)"
    using assms(1,3) by (auto simp: Bootstrap_def split: if_splits sum.splits dest!: store_write_result)
  have hash: "HasPrefix hash passwordPrefix" using h by (auto simp: hashPassword_def split: if_splits)
  show ?thesis
  proof (rule bootstrap_tx_Inr [OF tx assms(2)])
    fix x admin
    assume *: "db_principals e = [(x, \<lparr>pr_name = username, pr_disabled = False, pr_verifier = hash\<rparr>)]"
      "map_of (db_auth_principals e) x \<noteq> None" "db_principal_roles e = db_principal_roles d @ [(x, admin)]"
      "map_of (db_roles e) admin = Some (Some allCapabilities)" "map_of (db_auth_roles e) admin \<noteq> None"
    have "blob \<in> set (roles_of x e) \<longleftrightarrow> blob = Some allCapabilities" for blob
      unfolding roles_of_blob using *(3-5) assms(4) by auto
    moreover have "set allCapabilities \<subseteq> granted e x"
      unfolding granted_def role_caps_def using *(3-5) by auto
    ultimately have "administrates e x"
      using allCapabilities_valid by (simp add: administrates_iff list_all_iff del: validateCapabilities_Inr)
    moreover have "x \<in> set (local_principals e)" using *(1,2) hash by (simp add: local_principals_def)
    ultimately show ?thesis by (auto simp: administrator_def list_ex_iff)
  qed
qed

section \<open>Commands\<close>

text \<open>A change that \<open>Execute\<close> made is the change of the mutation and the stored receipt.\<close>

lemma execute_tx_changed:
  assumes "execute_tx a ''management'' q digest key reauthorize tx d = Inr (x, e)" and "e \<noteq> d"
  obtains m g rows w where "tx (with_command ''management'' q (new_id a 0) (later 1 a)) d = Inr (m, g)"
    and "e = g\<lparr>db_receipts := rows, db_high_watermark := w\<rparr>"
proof (cases "find_receipt q d")
  case None
  obtain m g where "tx (with_command ''management'' q (new_id a 0) (later 1 a)) d = Inr (m, g)"
    "record_receipt q digest (am_now a 0) m (new_id a 0) g = Inr (x, e)"
    using assms None by (auto simp: execute_tx_def then_do_Inr Let_def)
  then show ?thesis by (auto simp: record_receipt_def split: if_splits intro: that)
next
  case (Some v)
  then show ?thesis using assms by (auto simp: execute_tx_def then_do_Inr)
qed

lemma Execute_changed:
  assumes "Execute f a ''management'' q authorized reauthorize tx d = (r, e)" and "e \<noteq> d"
  obtains x digest key where "execute_tx a ''management'' q digest key reauthorize tx d = Inr (x, e)"
proof -
  obtain digest key where w: "store_write f (execute_tx a ''management'' q digest key reauthorize tx) d = (r, e)"
  proof -
    obtain key where key: "RequestTime (ac_ID q) = Some key" using assms by (cases "RequestTime (ac_ID q)") (auto simp: Execute_def)
    obtain digest where "fingerprint a q = Inr digest" "authorized = Inr ()"
      using assms by (cases "fingerprint a q"; cases authorized) (auto simp: Execute_def key split: if_splits)
    then show ?thesis using that assms by (auto simp: Execute_def key split: if_splits)
  qed
  from store_write_result [OF w] assms(2) that show ?thesis by blast
qed

lemma command_changed:
  assumes "Execute f a ''management'' q authorized reauthorize (security_tx credential s verifier) d = (r, e)" and "e \<noteq> d"
  obtains c m g where "check_call (command_ambient a q) credential s d = Inr c"
    and "mutate (later 3 (command_ambient a q)) c (sc_command s) (path_id s) (sc_Precondition s) verifier (sc_RequestID s) d = Inr (m, g)"
    and "lastAdministrator g = Inr ()" and "same_people g e" and "same_credentials g e"
    and "exercised a q credential s d = set (cl_Capabilities c)"
proof -
  obtain m h rows w where tx: "security_tx credential s verifier (command_ambient a q) d = Inr (m, h)"
    and e: "e = h\<lparr>db_receipts := rows, db_high_watermark := w\<rparr>"
    unfolding command_ambient_def by (rule Execute_changed [OF assms], rule execute_tx_changed [OF _ assms(2)])
  obtain c g where c: "check_call (command_ambient a q) credential s d = Inr c"
    "mutate (later 3 (command_ambient a q)) c (sc_command s) (path_id s) (sc_Precondition s) verifier (sc_RequestID s) d = Inr (m, g)"
    "lastAdministrator g = Inr ()" "same_people g h" "same_credentials g h"
    by (rule security_tx_Inr [OF tx])
  show ?thesis
    by (rule that [OF c(1-3)]) (use c e in \<open>simp_all add: same_defs exercised_def\<close>)
qed

lemma command_bounded:
  assumes "Execute f a ''management'' q authorized reauthorize (security_tx credential s verifier) d = (r, e)"
  shows "bounded_change (exercised a q credential s d) d e"
proof (cases "e = d")
  case False
  obtain c m g where c: "mutate (later 3 (command_ambient a q)) c (sc_command s) (path_id s) (sc_Precondition s) verifier (sc_RequestID s) d = Inr (m, g)"
    "same_people g e" "same_credentials g e" "exercised a q credential s d = set (cl_Capabilities c)"
    by (rule command_changed [OF assms False])
  show ?thesis
    unfolding c(4) by (rule bounded_same_after [OF mutate_bounded [OF c(1)] c(2) same_credentials_le [OF c(3)]])
qed (simp add: bounded_change_def vault.le_refl)

lemma command_administrator:
  assumes "Execute f a ''management'' q authorized reauthorize (security_tx credential s verifier) d = (r, e)" and "e \<noteq> d"
  shows "administrator e"
  by (rule command_changed [OF assms]) (use lastAdministrator_Inr same_people_administrator in blast)

section \<open>All steps\<close>

definition step_kept :: "string set \<Rightarrow> 'v access_db \<Rightarrow> 'v access_db \<Rightarrow> bool" where
  "step_kept A d e \<longleftrightarrow> bounded_change A d e \<and> (administrator d \<longrightarrow> administrator e)"

lemma quiet_kept: "quiet d e \<Longrightarrow> step_kept {} d e"
  using same_people_administrator [of d e] by (simp add: step_kept_def quiet_bounded quiet_def)

lemma quiet_write: "quiet.climbs tx \<Longrightarrow> store_write f tx d = (r, e) \<Longrightarrow> step_kept {} d e"
  using quiet.climbs_write [of tx d f] by (simp add: quiet_kept)

lemma access_step_kept: "access_step A d e \<Longrightarrow> step_kept A d e"
proof (induction rule: access_step.induct)
  case (bootstrap f a templates username password d r e)
  have "e = d" if "administrator d"
    using bootstrap(1) administrator_principals [OF that]
    by (auto simp: Bootstrap_def bootstrap_tx_def store_write_def split: if_splits sum.splits fate.splits)
  then show ?case using bootstrap_bounded [OF bootstrap] by (auto simp: step_kept_def)
next
  case (attempted f a username d r e)
  then show ?case unfolding attempt_def by (rule quiet_write [OF attempt_quiet])
next
  case (login f a denied x verifier d r e)
  then show ?case by (rule quiet_write [OF authenticate_quiet])
next
  case (elevate f a credential valid verifier d r e)
  then show ?case by (rule quiet_write [OF reauthenticate_quiet])
next
  case (logout f a credential d r e)
  then show ?case unfolding RevokeAuth_def by (rule quiet_write [OF revoke_quiet])
next
  case (command f a q authorized reauthorize credential s verifier d r e)
  then show ?case
    using command_bounded [OF command] command_administrator [OF command] by (cases "e = d") (simp_all add: step_kept_def)
next
  case (switch f a cap op x enabled d r e)
  then show ?case
    using set_role_bounded [OF switch(1)] set_role_administrator [OF switch(1,2)] by (simp add: step_kept_def)
next
  case (used d a credential c)
  show ?case by (rule quiet_kept [OF touch_quiet])
next
  case (elsewhere d e)
  then show ?case by (rule quiet_kept [OF same_quiet])
qed

lemma access_runs_kept: "access_runs A d e \<Longrightarrow> step_kept A d e"
proof (induction rule: access_runs.induct)
  case (none d)
  then show ?case by (simp add: step_kept_def bounded_change_def vault.le_refl)
next
  case (more d e B f)
  have "bounded_change (A \<union> B) d f"
    using bounded_trans [of A d e B f] more.IH access_step_kept [OF more.hyps(2)] by (simp add: step_kept_def)
  then show ?case
    using more.IH more.hyps(3) access_step_kept [OF more.hyps(2)] by (simp add: step_kept_def Un_absorb2)
qed

end
