(* ===== verification/Access_Limits.thy ===== *)
theory Access_Limits
  imports Access_Runs
begin

text \<open>
  The attempt limit of logins and reauthentications (\<^verbatim>\<open>attempt\<close> of \<^verbatim>\<open>internal/repository/auth/auth.go\<close>):
  an invariant of the counted attempts that every access operation keeps, and what it means for a login.
\<close>

section \<open>The attempt limit\<close>

text \<open>At most ten attempts per name and sixty in all are counted at any time.\<close>

definition tries :: "(int \<times> int) tab \<Rightarrow> int" where
  "tries t = sum_list (map (\<lambda>(h, start, n). n) t)"

definition attempts_ok :: "'v access_db \<Rightarrow> bool" where
  "attempts_ok d \<longleftrightarrow> distinct (map fst (db_attempts d)) \<and> (\<forall>(h, start, n)\<in>set (db_attempts d). 1 \<le> n \<and> n \<le> 10) \<and>
     tries (db_attempts d) \<le> 60"

definition throttled :: "'v access_db \<Rightarrow> 'v access_db \<Rightarrow> bool" where
  "throttled d e \<longleftrightarrow> (attempts_ok d \<longrightarrow> attempts_ok e)"

interpretation throttled: store_order throttled
  by unfold_locales (simp_all add: throttled_def)

lemma same_throttled: "db_attempts e = db_attempts d \<Longrightarrow> throttled d e"
  by (simp add: throttled_def attempts_ok_def)

lemma tries_simps [simp]: "tries [] = 0" "tries ((h, start, n) # t) = n + tries t" "tries (t @ u) = tries t + tries u"
  by (simp_all add: tries_def)

lemma modify_row_simps [simp]:
  "modify_row k f [] = []" "modify_row k f ((j, w) # t) = (j, if j = k then f w else w) # modify_row k f t"
  by (simp_all add: modify_row_def)

lemma modify_row_absent: "k \<notin> fst ` set t \<Longrightarrow> modify_row k f t = t"
  by (induction t) auto

lemma tries_modify:
  "distinct (map fst t) \<Longrightarrow> map_of t k = Some (s, n) \<Longrightarrow> tries (modify_row k (\<lambda>(s, n). (s, n + 1)) t) = tries t + 1"
proof (induction t)
  case (Cons r t)
  then show ?case by (cases r) (auto simp: modify_row_absent split: if_splits)
qed simp

lemma tries_filter: "\<forall>(h, s, n)\<in>set t. 1 \<le> n \<and> n \<le> 10 \<Longrightarrow> tries (filter P t) \<le> tries t"
  by (induction t) auto

lemma attempt_throttled: "throttled.climbs (attempt_tx a username)"
  unfolding throttled.climbs_def throttled_def
proof (intro allI impI)
  fix d x e
  assume tx: "attempt_tx a username d = Inr (x, e)" and ok: "attempts_ok d"
  define now hash rows where "now = Unix (am_now a 1)" and "hash = am_Hash a (map lower username)"
    and "rows = filter (\<lambda>(h, start, n). \<not> start < now - 60) (db_attempts d)"
  have rows: "distinct (map fst rows)" "\<forall>(h, start, n)\<in>set rows. 1 \<le> n \<and> n \<le> 10" "tries rows \<le> 60"
    using ok tries_filter [of "db_attempts d" "\<lambda>(h, start, n). \<not> start < now - 60"]
    by (auto simp: attempts_ok_def rows_def distinct_map_filter)
  from tx have less: "tries rows < 60" and tried: "\<And>s n. map_of rows hash = Some (s, n) \<Longrightarrow> n < 10"
    and e: "db_attempts e = (if map_of rows hash = None then rows @ [(hash, now, 1)]
        else modify_row hash (\<lambda>(start, n). (start, n + 1)) rows)"
    unfolding attempt_tx_def Let_def tries_def rows_def now_def hash_def watermark_def
    by (auto simp: then_do_Inr split: if_splits)
  show "attempts_ok e"
  proof (cases "map_of rows hash")
    case None
    then show ?thesis using rows less e by (auto simp: attempts_ok_def map_of_eq_None_iff)
  next
    case (Some r)
    obtain s n where r: "r = (s, n)" by (cases r)
    have "tries (db_attempts e) = tries rows + 1" using tries_modify [OF rows(1)] Some r e by simp
    moreover have "1 \<le> m \<and> m \<le> 10" if "(h, t, m) \<in> set (db_attempts e)" for h t m
    proof -
      have "(h, t, m) \<in> set rows \<or> h = hash \<and> (h, t, m - 1) \<in> set rows"
        using that e Some by (force simp: modify_row_def split: if_splits)
      moreover have "m - 1 < 10" if "h = hash" "(h, t, m - 1) \<in> set rows"
        using map_of_is_SomeI [OF rows(1) that(2)] that(1) tried by auto
      ultimately show ?thesis using rows(2) by force
    qed
    ultimately show ?thesis using rows(1) less e Some by (auto simp: attempts_ok_def)
  qed
qed

lemma audit_attempts: "audit a c op target res request ob job d = Inr (u, e) \<Longrightarrow> db_attempts e = db_attempts d"
  by (drule audit_same) (simp add: same_access_def)

lemma touch_attempts [simp]: "db_attempts (touch a credential c d) = db_attempts d" "db_attempts (watermark b d) = db_attempts d"
  by (simp_all add: touch_def watermark_def Let_def)

lemma authenticate_throttled: "throttled.climbs (authenticate_tx a denied x verifier)"
  unfolding throttled.climbs_def
  by (intro allI impI same_throttled)
    (auto simp: authenticate_tx_def reject_login_def issue_grant_def then_do_Inr Let_def insert_row_Inr dest!: audit_attempts split: if_splits prod.splits)

lemma reauthenticate_throttled: "throttled.climbs (reauthenticate_tx a credential valid verifier)"
  unfolding throttled.climbs_def
  by (intro allI impI same_throttled, elim reauthenticate_tx_Inr) (auto simp: raise_elevation_def dest!: audit_attempts)

lemma revoke_throttled: "throttled.climbs (revoke_auth_tx a credential)"
  unfolding throttled.climbs_def
  by (intro allI impI same_throttled) (auto simp: revoke_auth_tx_def revoke_grant_def then_do_Inr dest!: audit_attempts split: if_splits)

lemma templates_attempts: "insert_templates a n ts admin d = Inr (x, e) \<Longrightarrow> db_attempts e = db_attempts d"
  by (induction a n ts admin d rule: insert_templates.induct) (auto simp: then_do_Inr split: if_splits)

lemma bootstrap_throttled: "throttled.climbs (bootstrap_tx a templates username hash)"
  unfolding throttled.climbs_def
  by (intro allI impI same_throttled)
    (auto simp: bootstrap_tx_def then_do_Inr Let_def dest!: audit_attempts templates_attempts split: if_splits)

lemma switch_throttled: "throttled.climbs (set_role_tx a cap op x enabled)"
  unfolding throttled.climbs_def
  by (intro allI impI same_throttled)
    (auto simp: set_role_tx_def then_do_Inr Let_def dest!: Append_frame(4) access_more(11) split: if_splits sum.splits option.splits)

lemma replaceRoles_attempts: "replaceRoles x roles d = Inr e \<Longrightarrow> db_attempts e = db_attempts d"
  by (auto simp: replaceRoles_def split: if_splits)

lemma invalidate_attempts [simp]: "db_attempts (invalidatePrincipal a x d) = db_attempts d" "db_attempts (set_disabled x off d) = db_attempts d"
  by (simp_all add: invalidatePrincipal_def set_disabled_def)

lemma change_principal_attempts: "change_principal a c x cmd verifier d = Inr e \<Longrightarrow> db_attempts e = db_attempts d"
proof (cases cmd)
  case (ChangeUser roles disabled)
  assume "change_principal a c x cmd verifier d = Inr e"
  then obtain g where "replaceRoles x roles d = Inr g" "e = (if disabled then invalidatePrincipal a x (set_disabled x disabled g) else set_disabled x disabled g)"
    unfolding ChangeUser change_principal_def by (auto simp: then_do_Inr Let_def)
  then show ?thesis by (simp add: replaceRoles_attempts)
qed (auto simp: change_principal_def then_do_Inr replaceRoles_def split: if_splits)

lemma change_user_attempts: "change_user a c x cmd verifier expected d = Inr (y, e) \<Longrightarrow> db_attempts e = db_attempts d"
  by (auto simp: change_user_def then_do_Inr dest!: change_principal_attempts)

lemma create_attempts:
  "create_user a c name roles verifier d = Inr (y, e) \<Longrightarrow> db_attempts e = db_attempts d"
  "write_role a c target name caps expected d = Inr (y, e) \<Longrightarrow> db_attempts e = db_attempts d"
  "create_token a c name scopes expires d = Inr (z, e) \<Longrightarrow> db_attempts e = db_attempts d"
  "revoke_token a c x d = Inr (y, e) \<Longrightarrow> db_attempts e = db_attempts d"
     apply (auto simp: create_user_def then_do_Inr Let_def dest!: replaceRoles_attempts split: if_splits) [1]
    apply (auto simp: write_role_def then_do_Inr Let_def split: if_splits option.splits) [1]
   apply (auto simp: create_token_def then_do_Inr Let_def split: if_splits option.splits) [1]
  apply (auto simp: revoke_token_def split: if_splits option.splits) [1]
  done

lemma carry_out_attempts: "carry_out a c cmd x expected verifier d = Inr (y, e) \<Longrightarrow> db_attempts e = db_attempts d"
  by (cases cmd) (auto simp: carry_out_def then_do_Inr dest!: change_user_attempts create_attempts)

lemma command_throttled:
  assumes "Execute f a ''management'' q authorized reauthorize (security_tx credential s verifier) d = (r, e)"
  shows "throttled d e"
proof (cases "e = d")
  case False
  obtain m h rows w where tx: "security_tx credential s verifier (command_ambient a q) d = Inr (m, h)"
    and e: "e = h\<lparr>db_receipts := rows, db_high_watermark := w\<rparr>"
    unfolding command_ambient_def by (rule Execute_changed [OF assms False], rule execute_tx_changed [OF _ False])
  obtain c g where "mutate (later 3 (command_ambient a q)) c (sc_command s) (path_id s) (sc_Precondition s) verifier (sc_RequestID s) d = Inr (m, g)"
    "h = touch (later 20 (command_ambient a q)) credential c g"
    by (rule security_tx_Inr [OF tx])
  then show ?thesis
    by (elim mutate_Inr) (auto intro!: same_throttled dest: carry_out_attempts simp: e same_access_def)
qed (simp add: throttled.le_refl)

lemma throttled_write: "throttled.climbs tx \<Longrightarrow> store_write f tx d = (r, e) \<Longrightarrow> throttled d e"
  using throttled.climbs_write [of tx d f] by simp

lemma access_step_throttled: "access_step A d e \<Longrightarrow> throttled d e"
proof (induction rule: access_step.induct)
  case (bootstrap f a templates username password d r e)
  then show ?case
    by (auto simp: Bootstrap_def throttled.le_refl split: if_splits sum.splits dest: throttled_write [OF bootstrap_throttled])
next
  case (command f a q authorized reauthorize credential s verifier d r e)
  then show ?case by (rule command_throttled)
next
  case (switch f a cap op x enabled d r e)
  then show ?case
    by (auto simp: set_role_def throttled.le_refl split: if_splits dest: throttled_write [OF switch_throttled])
next
  case (used d a credential c)
  show ?case by (rule same_throttled) simp
next
  case (elsewhere d e)
  then show ?case by (intro same_throttled) (simp add: same_access_def)
qed (auto simp: attempt_def RevokeAuth_def dest: throttled_write [OF attempt_throttled] throttled_write [OF authenticate_throttled]
    throttled_write [OF reauthenticate_throttled] throttled_write [OF revoke_throttled])

text \<open>C25. Guessing is limited. In every state of a run at most ten attempts per name and sixty in all are on record for
  the current minute; and while ten for a name, or sixty in all, are on record, \<open>Authenticate\<close> refuses that name and
  leaves the tables as they were, before any password is checked.\<close>

theorem guessing_is_limited:
  assumes "attempts_ok d" and "access_runs A d e"
  shows "attempts_ok e \<and>
    (let rows = filter (\<lambda>(h, start, n). \<not> start < Unix (am_now a 1) - 60) (db_attempts e) in
     (\<exists>start. (am_Hash a (map lower (lg_Username login)), start, 10) \<in> set rows) \<or> tries rows = 60 \<longrightarrow>
     (\<exists>err. Authenticate f a slot others login e = (Inl err, e)))"
proof -
  have ok: "attempts_ok e"
    using assms(2,1) by (induction rule: access_runs.induct) (auto dest: access_step_throttled simp: throttled_def)
  define rows where "rows = filter (\<lambda>(h, start, n). \<not> start < Unix (am_now a 1) - 60) (db_attempts e)"
  have "\<exists>err. attempt_tx a (lg_Username login) e = Inl err"
    if "(\<exists>start. (am_Hash a (map lower (lg_Username login)), start, 10) \<in> set rows) \<or> tries rows = 60"
  proof (rule disjE [OF that])
    assume "\<exists>start. (am_Hash a (map lower (lg_Username login)), start, 10) \<in> set rows"
    then obtain start where "(am_Hash a (map lower (lg_Username login)), start, 10) \<in> set rows" ..
    moreover have "distinct (map fst rows)" using ok by (simp add: attempts_ok_def rows_def distinct_map_filter)
    ultimately have "map_of rows (am_Hash a (map lower (lg_Username login))) = Some (start, 10)" by simp
    then show ?thesis by (cases "clock a e") (auto simp: attempt_tx_def Let_def rows_def)
  next
    assume "tries rows = 60"
    then show ?thesis by (cases "clock a e") (auto simp: attempt_tx_def Let_def rows_def tries_def)
  qed
  then have "\<exists>err. Authenticate f a slot others login e = (Inl err, e)"
    if "(\<exists>start. (am_Hash a (map lower (lg_Username login)), start, 10) \<in> set rows) \<or> tries rows = 60"
    using that by (auto simp: Authenticate_def attempt_def store_write_def split: sum.splits fate.splits)
  then show ?thesis using ok by (simp add: rows_def Let_def)
qed

end
