(* ===== verification/Drafts.thy ===== *)
theory Drafts
  imports Access_Limits
begin

text \<open>
  The manager's side of a draft (\<^verbatim>\<open>internal/repository/auth/candidate.go\<close>): preparing the next revision of
  a sealed envelope, reviewing it, validating it, and reading a stored validation again. A draft lives in
  the browser service; the manager keeps only a \<^emph>\<open>witness\<close> of the newest revision it has seen per owner
  (the fence) and the documents of the validations.

  \<^item> A candidate call is what the generated contract makes of method, URI and body: the operation, the path
    values, the number of query values, and the decoded body (\<open>None\<close> when it does not fit the type).
  \<^item> The provider answers a list of bindings with a snapshot and possibly an error; it is asked outside the
    writer transaction.
  \<^item> \<open>dr_hash\<close> is the digest of an envelope, \<open>dr_mac\<close> the HMAC that seals it; the digest of a capability list is
    the digest of the host. Document sizes are functions of the ambient, as everywhere.
\<close>

section \<open>Data\<close>

record CandidateValidation =
  vd_ID :: string
  vd_CandidateID :: string
  vd_CandidateRevision :: string
  vd_Generation :: string
  vd_ConfigRevision :: string
  vd_PolicyRevision :: string
  vd_Expires :: moment
  vd_Job :: "Ref option"
  vd_State :: string
  vd_Checks :: "Gate list"
  vd_Diff :: "Diff list"
  vd_ChangeSetID :: string
  vd_Usable :: bool
  vd_Invalidations :: "Gate list"
  vd_Risk :: string
  vd_ExecutionReady :: bool

record validationRecord =
  vr_Validation :: CandidateValidation
  vr_Credential :: string
  vr_AuthEpoch :: string
  vr_RequestEpoch :: string
  vr_Capabilities :: string
  vr_ProviderPolicy :: string
  vr_Validator :: string

text \<open>A row of \<^verbatim>\<open>candidate_validations\<close> besides its key and owner; \<open>None\<close> is a blob that does not decode.\<close>

record validation_row =
  vl_candidate :: string
  vl_revision :: string
  vl_job :: string
  vl_changeset :: string
  vl_created :: int
  vl_envelope :: "Envelope option"
  vl_document :: "validationRecord option"

type_synonym draft_db = "validation_row access_db"

datatype draft_answer = Reviewed View | Revalidated CandidateValidation

record draft_ambient = access_ambient +
  dr_key :: "8 word list"
  dr_mac :: hmac
  dr_hash :: "Envelope \<Rightarrow> string"
  dr_topology :: topology_ops
  dr_provider :: "(Binding list \<Rightarrow> Snapshot \<times> err option) option"
  dr_safety :: bool
  dr_engine :: bool
  dr_sha256 :: "any \<Rightarrow> string"
  dr_scope :: "string \<Rightarrow> Envelope \<Rightarrow> string \<Rightarrow> string \<Rightarrow> string"
  dr_record_bytes :: "validationRecord \<Rightarrow> nat"
  dr_answer_bytes :: "draft_answer \<Rightarrow> nat"

record 'b draft_call =
  dc_operation :: "(Operation \<times> string list) outcome"
  dc_query :: nat
  dc_parameters :: "unit outcome"
  dc_decoded :: "string outcome"
  dc_body :: "'b option"
  dc_Method :: string
  dc_URI :: string
  dc_Epoch :: string
  dc_RequestID :: string
  dc_Precondition :: string
  dc_Payload :: "any option"
  dc_PayloadBytes :: nat

record validate_request =
  vq_CandidateID :: string
  vq_Revision :: string

definition ValidFor :: int where "ValidFor = seconds 300"
definition ValidatorVersion :: string where "ValidatorVersion = ''native-mirror-sessions-v1''"
definition MaxValidations :: nat where "MaxValidations = 10000"

definition MirrorCapability :: string where "MirrorCapability = ''ovs.mirror.write''"
definition TunnelCapability :: string where "TunnelCapability = ''ovs.tunnel.static.write''"
definition BridgeMulticastCapability :: string where "BridgeMulticastCapability = ''ovs.bridge.multicast.write''"
definition PortIsolationCapability :: string where "PortIsolationCapability = ''ovs.port.isolation.write''"
definition SpanningTreePrepareCapability :: string where
  "SpanningTreePrepareCapability = ''ovs.bridge.spanning-tree.prepare''"
definition SpanningTreeWriteCapability :: string where
  "SpanningTreeWriteCapability = ''ovs.bridge.spanning-tree.write''"

section \<open>Capabilities of a draft\<close>

definition intentCapabilities :: "string list \<Rightarrow> Candidate \<Rightarrow> bool" where
  "intentCapabilities caps c \<longleftrightarrow> list_all (\<lambda>cap. cap \<in> set caps) (Capabilities c)"

definition hasTreeCapability :: "string list \<Rightarrow> bool" where
  "hasTreeCapability caps \<longleftrightarrow> MirrorCapability \<in> set caps \<or> TunnelCapability \<in> set caps \<or>
     BridgeMulticastCapability \<in> set caps \<or> PortIsolationCapability \<in> set caps \<or>
     SpanningTreePrepareCapability \<in> set caps \<or> SpanningTreeWriteCapability \<in> set caps"

definition treeReadDenied :: "Candidate \<Rightarrow> string list \<Rightarrow> bool" where
  "treeReadDenied c caps \<longleftrightarrow> hasTreeCapability (Capabilities c) \<and> ''configuration.read'' \<notin> set caps"

definition candidateClaims ::
    "'z access_ambient_scheme \<Rightarrow> string \<Rightarrow> string \<Rightarrow> ('v, 'y) access_db_scheme \<Rightarrow> Claims outcome" where
  "candidateClaims a credential cap d =
     then_do (claims a credential d) (\<lambda>c.
     then_do (require_capability c cap False (Unix (am_now a 2))) (\<lambda>_.
     then_do (require_capability c ''configuration.read'' False (Unix (am_now a 3))) (\<lambda>_.
     then_do (require_capability c ''inventory.read'' False (Unix (am_now a 4))) (\<lambda>_. Inr c))))"

section \<open>Snapshots and commands\<close>

text \<open>\<open>plan.Snapshot{}\<close>\<close>

definition zero_Snapshot :: Snapshot where
  "zero_Snapshot = \<lparr>s_Multicasts = Map.empty, s_Isolations = Map.empty, s_SpanningTrees = Map.empty,
     s_Topology = zero_Topology, s_Generation = '''', s_Revision = '''', s_Schema = '''', s_Policy = '''',
     s_Ports = Map.empty, s_Interfaces = Map.empty, s_Policings = Map.empty,
     s_Creation = \<lparr>cs_Root = '''', cs_Authority = '''', cs_Supported = False, cs_Capacity = False,
       cs_AllowedNames = (\<lambda>_. False), cs_Names = (\<lambda>_. False), cs_Objects = Map.empty, cs_Retired = (\<lambda>_. False)\<rparr>,
     s_Deletion = \<lparr>ds_AllowedNames = (\<lambda>_. False), ds_Graphs = Map.empty\<rparr>,
     s_PortDeletions = \<lparr>pds_Targets = (\<lambda>_. False), pds_Graphs = Map.empty\<rparr>,
     s_InternalPorts = \<lparr>ips_Supported = False, ips_Capacity = False, ips_Targets = (\<lambda>_. False), ips_Parents = Map.empty\<rparr>\<rparr>"

definition candidateSnapshot :: "draft_ambient \<Rightarrow> Binding list \<Rightarrow> Snapshot \<times> err option" where
  "candidateSnapshot a bs =
     (case dr_provider a of
        None \<Rightarrow> (zero_Snapshot, Some (Problem (Fail 503 ''PROVIDER_UNAVAILABLE'')))
      | Some p \<Rightarrow> p bs)"

definition candidateCommand :: "'b draft_call \<Rightarrow> string \<Rightarrow> (Operation \<times> string list) outcome" where
  "candidateCommand s x =
     then_do (dc_operation s) (\<lambda>(op, path).
     if op_ID op \<noteq> x \<or> dc_query s \<noteq> 0 then failed 403 ''OPERATION_DENIED''
     else then_do (dc_parameters s) (\<lambda>_. then_do (dc_decoded s) (\<lambda>request.
       if request \<noteq> dc_RequestID s then failed 409 ''IDEMPOTENCY_KEY_MISMATCH'' else Inr (op, path))))"

section \<open>The fence\<close>

text \<open>The witness of an owner never goes back: it is compared with the presented envelope, and advanced to it
  when the call asks for that. The table of witnesses refuses a negative sequence and a candidate that is the
  witness of another owner.\<close>

definition candidateFence :: "draft_ambient \<Rightarrow> Envelope \<Rightarrow> bool \<Rightarrow> draft_db \<Rightarrow> draft_db outcome" where
  "candidateFence a e advance d =
     (let c = e_Candidate e in
      case map_of (db_witnesses d) (e_Owner e) of
        None \<Rightarrow>
          if \<not> advance then Inr d
          else if e_Sequence e < 0 \<or> list_ex (\<lambda>(k, w). wn_candidate w = c_ID c) (db_witnesses d) then Inl ErrConflict
          else Inr (d\<lparr>db_witnesses := db_witnesses d @ [(e_Owner e, \<lparr>wn_candidate = c_ID c, wn_epoch = e_Epoch e,
                 wn_sequence = e_Sequence e, wn_revision = c_Revision c, wn_hash = dr_hash a e\<rparr>)]\<rparr>)
      | Some w \<Rightarrow>
          if wn_candidate w \<noteq> c_ID c \<or> wn_epoch w \<noteq> e_Epoch e then failed 409 ''WORKSPACE_RECONCILIATION_REQUIRED''
          else if e_Sequence e < wn_sequence w \<or>
             wn_sequence w = e_Sequence e \<and> (wn_revision w \<noteq> c_Revision c \<or> wn_hash w \<noteq> dr_hash a e)
          then failed 409 ''CANDIDATE_WITNESS_CHANGED''
          else if wn_sequence w = e_Sequence e \<or> \<not> advance then Inr d
          else if e_Sequence e < 0 then Inl ErrConflict
          else Inr (d\<lparr>db_witnesses := modify_row (e_Owner e) (\<lambda>w. w\<lparr>wn_sequence := e_Sequence e,
                 wn_revision := c_Revision c, wn_hash := dr_hash a e\<rparr>) (db_witnesses d)\<rparr>))"

section \<open>Preparing a revision\<close>

definition draft_involves :: "Candidate \<Rightarrow> Command \<Rightarrow> string \<Rightarrow> (string \<Rightarrow> bool) \<Rightarrow> bool" where
  "draft_involves c cmd cap ops \<longleftrightarrow> cap \<in> set (Capabilities c) \<or> list_ex (\<lambda>i. ops (in_Operation i)) (cmd_Intents cmd)"

definition treeDraft :: "Candidate \<Rightarrow> Command \<Rightarrow> bool" where
  "treeDraft c cmd \<longleftrightarrow> hasTreeCapability (Capabilities c) \<or>
     list_ex (\<lambda>i. IsMirrorOperation (in_Operation i) \<or> IsTunnelOperation (in_Operation i) \<or>
       IsSpanningTreeOperation (in_Operation i) \<or> in_Operation i = PortIsolationSet \<or> in_Operation i = BridgeMulticastSet)
       (cmd_Intents cmd)"

text \<open>The assignments to \<open>treeCapability\<close> run in order and the last matching one counts.\<close>

definition treeCapability :: "Candidate \<Rightarrow> Command \<Rightarrow> string" where
  "treeCapability c cmd =
     (if draft_involves c cmd MirrorCapability IsMirrorOperation then MirrorCapability
      else if draft_involves c cmd TunnelCapability IsTunnelOperation then TunnelCapability
      else if draft_involves c cmd SpanningTreeWriteCapability (\<lambda>op. op = SpanningTreeConfigure) then SpanningTreeWriteCapability
      else if draft_involves c cmd PortIsolationCapability (\<lambda>op. op = PortIsolationSet) then PortIsolationCapability
      else if draft_involves c cmd BridgeMulticastCapability (\<lambda>op. op = BridgeMulticastSet) then BridgeMulticastCapability
      else SpanningTreePrepareCapability)"

definition tree_denied :: "Candidate \<Rightarrow> Command \<Rightarrow> string list \<Rightarrow> bool" where
  "tree_denied c cmd caps \<longleftrightarrow> cmd_Operation cmd = ''stage'' \<and> treeDraft c cmd \<and>
     (''configuration.read'' \<notin> set caps \<or> treeCapability c cmd \<notin> set caps)"

definition prepare_bindings :: "Candidate \<Rightarrow> Command \<Rightarrow> Binding list" where
  "prepare_bindings c cmd = Bindings c @ concat (map (\<lambda>i. in_Object i #
     (if in_Operation i = BridgeCreate \<or> in_Operation i = InternalPortDelete then [no_binding\<lparr>Table := ''Bridge''\<rparr>] else []))
     (cmd_Intents cmd))"

definition prepare_snapshot :: "draft_ambient \<Rightarrow> Candidate \<Rightarrow> Command \<Rightarrow> Snapshot outcome" where
  "prepare_snapshot a c cmd =
     (if cmd_Operation cmd = ''stage'' \<or> cmd_Operation cmd = ''rebase''
      then (case candidateSnapshot a (prepare_bindings c cmd) of
              (s, None) \<Rightarrow> Inr s
            | (_, Some err) \<Rightarrow> Inl err)
      else Inr zero_Snapshot)"

definition prepare_tx ::
    "draft_ambient \<Rightarrow> string \<Rightarrow> Claims \<Rightarrow> Envelope \<Rightarrow> Command \<Rightarrow> Snapshot \<Rightarrow> draft_db \<Rightarrow> (Envelope \<times> draft_db) outcome" where
  "prepare_tx a credential c e cmd s d =
     then_do (candidateClaims a credential ''config.stage'' d) (\<lambda>current.
     if tree_denied (e_Candidate e) cmd (cl_Capabilities current) then failed 403 ''CAPABILITY_DENIED''
     else then_do (candidateFence a e False d) (\<lambda>d.
     case Prepare (am_host a) (dr_topology a) e cmd s of
       Inl p \<Rightarrow> Inl (Problem p)
     | Inr out \<Rightarrow>
         if cmd_Operation cmd = ''stage'' \<and> hasTreeCapability (Capabilities (e_Candidate out)) \<and>
            \<not> intentCapabilities (cl_Capabilities current) (e_Candidate out)
         then failed 403 ''CAPABILITY_DENIED''
         else let out = Sign (dr_mac a) (dr_key a) out in
           if MaxDocument < h_envelope_bytes (am_host a) out then failed 429 ''CANDIDATE_BUDGET_EXCEEDED''
           else Inr (out, touch (later 5 a) credential c d)))"

definition PrepareCandidate ::
    "fate \<Rightarrow> bool \<Rightarrow> draft_ambient \<Rightarrow> string \<Rightarrow> Envelope \<Rightarrow> Command draft_call \<Rightarrow> draft_db \<Rightarrow> Envelope outcome \<times> draft_db" where
  "PrepareCandidate f writable a credential e s d =
     (case then_do (candidateCommand s ''changeCandidate'') (\<lambda>_.
        case dc_body s of
          None \<Rightarrow> failed 422 ''INVALID_INTENT''
        | Some cmd \<Rightarrow>
            then_do (CheckAuth writable a credential ''config.stage'' [] d) (\<lambda>c.
            case Verify (dr_mac a) (dr_key a) (cl_PrincipalID c) e of
              Some p \<Rightarrow> Inl (Problem p)
            | None \<Rightarrow>
                if \<not> etagPattern (dc_Precondition s) \<or> dc_Precondition s \<noteq> quoted (c_Revision (e_Candidate e))
                then failed 412 ''ETAG_MISMATCH''
                else if dc_Epoch s \<noteq> e_Epoch e then failed 410 ''REQUEST_EPOCH_CHANGED''
                else if treeDraft (e_Candidate e) cmd \<and> ''configuration.read'' \<notin> set (cl_Capabilities c)
                then failed 403 ''CAPABILITY_DENIED''
                else if tree_denied (e_Candidate e) cmd (cl_Capabilities c) then failed 403 ''CAPABILITY_DENIED''
                else then_do (prepare_snapshot a (e_Candidate e) cmd) (\<lambda>snapshot. Inr (c, cmd, snapshot)))) of
        Inl err \<Rightarrow> (Inl err, d)
      | Inr (c, cmd, snapshot) \<Rightarrow> store_write f (prepare_tx (later 3 a) credential c e cmd snapshot) d)"

section \<open>Reading\<close>

definition candidateProblem :: "err \<Rightarrow> Gate" where
  "candidateProblem err =
     gate (case err of Problem p \<Rightarrow> pb_code p | _ \<Rightarrow> ''PROVIDER_UNAVAILABLE'') ''blocked'' ''''"

definition add_invalid :: "Gate \<Rightarrow> CandidateValidation \<Rightarrow> CandidateValidation" where
  "add_invalid g v = v\<lparr>vd_Usable := False, vd_Invalidations := vd_Invalidations v @ [g]\<rparr>"

definition invalidation :: "string \<Rightarrow> CandidateValidation \<Rightarrow> CandidateValidation" where
  "invalidation code v = add_invalid (gate code ''blocked'' '''') v"

definition invalid_if :: "bool \<Rightarrow> string \<Rightarrow> CandidateValidation \<Rightarrow> CandidateValidation" where
  "invalid_if b code v = (if b then invalidation code v else v)"

definition caps_digest :: "'z ambient_scheme \<Rightarrow> string list \<Rightarrow> string" where
  "caps_digest a caps = h_Digest (am_host a) (GArr (map GStr caps))"

definition review_answer :: "draft_ambient \<Rightarrow> Candidate \<Rightarrow> Snapshot \<times> err option \<Rightarrow> View" where
  "review_answer a c s =
     (case snd s of
        None \<Rightarrow> Review (am_host a) (dr_topology a) c (fst s)
      | Some err \<Rightarrow>
          let v = \<lparr>vw_Candidate = c, vw_SafeApplyAvailable = False, vw_CurrentGeneration = None, vw_CurrentRevision = None,
                vw_ConflictSnapshot = None, vw_Diff = [], vw_Checks = [candidateProblem err], vw_DiffTruncated = False\<rparr>
          in if c_Intents c \<noteq> [] then set_state ''stale'' v else v)
     \<lparr>vw_SafeApplyAvailable := dr_safety a\<rparr>"

text \<open>What has changed since the validation: the draft, the time, the policy, the credential, the capabilities,
  the provider's policy or any gate.\<close>

definition revalidated ::
    "draft_ambient \<Rightarrow> Claims \<Rightarrow> Envelope \<Rightarrow> validationRecord \<Rightarrow> Envelope \<Rightarrow> Snapshot \<times> err option \<Rightarrow> CandidateValidation" where
  "revalidated a c e record original s =
     (let v = vr_Validation record;
          v = invalid_if (c_ID (e_Candidate e) \<noteq> vd_CandidateID v \<or> c_Revision (e_Candidate e) \<noteq> vd_CandidateRevision v)
                ''CANDIDATE_CHANGED'' v;
          v = invalid_if (\<not> am_now a 5 < vd_Expires v) ''VALIDATION_EXPIRED'' v;
          v = invalid_if (cl_Revision c \<noteq> vd_PolicyRevision v \<or> cl_Epoch c \<noteq> vr_AuthEpoch record \<or>
                cl_RequestEpoch c \<noteq> vr_RequestEpoch record \<or> caps_digest a (cl_Capabilities c) \<noteq> vr_Capabilities record \<or>
                vr_Validator record \<noteq> ValidatorVersion) ''POLICY_CHANGED'' v;
          v = invalid_if (cl_CredentialID c \<noteq> vr_Credential record) ''VALIDATION_CREDENTIAL_CHANGED'' v;
          v = invalid_if (\<not> intentCapabilities (cl_Capabilities c) (e_Candidate original)) ''CAPABILITY_DENIED'' v;
          v = (case snd s of
                 Some err \<Rightarrow> invalidation (gt_Code (candidateProblem err)) v
               | None \<Rightarrow>
                   foldl (\<lambda>v g. if gt_State g \<noteq> ''allowed'' then add_invalid g v else v)
                     (invalid_if (s_Policy (fst s) \<noteq> vr_ProviderPolicy record) ''AUTHORITY_POLICY_CHANGED'' v)
                     (fst (Checks (am_host a) (dr_topology a) (e_Candidate original) (fst s))))
      in v\<lparr>vd_ExecutionReady := vd_Usable v \<and> dr_safety a\<rparr>)"

definition load_validation :: "string \<Rightarrow> string \<Rightarrow> draft_db \<Rightarrow> (validationRecord \<times> Envelope) outcome" where
  "load_validation x owner d =
     (case map_of (db_validations d) x of
        None \<Rightarrow> failed 404 ''NOT_FOUND''
      | Some (who, row) \<Rightarrow>
          if who \<noteq> owner then failed 404 ''NOT_FOUND''
          else (case (vl_document row, vl_envelope row) of
                  (Some record, Some original) \<Rightarrow> Inr (record, original)
                | _ \<Rightarrow> Inl ErrUnavailable))"

definition read_tx ::
    "draft_ambient \<Rightarrow> string \<Rightarrow> string \<Rightarrow> Envelope \<Rightarrow> (validationRecord \<times> Envelope) option \<Rightarrow> Snapshot \<times> err option \<Rightarrow>
     draft_db \<Rightarrow> (draft_answer \<times> draft_db) outcome" where
  "read_tx a credential cap e stored s d =
     then_do (candidateClaims a credential cap d) (\<lambda>c.
     if treeReadDenied (case stored of None \<Rightarrow> e_Candidate e | Some (_, original) \<Rightarrow> e_Candidate original) (cl_Capabilities c)
     then failed 403 ''CAPABILITY_DENIED''
     else then_do (candidateFence a e True d) (\<lambda>d.
     let out = (case stored of
           None \<Rightarrow> Reviewed (review_answer a (e_Candidate e) s)
         | Some (record, original) \<Rightarrow> Revalidated (revalidated a c e record original s)) in
     if 49152 < dr_answer_bytes a out then failed 429 ''RESPONSE_BUDGET_EXCEEDED''
     else Inr (out, touch (later 6 a) credential c d)))"

definition read_capability :: "string \<Rightarrow> string" where
  "read_capability validation = (if validation \<noteq> '''' then ''config.validate'' else ''workspace.read'')"

definition ReadCandidate ::
    "fate \<Rightarrow> bool \<Rightarrow> draft_ambient \<Rightarrow> string \<Rightarrow> Envelope \<Rightarrow> string \<Rightarrow> draft_db \<Rightarrow> draft_answer outcome \<times> draft_db" where
  "ReadCandidate f writable a credential e validation d =
     (let cap = read_capability validation in
      case then_do (CheckAuth writable a credential cap [] d) (\<lambda>c.
        case Verify (dr_mac a) (dr_key a) (cl_PrincipalID c) e of
          Some p \<Rightarrow> Inl (Problem p)
        | None \<Rightarrow>
            then_do (if validation = '''' then Inr None
                     else then_do (store_read (load_validation validation (cl_PrincipalID c) d)) (\<lambda>v. Inr (Some v))) (\<lambda>stored.
            let reviewed = (case stored of None \<Rightarrow> e_Candidate e | Some (_, original) \<Rightarrow> e_Candidate original) in
            if treeReadDenied reviewed (cl_Capabilities c) then failed 403 ''CAPABILITY_DENIED''
            else Inr (stored, candidateSnapshot a (Bindings reviewed)))) of
        Inl err \<Rightarrow> (Inl err, d)
      | Inr (stored, s) \<Rightarrow> store_write f (read_tx (later 3 a) credential cap e stored s) d)"

section \<open>Validating\<close>

definition draft_claims :: "draft_ambient \<Rightarrow> string \<Rightarrow> string \<Rightarrow> Candidate \<Rightarrow> draft_db \<Rightarrow> Claims outcome" where
  "draft_claims a credential cap c d =
     then_do (candidateClaims a credential cap d) (\<lambda>claims.
     if treeReadDenied c (cl_Capabilities claims) then failed 403 ''CAPABILITY_DENIED'' else Inr claims)"

text \<open>State, gates and differences of a validation.\<close>

definition verdict :: "draft_ambient \<Rightarrow> string list \<Rightarrow> Candidate \<Rightarrow> Snapshot \<times> err option \<Rightarrow> string \<times> Gate list \<times> Diff list" where
  "verdict a caps c s =
     (let (checks, diff) = Checks (am_host a) (dr_topology a) c (fst s);
          state = (if Passed checks then ''passed'' else ''blocked'');
          (state, checks, diff) = (case snd s of
              None \<Rightarrow> (state, checks, diff) | Some err \<Rightarrow> (''failed'', [candidateProblem err], []))
      in if \<not> intentCapabilities caps c
         then (''blocked'', checks @ [gate ''CAPABILITY_DENIED'' ''blocked'' ''''], diff)
         else (state, checks, diff))"

definition validated_generation :: "Candidate \<Rightarrow> Snapshot \<Rightarrow> string outcome" where
  "validated_generation c s =
     (if s_Generation s \<noteq> '''' then Inr (s_Generation s)
      else case c_Generation c of None \<Rightarrow> failed 503 ''PROVIDER_UNAVAILABLE'' | Some g \<Rightarrow> Inr g)"

definition validation_risk :: "Candidate \<Rightarrow> string" where
  "validation_risk c = (if list_ex (\<lambda>i. IsTopologyOperation (si_Operation i)) (c_Intents c)
     then ''high-topology-safe-apply-required'' else ''connectivity-unknown-safe-apply-required'')"

definition new_validation ::
    "draft_ambient \<Rightarrow> Claims \<Rightarrow> validate_request \<Rightarrow> Envelope \<Rightarrow> Snapshot \<times> err option \<Rightarrow> string \<Rightarrow> validationRecord" where
  "new_validation a c q e s generation =
     (let (state, checks, diff) = verdict a (cl_Capabilities c) (e_Candidate e) s;
          expires = am_now a 5 + ValidFor in
      \<lparr>vr_Validation = \<lparr>vd_ID = new_id a 0, vd_CandidateID = vq_CandidateID q, vd_CandidateRevision = vq_Revision q,
         vd_Generation = generation,
         vd_ConfigRevision = (if s_Revision (fst s) = '''' then ''unavailable'' else s_Revision (fst s)),
         vd_PolicyRevision = cl_Revision c,
         vd_Expires = (if cl_ExpiresAt c < expires then cl_ExpiresAt c else expires),
         vd_Job = Some \<lparr>ref_Kind = ''job'', ref_ID = new_id a 2\<rparr>, vd_State = state, vd_Checks = checks, vd_Diff = diff,
         vd_ChangeSetID = new_id a 1, vd_Usable = (state = ''passed''), vd_Invalidations = [],
         vd_Risk = validation_risk (e_Candidate e), vd_ExecutionReady = False\<rparr>,
       vr_Credential = cl_CredentialID c, vr_AuthEpoch = cl_Epoch c, vr_RequestEpoch = cl_RequestEpoch c,
       vr_Capabilities = caps_digest a (cl_Capabilities c), vr_ProviderPolicy = s_Policy (fst s),
       vr_Validator = ValidatorVersion\<rparr>)"

definition validation_job :: "string \<Rightarrow> string \<Rightarrow> Ref \<Rightarrow> string \<Rightarrow> moment \<Rightarrow> Job" where
  "validation_job x state resource changeset created =
     \<lparr>j_RelatedObjects = [], j_ID = x, j_Sequence = '''', j_State = (if state = ''failed'' then ''failed'' else ''succeeded''),
      j_Operation = '''', j_Owner = '''', j_Capability = '''', j_Resource = Some resource, j_Correlation = '''', j_RequestID = '''',
      j_RequestDomain = '''', j_RequestEpoch = '''', j_Credential = '''', j_ChangeSet = changeset, j_Transaction = '''',
      j_Cancellable = False, j_CancelRequested = False, j_Dispatch = ''completed'',
      j_Business = (if state = ''failed'' then ''failure'' else ''success''), j_Commit = ''not-applicable'', j_Applied = '''',
      j_Confirmation = '''', j_Reason = ''validation-'' @ state, j_Handler = '''', j_Created = created,
      j_Updated = 0, j_Completed = None\<rparr>"

definition validation_audit :: "string \<Rightarrow> Ref \<Rightarrow> string \<Rightarrow> string \<Rightarrow> moment \<Rightarrow> Evidence_Record" where
  "validation_audit state resource job changeset created =
     \<lparr>ev_RelatedObjects = [], ev_ID = '''', ev_Collection = ''audit'', ev_Sequence = '''', ev_Origin = ''Manager'',
      ev_Actor = '''', ev_Credential = '''', ev_Capability = '''', ev_Operation = ''validate-candidate'', ev_Object = Some resource,
      ev_ChangeSet = changeset, ev_Transaction = '''', ev_Job = job, ev_RequestID = '''', ev_RequestDomain = '''',
      ev_RequestEpoch = '''', ev_Correlation = '''', ev_Result = state, ev_Reason = ''validation-'' @ state, ev_Created = created,
      ev_DedupKey = '''', ev_Critical = False\<rparr>"

text \<open>The writes of a validation: its completed job, its row and its audit record.\<close>

definition record_validation ::
    "draft_ambient \<Rightarrow> string \<Rightarrow> validationRecord \<Rightarrow> Envelope \<Rightarrow> draft_db \<Rightarrow> draft_db outcome" where
  "record_validation a owner r e d =
     (let v = vr_Validation r; resource = \<lparr>ref_Kind = ''validation'', ref_ID = vd_ID v\<rparr>;
          job = new_id a 2; changeset = vd_ChangeSetID v in
      then_do (CreateJob (later 7 a) (validation_job job (vd_State v) resource changeset (am_now a 6)) d) (\<lambda>(_, d).
      then_do (insert_row (vd_ID v) (owner, \<lparr>vl_candidate = vd_CandidateID v, vl_revision = vd_CandidateRevision v,
          vl_job = job, vl_changeset = changeset, vl_created = UnixMilli (am_now a 12), vl_envelope = Some e,
          vl_document = Some r\<rparr>) (db_validations d)) (\<lambda>rows.
      then_do (Append (later 14 a) (validation_audit (vd_State v) resource job changeset (am_now a 13))
          (d\<lparr>db_validations := rows\<rparr>)) (\<lambda>(_, d). Inr d))))"

definition validate_tx ::
    "string \<Rightarrow> string \<Rightarrow> Envelope \<Rightarrow> validate_request \<Rightarrow> Snapshot \<times> err option \<Rightarrow> draft_ambient \<Rightarrow> draft_db \<Rightarrow>
     (Mutation \<times> draft_db) outcome" where
  "validate_tx credential cap e q s a d =
     then_do (draft_claims a credential cap (e_Candidate e) d) (\<lambda>c.
     then_do (candidateFence a e True d) (\<lambda>d.
     if MaxValidations \<le> length (db_validations d) then failed 429 ''VALIDATION_CAPACITY_REACHED''
     else then_do (validated_generation (e_Candidate e) (fst s)) (\<lambda>generation.
     let r = new_validation a c q e s generation in
     if 49152 < dr_record_bytes a r \<or> MaxDocument < h_envelope_bytes (am_host a) e
     then failed 429 ''CANDIDATE_BUDGET_EXCEEDED''
     else then_do (record_validation a (cl_PrincipalID c) r e d) (\<lambda>d.
       Inr (\<lparr>mn_Status = 202, mn_Body = Some (GObj []), mn_BodyBytes = 2,
              mn_Resource = Some \<lparr>ref_Kind = ''validation'', ref_ID = vd_ID (vr_Validation r)\<rparr>,
              mn_Job = vd_Job (vr_Validation r), mn_Terminal = True, mn_SecretResponse = False\<rparr>,
            touch (later 20 a) credential c d)))))"

definition draft_command :: "Claims \<Rightarrow> 'b draft_call \<Rightarrow> string \<Rightarrow> string \<Rightarrow> Api_Command" where
  "draft_command c s op cap =
     \<lparr>ac_Principal = cl_PrincipalID c, ac_Epoch = dc_Epoch s, ac_Domain = ''management'', ac_ID = dc_RequestID s,
      ac_Operation = op, ac_Method = dc_Method s, ac_URI = dc_URI s, ac_Precondition = '''',
      ac_Credential = cl_CredentialID c, ac_Capability = cap, ac_Payload = dc_Payload s, ac_PayloadBytes = dc_PayloadBytes s,
      ac_Sensitive = False, ac_FingerprintKey = [], ac_SecretResponse = False\<rparr>"

definition ValidateCandidate ::
    "fate \<Rightarrow> draft_ambient \<Rightarrow> string \<Rightarrow> Envelope \<Rightarrow> validate_request draft_call \<Rightarrow> draft_db \<Rightarrow> Result outcome \<times> draft_db" where
  "ValidateCandidate f a credential e s d =
     (case then_do (candidateCommand s ''createValidation'') (\<lambda>(op, _).
        case dc_body s of
          None \<Rightarrow> failed 422 ''INVALID_REQUEST''
        | Some q \<Rightarrow>
            let authorize = (\<lambda>n. store_read (draft_claims (later n a) credential (op_Capability op) (e_Candidate e) d)) in
            then_do (authorize 0) (\<lambda>c.
            let command = draft_command c s (op_ID op) ''configuration.validate'' in
            then_do (Replay (later 5 a) command (then_do (authorize 5) (\<lambda>_. Inr ())) d) (\<lambda>prior.
            case prior of
              Some r \<Rightarrow> Inr (Inl r)
            | None \<Rightarrow>
                (case Verify (dr_mac a) (dr_key a) (cl_PrincipalID c) e of
                   Some p \<Rightarrow> Inl (Problem p)
                 | None \<Rightarrow>
                     if vq_CandidateID q \<noteq> c_ID (e_Candidate e) \<or> vq_Revision q \<noteq> c_Revision (e_Candidate e)
                     then failed 409 ''CANDIDATE_CHANGED''
                     else Inr (Inr (op, q, command, candidateSnapshot a (Bindings (e_Candidate e)))))))) of
        Inl err \<Rightarrow> (Inl err, d)
      | Inr (Inl r) \<Rightarrow> (Inr r, d)
      | Inr (Inr (op, q, command, snapshot)) \<Rightarrow>
          Execute f (later 20 a) ''management'' command
            (store_read (then_do (draft_claims (later 10 a) credential (op_Capability op) (e_Candidate e) d) (\<lambda>_. Inr ())))
            (\<lambda>d. store_read (then_do (draft_claims (later 15 a) credential (op_Capability op) (e_Candidate e) d) (\<lambda>_. Inr ())))
            (validate_tx credential (op_Capability op) e q snapshot) d)"

end
