(* ===== verification/Draft_Admission.thy ===== *)
theory Draft_Admission
  imports Drafts Safe_Apply
begin

text \<open>
  From a validated draft to the execution engine (\<^verbatim>\<open>internal/repository/auth/execution.go\<close>,
  \<^verbatim>\<open>safety.go\<close> and the job cancellation of \<^verbatim>\<open>evidence.go\<close>): the authority a provider write needs at the
  moment it is asked for, the admission and the decision of a safe apply, the authority the watchdog
  reloads by the identifier of the credential, the resolution of a frozen draft, and the two management
  commands on transactions and jobs.

  The engine asks for the authority several times during one call; \<open>v n\<close> and \<open>t n\<close> are the ambient values and
  the tables when it asks for the \<open>n\<close>th time.
\<close>

section \<open>The authority of an execution\<close>

definition no_authorization :: Authorization where
  "no_authorization = \<lparr>az_Owner = '''', az_Credential = '''', az_Epoch = '''', az_Policy = '''', az_ProviderPolicy = '''',
     az_ChangeSet = '''', az_Validation = '''', az_Scope = '''', az_Expires = 0, az_FieldCapabilities = ''''\<rparr>"

text \<open>\<open>strings.Join(xs, ",")\<close>\<close>

fun join_commas :: "string list \<Rightarrow> string" where
  "join_commas [] = ''''"
| "join_commas [x] = x"
| "join_commas (x # y # r) = x @ CHR '','' # join_commas (y # r)"

definition field_capabilities :: "Candidate \<Rightarrow> string" where
  "field_capabilities c = join_commas (filter (\<lambda>cap. cap \<noteq> ''configuration.read'') (Capabilities c))"

definition execution_authorization ::
    "draft_ambient \<Rightarrow> Claims \<Rightarrow> string \<Rightarrow> validationRecord \<Rightarrow> Envelope \<Rightarrow> Authorization" where
  "execution_authorization a c validation r e =
     (let v = vr_Validation r in
      \<lparr>az_Owner = cl_PrincipalID c, az_Credential = cl_CredentialID c, az_Epoch = cl_RequestEpoch c,
       az_Policy = vd_PolicyRevision v, az_ProviderPolicy = vr_ProviderPolicy r, az_ChangeSet = vd_ChangeSetID v,
       az_Validation = validation, az_Scope = dr_scope a validation e (vd_Risk v) (vr_ProviderPolicy r),
       az_Expires = vd_Expires v, az_FieldCapabilities = field_capabilities (e_Candidate e)\<rparr>)"

definition validation_usable :: "draft_ambient \<Rightarrow> Claims \<Rightarrow> validationRecord \<Rightarrow> unit outcome" where
  "validation_usable a c r =
     (let v = vr_Validation r in
      if vd_State v \<noteq> ''passed'' \<or> \<not> vd_Usable v \<or> \<not> am_now a 5 < vd_Expires v then failed 409 ''VALIDATION_NOT_USABLE''
      else if cl_CredentialID c \<noteq> vr_Credential r \<or> cl_Epoch c \<noteq> vr_AuthEpoch r \<or> cl_RequestEpoch c \<noteq> vr_RequestEpoch r \<or>
         cl_Revision c \<noteq> vd_PolicyRevision v \<or> caps_digest a (cl_Capabilities c) \<noteq> vr_Capabilities r \<or>
         vr_Validator r \<noteq> ValidatorVersion
      then failed 409 ''VALIDATION_AUTHORITY_CHANGED''
      else Inr ())"

definition witness_exact :: "draft_ambient \<Rightarrow> string \<Rightarrow> Envelope \<Rightarrow> draft_db \<Rightarrow> unit outcome" where
  "witness_exact a owner e d =
     (case map_of (db_witnesses d) owner of
        None \<Rightarrow> failed 409 ''WORKSPACE_WITNESS_REQUIRED''
      | Some w \<Rightarrow>
          if wn_candidate w \<noteq> c_ID (e_Candidate e) \<or> wn_epoch w \<noteq> e_Epoch e \<or> wn_sequence w \<noteq> e_Sequence e \<or>
             wn_revision w \<noteq> c_Revision (e_Candidate e) \<or> wn_hash w \<noteq> dr_hash a e
          then failed 409 ''WORKSPACE_WITNESS_CHANGED'' else Inr ())"

definition preflight :: "draft_ambient \<Rightarrow> Candidate \<Rightarrow> string \<Rightarrow> unit outcome" where
  "preflight a c policy =
     (case candidateSnapshot a (Bindings c) of
        (_, Some err) \<Rightarrow> Inl err
      | (s, None) \<Rightarrow>
          if s_Policy s \<noteq> policy then failed 409 ''AUTHORITY_POLICY_CHANGED''
          else if \<not> Passed (fst (Checks (am_host a) (dr_topology a) c s)) then failed 409 ''EXECUTION_PREFLIGHT_CONFLICT''
          else Inr ())"

definition ExecutionAuthorizer ::
    "draft_ambient \<Rightarrow> string \<Rightarrow> Execution_Request \<Rightarrow> bool \<Rightarrow> draft_db \<Rightarrow> Authorization outcome" where
  "ExecutionAuthorizer a credential q replay d =
     then_do (candidateClaims a credential ''config.apply'' d) (\<lambda>c.
     if cl_PrincipalID c \<noteq> e_Owner (xr_Envelope q) then failed 403 ''RESOURCE_DENIED''
     else case Verify (dr_mac a) (dr_key a) (cl_PrincipalID c) (xr_Envelope q) of
       Some p \<Rightarrow> Inl (Problem p)
     | None \<Rightarrow>
         if replay
         then Inr (no_authorization\<lparr>az_Owner := cl_PrincipalID c, az_Credential := cl_CredentialID c, az_Epoch := cl_RequestEpoch c\<rparr>)
         else if \<not> intentCapabilities (cl_Capabilities c) (e_Candidate (xr_Envelope q)) then failed 403 ''CAPABILITY_DENIED''
         else then_do (load_validation (xr_ValidationID q) (cl_PrincipalID c) d) (\<lambda>(r, e).
           if dr_hash a e \<noteq> dr_hash a (xr_Envelope q) then failed 409 ''VALIDATION_SCOPE_CHANGED''
           else then_do (validation_usable a c r) (\<lambda>_.
           then_do (witness_exact a (cl_PrincipalID c) e d) (\<lambda>_.
           then_do (preflight a (e_Candidate e) (vr_ProviderPolicy r)) (\<lambda>_.
           Inr (execution_authorization a c (xr_ValidationID q) r e))))))"

section \<open>The authority the watchdog reloads\<close>

text \<open>The joined rows of a credential by its identifier: the row, when it was issued and last used, and whether
  it is a grant.\<close>

definition grant_rows :: "string \<Rightarrow> string \<Rightarrow> draft_db \<Rightarrow> (credential_row \<times> int \<times> int \<times> bool) list" where
  "grant_rows x owner d = List.map_filter (\<lambda>(h, u).
     case map_of (db_grants d) h of
       None \<Rightarrow> None
     | Some g \<Rightarrow> if gu_id u = x \<and> cr_principal g = owner then Some (g, gu_issued u, gu_last u, True) else None) (db_auth_grants d)"

definition token_rows :: "string \<Rightarrow> string \<Rightarrow> draft_db \<Rightarrow> (credential_row \<times> int \<times> int \<times> bool) list" where
  "token_rows x owner d = List.map_filter (\<lambda>(h, u).
     case map_of (db_tokens d) h of
       None \<Rightarrow> None
     | Some g \<Rightarrow> if tu_id u = x \<and> cr_principal g = owner then Some (g, tu_created u, tu_last u, False) else None) (db_auth_tokens d)"

definition executable_fields :: "string list" where
  "executable_fields = [MirrorCapability, TunnelCapability, PortIsolationCapability, BridgeMulticastCapability,
     SpanningTreeWriteCapability, ''ovs.topology.write'', ''ovs.port.vlan.write'', ''ovs.port.bond.write'', ''ovs.bridge.create'',
     ''ovs.bridge.delete'', ''ovs.port.internal.create'', ''ovs.port.internal.delete'', ''ovs.interface.mtu.write'',
     ''ovs.interface.policing.write'']"

text \<open>The capabilities a running apply needs: \<open>None\<close> when its journal names one that no execution needs. A legacy
  journal names none.\<close>

definition apply_capabilities :: "string \<Rightarrow> string list option" where
  "apply_capabilities names =
     (let caps = Split (CHR '','') (if names = '''' then ''ovs.port.vlan.write'' else names) in
      if list_all (\<lambda>cap. cap \<in> set executable_fields) caps
      then Some ([''configuration.apply'', ''configuration.confirm'', ''configuration.read'', ''inventory.read''] @ caps)
      else None)"

definition safeAuthority :: "'z access_ambient_scheme \<Rightarrow> Authorization \<Rightarrow> draft_db \<Rightarrow> unit outcome" where
  "safeAuthority a z d =
     (let revoked = failed 403 ''APPLY_AUTHORITY_REVOKED'' in
      then_do (clock a d) (\<lambda>(epoch, _).
      case (map_of (db_principals d) (az_Owner z),
            grant_rows (az_Credential z) (az_Owner z) d @ token_rows (az_Credential z) (az_Owner z) d) of
        (Some p, (row, issued, used, grant) # _) \<Rightarrow>
          let now = Unix (am_now a 1) in
          if cr_epoch row \<noteq> epoch \<or> pr_disabled p \<or> cr_revoked row \<noteq> None \<or> now < issued \<or> cr_expires row \<le> now \<or>
             grant \<and> used + SessionIdle div 1000000000 \<le> now
          then revoked
          else if db_epoch d \<noteq> az_Epoch z then revoked
          else (case cr_ceiling row of
            None \<Rightarrow> Inl ErrUnavailable
          | Some caps \<Rightarrow>
              then_do (capabilities (az_Owner z) d) (\<lambda>current.
              case apply_capabilities (az_FieldCapabilities z) of
                None \<Rightarrow> revoked
              | Some needed \<Rightarrow>
                  if list_all (\<lambda>cap. cap \<in> set caps \<and> cap \<in> set current) needed then Inr () else revoked))
      | _ \<Rightarrow> revoked))"

section \<open>Admission of a safe apply\<close>

record safe_command =
  sm_Candidate :: string
  sm_Revision :: string
  sm_Validation :: string
  sm_Mode :: string

text \<open>\<^verbatim>\<open>safety.Request\<close> with the document it encodes to.\<close>

record safe_request =
  sq_Envelope :: Envelope
  sq_Command :: "safe_command draft_call"
  sq_Reservation :: string
  sq_document :: any
  sq_document_bytes :: nat

definition safeCommand :: "draft_ambient \<Rightarrow> safe_request \<Rightarrow> Execution_Request outcome" where
  "safeCommand a s =
     then_do (candidateCommand (sq_Command s) ''createTransaction'') (\<lambda>_.
     case dc_body (sq_Command s) of
       None \<Rightarrow> failed 422 ''INVALID_SAFE_APPLY''
     | Some cmd \<Rightarrow>
         let e = sq_Envelope s in
         if \<not> ManagementID (sq_Reservation s) \<or> MaxDocument < h_envelope_bytes (am_host a) e then failed 422 ''INVALID_SAFE_APPLY''
         else if sm_Mode cmd \<noteq> ''safe-apply'' then failed 409 ''SAFE_APPLY_REQUIRED''
         else if sm_Candidate cmd \<noteq> c_ID (e_Candidate e) \<or> sm_Revision cmd \<noteq> c_Revision (e_Candidate e)
         then failed 409 ''CANDIDATE_CHANGED''
         else Inr \<lparr>xr_ID = dc_RequestID (sq_Command s), xr_ValidationID = sm_Validation cmd, xr_Envelope = e\<rparr>)"

text \<open>\<open>reservedLease.Check\<close>\<close>

definition reservedLease :: "draft_ambient \<Rightarrow> safe_request \<Rightarrow> Execution_Request \<Rightarrow> draft_db \<Rightarrow> unit outcome" where
  "reservedLease a s q d =
     (if \<not> dr_safety a \<or> xr_ID q \<noteq> dc_RequestID (sq_Command s) \<or> dr_hash a (xr_Envelope q) \<noteq> dr_hash a (sq_Envelope s)
      then failed 409 ''WORKSPACE_RESERVATION_REQUIRED''
      else if (e_Owner (xr_Envelope q), dc_Epoch (sq_Command s), xr_ID q) \<in> set (db_resolutions d)
      then failed 409 ''SAFE_APPLY_ALREADY_RESOLVED''
      else Inr ())"

text \<open>The environment of the worker: the lease and the authority when the provider asks to send.\<close>

definition worker_authority ::
    "draft_ambient \<Rightarrow> string \<Rightarrow> safe_request \<Rightarrow> Execution_Request \<Rightarrow> draft_db \<Rightarrow> worker_env" where
  "worker_authority a credential s q d =
     \<lparr>we_lease = reservedLease a s q d, we_fresh = ExecutionAuthorizer a credential q False d\<rparr>"

definition safe_submission ::
    "(nat \<Rightarrow> draft_ambient) \<Rightarrow> (nat \<Rightarrow> draft_db) \<Rightarrow> string \<Rightarrow> bool \<Rightarrow> safe_request \<Rightarrow> Execution_Request \<Rightarrow> submission" where
  "safe_submission v t credential writable s q =
     \<lparr>su_request = q, su_payload = sq_document s, su_payload_bytes = sq_document_bytes s,
      su_replay_auth = store_read (ExecutionAuthorizer (v 1) credential q True (t 1)),
      su_reauth = store_read (then_do (ExecutionAuthorizer (v 2) credential q True (t 2)) (\<lambda>_. Inr ())),
      su_auth = store_read (ExecutionAuthorizer (v 4) credential q False (t 4)),
      su_fresh = ExecutionAuthorizer (v 5) credential q False (t 5),
      su_lease = Some (reservedLease (v 3) s q (t 3)),
      su_writable = writable, su_safe = None, su_worker = worker_authority (v 6) credential s q (t 6)\<rparr>"

definition safe_apply_command :: "Claims \<Rightarrow> safe_request \<Rightarrow> Api_Command" where
  "safe_apply_command c s =
     (draft_command c (sq_Command s) ''createTransaction'' ''configuration.apply'')
       \<lparr>ac_Epoch := cl_RequestEpoch c, ac_Payload := Some (sq_document s), ac_PayloadBytes := sq_document_bytes s\<rparr>"

definition AdmitSafeApply ::
    "(nat \<Rightarrow> fate) \<Rightarrow> bool \<Rightarrow> (nat \<Rightarrow> draft_ambient) \<Rightarrow> (nat \<Rightarrow> draft_db) \<Rightarrow> engine_ambient \<Rightarrow> engine_config \<Rightarrow> provider \<Rightarrow> string \<Rightarrow>
     safe_request \<Rightarrow> engine \<Rightarrow> Result outcome \<times> engine" where
  "AdmitSafeApply f writable v t a g p credential s e =
     (case then_do (safeCommand (v 0) s) (\<lambda>q.
        then_do (CheckAuth writable (v 0) credential ''config.apply'' [] (t 0)) (\<lambda>c.
        if dc_Epoch (sq_Command s) \<noteq> cl_RequestEpoch c then failed 410 ''REQUEST_EPOCH_CHANGED''
        else if \<not> dr_engine (v 0) then failed 409 ''SAFE_APPLY_REQUIRED''
        else Inr (q, c))) of
        Inl err \<Rightarrow> (Inl err, e)
      | Inr (q, c) \<Rightarrow>
          SubmitSafe f a g p (safe_submission v t credential writable s q)
            \<lparr>ad_Command = safe_apply_command c s, ad_Reservation = sq_Reservation s\<rparr> e)"

section \<open>Decision of a safe apply\<close>

record decide_command =
  dm_Decision :: string
  dm_Sequence :: string

definition decision_capability :: "string \<Rightarrow> string" where
  "decision_capability decision = (if decision = ''rollback'' then ''configuration.rollback'' else ''configuration.confirm'')"

definition decision_check ::
    "draft_ambient \<Rightarrow> string \<Rightarrow> string \<Rightarrow> Operation \<Rightarrow> string list \<Rightarrow> draft_db \<Rightarrow> Claims outcome" where
  "decision_check a credential cap op path d =
     then_do (claims a credential d) (\<lambda>c.
     then_do (require_capability c cap False (Unix (am_now a 2))) (\<lambda>_.
     then_do (checkRefs c (refsFor op path) d) (\<lambda>_. Inr c)))"

definition path_value :: "string list \<Rightarrow> string" where
  "path_value path = (case path of [] \<Rightarrow> '''' | x # _ \<Rightarrow> x)"

definition decideSafeApply ::
    "fate \<Rightarrow> bool \<Rightarrow> (nat \<Rightarrow> draft_ambient) \<Rightarrow> (nat \<Rightarrow> draft_db) \<Rightarrow> engine_ambient \<Rightarrow> engine_config option \<Rightarrow> provider \<Rightarrow> string \<Rightarrow>
     decide_command draft_call \<Rightarrow> engine \<Rightarrow> Result outcome \<times> engine" where
  "decideSafeApply f writable v t a g p credential s e =
     (case then_do (candidateCommand s ''decideTransaction'') (\<lambda>(op, path).
        case dc_body s of
          None \<Rightarrow> failed 422 ''INVALID_DECISION''
        | Some cmd \<Rightarrow>
            then_do (store_read (decision_check (v 0) credential (decision_capability (dm_Decision cmd)) op path (t 0))) (\<lambda>c.
            if \<not> dr_engine (v 0) then failed 503 ''SAFE_APPLY_UNAVAILABLE''
            else Inr (op, path, cmd, c))) of
        Inl err \<Rightarrow> (Inl err, e)
      | Inr (op, path, cmd, c) \<Rightarrow>
          let cap = decision_capability (dm_Decision cmd) in
          Decide f a g p (path_value path)
            \<lparr>de_sequence = dm_Sequence cmd, de_decision = dm_Decision cmd,
             de_check = then_do (decision_check (v 1) credential cap op path (t 1)) (\<lambda>_. Inr ()),
             de_command = draft_command c s (op_ID op) cap, de_writable = writable\<rparr> e)"

section \<open>Resolution of a frozen draft\<close>

definition MaxResolutions :: nat where "MaxResolutions = 10000"

definition no_resolution :: Safe_Resolution where
  "no_resolution = \<lparr>rz_Confirmed = False, rz_Pending = False, rz_Transaction = None, rz_Envelope = None\<rparr>"

definition applied_row :: "string \<times> string \<times> string \<Rightarrow> draft_db \<Rightarrow> string option" where
  "applied_row k d = map_option fst (find (\<lambda>(x, row). (sr_Owner row, sr_Epoch row, sr_Request row) = k) (db_safes d))"

text \<open>What became of the request: nothing, or a transaction that is pending, ended, or ended in a confirmation.\<close>

datatype request_state = Unadmitted | Pending string | Ended string bool

definition request_end ::
    "safe_request \<Rightarrow> string \<Rightarrow> string \<times> string \<times> string \<Rightarrow> draft_db \<Rightarrow> request_state outcome" where
  "request_end s digest k d =
     (case applied_row k d of
        None \<Rightarrow> Inr Unadmitted
      | Some x \<Rightarrow>
          then_do (loadSafety x (journal_db.truncate d)) (\<lambda>sf.
          if sf_Reservation sf \<noteq> sq_Reservation s \<or> sf_Fingerprint sf \<noteq> digest then failed 409 ''RESERVATION_MISMATCH''
          else if \<not> Terminal_safety (sf_State sf) then Inr (Pending x)
          else Inr (Ended x (sf_State sf = ''confirmed''))))"

text \<open>The successor of the draft: a new empty candidate after a confirmation, the same intents again otherwise.\<close>

definition successor :: "draft_ambient \<Rightarrow> bool \<Rightarrow> Envelope \<Rightarrow> Envelope" where
  "successor a confirmed e =
     (let c = e_Candidate e;
          c = (if confirmed
               then \<lparr>c_ID = new_id a 1, c_Revision = new_id a 2, c_Generation = None, c_BaseRevision = None,
                     c_State = ''empty'', c_Intents = [], c_Consumed = None\<rparr>
               else c\<lparr>c_Revision := new_id a 0, c_State := (if c_Intents c = [] then ''empty'' else ''staged'')\<rparr>)
      in Sign (dr_mac a) (dr_key a) (e\<lparr>e_Sequence := int64 (e_Sequence e + 1), e_Candidate := c\<rparr>))"

definition replace_witness :: "draft_ambient \<Rightarrow> string \<Rightarrow> Envelope \<Rightarrow> Envelope \<Rightarrow> draft_db \<Rightarrow> draft_db outcome" where
  "replace_witness a owner old new d =
     (case map_of (db_witnesses d) owner of
        None \<Rightarrow> failed 409 ''WORKSPACE_WITNESS_CHANGED''
      | Some w \<Rightarrow>
          if wn_candidate w \<noteq> c_ID (e_Candidate old) \<or> wn_epoch w \<noteq> e_Epoch old \<or> wn_sequence w \<noteq> e_Sequence old \<or>
             wn_hash w \<noteq> dr_hash a old
          then failed 409 ''WORKSPACE_WITNESS_CHANGED''
          else if e_Sequence new < 0 \<or> list_ex (\<lambda>(k, v). k \<noteq> owner \<and> wn_candidate v = c_ID (e_Candidate new)) (db_witnesses d)
          then Inl ErrConflict
          else Inr (d\<lparr>db_witnesses := modify_row owner (\<lambda>w. w\<lparr>wn_candidate := c_ID (e_Candidate new),
                 wn_sequence := e_Sequence new, wn_revision := c_Revision (e_Candidate new), wn_hash := dr_hash a new\<rparr>)
                 (db_witnesses d)\<rparr>))"

definition resolution_audit :: "Claims \<Rightarrow> Ref option \<Rightarrow> moment \<Rightarrow> Evidence_Record" where
  "resolution_audit c tx created =
     \<lparr>ev_RelatedObjects = [], ev_ID = '''', ev_Collection = ''audit'', ev_Sequence = '''', ev_Origin = ''Manager'',
      ev_Actor = cl_PrincipalID c, ev_Credential = cl_CredentialID c, ev_Capability = ''workspace.read'',
      ev_Operation = ''safe-workspace-resolved'', ev_Object = tx, ev_ChangeSet = '''', ev_Transaction = '''', ev_Job = '''',
      ev_RequestID = '''', ev_RequestDomain = '''', ev_RequestEpoch = '''', ev_Correlation = '''', ev_Result = ''resolved'',
      ev_Reason = '''', ev_Created = created, ev_DedupKey = '''', ev_Critical = True\<rparr>"

definition insert_resolution ::
    "string \<times> string \<times> string \<Rightarrow> string \<Rightarrow> Safe_Resolution \<Rightarrow> draft_db \<Rightarrow> draft_db outcome" where
  "insert_resolution k digest out d =
     (if k \<in> set (db_resolutions d) then Inl ErrConflict
      else Inr (d\<lparr>db_resolutions := db_resolutions d @ [k], db_resolved := db_resolved d @ [(k, digest, out)]\<rparr>))"

definition settle_draft ::
    "draft_ambient \<Rightarrow> Claims \<Rightarrow> safe_request \<Rightarrow> string \<times> string \<times> string \<Rightarrow> string \<Rightarrow> string option \<Rightarrow> bool \<Rightarrow> draft_db \<Rightarrow>
     (Safe_Resolution \<times> draft_db) outcome" where
  "settle_draft a c s k digest tx confirmed d =
     (let e = sq_Envelope s; next = successor a confirmed e; ref = map_option transaction_ref tx;
          out = no_resolution\<lparr>rz_Confirmed := confirmed, rz_Transaction := ref, rz_Envelope := Some next\<rparr> in
      then_do (candidateFence a e False d) (\<lambda>d.
      if MaxResolutions \<le> length (db_resolutions d) then failed 429 ''SAFE_RESOLUTION_CAPACITY''
      else then_do (if confirmed then replace_witness a (cl_PrincipalID c) e next d else candidateFence a next True d) (\<lambda>d.
      then_do (insert_resolution k digest out d) (\<lambda>d.
      then_do (Append (later 6 a) (resolution_audit c ref (am_now a 5)) d) (\<lambda>(_, d). Inr (out, d))))))"

definition resolve_tx ::
    "draft_ambient \<Rightarrow> string \<Rightarrow> safe_request \<Rightarrow> draft_db \<Rightarrow> (Safe_Resolution \<times> draft_db) outcome" where
  "resolve_tx a credential s d =
     then_do (candidateClaims a credential ''workspace.read'' d) (\<lambda>c.
     case Verify (dr_mac a) (dr_key a) (cl_PrincipalID c) (sq_Envelope s) of
       Some p \<Rightarrow> Inl (Problem p)
     | None \<Rightarrow>
         let k = (cl_PrincipalID c, dc_Epoch (sq_Command s), dc_RequestID (sq_Command s));
             digest = dr_sha256 a (sq_document s) in
         (case map_of (db_resolved d) k of
            Some (prior, out) \<Rightarrow>
              if prior \<noteq> digest then failed 409 ''IDEMPOTENCY_MISMATCH'' else Inr (out, d)
          | None \<Rightarrow>
              then_do (request_end s digest k d) (\<lambda>r.
              case r of
                Pending x \<Rightarrow> Inr (no_resolution\<lparr>rz_Pending := True, rz_Transaction := Some (transaction_ref x)\<rparr>, d)
              | Unadmitted \<Rightarrow> settle_draft a c s k digest None False d
              | Ended x confirmed \<Rightarrow> settle_draft a c s k digest (Some x) confirmed d)))"

definition ResolveSafeApply ::
    "fate \<Rightarrow> draft_ambient \<Rightarrow> string \<Rightarrow> safe_request \<Rightarrow> draft_db \<Rightarrow> Safe_Resolution outcome \<times> draft_db" where
  "ResolveSafeApply f a credential s d =
     (case safeCommand a s of
        Inl err \<Rightarrow> (Inl err, d)
      | Inr _ \<Rightarrow> store_write f (resolve_tx a credential s) d)"

section \<open>Cancellation of a job\<close>

definition cancel_check :: "draft_ambient \<Rightarrow> string \<Rightarrow> Operation \<Rightarrow> string \<Rightarrow> draft_db \<Rightarrow> Claims outcome" where
  "cancel_check a credential op x d =
     then_do (checkOperation a credential op [] False d) (\<lambda>c.
     then_do (LoadJob x d) (\<lambda>j.
     if j_Owner j \<noteq> cl_PrincipalID c then failed 404 ''NOT_FOUND''
     else then_do (require_capability c (j_Capability j) False (Unix (am_now a 3))) (\<lambda>_. Inr c)))"

definition cancel_transition :: "Job \<Rightarrow> Job_Transition" where
  "cancel_transition j =
     (if j_State j = ''queued'' \<and> j_Dispatch j = ''not-started''
      then \<lparr>jt_State = ''cancelled'', jt_Dispatch = '''', jt_Business = ''cancelled'', jt_Commit = ''not-sent'', jt_Applied = '''',
            jt_Confirmation = '''', jt_Reason = ''cancelled-before-dispatch''\<rparr>
      else \<lparr>jt_State = ''cancel-requested'', jt_Dispatch = '''', jt_Business = '''', jt_Commit = '''', jt_Applied = '''',
            jt_Confirmation = '''', jt_Reason = ''cancellation-requested''\<rparr>)"

definition cancel_ack :: "Ref \<Rightarrow> moment \<Rightarrow> Job" where
  "cancel_ack resource created = (security_job '''' resource created)\<lparr>j_Reason := ''cancellation-request-recorded''\<rparr>"

definition cancel_tx :: "string \<Rightarrow> Operation \<Rightarrow> string \<Rightarrow> string \<Rightarrow> draft_ambient \<Rightarrow> draft_db \<Rightarrow> (Mutation \<times> draft_db) outcome" where
  "cancel_tx credential op x request a d =
     then_do (cancel_check a credential op x d) (\<lambda>c.
     then_do (LoadJob x d) (\<lambda>j.
     if Terminal_job (j_State j) \<or> \<not> j_Cancellable j \<and> \<not> j_CancelRequested j then failed 409 ''JOB_NOT_CANCELLABLE''
     else then_do (if j_CancelRequested j then Inr d
                   else then_do (ChangeJob (later 5 a) (j_ID j) (j_Sequence j) (cancel_transition j) (am_now a 4) d) (\<lambda>(_, d). Inr d)) (\<lambda>d.
     let resource = \<lparr>ref_Kind = ''job'', ref_ID = j_ID j\<rparr> in
     then_do (CreateJob (later 11 a) (cancel_ack resource (am_now a 10)) d) (\<lambda>(ack, d).
     let job = \<lparr>ref_Kind = ''job'', ref_ID = j_ID ack\<rparr> in
     then_do (audit (later 16 a) c (op_ID op) (j_ID j) ''cancel-requested'' request (Some resource) (j_ID ack) d) (\<lambda>(_, d).
     Inr (\<lparr>mn_Status = 202, mn_Body = Some (GObj []), mn_BodyBytes = 2, mn_Resource = Some resource, mn_Job = Some job,
            mn_Terminal = True, mn_SecretResponse = False\<rparr>, touch (later 20 a) credential c d))))))"

definition cancelJob ::
    "fate \<Rightarrow> bool \<Rightarrow> draft_ambient \<Rightarrow> string \<Rightarrow> unit draft_call \<Rightarrow> draft_db \<Rightarrow> Result outcome \<times> draft_db" where
  "cancelJob f writable a credential s d =
     (case then_do (dc_operation s) (\<lambda>(op, path).
        if op_ID op \<noteq> ''cancelJob'' \<or> op_Domain op \<noteq> ''management'' then failed 403 ''OPERATION_DENIED''
        else then_do (dc_parameters s) (\<lambda>_. then_do (dc_decoded s) (\<lambda>request.
        if request \<noteq> dc_RequestID s then failed 409 ''IDEMPOTENCY_KEY_MISMATCH''
        else then_do (InspectAuth writable a credential d) (\<lambda>c. Inr (op, path_value path, c))))) of
        Inl err \<Rightarrow> (Inl err, d)
      | Inr (op, x, c) \<Rightarrow>
          Execute f (later 20 a) ''management'' (draft_command c s (op_ID op) ''jobs.cancel'')
            (store_read (then_do (cancel_check (later 3 a) credential op x d) (\<lambda>_. Inr ())))
            (\<lambda>d. store_read (then_do (cancel_check (later 8 a) credential op x d) (\<lambda>_. Inr ())))
            (cancel_tx credential op x (dc_RequestID s)) d)"

section \<open>Reconciliation of a transaction\<close>

definition reconcile_job :: "string \<Rightarrow> Job" where
  "reconcile_job x = (security_job '''' (transaction_ref x) 0)\<lparr>j_Transaction := x, j_Dispatch := ''completed'',
     j_Commit := ''not-applicable'', j_Reason := ''reconciliation-observed''\<rparr>"

definition reconcile_audit :: "string \<Rightarrow> string \<Rightarrow> Evidence_Record" where
  "reconcile_audit x job =
     \<lparr>ev_RelatedObjects = [], ev_ID = '''', ev_Collection = ''audit'', ev_Sequence = '''', ev_Origin = ''Manager'', ev_Actor = '''',
      ev_Credential = '''', ev_Capability = '''', ev_Operation = ''reconcile-fields'', ev_Object = Some (transaction_ref x),
      ev_ChangeSet = '''', ev_Transaction = x, ev_Job = job, ev_RequestID = '''', ev_RequestDomain = '''', ev_RequestEpoch = '''',
      ev_Correlation = '''', ev_Result = ''observed'', ev_Reason = '''', ev_Created = 0, ev_DedupKey = '''', ev_Critical = False\<rparr>"

text \<open>The mutation and the answer of \<open>reconcileFields\<close>, after the engine's own reconciliation.\<close>

definition reconcile_tx :: "string \<Rightarrow> Operation \<Rightarrow> string list \<Rightarrow> draft_ambient \<Rightarrow> draft_db \<Rightarrow> (Mutation \<times> draft_db) outcome" where
  "reconcile_tx credential op path a d =
     then_do (checkOperation a credential op (refsFor op path) False d) (\<lambda>_.
     let x = path_value path in
     then_do (CreateJob (later 3 a) (reconcile_job x) d) (\<lambda>(job, d).
     then_do (Append (later 8 a) (reconcile_audit x (j_ID job)) d) (\<lambda>(_, d).
     Inr (accepted x (j_ID job) True, d))))"

text \<open>The call: the engine reconciles on the journal's part of the tables, then its receipt is written.\<close>

definition put_journal :: "journal_db \<Rightarrow> draft_db \<Rightarrow> draft_db" where
  "put_journal j d = journal_db.extend j (journal_db.more d)"

definition reconcileFields ::
    "fate \<Rightarrow> fate \<Rightarrow> draft_ambient \<Rightarrow> engine_ambient \<Rightarrow> provider \<Rightarrow> string \<Rightarrow> unit draft_call \<Rightarrow> engine \<Rightarrow> draft_db \<Rightarrow>
     Result outcome \<times> engine \<times> draft_db" where
  "reconcileFields f f' a b p credential s e d =
     (case then_do (candidateCommand s ''reconcileTransaction'') (\<lambda>(op, path).
        let check = (\<lambda>n. store_read (checkOperation (later n a) credential op (refsFor op path) False d)) in
        then_do (check 0) (\<lambda>c.
        let command = draft_command c s (op_ID op) ''configuration.read'' in
        then_do (Replay (later 3 a) command (then_do (check 3) (\<lambda>_. Inr ())) d) (\<lambda>prior.
        case prior of
          Some r \<Rightarrow> Inr (Inl r)
        | None \<Rightarrow> if \<not> dr_engine a then failed 503 ''EXECUTION_RECOVERY_UNAVAILABLE'' else Inr (Inr (op, path, command))))) of
        Inl err \<Rightarrow> (Inl err, e, d)
      | Inr (Inl r) \<Rightarrow> (Inr r, e, d)
      | Inr (Inr (op, path, command)) \<Rightarrow>
          (case Reconcile f b p (path_value path) (e\<lparr>en_db := journal_db.truncate d\<rparr>) of
             (Inl err, e) \<Rightarrow> (Inl err, e, put_journal (en_db e) d)
           | (Inr _, e) \<Rightarrow>
               (case Execute f' (later 20 a) ''management'' command
                  (store_read (then_do (checkOperation (later 6 a) credential op (refsFor op path) False (put_journal (en_db e) d)) (\<lambda>_. Inr ())))
                  (\<lambda>d. store_read (then_do (checkOperation (later 9 a) credential op (refsFor op path) False d) (\<lambda>_. Inr ())))
                  (reconcile_tx credential op path) (put_journal (en_db e) d) of
                  (r, d) \<Rightarrow> (r, e\<lparr>en_db := journal_db.truncate d\<rparr>, d))))"

end
