(* ===== verification/Draft_Runs.thy ===== *)
theory Draft_Runs
  imports Draft_Admission
begin

text \<open>
  What the calls on drafts keep: the witness of an owner only climbs, validations and resolutions are never
  changed once written, and no call on a draft touches the tables that decide who may do what. The calls
  are the steps of a relation, in any order and with any ambient values and fates; everything else leaves
  the draft tables alone.
\<close>

section \<open>The tables of drafts\<close>

definition same_drafts :: "draft_db \<Rightarrow> draft_db \<Rightarrow> bool" where
  "same_drafts d e \<longleftrightarrow> db_witnesses e = db_witnesses d \<and> db_validations e = db_validations d \<and>
     db_resolved e = db_resolved d \<and> db_resolutions e = db_resolutions d"

lemma same_drafts_refl [simp]: "same_drafts d d"
  by (simp add: same_drafts_def)

lemma same_drafts_trans: "same_drafts d e \<Longrightarrow> same_drafts e f \<Longrightarrow> same_drafts d f"
  by (simp add: same_drafts_def)

lemma drafts_more:
  fixes d e :: "'v access_db"
  assumes "evidence_db.more e = evidence_db.more d"
  shows "db_resolved e = db_resolved d" "db_resolutions e = db_resolutions d"
  using assms by (cases d; cases e; simp)+

lemma same_drafts_more:
  assumes "evidence_db.more e = evidence_db.more d"
  shows "same_drafts d e"
  by (simp add: same_drafts_def access_more [OF assms] drafts_more [OF assms])

lemma Append_drafts:
  assumes "Append a r d = Inr (x, e)"
  shows "same_drafts d e \<and> same_access d e"
  using same_drafts_more [OF Append_frame(4) [OF assms]] same_more [OF Append_frame(4) [OF assms]] by (rule conjI)

lemma CreateJob_drafts:
  assumes "CreateJob a j d = Inr (k, e)"
  shows "same_drafts d e \<and> same_access d e"
proof (rule CreateJob_Inr [OF assms])
  assume "evidence_db.more e = evidence_db.more d"
  from same_drafts_more [OF this] same_more [OF this] show ?thesis by (rule conjI)
qed

lemma ChangeJob_tables:
  assumes "ChangeJob a x n t now d = Inr (k, e)"
  shows "evidence_db.more e = evidence_db.more d"
proof -
  obtain j f y where "saveJob a False j d = Inr (k, f)"
    "Append a (job_event ''job-state-changed'' True now k) (settle_receipts k now f) = Inr (y, e)"
    using assms by (auto simp: ChangeJob_def Let_def then_do_Inr split: if_splits)
  then show ?thesis by (auto simp: saveJob_def then_do_Inr Let_def dest!: Append_frame(4) split: if_splits)
qed

lemma ChangeJob_drafts:
  assumes "ChangeJob a x n t now d = Inr (k, e)"
  shows "same_drafts d e \<and> same_access d e"
  using same_drafts_more [OF ChangeJob_tables [OF assms]] same_more [OF ChangeJob_tables [OF assms]] by (rule conjI)

lemma touch_drafts [simp]: "same_drafts d (touch a credential c d)"
  by (simp add: touch_def watermark_def same_drafts_def Let_def)

lemma audit_drafts: "audit a c op target res request ob job d = Inr (u, e) \<Longrightarrow> same_drafts d e"
proof -
  assume "audit a c op target res request ob job d = Inr (u, e)"
  then obtain x b rows where b: "Append a (audit_event a c op target res request ob job) d = Inr (x, b)"
    "e = b\<lparr>db_auth_audit := rows\<rparr>"
    by (auto simp: audit_def then_do_Inr)
  show ?thesis using Append_drafts [OF b(1)] b(2) by (simp add: same_drafts_def)
qed

section \<open>The order of the fence\<close>

definition witness_le :: "draft_db \<Rightarrow> draft_db \<Rightarrow> bool" where
  "witness_le d e \<longleftrightarrow> (\<forall>x w. map_of (db_witnesses d) x = Some w \<longrightarrow>
     (\<exists>u. map_of (db_witnesses e) x = Some u \<and> wn_epoch u = wn_epoch w \<and> (u = w \<or> wn_sequence w < wn_sequence u)))"

definition resolutions_ok :: "draft_db \<Rightarrow> bool" where
  "resolutions_ok d \<longleftrightarrow> map fst (db_resolved d) = db_resolutions d \<and> distinct (db_resolutions d)"

definition draft_le :: "draft_db \<Rightarrow> draft_db \<Rightarrow> bool" where
  "draft_le d e \<longleftrightarrow> witness_le d e \<and> map_of (db_validations d) \<subseteq>\<^sub>m map_of (db_validations e) \<and>
     map_of (db_resolved d) \<subseteq>\<^sub>m map_of (db_resolved e) \<and> (resolutions_ok d \<longrightarrow> resolutions_ok e)"

lemma witness_le_refl [simp]: "witness_le d d"
  by (simp add: witness_le_def)

lemma witness_le_trans: "witness_le d e \<Longrightarrow> witness_le e f \<Longrightarrow> witness_le d f"
  by (fastforce simp: witness_le_def)

interpretation drafts: store_order draft_le
proof
  show "draft_le d d" for d by (simp add: draft_le_def)
  fix d e f
  assume 1: "draft_le d e" and 2: "draft_le e f"
  from 1 2 have "witness_le d f" "map_of (db_validations d) \<subseteq>\<^sub>m map_of (db_validations f)"
    "map_of (db_resolved d) \<subseteq>\<^sub>m map_of (db_resolved f)"
    unfolding draft_le_def by (blast intro: witness_le_trans map_le_trans)+
  then show "draft_le d f" using 1 2 by (simp add: draft_le_def)
qed

lemma same_drafts_le: "same_drafts d e \<Longrightarrow> draft_le d e"
  by (auto simp: draft_le_def witness_le_def same_drafts_def resolutions_ok_def)

lemma draft_le_after: "draft_le d e \<Longrightarrow> same_drafts e f \<Longrightarrow> draft_le d f"
  by (rule drafts.le_trans [OF _ same_drafts_le])

lemma map_le_snoc: "map_of t k = None \<Longrightarrow> map_of t \<subseteq>\<^sub>m map_of (t @ [(k, v)])"
  by (auto simp: map_le_def map_of_snoc simp del: map_of_append split: option.splits)

text \<open>The witness of an envelope, and an envelope that the fence lets through.\<close>

definition witness_of :: "draft_ambient \<Rightarrow> Envelope \<Rightarrow> witness_row" where
  "witness_of a e = \<lparr>wn_candidate = c_ID (e_Candidate e), wn_epoch = e_Epoch e, wn_sequence = e_Sequence e,
     wn_revision = c_Revision (e_Candidate e), wn_hash = dr_hash a e\<rparr>"

definition in_front :: "draft_ambient \<Rightarrow> Envelope \<Rightarrow> draft_db \<Rightarrow> bool" where
  "in_front a e d \<longleftrightarrow> (\<forall>w. map_of (db_witnesses d) (e_Owner e) = Some w \<longrightarrow>
     w = witness_of a e \<or> wn_candidate w = c_ID (e_Candidate e) \<and> wn_epoch w = e_Epoch e \<and> wn_sequence w < e_Sequence e)"

lemma candidateFence_Inr:
  assumes "candidateFence a e advance d = Inr f"
  shows "in_front a e d" and "draft_le d f" and "same_access d f"
    and "db_validations f = db_validations d" "db_resolved f = db_resolved d" "db_resolutions f = db_resolutions d"
    and "advance \<Longrightarrow> map_of (db_witnesses f) (e_Owner e) = Some (witness_of a e)"
    and "\<not> advance \<Longrightarrow> f = d"
proof -
  show "in_front a e d"
    using assms by (auto simp: candidateFence_def in_front_def witness_of_def Let_def split: option.splits if_splits)
  show "db_validations f = db_validations d" "db_resolved f = db_resolved d" "db_resolutions f = db_resolutions d"
    and same: "same_access d f"
    using assms by (auto simp: candidateFence_def Let_def same_defs split: option.splits if_splits)
  have "witness_le d f"
    using assms by (auto simp: candidateFence_def Let_def witness_le_def map_of_modify_row map_of_snoc
        simp del: map_of_append split: option.splits if_splits)
  then show "draft_le d f"
    using assms by (auto simp: draft_le_def resolutions_ok_def candidateFence_def Let_def split: option.splits if_splits)
  show "map_of (db_witnesses f) (e_Owner e) = Some (witness_of a e)" if advance
    using assms that by (auto simp: candidateFence_def Let_def witness_of_def map_of_modify_row map_of_snoc
        simp del: map_of_append split: option.splits if_splits)
  show "f = d" if "\<not> advance"
    using assms that by (auto simp: candidateFence_def Let_def split: option.splits if_splits)
qed

section \<open>What each call does\<close>

definition alias_capability :: "string \<Rightarrow> string" where
  "alias_capability cap = (case map_of aliases cap of Some v \<Rightarrow> v | None \<Rightarrow> cap)"

lemma alias_simps [simp]:
  "alias_capability ''configuration.read'' = ''configuration.read''" "alias_capability ''inventory.read'' = ''inventory.read''"
  "alias_capability ''config.stage'' = ''workspace.write''" "alias_capability ''config.apply'' = ''configuration.apply''"
  "alias_capability ''config.validate'' = ''configuration.validate''" "alias_capability ''workspace.read'' = ''workspace.read''"
  "alias_capability ''configuration.confirm'' = ''configuration.confirm''"
  "alias_capability ''configuration.rollback'' = ''configuration.rollback''"
  by (simp_all add: alias_capability_def aliases_def)

lemma require_capability_Inr:
  assumes "require_capability c cap b now = Inr u" and "cap \<notin> {''config.decide'', ''session.read'', ''session.end''}"
  shows "alias_capability cap \<in> set (cl_Capabilities c)"
  using assms by (auto simp: require_capability_def alias_capability_def Let_def split: if_splits option.splits)

lemma candidateClaims_Inr:
  assumes "candidateClaims a credential cap d = Inr c"
  shows "claims a credential d = Inr c" and "''configuration.read'' \<in> set (cl_Capabilities c)"
    and "''inventory.read'' \<in> set (cl_Capabilities c)"
    and "cap \<notin> {''config.decide'', ''session.read'', ''session.end''} \<Longrightarrow> alias_capability cap \<in> set (cl_Capabilities c)"
proof -
  have c: "claims a credential d = Inr c" "require_capability c cap False (Unix (am_now a 2)) = Inr ()"
    "require_capability c ''configuration.read'' False (Unix (am_now a 3)) = Inr ()"
    "require_capability c ''inventory.read'' False (Unix (am_now a 4)) = Inr ()"
    using assms by (auto simp: candidateClaims_def then_do_Inr)
  show "claims a credential d = Inr c" by (rule c)
  show "''configuration.read'' \<in> set (cl_Capabilities c)" "''inventory.read'' \<in> set (cl_Capabilities c)"
    using require_capability_Inr [OF c(3)] require_capability_Inr [OF c(4)] by simp_all
  show "alias_capability cap \<in> set (cl_Capabilities c)" if "cap \<notin> {''config.decide'', ''session.read'', ''session.end''}"
    by (rule require_capability_Inr [OF c(2) that])
qed

lemma touch_truncate: "touch (access_ambient.truncate a) credential c d = touch a credential c d"
  by (simp add: touch_def access_ambient.truncate_def later_def watermark_def Let_def)

lemma touch_runs: "access_runs {} d (touch a credential c d)"
  by (rule access_runs_step) (rule access_step.used [of d "access_ambient.truncate a" credential c, unfolded touch_truncate], simp)

lemma same_access_runs: "same_access d e \<Longrightarrow> access_runs {} d e"
  by (rule access_runs_step [OF access_step.elsewhere]) simp_all

lemma runs_trans: "access_runs {} d e \<Longrightarrow> access_runs {} e f \<Longrightarrow> access_runs {} d f"
  by (rule access_runs_trans)

text \<open>Everything a call on a draft may do to the tables: climb, and leave access alone.\<close>

definition draft_change :: "draft_db \<Rightarrow> draft_db \<Rightarrow> bool" where
  "draft_change d e \<longleftrightarrow> draft_le d e \<and> access_runs {} d e"

interpretation draft_changes: store_order draft_change
  by unfold_locales (auto simp: draft_change_def drafts.le_refl intro: drafts.le_trans access_runs.none runs_trans)

lemma same_change: "same_drafts d e \<Longrightarrow> same_access d e \<Longrightarrow> draft_change d e"
  by (simp add: draft_change_def same_drafts_le same_access_runs)

lemma touch_change [simp]: "draft_change d (touch a credential c d)"
  by (simp add: draft_change_def same_drafts_le touch_runs)

lemma fence_change: "candidateFence a e advance d = Inr f \<Longrightarrow> draft_change d f"
  by (simp add: draft_change_def candidateFence_Inr(2,3) same_access_runs)

lemma Append_change: "Append a r d = Inr (x, e) \<Longrightarrow> draft_change d e"
  by (drule Append_drafts) (simp add: same_change)

lemma CreateJob_change: "CreateJob a j d = Inr (k, e) \<Longrightarrow> draft_change d e"
  by (drule CreateJob_drafts) (simp add: same_change)

lemma ChangeJob_change: "ChangeJob a x n t now d = Inr (k, e) \<Longrightarrow> draft_change d e"
  by (drule ChangeJob_drafts) (simp add: same_change)

lemma audit_change: "audit a c op target res request ob job d = Inr (u, e) \<Longrightarrow> draft_change d e"
  by (simp add: same_change audit_drafts audit_same)

lemmas changes = draft_changes.le_refl touch_change fence_change Append_change CreateJob_change ChangeJob_change audit_change

subsection \<open>Preparation\<close>

lemma prepare_tx_Inr:
  assumes "prepare_tx a credential c e cmd s d = Inr (out, f)"
  obtains current new where "candidateClaims a credential ''config.stage'' d = Inr current"
    and "\<not> tree_denied (e_Candidate e) cmd (cl_Capabilities current)" and "in_front a e d"
    and "Prepare (am_host a) (dr_topology a) e cmd s = Inr new" and "out = Sign (dr_mac a) (dr_key a) new"
    and "cmd_Operation cmd = ''stage'' \<Longrightarrow> hasTreeCapability (Capabilities (e_Candidate new)) \<Longrightarrow>
      intentCapabilities (cl_Capabilities current) (e_Candidate new)"
    and "f = touch (later 5 a) credential c d"
proof -
  obtain current g where c: "candidateClaims a credential ''config.stage'' d = Inr current"
    and g: "candidateFence a e False d = Inr g"
    and rest: "\<not> tree_denied (e_Candidate e) cmd (cl_Capabilities current)"
      "(case Prepare (am_host a) (dr_topology a) e cmd s of
       Inl p \<Rightarrow> Inl (Problem p)
     | Inr out \<Rightarrow>
         if cmd_Operation cmd = ''stage'' \<and> hasTreeCapability (Capabilities (e_Candidate out)) \<and>
            \<not> intentCapabilities (cl_Capabilities current) (e_Candidate out)
         then failed 403 ''CAPABILITY_DENIED''
         else let out = Sign (dr_mac a) (dr_key a) out in
           if MaxDocument < h_envelope_bytes (am_host a) out then failed 429 ''CANDIDATE_BUDGET_EXCEEDED''
           else Inr (out, touch (later 5 a) credential c g)) = Inr (out, f)"
    using assms unfolding prepare_tx_def by (auto simp: then_do_Inr split: if_splits)
  have "g = d" by (rule candidateFence_Inr(8) [OF g]) simp
  moreover obtain new where "Prepare (am_host a) (dr_topology a) e cmd s = Inr new"
    using rest(2) by (auto split: sum.splits)
  ultimately show ?thesis
    using rest(2) by (intro that [OF c rest(1) candidateFence_Inr(1) [OF g]]) (auto simp: Let_def split: if_splits)
qed

lemma prepare_tx_change: "draft_changes.climbs (prepare_tx a credential c e cmd s)"
  unfolding draft_changes.climbs_def by (auto elim: prepare_tx_Inr)

lemma PrepareCandidate_change: "PrepareCandidate f w a credential e s d = (r, d') \<Longrightarrow> draft_change d d'"
  by (auto simp: PrepareCandidate_def draft_changes.le_refl split: sum.splits
      dest: store_write_result simp: prepare_tx_change [unfolded draft_changes.climbs_def, rule_format])

subsection \<open>Reading\<close>

lemma read_tx_Inr:
  assumes "read_tx a credential cap e stored s d = Inr (out, f)"
  obtains c g where "candidateClaims a credential cap d = Inr c" and "candidateFence a e True d = Inr g"
    and "out = (case stored of None \<Rightarrow> Reviewed (review_answer a (e_Candidate e) s)
      | Some (r, original) \<Rightarrow> Revalidated (revalidated a c e r original s))"
    and "f = touch (later 6 a) credential c g"
  using assms by (auto simp: read_tx_def then_do_Inr Let_def split: if_splits)

lemma read_tx_change: "draft_changes.climbs (read_tx a credential cap e stored s)"
  unfolding draft_changes.climbs_def
  by (auto elim!: read_tx_Inr intro: draft_changes.le_trans [OF fence_change touch_change])

lemma ReadCandidate_change: "ReadCandidate f w a credential e x d = (r, d') \<Longrightarrow> draft_change d d'"
  by (auto simp: ReadCandidate_def Let_def draft_changes.le_refl split: sum.splits
      dest: store_write_result simp: read_tx_change [unfolded draft_changes.climbs_def, rule_format])

subsection \<open>Validation\<close>

lemma receipts_change [simp]: "draft_change g (g\<lparr>db_receipts := rows, db_high_watermark := w\<rparr>)"
  by (rule same_change) (simp_all add: same_drafts_def same_defs)

text \<open>A mutation behind a receipt: the tables it leaves, and what a fresh answer tells.\<close>

lemma Execute_change:
  assumes "Execute f a ''management'' q authorized reauthorize tx d = (r, e)"
    and "\<And>b. draft_changes.climbs (tx b)"
  shows "draft_change d e"
proof (cases "e = d")
  case False
  obtain m g rows w where tx: "tx (with_command ''management'' q (new_id a 0) (later 1 a)) d = Inr (m, g)"
    and e: "e = g\<lparr>db_receipts := rows, db_high_watermark := w\<rparr>"
    by (rule Execute_changed [OF assms(1) False], rule execute_tx_changed [OF _ False])
  have "draft_change d g" using assms(2) tx by (auto simp: draft_changes.climbs_def)
  then show ?thesis unfolding e by (rule draft_changes.le_trans) simp
qed (simp add: draft_changes.le_refl)

lemma Execute_fresh:
  assumes "Execute f a ''management'' q authorized reauthorize tx d = (Inr r, e)" and "\<not> rs_Replayed r"
  obtains m g rows w where "tx (with_command ''management'' q (new_id a 0) (later 1 a)) d = Inr (m, g)"
    and "e = g\<lparr>db_receipts := rows, db_high_watermark := w\<rparr>" and "rc_Resource (rs_Receipt r) = mn_Resource m"
    and "response_ok ''management'' m g = Inr ()" and "reauthorize d = Inr ()"
proof -
  obtain digest key where w: "store_write f (execute_tx a ''management'' q digest key reauthorize tx) d = (Inr r, e)"
    using assms(1) by (auto simp: Execute_def split: option.splits sum.splits if_splits)
  then have x: "execute_tx a ''management'' q digest key reauthorize tx d = Inr (r, e)" by (rule store_write_Inr)
  have "find_receipt q d = None"
    using x assms(2) by (auto simp: execute_tx_def then_do_Inr replay_row_def split: option.splits if_splits)
  then obtain m g where g: "tx (with_command ''management'' q (new_id a 0) (later 1 a)) d = Inr (m, g)"
    "record_receipt q digest (am_now a 0) m (new_id a 0) g = Inr (r, e)" "response_ok ''management'' m g = Inr ()" "reauthorize d = Inr ()"
    using x by (auto simp: execute_tx_def then_do_Inr Let_def)
  then show ?thesis
    by (intro that [OF g(1) _ _ g(3,4)]) (auto simp: record_receipt_def new_receipt_def split: if_splits)
qed

lemma draft_claims_Inr:
  assumes "draft_claims a credential cap k d = Inr c"
  shows "candidateClaims a credential cap d = Inr c" "\<not> treeReadDenied k (cl_Capabilities c)"
  using assms by (auto simp: draft_claims_def then_do_Inr split: if_splits)

lemma record_validation_Inr:
  assumes "record_validation a owner r e d = Inr f"
  shows "draft_change d f" and "map_of (db_validations d) (vd_ID (vr_Validation r)) = None"
    and "db_validations f = db_validations d @ [(vd_ID (vr_Validation r), owner, \<lparr>vl_candidate = vd_CandidateID (vr_Validation r),
      vl_revision = vd_CandidateRevision (vr_Validation r), vl_job = new_id a 2, vl_changeset = vd_ChangeSetID (vr_Validation r),
      vl_created = UnixMilli (am_now a 12), vl_envelope = Some e, vl_document = Some r\<rparr>)]"
    and "db_witnesses f = db_witnesses d"
proof -
  let ?v = "vr_Validation r"
  let ?row = "(owner, \<lparr>vl_candidate = vd_CandidateID ?v, vl_revision = vd_CandidateRevision ?v, vl_job = new_id a 2,
    vl_changeset = vd_ChangeSetID ?v, vl_created = UnixMilli (am_now a 12), vl_envelope = Some e, vl_document = Some r\<rparr>)"
  obtain k g rows x where k: "CreateJob (later 7 a) (validation_job (new_id a 2) (vd_State ?v)
      \<lparr>ref_Kind = ''validation'', ref_ID = vd_ID ?v\<rparr> (vd_ChangeSetID ?v) (am_now a 6)) d = Inr (k, g)"
    and rows: "insert_row (vd_ID ?v) ?row (db_validations g) = Inr rows"
    and f: "Append (later 14 a) (validation_audit (vd_State ?v) \<lparr>ref_Kind = ''validation'', ref_ID = vd_ID ?v\<rparr> (new_id a 2)
      (vd_ChangeSetID ?v) (am_now a 13)) (g\<lparr>db_validations := rows\<rparr>) = Inr (x, f)"
    using assms by (auto simp: record_validation_def Let_def then_do_Inr)
  have g: "db_validations g = db_validations d" "draft_change d g"
    using CreateJob_drafts [OF k] CreateJob_change [OF k] by (simp_all add: same_drafts_def)
  show "db_witnesses f = db_witnesses d"
    using CreateJob_drafts [OF k] Append_drafts [OF f] by (simp add: same_drafts_def)
  show none: "map_of (db_validations d) (vd_ID ?v) = None" using rows g(1) by (simp add: insert_row_Inr)
  show "db_validations f = db_validations d @ [(vd_ID ?v, ?row)]"
    using rows g(1) Append_drafts [OF f] by (auto simp: insert_row_Inr same_drafts_def)
  have "map_of (db_validations g) \<subseteq>\<^sub>m map_of rows"
    using rows by (auto simp: insert_row_Inr intro!: map_le_snoc simp del: map_of_append)
  then have "draft_change g (g\<lparr>db_validations := rows\<rparr>)"
    by (simp add: draft_change_def draft_le_def witness_le_def resolutions_ok_def same_access_runs same_defs)
  then show "draft_change d f"
    using draft_changes.le_trans g(2) Append_change [OF f] by blast
qed

lemma validate_tx_Inr:
  assumes "validate_tx credential cap e q s a d = Inr (m, f)"
  obtains c g h generation where "candidateClaims a credential cap d = Inr c"
    and "\<not> treeReadDenied (e_Candidate e) (cl_Capabilities c)" and "candidateFence a e True d = Inr g"
    and "length (db_validations d) < MaxValidations" and "validated_generation (e_Candidate e) (fst s) = Inr generation"
    and "record_validation a (cl_PrincipalID c) (new_validation a c q e s generation) e g = Inr h"
    and "mn_Resource m = Some \<lparr>ref_Kind = ''validation'', ref_ID = new_id a 0\<rparr>"
    and "f = touch (later 20 a) credential c h"
proof -
  obtain c g where c: "draft_claims a credential cap (e_Candidate e) d = Inr c" and g: "candidateFence a e True d = Inr g"
    and rest: "(if MaxValidations \<le> length (db_validations g) then failed 429 ''VALIDATION_CAPACITY_REACHED''
     else then_do (validated_generation (e_Candidate e) (fst s)) (\<lambda>generation.
     let r = new_validation a c q e s generation in
     if 49152 < dr_record_bytes a r \<or> MaxDocument < h_envelope_bytes (am_host a) e
     then failed 429 ''CANDIDATE_BUDGET_EXCEEDED''
     else then_do (record_validation a (cl_PrincipalID c) r e g) (\<lambda>d.
       Inr (\<lparr>mn_Status = 202, mn_Body = Some (GObj []), mn_BodyBytes = 2,
              mn_Resource = Some \<lparr>ref_Kind = ''validation'', ref_ID = vd_ID (vr_Validation r)\<rparr>,
              mn_Job = vd_Job (vr_Validation r), mn_Terminal = True, mn_SecretResponse = False\<rparr>,
            touch (later 20 a) credential c d)))) = Inr (m, f)"
    using assms by (auto simp: validate_tx_def then_do_Inr)
  have id: "vd_ID (vr_Validation (new_validation a c q e s y)) = new_id a 0" for y
    by (simp add: new_validation_def Let_def split: prod.splits)
  show ?thesis
    using rest candidateFence_Inr(4) [OF g] id
    by (auto simp: then_do_Inr Let_def split: if_splits intro: that [OF draft_claims_Inr [OF c] g])
qed

lemma validate_tx_change: "draft_changes.climbs (validate_tx credential cap e q s a)"
  unfolding draft_changes.climbs_def
proof (intro allI impI)
  fix d m f
  assume "validate_tx credential cap e q s a d = Inr (m, f)"
  then show "draft_change d f"
    by (rule validate_tx_Inr)
      (metis draft_changes.le_trans fence_change record_validation_Inr(1) touch_change)
qed

lemma ValidateCandidate_change: "ValidateCandidate f a credential e s d = (r, d') \<Longrightarrow> draft_change d d'"
  by (auto simp: ValidateCandidate_def draft_changes.le_refl split: sum.splits prod.splits
      dest!: Execute_change [OF _ validate_tx_change])

subsection \<open>Resolution\<close>

lemma replace_witness_change:
  assumes "replace_witness a owner old new d = Inr f" and "e_Sequence old < e_Sequence new"
  shows "draft_change d f" "db_resolved f = db_resolved d" "db_resolutions f = db_resolutions d"
proof -
  have "witness_le d f"
    using assms by (auto simp: replace_witness_def witness_le_def map_of_modify_row split: option.splits if_splits)
  then have "draft_le d f" "same_access d f"
    using assms by (auto simp: replace_witness_def draft_le_def resolutions_ok_def same_defs split: option.splits if_splits)
  then show "draft_change d f" by (simp add: draft_change_def same_access_runs)
  show "db_resolved f = db_resolved d" "db_resolutions f = db_resolutions d"
    using assms by (auto simp: replace_witness_def split: option.splits if_splits)
qed

lemma insert_resolution_Inr:
  assumes "insert_resolution k digest out d = Inr f" and "map_of (db_resolved d) k = None"
  shows "draft_change d f" "k \<in> set (db_resolutions f)" "map_of (db_resolved f) k = Some (digest, out)"
proof -
  have f: "k \<notin> set (db_resolutions d)" "f = d\<lparr>db_resolutions := db_resolutions d @ [k], db_resolved := db_resolved d @ [(k, digest, out)]\<rparr>"
    using assms by (auto simp: insert_resolution_def split: if_splits)
  have "map_of (db_resolved d) \<subseteq>\<^sub>m map_of (db_resolved d @ [(k, digest, out)])"
    using assms(2) by (auto simp: map_le_def map_add_def)
  then show "draft_change d f"
    using f by (simp add: draft_change_def draft_le_def witness_le_def resolutions_ok_def same_access_runs same_defs)
  show "k \<in> set (db_resolutions f)" "map_of (db_resolved f) k = Some (digest, out)"
    using f assms(2) by (simp_all add: map_add_def)
qed

text \<open>A sequence is a signed 64-bit number. Its successor is one greater unless it wraps round to a negative
  number, which the table refuses.\<close>

lemma successor_sequence:
  assumes "0 \<le> e_Sequence e" and "e_Sequence e < 2 ^ 63" and "0 \<le> e_Sequence (successor a b e)"
  shows "e_Sequence (successor a b e) = e_Sequence e + 1"
proof -
  have "e_Sequence (successor a b e) = int64 (e_Sequence e + 1)" by (simp add: successor_def Let_def Sign_def)
  moreover have "int64 (2 ^ 63) < 0" by (simp add: int64_def)
  moreover have "int64 (e_Sequence e + 1) = e_Sequence e + 1" if "e_Sequence e + 1 < 2 ^ 63"
    using that assms(1) by (simp add: int64_def)
  moreover have "e_Sequence e + 1 < 2 ^ 63 \<or> e_Sequence e + 1 = 2 ^ 63" using assms(2) by linarith
  ultimately show ?thesis using assms(3) by (metis not_less)
qed

lemma replace_witness_valid: "replace_witness a owner old new d = Inr f \<Longrightarrow> 0 \<le> e_Sequence new"
  by (auto simp: replace_witness_def split: option.splits if_splits)

lemma settle_draft_Inr:
  assumes "settle_draft a c s k digest tx confirmed d = Inr (out, f)" and "map_of (db_resolved d) k = None"
    and "0 \<le> e_Sequence (sq_Envelope s)" and "e_Sequence (sq_Envelope s) < 2 ^ 63"
  shows "draft_change d f" "k \<in> set (db_resolutions f)" "map_of (db_resolved f) k = Some (digest, out)" "\<not> rz_Pending out"
proof -
  define new where "new = successor a confirmed (sq_Envelope s)"
  obtain g h x where g: "(if confirmed then replace_witness a (cl_PrincipalID c) (sq_Envelope s) new d else candidateFence a new True d) = Inr g"
    and h: "insert_resolution k digest out g = Inr h"
    and f: "Append (later 6 a) (resolution_audit c (map_option transaction_ref tx) (am_now a 5)) h = Inr (x, f)"
    and out: "out = no_resolution\<lparr>rz_Confirmed := confirmed, rz_Transaction := map_option transaction_ref tx, rz_Envelope := Some new\<rparr>"
  proof -
    obtain d' where d': "candidateFence a (sq_Envelope s) False d = Inr d'" using assms(1) by (auto simp: settle_draft_def Let_def then_do_Inr)
    have "d' = d" by (rule candidateFence_Inr(8) [OF d']) simp
    then show ?thesis
      using assms(1) d' that by (auto simp: settle_draft_def Let_def then_do_Inr new_def split: if_splits)
  qed
  have "e_Sequence new = e_Sequence (sq_Envelope s) + 1" if confirmed
    using replace_witness_valid [of a _ _ new] g that successor_sequence [OF assms(3,4)] unfolding new_def by auto
  then have dg: "draft_change d g" "db_resolved g = db_resolved d"
    using g replace_witness_change(1,2) [of a "cl_PrincipalID c" "sq_Envelope s" new d g] fence_change candidateFence_Inr(5)
    by (auto split: if_splits)
  note i = insert_resolution_Inr [OF h assms(2) [folded dg(2)]]
  show "draft_change d f" using draft_changes.le_trans [OF dg(1)] draft_changes.le_trans [OF i(1)] Append_change [OF f] by blast
  show "k \<in> set (db_resolutions f)" "map_of (db_resolved f) k = Some (digest, out)"
    using i(2,3) Append_drafts [OF f] by (simp_all add: same_drafts_def)
  show "\<not> rz_Pending out" by (simp add: out no_resolution_def)
qed

lemma Verify_None:
  assumes "Verify mac key owner e = None"
  shows "e_Owner e = owner" "0 \<le> e_Sequence e" "length (c_Intents (e_Candidate e)) \<le> MaxIntents" "length key = 32"
    "ManagementID (e_Epoch e)" "ManagementID (c_ID (e_Candidate e))"
  using assms by (auto simp: Verify_def Let_def split: if_splits)

definition request_key :: "safe_request \<Rightarrow> string \<times> string \<times> string" where
  "request_key s = (e_Owner (sq_Envelope s), dc_Epoch (sq_Command s), dc_RequestID (sq_Command s))"

text \<open>A resolution is either pending, and then nothing is written, or final: its answer is on record.\<close>

lemma resolve_tx_Inr:
  assumes "resolve_tx a credential s d = Inr (out, f)" and "e_Sequence (sq_Envelope s) < 2 ^ 63"
  shows "draft_change d f"
    and "case map_of (db_resolved d) (request_key s) of
        Some (digest, prior) \<Rightarrow> f = d \<and> out = prior \<and> digest = dr_sha256 a (sq_document s)
      | None \<Rightarrow> if rz_Pending out then f = d
          else request_key s \<in> set (db_resolutions f) \<and>
            map_of (db_resolved f) (request_key s) = Some (dr_sha256 a (sq_document s), out)"
proof -
  define digest where "digest = dr_sha256 a (sq_document s)"
  obtain c where v: "Verify (dr_mac a) (dr_key a) (cl_PrincipalID c) (sq_Envelope s) = None"
    and rest: "(case map_of (db_resolved d) (request_key s) of
            Some (prior, out) \<Rightarrow> if prior \<noteq> digest then failed 409 ''IDEMPOTENCY_MISMATCH'' else Inr (out, d)
          | None \<Rightarrow>
              then_do (request_end s digest (request_key s) d) (\<lambda>r.
              case r of
                Pending x \<Rightarrow> Inr (no_resolution\<lparr>rz_Pending := True, rz_Transaction := Some (transaction_ref x)\<rparr>, d)
              | Unadmitted \<Rightarrow> settle_draft a c s (request_key s) digest None False d
              | Ended x confirmed \<Rightarrow> settle_draft a c s (request_key s) digest (Some x) confirmed d)) = Inr (out, f)"
  proof -
    obtain c where c: "candidateClaims a credential ''workspace.read'' d = Inr c"
      and w: "Verify (dr_mac a) (dr_key a) (cl_PrincipalID c) (sq_Envelope s) = None"
      using assms(1) by (auto simp: resolve_tx_def then_do_Inr split: option.splits)
    have key: "request_key s = (cl_PrincipalID c, dc_Epoch (sq_Command s), dc_RequestID (sq_Command s))"
      using Verify_None(1) [OF w] by (simp add: request_key_def)
    show ?thesis
      using assms(1) c w by (intro that [of c], simp, unfold key digest_def resolve_tx_def then_do_def Let_def) simp
  qed
  have settled: "draft_change d f \<and> \<not> rz_Pending out \<and> request_key s \<in> set (db_resolutions f) \<and>
      map_of (db_resolved f) (request_key s) = Some (digest, out)"
    if "settle_draft a c s (request_key s) digest tx confirmed d = Inr (out, f)" "map_of (db_resolved d) (request_key s) = None"
    for tx confirmed
    using settle_draft_Inr [OF that Verify_None(2) [OF v] assms(2)] by simp
  have ends: "map_of (db_resolved d) (request_key s) = Some (digest, out) \<and> f = d \<or>
      map_of (db_resolved d) (request_key s) = None \<and> rz_Pending out \<and> f = d \<or>
      map_of (db_resolved d) (request_key s) = None \<and> (\<exists>tx confirmed. settle_draft a c s (request_key s) digest tx confirmed d = Inr (out, f))"
  proof (cases "map_of (db_resolved d) (request_key s)")
    case None
    then obtain r where "(case r of
        Pending x \<Rightarrow> Inr (no_resolution\<lparr>rz_Pending := True, rz_Transaction := Some (transaction_ref x)\<rparr>, d)
      | Unadmitted \<Rightarrow> settle_draft a c s (request_key s) digest None False d
      | Ended x confirmed \<Rightarrow> settle_draft a c s (request_key s) digest (Some x) confirmed d) = Inr (out, f)"
      using rest by (auto simp: then_do_Inr)
    then show ?thesis using None by (cases r) auto
  next
    case (Some y)
    then show ?thesis using rest by (cases y) (auto split: if_splits)
  qed
  show "draft_change d f"
    using ends settled draft_changes.le_refl by blast
  show "case map_of (db_resolved d) (request_key s) of
        Some (digest, prior) \<Rightarrow> f = d \<and> out = prior \<and> digest = dr_sha256 a (sq_document s)
      | None \<Rightarrow> if rz_Pending out then f = d
          else request_key s \<in> set (db_resolutions f) \<and>
            map_of (db_resolved f) (request_key s) = Some (dr_sha256 a (sq_document s), out)"
    unfolding digest_def [symmetric] using ends settled by fastforce
qed

end
