(* ===== verification/Access_Guarantees.thy ===== *)
theory Access_Guarantees
  imports Access_Runs
begin

text \<open>
  The guarantees of authentication and role policy: what a credential can do after any interleaving of
  operations, what ends it, who can be locked out, and what a login and a security command require.
\<close>

section \<open>Credentials and their rows\<close>

definition credential_row_of :: "'z access_ambient_scheme \<Rightarrow> string \<Rightarrow> 'v access_db \<Rightarrow> credential_row option" where
  "credential_row_of a credential d =
     (if ValidSecret credential ''ovsg_'' then map_of (db_grants d) (am_Hash a credential)
      else if ValidSecret credential ''ovst_'' then map_of (db_tokens d) (am_Hash a credential)
      else None)"

lemma find_credential_row:
  assumes "find_credential a credential d = Some v"
  shows "credential_row_of a credential d = Some (cv_row v)" and "cv_principal v = cr_principal (cv_row v)"
  using assms
  by (auto simp: find_credential_def credential_row_of_def grant_view_def token_view_def with_principal_def
      split: if_splits option.splits)

lemma claims_row:
  assumes "claims a credential d = Inr c"
  obtains row caps where "credential_row_of a credential d = Some row" and "cr_revoked row = None"
    and "cr_epoch row = db_auth_epoch d" and "Unix (am_now a 1) < cr_expires row" and "cr_principal row = cl_PrincipalID c"
    and "cr_ceiling row = Some caps" and "set (cl_Capabilities c) = granted d (cl_PrincipalID c) \<inter> set caps"
proof (rule claims_Inr [OF assms])
  fix v caps
  assume v: "find_credential a credential d = Some v" "\<not> credential_dead (db_auth_epoch d) (Unix (am_now a 1)) v"
    "cr_ceiling (cv_row v) = Some caps" "set (cl_Capabilities c) = granted d (cl_PrincipalID c) \<inter> set caps"
    "cl_PrincipalID c = cv_principal v"
  show ?thesis
    by (rule that [of "cv_row v" caps]) (use v find_credential_row [OF v(1)] in \<open>auto simp: credential_dead_def\<close>)
qed

lemma rows_leE:
  assumes "rows_le t u" and "map_of t k = Some g"
  obtains h where "map_of u k = Some h" and "credential_le g h"
  using assms unfolding rows_le_def by blast

lemma vault_le_row:
  assumes "vault_le d e" and "credential_row_of a credential d = Some row" and "am_Hash b = am_Hash a"
  obtains row' where "credential_row_of b credential e = Some row'" and "credential_le row row'"
proof -
  have le: "rows_le (db_grants d) (db_grants e)" "rows_le (db_tokens d) (db_tokens e)"
    using assms(1) by (simp_all add: vault_le_def)
  show ?thesis
    using assms(2,3) that
    by (auto simp: credential_row_of_def split: if_splits elim: rows_leE [OF le(1)] rows_leE [OF le(2)])
qed

text \<open>C4. No privilege escalation. Whatever a credential may do after a run, its principal held at the start or one
  of the actors of the run held and passed on; and a credential that existed at the start stays below the ceiling it
  was issued with, whatever roles its principal has gained since.\<close>

theorem no_escalation:
  assumes "access_runs A d e" and "claims a credential e = Inr c"
  shows "set (cl_Capabilities c) \<subseteq> granted d (cl_PrincipalID c) \<union> A \<and>
    (\<forall>row. credential_row_of a credential d = Some row \<longrightarrow>
       (\<exists>caps. cr_ceiling row = Some caps \<and> set (cl_Capabilities c) \<subseteq> set caps))"
proof -
  have kept: "bounded_change A d e" using access_runs_kept [OF assms(1)] by (simp add: step_kept_def)
  show ?thesis
  proof (rule claims_row [OF assms(2)], intro conjI allI impI)
    fix row caps
    assume c: "credential_row_of a credential e = Some row" "cr_ceiling row = Some caps"
      "set (cl_Capabilities c) = granted e (cl_PrincipalID c) \<inter> set caps"
    show "set (cl_Capabilities c) \<subseteq> granted d (cl_PrincipalID c) \<union> A"
      using kept c(3) unfolding bounded_change_def by blast
    fix old
    assume old: "credential_row_of a credential d = Some old"
    obtain row' where "credential_row_of a credential e = Some row'" "credential_le old row'"
      by (rule vault_le_row [OF _ old refl]) (use kept in \<open>auto simp: bounded_change_def\<close>)
    then show "\<exists>caps. cr_ceiling old = Some caps \<and> set (cl_Capabilities c) \<subseteq> set caps"
      using c by (auto simp: credential_le_def)
  qed
qed

lemma revoked_refused:
  assumes "access_runs A d e" and "credential_row_of a credential d = Some row" and "cr_revoked row \<noteq> None"
    and "am_Hash b = am_Hash a"
  shows "claims b credential e \<noteq> Inr c"
proof
  assume c: "claims b credential e = Inr c"
  have "vault_le d e" using access_runs_kept [OF assms(1)] by (simp add: step_kept_def bounded_change_def)
  then obtain row' where row': "credential_row_of b credential e = Some row'" "credential_le row row'"
    using vault_le_row [OF _ assms(2,4)] by blast
  obtain row2 where "credential_row_of b credential e = Some row2" "cr_revoked row2 = None"
    by (rule claims_row [OF c])
  then show False using row' assms(3) by (auto simp: credential_le_def)
qed

text \<open>C24. Revocation is final: a revoked grant or token is refused in every later state, whatever happened since.\<close>

theorem revoked_stays_refused:
  assumes "access_runs A d e" and "credential_row_of a credential d = Some row" and "cr_revoked row \<noteq> None"
    and "am_Hash b = am_Hash a"
  shows "\<exists>err. claims b credential e = Inl err"
  using revoked_refused [OF assms] by (cases "claims b credential e") auto

section \<open>Signing a principal out\<close>

definition signs_out :: "security_command \<Rightarrow> bool" where
  "signs_out cmd = (case cmd of ChangePassword _ \<Rightarrow> True | DeleteUser \<Rightarrow> True | ChangeUser _ disabled \<Rightarrow> disabled | _ \<Rightarrow> False)"

lemma invalidate_revokes:
  assumes "credential_row_of a credential d = Some row" and "cr_principal row = x"
  shows "\<exists>row'. credential_row_of a credential (invalidatePrincipal b x d) = Some row' \<and> cr_revoked row' \<noteq> None"
proof -
  have "\<exists>row'. map_option (\<lambda>g. if cr_principal g = x \<and> cr_revoked g = None then g\<lparr>cr_revoked := Some now\<rparr> else g) (Some row) = Some row' \<and>
      cr_revoked row' \<noteq> None" for now
    using assms(2) by (auto)
  then show ?thesis
    using assms(1) unfolding credential_row_of_def invalidatePrincipal_def
    by (auto simp: map_of_revoke_rows simp del: map_option_eq_Some split: if_splits)
qed

lemma credential_row_cong:
  "db_grants e = db_grants d \<Longrightarrow> db_tokens e = db_tokens d \<Longrightarrow> credential_row_of a credential e = credential_row_of a credential d"
  by (simp add: credential_row_of_def)

lemma carry_out_signs_out:
  assumes "carry_out a c cmd x expected verifier d = Inr (y, e)" and "signs_out cmd"
    and "credential_row_of b credential d = Some row" and "cr_principal row = x"
  shows "\<exists>row'. credential_row_of b credential e = Some row' \<and> cr_revoked row' \<noteq> None"
proof -
  obtain z f where f: "change_user a c x cmd verifier expected d = Inr (z, e)"
    using assms(1,2) by (auto simp: carry_out_def signs_out_def then_do_Inr Let_def split: security_command.splits)
  then obtain g where g: "change_principal (later 1 a) c x cmd verifier d = Inr g"
    and e: "db_grants e = db_grants g" "db_tokens e = db_tokens g"
    by (auto simp: change_user_def then_do_Inr)
  obtain h where h: "g = invalidatePrincipal (later 1 a) x h" "db_grants h = db_grants d" "db_tokens h = db_tokens d"
  proof (cases cmd)
    case (ChangeUser roles disabled)
    then show ?thesis
      using g assms(2) that by (auto simp: change_principal_def signs_out_def then_do_Inr Let_def replaceRoles_def set_disabled_def split: if_splits)
  next
    case (ChangePassword password)
    then show ?thesis using g that by (auto simp: change_principal_def)
  next
    case DeleteUser
    then show ?thesis using g that by (auto simp: change_principal_def then_do_Inr replaceRoles_def split: if_splits)
  qed (use assms(2) in \<open>auto simp: signs_out_def\<close>)
  have "credential_row_of b credential h = Some row" using assms(3) h(2,3) by (simp add: credential_row_cong [of h d])
  from invalidate_revokes [OF this assms(4), of "later 1 a"] show ?thesis
    unfolding credential_row_cong [OF e] h(1) .
qed

text \<open>C5. Changing a password, deleting a user or disabling one signs that user out everywhere: every grant and
  token the user held is refused from then on, in every later state.\<close>

theorem signed_out_everywhere:
  assumes "Execute f a ''management'' q authorized reauthorize (security_tx credential s verifier) d = (r, e)" and "e \<noteq> d"
    and "signs_out (sc_command s)" and "credential_row_of b other d = Some row" and "cr_principal row = path_id s"
    and "access_runs A e g" and "am_Hash b' = am_Hash b"
  shows "\<exists>err. claims b' other g = Inl err"
proof -
  obtain c m h where h: "mutate (later 3 (command_ambient a q)) c (sc_command s) (path_id s) (sc_Precondition s) verifier (sc_RequestID s) d = Inr (m, h)"
    "same_credentials h e"
    by (rule command_changed [OF assms(1,2)])
  obtain y body k where k: "carry_out (later 3 (command_ambient a q)) c (sc_command s) (path_id s) (sc_Precondition s) verifier d = Inr ((y, body), k)"
    "same_access k h"
    by (rule mutate_Inr [OF h(1)])
  obtain row' where row': "credential_row_of b other k = Some row'" "cr_revoked row' \<noteq> None"
    using carry_out_signs_out [OF k(1) assms(3-5)] by blast
  moreover have "credential_row_of b other e = credential_row_of b other k"
    by (rule credential_row_cong) (use h(2) k(2) in \<open>simp_all add: same_defs\<close>)
  ultimately have "claims b' other g \<noteq> Inr c" for c by (intro revoked_refused [OF assms(6) _ row'(2) assms(7)]) simp
  then show ?thesis by (cases "claims b' other g") auto
qed

section \<open>Administrators\<close>

text \<open>C7. An administrator remains. Once the manager is bootstrapped, after every interleaving of logins, logouts,
  security commands and offline role switches there is an enabled principal with a current password verifier whose
  roles hold every capability of the Administrator template.\<close>

theorem administrator_remains:
  assumes "Bootstrap f a templates username password d0 = (r, d)" and "set templates = set Templates"
    and "d \<noteq> d0" and "db_principal_roles d0 = []" and "access_runs A d e"
  shows "\<exists>(x, p)\<in>set (db_principals e). \<not> pr_disabled p \<and> HasPrefix (pr_verifier p) passwordPrefix \<and>
    (\<exists>caps. capabilities x e = Inr caps \<and> set allCapabilities \<subseteq> set caps)"
proof -
  have "administrator e"
    using bootstrap_administrator [OF assms(1-4)] access_runs_kept [OF assms(5)] by (simp add: step_kept_def)
  then obtain x where "x \<in> set (local_principals e)" "administrates e x"
    by (auto simp: administrator_def list_ex_iff)
  then show ?thesis
    by (fastforce simp: local_principals_def administrates_def split: sum.splits)
qed

section \<open>Login\<close>

lemma new_grant_view:
  assumes "issue_grant a x epoch caps d = Inr (grant, e)" and "find_credential b grant e = Some v" and "am_Hash b = am_Hash a"
  shows "cv_principal v = x" and "cv_row v = \<lparr>cr_principal = x, cr_epoch = epoch, cr_ceiling = Some caps,
      cr_expires = Unix (am_now a 3 + SessionAbsolute), cr_revoked = None\<rparr>"
    and "cv_elevated v = 0" and "cv_kind v = ''grant''" and "cv_issued v = Unix (am_now a 2)"
proof -
  have grant: "grant = Secret ''ovsg_'' (am_bytes a 1)" using assms(1) by (auto simp: issue_grant_def then_do_Inr Let_def)
  have "\<not> ValidSecret grant ''ovst_''" by (auto simp: grant Secret_def ValidSecret_def HasPrefix_def)
  then have v: "grant_view (am_Hash a grant) e = Some v"
    using assms(2,3) by (simp add: find_credential_def split: if_splits)
  have "map_of (db_grants e) (am_Hash a grant) = Some \<lparr>cr_principal = x, cr_epoch = epoch, cr_ceiling = Some caps,
      cr_expires = Unix (am_now a 3 + SessionAbsolute), cr_revoked = None\<rparr>"
    "map_of (db_auth_grants e) (am_Hash a grant) = Some \<lparr>gu_id = new_id a 0, gu_issued = Unix (am_now a 2),
      gu_last = Unix (am_now a 2), gu_elevated = 0\<rparr>"
    using assms(1) by (auto simp: issue_grant_def then_do_Inr Let_def insert_row_Inr map_of_snoc simp del: map_of_append)
  then show "cv_principal v = x" "cv_row v = \<lparr>cr_principal = x, cr_epoch = epoch, cr_ceiling = Some caps,
      cr_expires = Unix (am_now a 3 + SessionAbsolute), cr_revoked = None\<rparr>" "cv_elevated v = 0" "cv_kind v = ''grant''"
    "cv_issued v = Unix (am_now a 2)"
    using v by (auto simp: grant_view_def with_principal_def split: option.splits)
qed

lemma authenticate_tx_Inr:
  assumes "authenticate_tx a denied x verifier d = Inr (Some (grant, c), e)"
  obtains p epoch caps g where "\<not> denied" and "map_of (db_principals d) x = Some p" and "\<not> pr_disabled p" and "pr_verifier p = verifier"
    and "live_grants (Unix (am_now a 1)) d < MaxGrants" and "capabilities x d = Inr caps"
    and "issue_grant a x epoch caps d = Inr (grant, g)" and "claims (later 4 a) grant g = Inr c"
proof -
  have "\<not> denied" using assms by (auto simp: authenticate_tx_def reject_login_def then_do_Inr)
  with assms obtain p where p: "map_of (db_principals d) x = Some p" and
    rest: "(if pr_disabled p \<or> pr_verifier p \<noteq> verifier then reject_login a d
        else then_do (clock a d) (\<lambda>(epoch, _).
        if MaxGrants \<le> live_grants (Unix (am_now a 1)) d then failed 429 ''AUTH_GRANT_CAPACITY_REACHED''
        else then_do (capabilities x d) (\<lambda>caps.
             then_do (issue_grant a x epoch caps d) (\<lambda>(grant, d).
             then_do (claims (later 4 a) grant d) (\<lambda>c.
             then_do (audit (later 6 a) c ''authenticate'' x ''success'' '''' None '''' d) (\<lambda>(_, d).
             Inr (Some (grant, c), watermark (later 8 a) d))))))) = Inr (Some (grant, c), e)"
    unfolding authenticate_tx_def by (auto elim!: then_doE)
  have ok: "\<not> pr_disabled p" "pr_verifier p = verifier"
    using rest by (auto simp: reject_login_def then_do_Inr split: if_splits)
  then show ?thesis
    using rest that [OF \<open>\<not> denied\<close> p] by (auto simp: then_do_Inr split: if_splits prod.splits)
qed

text \<open>C8. A login needs the password. When \<open>Authenticate\<close> hands out a grant, then at the moment of the commit, after
  whatever ran while the password was being checked, the named principal was enabled, its verifier was still the one
  the password had been checked against and accepts the password, and there was room for another live grant; the
  claims are those of that principal, hold all its current capabilities and no elevation.\<close>

theorem login_needs_password:
  assumes "Authenticate f a slot others login d = (Inr (grant, c), e)"
  shows "\<exists>d1 x p. attempt (f 0) a (lg_Username login) d = (Inr (), d1) \<and>
    find_login (lg_Username login) d1 = (x, pr_verifier p, False) \<and> map_of (db_principals (others d1)) x = Some p \<and>
    \<not> pr_disabled p \<and> verifyPassword (am_IDKey a) (lg_Password login) (pr_verifier p) \<and>
    live_grants (Unix (am_now a 4)) (others d1) < MaxGrants \<and> cl_PrincipalID c = x \<and>
    set (cl_Capabilities c) = granted (others d1) x \<and> cl_CredentialKind c = ''grant'' \<and> Unix (cl_ElevatedUntil c) = 0"
proof -
  obtain d1 where d1: "attempt (f 0) a (lg_Username login) d = (Inr (), d1)"
    using assms by (cases "attempt (f 0) a (lg_Username login) d"; cases "fst (attempt (f 0) a (lg_Username login) d)")
      (auto simp: Authenticate_def split: if_splits sum.splits)
  obtain x verifier disabled where login: "find_login (lg_Username login) d1 = (x, verifier, disabled)"
    by (metis prod_cases3)
  let ?denied = "\<not> verifyPassword (am_IDKey a) (lg_Password login) verifier \<or> disabled \<or> x = ''''"
  have "store_write (f 1) (authenticate_tx (later 3 a) ?denied x verifier) (others d1) = (Inr (Some (grant, c)), e)"
    using assms unfolding Authenticate_def d1 login
    by (auto simp: Let_def d1 login split: if_splits sum.splits prod.splits option.splits)
  then have tx: "authenticate_tx (later 3 a) ?denied x verifier (others d1) = Inr (Some (grant, c), e)"
    by (rule store_write_Inr)
  show ?thesis
  proof (rule authenticate_tx_Inr [OF tx])
    fix p epoch caps g
    assume *: "\<not> ?denied" "map_of (db_principals (others d1)) x = Some p" "\<not> pr_disabled p" "pr_verifier p = verifier"
      "live_grants (Unix (am_now (later 3 a) 1)) (others d1) < MaxGrants" "capabilities x (others d1) = Inr caps"
      "issue_grant (later 3 a) x epoch caps (others d1) = Inr (grant, g)" "claims (later 4 (later 3 a)) grant g = Inr c"
    obtain v ceiling where v: "find_credential (later 4 (later 3 a)) grant g = Some v" "cr_ceiling (cv_row v) = Some ceiling"
      "set (cl_Capabilities c) = granted g (cl_PrincipalID c) \<inter> set ceiling" "cl_PrincipalID c = cv_principal v"
      "cl_CredentialKind c = cv_kind v" "cl_ElevatedUntil c = of_Unix (cv_elevated v)"
      by (rule claims_Inr [OF *(8)])
    have "am_Hash (later 4 (later 3 a)) = am_Hash (later 3 a)" by (simp add: later_def)
    note grant = new_grant_view [OF *(7) v(1) this]
    have "granted g x = granted (others d1) x"
      using issue_grant_quiet [OF *(7)] by (intro same_people_granted) (simp add: quiet_def)
    moreover have "set caps = granted (others d1) x" by (rule capabilities_granted [OF *(6)])
    ultimately have "set (cl_Capabilities c) = granted (others d1) x" using v grant by auto
    moreover have "am_now (later 3 a) 1 = am_now a 4" by (simp add: later_def)
    ultimately show ?thesis using d1 login * v grant by auto
  qed
qed

section \<open>Elevation\<close>

definition canonical_capability :: "security_command \<Rightarrow> string" where
  "canonical_capability cmd = the (map_of aliases (op_Capability (contract_operation cmd)))"

lemma command_aliases:
  "map_of aliases (op_Capability (contract_operation cmd)) = Some (canonical_capability cmd)"
  "op_Capability (contract_operation cmd) \<notin> set [''config.decide'', ''session.read'', ''session.end'']"
  by (cases cmd; simp add: canonical_capability_def contract_operation_def aliases_def)+

lemma check_call_fresh:
  assumes "check_call a credential s d = Inr c"
  shows "claims a credential d = Inr c" and "cl_CredentialKind c = ''grant''"
    and "Unix (am_now a 2) < Unix (cl_ElevatedUntil c)" and "canonical_capability (sc_command s) \<in> set (cl_Capabilities c)"
proof -
  have c: "claims a credential d = Inr c"
    and ok: "require_capability c (op_Capability (contract_operation (sc_command s))) True (Unix (am_now a 2)) = Inr ()"
    using assms unfolding check_call_def checkOperation_def Let_def by (auto elim!: then_doE)
  show "claims a credential d = Inr c" by (rule c)
  show "cl_CredentialKind c = ''grant''" "Unix (am_now a 2) < Unix (cl_ElevatedUntil c)"
    "canonical_capability (sc_command s) \<in> set (cl_Capabilities c)"
    using ok command_aliases [of "sc_command s"] unfolding require_capability_def
    by (simp_all add: not_le Let_def split: if_splits)
qed

text \<open>C9. A security command needs a fresh grant. A command that changed anything was sent with a login grant, never
  with an API token, that was alive at the commit, held the capability of the command and whose elevation had not run
  out.\<close>

theorem command_needs_fresh_grant:
  assumes "Execute f a ''management'' q authorized reauthorize (security_tx credential s verifier) d = (r, e)" and "e \<noteq> d"
  shows "\<exists>c. claims (command_ambient a q) credential d = Inr c \<and> cl_CredentialKind c = ''grant'' \<and>
    Unix (am_now (command_ambient a q) 2) < Unix (cl_ElevatedUntil c) \<and>
    canonical_capability (sc_command s) \<in> set (cl_Capabilities c)"
proof (rule command_changed [OF assms])
  fix c
  assume "check_call (command_ambient a q) credential s d = Inr c"
  from check_call_fresh [OF this] show ?thesis by blast
qed

lemma raised_stored:
  assumes "audit b c op target res request ob job (raise_elevation hash until d) = Inr (u, g)"
    and "map_of (db_auth_grants (touch a credential c' g)) h = Some v"
  obtains v0 where "map_of (db_auth_grants d) h = Some v0"
    and "gu_elevated v = (if h = hash then Unix until else gu_elevated v0)"
proof -
  have "db_auth_grants g = db_auth_grants (raise_elevation hash until d)" using audit_same [OF assms(1)] by (simp add: same_defs)
  then show ?thesis
    using assms(2) that by (auto simp: touch_def Let_def watermark_def raise_elevation_def map_of_modify_row split: if_splits)
qed

lemma grant_prefix:
  fixes d :: "'v access_db"
  assumes "claims a credential d = Inr c" and "cl_CredentialKind c = ''grant''"
  shows "ValidSecret credential ''ovsg_''"
proof (rule claims_Inr [OF assms(1)])
  fix v
  assume "find_credential a credential d = Some v" "cl_CredentialKind c = cv_kind v"
  then show ?thesis
    using assms(2) by (auto simp: find_credential_def token_view_def with_principal_def split: if_splits option.splits)
qed

lemma claims_elevated:
  fixes d :: "'v access_db"
  assumes "claims a credential d = Inr c" and "ValidSecret credential ''ovsg_''"
  obtains u where "map_of (db_auth_grants d) (am_Hash a credential) = Some u" and "cl_ElevatedUntil c = of_Unix (gu_elevated u)"
proof (rule claims_Inr [OF assms(1)])
  fix v
  assume v: "find_credential a credential d = Some v" "cl_ElevatedUntil c = of_Unix (cv_elevated v)"
  then show ?thesis
    using assms(2) that by (auto simp: find_credential_def grant_view_def with_principal_def split: if_splits option.splits)
qed

lemma of_Unix_le: "of_Unix (Unix t) \<le> t"
  by (simp add: of_Unix_def Unix_def)

text \<open>C23. Only the password elevates. When \<open>Reauthenticate\<close> answers, the principal of the grant had, at the commit, the
  verifier the password was checked against and which accepts it; the elevation ends within five minutes and never
  after the grant itself. That end is also the one in the stored row of this grant, which every later command reads:
  whatever the moment, the claims of the credential on the new tables end their elevation no later. The
  elevation of every other grant is as it was.\<close>

theorem elevation_needs_password:
  assumes "Reauthenticate f writable a slot others credential password d = (Inr c, e)"
  shows "\<exists>d1 p. map_of (db_principals (others d1)) (cl_PrincipalID c) = Some p \<and>
    verifyPassword (am_IDKey a) password (pr_verifier p) \<and> cl_ElevatedUntil c \<le> am_now a 7 + Elevation \<and>
    cl_ElevatedUntil c \<le> cl_ExpiresAt c \<and> (\<exists>c0. claims (later 5 a) credential (others d1) = Inr c0 \<and> cl_PrincipalID c0 = cl_PrincipalID c) \<and>
    (\<exists>b. InspectAuth writable a credential d = Inr b \<and> attempt (f 0) (later 2 a) (cl_DisplayName b) d = (Inr (), d1)) \<and>
    (\<forall>h u. map_of (db_auth_grants e) h = Some u \<longrightarrow> (\<exists>u0. map_of (db_auth_grants (others d1)) h = Some u0 \<and>
       gu_elevated u = (if h = am_Hash a credential then Unix (cl_ElevatedUntil c) else gu_elevated u0))) \<and>
    (\<forall>n c'. claims (later n a) credential e = Inr c' \<longrightarrow> cl_ElevatedUntil c' \<le> cl_ElevatedUntil c)"
proof -
  obtain b where b: "InspectAuth writable a credential d = Inr b" and kind: "cl_CredentialKind b = ''grant''"
    using assms by (cases "InspectAuth writable a credential d") (auto simp: Reauthenticate_def split: if_splits)
  have secret: "ValidSecret credential ''ovsg_''"
    using b kind by (auto simp: InspectAuth_def store_read_def split: sum.splits if_splits intro: grant_prefix)
  obtain d1 where d1: "attempt (f 0) (later 2 a) (cl_DisplayName b) d = (Inr (), d1)"
    using assms unfolding Reauthenticate_def b
    by (cases "attempt (f 0) (later 2 a) (cl_DisplayName b) d"; cases "fst (attempt (f 0) (later 2 a) (cl_DisplayName b) d)")
      (auto split: if_splits sum.splits)
  obtain p0 :: principal_row where "store_write (f 1) (reauthenticate_tx (later 5 a) credential (verifyPassword (am_IDKey a) password (pr_verifier p0)) (pr_verifier p0))
      (others d1) = (Inr (Some c), e)"
    using assms unfolding Reauthenticate_def b
    by (auto simp: d1 Let_def split: if_splits sum.splits prod.splits option.splits)
  then have "reauthenticate_tx (later 5 a) credential (verifyPassword (am_IDKey a) password (pr_verifier p0)) (pr_verifier p0) (others d1) = Inr (Some c, e)"
    by (rule store_write_Inr)
  then show ?thesis
  proof (cases rule: reauthenticate_tx_Inr)
    case (raised c0 p until u g)
    have c: "cl_ElevatedUntil c = until" using raised(7) by simp
    have hash: "am_Hash (later n a) = am_Hash a" for n by (simp add: later_def)
    have stored: "\<exists>u0. map_of (db_auth_grants (others d1)) h = Some u0 \<and>
       gu_elevated v = (if h = am_Hash a credential then Unix (cl_ElevatedUntil c) else gu_elevated u0)"
      if "map_of (db_auth_grants e) h = Some v" for h v
      using raised_stored [OF raised(8) that [unfolded raised(9)]] unfolding c by (metis hash)
    have "cl_ElevatedUntil c' \<le> cl_ElevatedUntil c" if "claims (later n a) credential e = Inr c'" for n c'
      using claims_elevated [OF that secret] stored of_Unix_le [of until] unfolding c by (metis hash)
    moreover have "am_now (later 5 a) 2 = am_now a 7" by (simp add: later_def)
    ultimately show ?thesis using raised b d1 stored by auto
  qed simp
qed

end
