(* ===== verification/Engine_Authority.thy ===== *)
theory Engine_Authority
  imports Engine_Runs
begin

text \<open>
  The authority of an apply in the engine. Every row of a safe apply that a call of the engine leaves in
  the states of going on (prepared, in its window, confirmed) was written after the call had asked for the
  authority of that apply and had got it; without it a call leaves the rows alone or turns them back.
\<close>

section \<open>Rows that a call turns\<close>

definition turned :: "(string \<Rightarrow> bool) \<Rightarrow> journal_db \<Rightarrow> journal_db \<Rightarrow> bool" where
  "turned P d e \<longleftrightarrow> (\<forall>y row. map_of (db_safes e) y = Some row \<longrightarrow> map_of (db_safes d) y = Some row \<or> P (sf_State (sr_Doc row)))"

interpretation turning: store_order "turned P" for P
proof
  show "turned P d d" for d by (simp add: turned_def)
  show "turned P d f" if "turned P d e" "turned P e f" for d e f using that unfolding turned_def by blast
qed

lemma turned_same: "db_safes e = db_safes d \<Longrightarrow> turned P d e"
  by (simp add: turned_def)

text \<open>The states of an apply that does not go on.\<close>

definition going_back :: "string \<Rightarrow> bool" where
  "going_back state \<longleftrightarrow> compensating state \<or> state = ''not-committed'' \<or> state = ''rollback-requested''"

lemma going_back_states [simp]:
  "going_back ''rolling-back''" "going_back ''recovery-required''" "going_back ''rollback-conflict''" "going_back ''rolled-back''"
  "going_back ''not-committed''" "going_back ''rollback-requested''"
  by (simp_all add: going_back_def compensating_def)

lemma settle_receipts_more [simp]: "evidence_db.more (settle_receipts k now d) = evidence_db.more d"
  by (simp add: settle_receipts_def completeReceipts_def Let_def)

lemma ChangeJob_safes:
  fixes d :: journal_db
  assumes "ChangeJob a x expected t now d = Inr (k, d')"
  shows "db_safes d' = db_safes d"
proof -
  obtain j c e y where "saveJob a False c d = Inr (j, e)"
    and app: "Append a (job_event ''job-state-changed'' True now j) (settle_receipts j now e) = Inr (y, d')"
    using assms unfolding ChangeJob_def Let_def by (elim then_doE) (auto elim!: then_doE split: if_splits)
  then have "evidence_db.more e = evidence_db.more d" by (auto simp: saveJob_def Let_def then_do_Inr split: if_splits)
  then have "evidence_db.more d' = evidence_db.more d" using Append_frame(4) [OF app] by simp
  then show ?thesis by (rule journal_more)
qed

lemma updateSafety_safes:
  assumes "updateSafety a r s d = Inr (u, d')"
  shows "db_safes d' = db_safes (set_safety (x_ID r) s d)"
proof -
  define r' where "r' = (\<lambda>n. changed r n (x_State r) (x_Outcome r) (ck_Wall (am_clock a 0)))"
  obtain n job k d1 y where job: "ChangeJob a (j_ID job) (j_Sequence job) (safe_phase job (r' n) s) (x_Updated (r' n)) (write_safety (r' n) s n d)
       = Inr (k, d1)"
    and app: "Append (later 2 a) (safety_record (r' n) s) (close_safety (r' n) s d1) = Inr (y, d')"
    using assms unfolding updateSafety_def Let_def r'_def by (elim then_doE) (auto elim!: then_doE split: if_splits)
  have "db_safes d' = db_safes d1" using Append_journal(6) [OF app] by simp
  then show ?thesis using ChangeJob_safes [OF job] by (simp add: r'_def)
qed

lemma saveSafety_tx_safes:
  assumes "saveSafety_tx a r s d = Inr (u, d')"
  shows "db_safes d' = db_safes (set_safety (x_ID r) s d)"
proof -
  obtain q where q: "load (x_ID r) d = Inr q" "updateSafety a q s d = Inr (u, d')"
    using assms by (auto simp: saveSafety_tx_def then_do_Inr split: if_splits)
  then have "x_ID q = x_ID r" by (auto simp: load_def select_row_def split: sum.splits option.splits if_splits)
  then show ?thesis using updateSafety_safes [OF q(2)] by simp
qed

lemma set_safety_turned: "P (sf_State s) \<Longrightarrow> db_safes e = db_safes (set_safety x s d) \<Longrightarrow> turned P d e"
  by (auto simp: turned_def set_safety_def map_of_update_row split: option.splits if_splits)

lemma saveSafety_turned:
  assumes "saveSafety f a r s d = (res, d')" and "P (sf_State s)"
  shows "turned P d d'"
proof -
  have "d' = d \<or> (\<exists>u. saveSafety_tx a r s d = Inr (u, d'))" using assms(1) unfolding saveSafety_def by (rule store_write_result)
  then show ?thesis using set_safety_turned [of P s, OF assms(2) saveSafety_tx_safes] turning.le_refl by blast
qed

lemma holdSafety_turned: "holdSafety f a r s state reason d = (res, d') \<Longrightarrow> P state \<Longrightarrow> turned P d d'"
  by (auto simp: holdSafety_def turning.le_refl split: if_splits intro: saveSafety_turned)

lemma rollback_answer_turned:
  assumes "rollback_answer f a x oc d = (res, d')" and "\<And>row. map_of (db_safes d) x = Some row \<Longrightarrow> going_back (sf_State (sr_Doc row))"
  shows "turned going_back d d'"
proof (cases "readSafety x d")
  case (Inl e)
  then show ?thesis using assms(1) by (simp add: rollback_answer_def turning.le_refl)
next
  case (Inr rs)
  obtain r s where rs: "rs = (r, s)" by (cases rs)
  define t where "t = (let s = s\<lparr>sf_Outcome := oc\<rparr> in
     if oc_Commit oc = ''rejected'' then s\<lparr>sf_State := ''rollback-conflict'', sf_Reason := ''rollback-transaction-rejected''\<rparr>
     else s\<lparr>sf_Reason := oc_Reason oc\<rparr>)"
  have "saveSafety f a r t d = (res, d')" using assms(1) Inr by (simp add: rollback_answer_def rs t_def Let_def)
  moreover have "going_back (sf_State t)"
  proof -
    have "loadSafety x d = Inr s" using Inr by (auto simp: readSafety_def rs then_do_Inr)
    then have "going_back (sf_State s)" using assms(2) by (auto simp: loadSafety_def select_row_def split: sum.splits option.splits if_splits)
    then show ?thesis by (simp add: t_def Let_def)
  qed
  ultimately show ?thesis by (rule saveSafety_turned)
qed

lemma rollback_turned:
  assumes "rollback f a g p r s d = (res, d', sent)"
  shows "turned going_back d d'"
proof (cases "pv_PrepareRollback p (x_Plan r) (rollbackMarker a g (x_ID r) (pl_Marker (x_Plan r)))")
  case (Inl e)
  obtain state reason where sr: "rollback_problem e = (state, reason)" by fastforce
  then have "going_back state" using rollback_problem_state by fastforce
  then show ?thesis using assms Inl sr by (auto simp: rollback_def intro: holdSafety_turned split: prod.splits)
next
  case (Inr plan)
  let ?s = "dispatch_rollback plan s"
  have returns: "going_back (sf_State ?s)" by (simp add: dispatch_rollback_def)
  show ?thesis
  proof (cases "pv_Commit p plan")
    case (Withheld u)
    then show ?thesis using assms Inr by (auto simp: rollback_def Let_def intro: holdSafety_turned split: prod.splits)
  next
    case (Asked no yes)
    obtain r1 d1 where save: "saveSafety (f 0) (forth 30 a) r ?s d = (r1, d1)" by fastforce
    have first: "turned going_back d d1" by (rule saveSafety_turned [OF save]) (rule returns)
    show ?thesis
    proof (cases r1)
      case (Inl e)
      then have "turned going_back d1 d'"
        using assms \<open>_ = Inr plan\<close> Asked save by (auto simp: rollback_def Let_def intro: holdSafety_turned split: prod.splits)
      then show ?thesis using first turning.le_trans by blast
    next
      case (Inr u)
      then have "saveSafety_tx (forth 30 a) r ?s d = Inr (u, d1)" using save by (auto simp: saveSafety_def dest: store_write_Inr)
      then have "db_safes d1 = db_safes (set_safety (x_ID r) ?s d)" by (rule saveSafety_tx_safes)
      then have "going_back (sf_State (sr_Doc row))" if "map_of (db_safes d1) (x_ID r) = Some row" for row
        using that returns by (auto simp: set_safety_def map_of_update_row split: option.splits)
      moreover obtain res' where "rollback_answer (f 1) (forth 60 a) (x_ID r) yes d1 = (res', d')"
        using assms \<open>_ = Inr plan\<close> Asked save Inr by (auto simp: rollback_def Let_def split: prod.splits)
      ultimately have "turned going_back d1 d'" by (intro rollback_answer_turned)
      then show ?thesis using first turning.le_trans by blast
    qed
  qed
qed

section \<open>What each call asks\<close>

lemma watch_committed_turned:
  assumes "watch_committed f a g p r s oc d = (res, d', sent)"
  shows "turned going_back d d' \<or> am_authority a 0 (x_Authorization r) = Inr ()"
proof (cases "am_authority a 0 (x_Authorization r) = Inr ()")
  case False
  then obtain t where "rollback f a g p r t d = (res, d', sent)" using assms by (simp add: watch_committed_def Let_def)
  then show ?thesis using rollback_turned by blast
qed simp

lemma observe_rollback_back: "going_back (sf_State (observe_rollback a p plan s))"
  by (simp add: observe_rollback_def Let_def)

lemma tick_asks:
  assumes "safety_step_db f a g p x d = (res, d', sent)" and "journal_wf d"
  shows "turned going_back d d' \<or> (\<exists>r. map_of (db_execs d') x = Some r \<and> am_authority a 0 (x_Authorization r) = Inr ())"
proof (cases "readSafety x d")
  case (Inl e)
  then show ?thesis using assms(1) by (simp add: safety_step_db_def turning.le_refl)
next
  case (Inr rs)
  obtain r s where read: "readSafety x d = Inr (r, s)" using Inr by (cases rs) simp
  have hold: "turned going_back e d'" if "holdSafety h b q t state reason e = (res', d')" "going_back state" for h b q t state reason e res'
    using that by (rule holdSafety_turned)
  show ?thesis
  proof (cases "Terminal_safety (sf_State s) \<or> sf_Domain s \<noteq> ec_Domain g \<or> sf_State s = ''rollback-conflict'' \<or> sf_Rollback s \<noteq> None \<or>
      oc_Commit (x_Outcome r) = ''rejected'' \<or> x_State r = ''admitted''")
    case True
    then have "turned going_back d d'"
      using assms(1) read observe_rollback_back
      by (auto simp: safety_step_db_def Let_def turning.le_refl intro: hold saveSafety_turned split: if_splits prod.splits option.splits)
    then show ?thesis by blast
  next
    case False
    define oc where "oc = pv_Observe p (x_Plan r) (x_Outcome r)"
    obtain r1 d1 where save: "saveOutcome (f 2) (forth 100 a) x oc d = (r1, d1)" by fastforce
    have same: "turned going_back d d1" by (rule turned_same [OF saveOutcome_result(2) [OF save assms(2)]])
    have step: "safety_step_db f a g p x d = (case r1 of Inl e \<Rightarrow> (Inl e, d1, []) | Inr _ \<Rightarrow>
        (case Read_execution x d1 of
           Inl e \<Rightarrow> (Inl e, d1, [])
         | Inr r \<Rightarrow>
             if oc_Commit oc \<noteq> ''committed''
             then (case holdSafety (f 0) a r s ''recovery-required'' ''apply-outcome-unknown'' d1 of (res, d) \<Rightarrow> (res, d, []))
             else watch_committed f a g p r s oc d1))"
      using read False save by (cases r1) (simp_all add: safety_step_db_def Let_def oc_def [symmetric])
    show ?thesis
    proof (cases "turned going_back d1 d'")
      case True
      then show ?thesis using same turning.le_trans by blast
    next
      case False
      then obtain q where q: "load x d1 = Inr q" and w: "watch_committed f a g p q s oc d1 = (res, d', sent)"
        using assms(1) unfolding step
        by (auto simp: Read_execution_def turning.le_refl dest: hold split: sum.splits if_splits prod.splits)
      then have live: "am_authority a 0 (x_Authorization q) = Inr ()" using watch_committed_turned [OF w] False by blast
      obtain r0 where r0: "map_of (db_execs d) x = Some r0" using read by (auto simp: readSafety_def then_do_Inr dest!: load_Inr)
      have "journal_le d d1" using watch_run(2) [OF watch_step [OF saveOutcome_result(1) [OF save assms(2)]] assms(2)] .
      then have 1: "x_Authorization q = x_Authorization r0"
        using journal_leD(1) [OF _ r0] load_Inr [OF q] by (fastforce simp: exec_le_def)
      have "journal_le d d'" using watch_run(2) [OF _ assms(2)] safety_step_run [OF assms] by blast
      then obtain r' where "map_of (db_execs d') x = Some r'" "x_Authorization r' = x_Authorization r0"
        using journal_leD(1) [OF _ r0] by (fastforce simp: exec_le_def)
      then show ?thesis using live 1 by auto
    qed
  qed
qed

lemma decision_asks:
  assumes "decide_db f a g p x v d = (res, d')" and "journal_wf d"
  shows "turned going_back d d' \<or> (\<exists>r. map_of (db_execs d') x = Some r \<and> am_authority a 2 (x_Authorization r) = Inr ())"
proof (cases "d' = d")
  case False
  then obtain r s where read: "readSafety x d = Inr (r, s)" "\<not> Terminal_safety (sf_State s)"
    using assms(1) by (auto simp: decide_db_def split: sum.splits if_splits)
  obtain row where row: "load x d = Inr r" "map_of (db_safes d) x = Some row" "sr_Doc row = s"
    by (rule readSafety_Inr [OF read(1)])
  define oc where "oc = pv_Observe p (x_Plan r) (x_Outcome r)"
  have ready: "de_decision v = ''confirm'' \<longrightarrow> sf_State s = ''awaiting-confirmation'' \<and> oc_Commit oc = ''committed'' \<and> oc_Applied oc = ''applied''"
    and ex: "Execute f (forth 1 a) ''management'' (de_command v) (de_check v) (\<lambda>_. de_check v) (decide_tx x v r s oc) d = (res, d')"
    using assms(1) False read by (auto simp: decide_db_def Let_def oc_def confirm_ready_def split: if_splits)
  have tw: "tables_wf d" "receipts_wf d" using journal_wfD(1) [OF assms(2)] by (simp_all add: tables_wf_def)
  let ?b = "with_command ''management'' (de_command v) (new_id (forth 1 a) 0) (later 1 (forth 1 a))"
  obtain m e where m: "decide_tx x v r s oc ?b d = Inr (m, e)" and safes: "db_safes d' = db_safes e" and execs: "db_execs d' = db_execs e"
    by (rule decision.Execute_cases [OF ex tw]) (use False in auto)
  show ?thesis
  proof (rule decide_tx_effect [OF m assms(2) row read(2) ready])
    assume live: "am_authority ?b 1 (x_Authorization r) = Inr ()" and change: "journal_change x d e"
    obtain q where "map_of (db_execs e) x = Some q" "x_Authorization q = x_Authorization r"
      using journal_leD(1) [OF journal_change_le [OF change]] load_Inr [OF row(1)] by (fastforce simp: exec_le_def)
    moreover have "am_authority ?b 1 = am_authority a 2" by (simp only: with_command_clock forth_clock one_add_one)
    ultimately show ?thesis using live execs by auto
  next
    fix s' assume "s' = s\<lparr>sf_State := ''rollback-requested'', sf_Reason := ''authorized-rollback-requested''\<rparr>"
      and change: "journal_change x d e" and row': "map_of (db_safes e) x = Some (row\<lparr>sr_Doc := s'\<rparr>)"
    then have state: "going_back (sf_State (sr_Doc (row\<lparr>sr_Doc := s'\<rparr>)))" by simp
    have "turned going_back d d'"
      unfolding turned_def safes
    proof (intro allI impI)
      fix y q assume q: "map_of (db_safes e) y = Some q"
      show "map_of (db_safes d) y = Some q \<or> going_back (sf_State (sr_Doc q))"
      proof (cases "y = x")
        case True
        then show ?thesis using q row' state by simp
      next
        case False
        then show ?thesis using q journal_change_other(2) [OF change] by simp
      qed
    qed
    then show ?thesis by blast
  qed
qed (simp add: turning.le_refl)

section \<open>The calls of the engine\<close>

lemma admit_asks:
  assumes "admit g x q c fresh p safe a d = Inr (m, d')" and "db_safes d' \<noteq> db_safes d"
  shows "am_authority a 0 c = Inr ()"
proof -
  have "safe \<noteq> None" using admit_effect(4) [OF assms(1)] assms(2) by blast
  then obtain s where "safe = Some s" by blast
  then show ?thesis
    using assms(1) by (auto simp: admit_def admitSafety_def new_execution_def then_do_Inr Let_def split: if_splits)
qed

lemma run_safes:
  assumes "run f a p v w e = (res, e')" and "journal_wf (en_db e)"
  shows "db_safes (en_db e') = db_safes (en_db e)"
proof -
  have finish: "db_safes d2 = db_safes d1" if "run_finish f a p x plan oc d1 = (res', d2)" "journal_wf d1" for x plan oc d1 d2 res'
  proof -
    obtain r1 d3 where s: "saveOutcome (f 1) (forth 20 a) x oc d1 = (r1, d3)" by fastforce
    have 1: "db_safes d3 = db_safes d1" and wf: "journal_wf d3"
      using saveOutcome_result(1,2) [OF s that(2)] watch_run(1) [OF watch_step _] that(2) by blast+
    show ?thesis
      using that(1) s 1 saveOutcome_result(2) [OF _ wf] by (auto simp: run_finish_def split: sum.splits if_splits prod.splits)
  qed
  have before: "db_safes d1 = db_safes (en_db e) \<and> journal_wf d1" if "beforeSend (f 0) a w v (en_db e) = (r1, d1)" for r1 d1
  proof -
    have "journal_wf d1" using watch_run(1) [OF watch_step [OF beforeSend_run(1) [OF that assms(2)]] assms(2)] .
    moreover have "d1 = en_db e \<or> (\<exists>u. dispatch_tx a w (we_fresh v) (en_db e) = Inr (u, d1))"
      using that by (auto simp: beforeSend_def split: sum.splits dest: store_write_result)
    moreover have "tables_wf (en_db e)" by (rule journal_wfD(1) [OF assms(2)])
    ultimately show ?thesis by (auto simp: dispatch_tx_def then_do_Inr split: if_splits elim: transition_effect)
  qed
  show ?thesis
    using assms(1) finish before assms(2) by (auto simp: run_def split: sum.splits commit_call.splits prod.splits)
qed

text \<open>What a call is told when it asks for the authority of an apply; a restart asks nothing.\<close>

fun authority :: "engine_call \<Rightarrow> nat \<Rightarrow> Authorization \<Rightarrow> unit outcome" where
  "authority (Submission f a g p u) = am_authority a"
| "authority (Work f a p v w) = am_authority a"
| "authority (Reconciliation f a p x) = am_authority a"
| "authority (Tick f a g p x) = am_authority a"
| "authority (Decision f a g p x v) = am_authority a"
| "authority Restart = (\<lambda>_ _. Inl ErrUnavailable)"

definition asked :: "engine_call \<Rightarrow> engine \<Rightarrow> engine \<Rightarrow> bool" where
  "asked c e e' \<longleftrightarrow> (\<forall>x row. map_of (db_safes (en_db e')) x = Some row \<longrightarrow> map_of (db_safes (en_db e)) x = Some row \<or>
     going_back (sf_State (sr_Doc row)) \<or>
     (\<exists>n r. map_of (db_execs (en_db e')) x = Some r \<and> authority c n (x_Authorization r) = Inr ()))"

lemma asked_same: "db_safes (en_db e') = db_safes (en_db e) \<Longrightarrow> asked c e e'"
  by (simp add: asked_def)

lemma asked_one:
  assumes "turned going_back (en_db e) (en_db e') \<or> (\<exists>r. map_of (db_execs (en_db e')) x = Some r \<and> authority c n (x_Authorization r) = Inr ())"
    and "\<And>y. y \<noteq> x \<Longrightarrow> map_of (db_safes (en_db e')) y = map_of (db_safes (en_db e)) y"
  shows "asked c e e'"
  using assms unfolding asked_def turned_def by metis

lemma submit_asks:
  assumes "submit f a g p u e = (res, e')" and "engine_wf e"
  shows "asked (Submission f a g p u) e e'"
proof -
  define x where "x = new_id a 0"
  have wf: "journal_wf (en_db e)" using assms(2) by (simp add: engine_wf_def)
  show ?thesis
  proof (cases "\<exists>command c plan e1. submit_prepare a g p u x (en_db e) = Ready command c plan \<and> claim x e = Some e1")
    case False
    then have "e' = e" using assms(1) unfolding submit_def x_def [symmetric] Let_def
      by (auto split: prepared.splits option.splits)
    then show ?thesis by (simp add: asked_same)
  next
    case True
    then obtain command c plan e1 where prep: "submit_prepare a g p u x (en_db e) = Ready command c plan" and cl: "claim x e = Some e1" by blast
    note e1 = claim_Some [OF cl]
    obtain r d where ex: "Execute (f 3) (forth 1 a) ''management'' command (su_reauth u) (\<lambda>_. su_reauth u)
        (admit g x (su_request u) c (su_fresh u) plan (su_safe u)) (en_db e) = (r, d)" by fastforce
    define w where "w = \<lparr>wk_ID = x, wk_Authorization = c, wk_Plan = plan, wk_Safe = (su_safe u \<noteq> None)\<rparr>"
    have eq: "submit f a g p u e = (case r of
         Inl err \<Rightarrow> (Inl err, release x (e1\<lparr>en_db := d\<rparr>))
       | Inr out \<Rightarrow>
           if rs_Replayed out then (Inr out, release x (e1\<lparr>en_db := d\<rparr>))
           else if su_safe u \<noteq> None then (Inr out, e1\<lparr>en_db := d, en_workers := en_workers e1 @ [w]\<rparr>)
           else (case run f (forth 60 a) p (su_worker u) w (e1\<lparr>en_db := d\<rparr>) of
                   (Inl err, e) \<Rightarrow> (Inl err, release x e) | (Inr _, e) \<Rightarrow> (Inr out, release x e)))"
      unfolding submit_def x_def [symmetric] Let_def w_def
      by (cases r) (simp_all add: prep cl ex [simplified] e1)
    note eq = trans [OF eq [symmetric] assms(1)]
    let ?b = "with_command ''management'' command (new_id (forth 1 a) 0) (later 1 (forth 1 a))"
    have tw: "tables_wf (en_db e)" "receipts_wf (en_db e)" using journal_wfD(1) [OF wf] by (simp_all add: tables_wf_def)
    show ?thesis
    proof (rule Execute_admit [OF ex wf])
      assume "d = en_db e" "\<forall>out. r = Inr out \<longrightarrow> rs_Replayed out"
      then have "en_db e' = en_db e" using eq by (auto simp: release_def split: sum.splits)
      then show ?thesis by (simp add: asked_same)
    next
      fix row
      assume adm: "journal_admit x (en_db e) d" and row: "map_of (db_execs d) x = Some row" "x_Authorization row = c"
        and safe: "map_of (db_safes d) x \<noteq> None \<longleftrightarrow> su_safe u \<noteq> None"
      note other = journal_admit_other [OF adm wf]
      have wf': "journal_wf d" by (rule journal_admit_wf [OF adm wf])
      show ?thesis
      proof (cases "su_safe u")
        case None
        have "db_safes d = db_safes (en_db e)" using adm safe None by (auto simp: journal_admit_def)
        moreover have "db_safes (en_db e') = db_safes d"
          using eq None run_safes [of f "forth 60 a" p "su_worker u" w "e1\<lparr>en_db := d\<rparr>"] wf'
          by (auto simp: release_def split: sum.splits prod.splits if_splits)
        ultimately show ?thesis by (simp add: asked_same)
      next
        case (Some s)
        then have db: "en_db e' = d" using eq by (auto simp: release_def split: sum.splits if_splits)
        have "map_of (db_safes (en_db e)) x = None" by (rule journal_admitE [OF adm wf])
        then have new: "db_safes d \<noteq> db_safes (en_db e)" using safe Some by auto
        have "am_authority ?b 0 c = Inr ()"
        proof (rule admission.Execute_cases [OF ex tw])
          assume "d = en_db e"
          then show ?thesis using new by simp
        next
          fix m e2 rows high
          assume m: "admit g x (su_request u) c (su_fresh u) plan (su_safe u) ?b (en_db e) = Inr (m, e2)"
            and d: "d = e2\<lparr>db_receipts := rows, db_high_watermark := high\<rparr>"
          show ?thesis using new d by (intro admit_asks [OF m]) simp
        qed
        then have "am_authority a 1 c = Inr ()" by simp
        then have "\<exists>q. map_of (db_execs (en_db e')) x = Some q \<and> authority (Submission f a g p u) 1 (x_Authorization q) = Inr ()"
          using row db by auto
        then show ?thesis
        proof (intro asked_one [where x = x and n = 1] disjI2)
          show "map_of (db_safes (en_db e')) y = map_of (db_safes (en_db e)) y" if "y \<noteq> x" for y
            using other(2) [OF that] by (simp add: db)
        qed
      qed
    qed
  qed
qed

lemma engine_wf_journal: "engine_wf e \<Longrightarrow> journal_wf (en_db e)"
  by (simp add: engine_wf_def)

text \<open>Every call asks before it writes a row with which an apply goes on.\<close>

lemma call_asks:
  assumes "possible c e" and "engine_wf e"
  shows "asked c e (perform c e)"
proof (cases c)
  case (Submission f a g p u)
  then show ?thesis using submit_asks [OF surjective_pairing assms(2)] by simp
next
  case (Work f a p v w)
  obtain res e1 where run: "run f a p v w e = (res, e1)" by fastforce
  have "db_safes (en_db e1) = db_safes (en_db e)" by (rule run_safes [OF run engine_wf_journal [OF assms(2)]])
  then show ?thesis using Work run by (intro asked_same) (simp add: work_def release_def)
next
  case (Reconciliation f a p x)
  have "db_safes d' = db_safes (en_db e)" if "reconcile_db f a p x (en_db e) = (res, d')" for res d'
    using that saveOutcome_result(2) [OF _ engine_wf_journal [OF assms(2)]] by (auto simp: reconcile_db_def split: sum.splits if_splits)
  then show ?thesis
    using Reconciliation by (intro asked_same) (auto simp: Reconcile_def claim_def release_def split: prod.splits)
next
  case (Tick f a g p x)
  obtain res d sent where step: "safety_step_db f a g p x (en_db e) = (res, d, sent)" by (cases "safety_step_db f a g p x (en_db e)")
  have "en_db (perform c e) = (if x \<in> set (en_active e) then en_db e else d)"
    using Tick step by (simp add: safetyStep_def claim_def release_def)
  moreover have "asked c e e'" if "en_db e' = d" for e'
  proof (rule asked_one [where x = x and n = 0])
    show "turned going_back (en_db e) (en_db e') \<or> (\<exists>r. map_of (db_execs (en_db e')) x = Some r \<and> authority c 0 (x_Authorization r) = Inr ())"
      using tick_asks [OF step engine_wf_journal [OF assms(2)]] Tick that by simp
    show "map_of (db_safes (en_db e')) y = map_of (db_safes (en_db e)) y" if "y \<noteq> x" for y
      using watch_other(2) [OF watch_run(5) [OF conjunct1 [OF safety_step_run [OF step engine_wf_journal [OF assms(2)]]] engine_wf_journal [OF assms(2)]] that] \<open>en_db e' = d\<close> by simp
  qed
  ultimately show ?thesis by (cases "x \<in> set (en_active e)") (simp_all add: asked_same)
next
  case (Decision f a go p x v)
  show ?thesis
  proof (cases "en_db (perform c e) = en_db e")
    case False
    then obtain g res d where g: "en_db (perform c e) = d" and dec: "decide_db f a g p x v (en_db e) = (res, d)"
      using Decision by (auto simp: Decide_def release_def split: sum.splits option.splits if_splits prod.splits dest!: claim_Some)
    show ?thesis
    proof (rule asked_one [where x = x and n = 2])
      show "turned going_back (en_db e) (en_db (perform c e)) \<or>
          (\<exists>r. map_of (db_execs (en_db (perform c e))) x = Some r \<and> authority c 2 (x_Authorization r) = Inr ())"
        using decision_asks [OF dec engine_wf_journal [OF assms(2)]] Decision g by simp
      have "(journal_change x)\<^sup>*\<^sup>* (en_db e) d" using decide_run(1) [OF dec engine_wf_journal [OF assms(2)]] by auto
      then show "map_of (db_safes (en_db (perform c e))) y = map_of (db_safes (en_db e)) y" if "y \<noteq> x" for y
        using watch_other(2) [OF _ that] g by simp
    qed
  qed (simp add: asked_same)
next
  case Restart
  then show ?thesis by (simp add: asked_same)
qed

end
