(* ===== verification/Draft_Guarantees.thy ===== *)
theory Draft_Guarantees
  imports Draft_Runs Access_Guarantees Engine_Authority
begin

text \<open>
  What the manager promises about drafts. The calls on drafts are the steps of a relation, in any order and
  with any ambient values and fates; a run interleaves them with work elsewhere, which leaves the tables of
  drafts alone. From a run follow the fence (no call accepts a draft older than one the manager has seen)
  and the frozen resolutions; from the calls themselves what a validation, an admission and a dispatch have
  checked.
\<close>

section \<open>Runs of calls on drafts\<close>

lemma cancel_tx_change: "draft_changes.climbs (cancel_tx credential op x request a)"
proof -
  note tail = draft_changes.le_trans [OF CreateJob_change draft_changes.le_trans [OF audit_change touch_change]]
  show ?thesis
    unfolding draft_changes.climbs_def
    by (auto simp: cancel_tx_def then_do_Inr Let_def split: if_splits intro: tail draft_changes.le_trans [OF ChangeJob_change tail])
qed

lemma cancelJob_change: "cancelJob f writable a credential s d = (r, d') \<Longrightarrow> draft_change d d'"
  by (auto simp: cancelJob_def draft_changes.le_refl split: sum.splits prod.splits
      dest!: Execute_change [OF _ cancel_tx_change])

lemma ResolveSafeApply_change:
  "ResolveSafeApply f a credential s d = (r, d') \<Longrightarrow> e_Sequence (sq_Envelope s) < 2 ^ 63 \<Longrightarrow> draft_change d d'"
  by (auto simp: ResolveSafeApply_def draft_changes.le_refl split: sum.splits dest!: store_write_result dest: resolve_tx_Inr(1))

inductive draft_step :: "draft_db \<Rightarrow> draft_db \<Rightarrow> bool" where
  prepared: "PrepareCandidate f writable a credential e s d = (r, d') \<Longrightarrow> draft_step d d'"
| seen: "ReadCandidate f writable a credential e x d = (r, d') \<Longrightarrow> draft_step d d'"
| validated: "ValidateCandidate f a credential e s d = (r, d') \<Longrightarrow> draft_step d d'"
| resolved: "ResolveSafeApply f a credential s d = (r, d') \<Longrightarrow> e_Sequence (sq_Envelope s) < 2 ^ 63 \<Longrightarrow> draft_step d d'"
| cancelled: "cancelJob f writable a credential s d = (r, d') \<Longrightarrow> draft_step d d'"

lemma draft_step_change: "draft_step d e \<Longrightarrow> draft_change d e"
  by (induction rule: draft_step.induct)
    (blast intro: PrepareCandidate_change ReadCandidate_change ValidateCandidate_change ResolveSafeApply_change cancelJob_change)+

inductive draft_runs :: "draft_db \<Rightarrow> draft_db \<Rightarrow> bool" where
  rest: "draft_runs d d"
| call: "draft_runs d e \<Longrightarrow> draft_step e f \<Longrightarrow> draft_runs d f"
| elsewhere: "draft_runs d e \<Longrightarrow> same_drafts e f \<Longrightarrow> draft_runs d f"

lemma draft_runs_le: "draft_runs d e \<Longrightarrow> draft_le d e"
proof (induction rule: draft_runs.induct)
  case (call d e f)
  then show ?case using draft_step_change [of e f] drafts.le_trans by (auto simp: draft_change_def)
qed (auto intro: draft_le_after drafts.le_refl)

lemma draft_step_run: "draft_step d e \<Longrightarrow> draft_runs d e"
  by (rule draft_runs.call [OF draft_runs.rest])

section \<open>The fence\<close>

lemma dr_later [simp]:
  "dr_hash (later k a) = dr_hash a" "dr_mac (later k a) = dr_mac a" "dr_key (later k a) = dr_key a"
  "dr_topology (later k a) = dr_topology a" "dr_safety (later k a) = dr_safety a" "dr_engine (later k a) = dr_engine a"
  "dr_provider (later k a) = dr_provider a" "dr_answer_bytes (later k a) = dr_answer_bytes a" "dr_sha256 (later k a) = dr_sha256 a"
  by (simp_all add: later_def)

lemma dr_with_command [simp]:
  "dr_hash (with_command x q y a) = dr_hash a" "dr_mac (with_command x q y a) = dr_mac a"
  "dr_key (with_command x q y a) = dr_key a" "dr_topology (with_command x q y a) = dr_topology a"
  by (simp_all add: with_command_def WithRequest_def)

lemma in_front_later [simp]:
  "in_front (later k a) = in_front a" "in_front (with_command x q y a) = in_front a" "witness_of (later k a) = witness_of a"
  "witness_of (with_command x q y a) = witness_of a"
  by (simp_all add: in_front_def witness_of_def fun_eq_iff)

lemma PrepareCandidate_Inr:
  assumes "PrepareCandidate f writable a credential e s d = (Inr out, d')"
  obtains c cmd snapshot where "CheckAuth writable a credential ''config.stage'' [] d = Inr c" and "dc_body s = Some cmd"
    and "Verify (dr_mac a) (dr_key a) (cl_PrincipalID c) e = None" and "dc_Precondition s = quoted (c_Revision (e_Candidate e))"
    and "dc_Epoch s = e_Epoch e" and "prepare_snapshot a (e_Candidate e) cmd = Inr snapshot"
    and "prepare_tx (later 3 a) credential c e cmd snapshot d = Inr (out, d')"
  using assms
  by (auto simp: PrepareCandidate_def then_do_Inr split: sum.splits option.splits if_splits prod.splits dest!: store_write_Inr)

lemma ReadCandidate_Inr:
  assumes "ReadCandidate f writable a credential e x d = (Inr out, d')"
  obtains c stored where "CheckAuth writable a credential (read_capability x) [] d = Inr c"
    and "Verify (dr_mac a) (dr_key a) (cl_PrincipalID c) e = None"
    and "x = '''' \<longrightarrow> stored = None"
    and "x \<noteq> '''' \<longrightarrow> (\<exists>v. stored = Some v \<and> load_validation x (cl_PrincipalID c) d = Inr v)"
    and "read_tx (later 3 a) credential (read_capability x) e stored
      (candidateSnapshot a (Bindings (case stored of None \<Rightarrow> e_Candidate e | Some (_, original) \<Rightarrow> e_Candidate original))) d = Inr (out, d')"
proof (cases "x = ''''")
  case True
  then show ?thesis
    using assms that [of _ None]
    by (auto simp: ReadCandidate_def Let_def then_do_Inr split: sum.splits option.splits if_splits prod.splits dest!: store_write_Inr)
next
  case False
  note def = ReadCandidate_def Let_def then_do_def store_read_def
  obtain c where c: "CheckAuth writable a credential (read_capability x) [] d = Inr c"
    using assms by (cases "CheckAuth writable a credential (read_capability x) [] d") (auto simp: def)
  have v: "Verify (dr_mac a) (dr_key a) (cl_PrincipalID c) e = None"
    using assms c by (cases "Verify (dr_mac a) (dr_key a) (cl_PrincipalID c) e") (auto simp: def)
  obtain r where r: "load_validation x (cl_PrincipalID c) d = Inr r"
    using assms c v False by (cases "load_validation x (cl_PrincipalID c) d") (auto simp: def split: if_splits)
  have "store_write f (read_tx (later 3 a) credential (read_capability x) e (Some r)
      (candidateSnapshot a (Bindings (e_Candidate (snd r))))) d = (Inr out, d')"
    using assms c v r False by (cases r) (auto simp: def split: if_splits)
  from store_write_Inr [OF this] show ?thesis
    using that [OF c v, of "Some r"] r False by (cases r) simp
qed


lemma claims_same:
  fixes d :: draft_db and a b :: draft_ambient
  assumes "claims a credential d = Inr c" and "claims b credential d = Inr c'" and "am_Hash a = am_Hash b"
  shows "cl_PrincipalID c = cl_PrincipalID c'"
proof -
  have "find_credential a credential d = find_credential b credential d"
    using assms(3) by (simp add: find_credential_def)
  then show ?thesis by (rule_tac claims_Inr [OF assms(1)], rule_tac claims_Inr [OF assms(2)]) simp
qed

lemma am_later [simp]:
  fixes a :: draft_ambient
  shows "am_Hash (later k a) = am_Hash a" "am_Hash (with_command x q y a) = am_Hash a"
  by (simp_all add: later_def with_command_def WithRequest_def)

lemma validate_call_Inr:
  assumes "ValidateCandidate f a credential e s d = (Inr r, d')" and "\<not> rs_Replayed r"
  obtains op c q m g rows w where "dc_body s = Some q" and "claims (later 0 a) credential d = Inr c"
    and "Verify (dr_mac a) (dr_key a) (cl_PrincipalID c) e = None"
    and "vq_CandidateID q = c_ID (e_Candidate e)" and "vq_Revision q = c_Revision (e_Candidate e)"
    and "validate_tx credential (op_Capability (op :: Operation)) e q (candidateSnapshot a (Bindings (e_Candidate e)))
      (with_command ''management'' (draft_command c s (op_ID op) ''configuration.validate'') (new_id (later 20 a) 0) (later 1 (later 20 a))) d
      = Inr (m, g)"
    and "d' = g\<lparr>db_receipts := rows, db_high_watermark := w\<rparr>" and "rc_Resource (rs_Receipt r) = mn_Resource m"
proof -
  note def = ValidateCandidate_def Let_def then_do_def
  obtain op path where op: "candidateCommand s ''createValidation'' = Inr (op, path)"
    using assms(1) by (cases "candidateCommand s ''createValidation''") (auto simp: def)
  obtain q where q: "dc_body s = Some q" using assms(1) op by (cases "dc_body s") (auto simp: def)
  define authorized where "authorized n = store_read (draft_claims (later n a) credential (op_Capability op) (e_Candidate e) d)" for n
  note def = def authorized_def [symmetric]
  obtain c where c: "authorized 0 = Inr c" using assms(1) op q by (cases "authorized 0") (auto simp: def)
  define cmd where "cmd = draft_command c s (op_ID op) ''configuration.validate''"
  note def = def cmd_def [symmetric]
  obtain prior where prior: "Replay (later 5 a) cmd (case authorized 5 of Inl e \<Rightarrow> Inl e | Inr x \<Rightarrow> Inr ()) d = Inr prior"
    using assms(1) op q c by (cases "Replay (later 5 a) cmd (case authorized 5 of Inl e \<Rightarrow> Inl e | Inr x \<Rightarrow> Inr ()) d") (auto simp: def)
  have "prior = None"
  proof (rule ccontr)
    assume "prior \<noteq> None"
    then obtain r' where "prior = Some r'" by auto
    moreover from this have "rs_Replayed r'" using prior by (auto simp: Replay_def then_do_Inr replay_row_def split: option.splits if_splits)
    ultimately show False using assms op q c prior by (auto simp: def)
  qed
  note prior = prior [unfolded this]
  have v: "Verify (dr_mac a) (dr_key a) (cl_PrincipalID c) e = None"
    using assms(1) op q c prior by (cases "Verify (dr_mac a) (dr_key a) (cl_PrincipalID c) e") (auto simp: def)
  have id: "vq_CandidateID q = c_ID (e_Candidate e)" "vq_Revision q = c_Revision (e_Candidate e)"
    using assms(1) op q c prior v by (auto simp: def split: if_splits)
  obtain authority reauthority where "Execute f (later 20 a) ''management'' cmd authority reauthority
      (validate_tx credential (op_Capability op) e q (candidateSnapshot a (Bindings (e_Candidate e)))) d = (Inr r, d')"
    using assms(1) op q c prior v id by (simp add: def)
  from Execute_fresh [OF this assms(2)] obtain m g rows w where
    "validate_tx credential (op_Capability op) e q (candidateSnapshot a (Bindings (e_Candidate e)))
      (with_command ''management'' cmd (new_id (later 20 a) 0) (later 1 (later 20 a))) d = Inr (m, g)"
    "d' = g\<lparr>db_receipts := rows, db_high_watermark := w\<rparr>" "rc_Resource (rs_Receipt r) = mn_Resource m"
    by metis
  moreover have "claims (later 0 a) credential d = Inr c"
    using c by (auto simp: authorized_def dest!: draft_claims_Inr(1) candidateClaims_Inr(1))
  ultimately show ?thesis by (intro that [OF q _ v id, where op = op]) (simp_all add: cmd_def)
qed

lemma in_frontD:
  assumes "in_front a e d'" and "draft_le d d'" and "map_of (db_witnesses d) (e_Owner e) = Some w"
  shows "e_Epoch e = wn_epoch w \<and> (w = witness_of a e \<or> wn_sequence w < e_Sequence e)"
  using assms by (fastforce simp: in_front_def draft_le_def witness_le_def witness_of_def)

text \<open>C11. The fence holds in every run: once the manager has seen a revision of a draft, it never again works on
  an older one of that owner, nor on one of another workspace epoch, nor on a different envelope with the
  same sequence number. This holds for preparing, reading and validating, whatever happened in between.\<close>

theorem drafts_never_go_back:
  assumes "draft_runs d d'" and "map_of (db_witnesses d) (e_Owner e) = Some w"
    and "(\<exists>f writable credential s out d''. PrepareCandidate f writable a credential e s d' = (Inr out, d'')) \<or>
      (\<exists>f writable credential x out d''. ReadCandidate f writable a credential e x d' = (Inr out, d'')) \<or>
      (\<exists>f credential s r d''. ValidateCandidate f a credential e s d' = (Inr r, d'') \<and> \<not> rs_Replayed r)"
  shows "e_Epoch e = wn_epoch w \<and> wn_sequence w \<le> e_Sequence e \<and> (e_Sequence e = wn_sequence w \<longrightarrow> w = witness_of a e)"
proof -
  have "in_front a e d'"
    using assms(3)
  proof (elim disjE exE conjE)
    fix f writable credential s out d''
    assume "PrepareCandidate f writable a credential e s d' = (Inr out, d'')"
    then show "in_front a e d'" by (rule PrepareCandidate_Inr) (auto elim: prepare_tx_Inr)
  next
    fix f writable credential x out d''
    assume "ReadCandidate f writable a credential e x d' = (Inr out, d'')"
    then show "in_front a e d'" by (rule ReadCandidate_Inr) (auto elim!: read_tx_Inr dest: candidateFence_Inr(1))
  next
    fix f credential s r d''
    assume "ValidateCandidate f a credential e s d' = (Inr r, d'')" "\<not> rs_Replayed r"
    then show "in_front a e d'" by (rule validate_call_Inr) (auto elim!: validate_tx_Inr dest: candidateFence_Inr(1))
  qed
  from in_frontD [OF this draft_runs_le [OF assms(1)] assms(2)] show ?thesis by (auto simp: witness_of_def)
qed

section \<open>What a validation has checked\<close>

lemma Checks_host: "h_Digest h = h_Digest h' \<Longrightarrow> Checks h t c s = Checks h' t c s"
  by (simp add: Checks_def Compare_checks Compare_def ConflictID_def)

lemma verdict_passed:
  assumes "verdict a caps c s = (state, checks, diff)"
  shows "state = ''passed'' \<longleftrightarrow>
    snd s = None \<and> Passed (fst (Checks (am_host a) (dr_topology a) c (fst s))) \<and> intentCapabilities caps c"
  using assms by (auto simp: verdict_def Let_def split: if_splits prod.splits option.splits)

lemma digest_later [simp]:
  fixes a :: draft_ambient
  shows "h_Digest (am_host (later k a)) = h_Digest (am_host a)" "am_host (with_command x q y a) = am_host a"
  by (simp_all add: later_def with_command_def WithRequest_def)

text \<open>A draft passes for a set of capabilities when the provider's snapshot is there, every gate passes on it and
  the set holds every capability the draft needs.\<close>

definition draft_passes :: "draft_ambient \<Rightarrow> string list \<Rightarrow> Candidate \<Rightarrow> bool" where
  "draft_passes a caps c \<longleftrightarrow> (case candidateSnapshot a (Bindings c) of (s, err) \<Rightarrow>
     err = None \<and> Passed (fst (Checks (am_host a) (dr_topology a) c s)) \<and> intentCapabilities caps c)"

lemma verdict_passes:
  assumes "verdict b caps c (candidateSnapshot a (Bindings c)) = (state, checks, diff)"
    and "dr_topology b = dr_topology a" and "h_Digest (am_host b) = h_Digest (am_host a)"
  shows "state = ''passed'' \<longleftrightarrow> draft_passes a caps c"
  using verdict_passed [OF assms(1)] Checks_host [OF assms(3)] assms(2)
  by (auto simp: draft_passes_def split: prod.splits)

lemma now_later [simp]:
  fixes a :: draft_ambient
  shows "am_now (later k a) n = am_now a (k + n)" "am_now (with_command x q y a) n = am_now a n"
  by (simp_all add: later_def with_command_def WithRequest_def)

lemma new_validation_fields:
  assumes "verdict a (cl_Capabilities c) (e_Candidate e) s = (state, checks, diff)"
  shows "vd_ID (vr_Validation (new_validation a c q e s g)) = new_id a 0" "vr_Credential (new_validation a c q e s g) = cl_CredentialID c"
    "vd_PolicyRevision (vr_Validation (new_validation a c q e s g)) = cl_Revision c"
    "vd_Expires (vr_Validation (new_validation a c q e s g)) = min (cl_ExpiresAt c) (am_now a 5 + ValidFor)"
    "vd_Usable (vr_Validation (new_validation a c q e s g)) \<longleftrightarrow> state = ''passed''"
  by (simp_all add: new_validation_def assms Let_def)

lemma validation_stored:
  assumes "ValidateCandidate f a credential e s d = (Inr r, d')" and "\<not> rs_Replayed r"
  shows "\<exists>x row c v. rc_Resource (rs_Receipt r) = Some \<lparr>ref_Kind = ''validation'', ref_ID = x\<rparr> \<and>
     map_of (db_validations d) x = None \<and> map_of (db_validations d') x = Some (e_Owner e, row) \<and>
     vl_envelope row = Some e \<and> vl_document row = Some v \<and>
     Verify (dr_mac a) (dr_key a) (e_Owner e) e = None \<and> map_of (db_witnesses d') (e_Owner e) = Some (witness_of a e) \<and>
     (\<exists>b :: draft_ambient. am_Hash b = am_Hash a \<and> claims b credential d = Inr c) \<and> cl_PrincipalID c = e_Owner e \<and>
     ''configuration.read'' \<in> set (cl_Capabilities c) \<and>
     vr_Credential v = cl_CredentialID c \<and> vd_PolicyRevision (vr_Validation v) = cl_Revision c \<and>
     vd_Expires (vr_Validation v) = min (cl_ExpiresAt c) (am_now a 26 + ValidFor) \<and>
     (vd_Usable (vr_Validation v) \<longleftrightarrow> draft_passes a (cl_Capabilities c) (e_Candidate e))"
proof -
  obtain op c0 q m g rows w where c0: "claims (later 0 a) credential d = Inr c0"
    and v: "Verify (dr_mac a) (dr_key a) (cl_PrincipalID c0) e = None"
    and tx: "validate_tx credential (op_Capability (op :: Operation)) e q (candidateSnapshot a (Bindings (e_Candidate e)))
      (with_command ''management'' (draft_command c0 s (op_ID op) ''configuration.validate'') (new_id (later 20 a) 0) (later 1 (later 20 a))) d
      = Inr (m, g)"
    and d': "d' = g\<lparr>db_receipts := rows, db_high_watermark := w\<rparr>" and res: "rc_Resource (rs_Receipt r) = mn_Resource m"
    by (rule validate_call_Inr [OF assms])
  define b where "b = with_command ''management'' (draft_command c0 s (op_ID op) ''configuration.validate'') (new_id (later 20 a) 0)
    (later 1 (later 20 a))"
  have b [simp]: "am_Hash b = am_Hash a" "dr_topology b = dr_topology a" "h_Digest (am_host b) = h_Digest (am_host a)"
    "witness_of b = witness_of a" "am_now b 5 = am_now a 26"
    by (simp_all add: b_def)
  let ?s = "candidateSnapshot a (Bindings (e_Candidate e))"
  obtain c g1 h generation where c: "candidateClaims b credential (op_Capability op) d = Inr c"
    and g1: "candidateFence b e True d = Inr g1"
    and h: "record_validation b (cl_PrincipalID c) (new_validation b c q e ?s generation) e g1 = Inr h"
    and m: "mn_Resource m = Some \<lparr>ref_Kind = ''validation'', ref_ID = new_id b 0\<rparr>" and g: "g = touch (later 20 b) credential c h"
    by (rule validate_tx_Inr [OF tx [folded b_def]])
  have owner: "cl_PrincipalID c = e_Owner e"
    using claims_same [OF candidateClaims_Inr(1) [OF c] c0] Verify_None(1) [OF v] by simp
  obtain state checks diff where vd: "verdict b (cl_Capabilities c) (e_Candidate e) ?s = (state, checks, diff)"
    by (metis prod_cases3)
  note fields = new_validation_fields [OF vd, of q generation]
  have "same_drafts h d'" using touch_drafts [of h "later 20 b" credential c] by (simp add: d' g same_drafts_def)
  then have db: "db_validations d' = db_validations h" "db_witnesses d' = db_witnesses h" by (simp_all add: same_drafts_def)
  note fence = candidateFence_Inr(4,7) [OF g1]
  have w: "map_of (db_witnesses h) (e_Owner e) = Some (witness_of a e)"
    using record_validation_Inr(4) [OF h] fence(2) owner by (simp add: witness_of_def)
  let ?v = "new_validation b c q e ?s generation"
  obtain r0 where row: "map_of (db_validations d) (new_id b 0) = None"
    "db_validations h = db_validations d @ [(new_id b 0, e_Owner e, r0)]" "vl_envelope r0 = Some e" "vl_document r0 = Some ?v"
    using record_validation_Inr(2,3) [OF h] owner by (simp add: fields fence(1))
  show ?thesis
  proof (intro exI conjI)
    show "rc_Resource (rs_Receipt r) = Some \<lparr>ref_Kind = ''validation'', ref_ID = new_id b 0\<rparr>" by (simp add: res m)
    show "map_of (db_validations d') (new_id b 0) = Some (e_Owner e, r0)" using row by (simp add: db map_of_snoc del: map_of_append)
    show "vd_Usable (vr_Validation ?v) \<longleftrightarrow> draft_passes a (cl_Capabilities c) (e_Candidate e)"
      using verdict_passes [OF vd] by (simp add: fields)
    show "am_Hash b = am_Hash a" "claims b credential d = Inr c" using candidateClaims_Inr(1) [OF c] by simp_all
    show "Verify (dr_mac a) (dr_key a) (e_Owner e) e = None" using v Verify_None(1) [OF v] by simp
  qed (use row owner w candidateClaims_Inr(2) [OF c] in \<open>simp_all add: db fields\<close>)
qed

text \<open>C14. A fresh validation is earned: the answer is an error, a replay, or a validation that is stored under a new
  identifier for the owner of a draft whose seal verified, together with the very envelope; the witness of the
  owner is that envelope, the validation lives at most five minutes and never longer than the session, and it is
  usable exactly when the provider answered, every gate passed and the validating session held every
  capability the draft needs.\<close>

theorem validation_is_earned:
  "case ValidateCandidate f a credential e s d of
     (Inl err, d') \<Rightarrow> True
   | (Inr r, d') \<Rightarrow> rs_Replayed r \<or>
     (\<exists>x row c v. rc_Resource (rs_Receipt r) = Some \<lparr>ref_Kind = ''validation'', ref_ID = x\<rparr> \<and>
     map_of (db_validations d) x = None \<and> map_of (db_validations d') x = Some (e_Owner e, row) \<and>
     vl_envelope row = Some e \<and> vl_document row = Some v \<and>
     Verify (dr_mac a) (dr_key a) (e_Owner e) e = None \<and> map_of (db_witnesses d') (e_Owner e) = Some (witness_of a e) \<and>
     (\<exists>b :: draft_ambient. am_Hash b = am_Hash a \<and> claims b credential d = Inr c) \<and> cl_PrincipalID c = e_Owner e \<and>
     ''configuration.read'' \<in> set (cl_Capabilities c) \<and>
     vr_Credential v = cl_CredentialID c \<and> vd_PolicyRevision (vr_Validation v) = cl_Revision c \<and>
     vd_Expires (vr_Validation v) = min (cl_ExpiresAt c) (am_now a 26 + ValidFor) \<and>
     (vd_Usable (vr_Validation v) \<longleftrightarrow> draft_passes a (cl_Capabilities c) (e_Candidate e)))"
  using validation_stored [of f a credential e s d] by (auto split: prod.splits sum.splits)

lemma add_invalid_fields [simp]:
  "vd_Usable (add_invalid g v) = False" "vd_Usable (invalidation k v) = False"
  "vd_CandidateID (invalid_if b k v) = vd_CandidateID v" "vd_CandidateRevision (invalid_if b k v) = vd_CandidateRevision v"
  "vd_Expires (invalid_if b k v) = vd_Expires v" "vd_PolicyRevision (invalid_if b k v) = vd_PolicyRevision v"
  "vd_Usable (invalid_if b k v) \<longleftrightarrow> \<not> b \<and> vd_Usable v"
  by (simp_all add: add_invalid_def invalidation_def invalid_if_def)

lemma gates_usable:
  "vd_Usable (foldl (\<lambda>v g. if gt_State g \<noteq> ''allowed'' then add_invalid g v else v) v gs) \<longleftrightarrow>
   vd_Usable v \<and> (\<forall>g \<in> set gs. gt_State g = ''allowed'')"
  by (induction gs arbitrary: v) auto

lemma revalidated_usable:
  "vd_Usable (revalidated a c e r original s) \<longleftrightarrow>
    vd_Usable (vr_Validation r) \<and> c_ID (e_Candidate e) = vd_CandidateID (vr_Validation r) \<and>
    c_Revision (e_Candidate e) = vd_CandidateRevision (vr_Validation r) \<and> am_now a 5 < vd_Expires (vr_Validation r) \<and>
    cl_Revision c = vd_PolicyRevision (vr_Validation r) \<and> cl_Epoch c = vr_AuthEpoch r \<and> cl_RequestEpoch c = vr_RequestEpoch r \<and>
    caps_digest a (cl_Capabilities c) = vr_Capabilities r \<and> vr_Validator r = ValidatorVersion \<and> cl_CredentialID c = vr_Credential r \<and>
    intentCapabilities (cl_Capabilities c) (e_Candidate original) \<and> snd s = None \<and> s_Policy (fst s) = vr_ProviderPolicy r \<and>
    list_all (\<lambda>g. gt_State g = ''allowed'') (fst (Checks (am_host a) (dr_topology a) (e_Candidate original) (fst s)))"
  by (auto simp: revalidated_def Let_def gates_usable list_all_iff split: option.splits)

lemma revalidated_answer:
  assumes "ReadCandidate f writable a credential e x d = (Inr (Revalidated v), d')"
  shows "\<exists>r original c. load_validation x (e_Owner e) d = Inr (r, original) \<and> claims (later 3 a) credential d = Inr c \<and>
     v = revalidated (later 3 a) c e r original (candidateSnapshot a (Bindings (e_Candidate original)))"
proof -
  obtain c0 :: Claims and stored where ver: "Verify (dr_mac a) (dr_key a) (cl_PrincipalID c0) e = None" and none: "x = '''' \<longrightarrow> stored = None"
    and some: "x \<noteq> '''' \<longrightarrow> (\<exists>v. stored = Some v \<and> load_validation x (cl_PrincipalID c0) d = Inr v)"
    and tx: "read_tx (later 3 a) credential (read_capability x) e stored
      (candidateSnapshot a (Bindings (case stored of None \<Rightarrow> e_Candidate e | Some (_, original) \<Rightarrow> e_Candidate original))) d =
      Inr (Revalidated v, d')"
    by (rule ReadCandidate_Inr [OF assms]) (rule that)
  obtain c where c: "candidateClaims (later 3 a) credential (read_capability x) d = Inr c"
    and out: "Revalidated v = (case stored of
        None \<Rightarrow> Reviewed (review_answer (later 3 a) (e_Candidate e)
          (candidateSnapshot a (Bindings (case stored of None \<Rightarrow> e_Candidate e | Some (_, original) \<Rightarrow> e_Candidate original))))
      | Some (r, original) \<Rightarrow> Revalidated (revalidated (later 3 a) c e r original
          (candidateSnapshot a (Bindings (case stored of None \<Rightarrow> e_Candidate e | Some (_, original) \<Rightarrow> e_Candidate original)))))"
    by (rule read_tx_Inr [OF tx]) (rule that)
  obtain r original where st: "stored = Some (r, original)" using out by (cases stored) auto
  then have load: "load_validation x (e_Owner e) d = Inr (r, original)"
    using some none Verify_None(1) [OF ver] by (cases "x = ''''") auto
  then show ?thesis
    using out st candidateClaims_Inr(1) [OF c] by auto
qed

text \<open>An answer that calls a validation usable tells the present: a stored validation that is read again is
  called usable exactly when it was usable, it was made for the very revision that is shown, by the credential
  that asks, under the policy, epochs and capabilities that hold now, it has not expired, the credential still
  holds every capability of the draft, and the provider's policy is unchanged with every gate open on what it
  shows now. The validation is the owner's own.\<close>

theorem usable_answer_is_current:
  "case ReadCandidate f writable a credential e x d of
     (Inr (Revalidated v), d') \<Rightarrow> (\<exists>r original c s err. load_validation x (e_Owner e) d = Inr (r, original) \<and>
       claims (later 3 a) credential d = Inr c \<and> candidateSnapshot a (Bindings (e_Candidate original)) = (s, err) \<and>
       (vd_Usable v \<longleftrightarrow> vd_Usable (vr_Validation r) \<and> c_ID (e_Candidate e) = vd_CandidateID (vr_Validation r) \<and>
         c_Revision (e_Candidate e) = vd_CandidateRevision (vr_Validation r) \<and> am_now a 8 < vd_Expires (vr_Validation r) \<and>
         cl_Revision c = vd_PolicyRevision (vr_Validation r) \<and> cl_Epoch c = vr_AuthEpoch r \<and> cl_RequestEpoch c = vr_RequestEpoch r \<and>
         caps_digest a (cl_Capabilities c) = vr_Capabilities r \<and> vr_Validator r = ValidatorVersion \<and> cl_CredentialID c = vr_Credential r \<and>
         intentCapabilities (cl_Capabilities c) (e_Candidate original) \<and> err = None \<and> s_Policy s = vr_ProviderPolicy r \<and>
         list_all (\<lambda>g. gt_State g = ''allowed'') (fst (Checks (am_host a) (dr_topology a) (e_Candidate original) s))))
   | _ \<Rightarrow> True"
proof -
  have "Checks (am_host (later 3 a)) t c s = Checks (am_host a) t c s" for t c s by (rule Checks_host) simp
  moreover have "caps_digest (later 3 a) caps = caps_digest a caps" for caps by (simp add: caps_digest_def)
  ultimately show ?thesis
    by (auto split: prod.splits sum.splits draft_answer.splits dest!: revalidated_answer simp: revalidated_usable)
      (metis prod.collapse)
qed

section \<open>Admission and dispatch\<close>

text \<open>What must hold when a provider write is admitted and again when it is sent: the session is the owner's and
  may apply, the envelope's seal verifies, the stored validation is of the same owner and the same envelope,
  passed, usable and unexpired, it was made under the session, policy and capabilities that hold now, the
  witness is exactly that envelope, and the draft passes on what the provider shows now.\<close>

definition cleared :: "draft_ambient \<Rightarrow> string \<Rightarrow> Execution_Request \<Rightarrow> draft_db \<Rightarrow> bool" where
  "cleared a credential q d \<longleftrightarrow>
     (case (claims a credential d, map_of (db_validations d) (xr_ValidationID q)) of
        (Inr c, Some (owner, row)) \<Rightarrow>
          owner = cl_PrincipalID c \<and> e_Owner (xr_Envelope q) = owner \<and> ''configuration.apply'' \<in> set (cl_Capabilities c) \<and>
          Verify (dr_mac a) (dr_key a) owner (xr_Envelope q) = None \<and>
          (case (vl_envelope row, vl_document row) of
             (Some e, Some r) \<Rightarrow> let v = vr_Validation r in
               dr_hash a e = dr_hash a (xr_Envelope q) \<and> vd_State v = ''passed'' \<and> vd_Usable v \<and> am_now a 5 < vd_Expires v \<and>
               vr_Credential r = cl_CredentialID c \<and> vr_AuthEpoch r = cl_Epoch c \<and> vr_RequestEpoch r = cl_RequestEpoch c \<and>
               vd_PolicyRevision v = cl_Revision c \<and> vr_Capabilities r = caps_digest a (cl_Capabilities c) \<and>
               map_of (db_witnesses d) owner = Some (witness_of a e) \<and>
               s_Policy (fst (candidateSnapshot a (Bindings (e_Candidate e)))) = vr_ProviderPolicy r \<and>
               draft_passes a (Capabilities (e_Candidate e)) (e_Candidate e) \<and>
               intentCapabilities (cl_Capabilities c) (e_Candidate (xr_Envelope q))
           | _ \<Rightarrow> False)
      | _ \<Rightarrow> False)"

lemma witness_exact_Inr: "witness_exact a owner e d = Inr u \<longleftrightarrow> map_of (db_witnesses d) owner = Some (witness_of a e)"
  by (auto simp: witness_exact_def witness_of_def split: option.splits if_splits)

lemma own_capabilities: "intentCapabilities (Capabilities c) c"
  by (simp add: intentCapabilities_def list_all_iff)

lemma preflight_Inr:
  assumes "preflight a c policy = Inr u"
  shows "draft_passes a (Capabilities c) c" "s_Policy (fst (candidateSnapshot a (Bindings c))) = policy"
  using assms by (auto simp: preflight_def draft_passes_def own_capabilities split: prod.splits option.splits if_splits)

lemma ExecutionAuthorizer_cleared:
  assumes "ExecutionAuthorizer a credential q False d = Inr z"
  shows "cleared a credential q d" and "az_Validation z = xr_ValidationID q" and "az_Owner z = e_Owner (xr_Envelope q)"
proof -
  obtain c r e where c: "candidateClaims a credential ''config.apply'' d = Inr c" and o: "cl_PrincipalID c = e_Owner (xr_Envelope q)"
    and v: "Verify (dr_mac a) (dr_key a) (cl_PrincipalID c) (xr_Envelope q) = None"
    and caps: "intentCapabilities (cl_Capabilities c) (e_Candidate (xr_Envelope q))"
    and l: "load_validation (xr_ValidationID q) (cl_PrincipalID c) d = Inr (r, e)" "dr_hash a e = dr_hash a (xr_Envelope q)"
    and u: "validation_usable a c r = Inr ()" and w: "witness_exact a (cl_PrincipalID c) e d = Inr ()"
    and p: "preflight a (e_Candidate e) (vr_ProviderPolicy r) = Inr ()"
    and z: "z = execution_authorization a c (xr_ValidationID q) r e"
    using assms by (auto simp: ExecutionAuthorizer_def then_do_Inr split: option.splits if_splits)
  show "az_Validation z = xr_ValidationID q" "az_Owner z = e_Owner (xr_Envelope q)"
    by (simp_all add: z execution_authorization_def Let_def o)
  show "cleared a credential q d"
    using candidateClaims_Inr(1,4) [OF c] o v caps l u w preflight_Inr [OF p]
    by (auto simp: cleared_def load_validation_def validation_usable_def witness_exact_Inr Let_def split: option.splits prod.splits if_splits)
qed

lemma submit_changed:
  assumes "submit f a g p u e = (r, e')" and "en_db e' \<noteq> en_db e" and "su_safe u \<noteq> None"
  shows "\<exists>c. su_auth u = Inr c \<and> su_fresh u = Inr c" and "su_lease u = Some (Inr ())"
proof -
  define x where "x = new_id a 0"
  obtain command c plan where ready: "submit_prepare a g p u x (en_db e) = Ready command c plan"
    using assms(1,2) by (auto simp: submit_def Let_def x_def [symmetric] split: prepared.splits)
  obtain e1 where e1: "claim x e = Some e1" "en_db e1 = en_db e"
    using assms(1,2) ready by (auto simp: submit_def Let_def x_def [symmetric] claim_def split: if_splits)
  obtain y d where ex: "Execute (f 3) (forth 1 a) ''management'' command (su_reauth u) (\<lambda>_. su_reauth u)
      (admit g x (su_request u) c (su_fresh u) plan (su_safe u)) (en_db e) = (y, d)"
    by fastforce
  have "d \<noteq> en_db e"
    using assms ready e1 ex
    by (auto simp: submit_def Let_def x_def [symmetric] release_def split: sum.splits if_splits)
  from Execute_changed [OF ex this] obtain z digest key where
    "execute_tx (forth 1 a) ''management'' command digest key (\<lambda>_. su_reauth u)
      (admit g x (su_request u) c (su_fresh u) plan (su_safe u)) (en_db e) = Inr (z, d)"
    by metis
  then have "su_fresh u = Inr c"
    using \<open>d \<noteq> en_db e\<close> by (rule execute_tx_changed) (auto simp: admit_def then_do_Inr split: if_splits)
  moreover have "su_auth u = Inr c" "su_lease u = Some (Inr ())"
    using ready by (auto simp: submit_prepare_def split: if_splits sum.splits option.splits)
  ultimately show "\<exists>c. su_auth u = Inr c \<and> su_fresh u = Inr c" "su_lease u = Some (Inr ())" by auto
qed

definition submitted_request :: "safe_request \<Rightarrow> safe_command \<Rightarrow> Execution_Request" where
  "submitted_request s cmd =
     \<lparr>xr_ID = dc_RequestID (sq_Command s), xr_ValidationID = sm_Validation cmd, xr_Envelope = sq_Envelope s\<rparr>"

lemma safeCommand_Inr:
  assumes "safeCommand a s = Inr q"
  obtains cmd where "dc_body (sq_Command s) = Some cmd" and "q = submitted_request s cmd" and "sm_Mode cmd = ''safe-apply''"
    and "sm_Candidate cmd = c_ID (e_Candidate (sq_Envelope s))" and "sm_Revision cmd = c_Revision (e_Candidate (sq_Envelope s))"
  using assms by (auto simp: safeCommand_def then_do_Inr Let_def submitted_request_def split: option.splits if_splits)

lemma reservedLease_Inr:
  "reservedLease a s q d = Inr u \<longleftrightarrow> dr_safety a \<and> xr_ID q = dc_RequestID (sq_Command s) \<and>
     dr_hash a (xr_Envelope q) = dr_hash a (sq_Envelope s) \<and>
     (e_Owner (xr_Envelope q), dc_Epoch (sq_Command s), xr_ID q) \<notin> set (db_resolutions d)"
  by (auto simp: reservedLease_def)

lemma admission_cleared:
  assumes "AdmitSafeApply f writable v t a g p credential s e = (r, e')" and "en_db e' \<noteq> en_db e"
  shows "\<exists>cmd. dc_body (sq_Command s) = Some cmd \<and> sm_Mode cmd = ''safe-apply'' \<and>
     sm_Candidate cmd = c_ID (e_Candidate (sq_Envelope s)) \<and> sm_Revision cmd = c_Revision (e_Candidate (sq_Envelope s)) \<and>
     cleared (v 4) credential (submitted_request s cmd) (t 4) \<and> cleared (v 5) credential (submitted_request s cmd) (t 5) \<and>
     ExecutionAuthorizer (v 5) credential (submitted_request s cmd) False (t 5) =
       ExecutionAuthorizer (v 4) credential (submitted_request s cmd) False (t 4) \<and>
     request_key s \<notin> set (db_resolutions (t 3))"
proof -
  obtain q c where q: "safeCommand (v 0) s = Inr q"
    and sub: "SubmitSafe f a g p (safe_submission v t credential writable s q)
      \<lparr>ad_Command = safe_apply_command c s, ad_Reservation = sq_Reservation s\<rparr> e = (r, e')"
    using assms by (auto simp: AdmitSafeApply_def then_do_Inr split: sum.splits if_splits)
  define u where "u = (safe_submission v t credential writable s q)
    \<lparr>su_safe := Some \<lparr>ad_Command = safe_apply_command c s, ad_Reservation = sq_Reservation s\<rparr>\<rparr>"
  have "submit f a g p u e = (r, e')" using sub assms(2) by (auto simp: SubmitSafe_def u_def split: if_splits)
  from submit_changed [OF this assms(2)]
  obtain z where z: "ExecutionAuthorizer (v 4) credential q False (t 4) = Inr z" "ExecutionAuthorizer (v 5) credential q False (t 5) = Inr z"
    and l: "reservedLease (v 3) s q (t 3) = Inr ()"
    by (auto simp: u_def safe_submission_def)
  obtain cmd where cmd: "dc_body (sq_Command s) = Some cmd" "q = submitted_request s cmd" "sm_Mode cmd = ''safe-apply''"
    "sm_Candidate cmd = c_ID (e_Candidate (sq_Envelope s))" "sm_Revision cmd = c_Revision (e_Candidate (sq_Envelope s))"
    by (rule safeCommand_Inr [OF q])
  have "request_key s \<notin> set (db_resolutions (t 3))"
    using l by (simp add: reservedLease_Inr cmd(2) submitted_request_def request_key_def)
  then show ?thesis using cmd z ExecutionAuthorizer_cleared(1) [OF z(1)] ExecutionAuthorizer_cleared(1) [OF z(2)] by auto
qed

text \<open>C12. A safe apply enters the journal only for a draft that is cleared: a call that is not refused without a
  trace in the journal was for a draft that was cleared when it was submitted and again inside the admitting
  transaction, with the same authorization, and its request was not resolved.\<close>

theorem admission_needs_validation:
  "en_db (snd (AdmitSafeApply f writable v t a g p credential s e)) = en_db e \<or>
   (\<exists>cmd. dc_body (sq_Command s) = Some cmd \<and> sm_Mode cmd = ''safe-apply'' \<and>
     sm_Candidate cmd = c_ID (e_Candidate (sq_Envelope s)) \<and> sm_Revision cmd = c_Revision (e_Candidate (sq_Envelope s)) \<and>
     cleared (v 4) credential (submitted_request s cmd) (t 4) \<and> cleared (v 5) credential (submitted_request s cmd) (t 5) \<and>
     ExecutionAuthorizer (v 5) credential (submitted_request s cmd) False (t 5) =
       ExecutionAuthorizer (v 4) credential (submitted_request s cmd) False (t 4) \<and>
     request_key s \<notin> set (db_resolutions (t 3)))"
  using admission_cleared [OF prod.collapse [symmetric]] by blast

lemma dispatch_cleared:
  assumes "run f a p (worker_authority b credential s q d) w e = (r, e')" and "en_sent e' \<noteq> en_sent e"
  shows "cleared b credential q d \<and> ExecutionAuthorizer b credential q False d = Inr (wk_Authorization w) \<and>
     am_now a 0 < az_Expires (wk_Authorization w) \<and> dr_safety b \<and> dr_hash b (xr_Envelope q) = dr_hash b (sq_Envelope s) \<and>
     (e_Owner (xr_Envelope q), dc_Epoch (sq_Command s), xr_ID q) \<notin> set (db_resolutions d)"
proof -
  obtain y g where "beforeSend (f 0) a w (worker_authority b credential s q d) (en_db e) = (Inr y, g)"
    using assms by (auto simp: run_def split: commit_call.splits prod.splits sum.splits)
  then have l: "reservedLease b s q d = Inr ()"
    and "store_write (f 0) (dispatch_tx a w (ExecutionAuthorizer b credential q False d)) (en_db e) = (Inr y, g)"
    by (auto simp: beforeSend_def worker_authority_def split: sum.splits)
  then have z: "ExecutionAuthorizer b credential q False d = Inr (wk_Authorization w)" "am_now a 0 < az_Expires (wk_Authorization w)"
    by (auto simp: dispatch_tx_def then_do_Inr dest!: store_write_Inr split: if_splits)
  then show ?thesis using ExecutionAuthorizer_cleared(1) [OF z(1)] l [unfolded reservedLease_Inr] by blast
qed

text \<open>C10. The provider is permitted to send only if the draft is cleared at that very moment: a worker that sends
  has just reloaded the session, the stored validation, the witness, the gates and the reservation, and the
  authorization it obtained is the one of the admission, unexpired.\<close>

theorem dispatch_needs_authority:
  "en_sent (snd (run f a p (worker_authority b credential s q d) w e)) = en_sent e \<or>
   cleared b credential q d \<and> ExecutionAuthorizer b credential q False d = Inr (wk_Authorization w) \<and>
     am_now a 0 < az_Expires (wk_Authorization w) \<and> dr_safety b \<and> dr_hash b (xr_Envelope q) = dr_hash b (sq_Envelope s) \<and>
     (e_Owner (xr_Envelope q), dc_Epoch (sq_Command s), xr_ID q) \<notin> set (db_resolutions d)"
  using dispatch_cleared [OF prod.collapse [symmetric]] by blast

section \<open>Resolution\<close>

lemma resolutions_le:
  assumes "draft_le d e" and "resolutions_ok d" and "map_of (db_resolved d) k = Some v"
  shows "map_of (db_resolved e) k = Some v" and "k \<in> set (db_resolutions e)"
proof -
  have le: "map_of (db_resolved d) \<subseteq>\<^sub>m map_of (db_resolved e)" "resolutions_ok e" using assms(1,2) by (simp_all add: draft_le_def)
  show k: "map_of (db_resolved e) k = Some v" using le(1) assms(3) unfolding map_le_def by (metis domI)
  then have "k \<in> set (map fst (db_resolved e))" by (metis domI dom_map_of_conv_image_fst image_set)
  then show "k \<in> set (db_resolutions e)" using le(2) unfolding resolutions_ok_def by metis
qed

text \<open>C13. A resolved request stays out: once the resolution of a frozen draft has answered with an outcome, the
  answer is kept in every later state and given again to whoever repeats the request, and no worker is ever
  permitted to send that request, nor is it admitted again.\<close>

theorem resolved_request_stays_out:
  assumes "ResolveSafeApply f a credential s d = (Inr out, d')" and "\<not> rz_Pending out"
    and "resolutions_ok d" and "e_Sequence (sq_Envelope s) < 2 ^ 63" and "draft_runs d' e"
  shows "map_of (db_resolved e) (request_key s) = Some (dr_sha256 a (sq_document s), out) \<and>
     (\<forall>b q. e_Owner (xr_Envelope q) = e_Owner (sq_Envelope s) \<longrightarrow> (\<exists>err. reservedLease b s q e = Inl err)) \<and>
     (\<forall>f' b credential' out' e'. ResolveSafeApply f' b credential' s e = (Inr out', e') \<longrightarrow> out' = out \<and> e' = e)"
proof -
  have tx: "resolve_tx a credential s d = Inr (out, d')"
    using assms(1) by (auto simp: ResolveSafeApply_def dest!: store_write_Inr split: sum.splits)
  note resolved = resolve_tx_Inr [OF tx assms(4)]
  have now: "map_of (db_resolved d') (request_key s) = Some (dr_sha256 a (sq_document s), out)"
    using resolved(2) assms(2) by (auto split: option.splits prod.splits if_splits)
  have ok: "resolutions_ok d'" using resolved(1) assms(3) by (simp add: draft_change_def draft_le_def)
  note le = draft_runs_le [OF assms(5)]
  have later: "map_of (db_resolved e) (request_key s) = Some (dr_sha256 a (sq_document s), out)"
    by (rule resolutions_le(1) [OF le ok now])
  moreover have "request_key s \<in> set (db_resolutions e)" by (rule resolutions_le(2) [OF le ok now])
  then have "\<exists>err. reservedLease b s q e = Inl err" if "e_Owner (xr_Envelope q) = e_Owner (sq_Envelope s)" for b q
    using that by (cases "reservedLease b s q e") (auto simp: reservedLease_Inr request_key_def)
  moreover have "out' = out \<and> e' = e" if "ResolveSafeApply f' b credential' s e = (Inr out', e')" for f' b credential' out' e'
  proof -
    have "resolve_tx b credential' s e = Inr (out', e')"
      using that by (auto simp: ResolveSafeApply_def dest!: store_write_Inr split: sum.splits)
    from resolve_tx_Inr(2) [OF this assms(4)] show ?thesis by (simp add: later)
  qed
  ultimately show ?thesis by blast
qed

section \<open>Access and drafts\<close>

text \<open>C16. No call on a draft touches access: whatever such a call answers, the step is a run of access operations
  in which nobody exercised a capability to grant, so every credential can do afterwards only what its
  principal was granted before.\<close>

theorem drafts_keep_access:
  assumes "draft_step d e"
  shows "access_runs {} d e \<and>
    (\<forall>(b :: draft_ambient) other c. claims b other e = Inr c \<longrightarrow> set (cl_Capabilities c) \<subseteq> granted d (cl_PrincipalID c))"
proof -
  have run: "access_runs {} d e" using draft_step_change [OF assms] by (simp add: draft_change_def)
  then have "granted e x \<subseteq> granted d x" for x
    using access_runs_kept [OF run] by (simp add: step_kept_def bounded_change_def)
  then show ?thesis using run by (auto elim: claims_row)
qed

lemma apply_capabilities_apply:
  assumes "apply_capabilities names = Some needed"
  shows "''configuration.apply'' \<in> set needed"
proof -
  define xs where "xs = Split (CHR '','') (if names = '''' then ''ovs.port.vlan.write'' else names)"
  have "needed = [''configuration.apply'', ''configuration.confirm'', ''configuration.read'', ''inventory.read''] @ xs"
    using assms unfolding apply_capabilities_def xs_def [symmetric] Let_def by (cases "list_all (\<lambda>cap. cap \<in> set executable_fields) xs") auto
  then show ?thesis by (simp only: set_append list.set) blast
qed

text \<open>The authority lives: the owner is enabled, the credential that started the apply is neither revoked nor
  expired nor idle and of the current login epoch, the request epoch is unchanged, and every capability the
  apply needs is both in the ceiling of the credential and held by the owner's roles.\<close>

definition live_authority :: "'z access_ambient_scheme \<Rightarrow> Authorization \<Rightarrow> draft_db \<Rightarrow> bool" where
  "live_authority a z d \<longleftrightarrow> (\<exists>p row issued used grant caps needed.
     map_of (db_principals d) (az_Owner z) = Some p \<and> \<not> pr_disabled p \<and>
     (row, issued, used, grant) \<in> set (grant_rows (az_Credential z) (az_Owner z) d @ token_rows (az_Credential z) (az_Owner z) d) \<and>
     cr_revoked row = None \<and> cr_epoch row = db_auth_epoch d \<and> Unix (am_now a 1) < cr_expires row \<and>
     (grant \<longrightarrow> Unix (am_now a 1) < used + SessionIdle div 1000000000) \<and> db_epoch d = az_Epoch z \<and>
     cr_ceiling row = Some caps \<and> apply_capabilities (az_FieldCapabilities z) = Some needed \<and>
     ''configuration.apply'' \<in> set needed \<and> set needed \<subseteq> set caps \<inter> granted d (az_Owner z))"

lemma safeAuthority_live:
  assumes "safeAuthority a z d = Inr ()"
  shows "live_authority a z d"
proof -
  let ?rows = "grant_rows (az_Credential z) (az_Owner z) d @ token_rows (az_Credential z) (az_Owner z) d"
  have clk: "clock a d = Inr (db_auth_epoch d, db_auth_revision d)"
    using assms by (cases "clock a d") (auto simp: safeAuthority_def Let_def then_do_def clock_def split: if_splits)
  obtain p where p: "map_of (db_principals d) (az_Owner z) = Some p"
    using assms by (cases "map_of (db_principals d) (az_Owner z)") (auto simp: safeAuthority_def Let_def clk)
  obtain row issued used grant rest where r: "?rows = (row, issued, used, grant) # rest"
    using assms p by (cases ?rows) (auto simp: safeAuthority_def Let_def clk)
  have live: "\<not> pr_disabled p" "cr_revoked row = None" "cr_epoch row = db_auth_epoch d" "Unix (am_now a 1) < cr_expires row"
    "grant \<longrightarrow> Unix (am_now a 1) < used + SessionIdle div 1000000000" "db_epoch d = az_Epoch z"
    using assms by (auto simp: safeAuthority_def Let_def clk p r split: if_splits)
  obtain caps where caps: "cr_ceiling row = Some caps"
    using assms live by (cases "cr_ceiling row") (auto simp: safeAuthority_def Let_def clk p r split: if_splits)
  obtain current needed where c: "capabilities (az_Owner z) d = Inr current" "apply_capabilities (az_FieldCapabilities z) = Some needed"
    "list_all (\<lambda>cap. cap \<in> set caps \<and> cap \<in> set current) needed"
    using assms live caps by (auto simp: safeAuthority_def Let_def clk p r then_do_Inr split: if_splits option.splits)
  have "''configuration.apply'' \<in> set needed" by (rule apply_capabilities_apply [OF c(2)])
  moreover have "set needed \<subseteq> set caps \<inter> granted d (az_Owner z)"
    using c(3) capabilities_granted [OF c(1)] by (auto simp: list_all_iff)
  moreover have "(row, issued, used, grant) \<in> set ?rows" by (simp only: r list.set_intros)
  ultimately show ?thesis using p live caps c(2) unfolding live_authority_def
    by - (rule exI [of _ p], rule exI [of _ row], rule exI [of _ issued], rule exI [of _ used], rule exI [of _ grant],
      rule exI [of _ caps], rule exI [of _ needed], intro conjI, assumption+)
qed

text \<open>C15. A running apply goes on only while its authority lives. The engine asks \<open>safeAuthority\<close>, with the ambient and
  the tables of the moment of each question. Whatever the call of the engine (a submission, a worker, recovery, a
  tick of the watchdog, a decision), when it leaves an apply with a new row that does not go back (just admitted,
  in its confirmation window, refreshed or unverified there, or confirmed), the authority of that apply was alive
  at one of the questions of this very call. A tick that finds it dead sends the apply back or leaves its row.\<close>

theorem running_apply_needs_live_authority:
  assumes "engine_wf e" and "possible c e" and "authority c = (\<lambda>n z. safeAuthority (b n) z (t n))"
    and "map_of (db_safes (en_db (perform c e))) x = Some row" and "map_of (db_safes (en_db e)) x \<noteq> Some row"
    and "\<not> going_back (sf_State (sr_Doc row))"
  shows "\<exists>n r. map_of (db_execs (en_db (perform c e))) x = Some r \<and> live_authority (b n) (x_Authorization r) (t n)"
proof -
  obtain n r where "map_of (db_execs (en_db (perform c e))) x = Some r" "authority c n (x_Authorization r) = Inr ()"
    using call_asks [OF assms(2,1)] assms(4-6) unfolding asked_def by blast
  then show ?thesis using safeAuthority_live unfolding assms(3) by blast
qed

end
