(* ===== verification/Access_Login.thy ===== *)
theory Access_Login
  imports Access_Guarantees
begin

text \<open>
  When a login succeeds: the acceptance of a login up to the moment where the new grant is read back, the
  answer with a grant, and two flaws of the access rules, a login that is lost at the boundary of a second
  and a password reset that ignores the ceiling of the actor.
\<close>

section \<open>Accepted logins\<close>

text \<open>A login that is accepted, up to the moment where the new grant is read back.\<close>

definition login_accepted ::
    "'z access_ambient_scheme \<Rightarrow> string \<Rightarrow> string \<Rightarrow> 'v access_db \<Rightarrow> bool" where
  "login_accepted a x verifier d \<longleftrightarrow>
     (case map_of (db_principals d) x of None \<Rightarrow> False | Some p \<Rightarrow> \<not> pr_disabled p \<and> pr_verifier p = verifier) \<and>
     map_of (db_auth_principals d) x \<noteq> None \<and> db_auth_watermark d \<le> UnixMilli (am_now a 0) \<and> db_auth_watermark d \<le> UnixMilli (am_now a 4) \<and>
     live_grants (Unix (am_now a 1)) d < MaxGrants \<and> (case capabilities x d of Inl _ \<Rightarrow> False | Inr _ \<Rightarrow> True) \<and>
     length (am_bytes a 1) = 32 \<and>
     map_of (db_grants d) (am_Hash a (Secret ''ovsg_'' (am_bytes a 1))) = None \<and>
     map_of (db_auth_grants d) (am_Hash a (Secret ''ovsg_'' (am_bytes a 1))) = None"

lemma Unix_add: "Unix (t + SessionAbsolute) = Unix t + 28800"
proof -
  have "t + SessionAbsolute = t + 28800 * 1000000000" by (simp add: SessionAbsolute_def seconds_def)
  then have "(t + SessionAbsolute) div 1000000000 = t div 1000000000 + 28800" by (simp only: div_mult_self1 zero_neq_numeral not_False_eq_True)
  then show ?thesis by (simp add: Unix_def)
qed

lemma capabilities_valid: "capabilities x d = Inr caps \<Longrightarrow> validateCapabilities caps = Inr ()"
proof -
  assume "capabilities x d = Inr caps"
  then obtain out where out: "role_lists (roles_of x d) = Inr out" "caps = unique out"
    by (auto simp: capabilities_def then_do_Inr)
  have "role_lists blobs = Inr out \<Longrightarrow> \<forall>c\<in>set out. knownCapability c" for blobs out
    by (induction blobs arbitrary: out) (auto simp: then_do_Inr split: option.splits sum.splits)
  from this [OF out(1)] show ?thesis using out(2) unique_sorted(2) [of out] known_few [of caps] by simp
qed

text \<open>The tables of an accepted login after the grant is stored.\<close>

definition with_grant :: "'z access_ambient_scheme \<Rightarrow> string \<Rightarrow> string list \<Rightarrow> 'v access_db \<Rightarrow> 'v access_db" where
  "with_grant a x caps d =
     (let hash = am_Hash a (Secret ''ovsg_'' (am_bytes a 1)) in
      d\<lparr>db_grants := db_grants d @ [(hash, \<lparr>cr_principal = x, cr_epoch = db_auth_epoch d, cr_ceiling = Some caps,
          cr_expires = Unix (am_now a 3 + SessionAbsolute), cr_revoked = None\<rparr>)],
        db_auth_grants := db_auth_grants d @ [(hash, \<lparr>gu_id = new_id a 0, gu_issued = Unix (am_now a 2), gu_last = Unix (am_now a 2), gu_elevated = 0\<rparr>)]\<rparr>)"

lemma accepted_grant:
  assumes "login_accepted a x verifier d" and "capabilities x d = Inr caps"
  shows "issue_grant a x (db_auth_epoch d) caps d = Inr (Secret ''ovsg_'' (am_bytes a 1), with_grant a x caps d)"
  using assms(1) by (simp add: issue_grant_def login_accepted_def Let_def insert_row_def with_grant_def)

lemma accepted_view:
  assumes "login_accepted a x verifier d" and "am_Hash b = am_Hash a"
  shows "\<exists>p. map_of (db_principals d) x = Some p \<and> find_credential b (Secret ''ovsg_'' (am_bytes a 1)) (with_grant a x caps d) =
    Some \<lparr>cv_kind = ''grant'', cv_principal = x, cv_name = pr_name p, cv_disabled = False,
      cv_row = \<lparr>cr_principal = x, cr_epoch = db_auth_epoch d, cr_ceiling = Some caps, cr_expires = Unix (am_now a 3) + 28800, cr_revoked = None\<rparr>,
      cv_id = new_id a 0, cv_issued = Unix (am_now a 2), cv_last = Unix (am_now a 2), cv_elevated = 0\<rparr>"
proof -
  obtain p t where p: "map_of (db_principals d) x = Some p" "\<not> pr_disabled p" "map_of (db_auth_principals d) x = Some t"
    using assms(1) by (auto simp: login_accepted_def split: option.splits)
  have valid: "ValidSecret (Secret ''ovsg_'' (am_bytes a 1)) ''ovsg_''" using assms(1) by (auto simp: ValidSecret_iff login_accepted_def)
  have rows: "map_of (db_grants (with_grant a x caps d)) (am_Hash a (Secret ''ovsg_'' (am_bytes a 1))) =
      Some \<lparr>cr_principal = x, cr_epoch = db_auth_epoch d, cr_ceiling = Some caps, cr_expires = Unix (am_now a 3) + 28800, cr_revoked = None\<rparr>"
    "map_of (db_auth_grants (with_grant a x caps d)) (am_Hash a (Secret ''ovsg_'' (am_bytes a 1))) =
      Some \<lparr>gu_id = new_id a 0, gu_issued = Unix (am_now a 2), gu_last = Unix (am_now a 2), gu_elevated = 0\<rparr>"
    using assms(1) by (simp_all add: with_grant_def login_accepted_def Let_def Unix_add map_of_snoc del: map_of_append)
  have "db_principals (with_grant a x caps d) = db_principals d" "db_auth_principals (with_grant a x caps d) = db_auth_principals d"
    by (simp_all add: with_grant_def Let_def)
  then show ?thesis
    using p valid rows assms(2) by (simp add: find_credential_def grant_view_def with_principal_def)
qed

lemma with_grant_fields [simp]:
  "same_people d (with_grant a x caps d)" "db_auth_watermark (with_grant a x caps d) = db_auth_watermark d"
  "db_auth_epoch (with_grant a x caps d) = db_auth_epoch d" "db_records (with_grant a x caps d) = db_records d"
  "db_auth_audit (with_grant a x caps d) = db_auth_audit d"
  by (simp_all add: with_grant_def Let_def same_people_def)

lemma accepted_claims:
  assumes "login_accepted a x verifier d" and "capabilities x d = Inr caps" and "Unix (am_now a 3) = Unix (am_now a 2)"
    and "Unix (am_now a 2) \<le> Unix (am_now a 5)" and "Unix (am_now a 5) < Unix (am_now a 2) + 900"
  shows "\<exists>c. claims (later 4 a) (Secret ''ovsg_'' (am_bytes a 1)) (with_grant a x caps d) = Inr c \<and> cl_PrincipalID c = x \<and>
    cl_CredentialID c = new_id a 0 \<and> set (cl_Capabilities c) = set caps"
proof -
  have later: "am_Hash (later 4 a) = am_Hash a" "am_now (later 4 a) 0 = am_now a 4" "am_now (later 4 a) 1 = am_now a 5"
    by (simp_all add: later_def)
  have "capabilities x (with_grant a x caps d) = Inr caps"
    using assms(2) by (simp add: same_people_capabilities [OF with_grant_fields(1)])
  with accepted_view [OF assms(1) later(1), of caps] assms later(2,3) capabilities_valid [OF assms(2)]
  show ?thesis
    by (auto simp: claims_def clock_def login_accepted_def credential_dead_def SessionIdle_def SessionAbsolute_def seconds_def
        simp del: validateCapabilities_Inr)
qed

lemma authenticate_tx_accepted:
  fixes d :: "'v access_db"
  assumes "login_accepted a x verifier d" and "Unix (am_now a 3) = Unix (am_now a 2)"
    and "Unix (am_now a 2) \<le> Unix (am_now a 5)" and "Unix (am_now a 5) < Unix (am_now a 2) + 900"
    and "\<And>c (g :: 'v access_db). cl_PrincipalID c = x \<Longrightarrow> cl_CredentialID c = new_id a 0 \<Longrightarrow> db_records g = db_records d \<Longrightarrow> db_auth_audit g = db_auth_audit d \<Longrightarrow>
      \<exists>e. audit (later 6 a) c ''authenticate'' x ''success'' '''' None '''' g = Inr ((), e)"
  shows "\<exists>c e. authenticate_tx a False x verifier d = Inr (Some (Secret ''ovsg_'' (am_bytes a 1), c), e) \<and> cl_PrincipalID c = x"
proof -
  obtain p caps where p: "map_of (db_principals d) x = Some p" "\<not> pr_disabled p" "pr_verifier p = verifier" and caps: "capabilities x d = Inr caps"
    using assms(1) by (auto simp: login_accepted_def split: option.splits sum.splits)
  obtain c where c: "claims (later 4 a) (Secret ''ovsg_'' (am_bytes a 1)) (with_grant a x caps d) = Inr c" "cl_PrincipalID c = x"
      "cl_CredentialID c = new_id a 0"
    using accepted_claims [OF assms(1) caps assms(2-4)] by blast
  obtain e where "audit (later 6 a) c ''authenticate'' x ''success'' '''' None '''' (with_grant a x caps d) = Inr ((), e)"
    using assms(5) [OF c(2,3), of "with_grant a x caps d"] by auto
  then show ?thesis
    using assms(1) p caps accepted_grant [OF assms(1) caps] c
    by (simp add: authenticate_tx_def login_accepted_def clock_def select_row_def)
qed

lemma authenticate_tx_lost:
  assumes "login_accepted a x verifier d" and "Unix (am_now a 2) < Unix (am_now a 3)"
  shows "authenticate_tx a False x verifier d = failed 401 ''CREDENTIAL_EXPIRED_OR_REVOKED''"
proof -
  obtain p caps where p: "map_of (db_principals d) x = Some p" "\<not> pr_disabled p" "pr_verifier p = verifier" and caps: "capabilities x d = Inr caps"
    using assms(1) by (auto simp: login_accepted_def split: option.splits sum.splits)
  have later: "am_Hash (later 4 a) = am_Hash a" "am_now (later 4 a) 0 = am_now a 4" by (simp_all add: later_def)
  have "claims (later 4 a) (Secret ''ovsg_'' (am_bytes a 1)) (with_grant a x caps d) = failed 401 ''CREDENTIAL_EXPIRED_OR_REVOKED''"
    using accepted_view [OF assms(1) later(1), of caps] assms later(2)
    by (auto simp: claims_def clock_def login_accepted_def credential_dead_def SessionAbsolute_def seconds_def)
  then show ?thesis
    using assms(1) p caps accepted_grant [OF assms(1) caps] by (simp add: authenticate_tx_def login_accepted_def clock_def select_row_def)
qed

text \<open>C26. The right password logs in. When the name is known and enabled, the password fits, the attempt is within the
  limits, there is room for a grant and for its audit record, and the grant is stored and read back within one second of the
  clock, \<open>Authenticate\<close> answers with a grant of that principal.\<close>

theorem correct_login_succeeds:
  fixes others :: "'v access_db \<Rightarrow> 'v access_db"
  assumes "lg_Provider login = ''local''" and "usernamePattern (lg_Username login)"
    and "1 \<le> length (lg_Password login)" and "length (lg_Password login) \<le> 1024"
    and "attempt (f 0) a (lg_Username login) d = (Inr (), d1)" and "find_login (lg_Username login) d1 = (x, verifier, False)"
    and "x \<noteq> ''''" and "verifyPassword (am_IDKey a) (lg_Password login) verifier"
    and "login_accepted (later 3 a) x verifier (others d1)" and "f 1 = Done"
    and "Unix (am_now a 6) = Unix (am_now a 5)" and "Unix (am_now a 8) = Unix (am_now a 5)"
    and "\<And>c (g :: 'v access_db). cl_PrincipalID c = x \<Longrightarrow> cl_CredentialID c = new_id a 3 \<Longrightarrow> db_records g = db_records (others d1) \<Longrightarrow>
      db_auth_audit g = db_auth_audit (others d1) \<Longrightarrow> \<exists>e. audit (later 9 a) c ''authenticate'' x ''success'' '''' None '''' g = Inr ((), e)"
  shows "\<exists>c e. Authenticate f a (Inr ()) others login d = (Inr (Secret ''ovsg_'' (am_bytes a 1), c), e) \<and> cl_PrincipalID c = x"
proof -
  have later: "am_now (later 3 a) n = am_now a (3 + n)" "later 6 (later 3 a) = later 9 a" "new_id (later 3 a) 0 = new_id a 3"
    "am_bytes (later 3 a) = am_bytes a" for n
    by (simp_all add: later_def new_id_def mint_def add.assoc)
  have "\<exists>c e. authenticate_tx (later 3 a) False x verifier (others d1) = Inr (Some (Secret ''ovsg_'' (am_bytes (later 3 a) 1), c), e) \<and> cl_PrincipalID c = x"
    by (rule authenticate_tx_accepted [OF assms(9)]) (use assms(11,12,13) in \<open>simp_all add: later\<close>)
  then obtain c e where "authenticate_tx (later 3 a) False x verifier (others d1) = Inr (Some (Secret ''ovsg_'' (am_bytes a 1), c), e)" "cl_PrincipalID c = x"
    unfolding later by blast
  then show ?thesis
    using assms(1-8,10) by (auto simp: Authenticate_def store_write_def)
qed

section \<open>Two flaws\<close>

text \<open>C27. A correct login can be lost. The lifetime of a new grant is computed from two readings of the clock; when a
  second passes between them, the grant outlives the longest session by that second, and the transaction that issued
  it refuses it: the login with the right password answers that the credential has expired, and nothing is stored but
  the attempt.\<close>

theorem login_lost_at_second_boundary:
  assumes "lg_Provider login = ''local''" and "usernamePattern (lg_Username login)"
    and "1 \<le> length (lg_Password login)" and "length (lg_Password login) \<le> 1024"
    and "attempt (f 0) a (lg_Username login) d = (Inr (), d1)" and "find_login (lg_Username login) d1 = (x, verifier, False)"
    and "x \<noteq> ''''" and "verifyPassword (am_IDKey a) (lg_Password login) verifier"
    and "login_accepted (later 3 a) x verifier (others d1)" and "f 1 = Done" and "Unix (am_now a 5) < Unix (am_now a 6)"
  shows "Authenticate f a (Inr ()) others login d = (failed 401 ''CREDENTIAL_EXPIRED_OR_REVOKED'', others d1)"
proof -
  have "am_now (later 3 a) 2 = am_now a 5" "am_now (later 3 a) 3 = am_now a 6" by (simp_all add: later_def)
  then have "authenticate_tx (later 3 a) False x verifier (others d1) = failed 401 ''CREDENTIAL_EXPIRED_OR_REVOKED''"
    using authenticate_tx_lost [OF assms(9)] assms(11) by simp
  then show ?thesis
    using assms by (auto simp: Authenticate_def store_write_def store_failure_def)
qed

lemma password_changed:
  assumes "map_of (db_auth_principals d) x = Some (revision, created)"
  shows "\<exists>e. carry_out a c (ChangePassword password) x (quoted revision) verifier d = Inr ((x, None), e) \<and>
     db_principals e = modify_row x (\<lambda>p. p\<lparr>pr_verifier := verifier\<rparr>) (db_principals d) \<and>
     db_auth_principals e = modify_row x (\<lambda>(r, t). (new_id a 0, t)) (db_auth_principals d) \<and> db_principal_roles e = db_principal_roles d \<and>
     db_roles e = db_roles d \<and> db_auth_roles e = db_auth_roles d \<and>
     evidence_db.truncate e = evidence_db.truncate d \<and> db_auth_audit e = db_auth_audit d \<and> db_epoch e = db_epoch d"
  using assms by (simp add: carry_out_def change_user_def revision_matches_def change_principal_def invalidatePrincipal_def evidence_db.defs)

text \<open>The tables after a reset, without the evidence of the command, and everything a reset needs besides its
  authority: the request is well-formed and new, a receipt and the evidence find room, and an administrator remains.\<close>

definition password_set :: "'z access_ambient_scheme \<Rightarrow> string \<Rightarrow> string \<Rightarrow> 'v access_db \<Rightarrow> 'v access_db" where
  "password_set a x verifier d =
     d\<lparr>db_principals := modify_row x (\<lambda>p. p\<lparr>pr_verifier := verifier\<rparr>) (db_principals d),
       db_grants := revoke_rows x (Unix (am_now a 1)) (db_grants d), db_tokens := revoke_rows x (Unix (am_now a 2)) (db_tokens d),
       db_auth_principals := modify_row x (\<lambda>(r, t). (new_id a 0, t)) (db_auth_principals d)\<rparr>"

definition reset_recorded :: "'z access_ambient_scheme \<Rightarrow> Claims \<Rightarrow> Api_Command \<Rightarrow> string \<Rightarrow> string \<Rightarrow> 'v access_db \<Rightarrow> bool" where
  "reset_recorded a c q x verifier d \<longleftrightarrow>
     (let b = command_ambient a q; r = \<lparr>ref_Kind = ''user'', ref_ID = x\<rparr>; job = new_id (later 6 b) 0 in
      (\<exists>key digest. RequestTime (ac_ID q) = Some key \<and> fingerprint a q = Inr digest \<and>
         admit_guard ''management'' q key (am_now a 0) d = Inr ()) \<and>
      find_receipt q d = None \<and> ManagementID (ac_Principal q) \<and> ManagementID (ac_Epoch q) \<and> length (ac_URI q) \<le> 4096 \<and>
      ValidDocument (ac_Payload q) (ac_PayloadBytes q) \<and>
      (\<exists>e. record_command (later 7 b) c ''changePassword'' (ac_ID q) job r None (password_set (later 3 b) x verifier d) = Inr e \<and>
         lastAdministrator e = Inr () \<and> response_ok ''management'' (command_answer (later 3 b) job r None) e = Inr ()))"

lemma carry_out_password:
  assumes "map_of (db_auth_principals d) x = Some (revision, created)"
  shows "carry_out a c (ChangePassword password) x (quoted revision) verifier d = Inr ((x, None), password_set a x verifier d)"
  using assms by (simp add: carry_out_def change_user_def revision_matches_def change_principal_def invalidatePrincipal_def password_set_def later_def numeral_2_eq_2)

lemma record_command_receipts:
  assumes "record_command a c op request job r body d = Inr e"
  shows "db_receipts e = db_receipts d"
proof -
  obtain f where f: "record_job a job r body d = Inr f"
    and app: "(\<exists>u. audit (later 6 a) c op (ref_ID r) ''success'' request (Some r) (if body = None then job else '''')
         (f\<lparr>db_auth_revision := new_id (later 5 a) 0\<rparr>) = Inr (u, e))"
    using assms by (auto simp: record_command_def then_do_Inr)
  have "db_receipts f = db_receipts d"
    using f by (auto simp: record_job_def then_do_Inr split: option.splits elim!: CreateJob_Inr dest!: Append_frame(3))
  moreover have "db_receipts e = db_receipts f"
    using app by (auto simp: audit_def then_do_Inr dest!: Append_frame(3))
  ultimately show ?thesis by simp
qed

lemma touch_tables [simp]: "db_jobs (touch a credential c d) = db_jobs d" "db_receipts (touch a credential c d) = db_receipts d"
  by (simp_all add: touch_def watermark_def Let_def)

text \<open>The check of a reset: a fresh elevation and the right to manage users, nothing about the target.\<close>

lemma reset_checked:
  fixes d :: "'v access_db"
  assumes "claims a credential d = Inr c" and "cl_CredentialKind c = ''grant''" and "Unix (am_now a 2) < Unix (cl_ElevatedUntil c)"
    and "''access.users.manage'' \<in> set (cl_Capabilities c)" and "ManagementID x" and "sc_command s = ChangePassword password" and "sc_path s = [x]"
  shows "check_call a credential s d = Inr c" and "CheckAuth True a credential ''user.manage'' [\<lparr>ref_Kind = ''user'', ref_ID = x\<rparr>] d = Inr c"
  using assms
  by (simp_all add: check_call_def checkOperation_def CheckAuth_def contract_operation_def require_capability_def aliases_def refsFor_def
      checkRefs_def checkRef_def evidence_Operation_def)

lemma claims_ambient:
  assumes "am_now b = am_now a" and "am_Hash b = am_Hash a"
  shows "claims b credential d = claims a credential d"
  unfolding claims_def clock_def find_credential_def assms ..

lemma command_ambient_fields:
  shows "am_now (command_ambient a q) = am_now (later 1 a)" "am_Hash (command_ambient a q) = am_Hash (later 1 a)"
  by (simp_all add: command_ambient_def with_command_def WithRequest_def)

lemma find_login_set:
  assumes "find_login name d = (x, old, off)" and "x \<noteq> ''''"
    and "db_principals e = modify_row x (\<lambda>p. p\<lparr>pr_verifier := verifier\<rparr>) (db_principals d)"
    and "db_auth_principals e = modify_row x f (db_auth_principals d)"
  shows "find_login name e = (x, verifier, off)"
proof -
  obtain p where p: "find (\<lambda>(y, p). pr_name p = name \<and> map_of (db_auth_principals d) y \<noteq> None) (db_principals d) = Some (x, p)"
    "pr_disabled p = off"
    using assms(1,2) by (auto simp: find_login_def split: option.splits)
  have same: "map_of (db_auth_principals e) y \<noteq> None \<longleftrightarrow> map_of (db_auth_principals d) y \<noteq> None" for y
    unfolding assms(4) by (simp add: map_of_modify_row del: not_None_eq)
  have "find (\<lambda>(y, p). pr_name p = name \<and> Q y) (modify_row x (\<lambda>p. p\<lparr>pr_verifier := verifier\<rparr>) t) = Some (x, p\<lparr>pr_verifier := verifier\<rparr>)"
    if "find (\<lambda>(y, p). pr_name p = name \<and> Q y) t = Some (x, p)" for Q and t :: "principal_row tab"
    using that by (induction t) (auto simp: modify_row_def split: if_splits)
  from this [OF p(1)] show ?thesis
    unfolding find_login_def same assms(3) using p(2) by simp
qed

lemma hashPassword_verifies:
  assumes "hashPassword IDKey salt password = Inr verifier" and "length salt = 16" and "\<And>p s t m n k. length (IDKey p s t m n k) = k"
  shows "verifyPassword IDKey password verifier"
proof -
  have v: "verifier = passwordPrefix @ base64_encode std_alphabet salt @ ''$'' @ base64_encode std_alphabet (derive IDKey password salt)"
    using assms(1) by (simp add: hashPassword_def split: if_splits)
  have "verifier_parts verifier = Some (salt, derive IDKey password salt)"
    unfolding v by (rule verifier_parts_hash) (simp_all add: assms derive_def)
  then show ?thesis by (simp add: verifyPassword_def)
qed

text \<open>C28. A password reset ignores the ceiling of the actor. Whoever holds a freshly elevated grant and the right to
  manage users, and no other capability, replaces the password of any user: no step of the command path (the
  preparation of the verifier, the checks before and inside the transaction, the command, the rule that an
  administrator remains) compares the target with the actor. The new password is then the one the user logs in with,
  and the user holds whatever it held.\<close>

theorem password_reset_beyond_ceiling:
  assumes "sc_command s = ChangePassword password" and "sc_path s = [x]" and "sc_parameters s = Inr ()" and "sc_decoded s = Inr (sc_RequestID s)"
    and "sc_Precondition s = quoted revision" and "etagPattern (quoted revision)" and "ManagementID x"
    and "\<And>n. claims (later n a) credential d = Inr c" and "cl_CredentialKind c = ''grant''"
    and "\<And>n. Unix (am_now a n) < Unix (cl_ElevatedUntil c)" and "''access.users.manage'' \<in> set (cl_Capabilities c)"
    and "find_login name d = (x, old, off)" and "map_of (db_auth_principals d) x = Some (revision, created)"
    and "hashPassword (am_IDKey a) (am_bytes a 2) password = Inr verifier"
    and "length (am_bytes a 2) = 16" and "\<And>p s t m n k. length (am_IDKey a p s t m n k) = k"
    and "reset_recorded (later 8 a) c (security_request key c s) x verifier d"
  shows "\<exists>r e. ExecuteAuth Done True key a (Inr ()) id credential s d = (Inr r, e) \<and> \<not> rs_Replayed r \<and>
    find_login name e = (x, verifier, off) \<and> verifyPassword (am_IDKey a) password verifier \<and> granted e x = granted d x"
proof -
  define q where "q = security_request key c s"
  define b where "b = command_ambient (later 8 a) q"
  have q: "ac_ID q = sc_RequestID s" "ac_Operation q = ''changePassword''" "ac_Domain q = ''management''"
    by (simp_all add: q_def security_request_def Let_def contract_operation_def assms(1))
  have now: "Unix (am_now (later n a) 2) < Unix (cl_ElevatedUntil c)" for n using assms(10) [of "n + 2"] by (simp add: later_def)
  have zero: "later 0 a = a" by (simp add: later_def)
  note checked = reset_checked [OF assms(8,9) now assms(11,7,1,2)]
  have "am_now b = am_now (later 9 a)" "am_Hash b = am_Hash (later 9 a)" unfolding b_def command_ambient_fields by (simp_all add: later_def)
  then have tx_claims: "claims b credential d = Inr c" and soon: "Unix (am_now b 2) < Unix (cl_ElevatedUntil c)"
    using trans [OF claims_ambient assms(8) [of 9]] now [of 9] by simp_all
  note check = reset_checked(1) [OF tx_claims assms(9) soon assms(11,7,1,2)]
  let ?r = "\<lparr>ref_Kind = ''user'', ref_ID = x\<rparr>" and ?job = "new_id (later 6 b) 0"
  obtain t digest e1 where room: "RequestTime (ac_ID q) = Some t" "fingerprint (later 8 a) q = Inr digest"
      "admit_guard ''management'' q t (am_now (later 8 a) 0) d = Inr ()"
      "find_receipt q d = None" "ManagementID (ac_Principal q)" "ManagementID (ac_Epoch q)" "length (ac_URI q) \<le> 4096"
      "ValidDocument (ac_Payload q) (ac_PayloadBytes q)"
    and e1: "record_command (later 7 b) c ''changePassword'' (ac_ID q) ?job ?r None (password_set (later 3 b) x verifier d) = Inr e1"
      "lastAdministrator e1 = Inr ()" "response_ok ''management'' (command_answer (later 3 b) ?job ?r None) e1 = Inr ()"
    using assms(17) unfolding reset_recorded_def q_def [symmetric] Let_def b_def [symmetric] by blast
  let ?m = "command_answer (later 3 b) ?job ?r None" and ?e = "touch (later 20 b) credential c e1"
  have later: "later 3 (later 3 b) = later 6 b" "later 4 (later 3 b) = later 7 b" by (simp_all add: later_def add.assoc)
  have "mutate (later 3 b) c (sc_command s) (path_id s) (sc_Precondition s) verifier (sc_RequestID s) d = Inr (?m, e1)"
    using e1(1) q(1)
    by (simp add: mutate_def assms(1,2,5) path_id_def carry_out_password [OF assms(13)] Let_def object_kind_def contract_operation_def later)
  then have tx: "security_tx credential s verifier b d = Inr (?m, ?e)" by (simp add: security_tx_def check e1(2))
  have answer: "response_ok ''management'' ?m ?e = Inr ()" using e1(3) unfolding response_ok_def touch_tables .
  have "db_receipts ?e = db_receipts d" using record_command_receipts [OF e1(1)] by (simp add: password_set_def)
  then have new: "find_receipt q ?e = None" using room(4) by (simp add: find_receipt_def)
  have prepared: "prepare_password True a (Inr ()) credential s d = Inr verifier"
    using checked(2) [of 0] assms(14) by (simp add: prepare_password_def assms(1,2) zero contract_operation_def refsFor_def command_password_def Let_def)
  define r where "r = \<lparr>rs_Status = mn_Status ?m, rs_Body = body_of q ?m (new_id (later 8 a) 0),
      rs_Receipt = new_receipt q ?m (new_id (later 8 a) 0), rs_Replayed = False\<rparr>"
  define g where "g = ?e\<lparr>db_receipts := db_receipts ?e @ [new_row q digest (am_now (later 8 a) 0) ?m (new_id (later 8 a) 0)],
      db_high_watermark := max (db_high_watermark ?e) (UnixMilli (am_now (later 8 a) 0))\<rparr>"
  have ambient: "with_command ''management'' q (new_id (later 8 a) 0) (later (Suc 0) (later 8 a)) = b" by (simp add: b_def command_ambient_def)
  have "execute_tx (later 8 a) ''management'' q digest t (\<lambda>d. store_read (then_do (check_call (later 8 a) credential s d) (\<lambda>_. Inr ())))
      (security_tx credential s verifier) d = Inr (r, g)"
    using room tx answer new checked(1)
    by (simp add: execute_tx_def record_receipt_def ambient Let_def r_def g_def)
  then have run: "ExecuteAuth Done True key a (Inr ()) id credential s d = (Inr r, g)"
    using assms(3-6) prepared checked(1) room q assms(8)
    by (simp add: ExecuteAuth_def InspectAuth_def Execute_def q_def [symmetric] store_write_def)
  have same: "same_people (password_set (later 3 b) x verifier d) g"
    using record_command_same [OF e1(1)] touch_same(1) [of e1 "later 20 b" credential c] by (simp add: same_defs g_def)
  then have "find_login name g = (x, verifier, off)"
    using assms(7) by (intro find_login_set [OF assms(12)]) (auto simp: same_people_def password_set_def ManagementID_def UUID_def)
  moreover have "granted g x = granted d x" using same by (simp add: granted_def role_caps_def same_people_def password_set_def)
  moreover have "verifyPassword (am_IDKey a) password verifier" by (rule hashPassword_verifies [OF assms(14-16)])
  ultimately show ?thesis using run by (auto simp: r_def)
qed

end
