(* ===== verification/Access_Samples.thy ===== *)
theory Access_Samples
  imports Access_Login Access_Limits Engine_Samples
begin

text \<open>
  A concrete manager database with one administrator and one live grant, on which the properties of the
  access operations are instantiated: a counted attempt, a login, a reauthentication, a bootstrap and a
  password change through a durable command.
\<close>

section \<open>A database\<close>

definition sample_key :: id_key where
  "sample_key p s t m n k = take k (map (of_nat \<circ> of_char) p @ replicate k 0)"

definition sample_bytes :: "nat \<Rightarrow> 8 word list" where
  "sample_bytes n = (if n = 2 then replicate 16 0 else replicate 31 0 @ [of_nat n])"

definition sample_access_source :: access_ambient where
  "sample_access_source = requests_ambient.extend sample_requests_source
     \<lparr>am_IDKey = sample_key, am_Hash = (\<lambda>s. s), am_bytes = sample_bytes,
      am_json_bytes = (\<lambda>_. 100), am_time_text = (\<lambda>_. ''2024'')\<rparr>"

definition sample_admin :: string where "sample_admin = ''00000000-0000-4000-8000-0000000000c1''"
definition sample_admin_role :: string where "sample_admin_role = ''00000000-0000-4000-8000-0000000000c3''"
definition sample_password :: string where "sample_password = ''correct horse battery''"
definition sample_verifier :: string where
  "sample_verifier = passwordPrefix @ base64_encode std_alphabet (replicate 16 0) @ ''$'' @
     base64_encode std_alphabet (derive sample_key sample_password (replicate 16 0))"
definition sample_grant :: string where "sample_grant = Secret ''ovsg_'' (replicate 32 0)"
definition sample_second :: int where "sample_second = Unix 63856268072960000000"

definition sample_grant_row :: credential_row where
  "sample_grant_row = \<lparr>cr_principal = sample_admin, cr_epoch = sample_owner, cr_ceiling = Some allCapabilities,
        cr_expires = sample_second + 28800, cr_revoked = None\<rparr>"

definition sample_grant_use :: grant_use where
  "sample_grant_use = \<lparr>gu_id = sample_owner, gu_issued = sample_second, gu_last = sample_second, gu_elevated = sample_second + 300\<rparr>"

definition sample_access_db :: "unit access_db" where
  "sample_access_db = journal_db.extend (requests_db.extend sample_requests_db
     \<lparr>db_anchors = [], db_journal = [], db_execs = [], db_safes = [], db_protections = [], db_identities = [], db_creations = [],
      db_resolutions = [], db_last_known_good = None\<rparr>)
     \<lparr>db_principals = [(sample_admin, \<lparr>pr_name = ''admin'', pr_disabled = False, pr_verifier = sample_verifier\<rparr>)],
      db_auth_principals = [(sample_admin, (''rev1'', sample_second))],
      db_roles = [(sample_admin_role, Some allCapabilities)], db_auth_roles = [(sample_admin_role, (''Administrator'', ''rev2''))],
      db_principal_roles = [(sample_admin, sample_admin_role)],
      db_grants = [(sample_grant, sample_grant_row)],
      db_auth_grants = [(sample_grant, sample_grant_use)],
      db_tokens = [], db_auth_tokens = [], db_attempts = [], db_auth_epoch = sample_owner, db_auth_revision = sample_owner,
      db_auth_watermark = 0, db_auth_audit = [], db_inventory = None, db_witnesses = [], db_validations = [], db_resolved = [], db_certificates = []\<rparr>"


lemma sample_access [simp]:
  "db_principals sample_access_db = [(sample_admin, \<lparr>pr_name = ''admin'', pr_disabled = False, pr_verifier = sample_verifier\<rparr>)]"
  "db_auth_principals sample_access_db = [(sample_admin, (''rev1'', sample_second))]"
  "db_roles sample_access_db = [(sample_admin_role, Some allCapabilities)]"
  "db_auth_roles sample_access_db = [(sample_admin_role, (''Administrator'', ''rev2''))]"
  "db_principal_roles sample_access_db = [(sample_admin, sample_admin_role)]"
  "db_grants sample_access_db = [(sample_grant, sample_grant_row)]"
  "db_auth_grants sample_access_db = [(sample_grant, sample_grant_use)]"
  "db_tokens sample_access_db = []" "db_auth_tokens sample_access_db = []" "db_attempts sample_access_db = []"
  "db_auth_epoch sample_access_db = sample_owner" "db_auth_revision sample_access_db = sample_owner" "db_auth_watermark sample_access_db = 0"
  "db_auth_audit sample_access_db = []" "db_receipts sample_access_db = []" "db_records sample_access_db = []" "db_epoch sample_access_db = sample_owner"
  "db_jobs sample_access_db = [(j_ID sample_job, sample_job)]" "db_high_watermark sample_access_db = 0" "db_last_sequence sample_access_db = 0"
  by (simp_all add: sample_access_db_def sample_requests_db_def sample_tables_def journal_db.defs requests_db.defs evidence_db.defs)

lemma access_source_fields [simp]:
  "am_now sample_access_source n = 63856268072960000000" "am_Hash sample_access_source s = s" "am_IDKey sample_access_source = sample_key"
  "am_bytes sample_access_source = sample_bytes" "am_request sample_access_source = no_request"
  "am_record_bytes sample_access_source r = 100" "am_job_bytes sample_access_source j = 100" "am_json_bytes sample_access_source v = 100"
  "h_random (am_host sample_access_source) n = replicate 15 0 @ [of_nat n]" "h_Digest (am_host sample_access_source) v = ''digest''"
  "am_hmac sample_access_source k v = ''mac''"
  by (simp_all add: sample_access_source_def sample_requests_source_def sample_source_def requests_ambient.defs evidence_ambient.defs)

lemma later_fields [simp]:
  fixes a :: access_ambient
  shows "am_now (later k a) n = am_now a (k + n)" "am_Hash (later k a) = am_Hash a" "am_IDKey (later k a) = am_IDKey a"
    "am_bytes (later k a) = am_bytes a" "am_request (later k a) = am_request a" "am_record_bytes (later k a) = am_record_bytes a"
    "am_job_bytes (later k a) = am_job_bytes a" "am_json_bytes (later k a) = am_json_bytes a"
    "new_id (later k a) n = new_id a (k + n)" "later i (later k a) = later (k + i) a"
  by (simp_all add: later_def new_id_def mint_def add.assoc)

lemma sample_clock [simp]: "Unix 63856268072960000000 = sample_second" "UnixMilli 63856268072960000000 = 1720671272960" "0 < sample_second"
  by (simp_all add: sample_second_def Unix_def UnixMilli_def)

lemma sample_secrets [simp]:
  "ValidSecret sample_grant ''ovsg_''" "\<not> ValidSecret sample_grant ''ovst_''"
  by (auto simp: ValidSecret_iff sample_grant_def Secret_def intro: exI [of _ "replicate 32 0"])

lemma sample_capabilities: "same_people sample_access_db d \<Longrightarrow> capabilities sample_admin d = Inr (unique allCapabilities)"
  by (simp add: allCapabilities_valid same_people_def capabilities_def roles_of_def List.map_filter_def)

lemma sample_claims:
  assumes "same_people sample_access_db d" and "db_grants d = [(sample_grant, sample_grant_row)]"
    and "db_auth_grants d = [(sample_grant, u)]" and "gu_issued u = sample_second" and "gu_last u = sample_second"
    and "db_auth_watermark d \<le> 1720671272960" and "db_auth_epoch d = sample_owner"
    and "\<forall>n. am_now a n = 63856268072960000000" and "am_Hash a sample_grant = sample_grant"
  shows "claims a sample_grant d = Inr \<lparr>cl_PrincipalID = sample_admin, cl_CredentialID = gu_id u, cl_CredentialKind = ''grant'',
     cl_DisplayName = ''admin'', cl_Capabilities = intersection (unique allCapabilities) allCapabilities, cl_Revision = db_auth_revision d,
     cl_Epoch = sample_owner, cl_RequestEpoch = db_epoch d, cl_IssuedAt = of_Unix sample_second,
     cl_ExpiresAt = of_Unix (sample_second + 28800), cl_ElevatedUntil = of_Unix (gu_elevated u)\<rparr>"
  using assms sample_capabilities [OF assms(1)]
  by (simp add: allCapabilities_valid same_people_def claims_def clock_def find_credential_def grant_view_def with_principal_def credential_dead_def
      sample_grant_row_def SessionIdle_def SessionAbsolute_def seconds_def)

text \<open>A run of one step: a counted attempt.\<close>

definition sample_attempted :: "unit access_db" where
  "sample_attempted = sample_access_db\<lparr>db_attempts := [(''admin'', sample_second, 1)], db_auth_watermark := 1720671272960\<rparr>"

lemma sample_attempt: "attempt Done sample_access_source ''admin'' sample_access_db = (Inr (), sample_attempted)"
  by (simp add: attempt_def store_write_def attempt_tx_def clock_def Let_def watermark_def sample_attempted_def lower_def)

lemma sample_attempt_run: "access_runs {} sample_access_db sample_attempted"
  by (rule access_runs_step [OF access_step.attempted [OF sample_attempt]]) simp_all

theorem verifyPassword_exact_witness:
  "hashPassword sample_key (replicate 16 0) sample_password = Inr sample_verifier \<and> verifyPassword sample_key sample_password sample_verifier \<and>
   \<not> verifyPassword sample_key ''another password'' sample_verifier"
proof -
  have h: "hashPassword sample_key (replicate 16 0) sample_password = Inr sample_verifier"
    by (simp add: hashPassword_def validPassword_def sample_password_def sample_verifier_def)
  have l: "length (sample_key p s t m n k) = k" for p s t m n k by (simp add: sample_key_def)
  have other: "derive sample_key ''another password'' (replicate 16 0) \<noteq> derive sample_key sample_password (replicate 16 0)"
    by (simp add: derive_def sample_key_def sample_password_def)
  show ?thesis
    using verifyPassword_exact [OF h _ l, where attempt = "''another password''" and other = "''''"] h other by simp
qed

theorem no_escalation_witness:
  "access_runs {} sample_access_db sample_attempted \<and> (\<exists>c. claims sample_access_source sample_grant sample_attempted = Inr c \<and>
     set (cl_Capabilities c) \<subseteq> granted sample_access_db sample_admin)"
proof -
  let ?a = sample_access_source and ?d = sample_attempted
  have "same_people sample_access_db ?d" by (simp add: same_people_def sample_attempted_def)
  then obtain c where c: "claims ?a sample_grant ?d = Inr c" "cl_PrincipalID c = sample_admin"
    using sample_claims [of ?d sample_grant_use ?a] by (simp add: sample_attempted_def sample_grant_use_def)
  then show ?thesis using no_escalation [OF sample_attempt_run c(1)] sample_attempt_run by auto
qed

theorem revoked_stays_refused_witness:
  "let d = sample_access_db\<lparr>db_grants := [(sample_grant, sample_grant_row\<lparr>cr_revoked := Some sample_second\<rparr>)]\<rparr>;
       e = snd (attempt Done sample_access_source ''admin'' d) in
   access_runs {} d e \<and> (\<exists>err. claims sample_access_source sample_grant e = Inl err)"
proof -
  let ?a = sample_access_source
  let ?d = "sample_access_db\<lparr>db_grants := [(sample_grant, sample_grant_row\<lparr>cr_revoked := Some sample_second\<rparr>)]\<rparr>"
  have run: "access_runs {} ?d (snd (attempt Done ?a ''admin'' ?d))"
    by (rule access_runs_step [OF access_step.attempted [OF prod.collapse [symmetric]]]) simp
  have "\<exists>err. claims ?a sample_grant (snd (attempt Done ?a ''admin'' ?d)) = Inl err"
    by (rule revoked_stays_refused [OF run, where a = ?a and row = "sample_grant_row\<lparr>cr_revoked := Some sample_second\<rparr>"])
      (simp_all add: credential_row_of_def)
  then show ?thesis using run by (simp add: Let_def)
qed

lemma sample_username [simp]: "usernamePattern ''admin''"
  by (simp add: usernamePattern_def alnum_def less_eq_char_def)

definition sample_login :: Login where
  "sample_login = \<lparr>lg_Provider = ''local'', lg_Username = ''admin'', lg_Password = sample_password\<rparr>"

theorem guessing_is_limited_witness:
  "let d = sample_access_db\<lparr>db_attempts := [(''admin'', sample_second, 10)]\<rparr> in
   attempts_ok d \<and> access_runs {} d d \<and> (\<exists>err. Authenticate (\<lambda>_. Done) sample_access_source (Inr ()) id sample_login d = (Inl err, d))"
proof -
  let ?d = "sample_access_db\<lparr>db_attempts := [(''admin'', sample_second, 10)]\<rparr>"
  have ok: "attempts_ok ?d" by (simp add: attempts_ok_def)
  have run: "access_runs {} ?d ?d" by (rule access_runs.none)
  show ?thesis
    using guessing_is_limited [OF ok run, of sample_access_source sample_login "\<lambda>_. Done" "Inr ()" id] ok run
    by (simp add: Let_def sample_login_def lower_def)
qed

text \<open>A clock that ticks between the two readings of a login.\<close>

definition sample_ticking_source :: access_ambient where
  "sample_ticking_source = sample_access_source\<lparr>am_now := (\<lambda>n. if n < 6 then 63856268072960000000 else 63856268073960000000)\<rparr>"

lemma sample_password_ok [simp]: "verifyPassword sample_key sample_password sample_verifier"
  using verifier_parts_hash [of "replicate 16 0" "derive sample_key sample_password (replicate 16 0)"]
  by (simp add: verifyPassword_def sample_verifier_def derive_def sample_key_def)

lemma sample_admin_some [simp]: "sample_admin \<noteq> ''''" by (simp add: sample_admin_def)

lemma sample_new_grant [simp]: "Secret ''ovsg_'' (sample_bytes (Suc 0)) \<noteq> sample_grant"
proof
  assume "Secret ''ovsg_'' (sample_bytes (Suc 0)) = sample_grant"
  then have "base64_encode url_alphabet (sample_bytes (Suc 0)) = base64_encode url_alphabet (replicate 32 0)"
    by (simp add: sample_grant_def Secret_def)
  then have "Some (sample_bytes (Suc 0)) = Some (replicate 32 0)" by (metis base64_decode_encode alphabets(2))
  then have "last (sample_bytes (Suc 0)) = last (replicate 32 0)" by simp
  then show False by (simp add: sample_bytes_def)
qed

theorem login_lost_at_second_boundary_witness:
  "Authenticate (\<lambda>_. Done) sample_ticking_source (Inr ()) id sample_login sample_access_db =
     (failed 401 ''CREDENTIAL_EXPIRED_OR_REVOKED'', sample_attempted)"
proof -
  let ?a = sample_ticking_source
  have src: "am_now ?a n = (if n < 6 then 63856268072960000000 else 63856268073960000000)" "am_Hash ?a = am_Hash sample_access_source"
    "am_IDKey ?a = sample_key" "am_bytes ?a = sample_bytes" for n
    by (simp_all add: sample_ticking_source_def)
  have att: "attempt Done ?a ''admin'' sample_access_db = (Inr (), sample_attempted)"
    by (simp add: attempt_def store_write_def attempt_tx_def clock_def Let_def watermark_def sample_attempted_def lower_def src)
  have same: "same_people sample_access_db sample_attempted" by (simp add: same_people_def sample_attempted_def)
  have login: "login_accepted (later 3 ?a) sample_admin sample_verifier sample_attempted"
    using sample_capabilities [OF same]
    by (simp add: login_accepted_def src sample_attempted_def UnixMilli_def live_grants_def count_rows_def authn_limits)
      (simp add: sample_bytes_def)
  show ?thesis
    using login_lost_at_second_boundary [of sample_login "\<lambda>_. Done" ?a sample_access_db sample_attempted sample_admin sample_verifier id] att login
    by (simp add: sample_login_def src Unix_def find_login_def sample_attempted_def)
      (simp add: sample_password_def)
qed

section \<open>Evidence of the sample calls\<close>

lemma sample_code [simp]: "code_text ''authenticate''" "code_text ''success''" "code_text ''reauthenticate''" "code_text ''bootstrap''"
  "code_text ''security-resource''" "code_text ''user''"
  by (simp_all add: code_text_def alnum_def less_eq_char_def)

lemma sample_new_id [simp]: "ManagementID (new_id sample_access_source n)"
  by (simp add: new_id_def mint_def NewID_ManagementID)

lemma sample_new_id_some [simp]: "new_id sample_access_source n \<noteq> ''''"
  using sample_new_id [of n] by (auto simp: ManagementID_def UUID_def)

lemma audit_fits:
  assumes "record_fits a (audit_event a c op target res request ob job) d"
    and "map_of (db_auth_audit d) (ev_ID (fill_record a (audit_event a c op target res request ob job))) = None"
  shows "\<exists>e. audit a c op target res request ob job d = Inr ((), e) \<and> same_access d e \<and> db_auth_watermark e = db_auth_watermark d \<and>
    db_auth_epoch e = db_auth_epoch d \<and> (\<exists>q. db_records e = db_records d @ [(ev_ID (fill_record a (audit_event a c op target res request ob job)), q)])"
proof -
  let ?x = "ev_ID (fill_record a (audit_event a c op target res request ob job))"
  obtain q g where g: "Append a (audit_event a c op target res request ob job) d = Inr (?x, g)" "db_records g = db_records d @ [(?x, q)]"
    using Append_fits [OF assms(1)] by blast
  note frame = Append_frame(4) [OF g(1)]
  have "db_auth_audit g = db_auth_audit d" using frame by (cases d; cases g; simp)
  then show ?thesis
    using assms(2) g same_more [OF frame] access_more [OF frame] by (simp add: audit_def insert_row_def same_defs)
qed

lemma fill_unrequested:
  assumes "am_request a = no_request" and "ev_RequestID r = ''''"
  shows "ev_RequestID (fill_record a r) = ''''" "ev_RequestDomain (fill_record a r) = ''''" "ev_RequestEpoch (fill_record a r) = ''''"
    "ev_Capability (fill_record a r) = ev_Capability r" "ev_Correlation r = '''' \<Longrightarrow> ev_Correlation (fill_record a r) = new_id a 0"
  using assms by (simp_all add: fill_record_def Let_def no_request_def)

lemma sample_audit:
  assumes "ManagementID x" and "optionalID (cl_PrincipalID c)" and "optionalID (cl_CredentialID c)" and "code_text op" and "code_text res"
    and "db_records d = []" and "db_auth_audit d = []"
  shows "\<exists>e. audit (later k sample_access_source) c op x res '''' None '''' d = Inr ((), e) \<and> same_access d e \<and>
    db_auth_watermark e = db_auth_watermark d \<and> db_auth_epoch e = db_auth_epoch d"
proof -
  let ?a = "later k sample_access_source"
  let ?r = "audit_event ?a c op x res '''' None ''''"
  have event: "ev_Origin ?r = ''Manager''" "ev_Collection ?r = ''audit''" "ev_RelatedObjects ?r = []" "ev_ID ?r = ''''"
    "ev_Actor ?r = cl_PrincipalID c" "ev_Credential ?r = cl_CredentialID c" "ev_Operation ?r = op" "ev_Result ?r = res" "ev_ChangeSet ?r = ''''"
    "ev_Transaction ?r = ''''" "ev_Job ?r = ''''" "ev_Reason ?r = ''''" "ev_DedupKey ?r = ''''" "ev_RequestID ?r = ''''" "ev_Correlation ?r = ''''"
    "ev_Capability ?r = ''''" "ev_Object ?r = Some \<lparr>ref_Kind = ''security-resource'', ref_ID = x\<rparr>"
    using assms(1) by (simp_all add: audit_event_def)
  have request: "am_request ?a = no_request" "rq_Principal no_request = ''''" "rq_Credential no_request = ''''" by (simp_all add: no_request_def)
  have "record_valid (fill_record ?a ?r)"
    using assms(1-5) unfolding record_valid_def fill_fields fill_unrequested [OF request(1) event(14)] event fill_unrequested(5) [OF request(1) event(14,15)]
    by (simp add: fill_fields event request optionalRequest_def validRef_def validRelated_def) (simp add: optionalID_def)
  then have "record_fits ?a ?r d"
    using assms(6) by (simp add: record_fits_def Let_def fill_fields audit_event_def record_limit_def evidence_limits)
  from audit_fits [OF this] assms(7) show ?thesis by auto
qed

section \<open>A login and a reauthentication\<close>

lemma sample_attempted_fields [simp]:
  "same_people sample_access_db sample_attempted" "db_records sample_attempted = []" "db_auth_audit sample_attempted = []"
  "db_auth_watermark sample_attempted = 1720671272960" "db_auth_epoch sample_attempted = sample_owner"
  "db_grants sample_attempted = [(sample_grant, sample_grant_row)]" "db_auth_grants sample_attempted = [(sample_grant, sample_grant_use)]"
  "db_principals sample_attempted = db_principals sample_access_db" "db_auth_principals sample_attempted = db_auth_principals sample_access_db"
  by (simp_all add: same_people_def sample_attempted_def)

lemma sample_accepted: "login_accepted (later 3 sample_access_source) sample_admin sample_verifier sample_attempted"
  using sample_capabilities [OF sample_attempted_fields(1)]
  by (simp add: login_accepted_def live_grants_def count_rows_def authn_limits) (simp add: sample_bytes_def)

lemma sample_admin_valid [simp]: "ManagementID sample_admin"
  by (simp add: ManagementID_def UUID_def sample_admin_def no_dash_def lower_def hex_val_def)

lemma sample_login_audit:
  assumes "cl_PrincipalID c = sample_admin" and "cl_CredentialID c = new_id sample_access_source 3" and "db_records g = []" and "db_auth_audit g = []"
  shows "\<exists>e. audit (later 9 sample_access_source) c ''authenticate'' sample_admin ''success'' '''' None '''' g = Inr ((), e)"
  using sample_audit [of sample_admin c "''authenticate''" "''success''" g 9] assms by (auto simp: optionalID_def)

theorem correct_login_succeeds_witness:
  "\<exists>c e. Authenticate (\<lambda>_. Done) sample_access_source (Inr ()) id sample_login sample_access_db =
     (Inr (Secret ''ovsg_'' (sample_bytes 1), c), e) \<and> cl_PrincipalID c = sample_admin"
proof -
  have login: "find_login ''admin'' sample_attempted = (sample_admin, sample_verifier, False)" by (simp add: find_login_def)
  have "\<exists>c e. Authenticate (\<lambda>_. Done) sample_access_source (Inr ()) id sample_login sample_access_db =
     (Inr (Secret ''ovsg_'' (am_bytes sample_access_source 1), c), e) \<and> cl_PrincipalID c = sample_admin"
    by (rule correct_login_succeeds [where ?d1.0 = sample_attempted and verifier = sample_verifier])
      (use sample_attempt sample_accepted login in \<open>simp_all add: sample_login_def sample_login_audit\<close>, simp_all add: sample_password_def)
  then show ?thesis by simp
qed

lemma sample_login_run:
  "\<exists>c e. Authenticate (\<lambda>_. Done) sample_access_source (Inr ()) id sample_login sample_access_db = (Inr (Secret ''ovsg_'' (sample_bytes 1), c), e)"
proof -
  have login: "find_login ''admin'' sample_attempted = (sample_admin, sample_verifier, False)" by (simp add: find_login_def)
  have "sample_password \<noteq> ''''" "\<not> 1024 < length sample_password" by (simp_all add: sample_password_def)
  moreover obtain c e where "authenticate_tx (later 3 sample_access_source) False sample_admin sample_verifier sample_attempted =
      Inr (Some (Secret ''ovsg_'' (sample_bytes 1), c), e)"
    using authenticate_tx_accepted [OF sample_accepted] sample_login_audit by auto
  ultimately show ?thesis
    using login sample_attempt by (simp add: Authenticate_def sample_login_def store_write_def)
qed

theorem login_needs_password_witness:
  "\<exists>grant c e. Authenticate (\<lambda>_. Done) sample_access_source (Inr ()) id sample_login sample_access_db = (Inr (grant, c), e) \<and>
     cl_CredentialKind c = ''grant'' \<and> Unix (cl_ElevatedUntil c) = 0"
proof -
  obtain c e where *: "Authenticate (\<lambda>_. Done) sample_access_source (Inr ()) id sample_login sample_access_db = (Inr (Secret ''ovsg_'' (sample_bytes 1), c), e)"
    using sample_login_run by blast
  from login_needs_password [OF *] * show ?thesis by auto
qed

lemma sample_second_value: "sample_second = 1720671272"
  unfolding sample_second_def Unix_def by simp

lemma sample_reauthenticate:
  "\<exists>c e. Reauthenticate (\<lambda>_. Done) True sample_access_source (Inr ()) id sample_grant sample_password sample_access_db = (Inr c, e)"
proof -
  let ?a = "later 5 sample_access_source"
  obtain c where c: "claims sample_access_source sample_grant sample_access_db = Inr c" "cl_CredentialKind c = ''grant''" "cl_DisplayName c = ''admin''" "cl_PrincipalID c = sample_admin"
    using sample_claims [of sample_access_db sample_grant_use sample_access_source] by (simp add: sample_grant_use_def)
  obtain b where b: "claims ?a sample_grant sample_attempted = Inr b" "cl_PrincipalID b = sample_admin" "cl_CredentialID b = sample_owner"
      "cl_ExpiresAt b = of_Unix (sample_second + 28800)"
    using sample_claims [of sample_attempted sample_grant_use ?a] by (simp add: sample_grant_use_def)
  define until where "until = 63856268072960000000 + Elevation"
  have "\<not> cl_ExpiresAt b < until" by (simp add: b(4) until_def of_Unix_def sample_second_value Elevation_def seconds_def)
  obtain e where e: "audit (later 3 ?a) (b\<lparr>cl_ElevatedUntil := until\<rparr>) ''reauthenticate'' sample_admin ''success'' '''' None ''''
      (raise_elevation sample_grant until sample_attempted) = Inr ((), e)"
    using sample_audit [of sample_admin "b\<lparr>cl_ElevatedUntil := until\<rparr>" "''reauthenticate''" "''success''" "raise_elevation sample_grant until sample_attempted" 8] b
    by (auto simp: raise_elevation_def optionalID_def sample_owner_valid)
  have "reauthenticate_tx ?a sample_grant True sample_verifier sample_attempted =
      Inr (Some (b\<lparr>cl_ElevatedUntil := until\<rparr>), touch (later 5 ?a) sample_grant (b\<lparr>cl_ElevatedUntil := until\<rparr>) e)"
    using b e \<open>\<not> cl_ExpiresAt b < until\<close> unfolding reauthenticate_tx_def by (simp add: select_row_def Let_def until_def [symmetric])
  moreover have "sample_password \<noteq> ''''" "\<not> 1024 < length sample_password" by (simp_all add: sample_password_def)
  moreover have "attempt Done (later 2 sample_access_source) ''admin'' sample_access_db = (Inr (), sample_attempted)"
    by (simp add: attempt_def store_write_def attempt_tx_def clock_def Let_def watermark_def sample_attempted_def lower_def)
  ultimately show ?thesis
    using c by (simp add: Reauthenticate_def InspectAuth_def store_read_def select_row_def store_write_def)
qed

theorem elevation_needs_password_witness:
  "\<exists>c e. Reauthenticate (\<lambda>_. Done) True sample_access_source (Inr ()) id sample_grant sample_password sample_access_db = (Inr c, e) \<and>
     cl_ElevatedUntil c \<le> 63856268072960000000 + Elevation \<and>
     (\<forall>n c'. claims (later n sample_access_source) sample_grant e = Inr c' \<longrightarrow> cl_ElevatedUntil c' \<le> cl_ElevatedUntil c)"
proof -
  obtain c e where *: "Reauthenticate (\<lambda>_. Done) True sample_access_source (Inr ()) id sample_grant sample_password sample_access_db = (Inr c, e)"
    using sample_reauthenticate by blast
  from elevation_needs_password [OF *] * show ?thesis by auto
qed


section \<open>A bootstrap\<close>

definition sample_empty :: "unit access_db" where
  "sample_empty = sample_access_db\<lparr>db_principals := [], db_auth_principals := [], db_roles := [], db_auth_roles := [],
     db_principal_roles := [], db_grants := [], db_auth_grants := []\<rparr>"

lemma sample_id_value:
  "new_id sample_access_source n =
     ''00000000-0000-4000-8000-0000000000'' @ [hex_char (unat (drop_bit 4 (of_nat n :: 8 word))), hex_char (unat ((of_nat n :: 8 word) AND 15))]"
proof -
  have list: "replicate 15 (0 :: 8 word) @ [w] = [0, 0, 0, 0, 0, 0, 0, 0, 0, 0, 0, 0, 0, 0, 0, w]" for w
    by (simp add: numeral_eq_Suc)
  show ?thesis
    unfolding new_id_def mint_def NewID_def access_source_fields list dashed_def
    by (simp add: hex_char_def hex_digits_def)
qed

lemma sample_ids_distinct: "distinct (map (new_id sample_access_source) [8, 6, 4, 2, 0])"
  by (simp add: sample_id_value hex_char_def hex_digits_def)

lemma sample_templates:
  "\<exists>admin d. insert_templates sample_access_source 0 Templates '''' sample_empty = Inr (admin, d) \<and> db_records d = [] \<and> db_auth_audit d = [] \<and>
     db_principals d = [] \<and> db_auth_principals d = []"
  using sample_ids_distinct
  by (simp add: Templates_def insert_row_def sample_empty_def del: add_2_eq_Suc add_2_eq_Suc')

lemma sample_bootstrap:
  "\<exists>d. Bootstrap Done sample_access_source Templates ''admin'' sample_password sample_empty = (Inr (), d) \<and> db_principals d \<noteq> []"
proof -
  let ?a = sample_access_source
  obtain admin d where d: "insert_templates ?a 0 Templates '''' sample_empty = Inr (admin, d)" "db_records d = []" "db_auth_audit d = []"
    "db_principals d = []" "db_auth_principals d = []"
    using sample_templates by blast
  obtain v where v: "hashPassword sample_key (sample_bytes 0) sample_password = Inr v" by (simp add: hashPassword_def validPassword_def sample_password_def)
  define g' where "g' = d\<lparr>db_principals := [(new_id ?a 10, \<lparr>pr_name = ''admin'', pr_disabled = False, pr_verifier = v\<rparr>)],
    db_auth_principals := [(new_id ?a 10, (new_id ?a 11, sample_second))], db_principal_roles := db_principal_roles d @ [(new_id ?a 10, admin)]\<rparr>"
  obtain e where e: "audit (later 12 ?a) (no_claims\<lparr>cl_PrincipalID := new_id ?a 10\<rparr>) ''bootstrap'' (new_id ?a 10) ''success'' '''' None '''' g' = Inr ((), e)"
    "same_access g' e"
    using sample_audit [of "new_id ?a 10" "no_claims\<lparr>cl_PrincipalID := new_id ?a 10\<rparr>" "''bootstrap''" "''success''" g' 12] d
    by (auto simp: optionalID_def no_claims_def g'_def)
  have "Bootstrap Done ?a Templates ''admin'' sample_password sample_empty = (Inr (), e)"
    using d e(1) v by (simp add: Bootstrap_def store_write_def bootstrap_tx_def Let_def insert_row_def g'_def) (simp add: sample_empty_def)
  moreover have "db_principals e \<noteq> []" using e(2) by (simp add: same_defs g'_def)
  ultimately show ?thesis by blast
qed

theorem administrator_remains_witness:
  "\<exists>d e. Bootstrap Done sample_access_source Templates ''admin'' sample_password sample_empty = (Inr (), d) \<and>
     access_runs {} d e \<and> (\<exists>(x, p)\<in>set (db_principals e). \<not> pr_disabled p \<and> HasPrefix (pr_verifier p) passwordPrefix)"
proof -
  obtain d where d: "Bootstrap Done sample_access_source Templates ''admin'' sample_password sample_empty = (Inr (), d)" "db_principals d \<noteq> []"
    using sample_bootstrap by blast
  have run: "access_runs {} d (snd (attempt Done sample_access_source ''admin'' d))"
    by (rule access_runs_step [OF access_step.attempted [OF prod.collapse [symmetric]]]) simp
  have "db_principals sample_empty = []" "db_principal_roles sample_empty = []" by (simp_all add: sample_empty_def)
  with d(2) administrator_remains [OF d(1) refl _ _ run] have "\<exists>(x, p)\<in>set (db_principals (snd (attempt Done sample_access_source ''admin'' d))).
      \<not> pr_disabled p \<and> HasPrefix (pr_verifier p) passwordPrefix"
    by fastforce
  then show ?thesis using d(1) run by blast
qed

section \<open>Evidence of a command\<close>

lemma security_job_fields:
  assumes "j = fill_job a (security_job x r created)" and "x \<noteq> ''''" and "created \<noteq> 0"
  shows "j_ID j = x" "j_Owner j = rq_Principal (am_request a)" "j_Operation j = rq_Operation (am_request a)"
    "j_Capability j = rq_Capability (am_request a)" "j_RequestID j = rq_ID (am_request a)"
    "j_RequestDomain j = rq_Domain (am_request a)" "j_RequestEpoch j = rq_Epoch (am_request a)" "j_Credential j = rq_Credential (am_request a)"
    "j_State j = ''succeeded''" "j_Handler j = ''none''" "j_Business j = ''success''" "j_Resource j = Some r"
    "j_RelatedObjects j = []" "j_ChangeSet j = ''''" "j_Transaction j = ''''" "j_Sequence j = ''1''"
    "j_Dispatch j = ''not-started''" "j_Commit j = ''not-sent''" "j_Applied j = ''not-applicable''"
    "j_Confirmation j = ''not-applicable''" "j_Reason j = ''security-operation-completed''" "j_Created j = created"
    "rq_Correlation (am_request a) \<noteq> '''' \<Longrightarrow> j_Correlation j = rq_Correlation (am_request a)"
  using assms(2,3) by (simp_all add: assms(1) fill_job_def security_job_def Let_def)

text \<open>The event of a job that is stored with its request.\<close>

lemma security_job_stored:
  assumes "ManagementID x" and "code_text (ref_Kind r)" and "ManagementID (ref_ID r)" and "created \<noteq> 0"
    and q: "ManagementID (rq_Principal q)" "code_text (rq_Operation q)" "code_text (rq_Capability q)" "UUID (rq_ID q)" "rq_ID q \<noteq> ''''"
      "rq_Domain q = ''management''" "ManagementID (rq_Epoch q)" "ManagementID (rq_Credential q)" "ManagementID (rq_Correlation q)" "\<not> ControlOperation (rq_Operation q)"
    and a: "am_request a = q" "\<And>j. am_job_bytes a j = 100" "\<And>r. am_record_bytes a r = 100" "ManagementID (new_id a 3)"
    and d: "map_of (db_jobs d) x = None" "length (db_jobs d) \<le> 1" "db_records d = []"
  shows "\<exists>j e w. CreateJob a (security_job x r created) d = Inr (j, e) \<and> map_of (db_jobs e) x \<noteq> None \<and> db_records e = [(new_id a 3, w)] \<and>
    db_receipts e = db_receipts d"
proof -
  define j where "j = fill_job a (security_job x r created)"
  have x: "x \<noteq> ''''" using assms(1) by (auto simp: ManagementID_def UUID_def)
  have corr: "rq_Correlation (am_request a) \<noteq> ''''" using q(9) a(1) by (auto simp: ManagementID_def UUID_def)
  note f = security_job_fields [OF j_def x assms(4)]
  have reason: "code_text ''security-operation-completed''" "code_text ''job-created''" "code_text ''succeeded''" by (simp_all add: code_text_def alnum_def less_eq_char_def)
  have valid: "job_valid j"
    using assms(1-3) q(1-9) corr unfolding job_valid_def f(1-22) f(23) [OF corr] a(1)
    by (simp add: validRef_def validRelated_def optionalID_def optionalRequest_def Terminal_job_def)
  have room: "job_room j (db_jobs d)"
    using q(10) d(2) by (simp add: job_room_def f evidence_limits a(1))
  define k where "k = j\<lparr>j_Completed := Some (j_Updated j), j_Cancellable := False\<rparr>"
  have k: "j_ID k = x" "j_Sequence k = ''1''" "j_State k = ''succeeded''" "j_Operation k = rq_Operation q" "j_Created k = created"
    "j_RelatedObjects k = []" "j_Resource k = Some r" "j_Capability k = rq_Capability q" "j_RequestID k = rq_ID q" "j_RequestDomain k = rq_Domain q"
    "j_RequestEpoch k = rq_Epoch q" "j_Correlation k = rq_Correlation q" "j_ChangeSet k = ''''" "j_Transaction k = ''''" "j_Reason k = ''security-operation-completed''"
    using f(1-22) f(23) [OF corr] a(1) by (simp_all add: k_def)
  have outcomes: "validOutcomes k" by (simp add: validOutcomes_def k_def f reason)
  let ?d = "d\<lparr>db_revision := db_revision d + 1, db_jobs := update_row x k (db_jobs d @ [(x, k)])\<rparr>"
  have save: "saveJob a True k (d\<lparr>db_jobs := db_jobs d @ [(x, k)]\<rparr>) = Inr (k, ?d)"
    by (simp add: saveJob_def next_sequence_def k a ParseUint_def is_digit_def less_eq_char_def dec_val_def digit_val_def Let_def)
  let ?e = "job_event ''job-created'' (ControlOperation (j_Operation k)) (j_Created k) k"
  have event: "ev_Origin ?e = ''Manager''" "ev_Collection ?e = ''event''" "ev_RelatedObjects ?e = []" "ev_ID ?e = ''''"
    "ev_Actor ?e = ''''" "ev_Credential ?e = ''''" "ev_Operation ?e = ''job-created''" "ev_Result ?e = ''succeeded''" "ev_ChangeSet ?e = ''''"
    "ev_Transaction ?e = ''''" "ev_Job ?e = x" "ev_Reason ?e = ''security-operation-completed''" "ev_DedupKey ?e = ''''" "ev_RequestID ?e = rq_ID q"
    "ev_RequestDomain ?e = rq_Domain q" "ev_RequestEpoch ?e = rq_Epoch q" "ev_Correlation ?e = rq_Correlation q"
    "ev_Capability ?e = rq_Capability q" "ev_Object ?e = Some r"
    by (simp_all add: job_event_def k)
  let ?a = "later 2 a"
  have req: "am_request ?a = q" "new_id ?a (Suc 0) = new_id a 3" "am_record_bytes ?a = am_record_bytes a"
    using a(1) by (simp_all add: later_def new_id_def mint_def numeral_3_eq_3)
  have some: "rq_Correlation q \<noteq> ''''" "rq_Capability q \<noteq> ''''" "rq_Principal q \<noteq> ''''"
    using corr a(1) q by (auto simp: code_text_def ManagementID_def UUID_def)
  have "record_valid (fill_record ?a ?e)"
    using assms(1-3) q a(4) some unfolding record_valid_def
    by (simp add: fill_fields event req reason optionalRequest_def validRef_def validRelated_def optionalID_def)
  then have "record_fits ?a ?e ?d"
    using d(3) a(3) by (simp add: record_fits_def Let_def fill_fields event req record_limit_def evidence_limits)
  from Append_fits [OF this] obtain w e where e: "Append ?a ?e ?d = Inr (new_id a 3, e)" "db_records e = [(new_id a 3, w)]"
    using d(3) by (auto simp: fill_fields event req)
  have "map_of (db_jobs e) x \<noteq> None" "db_receipts e = db_receipts d"
    using Append_frame(1,3) [OF e(1)] by (simp_all add: map_of_update_row d(1) map_of_snoc del: map_of_append)
  moreover have "Terminal_job (j_State j)" by (simp add: f Terminal_job_def)
  ultimately show ?thesis
    using valid room outcomes d(1) save e by (simp add: CreateJob_def Let_def j_def [symmetric] k_def [symmetric] k(1) insert_row_def f(1))
qed

lemma security_audit_stored:
  assumes "ManagementID x" and "code_text op" and "UUID request" and "request \<noteq> ''''" and "code_text (ref_Kind r)" and "ManagementID (ref_ID r)"
    and "ManagementID (cl_PrincipalID c)" and "ManagementID (cl_CredentialID c)" and "ManagementID job"
    and q: "code_text (rq_Capability q)" "ManagementID (rq_Correlation q)"
    and a: "am_request a = q" "\<And>r. am_record_bytes a r = 100" "ManagementID (new_id a 1)"
    and d: "db_records d = [(y, w)]" "y \<noteq> new_id a 1" "db_auth_audit d = []"
  shows "\<exists>e. audit a c op x ''success'' request (Some r) job d = Inr ((), e) \<and> same_access d e \<and>
    db_jobs e = db_jobs d \<and> db_receipts e = db_receipts d"
proof -
  let ?e = "audit_event a c op x ''success'' request (Some r) job"
  have event: "ev_Origin ?e = ''Manager''" "ev_Collection ?e = ''audit''" "ev_RelatedObjects ?e = []" "ev_ID ?e = ''''"
    "ev_Actor ?e = cl_PrincipalID c" "ev_Credential ?e = cl_CredentialID c" "ev_Operation ?e = op" "ev_Result ?e = ''success''" "ev_ChangeSet ?e = ''''"
    "ev_Transaction ?e = ''''" "ev_Job ?e = job" "ev_Reason ?e = ''''" "ev_DedupKey ?e = ''''" "ev_RequestID ?e = request" "ev_RequestDomain ?e = ''''"
    "ev_RequestEpoch ?e = ''''" "ev_Object ?e = Some r" "ev_Correlation ?e = ''''" "ev_Capability ?e = ''''"
    by (simp_all add: audit_event_def)
  have some: "rq_Correlation q \<noteq> ''''" "cl_PrincipalID c \<noteq> ''''" "cl_CredentialID c \<noteq> ''''"
    using assms by (auto simp: ManagementID_def UUID_def)
  have filled: "ev_Correlation (fill_record a ?e) = rq_Correlation q" "ev_Capability (fill_record a ?e) = rq_Capability q"
  proof -
    have "ev_Correlation (fill_record a v) = rq_Correlation q" if "ev_Correlation v = ''''" for v
      using that some(1) a(1) by (simp add: fill_record_def Let_def)
    moreover have "ev_Capability (fill_record a v) = rq_Capability q" if "ev_Capability v = ''''" for v
      using that a(1) by (simp add: fill_record_def Let_def)
    ultimately show "ev_Correlation (fill_record a ?e) = rq_Correlation q" "ev_Capability (fill_record a ?e) = rq_Capability q"
      using event by simp_all
  qed
  have ok: "code_text ''success''" by (simp add: code_text_def alnum_def less_eq_char_def)
  have "record_valid (fill_record a ?e)"
    using assms(1-9) q a(3) some unfolding record_valid_def filled
    by (simp add: fill_fields event ok optionalRequest_def validRef_def validRelated_def optionalID_def)
  then have "record_fits a ?e d"
    using d(1,2) a(2) by (simp add: record_fits_def Let_def fill_fields event record_limit_def evidence_limits)
  moreover have "ev_ID (fill_record a ?e) = new_id a 1" by (simp add: fill_fields event)
  ultimately obtain v g where g: "Append a ?e d = Inr (new_id a 1, g)" using Append_fits [of a ?e d] by auto
  note frame = Append_frame(4) [OF g]
  have "db_auth_audit g = db_auth_audit d" using frame by (cases d; cases g; simp)
  then show ?thesis
    using d(3) g same_more [OF frame] access_more [OF frame] Append_frame(1,3) [OF g] by (simp add: audit_def insert_row_def same_defs)
qed

section \<open>A security command\<close>

definition sample_call :: security_call where
  "sample_call = \<lparr>sc_command = ChangePassword sample_password, sc_path = [sample_admin], sc_parameters = Inr (), sc_decoded = Inr sample_request_id,
     sc_Method = ''PUT'', sc_URI = ''/api/v1/users/password'', sc_Epoch = sample_owner, sc_RequestID = sample_request_id,
     sc_Precondition = quoted ''rev1'', sc_Payload = Some (GNum ''1.50''), sc_PayloadBytes = 4\<rparr>"

definition sample_principal :: Claims where
  "sample_principal = \<lparr>cl_PrincipalID = sample_admin, cl_CredentialID = sample_owner, cl_CredentialKind = ''grant'',
     cl_DisplayName = ''admin'', cl_Capabilities = intersection (unique allCapabilities) allCapabilities, cl_Revision = sample_owner,
     cl_Epoch = sample_owner, cl_RequestEpoch = sample_owner, cl_IssuedAt = of_Unix sample_second,
     cl_ExpiresAt = of_Unix (sample_second + 28800), cl_ElevatedUntil = of_Unix (sample_second + 300)\<rparr>"

definition sample_security_request :: Api_Command where
  "sample_security_request = security_request (replicate 32 0) sample_principal sample_call"

lemma sample_request_fields [simp]:
  "ac_Principal sample_security_request = sample_admin" "ac_Epoch sample_security_request = sample_owner" "ac_Domain sample_security_request = ''management''"
  "ac_ID sample_security_request = sample_request_id" "ac_Operation sample_security_request = ''changePassword''"
  "ac_URI sample_security_request = ''/api/v1/users/password''" "ac_Payload sample_security_request = Some (GNum ''1.50'')"
  "ac_PayloadBytes sample_security_request = 4" "ac_Capability sample_security_request = ''access.users.manage''"
  "ac_Credential sample_security_request = sample_owner" "ac_Sensitive sample_security_request" "ac_FingerprintKey sample_security_request = replicate 32 0"
  "\<not> ac_SecretResponse sample_security_request"
  by (simp_all add: sample_security_request_def security_request_def Let_def sample_call_def sample_principal_def contract_operation_def aliases_def)

abbreviation sample_command_ambient :: access_ambient where
  "sample_command_ambient \<equiv> command_ambient sample_access_source sample_security_request"

lemma sample_command_fields [simp]:
  "am_now sample_command_ambient n = 63856268072960000000" "am_Hash sample_command_ambient = am_Hash sample_access_source"
  "am_record_bytes sample_command_ambient r = 100" "am_job_bytes sample_command_ambient j = 100" "new_id sample_command_ambient n = new_id sample_access_source (Suc n)"
  "am_request sample_command_ambient = \<lparr>rq_Principal = sample_admin, rq_Credential = sample_owner, rq_Capability = ''access.users.manage'',
     rq_Operation = ''changePassword'', rq_Domain = ''management'', rq_Epoch = sample_owner, rq_ID = sample_request_id,
     rq_Correlation = new_id sample_access_source 0\<rparr>"
  by (simp_all add: command_ambient_def with_command_def WithRequest_def) (simp_all add: new_id_def mint_def later_def)

lemma sample_check: "check_call sample_command_ambient sample_grant sample_call sample_access_db = Inr sample_principal"
proof -
  have "claims sample_command_ambient sample_grant sample_access_db = Inr sample_principal"
    using sample_claims [of sample_access_db sample_grant_use sample_command_ambient] by (simp add: sample_grant_use_def sample_principal_def)
  moreover have "''access.users.manage'' \<in> set (cl_Capabilities sample_principal)"
    by (simp add: sample_principal_def allCapabilities_def securityCapabilities_def)
  ultimately show ?thesis
    by (simp add: check_call_def checkOperation_def sample_call_def contract_operation_def require_capability_def aliases_def refsFor_def checkRefs_def
        checkRef_def evidence_Operation_def sample_principal_def)
qed

lemma sample_distinct_ids: "new_id sample_access_source 12 \<noteq> new_id sample_access_source 15"
  "map_of (db_jobs sample_access_db) (new_id sample_access_source 7) = None"
  by (simp_all add: sample_id_value hex_char_def hex_digits_def sample_job_def)

lemma sample_mutated:
  "\<exists>m e. mutate (later 3 sample_command_ambient) sample_principal (ChangePassword sample_password) sample_admin (quoted ''rev1'') sample_verifier
     sample_request_id sample_access_db = Inr (m, e) \<and> same_people sample_access_db (e\<lparr>db_auth_principals := db_auth_principals sample_access_db\<rparr>) \<and>
     map_of (db_auth_principals e) sample_admin \<noteq> None \<and> db_receipts e = [] \<and>
     m = command_answer (later 3 sample_command_ambient) (new_id sample_access_source 7) \<lparr>ref_Kind = ''user'', ref_ID = sample_admin\<rparr> None \<and>
     map_of (db_jobs e) (new_id sample_access_source 7) \<noteq> None"
proof -
  let ?a = "later 3 sample_command_ambient" and ?r = "\<lparr>ref_Kind = ''user'', ref_ID = sample_admin\<rparr>" and ?job = "new_id sample_access_source 7"
  let ?q = "am_request sample_command_ambient"
  obtain e1 where e1: "carry_out ?a sample_principal (ChangePassword sample_password) sample_admin (quoted ''rev1'') sample_verifier sample_access_db =
      Inr ((sample_admin, None), e1)" "db_principals e1 = db_principals sample_access_db" "map_of (db_auth_principals e1) sample_admin \<noteq> None"
    "db_principal_roles e1 = db_principal_roles sample_access_db" "db_roles e1 = db_roles sample_access_db" "db_auth_roles e1 = db_auth_roles sample_access_db"
    "evidence_db.truncate e1 = evidence_db.truncate sample_access_db" "db_auth_audit e1 = []"
    using password_changed [of sample_access_db sample_admin "''rev1''" sample_second ?a sample_principal sample_password sample_verifier]
    by (auto simp: modify_row_def)
  have t1: "db_jobs e1 = db_jobs sample_access_db" "db_records e1 = []" "db_receipts e1 = []"
    using e1(7) by (simp_all add: evidence_db.defs)
  have codes: "code_text ''changePassword''" "code_text ''access.users.manage''" by (simp_all add: code_text_def alnum_def less_eq_char_def)
  have "\<exists>j e w. CreateJob (later 5 ?a) (security_job ?job ?r 63856268072960000000) e1 = Inr (j, e) \<and> map_of (db_jobs e) ?job \<noteq> None \<and>
      db_records e = [(new_id (later 5 ?a) 3, w)] \<and> db_receipts e = db_receipts e1"
    by (rule security_job_stored [where q = ?q])
      (use sample_distinct_ids(2) in \<open>simp_all add: t1 codes sample_owner_valid ControlOperation_def\<close>)
  then obtain j e2 w where e2: "CreateJob (later 5 ?a) (security_job ?job ?r 63856268072960000000) e1 = Inr (j, e2)" "map_of (db_jobs e2) ?job \<noteq> None"
    "db_records e2 = [(new_id sample_access_source 12, w)]" "db_receipts e2 = []"
    using t1(3) by auto
  define g where "g = e2\<lparr>db_auth_revision := new_id (later 5 (later 4 ?a)) 0\<rparr>"
  have s2: "same_access e1 e2" by (rule CreateJob_same [OF e2(1)])
  have "evidence_db.more e2 = evidence_db.more e1" by (rule CreateJob_Inr [OF e2(1)])
  then have a2: "db_auth_audit g = []" using e1(8) by (cases e1; cases e2; simp add: g_def)
  have "\<exists>e. audit (later 10 ?a) sample_principal ''changePassword'' sample_admin ''success'' sample_request_id (Some ?r) ?job g = Inr ((), e) \<and> same_access g e \<and>
    db_jobs e = db_jobs g \<and> db_receipts e = db_receipts g"
    by (rule security_audit_stored [where q = ?q and y = "new_id sample_access_source 12" and w = w])
      (use sample_distinct_ids(1) e2 a2 in \<open>simp_all add: codes sample_owner_valid sample_principal_def g_def\<close>)
  then obtain e where e: "audit (later 10 ?a) sample_principal ''changePassword'' sample_admin ''success'' sample_request_id (Some ?r) ?job g = Inr ((), e)"
    "same_access g e" "db_jobs e = db_jobs g" "db_receipts e = db_receipts g"
    by blast
  have "mutate ?a sample_principal (ChangePassword sample_password) sample_admin (quoted ''rev1'') sample_verifier sample_request_id sample_access_db =
      Inr (command_answer ?a ?job ?r None, e)"
    using e1(1) e2(1) e(1) by (simp add: mutate_def object_kind_def record_command_def record_job_def contract_operation_def g_def Let_def)
  moreover have "same_people sample_access_db (e\<lparr>db_auth_principals := db_auth_principals sample_access_db\<rparr>)" "map_of (db_auth_principals e) sample_admin \<noteq> None"
    using e(2) s2 e1 by (simp_all add: same_defs g_def)
  ultimately show ?thesis using e e2 by (simp add: g_def)
qed

lemma sample_security_tx:
  "\<exists>m e. security_tx sample_grant sample_call sample_verifier sample_command_ambient sample_access_db = Inr (m, e) \<and> db_receipts e = [] \<and>
     m = command_answer (later 3 sample_command_ambient) (new_id sample_access_source 7) \<lparr>ref_Kind = ''user'', ref_ID = sample_admin\<rparr> None \<and>
     map_of (db_jobs e) (new_id sample_access_source 7) \<noteq> None"
proof -
  obtain m e where e: "mutate (later 3 sample_command_ambient) sample_principal (ChangePassword sample_password) sample_admin (quoted ''rev1'') sample_verifier
     sample_request_id sample_access_db = Inr (m, e)" "same_people sample_access_db (e\<lparr>db_auth_principals := db_auth_principals sample_access_db\<rparr>)"
     "map_of (db_auth_principals e) sample_admin \<noteq> None" "db_receipts e = []"
     "m = command_answer (later 3 sample_command_ambient) (new_id sample_access_source 7) \<lparr>ref_Kind = ''user'', ref_ID = sample_admin\<rparr> None"
     "map_of (db_jobs e) (new_id sample_access_source 7) \<noteq> None"
    using sample_mutated by blast
  have call: "sc_command sample_call = ChangePassword sample_password" "path_id sample_call = sample_admin" "sc_Precondition sample_call = quoted ''rev1''"
    "sc_RequestID sample_call = sample_request_id"
    by (simp_all add: sample_call_def path_id_def)
  have "HasPrefix sample_verifier passwordPrefix" by (simp add: sample_verifier_def)
  then have local: "local_principals e = [sample_admin]"
    using e(2,3) by (simp add: local_principals_def same_people_def)
  have "capabilities sample_admin e = Inr (unique allCapabilities)"
    using e(2) by (simp add: allCapabilities_valid same_people_def capabilities_def roles_of_def List.map_filter_def)
  then have admin: "lastAdministrator e = Inr ()" by (simp add: lastAdministrator_def local)
  show ?thesis
    using e(1,4,5,6) sample_check admin by (simp add: security_tx_def call)
qed

lemma sample_command:
  "\<exists>r e. Execute Done sample_access_source ''management'' sample_security_request (Inr ()) (\<lambda>_. Inr ()) (security_tx sample_grant sample_call sample_verifier)
     sample_access_db = (Inr r, e) \<and> db_receipts e \<noteq> []"
proof -
  obtain m e where e: "security_tx sample_grant sample_call sample_verifier sample_command_ambient sample_access_db = Inr (m, e)" "db_receipts e = []"
     "m = command_answer (later 3 sample_command_ambient) (new_id sample_access_source 7) \<lparr>ref_Kind = ''user'', ref_ID = sample_admin\<rparr> None"
     "map_of (db_jobs e) (new_id sample_access_source 7) \<noteq> None"
    using sample_security_tx by blast
  have digest: "fingerprint sample_access_source sample_security_request = Inr ''hmac-sha256:mac''"
    by (simp add: fingerprint_def canonical_number_def trim_sign_def cut_at_def)
  have m: "response_ok ''management'' m e = Inr ()"
    using e(4) by (simp add: e(3) response_ok_def command_answer_def)
  have guard: "admit_guard ''management'' sample_security_request 1720671272960 63856268072960000000 sample_access_db = Inr ()"
    by (simp add: admit_guard_def key_expired_def MaxReceipts_def evidence_limits ControlOperation_def seconds_def)
  have "security_tx sample_grant sample_call sample_verifier (with_command ''management'' sample_security_request (new_id sample_access_source 0)
      (later 1 sample_access_source)) sample_access_db = Inr (m, e)"
    using e(1) by (simp add: command_ambient_def)
  then obtain r g where "execute_tx sample_access_source ''management'' sample_security_request ''hmac-sha256:mac'' 1720671272960 (\<lambda>_. Inr ())
      (security_tx sample_grant sample_call sample_verifier) sample_access_db = Inr (r, g)" "db_receipts g \<noteq> []"
    using e(2) m guard by (simp add: execute_tx_def find_receipt_def record_receipt_def Let_def)
  then show ?thesis
    by (simp add: Execute_def sample_request_time sample_owner_valid digest ValidDocument_def store_write_def)
qed

theorem command_needs_fresh_grant_witness:
  "\<exists>r e c. Execute Done sample_access_source ''management'' sample_security_request (Inr ()) (\<lambda>_. Inr ()) (security_tx sample_grant sample_call sample_verifier)
     sample_access_db = (Inr r, e) \<and> claims sample_command_ambient sample_grant sample_access_db = Inr c \<and> ''access.users.manage'' \<in> set (cl_Capabilities c)"
proof -
  obtain r e where e: "Execute Done sample_access_source ''management'' sample_security_request (Inr ()) (\<lambda>_. Inr ())
     (security_tx sample_grant sample_call sample_verifier) sample_access_db = (Inr r, e)" "db_receipts e \<noteq> []"
    using sample_command by blast
  then have "e \<noteq> sample_access_db" by auto
  moreover have "canonical_capability (sc_command sample_call) = ''access.users.manage''"
    by (simp add: canonical_capability_def contract_operation_def sample_call_def aliases_def)
  ultimately show ?thesis using command_needs_fresh_grant [OF e(1)] e(1) by auto
qed

theorem signed_out_everywhere_witness:
  "\<exists>r e err. Execute Done sample_access_source ''management'' sample_security_request (Inr ()) (\<lambda>_. Inr ()) (security_tx sample_grant sample_call sample_verifier)
     sample_access_db = (Inr r, e) \<and> claims sample_access_source sample_grant e = Inl err"
proof -
  obtain r e where e: "Execute Done sample_access_source ''management'' sample_security_request (Inr ()) (\<lambda>_. Inr ())
     (security_tx sample_grant sample_call sample_verifier) sample_access_db = (Inr r, e)" "db_receipts e \<noteq> []"
    using sample_command by blast
  then have changed: "e \<noteq> sample_access_db" by auto
  have row: "credential_row_of sample_access_source sample_grant sample_access_db = Some sample_grant_row" by (simp add: credential_row_of_def)
  have call: "signs_out (sc_command sample_call)" "cr_principal sample_grant_row = path_id sample_call"
    by (simp_all add: sample_call_def path_id_def signs_out_def sample_grant_row_def)
  have "access_runs {} e e" by (rule access_runs.none)
  from signed_out_everywhere [OF e(1) changed call(1) row call(2) this refl] e(1) show ?thesis by blast
qed

section \<open>A reset by a user manager\<close>

text \<open>A manager who holds only the reading and security capabilities, with an administrator as the target.\<close>

definition sample_manager :: string where "sample_manager = ''00000000-0000-4000-8000-0000000000c5''"
definition sample_manager_role :: string where "sample_manager_role = ''00000000-0000-4000-8000-0000000000c7''"

definition sample_limits :: "string list" where
  "sample_limits = readCapabilities @ securityCapabilities"

definition sample_manager_db :: "unit access_db" where
  "sample_manager_db = sample_access_db\<lparr>
     db_principals := [(sample_admin, \<lparr>pr_name = ''admin'', pr_disabled = False, pr_verifier = passwordPrefix @ ''unknown''\<rparr>),
       (sample_manager, \<lparr>pr_name = ''manager'', pr_disabled = False, pr_verifier = sample_verifier\<rparr>)],
     db_auth_principals := [(sample_admin, (''rev1'', sample_second)), (sample_manager, (''rev3'', sample_second))],
     db_roles := [(sample_admin_role, Some allCapabilities), (sample_manager_role, Some sample_limits)],
     db_auth_roles := [(sample_admin_role, (''Administrator'', ''rev2'')), (sample_manager_role, (''Manager'', ''rev4''))],
     db_principal_roles := [(sample_admin, sample_admin_role), (sample_manager, sample_manager_role)],
     db_grants := [(sample_grant, sample_grant_row\<lparr>cr_principal := sample_manager, cr_ceiling := Some sample_limits\<rparr>)]\<rparr>"

lemma sample_manager_fields [simp]:
  "db_principals sample_manager_db = [(sample_admin, \<lparr>pr_name = ''admin'', pr_disabled = False, pr_verifier = passwordPrefix @ ''unknown''\<rparr>),
     (sample_manager, \<lparr>pr_name = ''manager'', pr_disabled = False, pr_verifier = sample_verifier\<rparr>)]"
  "db_auth_principals sample_manager_db = [(sample_admin, (''rev1'', sample_second)), (sample_manager, (''rev3'', sample_second))]"
  "db_roles sample_manager_db = [(sample_admin_role, Some allCapabilities), (sample_manager_role, Some sample_limits)]"
  "db_auth_roles sample_manager_db = [(sample_admin_role, (''Administrator'', ''rev2'')), (sample_manager_role, (''Manager'', ''rev4''))]"
  "db_principal_roles sample_manager_db = [(sample_admin, sample_admin_role), (sample_manager, sample_manager_role)]"
  "db_grants sample_manager_db = [(sample_grant, sample_grant_row\<lparr>cr_principal := sample_manager, cr_ceiling := Some sample_limits\<rparr>)]"
  "db_auth_grants sample_manager_db = [(sample_grant, sample_grant_use)]"
  "db_auth_epoch sample_manager_db = sample_owner" "db_auth_revision sample_manager_db = sample_owner" "db_auth_watermark sample_manager_db = 0"
  "db_auth_audit sample_manager_db = []" "db_receipts sample_manager_db = []" "db_records sample_manager_db = []" "db_epoch sample_manager_db = sample_owner"
  "db_jobs sample_manager_db = [(j_ID sample_job, sample_job)]" "db_high_watermark sample_manager_db = 0"
  by (simp_all add: sample_manager_db_def)

lemma sample_manager_differs [simp]: "sample_manager \<noteq> sample_admin" "sample_admin \<noteq> sample_manager"
  "sample_manager_role \<noteq> sample_admin_role" "sample_admin_role \<noteq> sample_manager_role" "ManagementID sample_manager"
  by (simp_all add: sample_manager_def sample_admin_def sample_manager_role_def sample_admin_role_def ManagementID_def UUID_def no_dash_def
      lower_def hex_val_def)

lemma sample_limits_valid: "validateCapabilities sample_limits = Inr ()"
proof -
  have "distinct sample_limits" by (simp add: sample_limits_def readCapabilities_def securityCapabilities_def)
  moreover have "\<forall>c\<in>set sample_limits. knownCapability c"
    by (simp add: sample_limits_def known_iff) (auto simp: allCapabilities_def)
  moreover have "length sample_limits \<le> 128" by (simp add: sample_limits_def readCapabilities_def securityCapabilities_def)
  ultimately show ?thesis by simp
qed

definition sample_manager_claims :: Claims where
  "sample_manager_claims = \<lparr>cl_PrincipalID = sample_manager, cl_CredentialID = sample_owner, cl_CredentialKind = ''grant'',
     cl_DisplayName = ''manager'', cl_Capabilities = intersection (unique sample_limits) sample_limits, cl_Revision = sample_owner,
     cl_Epoch = sample_owner, cl_RequestEpoch = sample_owner, cl_IssuedAt = of_Unix sample_second,
     cl_ExpiresAt = of_Unix (sample_second + 28800), cl_ElevatedUntil = of_Unix (sample_second + 300)\<rparr>"

lemma sample_manager_capabilities: "capabilities sample_manager sample_manager_db = Inr (unique sample_limits)"
  "capabilities sample_admin sample_manager_db = Inr (unique allCapabilities)"
  by (simp_all add: sample_limits_valid allCapabilities_valid capabilities_def roles_of_def List.map_filter_def)

lemma sample_manager_claimed: "claims (later n sample_access_source) sample_grant sample_manager_db = Inr sample_manager_claims"
  using sample_manager_capabilities(1)
  by (simp add: sample_limits_valid claims_def clock_def find_credential_def grant_view_def with_principal_def credential_dead_def sample_manager_claims_def
      sample_grant_row_def sample_grant_use_def SessionIdle_def SessionAbsolute_def seconds_def)

definition sample_reset :: Api_Command where
  "sample_reset = security_request (replicate 32 0) sample_manager_claims sample_call"

lemma sample_reset_fields [simp]:
  "ac_Principal sample_reset = sample_manager" "ac_Epoch sample_reset = sample_owner" "ac_Domain sample_reset = ''management''"
  "ac_ID sample_reset = sample_request_id" "ac_Operation sample_reset = ''changePassword''"
  "ac_URI sample_reset = ''/api/v1/users/password''" "ac_Payload sample_reset = Some (GNum ''1.50'')"
  "ac_PayloadBytes sample_reset = 4" "ac_Capability sample_reset = ''access.users.manage''"
  "ac_Credential sample_reset = sample_owner" "ac_Sensitive sample_reset" "ac_FingerprintKey sample_reset = replicate 32 0"
  "\<not> ac_SecretResponse sample_reset"
  by (simp_all add: sample_reset_def security_request_def Let_def sample_call_def sample_manager_claims_def contract_operation_def aliases_def)

abbreviation sample_reset_ambient :: access_ambient where
  "sample_reset_ambient \<equiv> command_ambient (later 8 sample_access_source) sample_reset"

lemma sample_reset_ambient_fields [simp]:
  "am_now sample_reset_ambient n = 63856268072960000000" "am_record_bytes sample_reset_ambient r = 100" "am_job_bytes sample_reset_ambient j = 100"
  "new_id sample_reset_ambient n = new_id sample_access_source (n + 9)"
  "am_request sample_reset_ambient = \<lparr>rq_Principal = sample_manager, rq_Credential = sample_owner, rq_Capability = ''access.users.manage'',
     rq_Operation = ''changePassword'', rq_Domain = ''management'', rq_Epoch = sample_owner, rq_ID = sample_request_id,
     rq_Correlation = new_id sample_access_source 8\<rparr>"
  by (simp_all add: command_ambient_def with_command_def WithRequest_def) (simp_all add: new_id_def mint_def later_def add.commute)

lemma sample_reset_ids: "new_id sample_access_source 20 \<noteq> new_id sample_access_source 23"
  "map_of (db_jobs sample_manager_db) (new_id sample_access_source 15) = None"
  by (simp_all add: sample_id_value hex_char_def hex_digits_def sample_job_def)

lemma sample_reset_evidence:
  assumes "db_jobs d = db_jobs sample_manager_db" and "db_records d = []" and "db_auth_audit d = []"
  shows "\<exists>e. record_command (later 7 sample_reset_ambient) sample_manager_claims ''changePassword'' sample_request_id (new_id sample_access_source 15)
      \<lparr>ref_Kind = ''user'', ref_ID = sample_admin\<rparr> None d = Inr e \<and> map_of (db_jobs e) (new_id sample_access_source 15) \<noteq> None"
proof -
  let ?a = "later 7 sample_reset_ambient" and ?r = "\<lparr>ref_Kind = ''user'', ref_ID = sample_admin\<rparr>" and ?job = "new_id sample_access_source 15"
  have codes: "code_text ''changePassword''" "code_text ''access.users.manage''" by (simp_all add: code_text_def alnum_def less_eq_char_def)
  have "\<exists>j e w. CreateJob (later 1 ?a) (security_job ?job ?r 63856268072960000000) d = Inr (j, e) \<and> map_of (db_jobs e) ?job \<noteq> None \<and>
      db_records e = [(new_id (later 1 ?a) 3, w)] \<and> db_receipts e = db_receipts d"
    by (rule security_job_stored [where q = "am_request sample_reset_ambient"])
      (use sample_reset_ids(2) in \<open>simp_all add: assms codes sample_owner_valid ControlOperation_def\<close>)
  then obtain j f w where f: "CreateJob (later 1 ?a) (security_job ?job ?r 63856268072960000000) d = Inr (j, f)" "map_of (db_jobs f) ?job \<noteq> None"
    "db_records f = [(new_id sample_access_source 20, w)]"
    by auto
  define g where "g = f\<lparr>db_auth_revision := new_id (later 5 ?a) 0\<rparr>"
  have "evidence_db.more f = evidence_db.more d" by (rule CreateJob_Inr [OF f(1)])
  then have audit_rows: "db_auth_audit g = []" using assms(3) by (cases d; cases f; simp add: g_def)
  have "\<exists>e. audit (later 6 ?a) sample_manager_claims ''changePassword'' sample_admin ''success'' sample_request_id (Some ?r) ?job g = Inr ((), e) \<and>
    same_access g e \<and> db_jobs e = db_jobs g \<and> db_receipts e = db_receipts g"
    by (rule security_audit_stored [where q = "am_request sample_reset_ambient" and y = "new_id sample_access_source 20" and w = w])
      (use sample_reset_ids(1) f audit_rows in \<open>simp_all add: codes sample_owner_valid sample_manager_claims_def g_def\<close>)
  then obtain e where "audit (later 6 ?a) sample_manager_claims ''changePassword'' sample_admin ''success'' sample_request_id (Some ?r) ?job g = Inr ((), e)"
    "db_jobs e = db_jobs g"
    by blast
  then show ?thesis using f(1,2) by (simp add: record_command_def record_job_def g_def)
qed

lemma sample_reset_recorded:
  "reset_recorded (later 8 sample_access_source) sample_manager_claims sample_reset sample_admin sample_verifier sample_manager_db"
proof -
  let ?p = "password_set (later 3 sample_reset_ambient) sample_admin sample_verifier sample_manager_db"
  have p: "db_jobs ?p = db_jobs sample_manager_db" "db_records ?p = []" "db_auth_audit ?p = []" by (simp_all add: password_set_def)
  from sample_reset_evidence [OF this] obtain e where
    e: "record_command (later 7 sample_reset_ambient) sample_manager_claims ''changePassword'' sample_request_id (new_id sample_access_source 15)
      \<lparr>ref_Kind = ''user'', ref_ID = sample_admin\<rparr> None ?p = Inr e" "map_of (db_jobs e) (new_id sample_access_source 15) \<noteq> None"
    by blast
  have same: "same_people ?p e" using record_command_same [OF e(1)] by (simp add: same_defs)
  have "HasPrefix sample_verifier passwordPrefix" by (simp add: sample_verifier_def)
  then have local: "local_principals e = [sample_admin, sample_manager]"
    using same by (simp add: local_principals_def same_people_def password_set_def modify_row_def)
  have "capabilities sample_admin e = capabilities sample_admin sample_manager_db"
    using same by (simp add: capabilities_def roles_of_def same_people_def password_set_def)
  then have admin: "lastAdministrator e = Inr ()" by (simp add: lastAdministrator_def local sample_manager_capabilities)
  have answer: "response_ok ''management'' (command_answer (later 3 sample_reset_ambient) (new_id sample_access_source 15)
      \<lparr>ref_Kind = ''user'', ref_ID = sample_admin\<rparr> None) e = Inr ()"
    using e(2) by (simp add: response_ok_def command_answer_def)
  have mac: "am_hmac (later 8 sample_access_source) k v = ''mac''" for k v by (simp add: later_def)
  have digest: "fingerprint (later 8 sample_access_source) sample_reset = Inr ''hmac-sha256:mac''"
    by (simp add: mac fingerprint_def canonical_number_def trim_sign_def cut_at_def)
  have guard: "admit_guard ''management'' sample_reset 1720671272960 63856268072960000000 sample_manager_db = Inr ()"
    by (simp add: admit_guard_def key_expired_def MaxReceipts_def evidence_limits ControlOperation_def seconds_def)
  show ?thesis
    using e(1) admin answer digest guard
    by (simp add: reset_recorded_def Let_def sample_request_time sample_owner_valid ValidDocument_def find_receipt_def)
qed

theorem password_reset_beyond_ceiling_witness:
  "\<exists>r e. ExecuteAuth Done True (replicate 32 0) sample_access_source (Inr ()) id sample_grant sample_call sample_manager_db = (Inr r, e) \<and>
     find_login ''admin'' e = (sample_admin, sample_verifier, False) \<and> verifyPassword sample_key sample_password sample_verifier \<and>
     \<not> granted e sample_admin \<subseteq> set (cl_Capabilities sample_manager_claims)"
proof -
  have call: "sc_command sample_call = ChangePassword sample_password" "sc_path sample_call = [sample_admin]" "sc_parameters sample_call = Inr ()"
    "sc_decoded sample_call = Inr (sc_RequestID sample_call)" "sc_Precondition sample_call = quoted ''rev1''" "etagPattern (quoted ''rev1'')"
    by (simp_all add: sample_call_def etagPattern_def quoted_def alnum_def is_digit_def less_eq_char_def)
  have login: "find_login ''admin'' sample_manager_db = (sample_admin, passwordPrefix @ ''unknown'', False)" by (simp add: find_login_def)
  have hash: "hashPassword (am_IDKey sample_access_source) (am_bytes sample_access_source 2) sample_password = Inr sample_verifier"
    by (simp add: hashPassword_def validPassword_def sample_password_def sample_verifier_def sample_bytes_def)
  have "\<exists>r e. ExecuteAuth Done True (replicate 32 0) sample_access_source (Inr ()) id sample_grant sample_call sample_manager_db = (Inr r, e) \<and>
     \<not> rs_Replayed r \<and> find_login ''admin'' e = (sample_admin, sample_verifier, False) \<and>
     verifyPassword (am_IDKey sample_access_source) sample_password sample_verifier \<and> granted e sample_admin = granted sample_manager_db sample_admin"
  proof (rule password_reset_beyond_ceiling [OF call sample_admin_valid sample_manager_claimed _ _ _ login _ hash])
    show "reset_recorded (later 8 sample_access_source) sample_manager_claims (security_request (replicate 32 0) sample_manager_claims sample_call)
        sample_admin sample_verifier sample_manager_db"
      using sample_reset_recorded by (simp add: sample_reset_def)
  qed (simp_all add: sample_manager_claims_def intersection_def sample_limits_def securityCapabilities_def sample_bytes_def sample_key_def)
  moreover have "granted sample_manager_db sample_admin = set allCapabilities"
    using capabilities_granted [OF sample_manager_capabilities(2)] by simp
  moreover have "''ovs.bridge.create'' \<in> set allCapabilities" by (simp add: allCapabilities_def networkCapabilities_def)
  moreover have "''ovs.bridge.create'' \<notin> set (cl_Capabilities sample_manager_claims)"
    by (simp add: sample_manager_claims_def intersection_def sample_limits_def readCapabilities_def securityCapabilities_def)
  ultimately show ?thesis by auto
qed

end
