(* ===== verification/Draft_Samples.thy ===== *)
theory Draft_Samples
  imports Draft_Guarantees Access_Samples Candidate_Compensation Engine_Ticks
begin

text \<open>
  A manager database with one administrator, one live grant, a draft that changes an MTU, its witness and its
  stored validation, on which the properties of drafts are instantiated.
\<close>

section \<open>A draft and its tables\<close>

definition sample_sealed :: Envelope where
  "sample_sealed = Sign sample_mac (replicate 32 0)
     \<lparr>e_Owner = sample_admin, e_Epoch = sample_owner, e_Sequence = 1, e_Candidate = sample_draft 9000, e_Seal = ''''\<rparr>"

definition sample_draft_source :: draft_ambient where
  "sample_draft_source = access_ambient.extend sample_access_source
     \<lparr>dr_key = replicate 32 0, dr_mac = sample_mac, dr_hash = (\<lambda>e. c_Revision (e_Candidate e)), dr_topology = sample_ops,
      dr_provider = Some (\<lambda>_. (sample_mtu_snapshot, None)), dr_safety = True, dr_engine = True, dr_sha256 = (\<lambda>_. ''sha''),
      dr_scope = (\<lambda>_ _ _ _. ''scope''), dr_record_bytes = (\<lambda>_. 100), dr_answer_bytes = (\<lambda>_. 100)\<rparr>"

definition sample_validation :: validationRecord where
  "sample_validation =
     \<lparr>vr_Validation = \<lparr>vd_ID = sample_owner, vd_CandidateID = sample_id, vd_CandidateRevision = sample_id, vd_Generation = ''g1'',
        vd_ConfigRevision = ''r1'', vd_PolicyRevision = sample_owner, vd_Expires = 63856268072960000000 + ValidFor, vd_Job = None,
        vd_State = ''passed'', vd_Checks = [], vd_Diff = [], vd_ChangeSetID = sample_owner, vd_Usable = True, vd_Invalidations = [],
        vd_Risk = '''', vd_ExecutionReady = False\<rparr>,
      vr_Credential = sample_owner, vr_AuthEpoch = sample_owner, vr_RequestEpoch = sample_owner, vr_Capabilities = ''digest'',
      vr_ProviderPolicy = ''p1'', vr_Validator = ValidatorVersion\<rparr>"

definition sample_stored :: validation_row where
  "sample_stored = \<lparr>vl_candidate = sample_id, vl_revision = sample_id, vl_job = sample_owner, vl_changeset = sample_owner,
     vl_created = 1720671272960, vl_envelope = Some sample_sealed, vl_document = Some sample_validation\<rparr>"

definition sample_draft_db :: draft_db where
  "sample_draft_db = journal_db.extend (requests_db.extend sample_requests_db
     \<lparr>db_anchors = [], db_journal = [], db_execs = [], db_safes = [], db_protections = [], db_identities = [], db_creations = [],
      db_resolutions = [], db_last_known_good = None\<rparr>)
     \<lparr>db_principals = [(sample_admin, \<lparr>pr_name = ''admin'', pr_disabled = False, pr_verifier = sample_verifier\<rparr>)],
      db_auth_principals = [(sample_admin, (''rev1'', sample_second))],
      db_roles = [(sample_admin_role, Some allCapabilities)], db_auth_roles = [(sample_admin_role, (''Administrator'', ''rev2''))],
      db_principal_roles = [(sample_admin, sample_admin_role)],
      db_grants = [(sample_grant, sample_grant_row)], db_auth_grants = [(sample_grant, sample_grant_use)],
      db_tokens = [], db_auth_tokens = [], db_attempts = [], db_auth_epoch = sample_owner, db_auth_revision = sample_owner,
      db_auth_watermark = 0, db_auth_audit = [], db_inventory = None,
      db_witnesses = [(sample_admin, witness_of sample_draft_source sample_sealed)],
      db_validations = [(sample_owner, (sample_admin, sample_stored))], db_resolved = [], db_certificates = []\<rparr>"

lemma sample_draft_tables [simp]:
  "db_principals sample_draft_db = [(sample_admin, \<lparr>pr_name = ''admin'', pr_disabled = False, pr_verifier = sample_verifier\<rparr>)]"
  "db_auth_principals sample_draft_db = [(sample_admin, (''rev1'', sample_second))]"
  "db_roles sample_draft_db = [(sample_admin_role, Some allCapabilities)]"
  "db_auth_roles sample_draft_db = [(sample_admin_role, (''Administrator'', ''rev2''))]"
  "db_principal_roles sample_draft_db = [(sample_admin, sample_admin_role)]"
  "db_grants sample_draft_db = [(sample_grant, sample_grant_row)]" "db_auth_grants sample_draft_db = [(sample_grant, sample_grant_use)]"
  "db_tokens sample_draft_db = []" "db_auth_tokens sample_draft_db = []" "db_auth_epoch sample_draft_db = sample_owner"
  "db_auth_revision sample_draft_db = sample_owner" "db_auth_watermark sample_draft_db = 0" "db_epoch sample_draft_db = sample_owner"
  "db_witnesses sample_draft_db = [(sample_admin, witness_of sample_draft_source sample_sealed)]"
  "db_validations sample_draft_db = [(sample_owner, (sample_admin, sample_stored))]"
  "db_resolved sample_draft_db = []" "db_resolutions sample_draft_db = []"
  by (simp_all add: sample_draft_db_def sample_requests_db_def journal_db.defs requests_db.defs evidence_db.defs)

lemma draft_source_fields [simp]:
  "am_now sample_draft_source n = 63856268072960000000" "am_Hash sample_draft_source s = s"
  "h_Digest (am_host sample_draft_source) v = ''digest''" "dr_key sample_draft_source = replicate 32 0" "dr_mac sample_draft_source = sample_mac"
  "dr_hash sample_draft_source e = c_Revision (e_Candidate e)" "dr_topology sample_draft_source = sample_ops"
  "dr_provider sample_draft_source = Some (\<lambda>_. (sample_mtu_snapshot, None))" "dr_safety sample_draft_source" "dr_engine sample_draft_source"
  "dr_sha256 sample_draft_source v = ''sha''" "dr_scope sample_draft_source w x y z = ''scope''" "dr_answer_bytes sample_draft_source k = 100"
  by (simp_all add: sample_draft_source_def sample_access_source_def sample_requests_source_def sample_source_def access_ambient.defs
      requests_ambient.defs evidence_ambient.defs)

lemma sample_draft_capabilities: "same_people sample_draft_db d \<Longrightarrow> capabilities sample_admin d = Inr (unique allCapabilities)"
  by (simp add: allCapabilities_valid same_people_def capabilities_def roles_of_def List.map_filter_def)

lemma sample_draft_claims:
  assumes "same_access sample_draft_db d" and "db_auth_epoch d = sample_owner" "db_auth_revision d = sample_owner" "db_epoch d = sample_owner"
    and "db_auth_watermark d = 0" and "\<forall>n. am_now a n = 63856268072960000000" and "am_Hash a sample_grant = sample_grant"
  shows "claims a sample_grant d = Inr sample_principal"
  using assms sample_draft_capabilities [of d]
  by (simp add: allCapabilities_valid same_defs claims_def clock_def find_credential_def grant_view_def with_principal_def credential_dead_def
      sample_grant_row_def sample_grant_use_def sample_principal_def SessionIdle_def SessionAbsolute_def seconds_def)

text \<open>The capabilities that the calls on a draft ask for.\<close>

lemma sample_holds: "''configuration.read'' \<in> set (cl_Capabilities sample_principal)" "''inventory.read'' \<in> set (cl_Capabilities sample_principal)"
  "''workspace.read'' \<in> set (cl_Capabilities sample_principal)" "''configuration.apply'' \<in> set (cl_Capabilities sample_principal)"
  "''configuration.confirm'' \<in> set (cl_Capabilities sample_principal)" "''ovs.interface.mtu.write'' \<in> set (cl_Capabilities sample_principal)"
  by (simp_all add: sample_principal_def allCapabilities_def readCapabilities_def networkCapabilities_def)

lemma sample_aliases: "map_of aliases ''configuration.read'' = None" "map_of aliases ''inventory.read'' = None"
  "map_of aliases ''workspace.read'' = Some ''workspace.read''" "map_of aliases ''config.apply'' = Some ''configuration.apply''"
  by (simp_all add: aliases_def)

lemma sample_known: "knownCapability ''configuration.read''" "knownCapability ''inventory.read''"
  by code_simp+

lemma sample_required:
  "require_capability sample_principal ''configuration.read'' False now = Inr ()"
  "require_capability sample_principal ''inventory.read'' False now = Inr ()"
  "require_capability sample_principal ''workspace.read'' False now = Inr ()"
  "require_capability sample_principal ''config.apply'' False now = Inr ()"
  using sample_holds by (simp_all add: require_capability_def sample_aliases sample_known)

lemma sample_candidate_claims:
  assumes "same_access sample_draft_db d" and "db_auth_epoch d = sample_owner" "db_auth_revision d = sample_owner" "db_epoch d = sample_owner"
    and "db_auth_watermark d = 0" and "cap \<in> {''workspace.read'', ''config.apply''}"
  shows "candidateClaims (later k sample_draft_source) sample_grant cap d = Inr sample_principal"
    "candidateClaims sample_draft_source sample_grant cap d = Inr sample_principal"
    "CheckAuth True sample_draft_source sample_grant cap [] d = Inr sample_principal"
proof -
  have c: "claims (later k sample_draft_source) sample_grant d = Inr sample_principal"
    "claims sample_draft_source sample_grant d = Inr sample_principal" for k
    by (rule sample_draft_claims [OF assms(1-5)]; simp)+
  show "candidateClaims (later k sample_draft_source) sample_grant cap d = Inr sample_principal"
    "candidateClaims sample_draft_source sample_grant cap d = Inr sample_principal"
    "CheckAuth True sample_draft_source sample_grant cap [] d = Inr sample_principal"
    using assms(6) by (auto simp: candidateClaims_def CheckAuth_def checkRefs_def c sample_required)
qed

lemma sample_seal_verifies: "Verify sample_mac (replicate 32 0) sample_admin sample_sealed = None"
proof -
  have "signature sample_mac (replicate 32 0) sample_sealed = e_Seal sample_sealed"
    by (simp add: sample_sealed_def Sign_def signature_def sample_mac_def)
  then show ?thesis
    by (simp add: Verify_def sample_sealed_def Sign_def MaxIntents_def sample_owner_valid) (simp add: sample_draft_def single_def sample_candidate_def)
qed

lemma sample_sealed_fields [simp]:
  "e_Owner sample_sealed = sample_admin" "e_Epoch sample_sealed = sample_owner" "e_Sequence sample_sealed = 1"
  "e_Candidate sample_sealed = sample_draft 9000"
  by (simp_all add: sample_sealed_def Sign_def)

section \<open>The calls\<close>

lemma sample_fence: "db_witnesses d = db_witnesses sample_draft_db \<Longrightarrow> candidateFence (later k sample_draft_source) sample_sealed b d = Inr d"
  by (simp add: candidateFence_def Let_def witness_of_def)

lemma sample_readable: "\<not> treeReadDenied (sample_draft 9000) (cl_Capabilities sample_principal)"
  by (simp add: treeReadDenied_def sample_holds)

lemma sample_draft_read:
  "\<exists>v d'. ReadCandidate Done True sample_draft_source sample_grant sample_sealed '''' sample_draft_db = (Inr v, d')"
proof -
  note c = sample_candidate_claims [of sample_draft_db "''workspace.read''"]
  let ?s = "candidateSnapshot sample_draft_source (Bindings (sample_draft 9000))"
  have "\<exists>v d'. read_tx (later 3 sample_draft_source) sample_grant ''workspace.read'' sample_sealed None ?s sample_draft_db = Inr (v, d')"
    using c sample_fence [of sample_draft_db 3 True] by (simp add: read_tx_def sample_readable same_defs Let_def)
  then obtain v d' where tx: "read_tx (later 3 sample_draft_source) sample_grant ''workspace.read'' sample_sealed None ?s sample_draft_db = Inr (v, d')"
    by blast
  have "CheckAuth True sample_draft_source sample_grant ''workspace.read'' [] sample_draft_db = Inr sample_principal"
    using c by (simp add: same_defs)
  moreover have "cl_PrincipalID sample_principal = sample_admin" by (simp add: sample_principal_def)
  ultimately show ?thesis
    using tx by (simp add: ReadCandidate_def read_capability_def sample_seal_verifies sample_readable store_write_def)
qed

theorem drafts_never_go_back_witness:
  "draft_runs sample_draft_db sample_draft_db \<and>
   map_of (db_witnesses sample_draft_db) (e_Owner sample_sealed) = Some (witness_of sample_draft_source sample_sealed) \<and>
   wn_sequence (witness_of sample_draft_source sample_sealed) \<le> e_Sequence sample_sealed"
proof -
  have w: "map_of (db_witnesses sample_draft_db) (e_Owner sample_sealed) = Some (witness_of sample_draft_source sample_sealed)" by simp
  from drafts_never_go_back [OF draft_runs.rest w, of sample_draft_source] sample_draft_read w draft_runs.rest show ?thesis by blast
qed

theorem drafts_keep_access_witness:
  "\<exists>d'. draft_step sample_draft_db d' \<and> access_runs {} sample_draft_db d'"
proof -
  obtain v d' where "ReadCandidate Done True sample_draft_source sample_grant sample_sealed '''' sample_draft_db = (Inr v, d')"
    using sample_draft_read by blast
  then have step: "draft_step sample_draft_db d'" by (rule draft_step.seen)
  from drafts_keep_access [OF step] step show ?thesis by blast
qed

definition sample_operation :: Operation where
  "sample_operation = \<lparr>op_ID = ''createTransaction'', op_Domain = ''management'', op_Capability = ''config.apply'',
     op_ResourceKind = '''', op_Sensitive = False, op_SecretResponse = False\<rparr>"

definition sample_safe_request :: safe_request where
  "sample_safe_request =
     \<lparr>sq_Envelope = sample_sealed,
      sq_Command = \<lparr>dc_operation = Inr (sample_operation, []), dc_query = 0, dc_parameters = Inr (), dc_decoded = Inr sample_request_id,
        dc_body = Some \<lparr>sm_Candidate = sample_id, sm_Revision = sample_id, sm_Validation = sample_owner, sm_Mode = ''safe-apply''\<rparr>,
        dc_Method = ''POST'', dc_URI = ''/api/v1/transactions'', dc_Epoch = sample_owner, dc_RequestID = sample_request_id,
        dc_Precondition = '''', dc_Payload = None, dc_PayloadBytes = 0\<rparr>,
      sq_Reservation = sample_id, sq_document = GNil, sq_document_bytes = 4\<rparr>"

lemma sample_draft_named [simp]: "c_ID (sample_draft n) = sample_id" "c_Revision (sample_draft n) = sample_id"
  by (simp_all add: sample_draft_def single_def sample_candidate_def)

lemma sample_safe_command: "\<exists>q. safeCommand sample_draft_source sample_safe_request = Inr q"
  by (simp add: safeCommand_def candidateCommand_def sample_safe_request_def sample_operation_def Let_def MaxDocument_def)
    (simp add: sample_draft_source_def sample_access_source_def sample_requests_source_def sample_source_def access_ambient.defs
      requests_ambient.defs evidence_ambient.defs)

lemma draft_source_evidence [simp]:
  "am_request (later k sample_draft_source) = no_request" "am_record_bytes (later k sample_draft_source) r = 100"
  "new_id (later k sample_draft_source) n = new_id sample_access_source (k + n)"
  "new_id sample_draft_source n = new_id sample_access_source n"
  by (simp_all add: later_def new_id_def mint_def sample_draft_source_def sample_access_source_def sample_requests_source_def sample_source_def
      access_ambient.defs requests_ambient.defs evidence_ambient.defs)

lemma sample_resolution_recorded:
  assumes "db_records d = []"
  shows "\<exists>x e. Append (later 6 sample_draft_source) (resolution_audit sample_principal None created) d = Inr (x, e)"
proof -
  let ?a = "later 6 sample_draft_source"
  let ?r = "resolution_audit sample_principal None created"
  have event: "ev_Origin ?r = ''Manager''" "ev_Collection ?r = ''audit''" "ev_RelatedObjects ?r = []" "ev_ID ?r = ''''"
    "ev_Actor ?r = sample_admin" "ev_Credential ?r = sample_owner" "ev_Operation ?r = ''safe-workspace-resolved''" "ev_Result ?r = ''resolved''"
    "ev_ChangeSet ?r = ''''" "ev_Transaction ?r = ''''" "ev_Job ?r = ''''" "ev_Reason ?r = ''''" "ev_DedupKey ?r = ''''" "ev_RequestID ?r = ''''"
    "ev_Correlation ?r = ''''" "ev_Capability ?r = ''workspace.read''" "ev_Object ?r = None"
    by (simp_all add: resolution_audit_def sample_principal_def)
  have codes: "code_text ''safe-workspace-resolved''" "code_text ''resolved''" "code_text ''workspace.read''"
    by (simp_all add: code_text_def alnum_def less_eq_char_def)
  have request: "am_request ?a = no_request" "rq_Principal no_request = ''''" "rq_Credential no_request = ''''" by (simp_all add: no_request_def)
  have some: "sample_owner \<noteq> ''''" by (simp add: sample_owner_def)
  have "record_valid (fill_record ?a ?r)"
    unfolding record_valid_def fill_fields fill_unrequested [OF request(1) event(14)] event fill_unrequested(5) [OF request(1) event(14,15)]
    by (simp add: fill_fields event request codes some optionalRequest_def validRef_def validRelated_def optionalID_def sample_owner_valid)
  then have "record_fits ?a ?r d"
    using assms by (simp add: record_fits_def Let_def fill_fields event record_limit_def evidence_limits)
  from Append_fits [OF this] show ?thesis by blast
qed

lemma sample_resolve:
  "\<exists>out d'. ResolveSafeApply Done sample_draft_source sample_grant sample_safe_request sample_draft_db = (Inr out, d') \<and> \<not> rz_Pending out"
proof -
  let ?a = sample_draft_source and ?s = sample_safe_request and ?k = "(sample_admin, sample_owner, sample_request_id)"
  define new where "new = successor ?a False sample_sealed"
  have new: "e_Owner new = sample_admin" "e_Epoch new = sample_owner" "e_Sequence new = 2" "c_ID (e_Candidate new) = sample_id"
    by (simp_all add: new_def successor_def Sign_def Let_def int64_def)
  have safes: "db_safes sample_draft_db = []" "db_records sample_draft_db = []"
    by (simp_all add: sample_draft_db_def sample_requests_db_def sample_tables_def journal_db.defs requests_db.defs evidence_db.defs)
  obtain g where g: "candidateFence ?a new True sample_draft_db = Inr g" "db_records g = []" "db_resolutions g = []" "db_resolved g = []"
    using safes new by (simp add: candidateFence_def Let_def witness_of_def)
  define out where "out = no_resolution\<lparr>rz_Envelope := Some new\<rparr>"
  let ?h = "g\<lparr>db_resolutions := [?k], db_resolved := [(?k, ''sha'', out)]\<rparr>"
  obtain x f where f: "Append (later 6 ?a) (resolution_audit sample_principal None (am_now ?a 5)) ?h = Inr (x, f)"
    using sample_resolution_recorded [of ?h "am_now ?a 5"] g(2) by auto
  have owner: "cl_PrincipalID sample_principal = sample_admin" by (simp add: sample_principal_def)
  have req: "sq_Envelope ?s = sample_sealed" "dc_Epoch (sq_Command ?s) = sample_owner" "dc_RequestID (sq_Command ?s) = sample_request_id"
    by (simp_all add: sample_safe_request_def)
  have fence: "candidateFence ?a sample_sealed False sample_draft_db = Inr sample_draft_db"
    by (simp add: candidateFence_def Let_def witness_of_def)
  have settle: "settle_draft ?a sample_principal ?s ?k ''sha'' None False sample_draft_db = Inr (out, f)"
    using fence g f unfolding settle_draft_def req new_def [symmetric] Let_def
    by (simp add: insert_resolution_def MaxResolutions_def out_def no_resolution_def)
  have c: "candidateClaims ?a sample_grant ''workspace.read'' sample_draft_db = Inr sample_principal"
    using sample_candidate_claims(2) [of sample_draft_db "''workspace.read''"] by (simp add: same_defs)
  have "resolve_tx ?a sample_grant ?s sample_draft_db = Inr (out, f)"
    using c settle by (simp add: resolve_tx_def owner req sample_seal_verifies request_end_def applied_row_def safes Let_def)
  then show ?thesis
    using sample_safe_command by (auto simp: ResolveSafeApply_def store_write_def out_def no_resolution_def)
qed

theorem resolved_request_stays_out_witness:
  "\<exists>out d'. ResolveSafeApply Done sample_draft_source sample_grant sample_safe_request sample_draft_db = (Inr out, d') \<and>
     map_of (db_resolved d') (request_key sample_safe_request) = Some (''sha'', out)"
proof -
  obtain out d' where r: "ResolveSafeApply Done sample_draft_source sample_grant sample_safe_request sample_draft_db = (Inr out, d')"
    "\<not> rz_Pending out"
    using sample_resolve by blast
  have "resolutions_ok sample_draft_db" by (simp add: resolutions_ok_def)
  moreover have "e_Sequence (sq_Envelope sample_safe_request) < 2 ^ 63" by (simp add: sample_safe_request_def)
  ultimately show ?thesis
    using resolved_request_stays_out [OF r _ _ draft_runs.rest] r(1) by auto
qed

section \<open>The authority of a running apply\<close>

lemma sample_applies: "set allCapabilities \<supseteq> {''configuration.apply'', ''configuration.confirm'', ''configuration.read'', ''inventory.read'', ''ovs.interface.mtu.write''}"
  by (simp add: allCapabilities_def readCapabilities_def networkCapabilities_def)

lemma Split_absent: "c \<notin> set s \<Longrightarrow> Split c s = [s]"
  by (induction s) auto

lemma sample_field_split: "Split (CHR '','') ''ovs.interface.mtu.write'' = [''ovs.interface.mtu.write'']"
  by (rule Split_absent) simp

lemma sample_field_names:
  "apply_capabilities ''ovs.interface.mtu.write'' =
     Some [''configuration.apply'', ''configuration.confirm'', ''configuration.read'', ''inventory.read'', ''ovs.interface.mtu.write'']"
proof -
  have "''ovs.interface.mtu.write'' \<in> set executable_fields" by (simp add: executable_fields_def)
  then show ?thesis unfolding apply_capabilities_def Let_def by (simp add: sample_field_split del: Split.simps)
qed

text \<open>Tables in which the owner of the sample apply may apply, and a tick a second after the last one that asks
  them.\<close>

definition sample_owner_db :: draft_db where
  "sample_owner_db = sample_draft_db\<lparr>db_principals := [(sample_owner, \<lparr>pr_name = ''admin'', pr_disabled = False, pr_verifier = sample_verifier\<rparr>)],
     db_auth_principals := [(sample_owner, (''rev1'', sample_second))], db_principal_roles := [(sample_owner, sample_admin_role)],
     db_grants := [(sample_grant, sample_grant_row\<lparr>cr_principal := sample_owner\<rparr>)]\<rparr>"

definition sample_second_clock :: Clock where
  "sample_second_clock = sample_clock\<lparr>ck_NS := 1000 + seconds 1, ck_Wall := sample_moment + seconds 1\<rparr>"

definition sample_wired :: engine_ambient where
  "sample_wired = (sample_engine_source sample_second_clock)\<lparr>am_authority := \<lambda>n z. safeAuthority sample_draft_source z sample_owner_db\<rparr>"

lemma sample_vlan_names:
  "apply_capabilities '''' =
     Some [''configuration.apply'', ''configuration.confirm'', ''configuration.read'', ''inventory.read'', ''ovs.port.vlan.write'']"
proof -
  have "Split (CHR '','') ''ovs.port.vlan.write'' = [''ovs.port.vlan.write'']" by (rule Split_absent) simp
  moreover have "''ovs.port.vlan.write'' \<in> set executable_fields" by (simp add: executable_fields_def)
  ultimately show ?thesis unfolding apply_capabilities_def Let_def by (simp del: Split.simps)
qed

lemma sample_authority_lives: "safeAuthority sample_draft_source sample_authority sample_owner_db = Inr ()"
proof -
  have z: "az_Owner sample_authority = sample_owner" "az_Credential sample_authority = sample_owner" "az_Epoch sample_authority = sample_owner"
    "az_FieldCapabilities sample_authority = ''''"
    by (simp_all add: sample_authority_def)
  have owner: "db_auth_epoch sample_owner_db = db_auth_epoch sample_draft_db" "db_epoch sample_owner_db = db_epoch sample_draft_db"
    "db_auth_watermark sample_owner_db = db_auth_watermark sample_draft_db"
    "db_principals sample_owner_db = [(sample_owner, \<lparr>pr_name = ''admin'', pr_disabled = False, pr_verifier = sample_verifier\<rparr>)]"
    by (simp_all add: sample_owner_db_def)
  have rows: "grant_rows sample_owner sample_owner sample_owner_db = [(sample_grant_row\<lparr>cr_principal := sample_owner\<rparr>, sample_second, sample_second, True)]"
    by (simp add: grant_rows_def List.map_filter_def sample_grant_row_def sample_grant_use_def sample_owner_db_def) blast
  have caps: "capabilities sample_owner sample_owner_db = Inr (unique allCapabilities)"
    by (simp add: sample_owner_db_def allCapabilities_valid capabilities_def roles_of_def List.map_filter_def)
  have "''ovs.port.vlan.write'' \<in> set allCapabilities" by (simp add: allCapabilities_def networkCapabilities_def)
  then show ?thesis
    using sample_applies unfolding safeAuthority_def z rows
    by (simp add: owner clock_def caps sample_vlan_names Let_def sample_grant_row_def SessionIdle_def seconds_def)
qed

theorem running_apply_needs_live_authority_witness:
  "let c = Tick (\<lambda>_. Done) sample_wired sample_config sample_provider sample_tx; e = sample_engine sample_safety in
   (\<exists>row. map_of (db_safes (en_db (perform c e))) sample_tx = Some row \<and> sf_State (sr_Doc row) = ''awaiting-confirmation'' \<and>
      sf_LastWall (sr_Doc row) = sample_moment + seconds 1) \<and>
   live_authority sample_draft_source sample_authority sample_owner_db"
proof -
  let ?c = "Tick (\<lambda>_. Done) sample_wired sample_config sample_provider sample_tx" and ?e = "sample_engine sample_safety"
  have wired: "am_clock sample_wired n = sample_second_clock" "am_probe sample_wired n"
    "am_authority sample_wired = (\<lambda>n z. safeAuthority sample_draft_source z sample_owner_db)" for n
    by (simp_all add: sample_wired_def)
  have clock: "ck_Wall sample_second_clock = sample_moment + seconds 1" "\<not> Expired (NewDeadline sample_clock (seconds 120)) sample_second_clock"
    by (simp_all add: sample_second_clock_def sample_clock_def Expired_def NewDeadline_def seconds_def int64_def)
  define s where "s = healthy sample_wired sample_config sample_second_clock sample_safety"
  have s: "sf_State s = ''awaiting-confirmation''" "sf_LastWall s = sample_moment + seconds 1"
    by (simp_all add: s_def healthy_def clock)
  have load: "load sample_tx (sample_journal sample_safety) = Inr (sample_exec sample_tx)" by (simp add: load_def select_row_def)
  have open_window: "\<not> window_expired sample_second_clock (sample_exec sample_tx) sample_safety"
    using clock(2) by (simp add: window_expired_def clock(1) seconds_def)
  have stable: "sf_ProbeFailures sample_safety = 0" by (simp add: sample_safety_def zero_safety_def)
  have step: "safety_step_db (\<lambda>_. Done) sample_wired sample_config sample_provider sample_tx (sample_journal sample_safety) =
      (Inr (), set_safety sample_tx s (sample_journal sample_safety), [])"
    using load open_window stable
    by (simp add: safety_step_db_def Let_def Terminal_safety_def sample_observed Read_execution_def watch_committed_def wired
        sample_authority_lives store_write_def refresh_tx_def s_def)
  then have db: "en_db (perform ?c ?e) = set_safety sample_tx s (sample_journal sample_safety)"
    by (simp add: safetyStep_def claim_def release_def)
  let ?row = "(sample_row sample_safety)\<lparr>sr_Doc := s\<rparr>"
  have row: "map_of (db_safes (en_db (perform ?c ?e))) sample_tx = Some ?row"
    unfolding db by (simp add: set_safety_def map_of_update_row)
  have new: "map_of (db_safes (en_db ?e)) sample_tx \<noteq> Some ?row"
  proof
    assume "map_of (db_safes (en_db ?e)) sample_tx = Some ?row"
    then have "sample_row sample_safety = ?row" by simp
    then have "sr_Doc (sample_row sample_safety) = sr_Doc ?row" by (rule arg_cong)
    then have "sf_LastWall sample_safety = sf_LastWall s" by simp
    then show False by (simp add: s(2) seconds_def)
  qed
  have able: "possible ?c ?e" by simp
  have asks: "authority ?c = (\<lambda>n z. safeAuthority sample_draft_source z sample_owner_db)" by (simp add: wired)
  have forward: "\<not> going_back (sf_State (sr_Doc ?row))" by (simp add: s going_back_def compensating_def)
  have exec: "map_of (db_execs (en_db (perform ?c ?e))) sample_tx = Some (sample_exec sample_tx)" unfolding db by simp
  from running_apply_needs_live_authority [OF sample_wf able asks row new forward] exec
  have "live_authority sample_draft_source sample_authority sample_owner_db" by auto
  then show ?thesis using row s by (auto simp: Let_def)
qed

section \<open>A cleared draft\<close>

lemma sample_draft_passes_gates: "Passed (fst (Checks h sample_ops (sample_draft 9000) sample_mtu_snapshot))"
proof -
  have "problem_of sample_ops (sample_mtu_draft 9000) sample_mtu_snapshot = ''''"
    using sample_mtu_clean by (simp add: problem_of_component)
  moreover have "Passed (intent_checks sample_ops sample_mtu_snapshot (sample_mtu_draft 9000))"
    by (simp add: intent_checks_def mtuChecks_def at_or_def sample_mtu_snapshot_def sample_object_def sample_mtu_row_def)
      (simp add: op_class_defs mtuChecks_def at_or_def sample_mtu_snapshot_def sample_object_def sample_mtu_row_def)
  ultimately show ?thesis by (simp add: Checks_def Let_def Compare_checks)
qed

lemma sample_draft_needs: "Capabilities (sample_draft 9000) = [''ovs.interface.mtu.write'']"
  by (simp add: Capabilities_def needed_caps_def capability_def) (simp add: op_class_defs)

text \<open>The stored draft of the sample database is cleared for its owner's request: what admission and dispatch ask
  for can be had.\<close>

lemma sample_draft_cleared:
  "\<exists>z. ExecutionAuthorizer sample_draft_source sample_grant
     \<lparr>xr_ID = sample_request_id, xr_ValidationID = sample_owner, xr_Envelope = sample_sealed\<rparr> False sample_draft_db = Inr z"
proof -
  let ?a = sample_draft_source
  have c: "candidateClaims ?a sample_grant ''config.apply'' sample_draft_db = Inr sample_principal"
    using sample_candidate_claims(2) [of sample_draft_db "''config.apply''"] by (simp add: same_defs)
  have owner: "cl_PrincipalID sample_principal = sample_admin" "cl_CredentialID sample_principal = sample_owner"
    "cl_Epoch sample_principal = sample_owner" "cl_RequestEpoch sample_principal = sample_owner" "cl_Revision sample_principal = sample_owner"
    by (simp_all add: sample_principal_def)
  have load: "load_validation sample_owner sample_admin sample_draft_db = Inr (sample_validation, sample_sealed)"
    by (simp add: load_validation_def sample_stored_def)
  have usable: "validation_usable ?a sample_principal sample_validation = Inr ()"
    by (simp add: validation_usable_def sample_validation_def owner caps_digest_def ValidFor_def seconds_def Let_def)
  have witness: "witness_exact ?a sample_admin sample_sealed sample_draft_db = Inr ()" by (simp add: witness_exact_Inr)
  have pre: "preflight ?a (sample_draft 9000) (vr_ProviderPolicy sample_validation) = Inr ()"
    by (simp add: preflight_def candidateSnapshot_def sample_draft_passes_gates)
      (simp add: sample_validation_def sample_mtu_snapshot_def sample_snapshot_def)
  have caps: "intentCapabilities (cl_Capabilities sample_principal) (sample_draft 9000)"
    by (simp add: intentCapabilities_def sample_draft_needs sample_holds)
  show ?thesis
    by (simp add: ExecutionAuthorizer_def c owner sample_seal_verifies caps load usable witness pre)
qed

end
