(* ===== verification/Spec2Isabelle.thy ===== *)
theory Spec2Isabelle
  imports Candidate_Compensation Engine_Lifecycle Draft_Samples
begin

text \<open>
  Verification of the manager core of OVS WebUI: the planning of configuration candidates, the durable,
  compensable execution of a validated candidate by the manager daemon, and the access rules that decide
  who may do what.

  \<^bold>\<open>The program.\<close> A browser edits a \<^emph>\<open>candidate\<close>, a sealed list of intents against a snapshot of an Open
  vSwitch database. The package \<^verbatim>\<open>internal/candidate\<close> stages, compares, rebases and validates it. The
  manager then \<^emph>\<open>executes\<close> it: \<^verbatim>\<open>internal/repository/executions\<close> admits the execution in one database
  transaction (receipt, job, audit, identities, protected resources, safe-apply checkpoint), writes a
  dispatch intent before the provider sends anything, records what it observes, and never sends twice.
  A \<^emph>\<open>safe apply\<close> opens a confirmation window; without a confirmation the watchdog compensates. Receipts
  (\<^verbatim>\<open>internal/repository/requests\<close>) make commands idempotent; jobs, events and audit
  (\<^verbatim>\<open>internal/repository/evidence\<close>) are append-only evidence. Before any of this the manager
  resolves the credential of the caller to the claims it has at that moment
  (\<^verbatim>\<open>internal/repository/auth\<close>): principals, roles, login grants and API tokens, with security commands
  that run through the same receipts, jobs and audit.

  \<^bold>\<open>Theories and sources\<close> (paths under \<^verbatim>\<open>src/internal\<close>).
  \<^item> \<open>Prelude\<close>: lists, options, decimal text, 8-bit and 64-bit words, shared by all.
  \<^item> \<open>Api_Types\<close>: \<^verbatim>\<open>apitypes/types.go\<close>, \<^verbatim>\<open>repository/types.go\<close> (identifiers, problems).
  \<^item> \<open>Spanning_Tree\<close>, \<open>Multicast\<close>: \<^verbatim>\<open>spanningtree\<close>, \<^verbatim>\<open>multicast/config.go\<close>.
  \<^item> \<open>Candidate_Types\<close> .. \<open>Candidate_Compensation\<close>: \<^verbatim>\<open>candidate\<close>: data model, Port fields, single-row
    components, graph components, planner (\<^verbatim>\<open>Prepare\<close>, \<^verbatim>\<open>Compare\<close>, \<^verbatim>\<open>Checks\<close>), after-images and compensation.
  \<^item> \<open>Store\<close>: \<^verbatim>\<open>repository/sqlite/store.go\<close> (\<^verbatim>\<open>Read\<close>, \<^verbatim>\<open>Write\<close>, \<^verbatim>\<open>failure\<close>): tables, writer transactions and their fate.
  \<^item> \<open>Evidence\<close>: \<^verbatim>\<open>repository/evidence/{types,write}.go\<close>. \<open>Requests\<close>: \<^verbatim>\<open>repository/requests/requests.go\<close>.
  \<^item> \<open>Journal\<close>: \<^verbatim>\<open>execution/types.go\<close>, \<^verbatim>\<open>safety/types.go\<close>, \<^verbatim>\<open>repository/inventory/creation.go\<close>,
    \<^verbatim>\<open>repository/executions/{bridge_delete,evidence}.go\<close>: the records, the tables, reservations, protections.
  \<^item> \<open>Executions\<close>: \<^verbatim>\<open>repository/executions/engine.go\<close>. \<open>Safe_Apply\<close>: \<^verbatim>\<open>repository/executions/safety.go\<close>.
  \<^item> \<open>Engine_Writes\<close>, \<open>Engine_Journal\<close>, \<open>Engine_Transactions\<close>, \<open>Engine_Handlers\<close>, \<open>Engine_Runs\<close>: proofs. What each
    write touches; the invariant of the journal and the order in which it grows; each writer
    transaction as one admission or one change; each handler as a sequence of changes; runs.
  \<^item> \<open>Engine_Samples\<close>, \<open>Engine_Ticks\<close>: a concrete journal, and single calls evaluated in general and on it.
  \<^item> \<open>Engine_Lifecycle\<close>: the abstract lifecycle of a transaction, the simulation, the properties of runs.

  \<^item> \<open>Credentials\<close>: \<^verbatim>\<open>authn/secrets.go\<close>, \<^verbatim>\<open>repository/auth/password.go\<close>. \<open>Access_Policy\<close>: \<^verbatim>\<open>repository/auth/policy.go\<close>
    and the reading half of \<^verbatim>\<open>auth.go\<close>. \<open>Access\<close>: the writing half of \<^verbatim>\<open>auth.go\<close>, \<^verbatim>\<open>commands.go\<close>,
    \<^verbatim>\<open>mirror_role.go\<close> and its siblings.
  \<^item> \<open>Access_Safety\<close>, \<open>Access_Runs\<close>: proofs. What each access operation may change, and the runs of access steps
    labelled with the capabilities their actors exercised.
  \<^item> \<open>Access_Guarantees\<close>, \<open>Access_Limits\<close>, \<open>Access_Login\<close>: the properties of access. \<open>Access_Samples\<close>: a concrete
    database on which they are instantiated.
  \<^item> \<open>Drafts\<close>: \<^verbatim>\<open>repository/auth/candidate.go\<close>. \<open>Draft_Admission\<close>: \<^verbatim>\<open>repository/auth/{execution,safety}.go\<close> and the
    cancellation of a job in \<^verbatim>\<open>evidence.go\<close>. \<open>Draft_Runs\<close>: what each call on a draft does and keeps.
    \<open>Draft_Guarantees\<close>: runs of these calls and the properties of drafts. \<open>Draft_Samples\<close>: a concrete draft.

  \<^bold>\<open>State and steps.\<close> The tables are the record \<open>journal_db\<close>, which extends the tables of the requests and
  the evidence; rows are association lists in insertion order. The engine in memory (\<open>engine\<close>) is the
  tables, the claimed transactions, the asynchronous workers and the log of what a provider was permitted
  to send. A call is a function of the engine and of its \<open>ambient\<close>: the clock, the random source, the
  document sizes, the digest and HMAC functions, the current authority and the probe. The provider
  (\<^verbatim>\<open>execution.Provider\<close>) is a record of its answers, and a \<open>fate\<close> is chosen for every write: done,
  refused with any error, or durable with the acknowledgement lost. \<open>engine_step\<close> interleaves submissions,
  workers, recovery, watchdog ticks, decisions and restarts in any order, each with any ambient, provider
  and fates. The access tables extend the journal (\<open>access_db\<close>); \<open>access_step\<close> interleaves bootstrap, attempts,
  logins, reauthentications, logouts, security commands and offline role switches, and anything that
  leaves the access tables alone. A call that checks a password between two transactions takes the
  effect of what runs meanwhile as the argument \<open>others\<close>. \<open>draft_runs\<close> interleaves the calls on drafts with
  anything that leaves the tables of drafts alone. The engine asks for the authority of a draft several
  times in one call; ambient and tables at the \<open>n\<close>th time are the arguments \<open>v n\<close> and \<open>t n\<close>.

  \<^bold>\<open>What is shown.\<close> Candidates: every command keeps a candidate well formed and never replaces a captured
  original; a rebase is exact; validation passes exactly when every gate does; an applied change can be
  compensated. Engine: at most one dispatch in each direction; every step is a path of the lifecycle;
  confirmation needs evidence; an expired apply is compensated when the provider and the store answer;
  settled transactions are final; protections are exclusive; deadlines are never extended; the journal
  stays in its bounds, so recovery never exceeds its budget; errors of a safe submission leave no trace;
  decisive recovery settles everything it may touch. Requests: at most once, with exact canonical
  numbers. Evidence: append-only, bounded, terminal jobs are final. Access: no credential ever gains more
  than its ceiling and what others held and passed on; revocation and the sign-out of a user are final; an
  administrator remains; logins and elevations need the password that is current at the commit; security
  commands need a fresh elevated grant; guessing is limited; the right password logs in. Drafts:
  the fence never goes back, in every run, for sequences of 64 bits; a validation is usable exactly when it was earned; nothing is admitted to the journal or
  sent for a draft that is not cleared at that moment; a resolved request is never sent; a running apply
  needs a live authority; no call on a draft changes access. Three theorems
  record flaws: a rollback request whose preparation failed once is forgotten by the next healthy tick; a
  correct login is lost when the second changes while its grant is dated; a password reset ignores the
  capability ceiling of the actor.

  The interfaces are locales: \<open>sealed_component\<close> (what every kind of intent owes the planner),
  \<open>store_order\<close> (orders the tables only climb, interpreted for evidence, journal, access and drafts) and \<open>receipt_keeper\<close> (what a mutation must keep of the
  receipts), each interpreted on the definitions of the model.

  \<^bold>\<open>Idealisations.\<close> A JSON document is the record it encodes; its byte length, which the code bounds, is a
  function of the ambient. A digest that is only compared is the document itself; the fingerprint,
  sealing and marker functions are functions of the ambient or of the host; so are Argon2id, SHA-256 of a secret and the bytes
  drawn for secrets and salts. A stored capability list is the decoded list or \<open>None\<close> for a blob that is
  none; what the generated contract makes of a URI and a body is an argument. Text is a list of characters
  and Go's string operations on it are the bytewise ones. Times are nanoseconds as integers; deadlines on
  the monotonic clock wrap at 64 bits. A handler that holds the claim of its transaction is one step:
  other handlers of the same transaction are excluded by the claim, handlers of other transactions touch
  other rows, and a crash inside a handler is the step in which the later writes are refused, followed by
  a restart. A decision that waits for the claim is the decision called when it gets it. Commit of a
  provider asks for permission at most once. Reads succeed; the failing read of the code ends its call as
  an error does.

  \<^bold>\<open>Bounds.\<close> 32 intents and 40 KiB per candidate, 1024 executions, 16 unsettled, 32 open applies per tick,
  100000 jobs, events and receipts, 500000 audit records with 128 reserved: the constants of the code.
  No function of the model uses fuel; recursions are structural or over the listed rows.

  \<^bold>\<open>Not modelled.\<close> The HTTP edge and generated types; browser sessions, certificates, TLS control and the
  encryption envelopes, which are calls into the cryptography library around SQL rows; of the access
  package the read endpoints, the TLS commands and the restore; the OVSDB and Linux providers behind \<open>provider\<close>; the inventory projection; the topology, mirror
  and tunnel planners, which are the parameter record \<open>topology_ops\<close> of the planner; the readers and the
  retention of the evidence; database files and migrations; inter-process transport; the browser code.
\<close>

end
